(* ===== verification/Prelude.thy ===== *)
theory Prelude
  imports Main "HOL-Library.State_Monad" "HOL-Library.Sublist"
begin

text \<open>
  Shared vocabulary of the development.

  \<^item> \<open>('e, 'a) result\<close>: a Go function that returns a value and an error. \<open>Inl e\<close> is the
    return with a non-nil error, \<open>Inr a\<close> the return with a nil error.
  \<^item> \<open>foldE\<close>: a Go \<open>for range\<close> loop whose body may return early with an error.
  \<^item> \<open>keyed_scan\<close>: the contract of a validation loop that keeps the keys it has seen.
  \<^item> \<open>call\<close>, \<open>wp\<close>: programs that call external services. A service is an arbitrary
    function of the calls made so far and of the present call, so no behaviour of the
    outside world is excluded; the calls made are recorded, newest first.
\<close>

section \<open>Hint collections\<close>

named_theorems wp_rules \<open>weakest preconditions of the program combinators\<close>
named_theorems calls_rules \<open>programs that make only calls of a given kind\<close>
named_theorems go_string \<open>characteristic equations of the string functions\<close>

section \<open>Results\<close>

type_synonym ('e, 'a) result = "'e + 'a"

fun foldE :: "('a \<Rightarrow> 's \<Rightarrow> 'e + 's) \<Rightarrow> 'a list \<Rightarrow> 's \<Rightarrow> 'e + 's" where
  "foldE f [] s = Inr s"
| "foldE f (x # xs) s = (case f x s of Inl e \<Rightarrow> Inl e | Inr s' \<Rightarrow> foldE f xs s')"

lemma foldE_append:
  "foldE f (xs @ ys) s = (case foldE f xs s of Inl e \<Rightarrow> Inl e | Inr s' \<Rightarrow> foldE f ys s')"
  by (induction xs arbitrary: s) (auto split: sum.splits)

lemma foldE_total: "(\<And>x s. f x s = Inr (g x s)) \<Longrightarrow> foldE f xs s = Inr (fold g xs s)"
  by (induction xs arbitrary: s) auto

lemma foldE_cong_on:
  "(\<And>x s. x \<in> set xs \<Longrightarrow> f x s = g x s) \<Longrightarrow> foldE f xs s = foldE g xs s"
  by (induction xs arbitrary: s) (auto split: sum.splits)

lemma foldE_invariant:
  assumes "\<And>x s s'. x \<in> set xs \<Longrightarrow> I s \<Longrightarrow> f x s = Inr s' \<Longrightarrow> I s'"
    and "I s" and "foldE f xs s = Inr s'"
  shows "I s'"
  using assms
proof (induction xs arbitrary: s)
  case Nil
  then show ?case by simp
next
  case (Cons x xs)
  from Cons.prems(3) obtain s1 where "f x s = Inr s1" and "foldE f xs s1 = Inr s'"
    by (auto split: sum.splits)
  with Cons show ?case by (metis list.set_intros(1) list.set_intros(2))
qed

text \<open>The first error of the loop is the error of its first failing element.\<close>

lemma foldE_error_elem:
  "foldE f xs s = Inl e \<Longrightarrow> \<exists>ys x zs s'. xs = ys @ x # zs \<and> foldE f ys s = Inr s' \<and> f x s' = Inl e"
proof (induction xs arbitrary: s)
  case Nil
  then show ?case by simp
next
  case (Cons x xs)
  show ?case
  proof (cases "f x s")
    case (Inl e')
    with Cons.prems show ?thesis by (intro exI [of _ "[]"]) auto
  next
    case (Inr s1)
    with Cons obtain ys y zs s' where "xs = ys @ y # zs" "foldE f ys s1 = Inr s'" "f y s' = Inl e"
      by (auto, blast)
    with Inr show ?thesis
      by (intro exI [of _ "x # ys"] exI [of _ y] exI [of _ zs] exI [of _ s']) simp
  qed
qed

section \<open>Loops that reject a repeated key\<close>

text \<open>
  Several validation loops keep a Go map of the keys they have met, return an error on a
  repeated key or on an element that fails a local check, and otherwise add the key.
\<close>

locale keyed_scan =
  fixes step :: "'a \<Rightarrow> 'k set \<Rightarrow> 'e + 'k set"
    and key :: "'a \<Rightarrow> 'k"
    and ok :: "'a \<Rightarrow> bool"
  assumes step_accepts:
    "step x seen = Inr seen' \<longleftrightarrow> key x \<notin> seen \<and> ok x \<and> seen' = insert (key x) seen"
begin

lemma scan_accepts:
  "foldE step xs seen = Inr seen' \<longleftrightarrow>
     distinct (map key xs) \<and> key ` set xs \<inter> seen = {} \<and> (\<forall>x \<in> set xs. ok x)
     \<and> seen' = seen \<union> key ` set xs"
proof (induction xs arbitrary: seen)
  case Nil
  then show ?case by auto
next
  case (Cons x xs)
  show ?case
  proof (cases "step x seen")
    case (Inl e)
    then have "\<not> (key x \<notin> seen \<and> ok x)"
      using step_accepts [of x seen "insert (key x) seen"] by simp
    with Inl show ?thesis by auto
  next
    case (Inr s1)
    then have s1: "key x \<notin> seen" "ok x" "s1 = insert (key x) seen"
      using step_accepts [of x seen s1] by auto
    have "foldE step (x # xs) seen = foldE step xs s1" using Inr by simp
    with Cons.IH [of s1] s1 show ?thesis by auto
  qed
qed

lemma scan_ok_iff:
  "(\<exists>seen'. foldE step xs {} = Inr seen') \<longleftrightarrow> distinct (map key xs) \<and> (\<forall>x \<in> set xs. ok x)"
  using scan_accepts [of xs "{}"] by auto

end

section \<open>Programs that call external services\<close>

type_synonym ('c, 'r) env = "'c list \<Rightarrow> 'c \<Rightarrow> 'r"
type_synonym ('c, 'a) prog = "('c list, 'a) state"

abbreviation ret :: "'a \<Rightarrow> ('s, 'a) state" where
  "ret \<equiv> State_Monad.return"

definition call :: "('c, 'r) env \<Rightarrow> 'c \<Rightarrow> ('c, 'r) prog" where
  "call env c = State (\<lambda>log. (env log c, c # log))"

definition wp :: "('s, 'a) state \<Rightarrow> ('a \<Rightarrow> 's \<Rightarrow> bool) \<Rightarrow> 's \<Rightarrow> bool" where
  "wp m Q s = (case run_state m s of (a, s') \<Rightarrow> Q a s')"

lemma run_state_call [simp]: "run_state (call env c) log = (env log c, c # log)"
  by (simp add: call_def)

lemma wp_return [wp_rules]: "wp (ret x) Q s = Q x s"
  by (simp add: wp_def)

lemma wp_return_fun [wp_rules]: "wp (ret x) Q = Q x"
  by (rule ext) (simp add: wp_def)

lemma wp_bind [wp_rules]: "wp (State_Monad.bind m f) Q s = wp m (\<lambda>a. wp (f a) Q) s"
  by (simp add: wp_def split: prod.splits)

lemma wp_bind_fun: "wp (State_Monad.bind m f) Q = wp m (\<lambda>a. wp (f a) Q)"
  by (rule ext) (rule wp_bind)

lemma wp_call [wp_rules]: "wp (call env c) Q log = Q (env log c) (c # log)"
  by (simp add: wp_def)

lemma wp_if [wp_rules]: "wp (if b then m else n) Q s = (if b then wp m Q s else wp n Q s)"
  by simp

lemma wp_case_sum [wp_rules]:
  "wp (case r of Inl e \<Rightarrow> m e | Inr a \<Rightarrow> n a) Q s =
   (case r of Inl e \<Rightarrow> wp (m e) Q s | Inr a \<Rightarrow> wp (n a) Q s)"
  by (simp split: sum.splits)

lemma wp_case_option [wp_rules]:
  "wp (case r of None \<Rightarrow> m | Some a \<Rightarrow> n a) Q s =
   (case r of None \<Rightarrow> wp m Q s | Some a \<Rightarrow> wp (n a) Q s)"
  by (simp split: option.splits)

lemma wp_case_prod [wp_rules]:
  "wp (case r of (a, b) \<Rightarrow> m a b) Q s = (case r of (a, b) \<Rightarrow> wp (m a b) Q s)"
  by (simp split: prod.splits)

lemma wp_let [wp_rules]: "wp (let x = t in m x) Q s = wp (m t) Q s"
  by simp

lemma wp_mono: "wp m Q s \<Longrightarrow> (\<And>a s'. Q a s' \<Longrightarrow> R a s') \<Longrightarrow> wp m R s"
  by (auto simp: wp_def split: prod.splits)

lemma wp_conj: "wp m Q s \<Longrightarrow> wp m R s \<Longrightarrow> wp m (\<lambda>a s'. Q a s' \<and> R a s') s"
  by (auto simp: wp_def split: prod.splits)

lemma wp_triv: "wp m (\<lambda>_ _. True) s"
  by (simp add: wp_def split: prod.splits)

lemma wp_run: "run_state m s = (a, s') \<Longrightarrow> wp m Q s \<Longrightarrow> Q a s'"
  by (simp add: wp_def)

lemma wp_bind_run: "run_state m s = (a, s') \<Longrightarrow> wp (State_Monad.bind m f) Q s = wp (f a) Q s'"
  by (simp add: wp_def)

lemma wpI: "(\<And>a s'. run_state m s = (a, s') \<Longrightarrow> Q a s') \<Longrightarrow> wp m Q s"
  by (simp add: wp_def split: prod.splits)

lemma wp_any: "(\<And>x s'. wp (f x) Q s') \<Longrightarrow> wp (State_Monad.bind m f) Q s"
  unfolding wp_bind by (rule wpI)

lemma wp_seq: "wp m P s \<Longrightarrow> (\<And>a s'. P a s' \<Longrightarrow> wp (f a) Q s') \<Longrightarrow> wp (State_Monad.bind m f) Q s"
  unfolding wp_bind by (rule wp_mono)

section \<open>Which calls a program makes\<close>

text \<open>\<open>calls_only P m\<close>: whatever the answers are, \<open>m\<close> only makes calls that satisfy \<open>P\<close>.\<close>

definition calls_only :: "('c \<Rightarrow> bool) \<Rightarrow> ('c, 'a) prog \<Rightarrow> bool" where
  "calls_only P m \<longleftrightarrow> (\<forall>log. wp m (\<lambda>_ log'. \<exists>new. log' = new @ log \<and> list_all P new) log)"

lemma calls_only_ret [calls_rules]: "calls_only P (ret x)"
  by (simp add: calls_only_def wp_rules)

lemma calls_only_call [calls_rules]: "P c \<Longrightarrow> calls_only P (call env c)"
  by (auto simp: calls_only_def wp_rules intro: exI [of _ "[c]"])

lemma calls_only_bind_post:
  assumes m: "calls_only P m" and r: "\<And>log. wp m (\<lambda>a _. R a) log" and f: "\<And>a. R a \<Longrightarrow> calls_only P (f a)"
  shows "calls_only P (State_Monad.bind m f)"
  unfolding calls_only_def wp_bind
proof
  fix log
  show "wp m (\<lambda>a. wp (f a) (\<lambda>_ log'. \<exists>new. log' = new @ log \<and> list_all P new)) log"
  proof (rule wp_mono [OF wp_conj [OF m [unfolded calls_only_def, rule_format] r]])
    fix a log1
    assume "(\<exists>new. log1 = new @ log \<and> list_all P new) \<and> R a"
    then obtain new where new: "log1 = new @ log" "list_all P new" and "R a" by blast
    show "wp (f a) (\<lambda>_ log'. \<exists>new. log' = new @ log \<and> list_all P new) log1"
    proof (rule wp_mono [OF f [OF \<open>R a\<close>, unfolded calls_only_def, rule_format]])
      fix b log2
      assume "\<exists>new'. log2 = new' @ log1 \<and> list_all P new'"
      then obtain new' where "log2 = new' @ log1" "list_all P new'" by blast
      with new show "\<exists>new. log2 = new @ log \<and> list_all P new"
        by (intro exI [of _ "new' @ new"]) simp
    qed
  qed
qed

lemma calls_only_bind [calls_rules]:
  "calls_only P m \<Longrightarrow> (\<And>a. calls_only P (f a)) \<Longrightarrow> calls_only P (State_Monad.bind m f)"
  by (rule calls_only_bind_post [where R = "\<lambda>_. True"]) (simp_all add: wp_def)

lemma calls_only_if [calls_rules]:
  "(b \<Longrightarrow> calls_only P m) \<Longrightarrow> (\<not> b \<Longrightarrow> calls_only P n) \<Longrightarrow> calls_only P (if b then m else n)"
  by simp

lemma calls_only_sum [calls_rules]:
  "(\<And>e. r = Inl e \<Longrightarrow> calls_only P (m e)) \<Longrightarrow> (\<And>a. r = Inr a \<Longrightarrow> calls_only P (n a)) \<Longrightarrow>
   calls_only P (case r of Inl e \<Rightarrow> m e | Inr a \<Rightarrow> n a)"
  by (simp split: sum.splits)

lemma calls_only_option [calls_rules]:
  "(r = None \<Longrightarrow> calls_only P m) \<Longrightarrow> (\<And>a. r = Some a \<Longrightarrow> calls_only P (n a)) \<Longrightarrow>
   calls_only P (case r of None \<Rightarrow> m | Some a \<Rightarrow> n a)"
  by (simp split: option.splits)

lemma calls_only_prod [calls_rules]:
  "(\<And>a b. r = (a, b) \<Longrightarrow> calls_only P (m a b)) \<Longrightarrow> calls_only P (case r of (a, b) \<Rightarrow> m a b)"
  by (simp split: prod.splits)

lemma calls_only_let [calls_rules]: "calls_only P (m t) \<Longrightarrow> calls_only P (let x = t in m x)"
  by simp

lemma calls_only_mono: "calls_only P m \<Longrightarrow> (\<And>c. P c \<Longrightarrow> Q c) \<Longrightarrow> calls_only Q m"
  unfolding calls_only_def
  by (blast intro: wp_mono list.pred_mono_strong)

lemma calls_onlyD:
  assumes "calls_only P m"
  shows "wp m (\<lambda>_ log'. \<exists>new. log' = new @ log \<and> list_all P new) log"
  using assms by (simp add: calls_only_def)

section \<open>Programs that may fail\<close>

text \<open>Go's \<open>if err != nil { return err }\<close>.\<close>

definition bindE :: "('c, ('e, 'a) result) prog \<Rightarrow> ('a \<Rightarrow> ('c, ('e, 'b) result) prog) \<Rightarrow> ('c, ('e, 'b) result) prog" where
  "bindE m f = do { r \<leftarrow> m; case r of Inl e \<Rightarrow> ret (Inl e) | Inr a \<Rightarrow> f a }"

definition orFail :: "('c, 'e option) prog \<Rightarrow> ('c, ('e, unit) result) prog" where
  "orFail m = do { e \<leftarrow> m; ret (case e of Some x \<Rightarrow> Inl x | None \<Rightarrow> Inr ()) }"

lemma wp_bindE: "wp (bindE m f) Q log = wp m (\<lambda>r log'. case r of Inl e \<Rightarrow> Q (Inl e) log' | Inr a \<Rightarrow> wp (f a) Q log') log"
proof -
  have "(\<lambda>r. wp (case r of Inl e \<Rightarrow> ret (Inl e) | Inr a \<Rightarrow> f a) Q) =
      (\<lambda>r log'. case r of Inl e \<Rightarrow> Q (Inl e) log' | Inr a \<Rightarrow> wp (f a) Q log')"
    by (rule ext, rule ext) (simp add: wp_rules split: sum.splits)
  then show ?thesis by (simp only: bindE_def wp_bind)
qed

lemma bindE_wp:
  assumes m: "wp m P log"
    and e: "\<And>e log'. P (Inl e) log' \<Longrightarrow> Q (Inl e) log'"
    and f: "\<And>a log'. P (Inr a) log' \<Longrightarrow> wp (f a) Q log'"
  shows "wp (bindE m f) Q log"
  unfolding wp_bindE by (rule wp_mono [OF m]) (auto intro: e f split: sum.splits)

lemma bindE_assoc: "bindE (bindE m f) g = bindE m (\<lambda>a. bindE (f a) g)"
  unfolding bindE_def State_Monad.bind_assoc
  by (rule arg_cong [where f = "State_Monad.bind m"], rule ext) (simp split: sum.splits)

lemma calls_only_bindE [calls_rules]:
  "calls_only P m \<Longrightarrow> (\<And>a. calls_only P (f a)) \<Longrightarrow> calls_only P (bindE m f)"
  by (auto simp: bindE_def intro!: calls_rules)

lemma calls_only_orFail [calls_rules]: "calls_only P m \<Longrightarrow> calls_only P (orFail m)"
  by (auto simp: orFail_def intro!: calls_rules)

section \<open>Programs inside programs\<close>

text \<open>A component with calls of its own, run by another component whose calls include them; the world of the
  inner component may depend on the calls made before.\<close>

definition nested :: "('c \<Rightarrow> 'd) \<Rightarrow> ('d list \<Rightarrow> ('c, 'a) prog) \<Rightarrow> ('d, 'a) prog" where
  "nested wrap m = State (\<lambda>log. case run_state (m log) [] of (a, new) \<Rightarrow> (a, map wrap new @ log))"

lemma wp_nested [wp_rules]: "wp (nested wrap m) Q log = wp (m log) (\<lambda>a new. Q a (map wrap new @ log)) []"
  by (simp add: wp_def nested_def split: prod.splits)

lemma calls_only_nested [calls_rules]:
  assumes "\<And>log. calls_only P (m log)" "\<And>c. P c \<Longrightarrow> Q (wrap c)"
  shows "calls_only Q (nested wrap m)"
  unfolding calls_only_def wp_nested
proof
  fix log
  show "wp (m log) (\<lambda>_ new. \<exists>outer. map wrap new @ log = outer @ log \<and> list_all Q outer) []"
    by (rule wp_mono [OF calls_onlyD [OF assms(1)]]) (auto simp: list_all_iff assms(2))
qed

lemma calls_only_nested_any: "(\<And>c. Q (wrap c)) \<Longrightarrow> calls_only Q (nested wrap m)"
  unfolding calls_only_def wp_nested by (auto intro!: wpI simp: list_all_iff)

section \<open>State read off the calls\<close>

text \<open>A monitor computes a state from the calls made, newest first; programs that make only calls it
  ignores keep its state.\<close>

locale call_monitor =
  fixes step :: "'c \<Rightarrow> 's \<Rightarrow> 's" and ignored :: "'c \<Rightarrow> bool"
  assumes ignored_step: "ignored c \<Longrightarrow> step c s = s"
begin

lemma foldr_ignored: "list_all ignored new \<Longrightarrow> foldr step (new @ log) i = foldr step log i"
  by (induction new) (simp_all add: ignored_step)

lemma kept: "calls_only ignored m \<Longrightarrow> wp m (\<lambda>_ log'. foldr step log' i = foldr step log i) log"
  by (rule wp_mono [OF calls_onlyD]) (auto simp: foldr_ignored simp del: foldr_append)

end

text \<open>A monitor that also sees the calls before, and so the answer to the present one.\<close>

primrec readLog :: "('c list \<Rightarrow> 'c \<Rightarrow> 's \<Rightarrow> 's) \<Rightarrow> 's \<Rightarrow> 'c list \<Rightarrow> 's" where
  "readLog step i [] = i"
| "readLog step i (c # log) = step log c (readLog step i log)"

locale log_monitor =
  fixes step :: "'c list \<Rightarrow> 'c \<Rightarrow> 's \<Rightarrow> 's" and ignored :: "'c \<Rightarrow> bool"
  assumes ignored_step: "ignored c \<Longrightarrow> step log c s = s"
begin

lemma readLog_ignored: "list_all ignored new \<Longrightarrow> readLog step i (new @ log) = readLog step i log"
  by (induction new) (simp_all add: ignored_step)

lemma kept: "calls_only ignored m \<Longrightarrow> wp m (\<lambda>_ log'. readLog step i log' = readLog step i log) log"
  by (rule wp_mono [OF calls_onlyD]) (auto simp: readLog_ignored)

end

sublocale call_monitor \<subseteq> logs: log_monitor "\<lambda>_. step" ignored
  by unfold_locales (rule ignored_step)

section \<open>Calls that need others before them\<close>

text \<open>\<open>guarded Q P log\<close>: whenever a call that satisfies \<open>P\<close> was made, the calls before it satisfied \<open>Q\<close>.\<close>

primrec guarded :: "('c list \<Rightarrow> bool) \<Rightarrow> ('c \<Rightarrow> bool) \<Rightarrow> 'c list \<Rightarrow> bool" where
  "guarded Q P [] \<longleftrightarrow> True"
| "guarded Q P (c # log) \<longleftrightarrow> guarded Q P log \<and> (P c \<longrightarrow> Q log)"

lemma guarded_append_free: "list_all (\<lambda>c. \<not> P c) new \<Longrightarrow> guarded Q P (new @ log) = guarded Q P log"
  by (induction new) simp_all

lemma guarded_free:
  "calls_only (\<lambda>c. \<not> P c) m \<Longrightarrow> guarded Q P log \<Longrightarrow> wp m (\<lambda>_. guarded Q P) log"
  by (rule wp_mono [OF calls_onlyD]) (auto simp: guarded_append_free)

locale precedence =
  fixes Q :: "'c list \<Rightarrow> bool"
  assumes stable: "Q log \<Longrightarrow> Q (c # log)"
begin

lemma stable_append: "Q log \<Longrightarrow> Q (new @ log)"
  by (induction new) (simp_all add: stable)

lemma guarded_append: "Q log \<Longrightarrow> guarded Q P log \<Longrightarrow> guarded Q P (new @ log)"
  by (induction new) (simp_all add: stable_append)

lemma stays: "calls_only (\<lambda>_. True) m \<Longrightarrow> Q log \<Longrightarrow> guarded Q P log \<Longrightarrow> wp m (\<lambda>_ log'. Q log' \<and> guarded Q P log') log"
  by (rule wp_mono [OF calls_onlyD]) (auto simp: guarded_append stable_append)

end

end
