(* ===== verification/GoStrings.thy ===== *)
theory GoStrings
  imports Prelude "HOL-Library.List_Lexorder" "HOL-Library.Char_ord"
begin

text \<open>
  The functions of Go's \<open>strings\<close>, \<open>strconv\<close>, \<open>fmt\<close> and \<open>path/filepath\<close> packages that the
  modelled code calls. A Go string is a byte sequence and is modelled as a \<open>string\<close> (a list
  of 8-bit characters); separators, prefixes and cut sets in the code are ASCII, so working
  bytewise agrees with Go's rune iteration. Case mapping and white space are those of ASCII;
  the \<open>%q\<close> verb leaves bytes from 0x80 on as they are, which is its result for printable
  non-ASCII text. Order on strings is the bytewise lexicographic order of the library.
\<close>

section \<open>Characters\<close>

abbreviation chNL :: char where "chNL \<equiv> CHR 0x0A"
abbreviation chQuote :: char where "chQuote \<equiv> CHR 0x22"
abbreviation chBackslash :: char where "chBackslash \<equiv> CHR 0x5C"
abbreviation chSpace :: char where "chSpace \<equiv> CHR 0x20"
abbreviation chSlash :: char where "chSlash \<equiv> CHR 0x2F"

definition codeOf :: "char \<Rightarrow> nat" where
  "codeOf c = of_char c"

definition isDigit :: "char \<Rightarrow> bool" where
  "isDigit c \<longleftrightarrow> 48 \<le> codeOf c \<and> codeOf c \<le> 57"

definition isWordChar :: "char \<Rightarrow> bool" where
  "isWordChar c \<longleftrightarrow> isDigit c \<or> (65 \<le> codeOf c \<and> codeOf c \<le> 90) \<or> (97 \<le> codeOf c \<and> codeOf c \<le> 122)
     \<or> codeOf c = 95"

definition isSpace :: "char \<Rightarrow> bool" where
  "isSpace c \<longleftrightarrow> codeOf c = 32 \<or> (9 \<le> codeOf c \<and> codeOf c \<le> 13)"

definition upperChar :: "char \<Rightarrow> char" where
  "upperChar c = (if 97 \<le> codeOf c \<and> codeOf c \<le> 122 then char_of (codeOf c - 32) else c)"

definition lowerChar :: "char \<Rightarrow> char" where
  "lowerChar c = (if 65 \<le> codeOf c \<and> codeOf c \<le> 90 then char_of (codeOf c + 32) else c)"

definition toUpper :: "string \<Rightarrow> string" where "toUpper = map upperChar"
definition toLower :: "string \<Rightarrow> string" where "toLower = map lowerChar"

section \<open>Prefixes, suffixes, substrings\<close>

definition hasPrefix :: "string \<Rightarrow> string \<Rightarrow> bool" where
  "hasPrefix s p \<longleftrightarrow> take (length p) s = p"

definition hasSuffix :: "string \<Rightarrow> string \<Rightarrow> bool" where
  "hasSuffix s p \<longleftrightarrow> drop (length s - length p) s = p"

fun contains :: "string \<Rightarrow> string \<Rightarrow> bool" where
  "contains [] sub = (sub = [])"
| "contains (c # cs) sub = (hasPrefix (c # cs) sub \<or> contains cs sub)"

definition trimPrefix :: "string \<Rightarrow> string \<Rightarrow> string" where
  "trimPrefix s p = (if hasPrefix s p then drop (length p) s else s)"

definition trimSuffix :: "string \<Rightarrow> string \<Rightarrow> string" where
  "trimSuffix s p = (if hasSuffix s p then take (length s - length p) s else s)"

definition trimLeftBy :: "(char \<Rightarrow> bool) \<Rightarrow> string \<Rightarrow> string" where
  "trimLeftBy P s = dropWhile P s"

definition trimBy :: "(char \<Rightarrow> bool) \<Rightarrow> string \<Rightarrow> string" where
  "trimBy P s = rev (dropWhile P (rev (dropWhile P s)))"

definition trim :: "string \<Rightarrow> string \<Rightarrow> string" where
  "trim s cutset = trimBy (\<lambda>c. c \<in> set cutset) s"

definition trimSpace :: "string \<Rightarrow> string" where
  "trimSpace s = trimBy isSpace s"

lemma hasPrefix_iff [go_string]: "hasPrefix s p \<longleftrightarrow> (\<exists>r. s = p @ r)"
  by (metis append_eq_conv_conj append_take_drop_id hasPrefix_def)

lemma hasPrefix_append [simp]: "hasPrefix (p @ r) p"
  by (simp add: hasPrefix_def)

lemma hasPrefix_Nil [simp]: "hasPrefix s []"
  by (simp add: hasPrefix_def)

lemma hasPrefix_Cons [simp]: "hasPrefix (c # s) (d # p) \<longleftrightarrow> c = d \<and> hasPrefix s p"
  by (simp add: hasPrefix_def)

lemma hasPrefix_Nil_left [simp]: "hasPrefix [] p \<longleftrightarrow> p = []"
  by (auto simp: hasPrefix_def)

lemma hasSuffix_iff [go_string]: "hasSuffix s p \<longleftrightarrow> (\<exists>r. s = r @ p)"
proof
  assume "hasSuffix s p"
  then have "s = take (length s - length p) s @ p"
    by (metis append_take_drop_id hasSuffix_def)
  then show "\<exists>r. s = r @ p" ..
next
  assume "\<exists>r. s = r @ p"
  then show "hasSuffix s p" by (auto simp: hasSuffix_def)
qed

lemma contains_iff [go_string]: "contains s sub \<longleftrightarrow> sublist sub s"
proof (induction s)
  case Nil
  then show ?case by simp
next
  case (Cons c cs)
  have "sublist sub (c # cs) \<longleftrightarrow> prefix sub (c # cs) \<or> sublist sub cs"
    by (rule sublist_Cons_right)
  with Cons show ?case
    by (auto simp: hasPrefix_iff prefix_def simp del: hasPrefix_Cons)
qed

lemma contains_self [simp]: "contains (a @ s @ b) s"
  by (auto simp: contains_iff sublist_def)

lemma contains_Nil_sub [simp]: "contains s []"
  by (simp add: contains_iff)

lemma contains_length: "contains s sub \<Longrightarrow> length sub \<le> length s"
  by (simp add: contains_iff sublist_length_le)

lemma trimSuffix_append [simp]: "trimSuffix (s @ p) p = s"
  by (simp add: trimSuffix_def hasSuffix_def)

lemma trimPrefix_append [simp]: "trimPrefix (p @ s) p = s"
  by (simp add: trimPrefix_def)

lemma trimSuffix_not: "\<not> hasSuffix s p \<Longrightarrow> trimSuffix s p = s"
  by (simp add: trimSuffix_def)

section \<open>Splitting and joining\<close>

fun splitOn :: "char \<Rightarrow> string \<Rightarrow> string list" where
  "splitOn c [] = [[]]"
| "splitOn c (x # xs) =
     (if x = c then [] # splitOn c xs
      else (case splitOn c xs of [] \<Rightarrow> [[x]] | y # ys \<Rightarrow> (x # y) # ys))"

text \<open>\<open>splitN2 c s\<close> is \<open>strings.SplitN(s, c, 2)\<close>.\<close>

definition splitN2 :: "char \<Rightarrow> string \<Rightarrow> string list" where
  "splitN2 c s = (if c \<in> set s then [takeWhile (\<lambda>x. x \<noteq> c) s, tl (dropWhile (\<lambda>x. x \<noteq> c) s)] else [s])"

fun joinWith :: "string \<Rightarrow> string list \<Rightarrow> string" where
  "joinWith sep [] = []"
| "joinWith sep [x] = x"
| "joinWith sep (x # y # ys) = x @ sep @ joinWith sep (y # ys)"

lemma splitOn_not_Nil [simp]: "splitOn c s \<noteq> []"
  by (induction s) (auto split: list.splits)

lemma splitOn_no_sep: "p \<in> set (splitOn c s) \<Longrightarrow> c \<notin> set p"
  by (induction s arbitrary: p) (auto split: if_splits list.splits)

lemma joinWith_Cons: "ys \<noteq> [] \<Longrightarrow> joinWith sep (x # ys) = x @ sep @ joinWith sep ys"
  by (cases ys) auto

lemma joinWith_Cons_Cons: "joinWith sep ((a # x) # ys) = a # joinWith sep (x # ys)"
  by (cases ys) auto

lemma joinWith_splitOn [simp]: "joinWith [c] (splitOn c s) = s"
proof (induction s)
  case Nil
  then show ?case by simp
next
  case (Cons x xs)
  obtain y ys where "splitOn c xs = y # ys" by (metis splitOn_not_Nil list.exhaust)
  with Cons show ?case by (auto simp: joinWith_Cons joinWith_Cons_Cons)
qed

lemma splitOn_append_sep: "c \<notin> set a \<Longrightarrow> splitOn c (a @ c # b) = a # splitOn c b"
  by (induction a) auto

lemma splitOn_single: "c \<notin> set a \<Longrightarrow> splitOn c a = [a]"
  by (induction a) auto

lemma splitOn_joinWith:
  assumes "xs \<noteq> []" and "\<forall>x \<in> set xs. c \<notin> set x"
  shows "splitOn c (joinWith [c] xs) = xs"
  using assms
proof (induction xs)
  case Nil
  then show ?case by simp
next
  case (Cons x xs)
  then show ?case
    by (cases "xs = []") (simp_all add: splitOn_single joinWith_Cons splitOn_append_sep)
qed

lemma length_splitOn: "length (splitOn c s) = Suc (count_list s c)"
  by (induction s) (auto split: list.splits)

lemma splitN2_length: "length (splitN2 c s) = (if c \<in> set s then 2 else 1)"
  by (simp add: splitN2_def)

lemma splitN2_append: "c \<notin> set a \<Longrightarrow> splitN2 c (a @ c # b) = [a, b]"
proof -
  assume a: "c \<notin> set a"
  then have "takeWhile (\<lambda>x. x \<noteq> c) (a @ c # b) = a" "dropWhile (\<lambda>x. x \<noteq> c) (a @ c # b) = c # b"
    by (induction a) auto
  then show ?thesis by (simp add: splitN2_def)
qed

text \<open>\<open>strings.Fields\<close>: the maximal runs of non-space characters.\<close>

fun goFieldsAux :: "string \<Rightarrow> string \<Rightarrow> string list" where
  "goFieldsAux acc [] = (if acc = [] then [] else [rev acc])"
| "goFieldsAux acc (c # cs) =
     (if isSpace c then (if acc = [] then goFieldsAux [] cs else rev acc # goFieldsAux [] cs)
      else goFieldsAux (c # acc) cs)"

definition goFields :: "string \<Rightarrow> string list" where
  "goFields s = goFieldsAux [] s"

section \<open>Replacement\<close>

function replaceAll :: "string \<Rightarrow> string \<Rightarrow> string \<Rightarrow> string" where
  "replaceAll [] old new = []"
| "replaceAll (c # cs) old new =
     (if old \<noteq> [] \<and> hasPrefix (c # cs) old
      then new @ replaceAll (drop (length old) (c # cs)) old new
      else c # replaceAll cs old new)"
  by pat_completeness auto
termination
  by (relation "measure (\<lambda>(s, old, new). length s)") auto

lemma replaceAll_id: "\<not> contains s old \<Longrightarrow> replaceAll s old new = s"
  by (induction s old new rule: replaceAll.induct) auto

lemma replaceAll_Nil_old [simp]: "replaceAll s [] new = s"
  by (induction s) auto

lemma replaceAll_char:
  "replaceAll s [c] new = concat (map (\<lambda>x. if x = c then new else [x]) s)"
  by (induction s) auto

text \<open>Deleting occurrences never lengthens a string, and shortens one that has some.\<close>

lemma replaceAll_delete_length:
  "old \<noteq> [] \<Longrightarrow> length new < length old \<Longrightarrow> length (replaceAll s old new) \<le> length s"
proof (induction s old new rule: replaceAll.induct)
  case (1 old new)
  then show ?case by simp
next
  case (2 c cs old new)
  show ?case
  proof (cases "hasPrefix (c # cs) old")
    case True
    then obtain r where r: "c # cs = old @ r" by (auto simp: hasPrefix_iff)
    then have "drop (length old) (c # cs) = r" by simp
    with 2 True have "length (replaceAll r old new) \<le> length r" by auto
    moreover have "length (c # cs) = length old + length r"
      by (simp only: r length_append)
    ultimately show ?thesis using 2 True \<open>drop (length old) (c # cs) = r\<close> by simp
  next
    case False
    with 2 show ?thesis by simp
  qed
qed

section \<open>Numbers\<close>

definition digitChar :: "nat \<Rightarrow> char" where
  "digitChar d = char_of (48 + d)"

fun natStr :: "nat \<Rightarrow> string" where
  "natStr n = (if n < 10 then [digitChar n] else natStr (n div 10) @ [digitChar (n mod 10)])"

declare natStr.simps [simp del]

definition intStr :: "int \<Rightarrow> string" where
  "intStr i = (if i < 0 then CHR ''-'' # natStr (nat (- i)) else natStr (nat i))"

fun digitsVal :: "nat \<Rightarrow> string \<Rightarrow> nat option" where
  "digitsVal acc [] = Some acc"
| "digitsVal acc (c # cs) = (if isDigit c then digitsVal (10 * acc + (codeOf c - 48)) cs else None)"

definition parseNat :: "string \<Rightarrow> nat option" where
  "parseNat s = (if s = [] then None else digitsVal 0 s)"

definition int64Max :: int where "int64Max = 9223372036854775807"
definition int64Min :: int where "int64Min = - 9223372036854775808"

definition inInt64 :: "int \<Rightarrow> bool" where
  "inInt64 i \<longleftrightarrow> int64Min \<le> i \<and> i \<le> int64Max"

text \<open>\<open>strconv.ParseInt(s, 10, 64)\<close> and, on 64-bit platforms, \<open>strconv.Atoi\<close>.\<close>

definition parseInt64 :: "string \<Rightarrow> int option" where
  "parseInt64 s =
     (let (neg, ds) = (case s of
          [] \<Rightarrow> (False, s)
        | c # r \<Rightarrow> (if c = CHR ''-'' then (True, r) else if c = CHR ''+'' then (False, r) else (False, s)))
      in case parseNat ds of
           None \<Rightarrow> None
         | Some n \<Rightarrow> (let i = (if neg then - int n else int n) in if inInt64 i then Some i else None))"

lemma codeOf_digitChar: "d < 10 \<Longrightarrow> codeOf (digitChar d) = 48 + d"
  by (simp add: codeOf_def digitChar_def)

lemma isDigit_digitChar [simp]: "d < 10 \<Longrightarrow> isDigit (digitChar d)"
  by (simp add: isDigit_def codeOf_digitChar)

lemma natStr_not_Nil [simp]: "natStr n \<noteq> []"
  by (subst natStr.simps) simp

lemma natStr_digits: "\<forall>c \<in> set (natStr n). isDigit c"
proof (induction n rule: natStr.induct)
  case (1 n)
  show ?case
  proof (cases "n < 10")
    case True
    then show ?thesis by (subst natStr.simps) simp
  next
    case False
    with 1 show ?thesis by (subst natStr.simps) auto
  qed
qed

lemma digitsVal_append:
  "digitsVal acc (xs @ ys) = (case digitsVal acc xs of None \<Rightarrow> None | Some a \<Rightarrow> digitsVal a ys)"
  by (induction xs arbitrary: acc) auto

lemma digitsVal_natStr: "digitsVal 0 (natStr n) = Some n"
proof (induction n rule: natStr.induct)
  case (1 n)
  show ?case
  proof (cases "n < 10")
    case True
    then show ?thesis by (subst natStr.simps) (simp add: codeOf_digitChar)
  next
    case False
    with 1 show ?thesis
      by (subst natStr.simps) (simp add: digitsVal_append codeOf_digitChar)
  qed
qed

lemma digit_not_sign: "isDigit c \<Longrightarrow> c \<noteq> CHR ''-'' \<and> c \<noteq> CHR ''+''"
  by (auto simp: isDigit_def codeOf_def)

lemma parseNat_natStr [simp]: "parseNat (natStr n) = Some n"
  by (simp add: parseNat_def digitsVal_natStr)

lemma parseInt64_intStr: "inInt64 i \<Longrightarrow> parseInt64 (intStr i) = Some i"
proof (cases "i < 0")
  case True
  assume "inInt64 i"
  with True show ?thesis by (simp add: parseInt64_def intStr_def)
next
  case False
  assume i: "inInt64 i"
  obtain c r where cr: "natStr (nat i) = c # r" by (metis natStr_not_Nil list.exhaust)
  then have "isDigit c" using natStr_digits [of "nat i"] by auto
  with digit_not_sign have "c \<noteq> CHR ''-''" "c \<noteq> CHR ''+''" by auto
  moreover have "parseNat (c # r) = Some (nat i)" using cr parseNat_natStr [of "nat i"] by simp
  ultimately show ?thesis using i False cr by (simp add: parseInt64_def intStr_def)
qed

lemma parseInt64_range: "parseInt64 s = Some i \<Longrightarrow> inInt64 i"
  by (auto simp: parseInt64_def Let_def split: option.splits if_splits prod.splits)

section \<open>Quoting\<close>

definition hexDigit :: "nat \<Rightarrow> char" where
  "hexDigit d = (if d < 10 then char_of (48 + d) else char_of (87 + d))"

definition quoteChar :: "char \<Rightarrow> string" where
  "quoteChar c =
     (if c = chQuote \<or> c = chBackslash then [chBackslash, c]
      else let n = codeOf c in
        if n = 7 then [chBackslash, CHR ''a''] else if n = 8 then [chBackslash, CHR ''b'']
        else if n = 9 then [chBackslash, CHR ''t''] else if n = 10 then [chBackslash, CHR ''n'']
        else if n = 11 then [chBackslash, CHR ''v''] else if n = 12 then [chBackslash, CHR ''f'']
        else if n = 13 then [chBackslash, CHR ''r'']
        else if n < 32 \<or> n = 127 then [chBackslash, CHR ''x'', hexDigit (n div 16), hexDigit (n mod 16)]
        else [c])"

definition quote :: "string \<Rightarrow> string" where
  "quote s = chQuote # concat (map quoteChar s) @ [chQuote]"

section \<open>File paths\<close>

text \<open>\<open>filepath.Clean\<close>, \<open>Base\<close> and \<open>Dir\<close> on Unix.\<close>

fun cleanComps :: "bool \<Rightarrow> string list \<Rightarrow> string list \<Rightarrow> string list" where
  "cleanComps rooted out [] = rev out"
| "cleanComps rooted out (x # xs) =
     (if x = [] \<or> x = ''.'' then cleanComps rooted out xs
      else if x = ''..'' then
        (case out of
           [] \<Rightarrow> if rooted then cleanComps rooted [] xs else cleanComps rooted [x] xs
         | y # ys \<Rightarrow> if y = ''..'' then cleanComps rooted (x # out) xs else cleanComps rooted ys xs)
      else cleanComps rooted (x # out) xs)"

definition pathClean :: "string \<Rightarrow> string" where
  "pathClean p =
     (let rooted = hasPrefix p ''/'';
          body = joinWith ''/'' (cleanComps rooted [] (splitOn chSlash p))
      in if rooted then chSlash # body else if body = [] then ''.'' else body)"

definition pathBase :: "string \<Rightarrow> string" where
  "pathBase p =
     (if p = [] then ''.''
      else let q = rev (dropWhile (\<lambda>c. c = chSlash) (rev p))
           in if q = [] then ''/'' else last (splitOn chSlash q))"

definition pathDir :: "string \<Rightarrow> string" where
  "pathDir p = pathClean (rev (dropWhile (\<lambda>c. c \<noteq> chSlash) (rev p)))"

section \<open>Regular expressions\<close>

text \<open>The leftmost position at which a pattern matches; \<open>f\<close> matches it at the start of a string.\<close>

fun findMatch :: "(string \<Rightarrow> 'a option) \<Rightarrow> string \<Rightarrow> 'a option" where
  "findMatch f [] = f []"
| "findMatch f (c # s) = (case f (c # s) of Some x \<Rightarrow> Some x | None \<Rightarrow> findMatch f s)"

end
