(* ===== verification/QueryOrder.thy ===== *)
theory QueryOrder
  imports GoStrings "HOL-Library.Multiset" "HOL-Library.AList"
begin

text \<open>
  \<open>QueryExecutionOrder\<close> of \<open>internal/hanainsights/preprocessor/preprocessor.go\<close>: the queries
  of a rule are put into an order in which every query comes after the queries it depends
  on, by Kahn's algorithm over string-keyed maps.

  A Go map is an association list with distinct keys. Go leaves the order of iteration over
  a map unspecified, so each loop over a map takes a reordering function as a parameter; the
  theorems hold for every reordering that keeps the entries. A missing key reads as the zero
  value (\<open>countOf\<close>), and indexing the query map with an unknown name gives a nil pointer,
  the value \<open>None\<close>.
\<close>

section \<open>Data and operations\<close>

record query =
  q_name :: string
  q_sql :: string
  q_columns :: "string list"
  q_deps :: "string list"

type_synonym graph = "(string \<times> string list) list"
type_synonym edge_count = "(string \<times> int) list"

datatype order_error = CyclicDependency

definition addDep :: "string \<Rightarrow> string \<Rightarrow> graph \<Rightarrow> graph" where
  "addDep name d g =
     (case map_of g d of
        Some vs \<Rightarrow> AList.update d (vs @ [name]) g
      | None \<Rightarrow> AList.update d [name] g)"

definition addQuery :: "query \<Rightarrow> graph \<Rightarrow> graph" where
  "addQuery q g =
     (let g1 = (case map_of g (q_name q) of None \<Rightarrow> AList.update (q_name q) [] g | Some _ \<Rightarrow> g)
      in fold (addDep (q_name q)) (q_deps q) g1)"

definition prepareGraph :: "query list \<Rightarrow> graph" where
  "prepareGraph queries = fold addQuery queries []"

definition countOf :: "edge_count \<Rightarrow> string \<Rightarrow> int" where
  "countOf ec v = (case map_of ec v of None \<Rightarrow> 0 | Some n \<Rightarrow> n)"

definition addEdges :: "string \<times> string list \<Rightarrow> edge_count \<Rightarrow> edge_count" where
  "addEdges = (\<lambda>(u, edges) ec.
     let ec1 = (case map_of ec u of None \<Rightarrow> AList.update u 0 ec | Some _ \<Rightarrow> ec)
     in fold (\<lambda>v ec. AList.update v (countOf ec v + 1) ec) edges ec1)"

definition prepareEdgeCount :: "(graph \<Rightarrow> graph) \<Rightarrow> graph \<Rightarrow> edge_count" where
  "prepareEdgeCount orderG qg = fold addEdges (orderG qg) []"

definition prepareQueryNameToQuery :: "query list \<Rightarrow> (string \<rightharpoonup> query)" where
  "prepareQueryNameToQuery queries = fold (\<lambda>q m. m(q_name q \<mapsto> q)) queries Map.empty"

text \<open>The body of the inner loop: one edge out of the removed node.\<close>

definition relax :: "string \<Rightarrow> string list \<times> edge_count \<Rightarrow> string list \<times> edge_count" where
  "relax v = (\<lambda>(zero, ec).
     let c = countOf ec v - 1
     in (if c = 0 then zero @ [v] else zero, AList.update v c ec))"

definition successors :: "graph \<Rightarrow> string \<Rightarrow> string list" where
  "successors qg u = (case map_of qg u of None \<Rightarrow> [] | Some vs \<Rightarrow> vs)"

definition positives :: "edge_count \<Rightarrow> string set" where
  "positives ec = {v. 0 < countOf ec v}"

lemma countOf_update: "countOf (AList.update v c ec) w = (if w = v then c else countOf ec w)"
  by (simp add: countOf_def update_conv')

lemma finite_positives [simp]: "finite (positives ec)"
proof (rule finite_subset)
  show "positives ec \<subseteq> fst ` set ec"
    by (force simp: positives_def countOf_def dest: map_of_SomeD split: option.splits)
qed simp

lemma relax_measure:
  "relax v (zero, ec) = (zero', ec') \<Longrightarrow>
   length zero' + card (positives ec') \<le> length zero + card (positives ec)"
proof -
  assume r: "relax v (zero, ec) = (zero', ec')"
  let ?c = "countOf ec v - 1"
  have ec': "ec' = AList.update v ?c ec" and z: "zero' = (if ?c = 0 then zero @ [v] else zero)"
    using r by (auto simp: relax_def Let_def)
  show ?thesis
  proof (cases "?c = 0")
    case True
    then have "positives ec' = positives ec - {v}" and "v \<in> positives ec"
      by (auto simp: positives_def ec' countOf_update)
    then have "Suc (card (positives ec')) = card (positives ec)"
      by (metis card_Suc_Diff1 finite_positives)
    with True z show ?thesis by simp
  next
    case False
    then have "positives ec' \<subseteq> positives ec"
      by (auto simp: positives_def ec' countOf_update split: if_splits)
    then have "card (positives ec') \<le> card (positives ec)"
      by (simp add: card_mono)
    with False z show ?thesis by simp
  qed
qed

lemma relaxAll_measure:
  "fold relax vs (zero, ec) = (zero', ec') \<Longrightarrow>
   length zero' + card (positives ec') \<le> length zero + card (positives ec)"
proof (induction vs arbitrary: zero ec)
  case Nil
  then show ?case by simp
next
  case (Cons v vs)
  obtain z1 e1 where s1: "relax v (zero, ec) = (z1, e1)" by force
  with Cons.prems have "fold relax vs (z1, e1) = (zero', ec')" by simp
  from Cons.IH [OF this] relax_measure [OF s1] show ?case by simp
qed

text \<open>The outer loop. It returns the queries in the order of removal and the number of
  removed nodes.\<close>

function kahnLoop ::
  "graph \<Rightarrow> (string \<rightharpoonup> query) \<Rightarrow> string list \<Rightarrow> edge_count \<Rightarrow> query option list \<Rightarrow> nat
   \<Rightarrow> query option list \<times> nat" where
  "kahnLoop qg byName [] ec res visited = (res, visited)"
| "kahnLoop qg byName (node # zero) ec res visited =
     (let (zero', ec') = fold relax (successors qg node) (zero, ec)
      in kahnLoop qg byName zero' ec' (res @ [byName node]) (Suc visited))"
  by pat_completeness auto
termination
proof (relation "measure (\<lambda>(qg, byName, zero, ec, res, visited). length zero + card (positives ec))",
       goal_cases)
  case 1
  show ?case by simp
next
  case (2 qg byName node zero ec res visited x zero' ec')
  then have "length zero' + card (positives ec') \<le> length zero + card (positives ec)"
    by (metis relaxAll_measure)
  then show ?case by simp
qed

definition QueryExecutionOrder ::
  "(graph \<Rightarrow> graph) \<Rightarrow> (edge_count \<Rightarrow> edge_count) \<Rightarrow> query list
   \<Rightarrow> (order_error, query option list) result" where
  "QueryExecutionOrder orderG orderE queries =
     (let qg = prepareGraph queries;
          edgeCount = prepareEdgeCount orderG qg;
          byName = prepareQueryNameToQuery queries;
          zero = map fst (filter (\<lambda>(node, edges). edges = 0) (orderE edgeCount));
          (res, visited) = kahnLoop qg byName zero edgeCount [] 0
      in if visited \<noteq> length queries then Inl CyclicDependency else Inr res)"

section \<open>The specification\<close>

text \<open>An order is executable when the dependencies of each query are names of queries before it.\<close>

fun executable_after :: "string set \<Rightarrow> query list \<Rightarrow> bool" where
  "executable_after done [] = True"
| "executable_after done (q # qs) =
     (set (q_deps q) \<subseteq> done \<and> executable_after (insert (q_name q) done) qs)"

abbreviation executable_order :: "query list \<Rightarrow> bool" where
  "executable_order \<equiv> executable_after {}"

definition deps_known :: "query list \<Rightarrow> bool" where
  "deps_known queries \<longleftrightarrow> (\<forall>q \<in> set queries. set (q_deps q) \<subseteq> q_name ` set queries)"

definition reorders :: "('a list \<Rightarrow> 'a list) \<Rightarrow> bool" where
  "reorders f \<longleftrightarrow> (\<forall>xs. mset (f xs) = mset xs)"

lemma executable_after_append:
  "executable_after D (xs @ ys) \<longleftrightarrow> executable_after D xs \<and> executable_after (D \<union> q_name ` set xs) ys"
  by (induction xs arbitrary: D) auto

section \<open>The graph\<close>

lemma successors_update:
  "successors (AList.update d vs g) u = (if u = d then vs else successors g u)"
  by (simp add: successors_def update_conv')

lemma successors_addDep: "successors (addDep n d g) u = successors g u @ (if u = d then [n] else [])"
  by (auto simp: addDep_def successors_update split: option.splits) (auto simp: successors_def)

lemma keys_addDep: "fst ` set (addDep n d g) = insert d (fst ` set g)"
  by (auto simp: addDep_def dom_update split: option.splits)

lemma distinct_addDep: "distinct (map fst g) \<Longrightarrow> distinct (map fst (addDep n d g))"
  by (simp add: addDep_def distinct_update split: option.splits)

lemma count_addDeps:
  "count_list (successors (fold (addDep n) ds g) u) v =
   count_list (successors g u) v + (if n = v then count_list ds u else 0)"
  by (induction ds arbitrary: g) (auto simp: successors_addDep)

lemma keys_addDeps: "fst ` set (fold (addDep n) ds g) = set ds \<union> fst ` set g"
  by (induction ds arbitrary: g) (auto simp: keys_addDep)

lemma distinct_addDeps: "distinct (map fst g) \<Longrightarrow> distinct (map fst (fold (addDep n) ds g))"
  by (induction ds arbitrary: g) (auto simp: distinct_addDep)

lemma count_addQuery:
  "count_list (successors (addQuery q g) u) v =
   count_list (successors g u) v + (if q_name q = v then count_list (q_deps q) u else 0)"
  by (auto simp: addQuery_def count_addDeps successors_update Let_def split: option.splits)
     (auto simp: successors_def)

lemma keys_addQuery: "fst ` set (addQuery q g) = insert (q_name q) (set (q_deps q) \<union> fst ` set g)"
  by (auto simp: addQuery_def keys_addDeps dom_update Let_def split: option.splits)
     (force dest: map_of_SomeD)+

lemma distinct_addQuery: "distinct (map fst g) \<Longrightarrow> distinct (map fst (addQuery q g))"
  by (auto simp: addQuery_def distinct_addDeps distinct_update Let_def split: option.splits)

lemma count_addQueries:
  "count_list (successors (fold addQuery qs g) u) v =
   count_list (successors g u) v + (\<Sum>q\<leftarrow>qs. if q_name q = v then count_list (q_deps q) u else 0)"
  by (induction qs arbitrary: g) (auto simp: count_addQuery)

lemma keys_addQueries:
  "fst ` set (fold addQuery qs g) = q_name ` set qs \<union> (\<Union>q\<in>set qs. set (q_deps q)) \<union> fst ` set g"
  by (induction qs arbitrary: g) (auto simp: keys_addQuery)

lemma distinct_prepareGraph: "distinct (map fst (prepareGraph qs))"
proof -
  have "distinct (map fst g) \<Longrightarrow> distinct (map fst (fold addQuery qs g))" for g
    by (induction qs arbitrary: g) (auto simp: distinct_addQuery)
  then show ?thesis by (simp add: prepareGraph_def)
qed

lemma keys_prepareGraph: "deps_known qs \<Longrightarrow> fst ` set (prepareGraph qs) = q_name ` set qs"
  by (auto simp: prepareGraph_def keys_addQueries deps_known_def)

lemma sum_list_at_name:
  assumes "distinct (map q_name qs)" and "q \<in> set qs"
  shows "(\<Sum>p\<leftarrow>qs. if q_name p = q_name q then f p else (0::nat)) = f q"
  using assms
proof (induction qs)
  case Nil
  then show ?case by simp
next
  case (Cons p qs)
  have other: "(\<Sum>p\<leftarrow>qs. if q_name p = q_name q then f p else 0) = 0" if "q_name q \<notin> q_name ` set qs"
    using that by (induction qs) auto
  show ?case
  proof (cases "p = q")
    case True
    with Cons.prems other show ?thesis by simp
  next
    case False
    with Cons.prems have "q \<in> set qs" and "q_name p \<noteq> q_name q" by auto
    with Cons show ?thesis by simp
  qed
qed

lemma count_prepareGraph:
  "count_list (successors (prepareGraph qs) u) v =
   (\<Sum>q\<leftarrow>qs. if q_name q = v then count_list (q_deps q) u else 0)"
  by (simp add: prepareGraph_def count_addQueries) (simp add: successors_def)

lemma count_successors:
  assumes "distinct (map q_name qs)" and "q \<in> set qs"
  shows "count_list (successors (prepareGraph qs) u) (q_name q) = count_list (q_deps q) u"
  using sum_list_at_name [OF assms, of "\<lambda>p. count_list (q_deps p) u"]
  by (simp add: count_prepareGraph)

section \<open>The edge counts\<close>

lemma countOf_bump:
  "countOf (fold (\<lambda>v ec. AList.update v (countOf ec v + 1) ec) vs ec) w =
   countOf ec w + int (count_list vs w)"
  by (induction vs arbitrary: ec) (auto simp: countOf_update)

lemma countOf_addEdges: "countOf (addEdges (u, es) ec) w = countOf ec w + int (count_list es w)"
  by (auto simp: addEdges_def countOf_bump countOf_update Let_def split: option.splits)
     (simp add: countOf_def)

lemma keys_bump:
  "fst ` set (fold (\<lambda>v ec. AList.update v (countOf ec v + 1) ec) vs ec) = set vs \<union> fst ` set ec"
  by (induction vs arbitrary: ec) (auto simp: dom_update)

lemma keys_addEdges: "fst ` set (addEdges (u, es) ec) = insert u (set es \<union> fst ` set ec)"
  by (auto simp: addEdges_def keys_bump dom_update Let_def split: option.splits)
     (force dest: map_of_SomeD)

lemma distinct_addEdges: "distinct (map fst ec) \<Longrightarrow> distinct (map fst (addEdges e ec))"
proof -
  have bump: "distinct (map fst ec) \<Longrightarrow>
    distinct (map fst (fold (\<lambda>v ec. AList.update v (countOf ec v + 1) ec) vs ec))" for vs ec
    by (induction vs arbitrary: ec) (auto simp: distinct_update)
  assume "distinct (map fst ec)"
  then show ?thesis
    by (auto simp: addEdges_def bump distinct_update Let_def split: prod.splits option.splits)
qed

lemma countOf_prepare:
  "countOf (fold addEdges es ec) w = countOf ec w + (\<Sum>e\<leftarrow>es. int (count_list (snd e) w))"
  by (induction es arbitrary: ec) (auto simp: countOf_addEdges)

lemma keys_prepare:
  "fst ` set (fold addEdges es ec) = fst ` set es \<union> (\<Union>e\<in>set es. set (snd e)) \<union> fst ` set ec"
proof (induction es arbitrary: ec)
  case Nil
  then show ?case by simp
next
  case (Cons e es)
  obtain u vs where "e = (u, vs)" by force
  with Cons show ?case by (simp add: keys_addEdges) blast
qed

lemma distinct_prepareEdgeCount: "distinct (map fst (prepareEdgeCount f g))"
proof -
  have "distinct (map fst ec) \<Longrightarrow> distinct (map fst (fold addEdges es ec))" for es ec
    by (induction es arbitrary: ec) (auto simp: distinct_addEdges)
  then show ?thesis by (simp add: prepareEdgeCount_def)
qed

lemma reorders_set: "reorders f \<Longrightarrow> set (f xs) = set xs"
  by (metis reorders_def set_mset_mset)

lemma reorders_sum:
  assumes "reorders f"
  shows "(\<Sum>x\<leftarrow>f xs. (h x :: int)) = (\<Sum>x\<leftarrow>xs. h x)"
proof -
  have m: "mset (map h (f xs)) = mset (map h xs)"
    using assms by (simp add: reorders_def)
  from arg_cong [OF m, of sum_mset] show ?thesis by (simp only: sum_mset_sum_list)
qed

lemma entries_sum:
  assumes "distinct (map fst g)"
  shows "(\<Sum>e\<leftarrow>g. int (count_list (snd e) v)) = (\<Sum>u\<in>fst ` set g. int (count_list (successors g u) v))"
  using assms
proof (induction g)
  case Nil
  then show ?case by simp
next
  case (Cons e g)
  obtain u vs where e: "e = (u, vs)" by force
  have "(\<Sum>u\<in>fst ` set g. int (count_list (successors (e # g) u) v)) =
        (\<Sum>u\<in>fst ` set g. int (count_list (successors g u) v))"
    using Cons.prems e by (intro sum.cong) (auto simp: successors_def)
  with Cons e show ?case by (auto simp: successors_def)
qed

lemma initial_count:
  assumes "distinct (map q_name qs)" and "deps_known qs" and "reorders f" and "q \<in> set qs"
  shows "countOf (prepareEdgeCount f (prepareGraph qs)) (q_name q) = int (length (q_deps q))"
proof -
  let ?g = "prepareGraph qs"
  have "countOf (prepareEdgeCount f ?g) (q_name q) = (\<Sum>e\<leftarrow>?g. int (count_list (snd e) (q_name q)))"
    using assms(3) by (simp add: prepareEdgeCount_def countOf_prepare reorders_sum) (simp add: countOf_def)
  also have "\<dots> = (\<Sum>u\<in>q_name ` set qs. int (count_list (q_deps q) u))"
    using assms by (simp add: entries_sum distinct_prepareGraph keys_prepareGraph count_successors)
  also have "\<dots> = int (\<Sum>u\<in>q_name ` set qs. count_list (q_deps q) u)"
    by simp
  also have "(\<Sum>u\<in>q_name ` set qs. count_list (q_deps q) u) = length (q_deps q)"
    using assms(2,4) by (intro sum_count_set) (auto simp: deps_known_def)
  finally show ?thesis .
qed

lemma successors_range: "v \<in> set (successors (prepareGraph qs) u) \<Longrightarrow> v \<in> q_name ` set qs"
proof -
  assume "v \<in> set (successors (prepareGraph qs) u)"
  then have "count_list (successors (prepareGraph qs) u) v \<noteq> 0"
    by (simp add: count_list_0_iff)
  then have "(\<Sum>q\<leftarrow>qs. if q_name q = v then count_list (q_deps q) u else 0) \<noteq> 0"
    by (simp only: count_prepareGraph not_False_eq_True)
  then show ?thesis by (induction qs) (auto split: if_splits)
qed

lemma keys_initial:
  assumes "deps_known qs" and "reorders f"
  shows "fst ` set (prepareEdgeCount f (prepareGraph qs)) = q_name ` set qs"
proof -
  have "(\<Union>e\<in>set (prepareGraph qs). set (snd e)) \<subseteq> q_name ` set qs"
  proof
    fix v assume "v \<in> (\<Union>e\<in>set (prepareGraph qs). set (snd e))"
    then obtain u vs where "(u, vs) \<in> set (prepareGraph qs)" "v \<in> set vs" by auto
    then have "v \<in> set (successors (prepareGraph qs) u)"
      using distinct_prepareGraph [of qs] by (simp add: successors_def)
    then show "v \<in> q_name ` set qs" by (rule successors_range)
  qed
  then show ?thesis
    using assms by (auto simp: prepareEdgeCount_def keys_prepare reorders_set keys_prepareGraph)
qed

section \<open>The loop\<close>

lemma countOf_relaxAll:
  "fold relax vs (zero, ec) = (zero', ec') \<Longrightarrow> countOf ec' w = countOf ec w - int (count_list vs w)"
proof (induction vs arbitrary: zero ec)
  case Nil
  then show ?case by simp
next
  case (Cons v vs)
  obtain z1 e1 where s1: "relax v (zero, ec) = (z1, e1)" by force
  then have "countOf e1 w = countOf ec w - (if v = w then 1 else 0)"
    by (auto simp: relax_def Let_def countOf_update)
  moreover have "fold relax vs (z1, e1) = (zero', ec')" using Cons.prems s1 by simp
  ultimately show ?case using Cons.IH [of z1 e1] by simp
qed

lemma zero_relaxAll:
  assumes "fold relax vs (zero, ec) = (zero', ec')"
    and "\<forall>v \<in> set vs. int (count_list vs v) \<le> countOf ec v"
  shows "\<exists>new. zero' = zero @ new \<and> distinct new \<and>
           set new = {v \<in> set vs. countOf ec v = int (count_list vs v)}"
  using assms
proof (induction vs arbitrary: zero ec)
  case Nil
  then show ?case by simp
next
  case (Cons v vs)
  let ?c = "countOf ec v - 1"
  have s1: "relax v (zero, ec) = (if ?c = 0 then zero @ [v] else zero, AList.update v ?c ec)"
    by (simp add: relax_def Let_def)
  let ?e1 = "AList.update v ?c ec"
  have le: "\<forall>w \<in> set vs. int (count_list vs w) \<le> countOf ?e1 w"
    using Cons.prems(2) by (auto simp: countOf_update split: if_splits)
  from Cons.prems(1) s1 have "fold relax vs (if ?c = 0 then zero @ [v] else zero, ?e1) = (zero', ec')"
    by simp
  from Cons.IH [OF this le] obtain new where
    new: "zero' = (if ?c = 0 then zero @ [v] else zero) @ new" "distinct new"
      "set new = {w \<in> set vs. countOf ?e1 w = int (count_list vs w)}"
    by blast
  show ?case
  proof (cases "?c = 0")
    case True
    with Cons.prems(2) have "count_list vs v = 0" by auto
    then have "v \<notin> set vs" by (simp add: count_list_0_iff)
    have "w \<in> set (v # new) \<longleftrightarrow> w \<in> set (v # vs) \<and> countOf ec w = int (count_list (v # vs) w)" for w
      by (cases "w = v")
         (use True \<open>count_list vs v = 0\<close> in \<open>simp_all add: new(3) countOf_update\<close>)
    then have "set (v # new) = {w \<in> set (v # vs). countOf ec w = int (count_list (v # vs) w)}"
      by blast
    moreover have "zero' = zero @ v # new" using new(1) True by simp
    moreover have "distinct (v # new)" using new(2,3) \<open>v \<notin> set vs\<close> by simp
    ultimately show ?thesis by blast
  next
    case False
    have "v \<notin> set vs \<Longrightarrow> count_list vs v = 0" by (simp add: count_list_0_iff)
    have "w \<in> set new \<longleftrightarrow> w \<in> set (v # vs) \<and> countOf ec w = int (count_list (v # vs) w)" for w
      by (cases "w = v"; cases "v \<in> set vs")
         (use False \<open>v \<notin> set vs \<Longrightarrow> count_list vs v = 0\<close> in \<open>auto simp add: new(3) countOf_update\<close>)
    then have "set new = {w \<in> set (v # vs). countOf ec w = int (count_list (v # vs) w)}"
      by blast
    moreover have "zero' = zero @ new" using new(1) False by simp
    ultimately show ?thesis using new(2) by blast
  qed
qed

text \<open>The loop invariant, over the queries \<open>ds\<close> removed so far.\<close>

definition pending :: "query list \<Rightarrow> query \<Rightarrow> nat" where
  "pending ds q = length (filter (\<lambda>d. d \<notin> q_name ` set ds) (q_deps q))"

definition loop_inv :: "query list \<Rightarrow> string list \<Rightarrow> edge_count \<Rightarrow> query list \<Rightarrow> bool" where
  "loop_inv qs zero ec ds \<longleftrightarrow>
     distinct (map q_name ds @ zero) \<and> set ds \<subseteq> set qs \<and> set zero \<subseteq> q_name ` set qs \<and>
     (\<forall>q \<in> set qs. countOf ec (q_name q) = int (pending ds q)) \<and>
     (\<forall>q \<in> set qs. q_name q \<in> q_name ` set ds \<union> set zero \<longleftrightarrow> pending ds q = 0) \<and>
     executable_order ds"

lemma pending_snoc:
  assumes "q_name q \<notin> q_name ` set ds"
  shows "pending ds p = pending (ds @ [q]) p + count_list (q_deps p) (q_name q)"
proof -
  have "length (filter (\<lambda>d. d \<notin> D) xs) =
        length (filter (\<lambda>d. d \<notin> insert n D) xs) + count_list xs n" if "n \<notin> D" for n D and xs :: "string list"
    using that by (induction xs) auto
  from this [OF assms] show ?thesis by (simp add: pending_def)
qed

lemma pending_0_iff: "pending ds q = 0 \<longleftrightarrow> set (q_deps q) \<subseteq> q_name ` set ds"
  by (auto simp: pending_def filter_empty_conv)

lemma loop_inv_step:
  assumes names: "distinct (map q_name qs)"
    and inv: "loop_inv qs (node # zero) ec ds"
    and step: "fold relax (successors (prepareGraph qs) node) (zero, ec) = (zero', ec')"
  shows "\<exists>q \<in> set qs. q_name q = node \<and> loop_inv qs zero' ec' (ds @ [q])"
proof -
  let ?succ = "successors (prepareGraph qs) node"
  from inv obtain q where q: "q \<in> set qs" "q_name q = node" by (auto simp: loop_inv_def)
  from inv q have fresh: "q_name q \<notin> q_name ` set ds" by (auto simp: loop_inv_def)
  note pend = pending_snoc [OF fresh]
  have cnt: "count_list ?succ (q_name p) = count_list (q_deps p) node" if "p \<in> set qs" for p
    using count_successors [OF names that] .
  have count': "countOf ec' (q_name p) = int (pending (ds @ [q]) p)" if "p \<in> set qs" for p
    using countOf_relaxAll [OF step, of "q_name p"] inv that cnt [OF that] pend [of p] q(2)
    by (simp add: loop_inv_def)
  have "\<forall>v \<in> set ?succ. int (count_list ?succ v) \<le> countOf ec v"
  proof
    fix v assume "v \<in> set ?succ"
    then obtain p where "p \<in> set qs" "v = q_name p" using successors_range by blast
    with inv cnt [of p] pend [of p] q(2) show "int (count_list ?succ v) \<le> countOf ec v"
      by (simp add: loop_inv_def)
  qed
  from zero_relaxAll [OF step this] obtain new where
    new: "zero' = zero @ new" "distinct new"
      "set new = {v \<in> set ?succ. countOf ec v = int (count_list ?succ v)}"
    by blast
  have new_iff: "q_name p \<in> set new \<longleftrightarrow> pending ds p \<noteq> 0 \<and> pending (ds @ [q]) p = 0"
    if "p \<in> set qs" for p
  proof -
    have "q_name p \<in> set ?succ \<longleftrightarrow> count_list (q_deps p) node \<noteq> 0"
      using cnt [OF that] by (metis count_list_0_iff)
    moreover have "countOf ec (q_name p) = int (pending ds p)"
      using inv that by (simp add: loop_inv_def)
    moreover have "q_name p \<in> set new \<longleftrightarrow>
        q_name p \<in> set ?succ \<and> countOf ec (q_name p) = int (count_list ?succ (q_name p))"
      by (simp only: new(3) mem_Collect_eq)
    ultimately show ?thesis using cnt [OF that] pend [of p] q(2) by (metis add_cancel_right_left add_eq_0_iff_both_eq_0 of_nat_eq_iff)
  qed
  have new_names: "set new \<subseteq> q_name ` set qs" using new(3) successors_range by blast
  have old: "q_name p \<in> q_name ` set ds \<union> set (node # zero) \<longleftrightarrow> pending ds p = 0"
    if "p \<in> set qs" for p using inv that unfolding loop_inv_def by blast
  have "distinct (map q_name (ds @ [q]) @ zero')"
  proof -
    have "set new \<inter> (q_name ` set ds \<union> set (node # zero)) = {}"
    proof (rule ccontr)
      assume "set new \<inter> (q_name ` set ds \<union> set (node # zero)) \<noteq> {}"
      then obtain v where v: "v \<in> set new" "v \<in> q_name ` set ds \<union> set (node # zero)" by auto
      then obtain p where "p \<in> set qs" "v = q_name p" using new_names by auto
      with v new_iff [of p] old [of p] show False by simp
    qed
    moreover have "distinct (map q_name ds @ node # zero)" using inv by (simp add: loop_inv_def)
    ultimately show ?thesis using new(1,2) q(2) by auto
  qed
  moreover have "q_name p \<in> q_name ` set (ds @ [q]) \<union> set zero' \<longleftrightarrow> pending (ds @ [q]) p = 0"
    if "p \<in> set qs" for p
  proof -
    have "q_name p \<in> q_name ` set (ds @ [q]) \<union> set zero' \<longleftrightarrow>
          q_name p \<in> q_name ` set ds \<union> set (node # zero) \<or> q_name p \<in> set new"
      using new(1) q(2) by auto
    also have "\<dots> \<longleftrightarrow> pending ds p = 0 \<or> pending ds p \<noteq> 0 \<and> pending (ds @ [q]) p = 0"
      using old [OF that] new_iff [OF that] by blast
    also have "\<dots> \<longleftrightarrow> pending (ds @ [q]) p = 0" using pend [of p] by auto
    finally show ?thesis .
  qed
  moreover have "executable_order (ds @ [q])"
  proof -
    have "pending ds q = 0" using old [OF q(1)] q(2) by auto
    with inv show ?thesis by (simp add: executable_after_append loop_inv_def pending_0_iff)
  qed
  moreover have "set zero' \<subseteq> q_name ` set qs" using inv new(1) new_names by (auto simp: loop_inv_def)
  ultimately have "loop_inv qs zero' ec' (ds @ [q])"
    using inv q count' by (simp add: loop_inv_def)
  with q show ?thesis by blast
qed

lemma byName_known:
  assumes "distinct (map q_name qs)" and "q \<in> set qs"
  shows "prepareQueryNameToQuery qs (q_name q) = Some q"
proof -
  have out: "fold (\<lambda>q m. m(q_name q \<mapsto> q)) qs m n = m n" if "n \<notin> q_name ` set qs" for qs m n
    using that by (induction qs arbitrary: m) auto
  have "fold (\<lambda>q m. m(q_name q \<mapsto> q)) qs m (q_name q) = Some q" for m
    using assms
  proof (induction qs arbitrary: m)
    case Nil
    then show ?case by simp
  next
    case (Cons p qs)
    then show ?case
      by (cases "p = q") (auto simp: out fun_upd_same simp del: fun_upd_apply)
  qed
  then show ?thesis by (simp add: prepareQueryNameToQuery_def)
qed

lemma kahnLoop_inv:
  assumes names: "distinct (map q_name qs)"
    and "loop_inv qs zero ec ds"
    and "kahnLoop (prepareGraph qs) (prepareQueryNameToQuery qs) zero ec (map Some ds) (length ds)
         = (res, visited)"
  shows "\<exists>ds' ec'. res = map Some ds' \<and> visited = length ds' \<and> loop_inv qs [] ec' ds'"
  using assms(2,3)
proof (induction "length zero + card (positives ec)" arbitrary: zero ec ds rule: less_induct)
  case less
  show ?case
  proof (cases zero)
    case Nil
    with less.prems show ?thesis by auto
  next
    case (Cons node rest)
    obtain zero' ec' where step: "fold relax (successors (prepareGraph qs) node) (rest, ec) = (zero', ec')"
      by force
    from loop_inv_step [OF names _ step, of ds] less.prems(1) Cons obtain q where
      q: "q \<in> set qs" "q_name q = node" "loop_inv qs zero' ec' (ds @ [q])" by blast
    have "kahnLoop (prepareGraph qs) (prepareQueryNameToQuery qs) zero' ec' (map Some (ds @ [q]))
            (length (ds @ [q])) = (res, visited)"
      using less.prems(2) Cons step q(2) byName_known [OF names q(1)] by simp
    moreover have "length zero' + card (positives ec') < length zero + card (positives ec)"
      using relaxAll_measure [OF step] Cons by simp
    ultimately show ?thesis using less.hyps q(3) by blast
  qed
qed

lemma loop_inv_initial:
  assumes names: "distinct (map q_name qs)" and known: "deps_known qs"
    and f: "reorders orderG" and g: "reorders orderE"
  shows "loop_inv qs (map fst (filter (\<lambda>(node, edges). edges = 0)
           (orderE (prepareEdgeCount orderG (prepareGraph qs)))))
         (prepareEdgeCount orderG (prepareGraph qs)) []"
proof -
  let ?ec = "prepareEdgeCount orderG (prepareGraph qs)"
  have e: "mset (orderE ?ec) = mset ?ec" and es: "set (orderE ?ec) = set ?ec"
    using g by (auto simp: reorders_def reorders_set)
  have d: "distinct (map fst (orderE ?ec))"
    using distinct_prepareEdgeCount [of orderG "prepareGraph qs"] e
    by (metis mset_eq_imp_distinct_iff mset_map)
  have zero_set: "set (map fst (filter (\<lambda>(node, edges). edges = 0) (orderE ?ec))) =
      {v \<in> q_name ` set qs. countOf ?ec v = 0}"
  proof -
    have "set (map fst (filter (\<lambda>(node, edges). edges = 0) (orderE ?ec))) = {v. (v, 0) \<in> set ?ec}"
      using es by force
    moreover have "(v, 0) \<in> set ?ec \<longleftrightarrow> v \<in> fst ` set ?ec \<and> countOf ?ec v = 0" for v
    proof -
      have "(v, 0) \<in> set ?ec \<longleftrightarrow> map_of ?ec v = Some 0"
        by (simp add: map_of_eq_Some_iff distinct_prepareEdgeCount)
      also have "\<dots> \<longleftrightarrow> map_of ?ec v \<noteq> None \<and> countOf ?ec v = 0"
        by (auto simp: countOf_def)
      finally show ?thesis by (simp add: map_of_eq_None_iff)
    qed
    ultimately show ?thesis using keys_initial [OF known f] by auto
  qed
  have cnt: "countOf ?ec (q_name q) = int (pending [] q)" if "q \<in> set qs" for q
    using initial_count [OF names known f that] by (simp add: pending_def)
  have "distinct (map fst (filter (\<lambda>(node, edges). edges = 0) (orderE ?ec)))"
    using d by (simp add: distinct_map_filter)
  with zero_set cnt show ?thesis by (auto simp: loop_inv_def)
qed

text \<open>A set of queries that some executable order covers leaves no query behind.\<close>

lemma executable_covers:
  assumes inv: "loop_inv qs [] ec ds" and sub: "set ord \<subseteq> set qs"
    and ex: "executable_after D ord" and D: "D \<subseteq> q_name ` set ds"
  shows "q_name ` set ord \<subseteq> q_name ` set ds"
  using sub ex D
proof (induction ord arbitrary: D)
  case Nil
  then show ?case by simp
next
  case (Cons q ord)
  then have "pending ds q = 0" by (auto simp: pending_0_iff)
  with inv Cons.prems(1) have "q_name q \<in> q_name ` set ds" by (auto simp: loop_inv_def)
  with Cons show ?case by auto
qed

lemma distinct_names_mset:
  assumes "distinct (map q_name qs)" and "distinct (map q_name ds)" and "set ds \<subseteq> set qs"
    and "length ds = length qs"
  shows "mset ds = mset qs"
proof -
  have "distinct ds" "distinct qs" using assms by (auto simp: distinct_map)
  moreover have "set ds = set qs"
    using assms(3,4) calculation by (metis List.finite_set card_subset_eq distinct_card)
  ultimately show ?thesis by (simp add: set_eq_iff_mset_eq_distinct)
qed

lemma QueryExecutionOrder_result:
  assumes names: "distinct (map q_name qs)" and known: "deps_known qs"
    and orders: "reorders orderG" "reorders orderE"
  obtains ds ec where "loop_inv qs [] ec ds"
    and "QueryExecutionOrder orderG orderE qs =
         (if length ds \<noteq> length qs then Inl CyclicDependency else Inr (map Some ds))"
proof -
  let ?ec = "prepareEdgeCount orderG (prepareGraph qs)"
  let ?zero = "map fst (filter (\<lambda>(node, edges). edges = 0) (orderE ?ec))"
  obtain res visited where loop: "kahnLoop (prepareGraph qs) (prepareQueryNameToQuery qs) ?zero ?ec
      (map Some []) (length ([]::query list)) = (res, visited)"
    by force
  from kahnLoop_inv [OF names loop_inv_initial [OF assms] loop] obtain ds ec where
    "res = map Some ds" "visited = length ds" "loop_inv qs [] ec ds" by blast
  moreover from loop this have "QueryExecutionOrder orderG orderE qs =
      (if length ds \<noteq> length qs then Inl CyclicDependency else Inr (map Some ds))"
    by (simp add: QueryExecutionOrder_def Let_def)
  ultimately show ?thesis using that by blast
qed

section \<open>Properties\<close>

definition mkQuery :: "string \<Rightarrow> string list \<Rightarrow> query" where
  "mkQuery n deps = \<lparr>q_name = n, q_sql = ''select c from t'', q_columns = [''c''], q_deps = deps\<rparr>"

lemma reorders_id [simp]: "reorders (\<lambda>xs. xs)"
  by (simp add: reorders_def)

lemma reorders_rev [simp]: "reorders rev"
  by (simp add: reorders_def)

text \<open>C11. Whatever order Go iterates the maps in, an order returned by \<open>QueryExecutionOrder\<close> for
  queries with distinct names and known dependencies holds exactly the given queries, and
  every query comes after the queries it depends on.\<close>

theorem QueryExecutionOrder_sound:
  assumes "distinct (map q_name qs)" and "deps_known qs"
    and "reorders orderG" and "reorders orderE"
    and "QueryExecutionOrder orderG orderE qs = Inr res"
  shows "\<exists>ord. res = map Some ord \<and> mset ord = mset qs \<and> executable_order ord"
proof -
  obtain ds ec where inv: "loop_inv qs [] ec ds"
    and r: "QueryExecutionOrder orderG orderE qs =
       (if length ds \<noteq> length qs then Inl CyclicDependency else Inr (map Some ds))"
    by (rule QueryExecutionOrder_result [OF assms(1-4)])
  from r assms(5) have "length ds = length qs" "res = map Some ds" by (auto split: if_splits)
  moreover have "mset ds = mset qs"
    using inv assms(1) calculation(1) by (intro distinct_names_mset) (auto simp: loop_inv_def)
  ultimately show ?thesis using inv by (auto simp: loop_inv_def)
qed

lemma QueryExecutionOrder_sound_witness:
  "executable_order [mkQuery ''a'' [], mkQuery ''b'' [''a'']]"
proof -
  let ?qs = "[mkQuery ''b'' [''a''], mkQuery ''a'' []]"
  have d: "distinct (map q_name ?qs)" by (simp add: mkQuery_def)
  have k: "deps_known ?qs" by (simp add: deps_known_def mkQuery_def)
  have r: "QueryExecutionOrder rev (\<lambda>xs. xs) ?qs =
      Inr [Some (mkQuery ''a'' []), Some (mkQuery ''b'' [''a''])]"
    by code_simp
  obtain ord where "[Some (mkQuery ''a'' []), Some (mkQuery ''b'' [''a''])] = map Some ord"
    "executable_order ord"
    using QueryExecutionOrder_sound [OF d k reorders_rev reorders_id r] by (elim exE conjE) (rule that)
  then show ?thesis by (auto simp only: Cons_eq_map_conv Nil_is_map_conv option.inject)
qed

text \<open>C12. When the queries have distinct names and depend on queries of the rule only, \<open>QueryExecutionOrder\<close> reports a
  cyclic dependency exactly when they have no executable order: it never rejects a rule whose queries can be ordered,
  and never loops. Both conditions are needed: with a dependency on a query that does not exist a cycle can go
  unreported, as \<open>QueryExecutionOrder_unknown_masks_cycle\<close> shows.\<close>

theorem QueryExecutionOrder_error_iff:
  assumes "distinct (map q_name qs)" and "deps_known qs"
    and "reorders orderG" and "reorders orderE"
  shows "QueryExecutionOrder orderG orderE qs = Inl CyclicDependency \<longleftrightarrow>
         \<not> (\<exists>ord. mset ord = mset qs \<and> executable_order ord)"
proof -
  obtain ds ec where inv: "loop_inv qs [] ec ds"
    and r: "QueryExecutionOrder orderG orderE qs =
       (if length ds \<noteq> length qs then Inl CyclicDependency else Inr (map Some ds))"
    by (rule QueryExecutionOrder_result [OF assms])
  have sub: "set ds \<subseteq> set qs" "distinct (map q_name ds)" using inv by (auto simp: loop_inv_def)
  show ?thesis
  proof (cases "length ds = length qs")
    case True
    with sub assms(1) inv r show ?thesis
      using distinct_names_mset [OF assms(1) sub(2,1) True] by (auto simp: loop_inv_def)
  next
    case False
    have "\<not> (mset ord = mset qs \<and> executable_order ord)" for ord
    proof
      assume o: "mset ord = mset qs \<and> executable_order ord"
      then have "set ord = set qs" by (metis set_mset_mset)
      with o executable_covers [OF inv] have "q_name ` set qs \<subseteq> q_name ` set ds" by blast
      then have "card (q_name ` set qs) \<le> card (q_name ` set ds)" by (simp add: card_mono)
      moreover have "card (q_name ` set qs) = length qs" "card (q_name ` set ds) = length ds"
        using distinct_card [OF assms(1)] distinct_card [OF sub(2)] by simp_all
      moreover have "card (q_name ` set ds) \<le> card (q_name ` set qs)"
        using sub(1) by (simp add: card_mono image_mono)
      ultimately show False using False by simp
    qed
    with r False show ?thesis by simp
  qed
qed

lemma QueryExecutionOrder_error_iff_witness:
  "\<not> (\<exists>ord. mset ord = mset [mkQuery ''a'' [''b''], mkQuery ''b'' [''a'']] \<and> executable_order ord)"
proof -
  let ?qs = "[mkQuery ''a'' [''b''], mkQuery ''b'' [''a'']]"
  have d: "distinct (map q_name ?qs)" by (simp add: mkQuery_def)
  have k: "deps_known ?qs" by (simp add: deps_known_def mkQuery_def)
  have r: "QueryExecutionOrder rev (\<lambda>xs. xs) ?qs = Inl CyclicDependency"
    by code_simp
  show ?thesis using QueryExecutionOrder_error_iff [OF d k reorders_rev reorders_id] r by blast
qed

text \<open>A dependency on a query that does not exist defeats the cycle check: the nodes it adds
  are counted as visited, so two of them make up for a cycle of two queries. For the four
  queries below no error is returned, the two queries on the cycle are missing from the
  result, and the result holds two nil pointers.\<close>

theorem QueryExecutionOrder_unknown_masks_cycle:
  "QueryExecutionOrder (\<lambda>xs. xs) (\<lambda>xs. xs)
     [mkQuery ''a'' [''b''], mkQuery ''b'' [''a''], mkQuery ''c'' [''x''], mkQuery ''d'' [''y'']]
   = Inr [None, None, Some (mkQuery ''c'' [''x'']), Some (mkQuery ''d'' [''y''])]"
  by code_simp

end
