(* ===== verification/RuleValidation.thy ===== *)
theory RuleValidation
  imports QueryOrder
begin

text \<open>
  The rest of \<open>internal/hanainsights/preprocessor/preprocessor.go\<close>: reading and validating
  the HANA Insights rules. The messages of \<open>protos/hanainsights\<close> are records; a trigger is a
  tree of evaluation nodes, and a nil trigger is \<open>None\<close>. A Go \<open>map[string]bool\<close> whose
  values are all \<open>true\<close> is the set of its keys. Reading a rule file and unmarshalling its
  JSON (the embedded file system and \<open>protojson\<close>) is the parameter \<open>load\<close>.
\<close>

section \<open>Data\<close>

datatype eval_op = Op_UNDEFINED | Op_OR | Op_AND | Op_EQ | Op_NEQ | Op_LT | Op_LTE | Op_GT | Op_GTE

datatype eval_node =
  EvalNode (n_lhs: string) (n_rhs: string) (n_op: eval_op) (n_children: "eval_node list")

record recommendation =
  rec_id :: string
  rec_trigger :: "eval_node option"
  rec_force :: bool

record rule =
  rule_id :: string
  rule_queries :: "query list"
  rule_recs :: "recommendation list"

text \<open>A rule after preprocessing: its queries are pointers in execution order.\<close>

record prepared_rule =
  p_id :: string
  p_queries :: "query option list"
  p_recs :: "recommendation list"

datatype validate_error =
    DuplicateRule string
  | InvalidQuery query
  | DuplicateQuery string
  | ColumnNotInSql string string
  | DuplicateRecommendation string
  | InvalidLeaf string string eval_op
  | InvalidLhs string
  | InvalidRhs string
  | InvalidOperation eval_op

section \<open>References to the knowledge base\<close>

text \<open>\<open>CountPattern\<close>, the regular expression for \<open>count(key)\<close>: the captured key.\<close>

definition countKey :: "string \<Rightarrow> string option" where
  "countKey s =
     (if hasPrefix s ''count('' then
        let r = drop 6 s
        in if 2 \<le> length r \<and> last r = CHR '')'' \<and> CHR '')'' \<notin> set (butlast r)
           then Some (butlast r) else None
      else None)"

text \<open>\<open>KnowledgeBasePattern\<close>, the regular expression for \<open>query:column\<close>: the two captured words.\<close>

definition scalarKey :: "string \<Rightarrow> (string \<times> string) option" where
  "scalarKey s =
     (case splitOn CHR '':'' s of
        [a, b] \<Rightarrow> if a \<noteq> [] \<and> b \<noteq> [] \<and> list_all isWordChar a \<and> list_all isWordChar b
                  then Some (a, b) else None
      | _ \<Rightarrow> None)"

definition kbKey :: "string \<Rightarrow> string \<Rightarrow> string" where
  "kbKey q col = q @ '':'' @ col"

definition matchTriggerKeys :: "string \<Rightarrow> string set \<Rightarrow> string set \<Rightarrow> bool" where
  "matchTriggerKeys cond queryNameToCols globalKBKeys =
     (case countKey cond of
        Some key \<Rightarrow> if key \<in> queryNameToCols then True else if key \<in> globalKBKeys then True else False
      | None \<Rightarrow>
          (case scalarKey cond of
             Some (a, b) \<Rightarrow>
               (let key = kbKey a b
                in if key \<in> queryNameToCols then True else if key \<in> globalKBKeys then True else False)
           | None \<Rightarrow> True))"

definition buildQueryNameToCols :: "rule \<Rightarrow> string set" where
  "buildQueryNameToCols r =
     fold (\<lambda>q keys. fold (\<lambda>col keys. insert (kbKey (q_name q) col) keys) (q_columns q) keys)
          (rule_queries r) {}"

section \<open>Validation\<close>

definition validateQueryStep :: "query \<Rightarrow> string set \<Rightarrow> (validate_error, string set) result" where
  "validateQueryStep q queryName =
     (if q_name q = [] \<or> q_sql q = [] \<or> q_columns q = [] then Inl (InvalidQuery q)
      else if q_name q \<in> queryName then Inl (DuplicateQuery (q_name q))
      else (case find (\<lambda>col. \<not> contains (q_sql q) col) (q_columns q) of
              Some col \<Rightarrow> Inl (ColumnNotInSql col (q_sql q))
            | None \<Rightarrow> Inr (insert (q_name q) queryName)))"

definition validateQueries :: "query list \<Rightarrow> (validate_error, string set) result" where
  "validateQueries queries = foldE validateQueryStep queries {}"

fun validateTrigger :: "string set \<Rightarrow> string set \<Rightarrow> eval_node \<Rightarrow> validate_error option"
and validateChildren :: "string set \<Rightarrow> string set \<Rightarrow> eval_node list \<Rightarrow> validate_error option" where
  "validateTrigger cols kb (EvalNode lhs rhs op children) =
     (if children = [] then
        (if lhs = [] \<or> rhs = [] \<or> op = Op_UNDEFINED then Some (InvalidLeaf lhs rhs op)
         else if \<not> matchTriggerKeys lhs cols kb then Some (InvalidLhs lhs)
         else if \<not> matchTriggerKeys rhs cols kb then Some (InvalidRhs rhs)
         else None)
      else if op \<noteq> Op_OR \<and> op \<noteq> Op_AND then Some (InvalidOperation op)
      else validateChildren cols kb children)"
| "validateChildren cols kb [] = None"
| "validateChildren cols kb (c # cs) =
     (case validateTrigger cols kb c of Some e \<Rightarrow> Some e | None \<Rightarrow> validateChildren cols kb cs)"

definition validateTriggerCondition ::
  "eval_node option \<Rightarrow> string set \<Rightarrow> string set \<Rightarrow> validate_error option" where
  "validateTriggerCondition node cols kb =
     (case node of None \<Rightarrow> None | Some n \<Rightarrow> validateTrigger cols kb n)"

definition validateRecStep ::
  "string set \<Rightarrow> string set \<Rightarrow> recommendation \<Rightarrow> string set \<Rightarrow> (validate_error, string set) result" where
  "validateRecStep cols kb r recsIds =
     (if rec_id r \<in> recsIds then Inl (DuplicateRecommendation (rec_id r))
      else (case validateTriggerCondition (rec_trigger r) cols kb of
              Some e \<Rightarrow> Inl e
            | None \<Rightarrow> Inr (insert (rec_id r) recsIds)))"

definition validateRecommendations ::
  "recommendation list \<Rightarrow> string set \<Rightarrow> string set \<Rightarrow> (validate_error, string set) result" where
  "validateRecommendations recs cols kb = foldE (validateRecStep cols kb) recs {}"

text \<open>\<open>validateRule\<close> records the id before it looks at the rest of the rule, so the returned set
  holds the id of a rejected rule too.\<close>

definition validateRule ::
  "rule \<Rightarrow> string set \<Rightarrow> string set \<Rightarrow> validate_error option \<times> string set" where
  "validateRule r ruleIds globalKBKeys =
     (if rule_id r \<in> ruleIds then (Some (DuplicateRule (rule_id r)), ruleIds)
      else
        let ruleIds' = insert (rule_id r) ruleIds
        in (case validateQueries (rule_queries r) of
              Inl e \<Rightarrow> (Some e, ruleIds')
            | Inr _ \<Rightarrow>
                (case validateRecommendations (rule_recs r) (buildQueryNameToCols r) globalKBKeys of
                   Inl e \<Rightarrow> (Some e, ruleIds')
                 | Inr _ \<Rightarrow> (None, ruleIds'))))"

section \<open>Reading the rules\<close>

record read_state =
  rs_rules :: "prepared_rule list"
  rs_ids :: "string set"
  rs_kb :: "string set"

definition readRule ::
  "(graph \<Rightarrow> graph) \<Rightarrow> (edge_count \<Rightarrow> edge_count) \<Rightarrow> (string \<Rightarrow> ('e, rule) result)
   \<Rightarrow> string \<Rightarrow> read_state \<Rightarrow> ('e, read_state) result" where
  "readRule orderG orderE load filename st =
     (case load filename of
        Inl e \<Rightarrow> Inl e
      | Inr r \<Rightarrow>
          (let kb = (if rule_id r = ''knowledgebase'' then buildQueryNameToCols r else rs_kb st);
               (err, ids) = validateRule r (rs_ids st) kb;
               st' = st\<lparr>rs_ids := ids, rs_kb := kb\<rparr>
           in case err of
                Some _ \<Rightarrow> Inr st'
              | None \<Rightarrow>
                  (case QueryExecutionOrder orderG orderE (rule_queries r) of
                     Inl _ \<Rightarrow> Inr st'
                   | Inr queries \<Rightarrow>
                       Inr (st'\<lparr>rs_rules := rs_rules st' @
                              [\<lparr>p_id = rule_id r, p_queries = queries, p_recs = rule_recs r\<rparr>]\<rparr>))))"

definition ReadRules ::
  "(graph \<Rightarrow> graph) \<Rightarrow> (edge_count \<Rightarrow> edge_count) \<Rightarrow> (string \<Rightarrow> ('e, rule) result)
   \<Rightarrow> string list \<Rightarrow> ('e, prepared_rule list) result" where
  "ReadRules orderG orderE load files =
     (case foldE (readRule orderG orderE load) files \<lparr>rs_rules = [], rs_ids = {}, rs_kb = {}\<rparr> of
        Inl e \<Rightarrow> Inl e
      | Inr st \<Rightarrow> Inr (rs_rules st))"

section \<open>The patterns\<close>

lemma countKey_iff:
  "countKey s = Some k \<longleftrightarrow> s = ''count('' @ k @ '')'' \<and> k \<noteq> [] \<and> CHR '')'' \<notin> set k"
proof
  assume a: "countKey s = Some k"
  then obtain r where s: "s = ''count('' @ r"
    by (auto simp: countKey_def hasPrefix_iff split: if_splits)
  with a have r: "2 \<le> length r" "last r = CHR '')''" "CHR '')'' \<notin> set (butlast r)" "k = butlast r"
    by (auto simp: countKey_def Let_def split: if_splits)
  then have "r \<noteq> []" by auto
  then have "r = k @ '')''" using r by (metis append_butlast_last_id)
  moreover have "k \<noteq> []" using r(1,4) by (cases r) auto
  ultimately show "s = ''count('' @ k @ '')'' \<and> k \<noteq> [] \<and> CHR '')'' \<notin> set k"
    using s r by auto
next
  assume a: "s = ''count('' @ k @ '')'' \<and> k \<noteq> [] \<and> CHR '')'' \<notin> set k"
  then have "hasPrefix s ''count(''" and "drop 6 s = k @ '')''" by auto
  moreover have "2 \<le> length (k @ '')'')" using a by (cases k) auto
  ultimately show "countKey s = Some k" using a by (simp add: countKey_def)
qed

lemma wordChar_no_colon: "list_all isWordChar a \<Longrightarrow> CHR '':'' \<notin> set a"
proof
  assume "list_all isWordChar a" and "CHR '':'' \<in> set a"
  then have "isWordChar CHR '':''" by (auto simp: list_all_iff)
  then show False by (simp add: isWordChar_def isDigit_def codeOf_def)
qed

lemma scalarKey_iff:
  "scalarKey s = Some (a, b) \<longleftrightarrow>
     s = kbKey a b \<and> a \<noteq> [] \<and> b \<noteq> [] \<and> list_all isWordChar a \<and> list_all isWordChar b"
proof
  assume "scalarKey s = Some (a, b)"
  then have sp: "splitOn CHR '':'' s = [a, b]"
    and ok: "a \<noteq> []" "b \<noteq> []" "list_all isWordChar a" "list_all isWordChar b"
    by (auto simp: scalarKey_def split: list.splits if_splits)
  have "s = joinWith '':'' [a, b]" using sp joinWith_splitOn [of "CHR '':''" s] by simp
  then show "s = kbKey a b \<and> a \<noteq> [] \<and> b \<noteq> [] \<and> list_all isWordChar a \<and> list_all isWordChar b"
    using ok by (simp add: kbKey_def)
next
  assume a: "s = kbKey a b \<and> a \<noteq> [] \<and> b \<noteq> [] \<and> list_all isWordChar a \<and> list_all isWordChar b"
  then have "splitOn CHR '':'' s = [a, b]"
    by (simp add: kbKey_def splitOn_append_sep splitOn_single wordChar_no_colon)
  with a show "scalarKey s = Some (a, b)" by (simp add: scalarKey_def)
qed

text \<open>The key a condition refers to, if any.\<close>

definition reference :: "string \<Rightarrow> string option" where
  "reference cond =
     (case countKey cond of
        Some k \<Rightarrow> Some k
      | None \<Rightarrow> (case scalarKey cond of Some (a, b) \<Rightarrow> Some (kbKey a b) | None \<Rightarrow> None))"

lemma matchTriggerKeys_iff:
  "matchTriggerKeys cond cols kb \<longleftrightarrow> (\<forall>k. reference cond = Some k \<longrightarrow> k \<in> cols \<union> kb)"
  by (auto simp: matchTriggerKeys_def reference_def Let_def split: option.splits)

lemma buildQueryNameToCols_eq:
  "buildQueryNameToCols r = {kbKey (q_name q) col |q col. q \<in> set (rule_queries r) \<and> col \<in> set (q_columns q)}"
proof -
  have inner: "fold (\<lambda>col keys. insert (kbKey n col) keys) cs S = kbKey n ` set cs \<union> S" for n cs S
    by (induction cs arbitrary: S) auto
  have "fold (\<lambda>q keys. fold (\<lambda>col keys. insert (kbKey (q_name q) col) keys) (q_columns q) keys) qs S
      = {kbKey (q_name q) col |q col. q \<in> set qs \<and> col \<in> set (q_columns q)} \<union> S" for qs S
    by (induction qs arbitrary: S) (auto simp: inner)
  from this [of "rule_queries r" "{}"] show ?thesis
    unfolding buildQueryNameToCols_def by (simp only: Un_empty_right)
qed

section \<open>What validation accepts\<close>

definition well_formed_query :: "query \<Rightarrow> bool" where
  "well_formed_query q \<longleftrightarrow> q_name q \<noteq> [] \<and> q_sql q \<noteq> [] \<and> q_columns q \<noteq> [] \<and>
     (\<forall>col \<in> set (q_columns q). contains (q_sql q) col)"

fun well_formed_trigger :: "string set \<Rightarrow> eval_node \<Rightarrow> bool" where
  "well_formed_trigger keys (EvalNode lhs rhs op children) \<longleftrightarrow>
     (if children = [] then
        lhs \<noteq> [] \<and> rhs \<noteq> [] \<and> op \<noteq> Op_UNDEFINED \<and>
        (\<forall>k. reference lhs = Some k \<or> reference rhs = Some k \<longrightarrow> k \<in> keys)
      else (op = Op_OR \<or> op = Op_AND) \<and> (\<forall>c \<in> set children. well_formed_trigger keys c))"

definition well_formed_rec :: "string set \<Rightarrow> recommendation \<Rightarrow> bool" where
  "well_formed_rec keys r \<longleftrightarrow> (\<forall>n. rec_trigger r = Some n \<longrightarrow> well_formed_trigger keys n)"

lemma validateTrigger_iff:
  "validateTrigger cols kb n = None \<longleftrightarrow> well_formed_trigger (cols \<union> kb) n"
  "validateChildren cols kb ns = None \<longleftrightarrow> (\<forall>c \<in> set ns. well_formed_trigger (cols \<union> kb) c)"
proof (induction cols kb n and cols kb ns rule: validateTrigger_validateChildren.induct)
  case (1 cols kb lhs rhs op children)
  show ?case
  proof (cases "children = []")
    case True
    then show ?thesis by (auto simp: matchTriggerKeys_iff)
  next
    case False
    with 1 show ?thesis by auto
  qed
qed (auto split: option.splits)

interpretation query_scan: keyed_scan validateQueryStep q_name well_formed_query
  by unfold_locales
     (auto simp: validateQueryStep_def well_formed_query_def find_None_iff find_Some_iff
        split: option.splits)

interpretation rec_scan: keyed_scan "validateRecStep cols kb" rec_id "well_formed_rec (cols \<union> kb)"
  for cols kb
  by unfold_locales
     (auto simp: validateRecStep_def well_formed_rec_def validateTriggerCondition_def
        validateTrigger_iff [symmetric] split: option.splits)

lemma validateQueries_iff:
  "(\<exists>s. validateQueries qs = Inr s) \<longleftrightarrow> distinct (map q_name qs) \<and> (\<forall>q \<in> set qs. well_formed_query q)"
  unfolding validateQueries_def by (rule query_scan.scan_ok_iff)

lemma validateRecommendations_iff:
  "(\<exists>s. validateRecommendations recs cols kb = Inr s) \<longleftrightarrow>
     distinct (map rec_id recs) \<and> (\<forall>r \<in> set recs. well_formed_rec (cols \<union> kb) r)"
  unfolding validateRecommendations_def by (rule rec_scan.scan_ok_iff)

definition well_formed_rule :: "string set \<Rightarrow> rule \<Rightarrow> bool" where
  "well_formed_rule kb r \<longleftrightarrow>
     distinct (map q_name (rule_queries r)) \<and> (\<forall>q \<in> set (rule_queries r). well_formed_query q) \<and>
     distinct (map rec_id (rule_recs r)) \<and>
     (\<forall>c \<in> set (rule_recs r). well_formed_rec (buildQueryNameToCols r \<union> kb) c)"

lemma validateRule_None_iff:
  "fst (validateRule r ids kb) = None \<longleftrightarrow> rule_id r \<notin> ids \<and> well_formed_rule kb r"
proof -
  have q: "(\<exists>s. validateQueries (rule_queries r) = Inr s) \<longleftrightarrow>
      distinct (map q_name (rule_queries r)) \<and> (\<forall>q \<in> set (rule_queries r). well_formed_query q)"
    by (rule validateQueries_iff)
  have c: "(\<exists>s. validateRecommendations (rule_recs r) (buildQueryNameToCols r) kb = Inr s) \<longleftrightarrow>
      distinct (map rec_id (rule_recs r)) \<and>
      (\<forall>c \<in> set (rule_recs r). well_formed_rec (buildQueryNameToCols r \<union> kb) c)"
    by (rule validateRecommendations_iff)
  show ?thesis
    by (cases "validateQueries (rule_queries r)";
        cases "validateRecommendations (rule_recs r) (buildQueryNameToCols r) kb")
       (use q c in \<open>auto simp: validateRule_def well_formed_rule_def Let_def\<close>)
qed

lemma validateRule_ids: "snd (validateRule r ids kb) = insert (rule_id r) ids"
  by (auto simp: validateRule_def Let_def split: sum.splits)

section \<open>Reading\<close>

text \<open>What is known of a rule that is kept: the file it was read from, the scope its trigger
  references were resolved in, and the order of its queries.\<close>

definition global_scope :: "(string \<Rightarrow> ('e, rule) result) \<Rightarrow> string list \<Rightarrow> string set \<Rightarrow> bool" where
  "global_scope load files kb \<longleftrightarrow>
     kb = {} \<or> (\<exists>f g. f \<in> set files \<and> load f = Inr g \<and> rule_id g = ''knowledgebase'' \<and>
                 kb = buildQueryNameToCols g)"

definition prepared_from :: "(string \<Rightarrow> ('e, rule) result) \<Rightarrow> string list \<Rightarrow> prepared_rule \<Rightarrow> bool" where
  "prepared_from load files p \<longleftrightarrow>
     (\<exists>f r kb. f \<in> set files \<and> load f = Inr r \<and> p_id p = rule_id r \<and> p_recs p = rule_recs r \<and>
        global_scope load files kb \<and> well_formed_rule kb r \<and>
        (deps_known (rule_queries r) \<longrightarrow>
           (\<exists>ord. p_queries p = map Some ord \<and> mset ord = mset (rule_queries r) \<and> executable_order ord)))"

definition read_inv :: "(string \<Rightarrow> ('e, rule) result) \<Rightarrow> string list \<Rightarrow> read_state \<Rightarrow> bool" where
  "read_inv load files st \<longleftrightarrow>
     global_scope load files (rs_kb st) \<and> distinct (map p_id (rs_rules st)) \<and>
     p_id ` set (rs_rules st) \<subseteq> rs_ids st \<and> (\<forall>p \<in> set (rs_rules st). prepared_from load files p)"

lemma ordered_queries:
  assumes "distinct (map q_name qs)" and "deps_known qs"
    and "reorders orderG" and "reorders orderE"
    and r: "QueryExecutionOrder orderG orderE qs = Inr res"
  shows "\<exists>ord. res = map Some ord \<and> mset ord = mset qs \<and> executable_order ord"
proof -
  obtain ds ec where inv: "loop_inv qs [] ec ds"
    and eq: "QueryExecutionOrder orderG orderE qs =
       (if length ds \<noteq> length qs then Inl CyclicDependency else Inr (map Some ds))"
    by (rule QueryExecutionOrder_result [OF assms(1-4)])
  from eq r have len: "length ds = length qs" and res: "res = map Some ds" by (auto split: if_splits)
  from inv have "mset ds = mset qs"
    by (intro distinct_names_mset assms(1) len) (auto simp: loop_inv_def)
  with inv res show ?thesis by (auto simp: loop_inv_def)
qed

lemma readRule_inv:
  assumes order: "reorders orderG" "reorders orderE" and f: "f \<in> set files"
    and inv: "read_inv load files st" and step: "readRule orderG orderE load f st = Inr st'"
  shows "read_inv load files st'"
proof -
  obtain r where r: "load f = Inr r" using step by (auto simp: readRule_def split: sum.splits)
  define kb where "kb = (if rule_id r = ''knowledgebase'' then buildQueryNameToCols r else rs_kb st)"
  obtain err ids where v: "validateRule r (rs_ids st) kb = (err, ids)" by force
  have ids: "ids = insert (rule_id r) (rs_ids st)" using validateRule_ids [of r "rs_ids st" kb] v by simp
  have gs: "global_scope load files kb"
    using inv f r by (auto simp: kb_def global_scope_def read_inv_def)
  let ?st = "st\<lparr>rs_ids := ids, rs_kb := kb\<rparr>"
  have skip: "read_inv load files ?st" using inv gs by (auto simp: read_inv_def ids)
  note body = step [unfolded readRule_def r sum.case kb_def [symmetric] Let_def v prod.case]
  show ?thesis
  proof (cases err)
    case (Some e)
    with body skip show ?thesis by auto
  next
    case None
    then have ok: "rule_id r \<notin> rs_ids st" "well_formed_rule kb r"
      using validateRule_None_iff [of r "rs_ids st" kb] v by auto
    show ?thesis
    proof (cases "QueryExecutionOrder orderG orderE (rule_queries r)")
      case (Inl e)
      with body None skip show ?thesis by auto
    next
      case (Inr res)
      let ?p = "\<lparr>p_id = rule_id r, p_queries = res, p_recs = rule_recs r\<rparr>"
      from body None Inr have st': "st' = ?st\<lparr>rs_rules := rs_rules ?st @ [?p]\<rparr>" by simp
      have "distinct (map q_name (rule_queries r))" using ok(2) by (simp add: well_formed_rule_def)
      then have "prepared_from load files ?p"
        unfolding prepared_from_def
        using f r gs ok(2) ordered_queries [OF _ _ order Inr]
        by (intro exI [of _ f] exI [of _ r] exI [of _ kb]) auto
      with inv gs ok(1) st' show ?thesis by (auto simp: read_inv_def ids)
    qed
  qed
qed

lemma foldE_readRule_inv:
  assumes "reorders orderG" and "reorders orderE"
    and "foldE (readRule orderG orderE load) files \<lparr>rs_rules = [], rs_ids = {}, rs_kb = {}\<rparr> = Inr st"
  shows "read_inv load files st"
  by (rule foldE_invariant [where I = "read_inv load files", OF readRule_inv _ assms(3)])
     (use assms(1,2) in \<open>auto simp: read_inv_def global_scope_def\<close>)

section \<open>Properties\<close>

text \<open>A rule passes \<open>validateRule\<close> exactly when its id is new and it is well formed: query
  names are distinct, each query has a name, SQL text and columns which all occur in the SQL,
  recommendation ids are distinct, inner trigger nodes are OR or AND, and every
  \<open>query:column\<close> or \<open>count(query:column)\<close> a leaf mentions is a column of the rule itself or of
  the global knowledge base.\<close>

theorem validateRule_spec:
  "fst (validateRule r ids kb) = None \<longleftrightarrow> rule_id r \<notin> ids \<and> well_formed_rule kb r"
  by (rule validateRule_None_iff)

text \<open>\<open>ReadRules\<close> fails exactly when some file cannot be read or unmarshalled: an invalid
  or cyclic rule is skipped and never fails the others.\<close>

theorem ReadRules_error_iff:
  "(\<exists>e. ReadRules orderG orderE load files = Inl e) \<longleftrightarrow> (\<exists>f e. f \<in> set files \<and> load f = Inl e)"
proof -
  have "(\<exists>e. foldE (readRule orderG orderE load) fs st = Inl e) \<longleftrightarrow>
        (\<exists>f e. f \<in> set fs \<and> load f = Inl e)" for fs st
  proof (induction fs arbitrary: st)
    case Nil
    then show ?case by simp
  next
    case (Cons f fs)
    show ?case
    proof (cases "load f")
      case (Inl e)
      then have "readRule orderG orderE load f st = Inl e" by (simp add: readRule_def)
      with Inl show ?thesis by auto
    next
      case (Inr r)
      have "\<exists>st'. readRule orderG orderE load f st = Inr st'"
        by (simp add: readRule_def Inr Let_def split: prod.splits option.splits sum.splits)
      then obtain st' where "readRule orderG orderE load f st = Inr st'" by blast
      with Inr Cons.IH [of st'] show ?thesis by auto
    qed
  qed
  from this [of files "\<lparr>rs_rules = [], rs_ids = {}, rs_kb = {}\<rparr>"] show ?thesis
    by (auto simp: ReadRules_def split: sum.splits)
qed

text \<open>C33. The rules \<open>ReadRules\<close> returns have distinct ids; each was read from one of the files and
  is well formed in its own columns and those of a \<open>knowledgebase\<close> rule among the files. For a rule whose queries depend
  on queries of the rule only, its queries are moreover all there, in an order they can be executed in; nothing is
  claimed of the order of a rule with an unknown dependency.\<close>

theorem ReadRules_sound:
  assumes "reorders orderG" and "reorders orderE"
    and "ReadRules orderG orderE load files = Inr rules"
  shows "distinct (map p_id rules) \<and> (\<forall>p \<in> set rules. prepared_from load files p)"
  using foldE_readRule_inv [OF assms(1,2), of load files] assms(3)
  by (auto simp: ReadRules_def read_inv_def split: sum.splits)

definition sampleRule :: "string \<Rightarrow> string \<Rightarrow> rule" where
  "sampleRule rid ref =
     \<lparr>rule_id = rid, rule_queries = [mkQuery ''q2'' [''q1''], mkQuery ''q1'' []],
      rule_recs = [\<lparr>rec_id = ''r'', rec_trigger = Some (EvalNode ref ''1'' Op_EQ []), rec_force = False\<rparr>]\<rparr>"

definition sampleLoad :: "string \<Rightarrow> (string, rule) result" where
  "sampleLoad f = (if f = ''a'' then Inr (sampleRule ''a'' ''q1:c'') else Inr (sampleRule ''b'' ''q1:x''))"

lemma ReadRules_sound_witness:
  "prepared_from sampleLoad [''a'', ''b'']
     \<lparr>p_id = ''a'', p_queries = [Some (mkQuery ''q1'' []), Some (mkQuery ''q2'' [''q1''])],
      p_recs = rule_recs (sampleRule ''a'' ''q1:c'')\<rparr>"
proof -
  have "ReadRules (\<lambda>xs. xs) rev sampleLoad [''a'', ''b''] =
    Inr [\<lparr>p_id = ''a'', p_queries = [Some (mkQuery ''q1'' []), Some (mkQuery ''q2'' [''q1''])],
          p_recs = rule_recs (sampleRule ''a'' ''q1:c'')\<rparr>]"
    by code_simp
  from ReadRules_sound [OF reorders_id reorders_rev this] show ?thesis by simp
qed

end
