(* ===== verification/Commands.thy ===== *)
theory Commands
  imports GoStrings
begin

text \<open>
  The data exchanged with \<open>commandlineexecutor\<close>, the shared library that runs operating system
  commands: the parameters and the result of an execution. What a command does is not under
  \<open>src/internal\<close>; an execution is a call of the environment (\<open>Prelude.call\<close>), whose answer is
  arbitrary.
\<close>

text \<open>\<open>CmdArgs exe args user\<close> passes a list of arguments, \<open>CmdSplit exe args user\<close> a string that
  the library splits (\<open>ArgsToSplit\<close>).\<close>

datatype cmd =
    CmdArgs string "string list" string
  | CmdSplit string string string

record cmd_result =
  StdOut :: string
  StdErr :: string
  CmdError :: "string option"
  ExitCode :: int

definition okResult :: "string \<Rightarrow> cmd_result" where
  "okResult out = \<lparr>StdOut = out, StdErr = [], CmdError = None, ExitCode = 0\<rparr>"

definition failResult :: "string \<Rightarrow> int \<Rightarrow> cmd_result" where
  "failResult err code = \<lparr>StdOut = [], StdErr = err, CmdError = Some err, ExitCode = code\<rparr>"

end
