(* ===== verification/DatabaseConnector.thy ===== *)
theory DatabaseConnector
  imports Commands
begin

text \<open>
  \<open>internal/databaseconnector/databaseconnector.go\<close>: connections to SAP HANA through the go-hdb
  driver or through the \<open>hdbsql\<close> command line, and the iteration over query results. The
  \<open>hdbsql\<close> path is modelled completely, down to the tokenizer of a result row. The go-hdb
  driver, the secret manager, the command executor and \<open>sql.Open\<close> are the environment; the
  rows of the driver are a type parameter with its own \<open>Next\<close> and \<open>Scan\<close>.
\<close>

section \<open>Handles\<close>

record cmd_connection =
  SIDAdmUser :: string
  HDBUserKey :: string
  EnableSSL :: bool
  HostNameInCert :: string
  RootCAFile :: string

text \<open>A \<open>DBHandle\<close> is either a go-hdb handle, known by its data source name, or a command-line
  connection.\<close>

datatype db_handle = GoHandle string | CmdHandle cmd_connection

text \<open>\<open>ps_impl\<close> says whether the test hook \<open>pingImpl\<close> is set.\<close>

record ping_spec =
  MaxRetries :: int
  PingTimeout :: int
  ps_impl :: bool

record db_params =
  Username :: string
  Password :: string
  PasswordSecret :: string
  Host :: string
  Port :: string
  UserKey :: string
  SID :: string
  SSL :: bool
  CertHost :: string
  CAFile :: string
  Project :: string
  PingSpec :: "ping_spec option"

datatype db_call =
    GetSecret string string
  | SqlOpen string
  | GoQuery string string
  | GoPing string
  | RunCommand cmd
  | PingImpl db_handle
  | Sleep int

datatype db_error =
    EmptyCredentials string
  | SidMissing
  | KeyMissing
  | SecretError string
  | OpenError string
  | QueryError string
  | CommandError string string
  | CommandExit int string
  | PingError string

text \<open>The outside world of the connector; each answer may depend on everything done so far.\<close>

record 'g db_world =
  secret_env :: "(db_call, (string, string) result) env"
  open_env :: "(db_call, string option) env"
  query_env :: "(db_call, (string, 'g) result) env"
  ping_env :: "(db_call, string option) env"
  exec_env :: "(db_call, cmd_result) env"

text \<open>\<open>url.QueryEscape\<close>.\<close>

definition hexUpper :: "nat \<Rightarrow> char" where
  "hexUpper d = (if d < 10 then char_of (48 + d) else char_of (55 + d))"

definition unreserved :: "char \<Rightarrow> bool" where
  "unreserved c \<longleftrightarrow> isDigit c \<or> (65 \<le> codeOf c \<and> codeOf c \<le> 90) \<or> (97 \<le> codeOf c \<and> codeOf c \<le> 122)
     \<or> c \<in> set ''-_.~''"

definition escapeChar :: "char \<Rightarrow> string" where
  "escapeChar c =
     (if unreserved c then [c]
      else if c = chSpace then ''+''
      else [CHR ''%'', hexUpper (codeOf c div 16), hexUpper (codeOf c mod 16)])"

definition queryEscape :: "string \<Rightarrow> string" where
  "queryEscape s = concat (map escapeChar s)"

definition dataSource :: "db_params \<Rightarrow> string \<Rightarrow> string" where
  "dataSource p password =
     (let base = ''hdb://'' @ Username p @ '':'' @ password @ ''@'' @ Host p @ '':'' @ Port p
      in if SSL p then base @ ''?TLSServerName='' @ CertHost p @ ''&TLSRootCAFile='' @ CAFile p
         else base)"

definition NewGoDBHandle ::
  "'g db_world \<Rightarrow> db_params \<Rightarrow> (db_call, (db_error, db_handle) result) prog" where
  "NewGoDBHandle w p =
     (if Password p = [] \<and> PasswordSecret p = [] then ret (Inl (EmptyCredentials (Host p)))
      else do {
        secret \<leftarrow> (if Password p = [] \<and> PasswordSecret p \<noteq> []
                  then call (secret_env w) (GetSecret (Project p) (PasswordSecret p))
                  else ret (Inr (Password p)));
        case secret of
          Inl e \<Rightarrow> ret (Inl (SecretError e))
        | Inr password \<Rightarrow> do {
            err \<leftarrow> call (open_env w) (SqlOpen (dataSource p (queryEscape password)));
            case err of
              Some e \<Rightarrow> ret (Inl (OpenError e))
            | None \<Rightarrow> ret (Inr (GoHandle (dataSource p (queryEscape password))))
          }
      })"

definition NewCMDDBHandle :: "db_params \<Rightarrow> (db_error, db_handle) result" where
  "NewCMDDBHandle p =
     (if SID p = [] then Inl SidMissing
      else if UserKey p = [] then Inl KeyMissing
      else Inr (CmdHandle
        \<lparr>SIDAdmUser = toLower (SID p) @ ''adm'', HDBUserKey = UserKey p, EnableSSL = SSL p,
         HostNameInCert = CertHost p, RootCAFile = CAFile p\<rparr>))"

section \<open>Queries\<close>

text \<open>\<open>QueryResults\<close>: the driver's rows, or the lines of the \<open>hdbsql\<close> output and the index of the
  current one.\<close>

datatype 'g query_results = GoRows 'g | CmdRows (cmd_rows: "string list") (cmd_index: int)

definition hdbsqlCmd :: "cmd_connection \<Rightarrow> string \<Rightarrow> cmd" where
  "hdbsqlCmd c query =
     CmdArgs ''sudo''
       ([''-i'', ''-u'', SIDAdmUser c]
        @ [''hdbsql'', ''-U'', HDBUserKey c, ''-a'', ''-x'', ''-quiet'', ''-Z'', ''CHOPBLANKS=0'']
        @ (if EnableSSL c
           then [''-e'', ''-sslhostnameincert'', HostNameInCert c, ''-ssltruststore'', RootCAFile c]
           else [])
        @ [query]) []"

definition resultRows :: "string \<Rightarrow> string list" where
  "resultRows stdout =
     (let out = trimSuffix stdout [chNL] in if out \<noteq> [] then splitOn chNL out else [])"

definition Query ::
  "'g db_world \<Rightarrow> db_handle \<Rightarrow> string \<Rightarrow> (db_call, (db_error, 'g query_results) result) prog" where
  "Query w db query =
     (case db of
        GoHandle dsn \<Rightarrow> do {
          r \<leftarrow> call (query_env w) (GoQuery dsn query);
          case r of Inl e \<Rightarrow> ret (Inl (QueryError e)) | Inr g \<Rightarrow> ret (Inr (GoRows g))
        }
      | CmdHandle c \<Rightarrow> do {
          r \<leftarrow> call (exec_env w) (RunCommand (hdbsqlCmd c query));
          ret (case CmdError r of
                 Some e \<Rightarrow> Inl (CommandError e (StdErr r))
               | None \<Rightarrow> if ExitCode r \<noteq> 0 then Inl (CommandExit (ExitCode r) (StdErr r))
                         else Inr (CmdRows (resultRows (StdOut r)) (- 1)))
        })"

definition Ping :: "'g db_world \<Rightarrow> db_handle \<Rightarrow> (db_call, db_error option) prog" where
  "Ping w db =
     (case db of
        GoHandle dsn \<Rightarrow> do {
          e \<leftarrow> call (ping_env w) (GoPing dsn);
          ret (map_option PingError e)
        }
      | CmdHandle c \<Rightarrow> do {
          r \<leftarrow> Query w db ''SELECT * FROM DUMMY'';
          ret (case r of Inl e \<Rightarrow> Some e | Inr _ \<Rightarrow> None)
        })"

definition pingOnce :: "'g db_world \<Rightarrow> ping_spec \<Rightarrow> db_handle \<Rightarrow> (db_call, db_error option) prog" where
  "pingOnce w spec db =
     (if ps_impl spec
      then do { e \<leftarrow> call (ping_env w) (PingImpl db); ret (map_option PingError e) }
      else Ping w db)"

text \<open>The retry loop: \<open>n\<close> pings are left, \<open>err\<close> is the error of the last one. The result is a
  handle and an error, either of which may be nil.\<close>

primrec pingLoop ::
  "'g db_world \<Rightarrow> ping_spec \<Rightarrow> db_handle \<Rightarrow> nat \<Rightarrow> db_error option
   \<Rightarrow> (db_call, db_handle option \<times> db_error option) prog" where
  "pingLoop w spec db 0 err = ret (None, err)"
| "pingLoop w spec db (Suc n) err = do {
     e \<leftarrow> pingOnce w spec db;
     case e of
       None \<Rightarrow> ret (Some db, None)
     | Some _ \<Rightarrow> do {
         _ \<leftarrow> call (\<lambda>_ _. ()) (Sleep (PingTimeout spec));
         pingLoop w spec db n e
       }
   }"

definition CreateDBHandle ::
  "'g db_world \<Rightarrow> db_params \<Rightarrow> (db_call, db_handle option \<times> db_error option) prog" where
  "CreateDBHandle w p = do {
     r \<leftarrow> (if UserKey p \<noteq> [] then ret (NewCMDDBHandle p) else NewGoDBHandle w p);
     case r of
       Inl e \<Rightarrow> ret (None, Some e)
     | Inr db \<Rightarrow>
         (case PingSpec p of
            None \<Rightarrow> ret (Some db, None)
          | Some spec \<Rightarrow> pingLoop w spec db (nat (MaxRetries spec + 1)) None)
   }"

section \<open>Rows\<close>

text \<open>The tokens of \<open>cmdResultPattern\<close>: a quoted value, a run of unquoted characters that starts
  with a word character, or the null marker. \<open>FindAllStringSubmatch\<close> takes the leftmost match
  at each point and skips a character at which no alternative matches.\<close>

datatype token = Quoted string | Bare string | NullTok

definition bareChar :: "char \<Rightarrow> bool" where
  "bareChar c \<longleftrightarrow> c \<noteq> chQuote \<and> c \<noteq> CHR '',''"

function tokenize :: "string \<Rightarrow> token list" where
  "tokenize [] = []"
| "tokenize (c # s) =
     (if c = chQuote then
        (case dropWhile (\<lambda>x. x \<noteq> chQuote) s of
           [] \<Rightarrow> tokenize s
         | _ # r \<Rightarrow> Quoted (takeWhile (\<lambda>x. x \<noteq> chQuote) s) # tokenize r)
      else if isWordChar c then Bare (c # takeWhile bareChar s) # tokenize (dropWhile bareChar s)
      else if c = CHR ''?'' then NullTok # tokenize s
      else tokenize s)"
  by pat_completeness auto
termination
proof (relation "measure length", goal_cases)
  case (3 c s a r)
  have "length (dropWhile (\<lambda>x. x \<noteq> chQuote) s) \<le> length s" by (rule length_dropWhile_le)
  with 3 show ?case by simp
next
  case (4 c s)
  have "length (dropWhile bareChar s) \<le> length s" by (rule length_dropWhile_le)
  then show ?case by simp
qed auto

text \<open>\<open>match[0]\<close>, the whole match.\<close>

fun tokenText :: "token \<Rightarrow> string" where
  "tokenText (Quoted s) = chQuote # s @ [chQuote]"
| "tokenText (Bare s) = s"
| "tokenText NullTok = ''?''"

datatype dest = DString | DInt64 | DFloat64 | DBool | DAny | DOther
datatype 'f cell = VString string | VInt int | VFloat 'f | VBool bool

datatype row_error =
    ColumnCount nat nat
  | BadInt string
  | BadFloat string
  | BadBool string
  | UnsupportedDest
  | NotStarted
  | NoMoreRows
  | ScanError string

definition primitiveValue :: "string \<Rightarrow> string" where
  "primitiveValue t = trimSpace (trim t [chQuote])"

definition parseBool :: "string \<Rightarrow> bool option" where
  "parseBool s =
     (if s \<in> {''1'', ''t'', ''T'', ''true'', ''TRUE'', ''True''} then Some True
      else if s \<in> {''0'', ''f'', ''F'', ''false'', ''FALSE'', ''False''} then Some False
      else None)"

fun unquoted :: "token \<Rightarrow> string" where
  "unquoted (Quoted s) = s"
| "unquoted (Bare s) = s"
| "unquoted NullTok = []"

text \<open>\<open>strconv.ParseFloat\<close> is the parameter \<open>parseFloat\<close> and \<open>zero\<close> the float 0.\<close>

fun parseToken :: "(string \<Rightarrow> 'f option) \<Rightarrow> 'f \<Rightarrow> token \<Rightarrow> dest \<Rightarrow> (row_error, 'f cell) result" where
  "parseToken parseFloat zero t DString = Inr (VString (unquoted t))"
| "parseToken parseFloat zero t DInt64 =
     (if t = NullTok then Inr (VInt 0)
      else case parseInt64 (primitiveValue (tokenText t)) of
             None \<Rightarrow> Inl (BadInt (tokenText t)) | Some i \<Rightarrow> Inr (VInt i))"
| "parseToken parseFloat zero t DFloat64 =
     (if t = NullTok then Inr (VFloat zero)
      else case parseFloat (primitiveValue (tokenText t)) of
             None \<Rightarrow> Inl (BadFloat (tokenText t)) | Some f \<Rightarrow> Inr (VFloat f))"
| "parseToken parseFloat zero t DBool =
     (if t = NullTok then Inr (VBool False)
      else case parseBool (primitiveValue (tokenText t)) of
             None \<Rightarrow> Inl (BadBool (tokenText t)) | Some b \<Rightarrow> Inr (VBool b))"
| "parseToken parseFloat zero t DAny = Inr (VString (unquoted t))"
| "parseToken parseFloat zero t DOther = Inl UnsupportedDest"

text \<open>The values written, in the order of the destinations, and the error that stopped the writing.
  Destinations after the last written value keep what they held.\<close>

fun parseTokens ::
  "(string \<Rightarrow> 'f option) \<Rightarrow> 'f \<Rightarrow> (token \<times> dest) list \<Rightarrow> 'f cell list \<times> row_error option" where
  "parseTokens parseFloat zero [] = ([], None)"
| "parseTokens parseFloat zero ((t, d) # rest) =
     (case parseToken parseFloat zero t d of
        Inl e \<Rightarrow> ([], Some e)
      | Inr v \<Rightarrow> (let (vs, err) = parseTokens parseFloat zero rest in (v # vs, err)))"

definition parseIntoValues ::
  "(string \<Rightarrow> 'f option) \<Rightarrow> 'f \<Rightarrow> string \<Rightarrow> dest list \<Rightarrow> 'f cell list \<times> row_error option" where
  "parseIntoValues parseFloat zero row dests =
     (let matches = tokenize row
      in if length matches \<noteq> length dests then ([], Some (ColumnCount (length matches) (length dests)))
         else parseTokens parseFloat zero (zip matches dests))"

definition Next :: "('g \<Rightarrow> 'g \<times> bool) \<Rightarrow> 'g query_results \<Rightarrow> 'g query_results \<times> bool" where
  "Next goNext qr =
     (case qr of
        GoRows g \<Rightarrow> (let (g', b) = goNext g in (GoRows g', b))
      | CmdRows rows i \<Rightarrow>
          if i = int (length rows) - 1 then (qr, False) else (CmdRows rows (i + 1), True))"

definition ReadRow ::
  "(string \<Rightarrow> 'f option) \<Rightarrow> 'f \<Rightarrow> ('g \<Rightarrow> dest list \<Rightarrow> 'f cell list \<times> row_error option)
   \<Rightarrow> 'g query_results \<Rightarrow> dest list \<Rightarrow> 'f cell list \<times> row_error option" where
  "ReadRow parseFloat zero goScan qr dests =
     (case qr of
        GoRows g \<Rightarrow> goScan g dests
      | CmdRows rows i \<Rightarrow>
          if i \<le> - 1 then ([], Some NotStarted)
          else if i \<ge> int (length rows) then ([], Some NoMoreRows)
          else parseIntoValues parseFloat zero (rows ! nat i) dests)"

text \<open>\<open>for rows.Next() { body }\<close> with a body that reads the current row and may return early.
  The loop of an arbitrary driver may run forever: then the value is \<open>None\<close>.\<close>

partial_function (option) forRows ::
  "('q \<Rightarrow> 'q \<times> bool) \<Rightarrow> ('q \<Rightarrow> 'r) \<Rightarrow> ('r \<Rightarrow> 's \<Rightarrow> ('e, 's) result) \<Rightarrow> 'q \<Rightarrow> 's
   \<Rightarrow> ('e, 's) result option" where
  "forRows nxt rd body q s =
     (let (q', more) = nxt q
      in if \<not> more then Some (Inr s)
         else case body (rd q') s of
                Inl e \<Rightarrow> Some (Inl e)
              | Inr s' \<Rightarrow> forRows nxt rd body q' s')"

section \<open>Errors\<close>

definition authErrorCodes :: "int list" where
  "authErrorCodes = [10, 332, 414, 415, 416]"

definition isHdbErrorAuthRelated :: "int \<Rightarrow> bool" where
  "isHdbErrorAuthRelated code \<longleftrightarrow> (\<exists>c \<in> set authErrorCodes. c = code)"

text \<open>\<open>errors.As\<close> to the driver's error type, with the error's code, is the parameter \<open>asHdb\<close>; the
  nil error is \<open>None\<close>.\<close>

definition IsAuthError :: "('e \<Rightarrow> int option) \<Rightarrow> 'e option \<Rightarrow> bool" where
  "IsAuthError asHdb err =
     (case Option.bind err asHdb of Some code \<Rightarrow> isHdbErrorAuthRelated code | None \<Rightarrow> False)"

section \<open>The contract of a row iterator\<close>

text \<open>An iterator \<open>nxt\<close> with a reader \<open>rd\<close> yields the rows \<open>pending\<close>, one at a time.\<close>

locale row_iterator =
  fixes nxt :: "'q \<Rightarrow> 'q \<times> bool"
    and rd :: "'q \<Rightarrow> 'r"
    and valid :: "'q \<Rightarrow> bool"
    and pending :: "'q \<Rightarrow> 'r list"
  assumes nxt_row: "valid q \<Longrightarrow> pending q = r # rs \<Longrightarrow>
      \<exists>q'. nxt q = (q', True) \<and> rd q' = r \<and> valid q' \<and> pending q' = rs"
    and nxt_end: "valid q \<Longrightarrow> pending q = [] \<Longrightarrow> \<not> snd (nxt q)"
begin

lemma forRows_foldE: "valid q \<Longrightarrow> forRows nxt rd body q s = Some (foldE body (pending q) s)"
proof (induction "pending q" arbitrary: q s)
  case Nil
  then have "\<not> snd (nxt q)" by (metis nxt_end)
  with Nil(1) [symmetric] show ?case
    by (cases "nxt q") (subst forRows.simps, simp)
next
  case (Cons r rs)
  then obtain q' where q': "nxt q = (q', True)" "rd q' = r" "valid q'" "pending q' = rs"
    by (metis nxt_row)
  show ?case
  proof (cases "body r s")
    case (Inl e)
    then show ?thesis using q' Cons.hyps(2) [symmetric] by (subst forRows.simps, simp)
  next
    case (Inr s')
    have "forRows nxt rd body q' s' = Some (foldE body rs s')"
      using Cons.hyps(1) [of q' s'] q'(3,4) by simp
    then show ?thesis using q' Inr Cons.hyps(2) [symmetric] by (subst forRows.simps, simp)
  qed
qed

end

fun cmd_valid :: "'g query_results \<Rightarrow> bool" where
  "cmd_valid (GoRows g) = False"
| "cmd_valid (CmdRows rows i) \<longleftrightarrow> - 1 \<le> i \<and> i < int (length rows)"

fun cmd_pending :: "(string \<Rightarrow> 'f option) \<Rightarrow> 'f \<Rightarrow> dest list \<Rightarrow> 'g query_results
    \<Rightarrow> ('f cell list \<times> row_error option) list" where
  "cmd_pending parseFloat zero dests (GoRows g) = []"
| "cmd_pending parseFloat zero dests (CmdRows rows i) =
     map (\<lambda>row. parseIntoValues parseFloat zero row dests) (drop (nat (i + 1)) rows)"

interpretation cmd_iter: row_iterator "Next goNext" "\<lambda>q. ReadRow parseFloat zero goScan q dests"
  cmd_valid "cmd_pending parseFloat zero dests"
  for goNext parseFloat zero goScan dests
proof (unfold_locales, goal_cases)
  case (1 q r rs)
  then obtain rows i where q: "q = CmdRows rows i" "- 1 \<le> i" "i < int (length rows)"
    by (cases q) auto
  define k where "k = nat (i + 1)"
  have i: "i = int k - 1" using q(2) by (simp add: k_def)
  have "drop k rows \<noteq> []" using 1(2) q(1) by (auto simp: k_def)
  then have k: "k < length rows" by simp
  then have d: "drop k rows = rows ! k # drop (Suc k) rows" by (simp add: Cons_nth_drop_Suc)
  have s: "nat (int k + 1) = Suc k" by simp
  have r: "r = parseIntoValues parseFloat zero (rows ! k) dests"
    and rs: "rs = map (\<lambda>row. parseIntoValues parseFloat zero row dests) (drop (Suc k) rows)"
    using 1(2) q(1) d by (simp_all add: k_def [symmetric])
  have "Next goNext q = (CmdRows rows (int k), True)" using q(1) i k by (simp add: Next_def)
  moreover have "ReadRow parseFloat zero goScan (CmdRows rows (int k)) dests = r"
    using k r by (simp add: ReadRow_def)
  ultimately show ?case using k rs s by auto
next
  case (2 q)
  then show ?case by (cases q) (auto simp: Next_def)
qed

section \<open>Lemmas on tokens\<close>

declare tokenize.simps(2) [simp del]

lemma tokenize_skip: "c \<noteq> chQuote \<Longrightarrow> \<not> isWordChar c \<Longrightarrow> c \<noteq> CHR ''?'' \<Longrightarrow> tokenize (c # s) = tokenize s"
  by (simp add: tokenize.simps(2))

lemma wordChar_bare: "isWordChar c \<Longrightarrow> c \<noteq> chQuote \<and> c \<noteq> CHR '',''"
  by (auto simp: isWordChar_def isDigit_def codeOf_def)

fun wf_token :: "token \<Rightarrow> bool" where
  "wf_token (Quoted s) \<longleftrightarrow> chQuote \<notin> set s"
| "wf_token (Bare s) \<longleftrightarrow> s \<noteq> [] \<and> isWordChar (hd s) \<and> list_all bareChar s"
| "wf_token NullTok \<longleftrightarrow> True"

lemma tokenize_token:
  assumes "wf_token t" and "r = [] \<or> hd r = CHR '',''"
  shows "tokenize (tokenText t @ r) = t # tokenize r"
proof (cases t)
  case (Quoted s)
  then have "dropWhile (\<lambda>x. x \<noteq> chQuote) (s @ chQuote # r) = chQuote # r"
    "takeWhile (\<lambda>x. x \<noteq> chQuote) (s @ chQuote # r) = s"
    using assms(1) by (simp_all add: dropWhile_append3 takeWhile_append2 takeWhile_tail)
       (induction s; auto)+
  with Quoted show ?thesis by (simp add: tokenize.simps(2))
next
  case (Bare s)
  with assms(1) obtain c w where s: "s = c # w" "isWordChar c" "list_all bareChar w" "bareChar c"
    by (cases s) auto
  have "\<not> bareChar (hd r)" if "r \<noteq> []" using assms(2) that by (simp add: bareChar_def)
  then have r: "takeWhile bareChar r = []" "dropWhile bareChar r = r" by (cases r; simp)+
  have "takeWhile bareChar (w @ r) = w" "dropWhile bareChar (w @ r) = r"
    using s(3) r by (simp_all add: list_all_iff)
  with Bare s wordChar_bare [OF s(2)] show ?thesis by (simp add: tokenize.simps(2))
next
  case NullTok
  then show ?thesis by (simp add: tokenize.simps(2) isWordChar_def isDigit_def codeOf_def)
qed

lemma tokenize_comma: "tokenize (CHR '','' # s) = tokenize s"
  by (rule tokenize_skip) (simp_all add: isWordChar_def isDigit_def codeOf_def)

lemma tokenize_row: "list_all wf_token ts \<Longrightarrow> tokenize (joinWith '','' (map tokenText ts)) = ts"
proof (induction ts)
  case Nil
  then show ?case by simp
next
  case (Cons t ts)
  show ?case
  proof (cases "ts = []")
    case True
    with Cons.prems tokenize_token [of t "[]"] show ?thesis by simp
  next
    case False
    let ?rest = "joinWith '','' (map tokenText ts)"
    have "joinWith '','' (map tokenText (t # ts)) = tokenText t @ CHR '','' # ?rest"
      using False by (simp add: joinWith_Cons)
    moreover have "tokenize (tokenText t @ CHR '','' # ?rest) = t # tokenize (CHR '','' # ?rest)"
      using Cons.prems by (intro tokenize_token) auto
    ultimately show ?thesis using Cons by (simp add: tokenize_comma)
  qed
qed

section \<open>Lemmas on the password escape\<close>

lemma hexUpper_code: "d < 16 \<Longrightarrow> codeOf (hexUpper d) = (if d < 10 then 48 + d else 55 + d)"
  by (simp add: hexUpper_def codeOf_def)

lemma hexUpper_inj:
  assumes "d < 16" and "e < 16" and "hexUpper d = hexUpper e"
  shows "d = e"
proof -
  have "(if d < 10 then 48 + d else 55 + d) = (if e < 10 then 48 + e else 55 + e)"
    using hexUpper_code [OF assms(1)] hexUpper_code [OF assms(2)] by (simp only: assms(3))
  then show ?thesis by (simp split: if_splits)
qed

lemma codeOf_less [simp]: "codeOf c < 256"
  by (simp add: codeOf_def)

lemma codeOf_inj: "codeOf c = codeOf d \<Longrightarrow> c = d"
  by (simp add: codeOf_def)

lemma escapeChar_prefix_free:
  assumes "escapeChar c @ s = escapeChar d @ t"
  shows "c = d \<and> s = t"
proof -
  have sp: "\<not> unreserved CHR ''+''" "\<not> unreserved CHR ''%''"
    by (simp_all add: unreserved_def isDigit_def codeOf_def)
  have hex: "c = d" if "hexUpper (codeOf c div 16) = hexUpper (codeOf d div 16)"
    "hexUpper (codeOf c mod 16) = hexUpper (codeOf d mod 16)"
  proof -
    have b: "codeOf x div 16 < 16" for x using codeOf_less [of x] by (simp add: less_mult_imp_div_less)
    have "codeOf c div 16 = codeOf d div 16" "codeOf c mod 16 = codeOf d mod 16"
      using hexUpper_inj [OF _ _ that(1)] hexUpper_inj [OF _ _ that(2)] b by simp_all
    then have "codeOf c = codeOf d" by (metis div_mult_mod_eq)
    then show ?thesis by (rule codeOf_inj)
  qed
  from assms sp hex show ?thesis by (auto simp: escapeChar_def split: if_splits)
qed

lemma escapeChar_not_Nil [simp]: "escapeChar c \<noteq> []"
  by (simp add: escapeChar_def)

lemma queryEscape_inj: "queryEscape s = queryEscape t \<Longrightarrow> s = t"
proof (induction s arbitrary: t)
  case Nil
  then show ?case by (cases t) (simp_all add: queryEscape_def)
next
  case (Cons c s)
  show ?case
  proof (cases t)
    case Nil
    with Cons.prems show ?thesis by (simp add: queryEscape_def)
  next
    case (Cons d t')
    with Cons.prems have "escapeChar c @ queryEscape s = escapeChar d @ queryEscape t'"
      by (simp add: queryEscape_def)
    from escapeChar_prefix_free [OF this] Cons.IH [of t'] Cons show ?thesis by simp
  qed
qed

lemma hexUpper_wordChar: "d < 16 \<Longrightarrow> isWordChar (hexUpper d)"
  by (auto simp: isWordChar_def isDigit_def hexUpper_code)

lemma queryEscape_chars: "x \<in> set (queryEscape s) \<Longrightarrow> unreserved x \<or> x = CHR ''+'' \<or> x = CHR ''%''"
proof -
  have b: "codeOf c div 16 < 16" for c using codeOf_less [of c] by (simp add: less_mult_imp_div_less)
  have h: "unreserved (hexUpper d)" if "d < 16" for d
    using hexUpper_code [OF that] that by (auto simp: unreserved_def isDigit_def)
  assume "x \<in> set (queryEscape s)"
  then show ?thesis
    using h [OF b] h by (auto simp: queryEscape_def escapeChar_def split: if_splits)
qed

section \<open>Lemmas on connecting\<close>

fun is_ping :: "db_call \<Rightarrow> bool" where
  "is_ping (GoPing d) = True"
| "is_ping (PingImpl d) = True"
| "is_ping (RunCommand c) = True"
| "is_ping _ = False"

definition pings :: "db_call list \<Rightarrow> nat" where
  "pings log = length (filter is_ping log)"

lemma pings_simps [simp]:
  "pings [] = 0" "pings (c # log) = (if is_ping c then Suc (pings log) else pings log)"
  by (simp_all add: pings_def)

lemma pingOnce_pings: "wp (pingOnce w spec db) (\<lambda>_ log'. pings log' = Suc (pings log)) log"
  by (cases db) (auto simp: pingOnce_def Ping_def Query_def wp_rules split: sum.splits option.splits)

definition connect_post ::
  "int \<Rightarrow> nat \<Rightarrow> db_handle option \<times> db_error option \<Rightarrow> db_call list \<Rightarrow> bool" where
  "connect_post retries n r log' \<longleftrightarrow>
     pings log' \<le> n + nat (retries + 1) \<and> (fst r \<noteq> None \<longrightarrow> snd r = None) \<and>
     (fst r = None \<and> snd r = None \<longrightarrow> retries < 0)"

lemma pingLoop_post:
  "wp (pingLoop w spec db n err)
     (\<lambda>(h, e) log'. pings log' \<le> pings log + n \<and> (h \<noteq> None \<longrightarrow> h = Some db \<and> e = None) \<and>
        (h = None \<and> e = None \<longrightarrow> n = 0 \<and> err = None)) log"
proof (induction n arbitrary: err log)
  case 0
  then show ?case by (simp add: wp_rules)
next
  case (Suc n)
  have "wp (pingOnce w spec db)
      (\<lambda>e log'. wp (case e of None \<Rightarrow> ret (Some db, None)
          | Some _ \<Rightarrow> State_Monad.bind (call (\<lambda>_ _. ()) (Sleep (PingTimeout spec)))
                        (\<lambda>_. pingLoop w spec db n e))
        (\<lambda>(h, e) log'. pings log' \<le> pings log + Suc n \<and> (h \<noteq> None \<longrightarrow> h = Some db \<and> e = None) \<and>
           (h = None \<and> e = None \<longrightarrow> Suc n = 0 \<and> err = None)) log') log"
  proof (rule wp_mono [OF pingOnce_pings], goal_cases)
    case (1 e log1)
    show ?case
    proof (cases e)
      case None
      with 1 show ?thesis by (simp add: wp_rules)
    next
      case (Some x)
      have "wp (pingLoop w spec db n e)
         (\<lambda>(h, e) log'. pings log' \<le> pings log + Suc n \<and> (h \<noteq> None \<longrightarrow> h = Some db \<and> e = None) \<and>
           (h = None \<and> e = None \<longrightarrow> Suc n = 0 \<and> err = None)) (Sleep (PingTimeout spec) # log1)"
        by (rule wp_mono [OF Suc.IH]) (use 1 Some in auto)
      with Some show ?thesis by (simp add: wp_rules)
    qed
  qed
  then show ?case by (simp only: pingLoop.simps wp_bind)
qed

section \<open>Properties\<close>

text \<open>A row that \<open>hdbsql\<close> prints as comma separated quoted values (without inner quotes),
  unquoted values that start with a word character, and null markers is tokenized back into
  exactly these values.\<close>

theorem tokenize_roundtrip:
  assumes "list_all wf_token ts"
  shows "tokenize (joinWith '','' (map tokenText ts)) = ts"
  using assms by (rule tokenize_row)

lemma tokenize_roundtrip_witness:
  "tokenize (joinWith '','' (map tokenText [Bare ''1'', Quoted ''Doe, John'', NullTok])) =
     [Bare ''1'', Quoted ''Doe, John'', NullTok]"
  by (rule tokenize_roundtrip)
     (simp add: bareChar_def isWordChar_def isDigit_def codeOf_def)

text \<open>The loop \<open>for rows.Next()\<close> over the result of an \<open>hdbsql\<close> query ends, and its body
  reads every line of the output exactly once, in order, until it returns an error.\<close>

theorem cmd_rows_visited_once:
  "forRows (Next goNext) (\<lambda>q. ReadRow parseFloat zero goScan q dests) body (CmdRows rows (- 1)) s =
   Some (foldE body (map (\<lambda>row. parseIntoValues parseFloat zero row dests) rows) s)"
  using cmd_iter.forRows_foldE [of "CmdRows rows (- 1)" goNext parseFloat zero goScan dests body s]
  by simp

text \<open>An unquoted negative number loses its sign: no alternative of the pattern matches the
  minus sign, which is skipped, so the column is read as the absolute value.\<close>

theorem negative_number_sign_lost:
  "parseIntoValues parseFloat zero ''-5,-7'' [DInt64, DString] = ([VInt 5, VString ''7''], None)"
proof -
  have "tokenize ''-5,-7'' = [Bare ''5'', Bare ''7'']" by code_simp
  moreover have "parseInt64 (primitiveValue ''5'') = Some 5" by code_simp
  ultimately show ?thesis by (simp add: parseIntoValues_def)
qed

text \<open>\<open>CreateDBHandle\<close> pings at most \<open>MaxRetries + 1\<close> times, returns no error beside a handle,
  and returns neither handle nor error only when a negative \<open>MaxRetries\<close> lets it skip the
  pings altogether.\<close>

theorem CreateDBHandle_retries:
  assumes "PingSpec p = Some spec"
  shows "wp (CreateDBHandle w p) (connect_post (MaxRetries spec) 0) []"
proof -
  have loop: "wp (pingLoop w spec db (nat (MaxRetries spec + 1)) None)
      (connect_post (MaxRetries spec) 0) log" if "pings log = 0" for db log
    by (rule wp_mono [OF pingLoop_post]) (use that in \<open>auto simp: connect_post_def\<close>)
  show ?thesis
    using assms
    by (auto simp: CreateDBHandle_def NewGoDBHandle_def wp_rules loop split: sum.splits option.splits)
       (auto simp: connect_post_def loop)
qed

definition sampleWorld :: "unit db_world" where
  "sampleWorld =
     \<lparr>secret_env = \<lambda>_ _. Inr ''pw'', open_env = \<lambda>_ _. None, query_env = \<lambda>_ _. Inl ''down'',
      ping_env = \<lambda>_ _. Some ''down'', exec_env = \<lambda>log _. if log = [] then failResult ''down'' 1 else okResult []\<rparr>"

definition sampleParams :: db_params where
  "sampleParams =
     \<lparr>Username = ''u'', Password = [], PasswordSecret = [], Host = ''h'', Port = ''30015'',
      UserKey = ''KEY'', SID = ''HDB'', SSL = False, CertHost = [], CAFile = [], Project = ''p'',
      PingSpec = Some \<lparr>MaxRetries = 2, PingTimeout = 60, ps_impl = False\<rparr>\<rparr>"

lemma CreateDBHandle_retries_witness:
  "wp (CreateDBHandle sampleWorld sampleParams) (connect_post 2 0) []"
  using CreateDBHandle_retries [of sampleParams "\<lparr>MaxRetries = 2, PingTimeout = 60, ps_impl = False\<rparr>" sampleWorld]
  by (simp add: sampleParams_def)

lemma append_sep_eq:
  assumes "a @ c # x = b @ c # y" and "c \<notin> set a" and "c \<notin> set b"
  shows "a = b \<and> x = y"
  using assms
proof (induction a arbitrary: b)
  case Nil
  then show ?case by (cases b) auto
next
  case (Cons d a)
  then show ?case by (cases b) auto
qed

lemma queryEscape_no_at: "CHR ''@'' \<notin> set (queryEscape s)"
  using queryEscape_chars [of "CHR ''@''" s] by (auto simp: unreserved_def isDigit_def codeOf_def)

text \<open>The credentials of a data source name cannot be confused with its other parts: when
  user names contain no colon, equal data source names have equal user names and equal
  passwords, whatever the passwords, hosts and certificate paths contain.\<close>

theorem dataSource_credentials:
  assumes "dataSource p (queryEscape pw) = dataSource p' (queryEscape pw')"
    and "CHR '':'' \<notin> set (Username p)" and "CHR '':'' \<notin> set (Username p')"
  shows "Username p = Username p' \<and> pw = pw'"
proof -
  obtain r r' where "Username p @ CHR '':'' # queryEscape pw @ CHR ''@'' # r =
      Username p' @ CHR '':'' # queryEscape pw' @ CHR ''@'' # r'"
    using assms(1) by (auto simp: dataSource_def Let_def split: if_splits)
  from append_sep_eq [OF this assms(2,3)] have "Username p = Username p'"
    and "queryEscape pw @ CHR ''@'' # r = queryEscape pw' @ CHR ''@'' # r'" by auto
  with append_sep_eq [OF this(2) queryEscape_no_at queryEscape_no_at] show ?thesis
    using queryEscape_inj by blast
qed

lemma dataSource_credentials_witness:
  "dataSource (sampleParams\<lparr>Host := ''h2''\<rparr>) (queryEscape ''a@h:1'') \<noteq>
   dataSource sampleParams (queryEscape ''a'')"
proof
  assume e: "dataSource (sampleParams\<lparr>Host := ''h2''\<rparr>) (queryEscape ''a@h:1'') =
    dataSource sampleParams (queryEscape ''a'')"
  have "CHR '':'' \<notin> set (Username (sampleParams\<lparr>Host := ''h2''\<rparr>))" "CHR '':'' \<notin> set (Username sampleParams)"
    by (simp_all add: sampleParams_def)
  from dataSource_credentials [OF e this] show False by simp
qed

end
