(* ===== verification/RuleEngine.thy ===== *)
theory RuleEngine
  imports RuleValidation DatabaseConnector
begin

text \<open>
  \<open>internal/hanainsights/ruleengine/ruleengine.go\<close>: the queries of each rule fill a knowledge
  base, over which the triggers of the rule's recommendations are evaluated. The knowledge base
  is a map from \<open>query:column\<close> to the values read. A query is a call of the environment, answered
  by an error or by the rows of the result in the order in which \<open>Next\<close> visits them
  (\<open>DatabaseConnector\<close>); \<open>scan\<close> reads a row into a number of string columns, as \<open>ReadRow\<close> does.
  Floating point numbers are a type parameter with \<open>strconv.ParseFloat\<close> and the two comparisons.
\<close>

section \<open>Data\<close>

type_synonym knowledge_base = "string \<rightharpoonup> string list"
type_synonym insights = "string \<rightharpoonup> (string \<times> bool) list"

text \<open>A column pointer is a \<open>*string\<close> with its present value, or anything else.\<close>

datatype column = StrCol string | OtherCol

datatype engine_error = NoQuery | QueryFailed string | ScanFailed row_error

definition append_at :: "string \<Rightarrow> 'v list \<Rightarrow> (string \<rightharpoonup> 'v list) \<Rightarrow> (string \<rightharpoonup> 'v list)" where
  "append_at k vs m = m(k \<mapsto> (case m k of None \<Rightarrow> vs | Some old \<Rightarrow> old @ vs))"

section \<open>The knowledge base\<close>

definition createColumns :: "nat \<Rightarrow> column list" where
  "createColumns n = replicate n (StrCol [])"

definition addCell :: "query \<Rightarrow> column \<times> string \<Rightarrow> knowledge_base \<Rightarrow> knowledge_base" where
  "addCell q = (\<lambda>(col, name) kb.
     case col of
       StrCol val \<Rightarrow> append_at (kbKey (q_name q) name) [val] kb
     | OtherCol \<Rightarrow> append_at (kbKey (q_name q) name) [''nilstring''] kb)"

definition addRow :: "column list \<Rightarrow> query \<Rightarrow> knowledge_base \<Rightarrow> knowledge_base" where
  "addRow cols q kb = fold (addCell q) (zip cols (q_columns q)) kb"

definition QueryDatabase ::
  "(string, (string, 'row list) result) env \<Rightarrow> string \<Rightarrow> (string, (engine_error, 'row list) result) prog" where
  "QueryDatabase env sql =
     (if sql = [] then ret (Inl NoQuery)
      else do {
        r \<leftarrow> call env sql;
        ret (case r of Inl e \<Rightarrow> Inl (QueryFailed e) | Inr rows \<Rightarrow> Inr rows)
      })"

text \<open>The loop over the rows. A map is updated in place, so the rows added before an error stay;
  \<open>addRows\<close> returns the knowledge base beside the error.\<close>

fun addRows ::
  "('row \<Rightarrow> nat \<Rightarrow> (row_error, string list) result) \<Rightarrow> query \<Rightarrow> 'row list \<Rightarrow> knowledge_base
   \<Rightarrow> knowledge_base \<times> engine_error option" where
  "addRows scan q [] kb = (kb, None)"
| "addRows scan q (row # rows) kb =
     (case scan row (length (q_columns q)) of
        Inl e \<Rightarrow> (kb, Some (ScanFailed e))
      | Inr vals \<Rightarrow> addRows scan q rows (addRow (map StrCol vals) q kb))"

definition queryStep ::
  "(string, (string, 'row list) result) env \<Rightarrow> ('row \<Rightarrow> nat \<Rightarrow> (row_error, string list) result)
   \<Rightarrow> query \<Rightarrow> knowledge_base \<Rightarrow> (string, knowledge_base \<times> engine_error option) prog" where
  "queryStep env scan q kb = do {
     r \<leftarrow> QueryDatabase env (q_sql q);
     ret (case r of
            Inl e \<Rightarrow> (kb, Some e)
          | Inr rows \<Rightarrow>
              if rows = [] then (addRow (createColumns (length (q_columns q))) q kb, None)
              else addRows scan q rows kb)
   }"

primrec buildKnowledgeBase ::
  "(string, (string, 'row list) result) env \<Rightarrow> ('row \<Rightarrow> nat \<Rightarrow> (row_error, string list) result)
   \<Rightarrow> query list \<Rightarrow> knowledge_base \<Rightarrow> (string, knowledge_base \<times> engine_error option) prog" where
  "buildKnowledgeBase env scan [] kb = ret (kb, None)"
| "buildKnowledgeBase env scan (q # qs) kb = do {
     r \<leftarrow> queryStep env scan q kb;
     case r of
       (kb', err) \<Rightarrow>
         (case err of
            Some e \<Rightarrow> ret (kb', Some e)
          | None \<Rightarrow> buildKnowledgeBase env scan qs kb')
   }"

definition buildGlobalKnowledgeBase ::
  "(string, (string, 'row list) result) env \<Rightarrow> ('row \<Rightarrow> nat \<Rightarrow> (row_error, string list) result)
   \<Rightarrow> rule list \<Rightarrow> (string, knowledge_base) prog" where
  "buildGlobalKnowledgeBase env scan rules =
     (case find (\<lambda>r. rule_id r = ''knowledgebase'') rules of
        None \<Rightarrow> ret Map.empty
      | Some r \<Rightarrow> do {
          res \<leftarrow> buildKnowledgeBase env scan (rule_queries r) Map.empty;
          ret (fst res)
        })"

definition deepCopy :: "knowledge_base \<Rightarrow> knowledge_base" where
  "deepCopy gkb = (\<lambda>k. case gkb k of None \<Rightarrow> None | Some v \<Rightarrow> Some ([] @ v))"

section \<open>Evaluation\<close>

definition countRows :: "string list \<Rightarrow> nat" where
  "countRows s = length (filter (\<lambda>v. v \<noteq> ''nilstring'') s)"

text \<open>\<open>None\<close> is the error return.\<close>

definition insertFromKB :: "string \<Rightarrow> knowledge_base \<Rightarrow> string option" where
  "insertFromKB s kb =
     (case countKey s of
        Some k \<Rightarrow> (case kb k of Some vs \<Rightarrow> Some (natStr (countRows vs)) | None \<Rightarrow> None)
      | None \<Rightarrow>
          (case scalarKey s of
             Some (a, b) \<Rightarrow>
               (case kb (kbKey a b) of
                  Some vs \<Rightarrow> if length vs = 1 then Some (hd vs) else None
                | None \<Rightarrow> None)
           | None \<Rightarrow> Some s))"

record 'f floats =
  parse_float :: "string \<Rightarrow> 'f option"
  float_lt :: "'f \<Rightarrow> 'f \<Rightarrow> bool"
  float_le :: "'f \<Rightarrow> 'f \<Rightarrow> bool"

definition compareFloats :: "'f floats \<Rightarrow> eval_op \<Rightarrow> string \<Rightarrow> string \<Rightarrow> bool" where
  "compareFloats F op lhs rhs =
     (case parse_float F lhs of
        None \<Rightarrow> False
      | Some l \<Rightarrow>
          (case parse_float F rhs of
             None \<Rightarrow> False
           | Some r \<Rightarrow>
               (case op of
                  Op_LT \<Rightarrow> float_lt F l r
                | Op_LTE \<Rightarrow> float_le F l r
                | Op_GT \<Rightarrow> float_lt F r l
                | Op_GTE \<Rightarrow> float_le F r l
                | _ \<Rightarrow> False)))"

definition compare_leaf :: "'f floats \<Rightarrow> string \<Rightarrow> string \<Rightarrow> eval_op \<Rightarrow> knowledge_base \<Rightarrow> bool" where
  "compare_leaf F lhs rhs op kb =
     (case insertFromKB lhs kb of
        None \<Rightarrow> False
      | Some l \<Rightarrow>
          (case insertFromKB rhs kb of
             None \<Rightarrow> False
           | Some r \<Rightarrow>
               (case op of
                  Op_UNDEFINED \<Rightarrow> False
                | Op_EQ \<Rightarrow> l = r
                | Op_NEQ \<Rightarrow> l \<noteq> r
                | _ \<Rightarrow> compareFloats F op l r)))"

fun evaluateNode :: "'f floats \<Rightarrow> eval_node \<Rightarrow> knowledge_base \<Rightarrow> bool"
and evaluateOR :: "'f floats \<Rightarrow> eval_node list \<Rightarrow> knowledge_base \<Rightarrow> bool"
and evaluateAND :: "'f floats \<Rightarrow> eval_node list \<Rightarrow> knowledge_base \<Rightarrow> bool" where
  "evaluateNode F (EvalNode lhs rhs op children) kb =
     (if children = [] then compare_leaf F lhs rhs op kb
      else case op of
             Op_OR \<Rightarrow> evaluateOR F children kb
           | Op_AND \<Rightarrow> evaluateAND F children kb
           | _ \<Rightarrow> False)"
| "evaluateOR F [] kb = False"
| "evaluateOR F (c # cs) kb = (if evaluateNode F c kb then True else evaluateOR F cs kb)"
| "evaluateAND F [] kb = True"
| "evaluateAND F (c # cs) kb = (if \<not> evaluateNode F c kb then False else evaluateAND F cs kb)"

definition evaluateTrigger :: "'f floats \<Rightarrow> eval_node option \<Rightarrow> knowledge_base \<Rightarrow> bool" where
  "evaluateTrigger F t kb = (case t of None \<Rightarrow> False | Some n \<Rightarrow> evaluateNode F n kb)"

definition recResult :: "'f floats \<Rightarrow> knowledge_base \<Rightarrow> recommendation \<Rightarrow> string \<times> bool" where
  "recResult F kb r = (rec_id r, rec_force r \<or> evaluateTrigger F (rec_trigger r) kb)"

definition buildInsights :: "'f floats \<Rightarrow> rule \<Rightarrow> knowledge_base \<Rightarrow> insights \<Rightarrow> insights" where
  "buildInsights F r kb ins = fold (\<lambda>c ins. append_at (rule_id r) [recResult F kb c] ins) (rule_recs r) ins"

primrec runRules ::
  "'f floats \<Rightarrow> (string, (string, 'row list) result) env \<Rightarrow> ('row \<Rightarrow> nat \<Rightarrow> (row_error, string list) result)
   \<Rightarrow> knowledge_base \<Rightarrow> rule list \<Rightarrow> insights \<Rightarrow> (string, insights) prog" where
  "runRules F env scan gkb [] ins = ret ins"
| "runRules F env scan gkb (r # rs) ins = do {
     res \<leftarrow> buildKnowledgeBase env scan (rule_queries r) (deepCopy gkb);
     case res of
       (rkb, err) \<Rightarrow>
         (case err of
            Some _ \<Rightarrow> runRules F env scan gkb rs ins
          | None \<Rightarrow> runRules F env scan gkb rs (buildInsights F r rkb ins))
   }"

definition Run ::
  "'f floats \<Rightarrow> (string, (string, 'row list) result) env \<Rightarrow> ('row \<Rightarrow> nat \<Rightarrow> (row_error, string list) result)
   \<Rightarrow> rule list \<Rightarrow> (string, insights) prog" where
  "Run F env scan rules = do {
     gkb \<leftarrow> buildGlobalKnowledgeBase env scan rules;
     runRules F env scan gkb rules Map.empty
   }"

section \<open>Reading rows of hdbsql\<close>

text \<open>Scanning a row into \<open>n\<close> string columns.\<close>

definition cellStr :: "'f cell \<Rightarrow> string" where
  "cellStr v = (case v of VString s \<Rightarrow> s | _ \<Rightarrow> [])"

definition hdbsqlScan :: "string \<Rightarrow> nat \<Rightarrow> (row_error, string list) result" where
  "hdbsqlScan row n =
     (case parseIntoValues (\<lambda>_. None) () row (replicate n DString) of
        (vs, None) \<Rightarrow> Inr (map cellStr vs)
      | (_, Some e) \<Rightarrow> Inl e)"

text \<open>What the engine relies on: a row that is read without an error fills all the columns.\<close>

locale row_scanner =
  fixes scan :: "'row \<Rightarrow> nat \<Rightarrow> (row_error, string list) result"
  assumes scan_length: "scan row n = Inr vals \<Longrightarrow> length vals = n"

lemma parseTokens_length: "parseTokens pf z ts = (vs, None) \<Longrightarrow> length vs = length ts"
proof (induction ts arbitrary: vs)
  case (Cons td ts)
  obtain t d where "td = (t, d)" by force
  with Cons show ?case by (auto split: sum.splits prod.splits)
qed simp

interpretation hdbsql: row_scanner hdbsqlScan
  by unfold_locales
     (auto simp: hdbsqlScan_def parseIntoValues_def Let_def dest!: parseTokens_length
       split: prod.splits option.splits if_splits)

section \<open>The knowledge base grows\<close>

lemma append_at_dom [simp]: "dom (append_at k vs m) = insert k (dom m)"
  by (simp add: append_at_def)

lemma append_at_same: "append_at k vs m k = Some ((case m k of None \<Rightarrow> [] | Some old \<Rightarrow> old) @ vs)"
  by (simp add: append_at_def split: option.splits)

lemma append_at_other: "k' \<noteq> k \<Longrightarrow> append_at k vs m k' = m k'"
  by (simp add: append_at_def)

lemma addCell_dom: "dom (addCell q (col, name) kb) = insert (kbKey (q_name q) name) (dom kb)"
  by (simp add: addCell_def split: column.splits)

lemma addCells_dom:
  "dom (fold (addCell q) cells kb) = (\<lambda>c. kbKey (q_name q) (snd c)) ` set cells \<union> dom kb"
proof (induction cells arbitrary: kb)
  case (Cons c cells)
  obtain col name where "c = (col, name)" by force
  with Cons show ?case by (simp add: addCell_dom)
qed simp

lemma addRow_dom:
  assumes "length cols = length (q_columns q)"
  shows "dom (addRow cols q kb) = kbKey (q_name q) ` set (q_columns q) \<union> dom kb"
proof -
  have "(\<lambda>c. kbKey (q_name q) (snd c)) ` set (zip cols (q_columns q)) =
        kbKey (q_name q) ` set (map snd (zip cols (q_columns q)))"
    by (simp only: set_map image_image)
  with assms show ?thesis by (simp add: addRow_def addCells_dom)
qed

definition queryKeys :: "query list \<Rightarrow> string set" where
  "queryKeys qs = {kbKey (q_name q) col |q col. q \<in> set qs \<and> col \<in> set (q_columns q)}"

lemma queryKeys_Cons: "queryKeys (q # qs) = kbKey (q_name q) ` set (q_columns q) \<union> queryKeys qs"
  by (auto simp: queryKeys_def)

lemma queryKeys_Nil [simp]: "queryKeys [] = {}"
  by (simp add: queryKeys_def)

context row_scanner
begin

lemma addRows_dom:
  "addRows scan q rows kb = (kb', None) \<Longrightarrow> rows \<noteq> [] \<Longrightarrow>
   dom kb' = kbKey (q_name q) ` set (q_columns q) \<union> dom kb"
proof (induction rows arbitrary: kb)
  case (Cons row rows)
  from Cons.prems(1) obtain vals where vals: "scan row (length (q_columns q)) = Inr vals"
    and rest: "addRows scan q rows (addRow (map StrCol vals) q kb) = (kb', None)"
    by (auto split: sum.splits)
  have d: "dom (addRow (map StrCol vals) q kb) = kbKey (q_name q) ` set (q_columns q) \<union> dom kb"
    using scan_length [OF vals] by (simp add: addRow_dom)
  show ?case
  proof (cases "rows = []")
    case True
    with rest d show ?thesis by simp
  next
    case False
    with Cons.IH [OF rest] d show ?thesis by auto
  qed
qed simp

lemma queryStep_dom:
  "wp (queryStep env scan q kb)
     (\<lambda>(kb', err) _. err = None \<longrightarrow> dom kb' = kbKey (q_name q) ` set (q_columns q) \<union> dom kb) log"
  by (auto simp: queryStep_def QueryDatabase_def wp_rules addRow_dom createColumns_def addRows_dom
      split: sum.splits prod.splits)

lemma buildKnowledgeBase_dom:
  "wp (buildKnowledgeBase env scan qs kb)
     (\<lambda>(kb', err) _. err = None \<longrightarrow> dom kb' = queryKeys qs \<union> dom kb) log"
proof (induction qs arbitrary: kb log)
  case Nil
  then show ?case by (simp add: wp_rules)
next
  case (Cons q qs)
  show ?case
    unfolding buildKnowledgeBase.simps wp_bind
  proof (rule wp_mono [OF queryStep_dom], goal_cases)
    case (1 r log1)
    obtain kb1 err where r: "r = (kb1, err)" by force
    show ?case
    proof (cases err)
      case None
      show ?thesis
        unfolding r None by (simp, rule wp_mono [OF Cons.IH]) (use 1 r None in \<open>auto simp: queryKeys_Cons\<close>)
    next
      case (Some e)
      with r show ?thesis by (simp add: wp_rules)
    qed
  qed
qed

end

section \<open>The queries that are executed\<close>

lemma queryStep_log:
  "wp (queryStep env scan q kb)
     (\<lambda>(kb', err) log'. log' = (if q_sql q = [] then log else q_sql q # log) \<and>
        (q_sql q = [] \<longrightarrow> err \<noteq> None)) log"
  by (auto simp: queryStep_def QueryDatabase_def wp_rules split: sum.splits prod.splits)

definition executed_prefix ::
  "query list \<Rightarrow> string list \<Rightarrow> knowledge_base \<times> engine_error option \<Rightarrow> string list \<Rightarrow> bool" where
  "executed_prefix qs log r log' \<longleftrightarrow>
     (\<exists>k \<le> length qs. log' = rev (map q_sql (take k qs)) @ log \<and> (snd r = None \<longrightarrow> k = length qs))"

lemma buildKnowledgeBase_log:
  "wp (buildKnowledgeBase env scan qs kb) (executed_prefix qs log) log"
proof (induction qs arbitrary: kb log)
  case Nil
  then show ?case by (simp add: wp_rules executed_prefix_def)
next
  case (Cons q qs)
  show ?case
    unfolding buildKnowledgeBase.simps wp_bind
  proof (rule wp_mono [OF queryStep_log], goal_cases)
    case (1 r log1)
    obtain kb1 err where r: "r = (kb1, err)" by force
    show ?case
    proof (cases err)
      case None
      with 1 r have log1: "log1 = q_sql q # log" by (auto split: if_splits)
      have "executed_prefix (q # qs) log r2 log2" if "executed_prefix qs log1 r2 log2" for r2 log2
      proof -
        from that obtain k where "k \<le> length qs" "log2 = rev (map q_sql (take k qs)) @ log1"
          "snd r2 = None \<longrightarrow> k = length qs"
          by (auto simp: executed_prefix_def)
        then show ?thesis by (auto simp: executed_prefix_def log1 intro!: exI [of _ "Suc k"])
      qed
      then show ?thesis
        unfolding r None by (simp, rule wp_mono [OF Cons.IH]) blast
    next
      case (Some e)
      have "executed_prefix (q # qs) log (kb1, Some e) log1"
      proof (cases "q_sql q = []")
        case True
        then show ?thesis using 1 r by (auto simp: executed_prefix_def intro!: exI [of _ 0])
      next
        case False
        then show ?thesis using 1 r by (auto simp: executed_prefix_def intro!: exI [of _ 1])
      qed
      with r Some show ?thesis by (simp add: wp_rules)
    qed
  qed
qed

section \<open>Results of a run\<close>

lemma append_at_fold:
  "fold (\<lambda>c m. append_at k [f c] m) cs m k =
     (if cs = [] then m k else Some ((case m k of None \<Rightarrow> [] | Some old \<Rightarrow> old) @ map f cs))"
  by (induction cs arbitrary: m) (auto simp: append_at_same)

lemma append_at_fold_other: "k' \<noteq> k \<Longrightarrow> fold (\<lambda>c m. append_at k [f c] m) cs m k' = m k'"
  by (induction cs arbitrary: m) (auto simp: append_at_other)

lemma buildInsights_same:
  "ins (rule_id r) = None \<Longrightarrow>
   buildInsights F r kb ins (rule_id r) =
     (if rule_recs r = [] then None else Some (map (recResult F kb) (rule_recs r)))"
  by (simp add: buildInsights_def append_at_fold)

lemma buildInsights_other: "k \<noteq> rule_id r \<Longrightarrow> buildInsights F r kb ins k = ins k"
  by (simp add: buildInsights_def append_at_fold_other)

lemma deepCopy_id [simp]: "deepCopy gkb = gkb"
  by (rule ext) (simp add: deepCopy_def split: option.splits)

text \<open>The entry of a rule: none, or the evaluation of all its recommendations, in order, over the
  global knowledge base extended by the rule's own queries.\<close>

definition rule_entry ::
  "'f floats \<Rightarrow> (string, (string, 'row list) result) env \<Rightarrow> ('row \<Rightarrow> nat \<Rightarrow> (row_error, string list) result)
   \<Rightarrow> knowledge_base \<Rightarrow> rule \<Rightarrow> (string \<times> bool) list option \<Rightarrow> bool" where
  "rule_entry F env scan gkb r entry \<longleftrightarrow>
     (\<exists>log kb err. fst (run_state (buildKnowledgeBase env scan (rule_queries r) gkb) log) = (kb, err) \<and>
        entry = (if err \<noteq> None \<or> rule_recs r = [] then None
                 else Some (map (recResult F kb) (rule_recs r))))"

lemma runRules_entries:
  assumes "distinct (map rule_id rs)" and "\<forall>r \<in> set rs. ins (rule_id r) = None"
  shows "wp (runRules F env scan gkb rs ins)
     (\<lambda>ins' _. (\<forall>r \<in> set rs. rule_entry F env scan gkb r (ins' (rule_id r))) \<and>
        (\<forall>k. k \<notin> rule_id ` set rs \<longrightarrow> ins' k = ins k)) log"
  using assms
proof (induction rs arbitrary: ins log)
  case Nil
  then show ?case by (simp add: wp_rules)
next
  case (Cons r rs ins log)
  obtain kb err log1 where run:
    "run_state (buildKnowledgeBase env scan (rule_queries r) gkb) log = ((kb, err), log1)"
    by (metis surj_pair)
  define ins1 where "ins1 = (if err = None then buildInsights F r kb ins else ins)"
  have fresh: "\<forall>r' \<in> set rs. rule_id r' \<noteq> rule_id r" using Cons.prems(1) by (simp add: image_iff) metis
  have own: "rule_entry F env scan gkb r (ins1 (rule_id r))"
    unfolding rule_entry_def
    by (intro exI [of _ log] exI [of _ kb] exI [of _ err])
       (use run Cons.prems(2) in \<open>auto simp: ins1_def buildInsights_same\<close>)
  have "\<forall>r' \<in> set rs. ins1 (rule_id r') = None"
    using fresh Cons.prems(2) by (simp add: ins1_def buildInsights_other)
  from Cons.IH [OF _ this] Cons.prems(1)
  have "wp (runRules F env scan gkb rs ins1)
     (\<lambda>ins' _. (\<forall>r \<in> set rs. rule_entry F env scan gkb r (ins' (rule_id r))) \<and>
        (\<forall>k. k \<notin> rule_id ` set rs \<longrightarrow> ins' k = ins1 k)) log1" by simp
  then have "wp (runRules F env scan gkb rs ins1)
     (\<lambda>ins' _. (\<forall>r \<in> set (r # rs). rule_entry F env scan gkb r (ins' (rule_id r))) \<and>
        (\<forall>k. k \<notin> rule_id ` set (r # rs) \<longrightarrow> ins' k = ins k)) log1"
    by (rule wp_mono)
       (use own fresh Cons.prems(1) in \<open>auto simp: ins1_def buildInsights_other\<close>)
  then show ?case
    by (cases err) (simp_all add: ins1_def wp_bind_run [OF run] del: list.set)
qed

section \<open>Leaves of a trigger\<close>

fun leaves :: "eval_node \<Rightarrow> (string \<times> string) list" where
  "leaves (EvalNode lhs rhs op children) =
     (if children = [] then [(lhs, rhs)] else concat (map leaves children))"

lemma well_formed_leaves:
  "well_formed_trigger keys n \<Longrightarrow> (lhs, rhs) \<in> set (leaves n) \<Longrightarrow>
   \<forall>k. reference lhs = Some k \<or> reference rhs = Some k \<longrightarrow> k \<in> keys"
  by (induction n rule: leaves.induct) (auto split: if_splits)

lemma insertFromKB_resolves:
  assumes "\<forall>k. reference s = Some k \<longrightarrow> k \<in> dom kb"
  shows "insertFromKB s kb = None \<longleftrightarrow>
    countKey s = None \<and> (\<exists>a b. scalarKey s = Some (a, b) \<and> length (the (kb (kbKey a b))) \<noteq> 1)"
  using assms by (auto simp: insertFromKB_def reference_def split: option.splits)

section \<open>Properties\<close>

text \<open>C38. No reference of a validated rule dangles when its queries were all run by \<open>hdbsql\<close> without an error, over a
  global knowledge base that has at least the columns the rule was validated against: then a side of a leaf condition
  fails to resolve only if it is a scalar reference to a column that does not have exactly one value. A global knowledge
  base that lacks one of these columns, and rows scanned by the driver, are not covered.\<close>

theorem validated_references_resolve:
  assumes valid: "fst (validateRule r ids kbkeys) = None" and gkb: "kbkeys \<subseteq> dom gkb"
    and run: "fst (run_state (buildKnowledgeBase env hdbsqlScan (rule_queries r) gkb) log) = (kb, None)"
    and leaf: "c \<in> set (rule_recs r)" "rec_trigger c = Some n" "(lhs, rhs) \<in> set (leaves n)"
    and side: "s = lhs \<or> s = rhs"
  shows "insertFromKB s kb = None \<longleftrightarrow>
    countKey s = None \<and> (\<exists>a b. scalarKey s = Some (a, b) \<and> length (the (kb (kbKey a b))) \<noteq> 1)"
proof (rule insertFromKB_resolves)
  have "dom kb = queryKeys (rule_queries r) \<union> dom gkb"
    using hdbsql.buildKnowledgeBase_dom [of env "rule_queries r" gkb log] run
    by (auto simp: wp_def split: prod.splits)
  moreover have "buildQueryNameToCols r = queryKeys (rule_queries r)"
    by (simp only: buildQueryNameToCols_eq queryKeys_def)
  moreover have "well_formed_trigger (buildQueryNameToCols r \<union> kbkeys) n"
    using valid leaf(1,2) by (auto simp: validateRule_None_iff well_formed_rule_def well_formed_rec_def)
  ultimately show "\<forall>k. reference s = Some k \<longrightarrow> k \<in> dom kb"
    using well_formed_leaves [OF _ leaf(3)] side gkb by blast
qed

definition oneRowEnv :: "(string, (string, string list) result) env" where
  "oneRowEnv log sql = Inr [''7'']"

lemma validated_references_resolve_witness:
  "insertFromKB ''q1:c'' (fst (fst (run_state (buildKnowledgeBase oneRowEnv hdbsqlScan
      (rule_queries (sampleRule ''a'' ''q1:c'')) Map.empty) []))) \<noteq> None"
proof -
  let ?r = "sampleRule ''a'' ''q1:c''"
  let ?res = "fst (run_state (buildKnowledgeBase oneRowEnv hdbsqlScan (rule_queries ?r) Map.empty) [])"
  have v: "fst (validateRule ?r {} {}) = None" by code_simp
  have e: "snd ?res = None" by code_simp
  have len: "length (the (fst ?res ''q1:c'')) = 1" by code_simp
  have sk: "scalarKey ''q1:c'' = Some (''q1'', ''c'')" by code_simp
  have run: "?res = (fst ?res, None)" by (metis e prod.collapse)
  have rc: "hd (rule_recs ?r) \<in> set (rule_recs ?r)"
    and tr: "rec_trigger (hd (rule_recs ?r)) = Some (EvalNode ''q1:c'' ''1'' Op_EQ [])"
    by (simp_all add: sampleRule_def)
  have lf: "(''q1:c'', ''1'') \<in> set (leaves (EvalNode ''q1:c'' ''1'' Op_EQ []))" by simp
  from validated_references_resolve [OF v empty_subsetI run rc tr lf disjI1 [OF refl]]
  show ?thesis using len sk by (auto simp: kbKey_def)
qed

text \<open>The queries of a rule are sent to the database in the given order, each at most once, up
  to the first that fails; without an error all of them have been sent.\<close>

theorem queries_sent_in_order:
  "wp (buildKnowledgeBase env scan qs kb) (executed_prefix qs log) log"
  by (rule buildKnowledgeBase_log)

text \<open>A run over rules with distinct ids reports nothing but these rules; for each it reports
  one result per recommendation, in order, evaluated over the global knowledge base and the
  rule's own query results, or nothing when one of its queries failed.\<close>

theorem Run_entries:
  assumes "distinct (map rule_id rules)"
  shows "wp (Run F env scan rules)
    (\<lambda>ins _. dom ins \<subseteq> rule_id ` set rules \<and>
       (\<exists>gkb. \<forall>r \<in> set rules. rule_entry F env scan gkb r (ins (rule_id r)))) log"
  unfolding Run_def wp_bind
proof (rule wpI)
  fix gkb log1
  show "wp (runRules F env scan gkb rules Map.empty)
    (\<lambda>ins _. dom ins \<subseteq> rule_id ` set rules \<and>
       (\<exists>gkb. \<forall>r \<in> set rules. rule_entry F env scan gkb r (ins (rule_id r)))) log1"
    by (rule wp_mono [OF runRules_entries]) (use assms in \<open>auto simp: domIff\<close>)
qed

definition noFloats :: "unit floats" where
  "noFloats = \<lparr>parse_float = \<lambda>_. None, float_lt = \<lambda>_ _. False, float_le = \<lambda>_ _. False\<rparr>"

lemma Run_entries_witness:
  "dom (fst (run_state (Run noFloats oneRowEnv hdbsqlScan [sampleRule ''a'' ''q1:c'']) [])) \<subseteq> {''a''}"
  using Run_entries [of "[sampleRule ''a'' ''q1:c'']" noFloats oneRowEnv hdbsqlScan "[]"]
  by (simp add: wp_def sampleRule_def split: prod.splits)

text \<open>A query without rows adds an empty string, not the marker \<open>nilstring\<close> that the comment
  in the loop announces, so \<open>count()\<close> of its column is 1 although no row was returned.\<close>

theorem zero_rows_counted_as_one:
  assumes "q_columns q = [col]" and "q_sql q \<noteq> []" and "kb (kbKey (q_name q) col) = None"
    and "CHR '')'' \<notin> set (kbKey (q_name q) col)"
  shows "\<exists>kb'. fst (run_state (queryStep (\<lambda>_ _. Inr []) scan q kb) log) = (kb', None) \<and>
     insertFromKB (''count('' @ kbKey (q_name q) col @ '')'') kb' = Some ''1''"
proof -
  let ?k = "kbKey (q_name q) col"
  have c: "countKey (''count('' @ ?k @ '')'') = Some ?k"
    unfolding countKey_iff using assms(4) by (simp add: kbKey_def)
  have "fst (run_state (queryStep (\<lambda>_ _. Inr []) scan q kb) log) = (kb(?k \<mapsto> [[]]), None)"
    using assms(1-3)
    by (simp add: queryStep_def QueryDatabase_def run_state_bind createColumns_def addRow_def
        addCell_def append_at_def)
  moreover have "natStr 1 = ''1''" by code_simp
  ultimately show ?thesis using c by (simp add: insertFromKB_def countRows_def)
qed

lemma zero_rows_counted_as_one_witness:
  "\<exists>kb'. fst (run_state (queryStep (\<lambda>_ _. Inr []) hdbsqlScan (mkQuery ''q1'' []) Map.empty) []) = (kb', None) \<and>
     insertFromKB ''count(q1:c)'' kb' = Some ''1''"
  using zero_rows_counted_as_one [of "mkQuery ''q1'' []" "''c''" Map.empty hdbsqlScan "[]"]
  by (simp add: mkQuery_def kbKey_def)

end
