(* ===== verification/BackintConfig.thy ===== *)
theory BackintConfig
  imports GoStrings
begin

text \<open>
  \<open>internal/backint/configuration/configuration.go\<close>: reading, validating and completing the
  configuration of the Backint backup client. The message \<open>BackintConfiguration\<close> is a record of
  the fields the Go code uses; its 64-bit integers are \<open>int\<close>, since the code only compares them.
  \<open>protojson\<close> and \<open>proto.Merge\<close> are third-party code and are the parameters \<open>unmarshalJson\<close>,
  \<open>marshalJson\<close> and \<open>merge\<close>; reading and writing files are calls of the environment.
\<close>

section \<open>Data\<close>

datatype log_level = LogUnspecified | LogDebug | LogInfo | LogWarning | LogError
datatype zap_level = DebugLevel | InfoLevel | WarnLevel | ErrorLevel
datatype backint_function = FnUnspecified | FnBackup | FnRestore | FnInquire | FnDelete | FnDiagnose
datatype storage_class = ClassUnspecified | ClassStandard | ClassNearline | ClassColdline | ClassArchive

record backint_config =
  bucket :: string
  retries :: int
  parallel_streams :: int
  threads :: int
  buffer_size_mb :: int
  encryption_key :: string
  compress :: bool
  kms_key :: string
  service_account_key :: string
  rate_limit_mb :: int
  file_read_timeout_ms :: int
  dump_data :: bool
  log_level :: log_level
  user_id :: string
  bfunction :: backint_function
  input_file :: string
  output_file :: string
  param_file :: string
  backup_id :: string
  database_object_count :: int
  backup_level :: string
  log_delay_sec :: int
  log_to_cloud :: "bool option"
  recovery_bucket :: string
  folder_prefix :: string
  recovery_folder_prefix :: string
  xml_multipart_upload :: bool
  bstorage_class :: storage_class
  bmetadata :: "(string \<times> string) list option"
  send_metrics :: "bool option"
  shorten_folder_path :: bool
  custom_time :: string
  parallel_recovery_streams :: int
  object_retention_mode :: string
  object_retention_time :: string

definition zeroConfig :: backint_config where
  "zeroConfig =
     \<lparr>bucket = [], retries = 0, parallel_streams = 0, threads = 0, buffer_size_mb = 0,
      encryption_key = [], compress = False, kms_key = [], service_account_key = [],
      rate_limit_mb = 0, file_read_timeout_ms = 0, dump_data = False, log_level = LogUnspecified,
      user_id = [], bfunction = FnUnspecified, input_file = [], output_file = [], param_file = [],
      backup_id = [], database_object_count = 0, backup_level = [], log_delay_sec = 0,
      log_to_cloud = None, recovery_bucket = [], folder_prefix = [], recovery_folder_prefix = [],
      xml_multipart_upload = False, bstorage_class = ClassUnspecified, bmetadata = None,
      send_metrics = None, shorten_folder_path = False, custom_time = [],
      parallel_recovery_streams = 0, object_retention_mode = [], object_retention_time = []\<rparr>"

text \<open>\<open>Parameters\<close>: the command line arguments and the configuration under construction.\<close>

record bparams =
  User :: string
  Function :: string
  InFile :: string
  OutFile :: string
  ParamFile :: string
  BackupID :: string
  BackupLevel :: string
  ObjCount :: int

datatype bcfg_error =
    UserMissing
  | ParamFileMissing
  | FunctionMissing
  | FunctionInvalid
  | ReadFailed string
  | EmptyFile
  | JsonError string
  | EmptyValue string
  | NotInt64 string
  | BucketMissing
  | BucketInvalid string
  | RecoveryBucketInvalid string
  | TwoKeys
  | CompressedParallelBackup
  | EncryptedParallelBackup
  | CompressedParallelRestore
  | RetentionModeInvalid
  | RetentionIncomplete

datatype bcfg_call = ReadFile string | WriteFile string string | Chmod string

section \<open>Arguments\<close>

definition LogLevelToZapcore :: "log_level \<Rightarrow> zap_level" where
  "LogLevelToZapcore level =
     (case level of
        LogDebug \<Rightarrow> DebugLevel
      | LogInfo \<Rightarrow> InfoLevel
      | LogWarning \<Rightarrow> WarnLevel
      | LogError \<Rightarrow> ErrorLevel
      | LogUnspecified \<Rightarrow> InfoLevel)"

text \<open>\<open>bpb.LogLevel_value\<close> and \<open>bpb.Function_value\<close>; an unknown name reads as 0.\<close>

definition logLevelOf :: "string \<Rightarrow> log_level" where
  "logLevelOf s =
     (if s = ''DEBUG'' then LogDebug else if s = ''INFO'' then LogInfo
      else if s = ''WARNING'' then LogWarning else if s = ''ERROR'' then LogError
      else LogUnspecified)"

definition BackintFunction :: "string \<Rightarrow> backint_function" where
  "BackintFunction f =
     (let u = toUpper f
      in if u = ''BACKUP'' then FnBackup else if u = ''RESTORE'' then FnRestore
         else if u = ''INQUIRE'' then FnInquire else if u = ''DELETE'' then FnDelete
         else if u = ''DIAGNOSE'' then FnDiagnose else FnUnspecified)"

definition parseCommandLineArgs :: "bparams \<Rightarrow> (bcfg_error, backint_config) result" where
  "parseCommandLineArgs p =
     (if User p = [] then Inl UserMissing
      else if ParamFile p = [] then Inl ParamFileMissing
      else if Function p = [] then Inl FunctionMissing
      else
        let function = BackintFunction (Function p)
        in if function = FnUnspecified then Inl FunctionInvalid
           else Inr (zeroConfig\<lparr>user_id := User p, input_file := InFile p, output_file := OutFile p,
              param_file := ParamFile p, backup_id := BackupID p, database_object_count := ObjCount p,
              backup_level := BackupLevel p, bfunction := function\<rparr>))"

section \<open>The parameters file\<close>

definition setInt64 ::
  "string \<Rightarrow> string \<Rightarrow> (int \<Rightarrow> backint_config \<Rightarrow> backint_config)
   \<Rightarrow> (bcfg_error, backint_config \<Rightarrow> backint_config) result" where
  "setInt64 name v upd = (case parseInt64 v of None \<Rightarrow> Inl (NotInt64 name) | Some i \<Rightarrow> Inr (upd i))"

text \<open>One line of a legacy \<open>.txt\<close> file: an error, or the assignment it makes. Only the three lines
  that are exactly a flag may lack a value, so \<open>split[1]\<close> is always there when it is read.\<close>

definition legacyUpdate :: "string \<Rightarrow> (bcfg_error, backint_config \<Rightarrow> backint_config) result" where
  "legacyUpdate line =
     (if line = [] then Inr id
      else
        let split = splitN2 chSpace line; key = split ! 0; v = split ! 1
        in if length split < 2 \<and> line \<notin> {''#DISABLE_COMPRESSION'', ''#DUMP_DATA'', ''#DISABLE_CLOUD_LOGGING''}
           then Inl (EmptyValue line)
           else if key = ''#DISABLE_COMPRESSION'' then Inr (\<lambda>c. c\<lparr>compress := False\<rparr>)
           else if key = ''#DISABLE_CLOUD_LOGGING'' then Inr (\<lambda>c. c\<lparr>log_to_cloud := Some False\<rparr>)
           else if key = ''#DUMP_DATA'' then Inr (\<lambda>c. c\<lparr>dump_data := True\<rparr>)
           else if key = ''#BUCKET'' then Inr (\<lambda>c. c\<lparr>bucket := v\<rparr>)
           else if key = ''#SERVICE_ACCOUNT'' then Inr (\<lambda>c. c\<lparr>service_account_key := v\<rparr>)
           else if key = ''#ENCRYPTION_KEY'' then Inr (\<lambda>c. c\<lparr>encryption_key := v\<rparr>)
           else if key = ''#KMS_KEY_NAME'' then Inr (\<lambda>c. c\<lparr>kms_key := v\<rparr>)
           else if key = ''#LOG_LEVEL'' then Inr (\<lambda>c. c\<lparr>log_level := logLevelOf v\<rparr>)
           else if key = ''#READ_IDLE_TIMEOUT'' then setInt64 key v (\<lambda>i c. c\<lparr>file_read_timeout_ms := i\<rparr>)
           else if key = ''#CHUNK_SIZE_MB'' then setInt64 key v (\<lambda>i c. c\<lparr>buffer_size_mb := i\<rparr>)
           else if key = ''#RATE_LIMIT_MB'' then setInt64 key v (\<lambda>i c. c\<lparr>rate_limit_mb := i\<rparr>)
           else if key = ''#MAX_GCS_RETRY'' then setInt64 key v (\<lambda>i c. c\<lparr>retries := i\<rparr>)
           else if key = ''#PARALLEL_FACTOR'' then setInt64 key v (\<lambda>i c. c\<lparr>parallel_streams := i\<rparr>)
           else if key = ''#THREADS'' then setInt64 key v (\<lambda>i c. c\<lparr>threads := i\<rparr>)
           else Inr id)"

definition legacyLine :: "string \<Rightarrow> backint_config \<Rightarrow> (bcfg_error, backint_config) result" where
  "legacyLine line c = (case legacyUpdate line of Inl e \<Rightarrow> Inl e | Inr upd \<Rightarrow> Inr (upd c))"

definition Unmarshal ::
  "(string \<Rightarrow> (string, backint_config) result) \<Rightarrow> string \<Rightarrow> string \<Rightarrow> (bcfg_error, backint_config) result" where
  "Unmarshal unmarshalJson parameterFile content =
     (if hasSuffix parameterFile ''.json'' then
        (case unmarshalJson content of Inl e \<Rightarrow> Inl (JsonError e) | Inr c \<Rightarrow> Inr c)
      else foldE legacyLine (splitOn chNL content)
             (zeroConfig\<lparr>compress := True, log_to_cloud := Some True\<rparr>))"

definition bad_bucket :: "string \<Rightarrow> bool" where
  "bad_bucket b \<longleftrightarrow> contains b ''/'' \<or> hasPrefix b ''gs:''"

definition validateParameters :: "backint_config \<Rightarrow> bcfg_error option" where
  "validateParameters c =
     (if bucket c = [] then Some BucketMissing
      else if bad_bucket (bucket c) then Some (BucketInvalid (bucket c))
      else if recovery_bucket c \<noteq> [] \<and> bad_bucket (recovery_bucket c)
        then Some (RecoveryBucketInvalid (recovery_bucket c))
      else if encryption_key c \<noteq> [] \<and> kms_key c \<noteq> [] then Some TwoKeys
      else if bfunction c = FnBackup \<and> (parallel_streams c > 1 \<or> xml_multipart_upload c) \<and> compress c
        then Some CompressedParallelBackup
      else if bfunction c = FnBackup \<and> (parallel_streams c > 1 \<or> xml_multipart_upload c) \<and>
          (encryption_key c \<noteq> [] \<or> kms_key c \<noteq> [])
        then Some EncryptedParallelBackup
      else if bfunction c = FnRestore \<and> parallel_recovery_streams c > 1 \<and> compress c
        then Some CompressedParallelRestore
      else if object_retention_mode c \<noteq> [] \<and> object_retention_mode c \<noteq> ''Unlocked'' \<and>
          object_retention_mode c \<noteq> ''Locked''
        then Some RetentionModeInvalid
      else if (object_retention_time c \<noteq> [] \<and> object_retention_mode c = []) \<or>
          (object_retention_time c = [] \<and> object_retention_mode c \<noteq> [])
        then Some RetentionIncomplete
      else None)"

text \<open>For a restore, the recovery bucket and prefix replace the regular ones.\<close>

definition overrideForRestore :: "backint_config \<Rightarrow> backint_config" where
  "overrideForRestore c =
     (if bfunction c = FnRestore then
        (if recovery_bucket c \<noteq> [] then
           c\<lparr>bucket := recovery_bucket c, folder_prefix := recovery_folder_prefix c\<rparr>
         else if recovery_folder_prefix c \<noteq> [] then c\<lparr>folder_prefix := recovery_folder_prefix c\<rparr>
         else c)
      else c)"

text \<open>The errors of writing the file are only logged.\<close>

definition marshalLegacyParameters ::
  "(backint_config \<Rightarrow> string) \<Rightarrow> string \<Rightarrow> backint_config \<Rightarrow> (bcfg_call, unit) prog" where
  "marshalLegacyParameters marshalJson parameterFile config =
     (let configPath = trimSuffix parameterFile ''.txt'' @ ''.json''
      in do {
        _ \<leftarrow> call (\<lambda>_ _. ()) (WriteFile configPath (marshalJson config));
        _ \<leftarrow> call (\<lambda>_ _. ()) (Chmod configPath);
        ret ()
      })"

record bcfg_lib =
  unmarshalJson :: "string \<Rightarrow> (string, backint_config) result"
  marshalJson :: "backint_config \<Rightarrow> string"
  merge :: "backint_config \<Rightarrow> backint_config \<Rightarrow> backint_config"

text \<open>The configuration is mutated in place, so it is returned beside the error.\<close>

definition readParametersFile ::
  "bcfg_lib \<Rightarrow> (bcfg_call, (string, string) result) env \<Rightarrow> string \<Rightarrow> backint_config
   \<Rightarrow> (bcfg_call, backint_config \<times> bcfg_error option) prog" where
  "readParametersFile lib read paramFile c = do {
     r \<leftarrow> call read (ReadFile paramFile);
     case r of
       Inl e \<Rightarrow> ret (c, Some (ReadFailed e))
     | Inr content \<Rightarrow>
         (if content = [] then ret (c, Some EmptyFile)
          else case Unmarshal (unmarshalJson lib) paramFile content of
            Inl e \<Rightarrow> ret (c, Some e)
          | Inr config \<Rightarrow>
              (let c' = overrideForRestore (merge lib c config)
               in case validateParameters c' of
                    Some e \<Rightarrow> ret (c', Some e)
                  | None \<Rightarrow>
                      (if hasSuffix paramFile ''.txt'' then do {
                         _ \<leftarrow> marshalLegacyParameters (marshalJson lib) paramFile config;
                         ret (c', None)
                       } else ret (c', None))))
   }"

section \<open>Defaults\<close>

text \<open>Each \<open>if cond { field = v }\<close> of the code is a record update with a conditional value.\<close>

definition defaultStreams :: "backint_config \<Rightarrow> backint_config" where
  "defaultStreams c =
     (let c1 = c\<lparr>parallel_streams :=
            if parallel_streams c \<le> 0 \<and> xml_multipart_upload c then 16 else parallel_streams c\<rparr>;
          c2 = c1\<lparr>parallel_streams := if parallel_streams c1 \<le> 0 then 1 else parallel_streams c1\<rparr>;
          c3 = c2\<lparr>parallel_streams := if parallel_streams c2 > 32 then 32 else parallel_streams c2\<rparr>
      in c3\<lparr>parallel_recovery_streams :=
            if parallel_recovery_streams c3 > 32 then 32 else parallel_recovery_streams c3\<rparr>)"

definition defaultThreads :: "int \<Rightarrow> backint_config \<Rightarrow> backint_config" where
  "defaultThreads numCPU c =
     (let c1 = c\<lparr>threads :=
            if threads c \<le> 0 then (if numCPU > 64 then 64 else numCPU) else threads c\<rparr>
      in c1\<lparr>threads := if threads c1 > 64 then 64 else threads c1\<rparr>)"

definition defaultLimits :: "backint_config \<Rightarrow> backint_config" where
  "defaultLimits c =
     (let c1 = c\<lparr>buffer_size_mb := if buffer_size_mb c \<le> 0 then 100 else buffer_size_mb c\<rparr>;
          c2 = c1\<lparr>buffer_size_mb := if buffer_size_mb c1 > 250 then 250 else buffer_size_mb c1\<rparr>;
          c3 = c2\<lparr>rate_limit_mb := if rate_limit_mb c2 \<le> 0 then 0 else rate_limit_mb c2\<rparr>
      in c3\<lparr>file_read_timeout_ms :=
            if file_read_timeout_ms c3 \<le> 0 then 60000 else file_read_timeout_ms c3\<rparr>)"

definition withSlash :: "string \<Rightarrow> string" where
  "withSlash s = (if s \<noteq> [] \<and> \<not> hasSuffix s ''/'' then s @ ''/'' else s)"

definition defaultFiles :: "backint_config \<Rightarrow> backint_config" where
  "defaultFiles c =
     (let c1 = c\<lparr>input_file := if input_file c = [] then ''/dev/stdin'' else input_file c\<rparr>;
          c2 = c1\<lparr>output_file := if output_file c1 = [] then ''/dev/stdout'' else output_file c1\<rparr>;
          c3 = c2\<lparr>folder_prefix := withSlash (folder_prefix c2)\<rparr>
      in c3\<lparr>log_level := if log_level c3 = LogUnspecified then LogInfo else log_level c3\<rparr>)"

definition ApplyDefaults :: "int \<Rightarrow> backint_config \<Rightarrow> backint_config" where
  "ApplyDefaults numCPU c =
     (let c1 = c\<lparr>log_to_cloud := if log_to_cloud c = None then Some True else log_to_cloud c\<rparr>;
          c2 = c1\<lparr>send_metrics := if send_metrics c1 = None then Some True else send_metrics c1\<rparr>;
          c3 = c2\<lparr>retries := if retries c2 \<le> 0 then 5 else retries c2\<rparr>
      in defaultFiles (defaultLimits (defaultThreads numCPU (defaultStreams c3))))"

section \<open>The whole\<close>

definition readEncryptionKeyFromFile ::
  "(bcfg_call, (string, string) result) env \<Rightarrow> backint_config
   \<Rightarrow> (bcfg_call, backint_config \<times> bcfg_error option) prog" where
  "readEncryptionKeyFromFile read c = do {
     r \<leftarrow> call read (ReadFile (encryption_key c));
     ret (case r of
            Inl e \<Rightarrow> (c, Some (ReadFailed e))
          | Inr data \<Rightarrow> (c\<lparr>encryption_key := trimSuffix data [chNL]\<rparr>, None))
   }"

definition ParseArgsAndValidateConfig ::
  "bcfg_lib \<Rightarrow> (bcfg_call, (string, string) result) env \<Rightarrow> (bcfg_call, (string, string) result) env
   \<Rightarrow> int \<Rightarrow> bparams \<Rightarrow> backint_config \<Rightarrow> (bcfg_call, backint_config \<times> bcfg_error option) prog" where
  "ParseArgsAndValidateConfig lib readConfig readKey numCPU p c0 =
     (case parseCommandLineArgs p of
        Inl e \<Rightarrow> ret (c0, Some e)
      | Inr c \<Rightarrow> do {
          r \<leftarrow> readParametersFile lib readConfig (ParamFile p) c;
          case r of
            (c1, err) \<Rightarrow>
              (case err of
                 Some e \<Rightarrow> ret (c1, Some e)
               | None \<Rightarrow>
                   (let c2 = ApplyDefaults numCPU c1
                    in if encryption_key c2 \<noteq> [] then readEncryptionKeyFromFile readKey c2
                       else ret (c2, None)))
        })"

definition GetLogParameters ::
  "bcfg_lib \<Rightarrow> (bcfg_call, (string, string) result) env \<Rightarrow> string \<Rightarrow> (bcfg_call, bool \<times> zap_level) prog" where
  "GetLogParameters lib readConfig paramFile = do {
     r \<leftarrow> readParametersFile lib readConfig paramFile zeroConfig;
     let c = (if log_to_cloud (fst r) = None then (fst r)\<lparr>log_to_cloud := Some True\<rparr> else fst r);
     ret (log_to_cloud c = Some True, LogLevelToZapcore (log_level c))
   }"

definition ConfigToPrint :: "backint_config \<Rightarrow> backint_config" where
  "ConfigToPrint config =
     (let c1 = (if encryption_key config \<noteq> [] then config\<lparr>encryption_key := ''***''\<rparr> else config);
          c2 = (if kms_key c1 \<noteq> [] then c1\<lparr>kms_key := ''***''\<rparr> else c1)
      in if service_account_key c2 \<noteq> [] then c2\<lparr>service_account_key := ''***''\<rparr> else c2)"

section \<open>Lemmas on the defaults\<close>

text \<open>What \<open>ApplyDefaults\<close> promises of every field it touches.\<close>

definition complete_config :: "int \<Rightarrow> backint_config \<Rightarrow> bool" where
  "complete_config numCPU c \<longleftrightarrow>
     log_to_cloud c \<noteq> None \<and> send_metrics c \<noteq> None \<and> 1 \<le> retries c \<and>
     1 \<le> parallel_streams c \<and> parallel_streams c \<le> 32 \<and> parallel_recovery_streams c \<le> 32 \<and>
     (0 < threads c \<or> threads c = numCPU) \<and> threads c \<le> 64 \<and>
     1 \<le> buffer_size_mb c \<and> buffer_size_mb c \<le> 250 \<and> 0 \<le> rate_limit_mb c \<and>
     1 \<le> file_read_timeout_ms c \<and> input_file c \<noteq> [] \<and> output_file c \<noteq> [] \<and>
     (folder_prefix c = [] \<or> hasSuffix (folder_prefix c) ''/'') \<and> log_level c \<noteq> LogUnspecified"

lemma hasSuffix_snoc [simp]: "hasSuffix (s @ p) p"
  by (auto simp: hasSuffix_iff)

text \<open>Each group of defaults changes only its own fields.\<close>

lemma defaultStreams_eq:
  "defaultStreams c = c\<lparr>parallel_streams :=
      (if parallel_streams c \<le> 0 then (if xml_multipart_upload c then 16 else 1)
       else min 32 (parallel_streams c)),
      parallel_recovery_streams := min 32 (parallel_recovery_streams c)\<rparr>"
  by (simp add: defaultStreams_def Let_def)

lemma defaultThreads_eq:
  "defaultThreads n c = c\<lparr>threads := min 64 (if threads c \<le> 0 then n else threads c)\<rparr>"
  by (simp add: defaultThreads_def Let_def)

lemma defaultLimits_eq:
  "defaultLimits c = c\<lparr>
      buffer_size_mb := (if buffer_size_mb c \<le> 0 then 100 else min 250 (buffer_size_mb c)),
      rate_limit_mb := max 0 (rate_limit_mb c),
      file_read_timeout_ms := (if file_read_timeout_ms c \<le> 0 then 60000 else file_read_timeout_ms c)\<rparr>"
  by (simp add: defaultLimits_def Let_def)

lemma defaultFiles_eq:
  "defaultFiles c = c\<lparr>
      input_file := (if input_file c = [] then ''/dev/stdin'' else input_file c),
      output_file := (if output_file c = [] then ''/dev/stdout'' else output_file c),
      folder_prefix := withSlash (folder_prefix c),
      log_level := (if log_level c = LogUnspecified then LogInfo else log_level c)\<rparr>"
  by (simp add: defaultFiles_def Let_def)

lemma ApplyDefaults_eq:
  "ApplyDefaults n c = defaultFiles (defaultLimits (defaultThreads n (defaultStreams (c\<lparr>
      log_to_cloud := (if log_to_cloud c = None then Some True else log_to_cloud c),
      send_metrics := (if send_metrics c = None then Some True else send_metrics c),
      retries := (if retries c \<le> 0 then 5 else retries c)\<rparr>))))"
  by (simp add: ApplyDefaults_def Let_def)

lemmas defaults_eq = defaultStreams_eq defaultThreads_eq defaultLimits_eq defaultFiles_eq

lemma withSlash_ok: "withSlash s = [] \<or> hasSuffix (withSlash s) ''/''"
  by (simp add: withSlash_def)

lemma withSlash_idem [simp]: "withSlash (withSlash s) = withSlash s"
  by (simp add: withSlash_def)

lemma ApplyDefaults_complete: "complete_config n (ApplyDefaults n c)"
  using withSlash_ok [of "folder_prefix c"] unfolding complete_config_def
  by (intro conjI; cases c; simp add: ApplyDefaults_eq defaults_eq min_def del: not_None_eq)

lemma ApplyDefaults_stable: "complete_config n c \<Longrightarrow> ApplyDefaults n c = c"
  by (cases c) (auto simp: ApplyDefaults_eq defaults_eq complete_config_def withSlash_def min_def)

lemma ApplyDefaults_keeps:
  "bucket (ApplyDefaults n c) = bucket c \<and> encryption_key (ApplyDefaults n c) = encryption_key c \<and>
   kms_key (ApplyDefaults n c) = kms_key c \<and> compress (ApplyDefaults n c) = compress c \<and>
   bfunction (ApplyDefaults n c) = bfunction c \<and> recovery_bucket (ApplyDefaults n c) = recovery_bucket c \<and>
   xml_multipart_upload (ApplyDefaults n c) = xml_multipart_upload c \<and>
   object_retention_mode (ApplyDefaults n c) = object_retention_mode c \<and>
   object_retention_time (ApplyDefaults n c) = object_retention_time c"
  by (cases c) (simp add: ApplyDefaults_eq defaults_eq)

lemma ApplyDefaults_streams:
  "parallel_streams (ApplyDefaults n c) > 1 \<Longrightarrow> parallel_streams c > 1 \<or> xml_multipart_upload c"
  "parallel_recovery_streams (ApplyDefaults n c) > 1 \<Longrightarrow> parallel_recovery_streams c > 1"
  by (cases c; simp add: ApplyDefaults_eq defaults_eq split: if_splits)+

section \<open>Lemmas on validation\<close>

text \<open>A configuration the validation accepts, before and after the defaults.\<close>

definition valid_config :: "backint_config \<Rightarrow> bool" where
  "valid_config c \<longleftrightarrow>
     bucket c \<noteq> [] \<and> \<not> bad_bucket (bucket c) \<and>
     (recovery_bucket c = [] \<or> \<not> bad_bucket (recovery_bucket c)) \<and>
     (encryption_key c = [] \<or> kms_key c = []) \<and>
     (bfunction c = FnBackup \<and> (parallel_streams c > 1 \<or> xml_multipart_upload c) \<longrightarrow>
        \<not> compress c \<and> encryption_key c = [] \<and> kms_key c = []) \<and>
     (bfunction c = FnRestore \<and> parallel_recovery_streams c > 1 \<longrightarrow> \<not> compress c) \<and>
     (object_retention_mode c = [] \<and> object_retention_time c = [] \<or>
      object_retention_mode c \<in> {''Unlocked'', ''Locked''} \<and> object_retention_time c \<noteq> [])"

lemma validateParameters_iff: "validateParameters c = None \<longleftrightarrow> valid_config c"
  unfolding validateParameters_def valid_config_def by auto

lemma valid_config_defaults: "valid_config c \<Longrightarrow> valid_config (ApplyDefaults n c)"
  using ApplyDefaults_streams [of n c] unfolding valid_config_def
  by (simp add: ApplyDefaults_keeps) blast

definition usable_config :: "int \<Rightarrow> backint_config \<Rightarrow> bool" where
  "usable_config n c \<longleftrightarrow> complete_config n c \<and>
     (\<exists>key. valid_config (c\<lparr>encryption_key := key\<rparr>) \<and> (key = [] \<longrightarrow> encryption_key c = []))"

lemma readParametersFile_valid:
  "wp (readParametersFile lib read pf c) (\<lambda>(c', err) _. err = None \<longrightarrow> valid_config c') log"
  by (auto simp: readParametersFile_def marshalLegacyParameters_def wp_rules Let_def
      validateParameters_iff split: sum.splits option.splits)

lemma usable_read:
  assumes "valid_config c"
  shows "wp (if encryption_key (ApplyDefaults n c) \<noteq> [] then readEncryptionKeyFromFile rd (ApplyDefaults n c)
             else ret (ApplyDefaults n c, None))
    (\<lambda>(c', err) _. err = None \<longrightarrow> usable_config n c') log"
proof -
  have v: "valid_config (ApplyDefaults n c)" using assms by (rule valid_config_defaults)
  have k: "complete_config n (ApplyDefaults n c)" by (rule ApplyDefaults_complete)
  let ?d = "ApplyDefaults n c"
  have same: "?d\<lparr>encryption_key := key, encryption_key := encryption_key ?d\<rparr> = ?d" for key by simp
  have "usable_config n (?d\<lparr>encryption_key := key\<rparr>)" if "encryption_key ?d \<noteq> []" for key
    unfolding usable_config_def
    using k v that by (intro conjI exI [of _ "encryption_key ?d"]) (simp_all add: complete_config_def)
  moreover have "usable_config n ?d" if "encryption_key ?d = []"
    unfolding usable_config_def
    using k v that by (metis backint_config.surjective backint_config.update_convs(6))
  ultimately show ?thesis
    by (simp add: readEncryptionKeyFromFile_def wp_rules split: sum.splits)
qed

lemma empty_key_run:
  assumes "parseCommandLineArgs p = Inr c"
    and "run_state (readParametersFile lib readConfig (ParamFile p) c) log = ((c1, None), log1)"
    and "encryption_key c1 \<noteq> []"
    and "readKey log1 (ReadFile (encryption_key c1)) = Inr [chNL]"
  shows "fst (run_state (ParseArgsAndValidateConfig lib readConfig readKey n p c0) log) =
     ((ApplyDefaults n c1)\<lparr>encryption_key := []\<rparr>, None)"
proof -
  have k: "encryption_key (ApplyDefaults n c1) = encryption_key c1" by (simp add: ApplyDefaults_keeps)
  have t: "trimSuffix [chNL] [chNL] = []" using trimSuffix_append [of "[]" "[chNL]"] by simp
  show ?thesis
    by (simp add: ParseArgsAndValidateConfig_def assms Let_def readEncryptionKeyFromFile_def k t)
qed

section \<open>Lemmas on legacy files\<close>

definition bad_line :: "string \<Rightarrow> bool" where
  "bad_line line \<longleftrightarrow> (\<exists>e. legacyLine line zeroConfig = Inl e)"

lemma legacyLine_error_any: "(\<exists>e. legacyLine line c = Inl e) \<longleftrightarrow> (\<exists>e. legacyLine line d = Inl e)"
  by (simp add: legacyLine_def split: sum.splits)

lemma legacy_error_iff:
  "(\<exists>e. foldE legacyLine ls c = Inl e) \<longleftrightarrow> (\<exists>l \<in> set ls. bad_line l)"
proof (induction ls arbitrary: c)
  case Nil
  then show ?case by simp
next
  case (Cons l ls)
  show ?case
  proof (cases "legacyLine l c")
    case (Inl e)
    then show ?thesis using legacyLine_error_any [of l c zeroConfig] by (auto simp: bad_line_def)
  next
    case (Inr c')
    then show ?thesis
      using legacyLine_error_any [of l c zeroConfig] Cons [of c'] by (auto simp: bad_line_def)
  qed
qed

section \<open>Properties\<close>

text \<open>C39. A configuration that \<open>ParseArgsAndValidateConfig\<close> returns without an error is usable:
  all defaults are in place and in bounds (1 to 32 streams, at most 64 threads, 1 to 250 MB
  buffer, a folder prefix that ends in a slash), the bucket is a bare name, a parallel backup
  is neither compressed nor encrypted, and the retention settings are complete. This holds for
  any behaviour of the JSON and merge libraries and of the file system.\<close>

theorem ParseArgs_usable:
  "wp (ParseArgsAndValidateConfig lib readConfig readKey n p c0)
     (\<lambda>(c, err) _. err = None \<longrightarrow> usable_config n c) log"
proof (cases "parseCommandLineArgs p")
  case (Inl e)
  then show ?thesis by (simp add: ParseArgsAndValidateConfig_def wp_rules)
next
  case (Inr c)
  show ?thesis
    unfolding ParseArgsAndValidateConfig_def Inr sum.case wp_bind
  proof (rule wp_mono [OF readParametersFile_valid], goal_cases)
    case (1 r log1)
    obtain c1 err where r: "r = (c1, err)" by force
    show ?case
    proof (cases err)
      case None
      with 1 r usable_read [of c1 n readKey log1] show ?thesis by (simp add: Let_def)
    next
      case (Some e)
      with r show ?thesis by (simp add: wp_rules)
    qed
  qed
qed

text \<open>Applying the defaults twice is applying them once.\<close>

theorem ApplyDefaults_idempotent: "ApplyDefaults n (ApplyDefaults n c) = ApplyDefaults n c"
  by (rule ApplyDefaults_stable) (rule ApplyDefaults_complete)

text \<open>The validation accepts exactly the configurations with a bare bucket name, at most one
  kind of key, no compressed or encrypted parallel backup, no compressed parallel restore and
  complete retention settings.\<close>

theorem validateParameters_spec: "validateParameters c = None \<longleftrightarrow> valid_config c"
  by (rule validateParameters_iff)

text \<open>A legacy parameters file is rejected exactly when one of its lines is bad on its own,
  whatever the other lines are.\<close>

theorem Unmarshal_legacy_error_iff:
  assumes "\<not> hasSuffix f ''.json''"
  shows "(\<exists>e. Unmarshal json f content = Inl e) \<longleftrightarrow> (\<exists>l \<in> set (splitOn chNL content). bad_line l)"
  using assms by (simp add: Unmarshal_def legacy_error_iff)

lemma Unmarshal_legacy_error_iff_witness:
  "\<exists>e. Unmarshal (\<lambda>_. Inl []) ''p.txt'' ''#BUCKET'' = Inl e"
proof -
  have "\<not> hasSuffix ''p.txt'' ''.json''" by code_simp
  moreover have "bad_line ''#BUCKET''"
  proof -
    have "legacyLine ''#BUCKET'' zeroConfig = Inl (EmptyValue ''#BUCKET'')" by code_simp
    then show ?thesis by (auto simp: bad_line_def)
  qed
  moreover have "splitOn chNL ''#BUCKET'' = [''#BUCKET'']" by code_simp
  ultimately show ?thesis using Unmarshal_legacy_error_iff [of "''p.txt''" "\<lambda>_. Inl []" "''#BUCKET''"] by simp
qed

text \<open>The printed configuration does not depend on the secrets: configurations that differ
  only in the values of non-empty keys print the same.\<close>

theorem ConfigToPrint_hides_secrets:
  assumes "c' = c\<lparr>encryption_key := e, kms_key := k, service_account_key := s\<rparr>"
    and "e = [] \<longleftrightarrow> encryption_key c = []" and "k = [] \<longleftrightarrow> kms_key c = []"
    and "s = [] \<longleftrightarrow> service_account_key c = []"
  shows "ConfigToPrint c' = ConfigToPrint c"
  using assms
  by (cases "e = []"; cases "k = []"; cases "s = []") (simp_all add: ConfigToPrint_def)

lemma ConfigToPrint_hides_secrets_witness:
  "ConfigToPrint (zeroConfig\<lparr>encryption_key := ''a'', kms_key := [], service_account_key := []\<rparr>) =
   ConfigToPrint (zeroConfig\<lparr>encryption_key := ''b''\<rparr>)"
  by (rule ConfigToPrint_hides_secrets [where e = "''a''" and k = "[]" and s = "[]"])
     (simp_all add: zeroConfig_def)

text \<open>An encryption key file that is empty, or holds only a newline, leaves the configuration
  without a key and without an error, although an encryption key was asked for: what follows is
  not encrypted with a customer key.\<close>

theorem empty_key_file_drops_encryption:
  assumes "parseCommandLineArgs p = Inr c"
    and "run_state (readParametersFile lib readConfig (ParamFile p) c) log = ((c1, None), log1)"
    and "encryption_key c1 \<noteq> []"
    and "readKey log1 (ReadFile (encryption_key c1)) = Inr [chNL]"
  shows "fst (run_state (ParseArgsAndValidateConfig lib readConfig readKey n p c0) log) =
     ((ApplyDefaults n c1)\<lparr>encryption_key := []\<rparr>, None)"
  using assms by (rule empty_key_run)

definition sampleBParams :: bparams where
  "sampleBParams = \<lparr>User = ''HDB'', Function = ''backup'', InFile = [], OutFile = [],
     ParamFile = ''p.txt'', BackupID = [], BackupLevel = [], ObjCount = 0\<rparr>"

definition sampleLib :: bcfg_lib where
  "sampleLib = \<lparr>unmarshalJson = \<lambda>_. Inl ''bad'', marshalJson = \<lambda>_. [],
     merge = \<lambda>c d. c\<lparr>bucket := bucket d, encryption_key := encryption_key d, compress := compress d\<rparr>\<rparr>"

definition sampleFile :: "(bcfg_call, (string, string) result) env" where
  "sampleFile log c = Inr (''#BUCKET b'' @ [chNL] @ ''#ENCRYPTION_KEY k'')"

lemma empty_key_file_drops_encryption_witness:
  "encryption_key (fst (fst (run_state
     (ParseArgsAndValidateConfig sampleLib sampleFile (\<lambda>_ _. Inr [chNL]) 4 sampleBParams zeroConfig) []))) = []"
proof -
  let ?c = "zeroConfig\<lparr>user_id := ''HDB'', param_file := ''p.txt'', bfunction := FnBackup\<rparr>"
  let ?r = "run_state (readParametersFile sampleLib sampleFile ''p.txt'' ?c) []"
  have a: "parseCommandLineArgs sampleBParams = Inr ?c" by code_simp
  have e: "snd (fst ?r) = None" by code_simp
  have k: "encryption_key (fst (fst ?r)) \<noteq> []" by code_simp
  have f: "ParamFile sampleBParams = ''p.txt''" by (simp add: sampleBParams_def)
  have r: "run_state (readParametersFile sampleLib sampleFile (ParamFile sampleBParams) ?c) [] =
      ((fst (fst ?r), None), snd ?r)" unfolding f by (metis e prod.collapse)
  from empty_key_file_drops_encryption [OF a r k refl, of 4 zeroConfig] show ?thesis by simp
qed

lemma sample_run:
  "fst (run_state (ParseArgsAndValidateConfig sampleLib sampleFile (\<lambda>_ _. Inr [chNL]) 4 sampleBParams zeroConfig) [])
     = ((ApplyDefaults 4 (fst (fst (run_state (readParametersFile sampleLib sampleFile ''p.txt''
         (zeroConfig\<lparr>user_id := ''HDB'', param_file := ''p.txt'', bfunction := FnBackup\<rparr>)) []))))
       \<lparr>encryption_key := []\<rparr>, None)"
proof -
  let ?c = "zeroConfig\<lparr>user_id := ''HDB'', param_file := ''p.txt'', bfunction := FnBackup\<rparr>"
  let ?r = "run_state (readParametersFile sampleLib sampleFile ''p.txt'' ?c) []"
  have a: "parseCommandLineArgs sampleBParams = Inr ?c" by code_simp
  have e: "snd (fst ?r) = None" by code_simp
  have k: "encryption_key (fst (fst ?r)) \<noteq> []" by code_simp
  have f: "ParamFile sampleBParams = ''p.txt''" by (simp add: sampleBParams_def)
  have r: "run_state (readParametersFile sampleLib sampleFile (ParamFile sampleBParams) ?c) [] =
      ((fst (fst ?r), None), snd ?r)" unfolding f by (metis e prod.collapse)
  from empty_key_run [OF a r k refl, of 4 zeroConfig] show ?thesis by simp
qed

lemma ParseArgs_usable_witness:
  "usable_config 4 (fst (fst (run_state
     (ParseArgsAndValidateConfig sampleLib sampleFile (\<lambda>_ _. Inr [chNL]) 4 sampleBParams zeroConfig) [])))"
proof -
  have "snd (fst (run_state
      (ParseArgsAndValidateConfig sampleLib sampleFile (\<lambda>_ _. Inr [chNL]) 4 sampleBParams zeroConfig) [])) = None"
    by (simp add: sample_run)
  moreover have "wp (ParseArgsAndValidateConfig sampleLib sampleFile (\<lambda>_ _. Inr [chNL]) 4 sampleBParams zeroConfig)
      (\<lambda>(c, err) _. err = None \<longrightarrow> usable_config 4 c) []"
    by (rule ParseArgs_usable)
  ultimately show ?thesis by (simp add: wp_def split: prod.splits)
qed

end
