(* ===== verification/BackintParse.thy ===== *)
theory BackintParse
  imports BackintConfig
begin

text \<open>
  \<open>internal/backint/parse/parse.go\<close>: the syntax of the Backint input and output files, object names
  and custom times. Times are a type parameter with the operations of Go's \<open>time\<close> package.
\<close>

section \<open>Operations\<close>

text \<open>The loop of \<open>Split\<close>: the flags \<open>quote\<close> and \<open>backslash\<close>, and the characters since \<open>start\<close>.\<close>

fun splitLoop :: "bool \<Rightarrow> bool \<Rightarrow> string \<Rightarrow> string \<Rightarrow> string list" where
  "splitLoop q b cur [] = [cur]"
| "splitLoop q b cur (c # s) =
     (if c = chQuote then
        (if b then splitLoop q False (cur @ [c]) s else splitLoop (\<not> q) b (cur @ [c]) s)
      else if c = chBackslash then splitLoop q True (cur @ [c]) s
      else if c = chSpace \<and> \<not> q then cur # splitLoop q b [] s
      else splitLoop q b (cur @ [c]) s)"

definition Split :: "string \<Rightarrow> string list" where
  "Split s = splitLoop False False [] s"

definition TrimAndClean :: "string \<Rightarrow> string" where
  "TrimAndClean str = replaceAll (trim str [chQuote]) [chBackslash, chQuote] [chQuote]"

definition AgentName :: string where "AgentName = ''sapagent''"
definition AgentVersion :: string where "AgentVersion = ''3.16''"

text \<open>The returned version and the bytes written to the output; \<open>None\<close> is the error return.\<close>

definition WriteSoftwareVersion :: "string \<Rightarrow> (string \<times> string) option" where
  "WriteSoftwareVersion line =
     (let s = Split line
      in if length s < 2 then None
         else let backint = TrimAndClean (s ! 1)
              in Some (trim backint ''backint '',
                   ''#SOFTWAREID '' @ quote backint @ [chSpace, chQuote] @ ''Google '' @ AgentName @ '' ''
                   @ AgentVersion @ [chQuote, chNL]))"

definition RestoreFilename :: "string \<Rightarrow> string" where
  "RestoreFilename str = replaceAll (quote (chSlash # str)) [chBackslash, chBackslash] [chBackslash]"

definition CreateObjectPath :: "backint_config \<Rightarrow> string \<Rightarrow> string \<Rightarrow> string \<Rightarrow> string" where
  "CreateObjectPath config fileNameTrim externalBackupID extension =
     (let short =
        (if shorten_folder_path config \<and>
            \<not> hasPrefix fileNameTrim (''/usr/sap/'' @ user_id config @ ''/SYS/global/hdb/backint'')
         then fileNameTrim
         else if shorten_folder_path config then
           (let split = splitOn chSlash fileNameTrim; n = length split
            in if n > 2 then ''/'' @ split ! (n - 2) @ ''/'' @ split ! (n - 1) else fileNameTrim)
         else fileNameTrim)
      in folder_prefix config @ user_id config @ short @ ''/'' @ externalBackupID @ extension)"

text \<open>\<open>UTCNow\+(\d+)(d)\<close>: the digits of the leftmost match.\<close>

fun findNowPlus :: "string \<Rightarrow> string option" where
  "findNowPlus [] = None"
| "findNowPlus (c # s) =
     (let r = drop 7 (c # s); ds = takeWhile isDigit r
      in if hasPrefix (c # s) ''UTCNow+'' \<and> ds \<noteq> [] \<and> hasPrefix (drop (length ds) r) ''d''
         then Some ds else findNowPlus s)"

record 't clock =
  zeroTime :: 't
  addDays :: "'t \<Rightarrow> int \<Rightarrow> 't"
  parseRFC3339 :: "string \<Rightarrow> 't"

definition CustomTime :: "'t clock \<Rightarrow> string \<Rightarrow> 't \<Rightarrow> 't" where
  "CustomTime k customTime now =
     (if customTime = [] then zeroTime k
      else if customTime = ''UTCNow'' then now
      else if hasPrefix customTime ''UTCNow'' then
        (case findNowPlus customTime of
           None \<Rightarrow> zeroTime k
         | Some ds \<Rightarrow>
             (case parseInt64 ds of None \<Rightarrow> zeroTime k | Some numDays \<Rightarrow> addDays k now numDays))
      else parseRFC3339 k customTime)"

section \<open>The format of a parameter\<close>

text \<open>A parameter as the specification writes it: quoted, its double quotes escaped.\<close>

definition escapeQuotes :: "string \<Rightarrow> string" where
  "escapeQuotes p = concat (map (\<lambda>c. if c = chQuote then [chBackslash, chQuote] else [c]) p)"

definition encodeParam :: "string \<Rightarrow> string" where
  "encodeParam p = chQuote # escapeQuotes p @ [chQuote]"

lemma escapeQuotes_simps [simp]:
  "escapeQuotes [] = []"
  "escapeQuotes (c # p) = (if c = chQuote then [chBackslash, chQuote] else [c]) @ escapeQuotes p"
  by (simp_all add: escapeQuotes_def)

lemma escapeQuotes_no_quote_hd: "escapeQuotes p \<noteq> chQuote # r"
  by (cases p) auto

lemma replaceAll_escapeQuotes: "replaceAll (escapeQuotes p) [chBackslash, chQuote] [chQuote] = p"
proof (induction p)
  case Nil
  then show ?case by simp
next
  case (Cons c p)
  show ?case
  proof (cases "c = chQuote")
    case True
    with Cons show ?thesis by simp
  next
    case False
    have "\<not> hasPrefix (c # escapeQuotes p) [chBackslash, chQuote]"
      using escapeQuotes_no_quote_hd [of p] by (cases "escapeQuotes p") auto
    with Cons False show ?thesis by simp
  qed
qed

lemma trim_encodeParam:
  assumes "p = [] \<or> last p \<noteq> chQuote"
  shows "trim (encodeParam p) [chQuote] = escapeQuotes p"
proof -
  have d: "dropWhile (\<lambda>c. c = chQuote) (escapeQuotes p @ [chQuote]) =
      (if p = [] then [] else escapeQuotes p @ [chQuote])"
    by (cases p) auto
  have "p = [] \<or> (\<exists>q c. p = q @ [c] \<and> c \<noteq> chQuote)"
    using assms by (cases p rule: rev_cases) auto
  then show ?thesis
  proof
    assume "p = []"
    then show ?thesis by (simp add: trim_def trimBy_def encodeParam_def)
  next
    assume "\<exists>q c. p = q @ [c] \<and> c \<noteq> chQuote"
    then obtain q c where p: "p = q @ [c]" "c \<noteq> chQuote" by blast
    then have "escapeQuotes p = escapeQuotes q @ [c]" by (simp add: escapeQuotes_def)
    with p d show ?thesis by (simp add: trim_def trimBy_def encodeParam_def)
  qed
qed

lemma TrimAndClean_encodeParam:
  "p = [] \<or> last p \<noteq> chQuote \<Longrightarrow> TrimAndClean (encodeParam p) = p"
  by (simp add: TrimAndClean_def trim_encodeParam replaceAll_escapeQuotes)

lemma splitLoop_not_Nil [simp]: "splitLoop q b cur s \<noteq> []"
  by (induction q b cur s rule: splitLoop.induct) auto

lemma splitLoop_joined: "joinWith '' '' (splitLoop q b cur s) = cur @ s"
  by (induction q b cur s rule: splitLoop.induct) (auto simp: joinWith_Cons)

lemma splitLoop_escaped:
  "chBackslash \<notin> set p \<Longrightarrow>
   splitLoop True False cur (escapeQuotes p @ r) = splitLoop True False (cur @ escapeQuotes p) r"
  by (induction p arbitrary: cur) auto

lemma splitLoop_param:
  "chBackslash \<notin> set p \<Longrightarrow>
   splitLoop False False cur (encodeParam p @ r) = splitLoop False False (cur @ encodeParam p) r"
  by (simp add: encodeParam_def splitLoop_escaped)

lemma Split_encoded:
  assumes "ps \<noteq> []" and "\<forall>p \<in> set ps. chBackslash \<notin> set p"
  shows "Split (joinWith '' '' (map encodeParam ps)) = map encodeParam ps"
  using assms unfolding Split_def
proof (induction ps)
  case Nil
  then show ?case by simp
next
  case (Cons p ps)
  have p: "splitLoop False False [] (encodeParam p @ r) = splitLoop False False (encodeParam p) r" for r
    using splitLoop_param [of p "[]" r] Cons.prems(2) by simp
  show ?case
  proof (cases "ps = []")
    case True
    with p [of "[]"] show ?thesis by simp
  next
    case False
    with Cons p show ?thesis by (simp add: joinWith_Cons)
  qed
qed

section \<open>Properties\<close>

text \<open>\<open>Split\<close> loses nothing: its parts, joined by spaces, are the input line.\<close>

theorem Split_lossless: "joinWith '' '' (Split s) = s"
  by (simp add: Split_def splitLoop_joined)

text \<open>A line of quoted parameters, with their double quotes escaped, is split and cleaned back
  into the parameters, whatever spaces and quotes they contain, provided that no parameter
  contains a backslash or ends in a double quote.\<close>

theorem Split_TrimAndClean_roundtrip:
  assumes "ps \<noteq> []" and "\<forall>p \<in> set ps. chBackslash \<notin> set p \<and> (p = [] \<or> last p \<noteq> chQuote)"
  shows "map TrimAndClean (Split (joinWith '' '' (map encodeParam ps))) = ps"
  using assms by (simp add: Split_encoded map_idI TrimAndClean_encodeParam)

lemma Split_TrimAndClean_roundtrip_witness:
  "map TrimAndClean (Split (joinWith '' '' (map encodeParam [''a b'', [chQuote] @ ''x'', []]))) =
     [''a b'', [chQuote] @ ''x'', []]"
  by (rule Split_TrimAndClean_roundtrip) simp_all

text \<open>The two provisos are needed. A backslash that escapes nothing makes \<open>Split\<close> take the next
  double quote for an escaped one, however far away it is, although the specification quoted
  in the comment says that a backslash escapes double quotes only; and \<open>TrimAndClean\<close> strips an
  escaped double quote at the end of a parameter and leaves its backslash.\<close>

theorem backslash_and_final_quote_mishandled:
  "Split (''a'' @ [chBackslash] @ ''b '' @ encodeParam ''c d'') = [''a'' @ [chBackslash] @ ''b'', [chQuote] @ ''c'', ''d'' @ [chQuote]]
   \<and> TrimAndClean (encodeParam (''a'' @ [chQuote])) = ''a'' @ [chBackslash]"
proof
  show "Split (''a'' @ [chBackslash] @ ''b '' @ encodeParam ''c d'') =
      [''a'' @ [chBackslash] @ ''b'', [chQuote] @ ''c'', ''d'' @ [chQuote]]"
    by code_simp
  show "TrimAndClean (encodeParam (''a'' @ [chQuote])) = ''a'' @ [chBackslash]"
    by code_simp
qed

end
