(* ===== verification/WorkerPool.thy ===== *)
theory WorkerPool
  imports Prelude "HOL-Library.Multiset"
begin

text \<open>
  The structure the four Backint operations share: the main goroutine scans the input line by
  line, writes some responses itself and submits jobs to a worker pool; the workers run the
  jobs in any order while the scan goes on, and write their responses to the same output;
  after the last line, \<open>StopWait\<close> waits for the jobs. A malformed line makes the operation return
  at once, without waiting for the jobs submitted before it, which go on until the process ends; when reading the input
  fails, the operation waits for them and returns an error. Here the operation is a step relation: a scan step handles
  one line, a work step runs any one of the queued jobs, also after a failure of the scan. A job is one step, so the
  calls of two jobs do not interleave, and a job always ends. The variables the goroutines share are the component \<open>aux\<close>;
  the calls to storage and to the file system are recorded in \<open>calls\<close>, newest first.
\<close>

record ('c, 'v, 'j, 'o, 'e) pool =
  lines :: "string list"
  aux :: 'v
  queue :: "'j list"
  written :: "'o list"
  calls :: "'c list"
  failure :: "'e option"

inductive pool_step ::
  "(string \<Rightarrow> 'v \<Rightarrow> ('c, ('e, 'v \<times> 'o list \<times> 'j list) result) prog)
   \<Rightarrow> ('j \<Rightarrow> 'v \<Rightarrow> ('c, 'v \<times> 'o list) prog)
   \<Rightarrow> ('c, 'v, 'j, 'o, 'e) pool \<Rightarrow> ('c, 'v, 'j, 'o, 'e) pool \<Rightarrow> bool"
  for scan runJob where
  scan_line:
    "failure s = None \<Longrightarrow> lines s = l # ls \<Longrightarrow>
     run_state (scan l (aux s)) (calls s) = (Inr (v, outs, jobs), cs) \<Longrightarrow>
     s' = s\<lparr>lines := ls, aux := v, queue := queue s @ jobs, written := written s @ outs, calls := cs\<rparr> \<Longrightarrow>
     pool_step scan runJob s s'"
| scan_error:
    "failure s = None \<Longrightarrow> lines s = l # ls \<Longrightarrow>
     run_state (scan l (aux s)) (calls s) = (Inl e, cs) \<Longrightarrow>
     s' = s\<lparr>calls := cs, failure := Some e\<rparr> \<Longrightarrow>
     pool_step scan runJob s s'"
| read_error:
    "failure s = None \<Longrightarrow> s' = s\<lparr>failure := Some e\<rparr> \<Longrightarrow> pool_step scan runJob s s'"
| work:
    "queue s = xs @ j # ys \<Longrightarrow>
     run_state (runJob j (aux s)) (calls s) = ((v, outs), cs) \<Longrightarrow>
     s' = s\<lparr>aux := v, queue := xs @ ys, written := written s @ outs, calls := cs\<rparr> \<Longrightarrow>
     pool_step scan runJob s s'"

inductive_cases pool_stepE: "pool_step scan runJob s s'"

inductive pool_reach for scan runJob s0 where
  start: "pool_reach scan runJob s0 s0"
| step: "pool_reach scan runJob s0 s \<Longrightarrow> pool_step scan runJob s s' \<Longrightarrow> pool_reach scan runJob s0 s'"

definition initial :: "'v \<Rightarrow> string list \<Rightarrow> 'c list \<Rightarrow> ('c, 'v, 'j, 'o, 'e) pool" where
  "initial v ls cs = \<lparr>lines = ls, aux = v, queue = [], written = [], calls = cs, failure = None\<rparr>"

text \<open>The operation can return when the scan failed, or when all lines are scanned and all jobs
  have run.\<close>

definition finished :: "('c, 'v, 'j, 'o, 'e) pool \<Rightarrow> bool" where
  "finished s \<longleftrightarrow> failure s \<noteq> None \<or> (lines s = [] \<and> queue s = [])"

section \<open>Termination\<close>

lemma pool_progress:
  assumes "\<not> finished s"
  shows "\<exists>s'. pool_step scan runJob s s'"
proof (cases "lines s")
  case Nil
  with assms have "queue s \<noteq> []" by (auto simp: finished_def)
  then obtain j ys where q: "queue s = [] @ j # ys" by (cases "queue s") auto
  obtain v outs cs where r: "run_state (runJob j (aux s)) (calls s) = ((v, outs), cs)"
    by (metis surj_pair)
  show ?thesis using work [where scan = scan and runJob = runJob and s = s and xs = "[]" and j = j and ys = ys
      and v = v and outs = outs and cs = cs, OF q r refl] by blast
next
  case (Cons l ls)
  have f: "failure s = None" using assms by (simp add: finished_def)
  obtain r cs where r: "run_state (scan l (aux s)) (calls s) = (r, cs)" by (metis surj_pair)
  show ?thesis
  proof (cases r)
    case (Inl e)
    with r show ?thesis by (metis scan_error [OF f Cons])
  next
    case (Inr x)
    obtain v outs jobs where "x = (v, outs, jobs)" by (metis surj_pair)
    with Inr r show ?thesis by (metis scan_line [OF f Cons])
  qed
qed

text \<open>Every step makes the pair of the remaining lines and the queued jobs smaller: no schedule of
  the workers runs forever.\<close>

definition pool_measure :: "('c, 'v, 'j, 'o, 'e) pool \<Rightarrow> nat \<times> nat \<times> nat" where
  "pool_measure s = ((case failure s of None \<Rightarrow> 1 | Some _ \<Rightarrow> 0), length (lines s), length (queue s))"

lemma pool_step_decreases:
  "pool_step scan runJob s s' \<Longrightarrow>
   (pool_measure s', pool_measure s) \<in> less_than <*lex*> less_than <*lex*> less_than"
  by (erule pool_stepE) (auto simp: pool_measure_def)

lemma pool_terminates: "wfP (\<lambda>s' s. pool_step scan runJob s s')"
proof (rule wfp_subset)
  show "wfP (\<lambda>s' s. (pool_measure s', pool_measure s) \<in> less_than <*lex*> less_than <*lex*> less_than)"
    unfolding wfp_def
    by (rule wf_subset [OF wf_inv_image [of "less_than <*lex*> less_than <*lex*> less_than" pool_measure]])
       (auto simp: inv_image_def)
  show "(\<lambda>s' s. pool_step scan runJob s s') \<le>
      (\<lambda>s' s. (pool_measure s', pool_measure s) \<in> less_than <*lex*> less_than <*lex*> less_than)"
    using pool_step_decreases by blast
qed

lemma pool_reach_finished: "\<exists>s'. pool_reach scan runJob s s' \<and> finished s'"
proof -
  have "\<forall>s0. pool_reach scan runJob s0 s \<longrightarrow> (\<exists>s'. pool_reach scan runJob s0 s' \<and> finished s')"
  proof (induction s rule: wfp_induct_rule [OF pool_terminates [of scan runJob]])
    case (1 s)
    show ?case
    proof (cases "finished s")
      case True
      then show ?thesis by blast
    next
      case False
      then obtain s1 where s1: "pool_step scan runJob s s1" using pool_progress by blast
      with 1 show ?thesis by (meson pool_reach.step)
    qed
  qed
  then show ?thesis by (meson pool_reach.start)
qed

section \<open>Every request is answered once\<close>

text \<open>
  The contract of the two halves: \<open>wanted l\<close> are the requests a line makes, \<open>pending v q\<close> those
  that the queued jobs still have to answer, and \<open>answered outs\<close> those that responses answer.
  Scanning a line or running a job loses no request and answers none twice.
\<close>

locale job_pool =
  fixes scan :: "string \<Rightarrow> 'v \<Rightarrow> ('c, ('e, 'v \<times> 'o list \<times> 'j list) result) prog"
    and runJob :: "'j \<Rightarrow> 'v \<Rightarrow> ('c, 'v \<times> 'o list) prog"
    and ok :: "'v \<Rightarrow> 'j list \<Rightarrow> bool"
    and pending :: "'v \<Rightarrow> 'j list \<Rightarrow> 'r multiset"
    and wanted :: "string \<Rightarrow> 'r multiset"
    and answered :: "'o list \<Rightarrow> 'r multiset"
  assumes scan_keeps: "ok v q \<Longrightarrow> run_state (scan l v) cs = (Inr (v', outs, jobs), cs') \<Longrightarrow>
      ok v' (q @ jobs) \<and> answered outs + pending v' (q @ jobs) = wanted l + pending v q"
    and work_keeps: "ok v (xs @ j # ys) \<Longrightarrow> run_state (runJob j v) cs = ((v', outs), cs') \<Longrightarrow>
      ok v' (xs @ ys) \<and> answered outs + pending v' (xs @ ys) = pending v (xs @ j # ys)"
    and answered_append: "answered (os1 @ os2) = answered os1 + answered os2"
    and pending_Nil: "ok v [] \<Longrightarrow> pending v [] = {#}"
begin

definition requests :: "string list \<Rightarrow> 'r multiset" where
  "requests ls = sum_list (map wanted ls)"

definition pool_inv :: "string list \<Rightarrow> ('c, 'v, 'j, 'o, 'e) pool \<Rightarrow> bool" where
  "pool_inv ls s \<longleftrightarrow>
     ok (aux s) (queue s) \<and>
     answered (written s) + pending (aux s) (queue s) + requests (lines s) = requests ls"

lemma pool_inv_step:
  assumes "pool_inv ls s" and "pool_step scan runJob s s'"
  shows "pool_inv ls s'"
  using assms(2)
proof (cases rule: pool_step.cases)
  case (scan_line l ls' v outs jobs cs)
  from assms(1) have ok: "ok (aux s) (queue s)"
    and eq: "answered (written s) + pending (aux s) (queue s) + requests (lines s) = requests ls"
    by (auto simp: pool_inv_def)
  from scan_keeps [OF ok scan_line(3)] have "ok v (queue s @ jobs)"
    and "answered outs + pending v (queue s @ jobs) = wanted l + pending (aux s) (queue s)" by auto
  with scan_line eq show ?thesis
    by (simp add: pool_inv_def answered_append requests_def) (metis add.assoc add.commute)
next
  case (scan_error l ls' e cs)
  with assms(1) show ?thesis by (simp add: pool_inv_def)
next
  case (read_error e)
  with assms(1) show ?thesis by (simp add: pool_inv_def)
next
  case (work xs j ys v outs cs)
  from assms(1) work(1) have ok: "ok (aux s) (xs @ j # ys)"
    and eq: "answered (written s) + pending (aux s) (xs @ j # ys) + requests (lines s) = requests ls"
    by (auto simp: pool_inv_def)
  from work_keeps [OF ok work(2)] have "ok v (xs @ ys)"
    and "answered outs + pending v (xs @ ys) = pending (aux s) (xs @ j # ys)" by auto
  with work eq show ?thesis
    by (simp add: pool_inv_def answered_append) (metis add.assoc)
qed

lemma pool_inv_reach: "pool_reach scan runJob s0 s \<Longrightarrow> pool_inv ls s0 \<Longrightarrow> pool_inv ls s"
  by (induction rule: pool_reach.induct) (auto intro: pool_inv_step)

lemma all_answered:
  assumes "ok v []" and "pool_reach scan runJob (initial v ls cs) s"
    and "finished s" and "failure s = None"
  shows "answered (written s) = requests ls"
proof -
  have a0: "answered [] = {#}" using answered_append [of "[]" "[]"] by simp
  have "pool_inv ls (initial v ls cs)"
    using assms(1) a0 by (simp add: pool_inv_def initial_def pending_Nil)
  from pool_inv_reach [OF assms(2) this] assms(3,4) pending_Nil [of "aux s"] show ?thesis
    by (auto simp: pool_inv_def finished_def requests_def)
qed

end

end
