(* ===== verification/BackintStore.thy ===== *)
theory BackintStore
  imports BackintParse WorkerPool "HOL-Library.AList"
begin

text \<open>
  What the Backint operations exchange with Cloud Storage (the shared library \<open>storage\<close>), with the
  file system and with HANA: the calls, their answers, and the responses written to the output.
  Times are their textual form.
\<close>

record bobject =
  ob_name :: string
  ob_size :: int
  ob_created :: string
  ob_metadata :: "(string \<times> string) list"

record file_info =
  fi_size :: int
  fi_readable :: bool
  fi_writable :: bool

text \<open>The fields of \<open>storage.ReadWriter\<close> that an upload and a download set.\<close>

record upload_req =
  up_object :: string
  up_bucket :: string
  up_source :: "string \<times> (int \<times> int) option"
  up_bytes :: int
  up_chunk_mb :: int
  up_compress :: bool
  up_class :: string
  up_dump :: bool
  up_rate :: int
  up_key :: string
  up_kms :: string
  up_retries :: int
  up_metadata :: "(string \<times> string) list"
  up_xml :: bool
  up_workers :: int
  up_account :: string
  up_custom_time :: string
  up_mode :: string
  up_retention :: string

record download_req =
  dn_object :: string
  dn_bucket :: string
  dn_dest :: string
  dn_bytes :: int
  dn_chunk_mb :: int
  dn_rate :: int
  dn_key :: string
  dn_kms :: string
  dn_retries :: int
  dn_workers :: int

datatype st_call =
    Connect
  | Now
  | ListObjects string string int
  | OpenRead string
  | OpenWrite string
  | CreateFile string
  | FStat string
  | Stat string
  | Upload upload_req
  | Download download_req
  | Attrs string
  | Compose string "string list" string "(string \<times> string) list"
  | DeleteObject string int

datatype delete_answer = Deleted | NotExist | DeleteFailed

record store_world =
  connect_env :: "(st_call, bool) env"
  now_env :: "(st_call, string) env"
  list_env :: "(st_call, (string, bobject list) result) env"
  open_env :: "(st_call, (string, unit) result) env"
  stat_env :: "(st_call, (string, file_info) result) env"
  upload_env :: "(st_call, (string, int) result) env"
  download_env :: "(st_call, (string, int) result) env"
  attrs_env :: "(st_call, (string, string \<times> (string \<times> string) list) result) env"
  compose_env :: "(st_call, string option) env"
  delete_env :: "(st_call, delete_answer) env"
  wclock :: "string clock"

datatype op_error = MalformedLine string | BadSize string

section \<open>Responses\<close>

datatype inquiry_entry = BackupFound string string "string option" | BadObject string string

text \<open>An inquiry answers with the objects found, or with one line that repeats the request:
  \<open>True\<close> for an error, \<open>False\<close> for nothing found.\<close>

datatype response =
    SoftwareId string
  | Saved string string int
  | Failed string
  | Restored string string
  | NotFound string
  | DeletedId string string
  | DeleteNotFound string string
  | DeleteError string string
  | InquiryMiss bool string string
  | InquiryHits string "inquiry_entry list"

definition renderEntry :: "inquiry_entry \<Rightarrow> string" where
  "renderEntry e =
     (case e of
        BackupFound ebid name created \<Rightarrow>
          ''#BACKUP '' @ quote ebid @ '' '' @ name
          @ (case created of None \<Rightarrow> [] | Some t \<Rightarrow> '' '' @ quote t) @ [chNL]
      | BadObject ebid name \<Rightarrow> ''#ERROR '' @ quote ebid @ '' '' @ quote name @ [chNL])"

definition render :: "response \<Rightarrow> string" where
  "render r =
     (case r of
        SoftwareId s \<Rightarrow> s
      | Saved ebid name bytes \<Rightarrow> ''#SAVED '' @ quote ebid @ '' '' @ name @ '' '' @ intStr bytes @ [chNL]
      | Failed name \<Rightarrow> ''#ERROR '' @ name @ [chNL]
      | Restored ebid name \<Rightarrow> ''#RESTORED '' @ quote ebid @ '' '' @ name @ [chNL]
      | NotFound name \<Rightarrow> ''#NOTFOUND '' @ name @ [chNL]
      | DeletedId ebid name \<Rightarrow> ''#DELETED '' @ quote ebid @ '' '' @ name @ [chNL]
      | DeleteNotFound ebid name \<Rightarrow> ''#NOTFOUND '' @ quote ebid @ '' '' @ name @ [chNL]
      | DeleteError ebid name \<Rightarrow> ''#ERROR '' @ quote ebid @ '' '' @ name @ [chNL]
      | InquiryMiss err ebid name \<Rightarrow>
          (if err then ''#ERROR'' else ''#NOTFOUND'')
          @ (if ebid \<noteq> [] then '' '' @ quote ebid else []) @ (if name \<noteq> [] then '' '' @ name else [])
          @ [chNL]
      | InquiryHits name es \<Rightarrow> concat (map renderEntry es))"

text \<open>The file name of the request a response answers, as it was given on the input line.\<close>

fun answers :: "response \<Rightarrow> string option" where
  "answers (SoftwareId s) = None"
| "answers (Saved ebid name bytes) = Some name"
| "answers (Failed name) = Some name"
| "answers (Restored ebid name) = Some name"
| "answers (NotFound name) = Some name"
| "answers (DeletedId ebid name) = Some name"
| "answers (DeleteNotFound ebid name) = Some name"
| "answers (DeleteError ebid name) = Some name"
| "answers (InquiryMiss err ebid name) = Some name"
| "answers (InquiryHits name es) = Some name"

definition answered :: "response list \<Rightarrow> string multiset" where
  "answered rs = mset (List.map_filter answers rs)"

lemma answered_append: "answered (xs @ ys) = answered xs + answered ys"
  by (simp add: answered_def map_filter_def)

lemma answered_simps [simp]:
  "answered [] = {#}"
  "answered (r # rs) = (case answers r of None \<Rightarrow> answered rs | Some n \<Rightarrow> add_mset n (answered rs))"
  by (simp_all add: answered_def map_filter_def split: option.splits)

definition mapSet :: "string \<Rightarrow> string \<Rightarrow> (string \<times> string) list \<Rightarrow> (string \<times> string) list" where
  "mapSet k v m = AList.update k v m"

lemma sum_list_update_mset:
  "i < length xs \<Longrightarrow> sum_list (map f (xs[i := x])) + f (xs ! i) = sum_list (map f xs) + (f x :: 'b multiset)"
proof (induction xs arbitrary: i)
  case Nil
  then show ?case by simp
next
  case (Cons y ys)
  show ?case
  proof (cases i)
    case 0
    then show ?thesis by (simp add: ac_simps)
  next
    case (Suc k)
    with Cons.prems Cons.IH [of k] show ?thesis by (simp add: ac_simps)
  qed
qed

lemma mset_balance:
  assumes "A + N = B + Y" and "X + Y = N"
  shows "X + A = (B :: 'a multiset)"
proof -
  have "(X + A) + Y = B + Y" using assms(1) by (simp add: assms(2) [symmetric] ac_simps)
  then show ?thesis by (rule add_right_imp_eq)
qed

end
