(* ===== verification/BackintBackup.thy ===== *)
theory BackintBackup
  imports BackintStore
begin

text \<open>
  \<open>internal/backint/backup/backup.go\<close>: the Backint backup. Each \<open>#PIPE\<close> or \<open>#FILE\<close> line becomes a
  job of the worker pool that uploads the file, or, for a file with parallel streams, one job
  per section; the last section that completes composes the sections into one object. The
  counters that the sections of a file share under the mutex are a \<open>chunk_group\<close>.
\<close>

section \<open>Data\<close>

text \<open>\<open>parameters\<close>: what a job knows of its file. \<open>bp_section\<close> is the section reader, if any.\<close>

record backup_params =
  bp_type :: string
  bp_name :: string
  bp_size :: int
  bp_ebid :: string
  bp_extension :: string
  bp_section :: "(int \<times> int) option"

record chunk_group =
  cg_params :: backup_params
  cg_done :: int
  cg_error :: bool

datatype backup_job = Single backup_params | Chunk nat int

text \<open>Go's integer division truncates toward zero.\<close>

definition goDiv :: "int \<Rightarrow> int \<Rightarrow> int" where
  "goDiv a b = sgn a * sgn b * (\<bar>a\<bar> div \<bar>b\<bar>)"

section \<open>Uploading a file\<close>

definition storageClassName :: "storage_class \<Rightarrow> string" where
  "storageClassName c =
     (case c of ClassUnspecified \<Rightarrow> [] | ClassStandard \<Rightarrow> ''STANDARD'' | ClassNearline \<Rightarrow> ''NEARLINE''
      | ClassColdline \<Rightarrow> ''COLDLINE'' | ClassArchive \<Rightarrow> ''ARCHIVE'')"

definition backupMetadata :: "backint_config \<Rightarrow> string \<Rightarrow> (string \<times> string) list" where
  "backupMetadata config fileType =
     mapSet ''X-Backup-Type'' (replaceAll fileType ''#'' [])
       (case bmetadata config of None \<Rightarrow> [] | Some m \<Rightarrow> m)"

definition uploadRequest :: "store_world \<Rightarrow> backint_config \<Rightarrow> backup_params \<Rightarrow> string \<Rightarrow> string \<Rightarrow> int \<Rightarrow> upload_req" where
  "uploadRequest w config p now1 now2 nbytes =
     (let fileNameTrim = TrimAndClean (bp_name p)
      in \<lparr>up_object = CreateObjectPath config fileNameTrim (bp_ebid p) (bp_extension p),
          up_bucket = bucket config,
          up_source = (fileNameTrim, bp_section p),
          up_bytes = nbytes,
          up_chunk_mb = buffer_size_mb config,
          up_compress = compress config,
          up_class = storageClassName (bstorage_class config),
          up_dump = dump_data config,
          up_rate = rate_limit_mb config * 1024 * 1024,
          up_key = encryption_key config,
          up_kms = kms_key config,
          up_retries = retries config,
          up_metadata = backupMetadata config (bp_type p),
          up_xml = (xml_multipart_upload config \<and> parallel_streams config > 1),
          up_workers = parallel_streams config,
          up_account = service_account_key config,
          up_custom_time = CustomTime (wclock w) (custom_time config) now1,
          up_mode = object_retention_mode config,
          up_retention = CustomTime (wclock w) (object_retention_time config) now2\<rparr>)"

text \<open>The size to upload, or \<open>None\<close> when the file cannot be read. A section needs no file.\<close>

definition openForBackup :: "store_world \<Rightarrow> backup_params \<Rightarrow> (st_call, int option) prog" where
  "openForBackup w p =
     (case bp_section p of
        Some _ \<Rightarrow> ret (Some (bp_size p))
      | None \<Rightarrow> do {
          f \<leftarrow> call (open_env w) (OpenRead (TrimAndClean (bp_name p)));
          case f of
            Inl _ \<Rightarrow> ret None
          | Inr _ \<Rightarrow> do {
              fi \<leftarrow> call (stat_env w) (FStat (TrimAndClean (bp_name p)));
              ret (case fi of
                     Inl _ \<Rightarrow> None
                   | Inr info \<Rightarrow>
                       if \<not> fi_readable info then None
                       else if bp_size p = 0 \<and> bp_type p = ''#FILE'' then Some (fi_size info)
                       else Some (bp_size p))
            }
        })"

definition backupFile :: "store_world \<Rightarrow> backint_config \<Rightarrow> backup_params \<Rightarrow> (st_call, response) prog" where
  "backupFile w config p = do {
     opened \<leftarrow> openForBackup w p;
     case opened of
       None \<Rightarrow> ret (Failed (bp_name p))
     | Some n \<Rightarrow> do {
         now1 \<leftarrow> call (now_env w) Now;
         now2 \<leftarrow> call (now_env w) Now;
         r \<leftarrow> call (upload_env w) (Upload (uploadRequest w config p now1 now2 n));
         ret (case r of
                Inl _ \<Rightarrow> Failed (bp_name p)
              | Inr bytes \<Rightarrow> Saved (bp_ebid p) (bp_name p) bytes)
       }
   }"

section \<open>Parallel uploads\<close>

text \<open>A response in place of the jobs means that the parallel jobs were not started.\<close>

definition backupFileParallel ::
  "store_world \<Rightarrow> backint_config \<Rightarrow> backup_params \<Rightarrow> (st_call, (response, backup_params) result) prog" where
  "backupFileParallel w config p = do {
     f \<leftarrow> call (open_env w) (OpenRead (TrimAndClean (bp_name p)));
     case f of
       Inl _ \<Rightarrow> ret (Inl (Failed (bp_name p)))
     | Inr _ \<Rightarrow> do {
         st \<leftarrow> (if bp_size p = 0 then call (stat_env w) (Stat (TrimAndClean (bp_name p)))
               else ret (Inr \<lparr>fi_size = bp_size p, fi_readable = True, fi_writable = True\<rparr>));
         case st of
           Inl _ \<Rightarrow> ret (Inl (Failed (bp_name p)))
         | Inr info0 \<Rightarrow> do {
             fi \<leftarrow> call (stat_env w) (FStat (TrimAndClean (bp_name p)));
             ret (case fi of
                    Inl _ \<Rightarrow> Inl (Failed (bp_name p))
                  | Inr info \<Rightarrow>
                      if \<not> fi_readable info then Inl (Failed (bp_name p))
                      else Inr (p\<lparr>bp_size := fi_size info0\<rparr>))
           }
       }
   }"

definition chunkOffset :: "int \<Rightarrow> int \<Rightarrow> int \<Rightarrow> int" where
  "chunkOffset nbytes n i = goDiv nbytes n * i"

definition chunkLength :: "int \<Rightarrow> int \<Rightarrow> int \<Rightarrow> int" where
  "chunkLength nbytes n i = (if i = n - 1 then nbytes - chunkOffset nbytes n i else goDiv nbytes n)"

definition chunkParams :: "backup_params \<Rightarrow> int \<Rightarrow> int \<Rightarrow> backup_params" where
  "chunkParams p n i =
     p\<lparr>bp_extension := bp_extension p @ intStr i,
       bp_section := Some (chunkOffset (bp_size p) n i, chunkLength (bp_size p) n i),
       bp_size := chunkLength (bp_size p) n i\<rparr>"

primrec deleteChunks :: "store_world \<Rightarrow> backint_config \<Rightarrow> string \<Rightarrow> int list \<Rightarrow> (st_call, unit) prog" where
  "deleteChunks w config object [] = ret ()"
| "deleteChunks w config object (i # is) = do {
     _ \<leftarrow> call (delete_env w) (DeleteObject (object @ intStr i) (retries config));
     deleteChunks w config object is
   }"

definition composeResult :: "backup_params \<Rightarrow> bool \<Rightarrow> response" where
  "composeResult p chunkError =
     (if chunkError then Failed (bp_name p) else Saved (bp_ebid p) (bp_name p) (bp_size p))"

definition composeChunks ::
  "store_world \<Rightarrow> backint_config \<Rightarrow> backup_params \<Rightarrow> bool \<Rightarrow> bool \<Rightarrow> (st_call, response) prog" where
  "composeChunks w config p connected chunkError =
     (let object = CreateObjectPath config (TrimAndClean (bp_name p)) (bp_ebid p) ''.bak'';
          chunks = map int [0..<nat (parallel_streams config)]
      in if dump_data config then ret (composeResult p chunkError)
         else if \<not> connected then ret (composeResult p True)
         else do {
           a \<leftarrow> call (attrs_env w) (Attrs (object @ ''0''));
           let (contentType, metadata) =
             (case a of
                Inl _ \<Rightarrow> (''application/octet-stream'', [(''X-Backup-Type'', replaceAll (bp_type p) ''#'' [])])
              | Inr at \<Rightarrow> at);
           e \<leftarrow> call (compose_env w)
                 (Compose object (map (\<lambda>i. object @ intStr i) chunks) contentType metadata);
           _ \<leftarrow> deleteChunks w config object chunks;
           ret (composeResult p (chunkError \<or> e \<noteq> None))
         })"

text \<open>The critical section of a chunk job: the counters, and whether this is the last chunk.\<close>

definition finishChunk :: "int \<Rightarrow> response \<Rightarrow> chunk_group \<Rightarrow> chunk_group \<times> bool" where
  "finishChunk n result g =
     (let g1 = (if hasPrefix (render result) ''#ERROR'' then g\<lparr>cg_error := True\<rparr> else g);
          g2 = g1\<lparr>cg_done := cg_done g1 + 1\<rparr>
      in (g2, cg_done g2 = n))"

definition completeChunk ::
  "store_world \<Rightarrow> backint_config \<Rightarrow> nat \<Rightarrow> bool \<Rightarrow> response \<Rightarrow> chunk_group list
   \<Rightarrow> (st_call, chunk_group list \<times> response list) prog" where
  "completeChunk w config k connected result groups =
     (case finishChunk (parallel_streams config) result (groups ! k) of
        (g, isLast) \<Rightarrow>
          if isLast then do {
            out \<leftarrow> composeChunks w config (cg_params g) connected (cg_error g);
            ret (groups[k := g], [out])
          } else ret (groups[k := g], []))"

definition runBackupJob ::
  "store_world \<Rightarrow> backint_config \<Rightarrow> backup_job \<Rightarrow> chunk_group list
   \<Rightarrow> (st_call, chunk_group list \<times> response list) prog" where
  "runBackupJob w config j groups =
     (case j of
        Single p \<Rightarrow> do {
          _ \<leftarrow> call (connect_env w) Connect;
          out \<leftarrow> backupFile w config p;
          ret (groups, [out])
        }
      | Chunk k i \<Rightarrow> do {
          connected \<leftarrow> call (connect_env w) Connect;
          result \<leftarrow> backupFile w config
                     (chunkParams (cg_params (groups ! k)) (parallel_streams config) i);
          completeChunk w config k connected result groups
        })"

section \<open>The input\<close>

definition isBackupLine :: "string \<Rightarrow> bool" where
  "isBackupLine line \<longleftrightarrow> hasPrefix line ''#PIPE'' \<or> hasPrefix line ''#FILE''"

definition submitBackup ::
  "store_world \<Rightarrow> backint_config \<Rightarrow> string \<Rightarrow> backup_params \<Rightarrow> chunk_group list
   \<Rightarrow> (st_call, (op_error, chunk_group list \<times> response list \<times> backup_job list) result) prog" where
  "submitBackup w config line p groups =
     (if hasPrefix line ''#FILE'' \<and> parallel_streams config > 1 \<and> \<not> xml_multipart_upload config
      then do {
        r \<leftarrow> backupFileParallel w config p;
        ret (case r of
               Inl out \<Rightarrow> Inr (groups, [out], [])
             | Inr p' \<Rightarrow>
                 Inr (groups @ [\<lparr>cg_params = p', cg_done = 0, cg_error = False\<rparr>], [],
                      map (\<lambda>i. Chunk (length groups) (int i)) [0..<nat (parallel_streams config)]))
      }
      else ret (Inr (groups, [], [Single p])))"

definition scanBackup ::
  "store_world \<Rightarrow> backint_config \<Rightarrow> string \<Rightarrow> chunk_group list
   \<Rightarrow> (st_call, (op_error, chunk_group list \<times> response list \<times> backup_job list) result) prog" where
  "scanBackup w config line groups =
     (if hasPrefix line ''#SOFTWAREID'' then
        ret (case WriteSoftwareVersion line of
               None \<Rightarrow> Inl (MalformedLine line)
             | Some (_, out) \<Rightarrow> Inr (groups, [SoftwareId out], []))
      else if isBackupLine line then
        (let s = Split line
         in if length s < 2 then ret (Inl (MalformedLine line))
            else do {
              ebid \<leftarrow> call (now_env w) Now;
              let p = \<lparr>bp_type = s ! 0, bp_name = s ! 1, bp_size = 0, bp_ebid = ebid,
                       bp_extension = ''.bak'', bp_section = None\<rparr>;
              (if length s > 2 then
                 (case parseInt64 (s ! 2) of
                    None \<Rightarrow> ret (Inl (BadSize line))
                  | Some n \<Rightarrow> submitBackup w config line (p\<lparr>bp_size := n\<rparr>) groups)
               else submitBackup w config line p groups)
            })
      else ret (Inr (groups, [], [])))"

section \<open>Every file is answered once\<close>

definition backupWanted :: "string \<Rightarrow> string multiset" where
  "backupWanted line =
     (if \<not> hasPrefix line ''#SOFTWAREID'' \<and> isBackupLine line \<and> 2 \<le> length (Split line)
      then {#Split line ! 1#} else {#})"

fun singleName :: "backup_job \<Rightarrow> string multiset" where
  "singleName (Single p) = {#bp_name p#}"
| "singleName (Chunk k i) = {#}"

fun isChunkOf :: "nat \<Rightarrow> backup_job \<Rightarrow> bool" where
  "isChunkOf k (Single p) \<longleftrightarrow> False"
| "isChunkOf k (Chunk k' i) \<longleftrightarrow> k' = k"

definition groupName :: "int \<Rightarrow> chunk_group \<Rightarrow> string multiset" where
  "groupName n g = (if cg_done g < n then {#bp_name (cg_params g)#} else {#})"

definition backupPending :: "int \<Rightarrow> chunk_group list \<Rightarrow> backup_job list \<Rightarrow> string multiset" where
  "backupPending n groups q = sum_list (map singleName q) + sum_list (map (groupName n) groups)"

definition chunksLeft :: "nat \<Rightarrow> backup_job list \<Rightarrow> nat" where
  "chunksLeft k q = length (filter (isChunkOf k) q)"

definition backupOk :: "int \<Rightarrow> chunk_group list \<Rightarrow> backup_job list \<Rightarrow> bool" where
  "backupOk n groups q \<longleftrightarrow>
     (\<forall>k < length groups. cg_done (groups ! k) + int (chunksLeft k q) = n) \<and>
     (\<forall>k \<ge> length groups. chunksLeft k q = 0)"

lemma backupFile_answer: "wp (backupFile w config p) (\<lambda>r _. answers r = Some (bp_name p)) cs"
  by (auto simp: backupFile_def openForBackup_def wp_rules split: sum.splits option.splits)

lemma deleteChunks_wp: "(\<And>cs. Q () cs) \<Longrightarrow> wp (deleteChunks w config object is) Q cs"
  by (induction "is" arbitrary: cs) (auto simp: wp_rules)

lemma composeChunks_answer:
  "wp (composeChunks w config p connected err) (\<lambda>r _. answers r = Some (bp_name p)) cs"
  by (auto simp: composeChunks_def composeResult_def wp_rules Let_def split: sum.splits
      intro!: deleteChunks_wp)

lemma finishChunk_simps [simp]:
  "cg_params (fst (finishChunk n r g)) = cg_params g"
  "cg_done (fst (finishChunk n r g)) = cg_done g + 1"
  "snd (finishChunk n r g) \<longleftrightarrow> cg_done g + 1 = n"
  by (simp_all add: finishChunk_def Let_def)

lemma chunksLeft_simps [simp]:
  "chunksLeft k [] = 0"
  "chunksLeft k (j # q) = (if isChunkOf k j then Suc (chunksLeft k q) else chunksLeft k q)"
  "chunksLeft k (q1 @ q2) = chunksLeft k q1 + chunksLeft k q2"
  by (simp_all add: chunksLeft_def)

definition scanPost ::
  "int \<Rightarrow> chunk_group list \<Rightarrow> backup_job list \<Rightarrow> string multiset
   \<Rightarrow> (op_error, chunk_group list \<times> response list \<times> backup_job list) result \<Rightarrow> bool" where
  "scanPost n groups q want r \<longleftrightarrow>
     (case r of
        Inl _ \<Rightarrow> True
      | Inr (v', outs, jobs) \<Rightarrow>
          backupOk n v' (q @ jobs) \<and>
          answered outs + backupPending n v' (q @ jobs) = want + backupPending n groups q)"

lemma scanPost_Inl [simp]: "scanPost n groups q want (Inl e)"
  by (simp add: scanPost_def)

lemma scanPost_Single:
  "backupOk n groups q \<Longrightarrow> scanPost n groups q {#bp_name p#} (Inr (groups, [], [Single p]))"
  by (simp add: scanPost_def backupOk_def backupPending_def ac_simps)

lemma scanPost_out:
  "backupOk n groups q \<Longrightarrow> answers out = Some name \<Longrightarrow>
   scanPost n groups q {#name#} (Inr (groups, [out], []))"
  by (simp add: scanPost_def)

lemma chunksLeft_new:
  "chunksLeft k (map (\<lambda>i. Chunk m (int i)) xs) = (if k = m then length xs else 0)"
  by (induction xs) auto

lemma singles_new: "sum_list (map singleName (map (\<lambda>i. Chunk m (int i)) xs)) = {#}"
  by (induction xs) auto

lemma scanPost_parallel:
  assumes "backupOk n groups q" and "1 < n"
  shows "scanPost n groups q {#bp_name p#}
    (Inr (groups @ [\<lparr>cg_params = p, cg_done = 0, cg_error = False\<rparr>], [],
          map (\<lambda>i. Chunk (length groups) (int i)) [0..<nat n]))"
proof -
  have "backupOk n (groups @ [\<lparr>cg_params = p, cg_done = 0, cg_error = False\<rparr>])
      (q @ map (\<lambda>i. Chunk (length groups) (int i)) [0..<nat n])"
    using assms by (auto simp: backupOk_def chunksLeft_new nth_append less_Suc_eq)
  then show ?thesis
    using assms(2) unfolding scanPost_def
    by (simp add: backupPending_def singles_new groupName_def ac_simps del: map_map)
qed

lemma backupFileParallel_name:
  "wp (backupFileParallel w config p)
     (\<lambda>r _. case r of Inl out \<Rightarrow> answers out = Some (bp_name p) | Inr p' \<Rightarrow> bp_name p' = bp_name p) cs"
  by (auto simp: backupFileParallel_def wp_rules split: sum.splits)

lemma submitBackup_post:
  assumes "backupOk (parallel_streams config) groups q"
  shows "wp (submitBackup w config line p groups)
    (\<lambda>r _. scanPost (parallel_streams config) groups q {#bp_name p#} r) cs"
proof (cases "hasPrefix line ''#FILE'' \<and> parallel_streams config > 1 \<and> \<not> xml_multipart_upload config")
  case False
  show ?thesis
    unfolding submitBackup_def
    by (subst if_not_P [OF False]) (simp add: wp_rules scanPost_Single assms)
next
  case True
  have "wp (backupFileParallel w config p) (\<lambda>r cs. wp (ret (case r of
               Inl out \<Rightarrow> Inr (groups, [out], [])
             | Inr p' \<Rightarrow>
                 Inr (groups @ [\<lparr>cg_params = p', cg_done = 0, cg_error = False\<rparr>], [],
                      map (\<lambda>i. Chunk (length groups) (int i)) [0..<nat (parallel_streams config)])))
      (\<lambda>r _. scanPost (parallel_streams config) groups q {#bp_name p#} r) cs) cs"
  proof (rule wp_mono [OF backupFileParallel_name], goal_cases)
    case (1 r cs')
    show ?case
    proof (cases r)
      case (Inl out)
      with 1 assms show ?thesis by (simp add: wp_rules scanPost_out)
    next
      case (Inr p')
      then have "bp_name p' = bp_name p" using 1 by simp
      with Inr scanPost_parallel [OF assms, of p'] True show ?thesis by (simp add: wp_rules)
    qed
  qed
  with True show ?thesis by (simp add: submitBackup_def wp_bind)
qed

lemma scanBackup_post:
  assumes ok: "backupOk (parallel_streams config) groups q"
  shows "wp (scanBackup w config line groups)
    (\<lambda>r _. scanPost (parallel_streams config) groups q (backupWanted line) r) cs"
proof -
  have none: "scanPost (parallel_streams config) groups q {#} (Inr (groups, outs, []))"
    if "answered outs = {#}" for outs
    using ok that by (simp add: scanPost_def)
  have sub: "wp (submitBackup w config line p groups)
      (\<lambda>r _. scanPost (parallel_streams config) groups q {#Split line ! Suc 0#} r) cs"
    if "bp_name p = Split line ! Suc 0" for p cs
    using submitBackup_post [OF ok, of w line p cs] that by simp
  show ?thesis
    by (auto simp: scanBackup_def backupWanted_def wp_rules Let_def sub none
        split: option.splits)
qed

lemma runBackupJob_Single:
  "wp (runBackupJob w config (Single p) groups)
     (\<lambda>(v', outs) _. v' = groups \<and> answered outs = {#bp_name p#}) cs"
  by (auto simp: runBackupJob_def wp_rules intro!: wp_mono [OF backupFile_answer])

definition chunkPost :: "int \<Rightarrow> chunk_group list \<Rightarrow> nat \<Rightarrow> chunk_group list \<Rightarrow> response list \<Rightarrow> bool" where
  "chunkPost n groups k v' outs \<longleftrightarrow>
     (\<exists>g. v' = groups[k := g] \<and> cg_params g = cg_params (groups ! k) \<and>
        cg_done g = cg_done (groups ! k) + 1 \<and>
        answered outs = (if cg_done g = n then {#bp_name (cg_params g)#} else {#}))"

lemma completeChunk_post:
  "wp (completeChunk w config k c r groups)
     (\<lambda>(v', outs) _. chunkPost (parallel_streams config) groups k v' outs) cs"
proof -
  let ?n = "parallel_streams config"
  obtain g isLast where g: "finishChunk ?n r (groups ! k) = (g, isLast)" by force
  then have g': "g = fst (finishChunk ?n r (groups ! k))" "isLast = snd (finishChunk ?n r (groups ! k))"
    by simp_all
  show ?thesis
  proof (cases isLast)
    case True
    have "wp (composeChunks w config (cg_params g) c (cg_error g))
      (\<lambda>out _. chunkPost ?n groups k (groups[k := g]) [out]) cs"
      by (rule wp_mono [OF composeChunks_answer]) (use True g' in \<open>auto simp: chunkPost_def\<close>)
    with True g show ?thesis by (simp add: completeChunk_def wp_rules)
  next
    case False
    then have "chunkPost ?n groups k (groups[k := g]) []"
      unfolding chunkPost_def by (intro exI [of _ g]) (use g' in auto)
    with False g show ?thesis by (simp add: completeChunk_def wp_rules)
  qed
qed

lemma runBackupJob_Chunk:
  "wp (runBackupJob w config (Chunk k i) groups)
     (\<lambda>(v', outs) _. chunkPost (parallel_streams config) groups k v' outs) cs"
  by (simp add: runBackupJob_def wp_bind wp_call)
     (rule wpI, rule completeChunk_post)

lemma chunk_keeps:
  assumes ok: "backupOk n groups (xs @ Chunk k i # ys)" and post: "chunkPost n groups k v' outs"
  shows "backupOk n v' (xs @ ys) \<and>
    answered outs + backupPending n v' (xs @ ys) = backupPending n groups (xs @ Chunk k i # ys)"
proof -
  obtain g where g: "v' = groups[k := g]" "cg_params g = cg_params (groups ! k)"
    "cg_done g = cg_done (groups ! k) + 1"
    "answered outs = (if cg_done g = n then {#bp_name (cg_params g)#} else {#})"
    using post by (auto simp: chunkPost_def)
  have k: "k < length groups"
  proof (rule ccontr)
    assume "\<not> k < length groups"
    then have "chunksLeft k (xs @ Chunk k i # ys) = 0" using ok by (simp only: backupOk_def not_less)
    then show False by simp
  qed
  then have cnt: "cg_done (groups ! k) + int (chunksLeft k (xs @ Chunk k i # ys)) = n"
    using ok by (simp only: backupOk_def)
  have ok': "backupOk n v' (xs @ ys)"
    using ok g(1,3) by (auto simp: backupOk_def nth_list_update split: if_splits)
  have "groupName n (groups ! k) = {#bp_name (cg_params g)#}"
    using cnt g(2) by (simp add: groupName_def)
  then have sum: "sum_list (map (groupName n) v') + {#bp_name (cg_params g)#} =
      sum_list (map (groupName n) groups) + groupName n g"
    using sum_list_update_mset [OF k, of "groupName n" g] g(1) by (simp only:)
  have "answered outs + groupName n g = {#bp_name (cg_params g)#}"
    using cnt g(3,4) by (auto simp: groupName_def)
  from mset_balance [OF sum this]
  have "answered outs + sum_list (map (groupName n) v') = sum_list (map (groupName n) groups)" .
  then have "answered outs + backupPending n v' (xs @ ys) = backupPending n groups (xs @ Chunk k i # ys)"
    by (simp add: backupPending_def ac_simps)
  with ok' show ?thesis by simp
qed

interpretation backup: job_pool "scanBackup w config" "runBackupJob w config"
  "backupOk (parallel_streams config)" "backupPending (parallel_streams config)" backupWanted answered
  for w config
proof (unfold_locales, goal_cases)
  case (1 v q l cs v' outs jobs cs')
  from wp_run [OF 1(2) scanBackup_post [OF 1(1)]] show ?case by (simp add: scanPost_def)
next
  case (2 v xs j ys cs v' outs cs')
  show ?case
  proof (cases j)
    case (Single p)
    with wp_run [OF 2(2) [unfolded Single] runBackupJob_Single] 2(1) show ?thesis
      by (simp add: backupOk_def backupPending_def ac_simps)
  next
    case (Chunk k i)
    with wp_run [OF 2(2) [unfolded Chunk] runBackupJob_Chunk] 2(1) chunk_keeps show ?thesis by simp
  qed
next
  case (3 os1 os2)
  show ?case by (rule answered_append)
next
  case (4 v)
  have "groupName (parallel_streams config) (v ! k) = {#}" if "k < length v" for k
    using 4 that by (simp add: backupOk_def groupName_def)
  then have "\<forall>g \<in> set v. groupName (parallel_streams config) g = {#}"
    by (metis in_set_conv_nth)
  then have "sum_list (map (groupName (parallel_streams config)) v) = {#}"
    by (induction v) auto
  then show ?case by (simp add: backupPending_def)
qed

section \<open>Sections\<close>

text \<open>What \<open>io.NewSectionReader\<close> reads of a file with the bytes \<open>bs\<close>.\<close>

definition sectionOf :: "'b list \<Rightarrow> int \<Rightarrow> int \<Rightarrow> 'b list" where
  "sectionOf bs off len = take (nat len) (drop (nat off) bs)"

lemma goDiv_nat: "goDiv (int a) (int b) = int (a div b)"
proof -
  have "goDiv (int a) (int b) = (if a = 0 \<or> b = 0 then 0 else int a div int b)"
    by (simp add: goDiv_def sgn_if)
  then show ?thesis by (simp add: zdiv_int)
qed

lemma take_sections:
  "concat (map (\<lambda>i. take d (drop (d * i) bs)) [0..<m]) = take (d * m) bs"
proof (induction m)
  case 0
  then show ?case by simp
next
  case (Suc m)
  have "take (d * m + d) bs = take (d * m) bs @ take d (drop (d * m) bs)"
    by (rule take_add)
  with Suc show ?case by (simp add: add.commute)
qed

lemma sections_cover:
  assumes "0 < n"
  shows "concat (map (\<lambda>i. sectionOf bs (chunkOffset (int (length bs)) (int n) (int i))
           (chunkLength (int (length bs)) (int n) (int i))) [0..<n]) = bs"
proof -
  let ?d = "length bs div n"
  obtain m where m: "n = Suc m" using assms by (cases n) auto
  have m1: "int n - 1 = int m" using m by simp
  have le: "?d * m \<le> length bs"
    by (metis div_times_less_eq_dividend le_trans m mult.commute mult_le_mono2 lessI less_imp_le)
  have pre: "sectionOf bs (chunkOffset (int (length bs)) (int n) (int i))
      (chunkLength (int (length bs)) (int n) (int i)) = take ?d (drop (?d * i) bs)" if "i < m" for i
    using that m1 by (simp add: sectionOf_def chunkOffset_def chunkLength_def goDiv_nat nat_mult_distrib)
  have last: "sectionOf bs (chunkOffset (int (length bs)) (int n) (int m))
      (chunkLength (int (length bs)) (int n) (int m)) = drop (?d * m) bs"
  proof -
    have "nat (int (length bs) - int ?d * int m) = length bs - ?d * m"
      by (simp add: nat_diff_distrib' nat_mult_distrib flip: of_nat_mult)
    then show ?thesis
      using m1 by (simp add: sectionOf_def chunkOffset_def chunkLength_def goDiv_nat nat_mult_distrib)
  qed
  have "concat (map (\<lambda>i. sectionOf bs (chunkOffset (int (length bs)) (int n) (int i))
           (chunkLength (int (length bs)) (int n) (int i))) [0..<m]) = take (?d * m) bs"
  proof -
    have "map (\<lambda>i. sectionOf bs (chunkOffset (int (length bs)) (int n) (int i))
           (chunkLength (int (length bs)) (int n) (int i))) [0..<m] =
        map (\<lambda>i. take ?d (drop (?d * i) bs)) [0..<m]"
      by (rule map_cong [OF refl]) (simp add: pre)
    then show ?thesis using take_sections [of ?d bs m] by (simp only:)
  qed
  with last m show ?thesis by simp
qed

text \<open>All sections of a file, in the order in which they complete.\<close>

fun finishAll :: "int \<Rightarrow> response list \<Rightarrow> chunk_group \<Rightarrow> chunk_group \<times> bool list" where
  "finishAll n [] g = (g, [])"
| "finishAll n (r # rs) g =
     (let (g1, isLast) = finishChunk n r g; (g2, flags) = finishAll n rs g1 in (g2, isLast # flags))"

definition isError :: "response \<Rightarrow> bool" where
  "isError r \<longleftrightarrow> hasPrefix (render r) ''#ERROR''"

lemma isError_simps [simp]: "isError (Failed name)" "\<not> isError (Saved ebid name bytes)"
  by (simp_all add: isError_def render_def)

lemma finishAll_eq:
  "cg_done g + int (length rs) = n \<Longrightarrow> finishAll n rs g =
     (g\<lparr>cg_done := n, cg_error := cg_error g \<or> (\<exists>r \<in> set rs. isError r)\<rparr>,
      map (\<lambda>i. Suc i = length rs) [0..<length rs])"
proof (induction rs arbitrary: g)
  case Nil
  then show ?case by simp
next
  case (Cons r rs)
  define g1 where "g1 = fst (finishChunk n r g)"
  have g1: "g1 = g\<lparr>cg_error := cg_error g \<or> isError r, cg_done := cg_done g + 1\<rparr>"
    by (simp add: g1_def finishChunk_def Let_def isError_def)
  have fin: "finishChunk n r g = (g1, cg_done g + 1 = n)"
    using finishChunk_simps(3) [of n r g] by (simp add: g1_def prod_eq_iff)
  have "cg_done g1 + int (length rs) = n" using Cons.prems g1 by simp
  from Cons.IH [OF this] have "finishAll n rs g1 =
      (g1\<lparr>cg_done := n, cg_error := cg_error g1 \<or> (\<exists>r \<in> set rs. isError r)\<rparr>,
       map (\<lambda>i. Suc i = length rs) [0..<length rs])" .
  moreover have "(cg_done g + 1 = n) = (rs = [])" using Cons.prems by auto
  moreover have "map (\<lambda>i. Suc i = length (r # rs)) [0..<length (r # rs)] =
      (rs = []) # map (\<lambda>i. Suc i = length rs) [0..<length rs]"
    by (simp add: map_upt_Suc del: upt_Suc)
  ultimately show ?case using fin g1 by (simp add: Let_def)
qed

lemma composeChunks_error:
  "wp (composeChunks w config p connected True) (\<lambda>r _. r = Failed (bp_name p)) cs"
  by (auto simp: composeChunks_def composeResult_def wp_rules Let_def split: sum.splits
      intro!: deleteChunks_wp)

section \<open>The shared metadata map\<close>

text \<open>When the configuration has metadata, \<open>config.GetMetadata()\<close> returns the map of the shared
  configuration, and every concurrent \<open>backupFile\<close> writes its backup type into it before its
  upload reads it. A job sets the type, then uploads with whatever the map holds.\<close>

datatype upload_phase = NotSet | TypeSet | Uploaded string

inductive meta_step ::
  "string \<times> (string \<times> upload_phase) list \<Rightarrow> string \<times> (string \<times> upload_phase) list \<Rightarrow> bool" where
  set_type: "meta_step (v, xs @ (t, NotSet) # ys) (replaceAll t ''#'' [], xs @ (t, TypeSet) # ys)"
| upload: "meta_step (v, xs @ (t, TypeSet) # ys) (v, xs @ (t, Uploaded v) # ys)"

section \<open>Properties\<close>

text \<open>C26. Whatever storage and the file system answer, and in whatever order the workers run the
  jobs, a backup that ends without a malformed line has answered every \<open>#PIPE\<close> and \<open>#FILE\<close>
  line exactly once, parallel uploads included.\<close>

theorem backup_answers_every_file:
  assumes "pool_reach (scanBackup w config) (runBackupJob w config) (initial [] ls cs) s"
    and "finished s" and "failure s = None"
  shows "answered (written s) = sum_list (map backupWanted ls)"
  using backup.all_answered [OF _ assms] by (simp add: backup.requests_def backupOk_def)

definition upWorld :: store_world where
  "upWorld =
     \<lparr>connect_env = \<lambda>_ _. True, now_env = \<lambda>_ _. ''17'', list_env = \<lambda>_ _. Inr [],
      open_env = \<lambda>_ _. Inr (), stat_env = \<lambda>_ _. Inr \<lparr>fi_size = 5, fi_readable = True, fi_writable = True\<rparr>,
      upload_env = \<lambda>_ _. Inr 5, download_env = \<lambda>_ _. Inr 5, attrs_env = \<lambda>_ _. Inl [],
      compose_env = \<lambda>_ _. None, delete_env = \<lambda>_ _. Deleted,
      wclock = \<lparr>zeroTime = [], addDays = \<lambda>t _. t, parseRFC3339 = \<lambda>s. s\<rparr>\<rparr>"

lemma backup_answers_every_file_witness:
  "\<exists>s. answered (written s) = {#''/a''#} \<and> finished s \<and>
     pool_reach (scanBackup upWorld zeroConfig) (runBackupJob upWorld zeroConfig) (initial [] [''#PIPE /a''] []) s"
proof -
  let ?scan = "scanBackup upWorld zeroConfig" and ?run = "runBackupJob upWorld zeroConfig"
  let ?s0 = "initial [] [''#PIPE /a''] [] :: (st_call, chunk_group list, backup_job, response, op_error) pool"
  let ?p = "\<lparr>bp_type = ''#PIPE'', bp_name = ''/a'', bp_size = 0, bp_ebid = ''17'', bp_extension = ''.bak'',
     bp_section = None\<rparr>"
  have scan: "run_state (?scan ''#PIPE /a'' []) [] = (Inr ([], [], [Single ?p]), [Now])" by code_simp
  let ?s1 = "?s0\<lparr>lines := [], aux := [], queue := queue ?s0 @ [Single ?p], written := written ?s0 @ [], calls := [Now]\<rparr>"
  have s1: "pool_step ?scan ?run ?s0 ?s1"
    by (rule scan_line [where l = "''#PIPE /a''" and ls = "[]" and v = "[]" and outs = "[]"
        and jobs = "[Single ?p]" and cs = "[Now]"]) (use scan in \<open>simp_all add: initial_def\<close>)
  have run: "fst (run_state (?run (Single ?p) []) [Now]) = ([], [Saved ''17'' ''/a'' 5])" by code_simp
  obtain cs where run': "run_state (?run (Single ?p) []) [Now] = (([], [Saved ''17'' ''/a'' 5]), cs)"
    using run by (metis prod.collapse)
  let ?s2 = "?s1\<lparr>aux := [], queue := [] @ [], written := written ?s1 @ [Saved ''17'' ''/a'' 5], calls := cs\<rparr>"
  have s2: "pool_step ?scan ?run ?s1 ?s2"
    by (rule work [where xs = "[]" and ys = "[]" and j = "Single ?p" and v = "[]"
        and outs = "[Saved ''17'' ''/a'' 5]" and cs = cs])
       (use run' in \<open>simp_all add: initial_def\<close>)
  have r: "pool_reach ?scan ?run ?s0 ?s2"
    by (rule pool_reach.step [OF pool_reach.step [OF pool_reach.start s1] s2])
  have f: "finished ?s2" "failure ?s2 = None" by (simp_all add: finished_def initial_def)
  have "sum_list (map backupWanted [''#PIPE /a'']) = {#''/a''#}" by code_simp
  with backup_answers_every_file [OF r f] r f(1) show ?thesis by metis
qed





text \<open>With metadata in the configuration, two concurrent uploads can store a \<open>#FILE\<close> backup
  with the type of a \<open>#PIPE\<close>.\<close>

theorem backup_type_race:
  "meta_step\<^sup>*\<^sup>* (v, [(''#FILE'', NotSet), (''#PIPE'', NotSet)])
     (''PIPE'', [(''#FILE'', Uploaded ''PIPE''), (''#PIPE'', Uploaded ''PIPE'')])"
proof -
  have f: "replaceAll ''#FILE'' ''#'' [] = ''FILE''" and p: "replaceAll ''#PIPE'' ''#'' [] = ''PIPE''"
    by code_simp+
  have 1: "meta_step (v, [(''#FILE'', NotSet), (''#PIPE'', NotSet)])
      (''FILE'', [(''#FILE'', TypeSet), (''#PIPE'', NotSet)])"
    using set_type [of v "[]" "''#FILE''" "[(''#PIPE'', NotSet)]"] f by simp
  have 2: "meta_step (''FILE'', [(''#FILE'', TypeSet), (''#PIPE'', NotSet)])
      (''PIPE'', [(''#FILE'', TypeSet), (''#PIPE'', TypeSet)])"
    using set_type [of "''FILE''" "[(''#FILE'', TypeSet)]" "''#PIPE''" "[]"] p by simp
  have 3: "meta_step (''PIPE'', [(''#FILE'', TypeSet), (''#PIPE'', TypeSet)])
      (''PIPE'', [(''#FILE'', Uploaded ''PIPE''), (''#PIPE'', TypeSet)])"
    using upload [of "''PIPE''" "[]" "''#FILE''" "[(''#PIPE'', TypeSet)]"] by simp
  have 4: "meta_step (''PIPE'', [(''#FILE'', Uploaded ''PIPE''), (''#PIPE'', TypeSet)])
      (''PIPE'', [(''#FILE'', Uploaded ''PIPE''), (''#PIPE'', Uploaded ''PIPE'')])"
    using upload [of "''PIPE''" "[(''#FILE'', Uploaded ''PIPE'')]" "''#PIPE''" "[]"] by simp
  from 1 2 3 4 show ?thesis by (meson converse_rtranclp_into_rtranclp rtranclp.rtrancl_refl)
qed

end
