(* ===== verification/BackintRestore.thy ===== *)
theory BackintRestore
  imports BackintStore
begin

text \<open>
  \<open>internal/backint/restore/restore.go\<close>, \<open>internal/backint/inquire/inquire.go\<close> and
  \<open>internal/backint/delete/delete.go\<close>: the Backint operations that read, list and delete backups.
  Each handles its input lines on the worker pool; the storage library lists the objects with a
  prefix, latest first.
\<close>

section \<open>Restore\<close>

record restore_job =
  rj_file :: string
  rj_dest :: string
  rj_ebid :: string

definition restorePrefix :: "backint_config \<Rightarrow> string \<Rightarrow> string \<Rightarrow> string" where
  "restorePrefix config fileName ebid =
     (let prefix = CreateObjectPath config (TrimAndClean fileName) [] []
      in if ebid \<noteq> [] then prefix @ ebid @ ''.bak'' else prefix)"

definition downloadRequest :: "backint_config \<Rightarrow> bobject \<Rightarrow> string \<Rightarrow> download_req" where
  "downloadRequest config obj dest =
     \<lparr>dn_object = ob_name obj, dn_bucket = bucket config, dn_dest = dest, dn_bytes = ob_size obj,
      dn_chunk_mb = buffer_size_mb config, dn_rate = rate_limit_mb config * 1024 * 1024,
      dn_key = encryption_key config, dn_kms = kms_key config, dn_retries = retries config,
      dn_workers = parallel_recovery_streams config\<rparr>"

definition restoreObject ::
  "store_world \<Rightarrow> backint_config \<Rightarrow> bobject \<Rightarrow> string \<Rightarrow> string \<Rightarrow> (st_call, response) prog" where
  "restoreObject w config obj fileName dest = do {
     f \<leftarrow> (if map_of (ob_metadata obj) ''X-Backup-Type'' = Some ''FILE''
          then call (open_env w) (CreateFile dest)
          else call (open_env w) (OpenWrite dest));
     case f of
       Inl _ \<Rightarrow> ret (Failed fileName)
     | Inr _ \<Rightarrow> do {
         fi \<leftarrow> call (stat_env w) (FStat dest);
         case fi of
           Inl _ \<Rightarrow> ret (Failed fileName)
         | Inr info \<Rightarrow>
             (if \<not> fi_writable info then ret (Failed fileName)
              else do {
                r \<leftarrow> call (download_env w) (Download (downloadRequest config obj dest));
                ret (case r of
                       Inl _ \<Rightarrow> Failed fileName
                     | Inr _ \<Rightarrow> Restored (trimSuffix (pathBase (ob_name obj)) ''.bak'') fileName)
              })
       }
   }"

definition restoreFile :: "store_world \<Rightarrow> backint_config \<Rightarrow> restore_job \<Rightarrow> (st_call, response) prog" where
  "restoreFile w config j = do {
     objects \<leftarrow> call (list_env w)
       (ListObjects (restorePrefix config (rj_file j) (rj_ebid j)) [] (retries config));
     case objects of
       Inl _ \<Rightarrow> ret (Failed (rj_file j))
     | Inr os \<Rightarrow>
         (case os of
            [] \<Rightarrow> ret (NotFound (rj_file j))
          | obj # _ \<Rightarrow> restoreObject w config obj (rj_file j) (TrimAndClean (rj_dest j)))
   }"

definition runRestoreJob ::
  "store_world \<Rightarrow> backint_config \<Rightarrow> restore_job \<Rightarrow> unit \<Rightarrow> (st_call, unit \<times> response list) prog" where
  "runRestoreJob w config j u = do {
     _ \<leftarrow> call (connect_env w) Connect;
     out \<leftarrow> restoreFile w config j;
     ret ((), [out])
   }"

text \<open>Log backups are restored at once, in the order of the input.\<close>

definition submitRestore ::
  "store_world \<Rightarrow> backint_config \<Rightarrow> restore_job
   \<Rightarrow> (st_call, (op_error, unit \<times> response list \<times> restore_job list) result) prog" where
  "submitRestore w config j =
     (if contains (rj_file j) ''log_backup''
      then do { r \<leftarrow> runRestoreJob w config j (); ret (Inr ((), snd r, [])) }
      else ret (Inr ((), [], [j])))"

definition scanRestore ::
  "store_world \<Rightarrow> backint_config \<Rightarrow> string \<Rightarrow> unit
   \<Rightarrow> (st_call, (op_error, unit \<times> response list \<times> restore_job list) result) prog" where
  "scanRestore w config line u =
     (if hasPrefix line ''#SOFTWAREID'' then
        ret (case WriteSoftwareVersion line of
               None \<Rightarrow> Inl (MalformedLine line)
             | Some (_, out) \<Rightarrow> Inr ((), [SoftwareId out], []))
      else if hasPrefix line ''#NULL'' then
        (let s = Split line
         in if length s < 2 then ret (Inl (MalformedLine line))
            else submitRestore w config
              \<lparr>rj_file = s ! 1, rj_dest = (if length s > 2 then s ! 2 else s ! 1), rj_ebid = []\<rparr>)
      else if hasPrefix line ''#EBID'' then
        (let s = Split line
         in if length s < 3 then ret (Inl (MalformedLine line))
            else submitRestore w config
              \<lparr>rj_file = s ! 2, rj_dest = (if length s > 3 then s ! 3 else s ! 2),
               rj_ebid = TrimAndClean (s ! 1)\<rparr>)
      else ret (Inr ((), [], [])))"

section \<open>Inquire\<close>

record inquire_job =
  ij_prefix :: string
  ij_file :: string
  ij_ebid :: string
  ij_filter :: string

text \<open>The loop over the objects; \<open>fileName\<close> is overwritten with the name reported last.\<close>

fun inquireObjects ::
  "backint_config \<Rightarrow> string \<Rightarrow> string \<Rightarrow> bobject list \<Rightarrow> inquiry_entry list" where
  "inquireObjects config backintVersion fileName [] = []"
| "inquireObjects config backintVersion fileName (obj # os) =
     (let name = (if folder_prefix config \<noteq> [] then trimPrefix (ob_name obj) (folder_prefix config)
                  else ob_name obj);
          ebid = trimSuffix (pathBase name) ''.bak'';
          dirs = splitN2 chSlash (pathDir name)
      in if length dirs < 2 then BadObject ebid name # inquireObjects config backintVersion fileName os
         else
           let d = (if shorten_folder_path config \<and> RestoreFilename (dirs ! 1) \<noteq> fileName \<and> fileName \<noteq> []
                    then ''usr/sap/'' @ dirs ! 0 @ ''/SYS/global/hdb/backint/'' @ dirs ! 1
                    else dirs ! 1);
               fileName' = RestoreFilename d
           in BackupFound ebid fileName'
                (if backintVersion \<ge> ''1.50'' then Some (ob_created obj) else None)
              # inquireObjects config backintVersion fileName' os)"

definition inquireFiles ::
  "store_world \<Rightarrow> backint_config \<Rightarrow> inquire_job \<Rightarrow> string \<Rightarrow> (st_call, response) prog" where
  "inquireFiles w config j backintVersion = do {
     objects \<leftarrow> call (list_env w) (ListObjects (ij_prefix j) (ij_filter j) (retries config));
     ret (case objects of
            Inl _ \<Rightarrow> InquiryMiss True (ij_ebid j) (ij_file j)
          | Inr os \<Rightarrow>
              if os = [] then InquiryMiss False (ij_ebid j) (ij_file j)
              else InquiryHits (ij_file j) (inquireObjects config backintVersion (ij_file j) os))
   }"

text \<open>The closure reads the version variable when the job runs.\<close>

definition runInquireJob ::
  "store_world \<Rightarrow> backint_config \<Rightarrow> inquire_job \<Rightarrow> string \<Rightarrow> (st_call, string \<times> response list) prog" where
  "runInquireJob w config j backintVersion = do {
     _ \<leftarrow> call (connect_env w) Connect;
     out \<leftarrow> inquireFiles w config j backintVersion;
     ret (backintVersion, [out])
   }"

definition scanInquire ::
  "store_world \<Rightarrow> backint_config \<Rightarrow> string \<Rightarrow> string
   \<Rightarrow> (st_call, (op_error, string \<times> response list \<times> inquire_job list) result) prog" where
  "scanInquire w config line backintVersion =
     (if hasPrefix line ''#SOFTWAREID'' then
        ret (case WriteSoftwareVersion line of
               None \<Rightarrow> Inl (MalformedLine line)
             | Some (version, out) \<Rightarrow> Inr (version, [SoftwareId out], []))
      else if hasPrefix line ''#NULL'' then
        (let s = Split line; fileName = (if length s > 1 then s ! 1 else [])
         in ret (Inr (backintVersion, [],
              [\<lparr>ij_prefix = CreateObjectPath config (TrimAndClean fileName) [] [],
                ij_file = fileName, ij_ebid = [], ij_filter = []\<rparr>])))
      else if hasPrefix line ''#EBID'' then
        (let s = Split line
         in if length s < 2 then ret (Inl (MalformedLine line))
            else
              let ebid = TrimAndClean (s ! 1)
              in ret (Inr (backintVersion, [],
                   [if length s > 2
                    then \<lparr>ij_prefix = CreateObjectPath config (TrimAndClean (s ! 2)) ebid ''.bak'',
                          ij_file = s ! 2, ij_ebid = ebid, ij_filter = []\<rparr>
                    else \<lparr>ij_prefix = folder_prefix config @ user_id config @ ''/'',
                          ij_file = [], ij_ebid = ebid, ij_filter = ebid @ ''.bak''\<rparr>])))
      else ret (Inr (backintVersion, [], [])))"

section \<open>Delete\<close>

record delete_job =
  dj_ebid :: string
  dj_file :: string
  dj_object :: string

definition runDeleteJob ::
  "store_world \<Rightarrow> backint_config \<Rightarrow> delete_job \<Rightarrow> unit \<Rightarrow> (st_call, unit \<times> response list) prog" where
  "runDeleteJob w config j u = do {
     _ \<leftarrow> call (connect_env w) Connect;
     r \<leftarrow> call (delete_env w) (DeleteObject (dj_object j) (retries config));
     ret ((), [case r of
                 NotExist \<Rightarrow> DeleteNotFound (dj_ebid j) (dj_file j)
               | DeleteFailed \<Rightarrow> DeleteError (dj_ebid j) (dj_file j)
               | Deleted \<Rightarrow> DeletedId (dj_ebid j) (dj_file j)])
   }"

definition deleteJobOf :: "backint_config \<Rightarrow> string \<Rightarrow> delete_job" where
  "deleteJobOf config line =
     (let s = Split line; ebid = trim (s ! 1) [chQuote]
      in \<lparr>dj_ebid = ebid, dj_file = s ! 2,
          dj_object = CreateObjectPath config (TrimAndClean (s ! 2)) ebid ''.bak''\<rparr>)"

definition scanDelete ::
  "store_world \<Rightarrow> backint_config \<Rightarrow> string \<Rightarrow> unit
   \<Rightarrow> (st_call, (op_error, unit \<times> response list \<times> delete_job list) result) prog" where
  "scanDelete w config line u =
     (if hasPrefix line ''#SOFTWAREID'' then
        ret (case WriteSoftwareVersion line of
               None \<Rightarrow> Inl (MalformedLine line)
             | Some (_, out) \<Rightarrow> Inr ((), [SoftwareId out], []))
      else if hasPrefix line ''#EBID'' then
        (if length (Split line) < 3 then ret (Inl (MalformedLine line))
         else ret (Inr ((), [], [deleteJobOf config line])))
      else ret (Inr ((), [], [])))"

section \<open>Every request is answered once\<close>

definition restoreWanted :: "string \<Rightarrow> string multiset" where
  "restoreWanted line =
     (if hasPrefix line ''#SOFTWAREID'' then {#}
      else if hasPrefix line ''#NULL'' \<and> 2 \<le> length (Split line) then {#Split line ! 1#}
      else if hasPrefix line ''#EBID'' \<and> 3 \<le> length (Split line) then {#Split line ! 2#}
      else {#})"

definition inquireWanted :: "string \<Rightarrow> string multiset" where
  "inquireWanted line =
     (if hasPrefix line ''#SOFTWAREID'' then {#}
      else if hasPrefix line ''#NULL'' then {#if length (Split line) > 1 then Split line ! 1 else []#}
      else if hasPrefix line ''#EBID'' \<and> 2 \<le> length (Split line)
        then {#if length (Split line) > 2 then Split line ! 2 else []#}
      else {#})"

definition deleteWanted :: "string \<Rightarrow> string multiset" where
  "deleteWanted line =
     (if hasPrefix line ''#SOFTWAREID'' then {#}
      else if hasPrefix line ''#EBID'' \<and> 3 \<le> length (Split line) then {#Split line ! 2#}
      else {#})"

text \<open>The tests of a line exclude one another.\<close>

lemma null_not_ebid: "hasPrefix l ''#NULL'' \<Longrightarrow> \<not> hasPrefix l ''#EBID''"
  by (auto simp: hasPrefix_iff)

lemma restoreFile_answer: "wp (restoreFile w config j) (\<lambda>r _. answers r = Some (rj_file j)) cs"
  by (auto simp: restoreFile_def restoreObject_def wp_rules split: sum.splits list.splits)

lemma runRestoreJob_answer:
  "wp (runRestoreJob w config j u) (\<lambda>(v, outs) _. answered outs = {#rj_file j#}) cs"
  unfolding runRestoreJob_def wp_bind wp_call
  by (rule wp_mono [OF restoreFile_answer]) (simp add: wp_rules)

definition restorePost ::
  "string multiset \<Rightarrow> (op_error, unit \<times> response list \<times> restore_job list) result \<Rightarrow> bool" where
  "restorePost want r \<longleftrightarrow>
     (case r of
        Inl _ \<Rightarrow> True
      | Inr (_, outs, jobs) \<Rightarrow> answered outs + mset (map rj_file jobs) = want)"

lemma submitRestore_post: "wp (submitRestore w config j) (\<lambda>r _. restorePost {#rj_file j#} r) cs"
proof (cases "contains (rj_file j) ''log_backup''")
  case True
  have "wp (runRestoreJob w config j ())
      (\<lambda>r cs. wp (ret (Inr ((), snd r, []))) (\<lambda>r _. restorePost {#rj_file j#} r) cs) cs"
    by (rule wp_mono [OF runRestoreJob_answer]) (auto simp: wp_rules restorePost_def)
  with True show ?thesis by (simp add: submitRestore_def wp_bind)
next
  case False
  then show ?thesis by (simp add: submitRestore_def wp_rules restorePost_def)
qed

lemma scanRestore_post: "wp (scanRestore w config line u) (\<lambda>r _. restorePost (restoreWanted line) r) cs"
proof -
  have sub: "wp (submitRestore w config j) (\<lambda>r _. restorePost {#n#} r) cs" if "rj_file j = n" for j n cs
    using submitRestore_post [of w config j cs] that by simp
  have "restorePost {#} (Inr ((), [], []))" "restorePost want (Inl e)"
    "restorePost {#} (Inr ((), [SoftwareId s], []))" for want e s
    by (simp_all add: restorePost_def)
  then show ?thesis
    using null_not_ebid [of line]
    by (auto simp: scanRestore_def restoreWanted_def wp_rules Let_def sub split: option.splits)
qed

interpretation restore: job_pool "scanRestore w config" "runRestoreJob w config"
  "\<lambda>_ _. True" "\<lambda>_ q. mset (map rj_file q)" restoreWanted answered for w config
proof (unfold_locales, goal_cases)
  case (1 v q l cs v' outs jobs cs')
  from wp_run [OF 1(2) scanRestore_post] show ?case by (auto simp: restorePost_def ac_simps)
next
  case (2 v xs j ys cs v' outs cs')
  from wp_run [OF 2(2) runRestoreJob_answer] show ?case by simp
next
  case (3 os1 os2)
  show ?case by (rule answered_append)
qed simp

lemma inquireFiles_answer: "wp (inquireFiles w config j v) (\<lambda>r _. answers r = Some (ij_file j)) cs"
  by (auto simp: inquireFiles_def wp_rules split: sum.splits)

interpretation inquire: job_pool "scanInquire w config" "runInquireJob w config"
  "\<lambda>_ _. True" "\<lambda>_ q. mset (map ij_file q)" inquireWanted answered for w config
proof (unfold_locales, goal_cases)
  case (1 v q l cs v' outs jobs cs')
  then show ?case
    using null_not_ebid [of l]
    by (auto simp: scanInquire_def inquireWanted_def Let_def split: if_splits option.splits)
next
  case (2 v xs j ys cs v' outs cs')
  have "wp (runInquireJob w config j v) (\<lambda>(v', outs) _. answered outs = {#ij_file j#}) cs"
    unfolding runInquireJob_def wp_bind wp_call
    by (rule wp_mono [OF inquireFiles_answer]) (simp add: wp_rules)
  from wp_run [OF 2(2) this] show ?case by simp
next
  case (3 os1 os2)
  show ?case by (rule answered_append)
qed simp

interpretation delete: job_pool "scanDelete w config" "runDeleteJob w config"
  "\<lambda>_ _. True" "\<lambda>_ q. mset (map dj_file q)" deleteWanted answered for w config
proof (unfold_locales, goal_cases)
  case (1 v q l cs v' outs jobs cs')
  then show ?case
    by (auto simp: scanDelete_def deleteWanted_def deleteJobOf_def Let_def split: if_splits option.splits)
next
  case (2 v xs j ys cs v' outs cs')
  have "wp (runDeleteJob w config j v) (\<lambda>(v', outs) _. answered outs = {#dj_file j#}) cs"
    by (auto simp: runDeleteJob_def wp_rules split: delete_answer.splits)
  from wp_run [OF 2(2) this] show ?case by simp
next
  case (3 os1 os2)
  show ?case by (rule answered_append)
qed simp

section \<open>What a delete touches\<close>

text \<open>The objects under which a backup stores the file and id of an \<open>#EBID\<close> line.\<close>

definition deletable :: "backint_config \<Rightarrow> string list \<Rightarrow> string set" where
  "deletable config ls =
     {CreateObjectPath config (TrimAndClean (Split l ! 2)) (trim (Split l ! 1) [chQuote]) ''.bak'' |l. l \<in> set ls \<and> hasPrefix l ''#EBID'' \<and> 3 \<le> length (Split l)}"

lemma deletableI:
  "l \<in> set ls \<Longrightarrow> hasPrefix l ''#EBID'' \<Longrightarrow> 3 \<le> length (Split l) \<Longrightarrow> dj_object (deleteJobOf config l) \<in> deletable config ls"
  by (auto simp: deletable_def deleteJobOf_def Let_def)

definition deletes_only :: "string set \<Rightarrow> st_call list \<Rightarrow> bool" where
  "deletes_only objs cs \<longleftrightarrow> (\<forall>c \<in> set cs. \<forall>ob n. c = DeleteObject ob n \<longrightarrow> ob \<in> objs)"

definition delete_inv ::
  "backint_config \<Rightarrow> string list \<Rightarrow> (st_call, unit, delete_job, response, op_error) pool \<Rightarrow> bool" where
  "delete_inv config ls s \<longleftrightarrow>
     set (lines s) \<subseteq> set ls \<and> dj_object ` set (queue s) \<subseteq> deletable config ls \<and>
     deletes_only (deletable config ls) (calls s)"

lemma scanDelete_run:
  "run_state (scanDelete w config l u) cs = (Inr (v, outs, jobs), cs') \<Longrightarrow>
   cs' = cs \<and> (\<forall>j \<in> set jobs. j = deleteJobOf config l \<and> hasPrefix l ''#EBID'' \<and> 3 \<le> length (Split l))"
  by (auto simp: scanDelete_def split: if_splits option.splits)

lemma scanDelete_error: "run_state (scanDelete w config l u) cs = (Inl e, cs') \<Longrightarrow> cs' = cs"
  by (auto simp: scanDelete_def split: if_splits option.splits)

lemma runDeleteJob_calls:
  "run_state (runDeleteJob w config j u) cs = ((v, outs), cs') \<Longrightarrow>
   cs' = DeleteObject (dj_object j) (retries config) # Connect # cs"
  by (simp add: runDeleteJob_def)

lemma delete_inv_step:
  assumes "delete_inv config ls s" and "pool_step (scanDelete w config) (runDeleteJob w config) s s'"
  shows "delete_inv config ls s'"
  using assms(2)
proof (cases rule: pool_step.cases)
  case (scan_line l ls' v outs jobs cs)
  with scanDelete_run [OF scan_line(3)] assms(1) show ?thesis
    by (auto simp: delete_inv_def intro: deletableI)
next
  case (scan_error l ls' e cs)
  with scanDelete_error [OF scan_error(3)] assms(1) show ?thesis by (simp add: delete_inv_def)
next
  case (read_error e)
  with assms(1) show ?thesis by (simp add: delete_inv_def)
next
  case (work xs j ys v outs cs)
  with runDeleteJob_calls [OF work(2)] assms(1) show ?thesis
    by (auto simp: delete_inv_def deletes_only_def)
qed

lemma delete_inv_reach:
  "pool_reach (scanDelete w config) (runDeleteJob w config) s0 s \<Longrightarrow> delete_inv config ls s0 \<Longrightarrow>
   delete_inv config ls s"
  by (induction rule: pool_reach.induct) (auto intro: delete_inv_step)

section \<open>Paths of objects\<close>

definition plain :: "string \<Rightarrow> bool" where
  "plain x \<longleftrightarrow> x \<noteq> [] \<and> chSlash \<notin> set x \<and> x \<noteq> ''.'' \<and> x \<noteq> ''..''"

lemma cleanComps_plain:
  "list_all plain xs \<Longrightarrow> cleanComps rooted out (xs @ ys) = cleanComps rooted (rev xs @ out) ys"
  by (induction xs arbitrary: out) (auto simp: plain_def)

lemma joinWith_snoc: "xs \<noteq> [] \<Longrightarrow> joinWith sep (xs @ [x]) = joinWith sep xs @ sep @ x"
  by (induction xs rule: list_nonempty_induct) (auto simp: joinWith_Cons)

lemma rev_dropWhile_last:
  assumes "chSlash \<notin> set b"
  shows "rev (dropWhile (\<lambda>c. c \<noteq> chSlash) (rev (a @ chSlash # b))) = a @ [chSlash]"
proof -
  have "dropWhile (\<lambda>c. c \<noteq> chSlash) (rev b @ chSlash # rev a) = chSlash # rev a"
    using assms by (subst dropWhile_append2) auto
  then show ?thesis by simp
qed

lemma splitOn_plain: "xs \<noteq> [] \<Longrightarrow> list_all plain xs \<Longrightarrow> splitOn chSlash (joinWith ''/'' xs) = xs"
  by (rule splitOn_joinWith) (auto simp: plain_def list_all_iff)

lemma pathBase_join:
  assumes "xs \<noteq> []" and "list_all plain xs" and "plain b"
  shows "pathBase (joinWith ''/'' (xs @ [b])) = b"
proof -
  let ?p = "joinWith ''/'' (xs @ [b])"
  have p: "?p = joinWith ''/'' xs @ ''/'' @ b" using assms(1) by (simp add: joinWith_snoc)
  obtain c r where "rev b = c # r" "c \<noteq> chSlash"
    using assms(3) by (cases "rev b") (auto simp: plain_def rev_eq_Cons_iff)
  moreover have "rev ?p = rev b @ chSlash # rev (joinWith ''/'' xs)" by (simp add: p)
  ultimately have "dropWhile (\<lambda>c. c = chSlash) (rev ?p) = rev ?p" by simp
  moreover have "splitOn chSlash ?p = xs @ [b]"
    using assms by (intro splitOn_plain) auto
  moreover have "?p \<noteq> []" by (simp add: p)
  ultimately show ?thesis by (simp add: pathBase_def)
qed

lemma pathDir_join:
  assumes "xs \<noteq> []" and "list_all plain xs" and "plain b"
  shows "pathDir (joinWith ''/'' (xs @ [b])) = joinWith ''/'' xs"
proof -
  let ?d = "joinWith ''/'' xs @ [chSlash]"
  have "rev (dropWhile (\<lambda>c. c \<noteq> chSlash) (rev (joinWith ''/'' (xs @ [b])))) = ?d"
    using assms rev_dropWhile_last [of b "joinWith ''/'' xs"] by (simp add: joinWith_snoc plain_def)
  moreover have "?d = joinWith ''/'' (xs @ [[]])" using assms(1) by (simp add: joinWith_snoc)
  moreover have "splitOn chSlash (joinWith ''/'' (xs @ [[]])) = xs @ [[]]"
    using assms by (intro splitOn_joinWith) (auto simp: plain_def list_all_iff)
  moreover have "\<not> hasPrefix ?d ''/''" and "joinWith ''/'' xs \<noteq> []"
    using assms(1,2) by (cases xs; cases "hd xs"; cases "tl xs"; auto simp: plain_def joinWith_Cons)+
  moreover have "cleanComps False [] (xs @ [[]]) = xs"
    using cleanComps_plain [OF assms(2), of False "[]" "[[]]"] by simp
  ultimately show ?thesis by (simp add: pathDir_def pathClean_def Let_def)
qed

text \<open>The object of a backup of the file with the path components \<open>comps\<close>, without its prefix.\<close>

definition objectPath :: "string \<Rightarrow> string list \<Rightarrow> string \<Rightarrow> string" where
  "objectPath user comps ebid = joinWith ''/'' ((user # comps) @ [ebid @ ''.bak''])"

lemma CreateObjectPath_objectPath:
  assumes "\<not> shorten_folder_path config" and "comps \<noteq> []"
  shows "CreateObjectPath config (''/'' @ joinWith ''/'' comps) ebid ''.bak'' =
    folder_prefix config @ objectPath (user_id config) comps ebid"
  using assms by (simp add: CreateObjectPath_def objectPath_def joinWith_snoc joinWith_Cons)

lemma plain_ebid: "ebid \<noteq> [] \<Longrightarrow> chSlash \<notin> set ebid \<Longrightarrow> plain (ebid @ ''.bak'')"
  by (cases ebid) (auto simp: plain_def)

section \<open>Properties\<close>

text \<open>C28. Whatever storage answers and in whatever order the workers run, a restore that ends without a failure of the
  scan has answered each request of its input exactly once; the same holds of an inquiry and of a deletion, each for an
  input of its own. The requests of a line depend on the operation: a restore and an inquiry have one for a \<open>#NULL\<close> line,
  a deletion has none.\<close>

theorem requests_answered_once:
  "(pool_reach (scanRestore w config) (runRestoreJob w config) (initial () ls cs) r \<and> finished r \<and> failure r = None \<longrightarrow>
      answered (written r) = sum_list (map restoreWanted ls)) \<and>
   (pool_reach (scanInquire w config) (runInquireJob w config) (initial v ls' cs') i \<and> finished i \<and> failure i = None \<longrightarrow>
      answered (written i) = sum_list (map inquireWanted ls')) \<and>
   (pool_reach (scanDelete w config) (runDeleteJob w config) (initial () ls'' cs'') d \<and> finished d \<and> failure d = None \<longrightarrow>
      answered (written d) = sum_list (map deleteWanted ls''))"
  using restore.all_answered [where w = w and config = config and v = "()" and ls = ls and cs = cs and s = r]
    inquire.all_answered [where w = w and config = config and v = v and ls = ls' and cs = cs' and s = i]
    delete.all_answered [where w = w and config = config and v = "()" and ls = ls'' and cs = cs'' and s = d]
  by (simp add: restore.requests_def inquire.requests_def delete.requests_def)

definition downWorld :: store_world where
  "downWorld =
     \<lparr>connect_env = \<lambda>_ _. True, now_env = \<lambda>_ _. ''17'', list_env = \<lambda>_ _. Inl ''down'',
      open_env = \<lambda>_ _. Inr (), stat_env = \<lambda>_ _. Inl [], upload_env = \<lambda>_ _. Inl [],
      download_env = \<lambda>_ _. Inl [], attrs_env = \<lambda>_ _. Inl [], compose_env = \<lambda>_ _. None,
      delete_env = \<lambda>_ _. NotExist, wclock = \<lparr>zeroTime = [], addDays = \<lambda>t _. t, parseRFC3339 = \<lambda>s. s\<rparr>\<rparr>"

text \<open>One scan step and one work step, as the witness runs them.\<close>

lemma pool_two_steps:
  fixes scan :: "string \<Rightarrow> 'v \<Rightarrow> ('c, ('e, 'v \<times> 'o list \<times> 'j list) result) prog"
    and run :: "'j \<Rightarrow> 'v \<Rightarrow> ('c, 'v \<times> 'o list) prog"
  assumes "fst (run_state (scan l v) cs) = Inr (v, [], [j])"
    and "fst (run_state (run j v) (snd (run_state (scan l v) cs))) = (v, outs)"
  shows "\<exists>s. pool_reach scan run (initial v [l] cs) s \<and> finished s \<and> failure s = None \<and> written s = outs \<and>
    calls s = snd (run_state (run j v) (snd (run_state (scan l v) cs)))"
proof -
  let ?s0 = "initial v [l] cs :: ('c, 'v, 'j, 'o, 'e) pool"
  obtain cs1 where 1: "run_state (scan l v) cs = (Inr (v, [], [j]), cs1)"
    using assms(1) by (metis prod.collapse)
  obtain cs2 where 2: "run_state (run j v) cs1 = ((v, outs), cs2)"
    using assms(2) 1 by (metis prod.collapse snd_conv)
  let ?s1 = "?s0\<lparr>lines := [], aux := v, queue := queue ?s0 @ [j], written := written ?s0 @ [], calls := cs1\<rparr>"
  let ?s2 = "?s1\<lparr>aux := v, queue := [] @ [], written := written ?s1 @ outs, calls := cs2\<rparr>"
  have s1: "pool_step scan run ?s0 ?s1"
    by (rule scan_line [where l = l and ls = "[]" and v = v and outs = "[]" and jobs = "[j]" and cs = cs1])
       (use 1 in \<open>simp_all add: initial_def\<close>)
  have s2: "pool_step scan run ?s1 ?s2"
    by (rule work [where xs = "[]" and ys = "[]" and j = j and v = v and outs = outs and cs = cs2])
       (use 2 in \<open>simp_all add: initial_def\<close>)
  have "pool_reach scan run ?s0 ?s2"
    by (rule pool_reach.step [OF pool_reach.step [OF pool_reach.start s1] s2])
  moreover have "finished ?s2" "failure ?s2 = None" "written ?s2 = outs"
      "calls ?s2 = snd (run_state (run j v) (snd (run_state (scan l v) cs)))"
    by (simp_all add: finished_def initial_def 1 2)
  ultimately show ?thesis by blast
qed

lemma requests_answered_once_witness:
  "answered [Failed ''/f''] = {#''/f''#} \<and> answered [InquiryMiss True [] ''/g''] = {#''/g''#} \<and>
   answered [DeleteNotFound ''7'' ''/f''] = {#''/f''#}"
proof -
  let ?l = "''#EBID 7 /f''"
  let ?n = "''#NULL /g''"
  let ?ij = "\<lparr>ij_prefix = CreateObjectPath zeroConfig ''/g'' [] [], ij_file = ''/g'', ij_ebid = [], ij_filter = []\<rparr>"
  let ?rj = "\<lparr>rj_file = ''/f'', rj_dest = ''/f'', rj_ebid = ''7''\<rparr>"
  let ?rs = "scanRestore downWorld zeroConfig" and ?rr = "runRestoreJob downWorld zeroConfig"
  let ?is = "scanInquire downWorld zeroConfig" and ?ir = "runInquireJob downWorld zeroConfig"
  let ?ds = "scanDelete downWorld zeroConfig" and ?dr = "runDeleteJob downWorld zeroConfig"
  have r1: "fst (run_state (?rs ?l ()) []) = Inr ((), [], [?rj])" by code_simp
  have r2: "fst (run_state (?rr ?rj ()) (snd (run_state (?rs ?l ()) []))) = ((), [Failed ''/f''])"
    by code_simp
  have i1: "fst (run_state (?is ?n []) []) = Inr ([], [], [?ij])" by code_simp
  have i2: "fst (run_state (?ir ?ij []) (snd (run_state (?is ?n []) []))) = ([], [InquiryMiss True [] ''/g''])"
    by code_simp
  have d1: "fst (run_state (?ds ?l ()) []) = Inr ((), [], [deleteJobOf zeroConfig ?l])" by code_simp
  have d2: "fst (run_state (?dr (deleteJobOf zeroConfig ?l) ()) (snd (run_state (?ds ?l ()) []))) =
      ((), [DeleteNotFound ''7'' ''/f''])"
    by code_simp
  obtain r where r: "pool_reach ?rs ?rr (initial () [?l] []) r" "finished r" "failure r = None"
    "written r = [Failed ''/f'']" 
    using pool_two_steps [where scan = ?rs and run = ?rr, OF r1 r2] by blast
  obtain i where i: "pool_reach ?is ?ir (initial [] [?n] []) i" "finished i" "failure i = None"
    "written i = [InquiryMiss True [] ''/g'']" 
    using pool_two_steps [where scan = ?is and run = ?ir, OF i1 i2] by blast
  obtain d where d: "pool_reach ?ds ?dr (initial () [?l] []) d" "finished d" "failure d = None"
    "written d = [DeleteNotFound ''7'' ''/f'']" 
    using pool_two_steps [where scan = ?ds and run = ?dr, OF d1 d2] by blast
  have "restoreWanted ?l = {#''/f''#}" "inquireWanted ?n = {#''/g''#}" "deleteWanted ?l = {#''/f''#}"
    by code_simp+
  with requests_answered_once [of downWorld zeroConfig "[?l]" "[]" r "[]" "[?n]" "[]" i "[?l]" "[]" d] r(1-3) i(1-3) d(1-3) r(4) i(4) d(4) show ?thesis by simp
qed

text \<open>C29. A deletion deletes nothing but the objects its \<open>#EBID\<close> lines name, at every moment of
  every schedule.\<close>

theorem delete_touches_only_named:
  assumes "pool_reach (scanDelete w config) (runDeleteJob w config) (initial () ls []) s"
  shows "deletes_only (deletable config ls) (calls s)"
proof -
  have "delete_inv config ls (initial () ls [])"
    by (simp add: delete_inv_def initial_def deletes_only_def)
  from delete_inv_reach [OF assms this] show ?thesis by (simp add: delete_inv_def)
qed

lemma delete_touches_only_named_witness:
  "\<exists>s. pool_reach (scanDelete downWorld zeroConfig) (runDeleteJob downWorld zeroConfig) (initial () [''#EBID 7 /f''] []) s \<and>
     DeleteObject ''/f/7.bak'' (retries zeroConfig) \<in> set (calls s) \<and> deletes_only (deletable zeroConfig [''#EBID 7 /f'']) (calls s)"
proof -
  let ?ds = "scanDelete downWorld zeroConfig" and ?dr = "runDeleteJob downWorld zeroConfig"
  let ?l = "''#EBID 7 /f''"
  have d1: "fst (run_state (?ds ?l ()) []) = Inr ((), [], [deleteJobOf zeroConfig ?l])" by code_simp
  have d2: "fst (run_state (?dr (deleteJobOf zeroConfig ?l) ()) (snd (run_state (?ds ?l ()) []))) =
      ((), [DeleteNotFound ''7'' ''/f''])"
    by code_simp
  obtain d where d: "pool_reach ?ds ?dr (initial () [?l] []) d"
      "calls d = snd (run_state (?dr (deleteJobOf zeroConfig ?l) ()) (snd (run_state (?ds ?l ()) [])))"
    using pool_two_steps [where scan = ?ds and run = ?dr, OF d1 d2] by blast
  have "snd (run_state (?dr (deleteJobOf zeroConfig ?l) ()) (snd (run_state (?ds ?l ()) []))) =
      [DeleteObject ''/f/7.bak'' (retries zeroConfig), Connect]"
    by code_simp
  with d delete_touches_only_named [OF d(1)] show ?thesis by auto
qed

text \<open>C31. What is backed up is found again: for an object that a backup without path shortening
  created for an absolute file path, an inquiry reports the external backup id and the file name
  of the backup.\<close>

theorem inquire_reports_backup:
  assumes "\<not> shorten_folder_path config"
    and "plain (user_id config)" and "comps \<noteq> []" and "list_all plain comps"
    and "ebid \<noteq> []" and "chSlash \<notin> set ebid"
    and "ob_name obj = CreateObjectPath config (''/'' @ joinWith ''/'' comps) ebid ''.bak''"
  shows "inquireObjects config version fileName [obj] =
    [BackupFound ebid (RestoreFilename (joinWith ''/'' comps))
       (if version \<ge> ''1.50'' then Some (ob_created obj) else None)]"
proof -
  let ?xs = "user_id config # comps"
  let ?b = "ebid @ ''.bak''"
  have name: "(if folder_prefix config \<noteq> [] then trimPrefix (ob_name obj) (folder_prefix config)
      else ob_name obj) = joinWith ''/'' (?xs @ [?b])"
  proof -
    have "ob_name obj = folder_prefix config @ joinWith ''/'' (?xs @ [?b])"
      unfolding assms(7) CreateObjectPath_objectPath [OF assms(1,3)] objectPath_def ..
    then show ?thesis by simp
  qed
  have xs: "list_all plain ?xs" "plain ?b" using assms by (simp_all add: plain_ebid)
  have base: "pathBase (joinWith ''/'' (?xs @ [?b])) = ?b"
    by (rule pathBase_join) (use xs in auto)
  have dir: "pathDir (joinWith ''/'' (?xs @ [?b])) = joinWith ''/'' ?xs"
    by (rule pathDir_join) (use xs in auto)
  have "splitN2 chSlash (joinWith ''/'' ?xs) = [user_id config, joinWith ''/'' comps]"
    using assms(2,3) by (simp add: joinWith_Cons splitN2_append plain_def)
  then show ?thesis
    unfolding inquireObjects.simps(2) Let_def name base dir using assms(1) by simp
qed

lemma inquire_reports_backup_witness:
  "inquireObjects (zeroConfig\<lparr>user_id := ''HDB'', folder_prefix := ''p/''\<rparr>) ''1.04'' []
     [\<lparr>ob_name = ''p/HDB/data/f/17.bak'', ob_size = 1, ob_created = ''t'', ob_metadata = []\<rparr>] =
   [BackupFound ''17'' (RestoreFilename ''data/f'') None]"
proof -
  let ?c = "zeroConfig\<lparr>user_id := ''HDB'', folder_prefix := ''p/''\<rparr>"
  let ?o = "\<lparr>ob_name = ''p/HDB/data/f/17.bak'', ob_size = 1, ob_created = ''t'', ob_metadata = []\<rparr>"
  have s: "\<not> shorten_folder_path ?c" and u: "plain (user_id ?c)" and p: "list_all plain [''data'', ''f'']"
    and e: "chSlash \<notin> set ''17''"
    by (simp_all add: zeroConfig_def plain_def)
  have n: "ob_name ?o = CreateObjectPath ?c (''/'' @ joinWith ''/'' [''data'', ''f'']) ''17'' ''.bak''"
    by code_simp
  have v: "\<not> (''1.04'' \<ge> ''1.50'')" by code_simp
  from inquire_reports_backup [OF s u _ p _ e n, of "''1.04''" "[]"] v show ?thesis by simp
qed

definition downloadsOf :: "st_call list \<Rightarrow> download_req list" where
  "downloadsOf cs = List.map_filter (\<lambda>c. case c of Download d \<Rightarrow> Some d | _ \<Rightarrow> None) cs"

lemma downloadsOf_Cons [simp]:
  "downloadsOf (c # cs) = (case c of Download d \<Rightarrow> d # downloadsOf cs | _ \<Rightarrow> downloadsOf cs)"
  by (simp add: downloadsOf_def map_filter_def split: st_call.splits)

definition restored_latest ::
  "store_world \<Rightarrow> backint_config \<Rightarrow> restore_job \<Rightarrow> st_call list \<Rightarrow> response \<Rightarrow> st_call list \<Rightarrow> bool" where
  "restored_latest w config j cs r cs' \<longleftrightarrow>
     (case list_env w cs (ListObjects (restorePrefix config (rj_file j) (rj_ebid j)) [] (retries config)) of
        Inr (obj # _) \<Rightarrow>
          (let dn = downloadRequest config obj (TrimAndClean (rj_dest j));
               ok = Restored (trimSuffix (pathBase (ob_name obj)) ''.bak'') (rj_file j)
           in downloadsOf cs' = dn # downloadsOf cs \<and> (r = ok \<or> r = Failed (rj_file j)) \<or>
              downloadsOf cs' = downloadsOf cs \<and> r = Failed (rj_file j))
      | Inr [] \<Rightarrow> downloadsOf cs' = downloadsOf cs \<and> r = NotFound (rj_file j)
      | Inl _ \<Rightarrow> downloadsOf cs' = downloadsOf cs \<and> r = Failed (rj_file j))"


text \<open>With shortened paths, an inquiry without a file name reports the first file by its short
  name and the others by their long names: the loop overwrites the requested file name with the
  name it reported last, and compares the next object with that.\<close>

theorem inquire_shortened_inconsistent:
  "inquireObjects (zeroConfig\<lparr>user_id := ''HDB'', shorten_folder_path := True\<rparr>) [] []
     [\<lparr>ob_name = ''HDB/SYSTEMDB/a/2.bak'', ob_size = 1, ob_created = ''t'', ob_metadata = []\<rparr>,
      \<lparr>ob_name = ''HDB/SYSTEMDB/b/1.bak'', ob_size = 1, ob_created = ''t'', ob_metadata = []\<rparr>] =
   [BackupFound ''2'' (encodeParam ''/SYSTEMDB/a'') None,
    BackupFound ''1'' (encodeParam ''/usr/sap/HDB/SYS/global/hdb/backint/SYSTEMDB/b'') None]"
  by code_simp

end
