(* ===== verification/LineEdit.thy ===== *)
theory LineEdit
  imports Commands
begin

text \<open>
  The file editing of \<open>internal/onetime/configureinstance/configureinstance.go\<close>: the operations
  that compare a configuration file with the settings SAP HANA needs and, unless the command
  only checks, write the corrected file. Reading and writing files and running commands are the
  environment; the differences found are recorded in the log of calls, where \<open>c.diffs\<close> has them.
\<close>

section \<open>Data\<close>

datatype operation =
  RegenerateFile | RegenerateKeyVal | MissingKeyVal | RemoveLine | RemoveValue | LogMessage

record diff =
  d_file :: string
  d_op :: operation
  d_got :: string
  d_want :: string

text \<open>\<open>Run exe args timeout\<close> is an execution with \<open>ArgsToSplit\<close>.\<close>

datatype ci_call =
    ReadPath string
  | WritePath string string
  | MkdirPath string
  | Run string string int
  | AddDiff diff

datatype read_error = NotExist | OtherError string

datatype ci_error =
    ReadError read_error
  | WriteError string
  | MkdirError string
  | BadRemoveLine string
  | CommandFailed string string int
  | NotFoundService string
  | NotCompliant string
  | OsSpecific ci_error

record ci_world =
  read_env :: "(ci_call, (read_error, string) result) env"
  write_env :: "(ci_call, string option) env"
  mkdir_env :: "(ci_call, string option) env"
  exec_env :: "(ci_call, cmd_result) env"
  timestamp :: string

text \<open>\<open>ConfigureInstance\<close>: the arguments of the subcommand.\<close>

record ci_args =
  Apply :: bool
  Check :: bool
  Describe :: bool
  Format :: string
  MachineType :: string
  HyperThreading :: string
  TimeoutSec :: int

section \<open>Editing lines\<close>

text \<open>The three editors return the new lines and the differences; the code's flag \<open>regenerate\<close> is
  set exactly when a difference is recorded. (The differences that \<open>removeValues\<close> records before it
  meets a malformed argument are not kept; its callers pass one well-formed argument.)\<close>

definition commentLine :: "string \<Rightarrow> string \<Rightarrow> string \<Rightarrow> string \<times> diff list" where
  "commentLine path remove got =
     (if contains got remove \<and> \<not> hasPrefix got ''#''
      then (''#'' @ got, [\<lparr>d_file = path, d_op = RemoveLine, d_got = got, d_want = ''#'' @ got\<rparr>])
      else (got, []))"

definition dropValue :: "string \<Rightarrow> string \<Rightarrow> string \<Rightarrow> string \<Rightarrow> string \<times> diff list" where
  "dropValue path key v got =
     (if contains got key \<and> contains got v
      then (let new = replaceAll (replaceAll got (chSpace # v) []) (CHR ''='' # v) ''=''
            in (new, [\<lparr>d_file = path, d_op = RemoveValue, d_got = got, d_want = new\<rparr>]))
      else (got, []))"

definition isReSpace :: "char \<Rightarrow> bool" where
  "isReSpace c \<longleftrightarrow> codeOf c \<in> {32, 9, 10, 12, 13}"

text \<open>A key inside a regular expression: a dot matches any character but a newline. The keys in use
  have no other special characters.\<close>

definition matchKey :: "string \<Rightarrow> string \<Rightarrow> bool" where
  "matchKey key s \<longleftrightarrow>
     length key < length s \<and>
     list_all2 (\<lambda>p c. p = c \<or> (p = CHR ''.'' \<and> c \<noteq> chNL)) key (take (length key) s) \<and>
     s ! length key = CHR ''=''"

text \<open>\<open>ReplaceAllString\<close> for \<open>([\s\"]key=)[^\s\"]*\<close>, keeping the first group.\<close>

function replaceKeyVal :: "string \<Rightarrow> string \<Rightarrow> string \<Rightarrow> string" where
  "replaceKeyVal key v [] = []"
| "replaceKeyVal key v (c # s) =
     (if (isReSpace c \<or> c = chQuote) \<and> matchKey key s
      then c # take (Suc (length key)) s @ v
           @ replaceKeyVal key v (dropWhile (\<lambda>x. \<not> isReSpace x \<and> x \<noteq> chQuote) (drop (Suc (length key)) s))
      else c # replaceKeyVal key v s)"
  by pat_completeness auto
termination
proof (relation "measure (\<lambda>(key, v, s). length s)", goal_cases)
  case (2 key v c s)
  have "length (dropWhile (\<lambda>x. \<not> isReSpace x \<and> x \<noteq> chQuote) (drop (Suc (length key)) s)) \<le> length s"
    using length_dropWhile_le [of _ "drop (Suc (length key)) s"] by (metis diff_le_self le_trans length_drop)
  then show ?case by simp
qed auto

definition regenVal :: "string \<Rightarrow> bool \<times> string \<Rightarrow> bool \<times> string" where
  "regenVal val = (\<lambda>(updated, got).
     if contains got val then (updated, got)
     else
       let sp = splitOn CHR ''='' val;
           got1 = (if length sp = 2 then replaceKeyVal (sp ! 0) (sp ! 1) got else got);
           got2 = (if contains got1 val then got1
                   else trimSuffix got1 [chQuote] @ '' '' @ val @ [chQuote])
       in (True, got2))"

definition regenerateLine :: "string \<Rightarrow> string \<Rightarrow> bool \<times> string" where
  "regenerateLine got want =
     (if got = want then (False, got)
      else if \<not> contains got '' '' \<and> \<not> contains want '' '' then (True, want)
      else
        let sp = splitN2 CHR ''='' want
        in if length sp \<noteq> 2 then (False, got)
           else fold regenVal (splitOn chSpace (trim (sp ! 1) [chQuote])) (False, got))"

text \<open>One line against one wanted line.\<close>

definition regenLine :: "string \<Rightarrow> string \<Rightarrow> string \<Rightarrow> string \<times> diff list" where
  "regenLine path want got =
     (if contains got (hd (splitOn CHR ''='' want)) \<and> got \<noteq> want then
        (let (updated, new) = regenerateLine got want
         in (new, if updated then [\<lparr>d_file = path, d_op = RegenerateKeyVal, d_got = got, d_want = new\<rparr>]
                  else []))
      else (got, []))"

definition mapEdit :: "(string \<Rightarrow> string \<times> diff list) \<Rightarrow> string list \<times> diff list \<Rightarrow> string list \<times> diff list" where
  "mapEdit f = (\<lambda>(ls, ds). (map (fst \<circ> f) ls, ds @ concat (map (snd \<circ> f) ls)))"

definition editRemove :: "string \<Rightarrow> string list \<Rightarrow> string list \<Rightarrow> (ci_error, string list \<times> diff list) result" where
  "editRemove path removes ls = Inr (fold (\<lambda>r. mapEdit (commentLine path r)) removes (ls, []))"

definition editValues :: "string \<Rightarrow> string list \<Rightarrow> string list \<Rightarrow> (ci_error, string list \<times> diff list) result" where
  "editValues path removes ls =
     foldE (\<lambda>r st. let sp = splitN2 CHR ''='' r
                   in if length sp \<noteq> 2 then Inl (BadRemoveLine r)
                      else Inr (mapEdit (dropValue path (sp ! 0) (sp ! 1)) st)) removes (ls, [])"

definition regenWant :: "string \<Rightarrow> string \<Rightarrow> string list \<times> diff list \<Rightarrow> string list \<times> diff list" where
  "regenWant path want = (\<lambda>(ls, ds).
     if \<exists>l \<in> set ls. contains l (hd (splitOn CHR ''='' want))
     then mapEdit (regenLine path want) (ls, ds)
     else (ls @ [want @ [chNL]],
           ds @ [\<lparr>d_file = path, d_op = MissingKeyVal, d_got = [], d_want = want\<rparr>]))"

definition editRegenerate :: "string \<Rightarrow> string list \<Rightarrow> string list \<Rightarrow> (ci_error, string list \<times> diff list) result" where
  "editRegenerate path wants ls = Inr (fold (regenWant path) wants (ls, []))"

section \<open>Files\<close>

primrec addDiffs :: "diff list \<Rightarrow> (ci_call, unit) prog" where
  "addDiffs [] = ret ()"
| "addDiffs (d # ds) = do { _ \<leftarrow> call (\<lambda>_ _. ()) (AddDiff d); addDiffs ds }"

definition backupAndWriteFile :: "ci_world \<Rightarrow> string \<Rightarrow> string \<Rightarrow> (ci_call, ci_error option) prog" where
  "backupAndWriteFile w path contents = do {
     m \<leftarrow> call (mkdir_env w) (MkdirPath (pathDir path));
     case m of
       Some e \<Rightarrow> ret (Some (MkdirError e))
     | None \<Rightarrow> do {
         _ \<leftarrow> call (exec_env w) (Run ''cp'' (path @ '' '' @ path @ ''-old-'' @ timestamp w) 0);
         e \<leftarrow> call (write_env w) (WritePath path contents);
         ret (map_option WriteError e)
       }
   }"

definition readOrEmpty :: "ci_world \<Rightarrow> string \<Rightarrow> (ci_call, (ci_error, string) result) prog" where
  "readOrEmpty w path = do {
     r \<leftarrow> call (read_env w) (ReadPath path);
     ret (case r of
            Inr s \<Rightarrow> Inr s
          | Inl NotExist \<Rightarrow> Inr []
          | Inl (OtherError e) \<Rightarrow> Inl (ReadError (OtherError e)))
   }"

text \<open>What follows the editing in all operations: nothing to do, or only report, or write.\<close>

definition commitEdit :: "ci_world \<Rightarrow> ci_args \<Rightarrow> string \<Rightarrow> string \<Rightarrow> diff list \<Rightarrow> (ci_call, (ci_error, bool) result) prog" where
  "commitEdit w c path contents ds = do {
     _ \<leftarrow> addDiffs ds;
     if ds = [] then ret (Inr False)
     else if Check c then ret (Inr True)
     else do {
       e \<leftarrow> backupAndWriteFile w path contents;
       ret (case e of Some x \<Rightarrow> Inl x | None \<Rightarrow> Inr True)
     }
   }"

definition editFile ::
  "(string \<Rightarrow> string list \<Rightarrow> string list \<Rightarrow> (ci_error, string list \<times> diff list) result)
   \<Rightarrow> ci_world \<Rightarrow> ci_args \<Rightarrow> string \<Rightarrow> string list \<Rightarrow> (ci_call, (ci_error, bool) result) prog" where
  "editFile edit w c path args = do {
     r \<leftarrow> readOrEmpty w path;
     case r of
       Inl e \<Rightarrow> ret (Inl e)
     | Inr contents \<Rightarrow>
         (case edit path args (splitOn chNL contents) of
            Inl e \<Rightarrow> ret (Inl e)
          | Inr (ls, ds) \<Rightarrow> commitEdit w c path (joinWith [chNL] ls) ds)
   }"

definition removeLines :: "ci_world \<Rightarrow> ci_args \<Rightarrow> string \<Rightarrow> string list \<Rightarrow> (ci_call, (ci_error, bool) result) prog" where
  "removeLines = editFile editRemove"

definition removeValues :: "ci_world \<Rightarrow> ci_args \<Rightarrow> string \<Rightarrow> string list \<Rightarrow> (ci_call, (ci_error, bool) result) prog" where
  "removeValues = editFile editValues"

definition checkAndRegenerateLines ::
  "ci_world \<Rightarrow> ci_args \<Rightarrow> string \<Rightarrow> string list \<Rightarrow> (ci_call, (ci_error, bool) result) prog" where
  "checkAndRegenerateLines = editFile editRegenerate"

definition checkAndRegenerateFile ::
  "ci_world \<Rightarrow> ci_args \<Rightarrow> string \<Rightarrow> string \<Rightarrow> (ci_call, (ci_error, bool) result) prog" where
  "checkAndRegenerateFile w c path want = do {
     r \<leftarrow> call (read_env w) (ReadPath path);
     case r of
       Inl (OtherError e) \<Rightarrow> ret (Inl (ReadError (OtherError e)))
     | Inl NotExist \<Rightarrow>
         commitEdit w c path want [\<lparr>d_file = path, d_op = RegenerateFile, d_got = [], d_want = want\<rparr>]
     | Inr got \<Rightarrow>
         commitEdit w c path want
           (if got \<noteq> want then [\<lparr>d_file = path, d_op = RegenerateFile, d_got = got, d_want = want\<rparr>] else [])
   }"

section \<open>Reading\<close>

fun lineValue :: "string \<Rightarrow> bool \<Rightarrow> string list \<Rightarrow> string" where
  "lineValue key hasComment [] = (if hasComment then ''<COMMENTED_OUT>'' else ''NOT_SET'')"
| "lineValue key hasComment (line # rest) =
     (let trimmed = trimSpace line
      in if trimmed = [] then lineValue key hasComment rest
         else if hasPrefix trimmed ''#'' then
           lineValue key (hasComment \<or> contains (trimSpace (trimPrefix trimmed ''#'')) key) rest
         else if contains trimmed key then
           (let parts = splitN2 CHR ''='' trimmed
            in if length parts = 2 then trimSpace (parts ! 1) else trimmed)
         else lineValue key hasComment rest)"

definition readCurrentLineValue :: "ci_world \<Rightarrow> string \<Rightarrow> string \<Rightarrow> (ci_call, string) prog" where
  "readCurrentLineValue w path key = do {
     r \<leftarrow> call (read_env w) (ReadPath path);
     ret (case r of Inl _ \<Rightarrow> ''NOT_SET'' | Inr s \<Rightarrow> lineValue key False (splitOn chNL s))
   }"

definition readCurrentFileContent :: "ci_world \<Rightarrow> string \<Rightarrow> (ci_call, string) prog" where
  "readCurrentFileContent w path = do {
     r \<leftarrow> call (read_env w) (ReadPath path);
     ret (case r of Inl _ \<Rightarrow> ''NOT_SET'' | Inr s \<Rightarrow> trimSpace s)
   }"

section \<open>The contract of an editor\<close>

text \<open>An editor that reports no difference has changed no line.\<close>

locale line_editor =
  fixes edit :: "string \<Rightarrow> string list \<Rightarrow> string list \<Rightarrow> (ci_error, string list \<times> diff list) result"
  assumes no_diffs: "edit path args ls = Inr (ls', []) \<Longrightarrow> ls' = ls"

text \<open>An editor that has nothing to do on its own result.\<close>

locale stable_editor = line_editor +
  assumes stable: "edit path args ls = Inr (ls', ds) \<Longrightarrow> edit path args ls' = Inr (ls', [])"
    and lines_kept: "edit path args ls = Inr (ls', ds) \<Longrightarrow> \<forall>l \<in> set ls. chNL \<notin> set l \<Longrightarrow> ls \<noteq> [] \<Longrightarrow>
      ls' \<noteq> [] \<and> (\<forall>l \<in> set ls'. chNL \<notin> set l)"

text \<open>Calls that change nothing: reading files, and recording a difference.\<close>

fun quiet :: "ci_call \<Rightarrow> bool" where
  "quiet (ReadPath p) = True"
| "quiet (AddDiff d) = True"
| "quiet _ = False"

definition only_quiet :: "ci_call list \<Rightarrow> ci_call list \<Rightarrow> bool" where
  "only_quiet log log' \<longleftrightarrow> (\<exists>new. log' = new @ log \<and> list_all quiet new)"

lemma only_quiet_refl [simp]: "only_quiet log log"
  by (simp add: only_quiet_def)

lemma only_quiet_Cons: "quiet c \<Longrightarrow> only_quiet log log' \<Longrightarrow> only_quiet log (c # log')"
  by (force simp: only_quiet_def)

definition written :: "string \<Rightarrow> ci_call list \<Rightarrow> string list" where
  "written path log = List.map_filter (\<lambda>c. case c of WritePath p s \<Rightarrow> if p = path then Some s else None | _ \<Rightarrow> None) log"

lemma written_simps [simp]:
  "written path [] = []"
  "written path (WritePath p s # log) = (if p = path then s # written path log else written path log)"
  "written path (ReadPath p # log) = written path log"
  "written path (MkdirPath p # log) = written path log"
  "written path (Run x a t # log) = written path log"
  "written path (AddDiff d # log) = written path log"
  by (simp_all add: written_def map_filter_def)

lemma addDiffs_run: "run_state (addDiffs ds) log = ((), rev (map AddDiff ds) @ log)"
  by (induction ds arbitrary: log) simp_all

lemma wp_addDiffs [wp_rules]: "wp (addDiffs ds) Q log = Q () (rev (map AddDiff ds) @ log)"
  by (simp add: wp_def addDiffs_run)

lemma written_diffs [simp]: "written path (rev (map AddDiff ds) @ log) = written path log"
  by (induction ds arbitrary: log) (simp_all add: written_def map_filter_def)

lemma quiet_diffs: "only_quiet log' log \<Longrightarrow> only_quiet log' (rev (map AddDiff ds) @ log)"
  by (induction ds) (auto simp: only_quiet_def)

lemma commitEdit_check:
  "Check c \<or> ds = [] \<Longrightarrow> wp (commitEdit w c path s ds) (\<lambda>r log'. r = Inr (ds \<noteq> []) \<and> only_quiet log log') log"
  by (auto simp: commitEdit_def wp_rules quiet_diffs)

lemma commitEdit_written:
  "wp (commitEdit w c path s ds)
     (\<lambda>r log'. written path log' = written path log \<or>
               (written path log' = s # written path log \<and> ds \<noteq> [] \<and> \<not> Check c)) log"
  by (auto simp: commitEdit_def backupAndWriteFile_def wp_rules split: option.splits)

lemma commitEdit_done:
  "\<not> Check c \<Longrightarrow> ds \<noteq> [] \<Longrightarrow> wp (commitEdit w c path s ds)
     (\<lambda>r log'. r = Inr True \<longrightarrow> written path log' = s # written path log) log"
  by (auto simp: commitEdit_def backupAndWriteFile_def wp_rules split: option.splits)

lemma readOrEmpty_quiet: "wp (readOrEmpty w path) (\<lambda>r log'. log' = ReadPath path # log) log"
  by (simp add: readOrEmpty_def wp_rules)

lemma editFile_check:
  assumes "Check c"
  shows "wp (editFile edit w c path args) (\<lambda>r log'. only_quiet log log') log"
proof -
  have p: "only_quiet log (ReadPath path # log)" by (simp add: only_quiet_def)
  have d: "only_quiet log (rev (map AddDiff ds) @ ReadPath path # log)" for ds
    by (rule quiet_diffs [OF p])
  show ?thesis
    using assms
    by (auto simp: editFile_def readOrEmpty_def commitEdit_def wp_rules p d
        split: sum.splits read_error.splits prod.splits)
qed

text \<open>The contents the environment gives for a file; a missing file is empty.\<close>

definition contentsOf :: "ci_world \<Rightarrow> string \<Rightarrow> ci_call list \<Rightarrow> string option" where
  "contentsOf w path log =
     (case read_env w log (ReadPath path) of
        Inr s \<Rightarrow> Some s | Inl NotExist \<Rightarrow> Some [] | Inl (OtherError e) \<Rightarrow> None)"

lemma editFile_unfold:
  assumes "contentsOf w path log = Some s" and "edit path args (splitOn chNL s) = Inr (ls, ds)"
  shows "wp (editFile edit w c path args) Q log =
    wp (commitEdit w c path (joinWith [chNL] ls) ds) Q (ReadPath path # log)"
proof (cases "read_env w log (ReadPath path)")
  case (Inl e)
  then show ?thesis
    using assms by (cases e) (simp_all add: editFile_def readOrEmpty_def wp_rules contentsOf_def)
next
  case (Inr s')
  then show ?thesis
    using assms by (simp add: editFile_def readOrEmpty_def wp_rules contentsOf_def)
qed

context line_editor
begin

text \<open>An operation that answers \<open>False\<close> writes nothing, and none is needed.\<close>

lemma editFile_False:
  assumes "contentsOf w path log = Some s" and "edit path args (splitOn chNL s) = Inr (ls, ds)"
  shows "wp (editFile edit w c path args)
    (\<lambda>r log'. r = Inr False \<longrightarrow> joinWith [chNL] ls = s \<and> written path log' = written path log) log"
proof (cases "ds = []")
  case True
  then have "ls = splitOn chNL s" using assms(2) no_diffs by simp
  with True show ?thesis by (simp add: editFile_unfold [where edit = edit and args = args, OF assms(1,2)] commitEdit_def wp_rules)
next
  case False
  then show ?thesis
    by (auto simp: editFile_unfold [where edit = edit and args = args, OF assms(1,2)]
        commitEdit_def backupAndWriteFile_def wp_rules split: option.splits)
qed

end

lemma commitEdit_done':
  "\<not> Check c \<Longrightarrow> ds \<noteq> [] \<Longrightarrow> wp (commitEdit w c path s ds)
     (\<lambda>r log'. (\<exists>b. r = Inr b) \<longrightarrow> written path log' = s # written path log) log"
  by (auto simp: commitEdit_def backupAndWriteFile_def wp_rules split: option.splits)

text \<open>A file that nobody else writes: reading it gives what was written last.\<close>

definition keepsFile :: "ci_world \<Rightarrow> string \<Rightarrow> (read_error, string) result \<Rightarrow> bool" where
  "keepsFile w path init \<longleftrightarrow>
     (\<forall>log. read_env w log (ReadPath path) = (case written path log of [] \<Rightarrow> init | s # _ \<Rightarrow> Inr s))"

context stable_editor
begin

text \<open>After an operation has written its result, the next check of the file finds nothing to do.\<close>

lemma editFile_converges:
  assumes "contentsOf w path log = Some s" and "edit path args (splitOn chNL s) = Inr (ls, ds)"
    and "contentsOf w' path log' = Some (joinWith [chNL] ls)"
  shows "wp (editFile edit w' c' path args)
    (\<lambda>r log2. r = Inr False \<and> only_quiet log' log2) log'"
proof -
  have "\<forall>l \<in> set (splitOn chNL s). chNL \<notin> set l" by (simp add: splitOn_no_sep)
  from lines_kept [OF assms(2) this] have "ls \<noteq> []" "\<forall>l \<in> set ls. chNL \<notin> set l" by auto
  then have "splitOn chNL (joinWith [chNL] ls) = ls" by (intro splitOn_joinWith) auto
  then have "edit path args (splitOn chNL (joinWith [chNL] ls)) = Inr (ls, [])"
    using stable [OF assms(2)] by simp
  from editFile_unfold [where edit = edit and args = args, OF assms(3) this, of c'] show ?thesis
    by (simp add: commitEdit_def wp_rules only_quiet_def)
qed

text \<open>Where only the program writes the file, an operation that ended without an error has nothing
  left to do.\<close>

lemma editFile_twice:
  assumes "keepsFile w path init" and "\<not> Check c"
  shows "wp (editFile edit w c path args)
    (\<lambda>r log1. (\<exists>b. r = Inr b) \<longrightarrow>
       wp (editFile edit w c path args) (\<lambda>r2 log2. r2 = Inr False \<and> only_quiet log1 log2) log1) log"
proof (cases "\<exists>s. contentsOf w path log = Some s \<and> (\<exists>ls ds. edit path args (splitOn chNL s) = Inr (ls, ds))")
  case False
  then show ?thesis
    by (auto simp: contentsOf_def editFile_def readOrEmpty_def wp_rules split: sum.splits read_error.splits)
next
  case True
  then obtain s ls ds where s: "contentsOf w path log = Some s" "edit path args (splitOn chNL s) = Inr (ls, ds)"
    by blast
  show ?thesis
    unfolding editFile_unfold [where edit = edit and args = args, OF s]
  proof (cases "ds = []")
    case True
    then have "contentsOf w path (ReadPath path # log) = Some (joinWith [chNL] ls)"
      using s no_diffs [of path args "splitOn chNL s" ls] assms(1)
      by (simp add: contentsOf_def keepsFile_def)
    from editFile_converges [OF s this] True show "wp (commitEdit w c path (joinWith [chNL] ls) ds)
      (\<lambda>r log1. (\<exists>b. r = Inr b) \<longrightarrow> wp (editFile edit w c path args)
         (\<lambda>r2 log2. r2 = Inr False \<and> only_quiet log1 log2) log1) (ReadPath path # log)"
      by (simp add: commitEdit_def wp_rules)
  next
    case False
    have "contentsOf w path log1 = Some (joinWith [chNL] ls)"
      if "written path log1 = joinWith [chNL] ls # written path (ReadPath path # log)" for log1
      using that assms(1) by (simp add: contentsOf_def keepsFile_def)
    with editFile_converges [OF s] show "wp (commitEdit w c path (joinWith [chNL] ls) ds)
      (\<lambda>r log1. (\<exists>b. r = Inr b) \<longrightarrow> wp (editFile edit w c path args)
         (\<lambda>r2 log2. r2 = Inr False \<and> only_quiet log1 log2) log1) (ReadPath path # log)"
      by (intro wp_mono [OF commitEdit_done' [OF assms(2) False]]) blast
  qed
qed

end

section \<open>The editors\<close>

lemma mapEdit_nil: "snd (mapEdit f (ls, ds)) = [] \<Longrightarrow>
  (\<And>l. snd (f l) = [] \<Longrightarrow> fst (f l) = l) \<Longrightarrow> fst (mapEdit f (ls, ds)) = ls \<and> ds = []"
  by (auto simp: mapEdit_def intro!: map_idI)

lemma fold_mapEdit_nil:
  assumes "\<And>a l. snd (f a l) = [] \<Longrightarrow> fst (f a l) = l"
  shows "fold (\<lambda>a. mapEdit (f a)) as (ls, ds) = (ls', []) \<Longrightarrow> ls' = ls \<and> ds = []"
proof (induction as arbitrary: ls ds)
  case Nil
  then show ?case by simp
next
  case (Cons a as)
  obtain l1 d1 where 1: "mapEdit (f a) (ls, ds) = (l1, d1)" by force
  with Cons.prems have "fold (\<lambda>a. mapEdit (f a)) as (l1, d1) = (ls', [])" by simp
  with Cons.IH have "ls' = l1" "d1 = []" by auto
  with mapEdit_nil [of "f a" ls ds] 1 assms show ?case by auto
qed

lemma commentLine_nil: "snd (commentLine path r l) = [] \<Longrightarrow> fst (commentLine path r l) = l"
  by (simp add: commentLine_def split: if_splits)

text \<open>A line is settled when no removal applies to it.\<close>

definition settled :: "string list \<Rightarrow> string \<Rightarrow> bool" where
  "settled removes l \<longleftrightarrow> hasPrefix l ''#'' \<or> (\<forall>r \<in> set removes. \<not> contains l r)"

lemma commentLine_settled: "settled removes l \<Longrightarrow> r \<in> set removes \<Longrightarrow> commentLine path r l = (l, [])"
  by (auto simp: settled_def commentLine_def)

lemma editRemove_settled:
  assumes "\<forall>l \<in> set ls. settled removes l" and "set rs \<subseteq> set removes"
  shows "fold (\<lambda>r. mapEdit (commentLine path r)) rs (ls, ds) = (ls, ds)"
  using assms(2)
proof (induction rs)
  case Nil
  then show ?case by simp
next
  case (Cons r rs)
  have "commentLine path r l = (l, [])" if "l \<in> set ls" for l
    using assms(1) Cons.prems that commentLine_settled [of removes l r path] by auto
  then have "mapEdit (commentLine path r) (ls, ds) = (ls, ds)"
    by (auto simp: mapEdit_def intro!: map_idI)
  with Cons show ?case by simp
qed

lemma commentLine_settles:
  "settled rs l \<Longrightarrow> settled (r # rs) (fst (commentLine path r l))"
  by (auto simp: settled_def commentLine_def)

lemma settled_hash [simp]: "settled rs (CHR ''#'' # l)"
  by (simp add: settled_def)

lemma commentLine_hash: "hasPrefix l ''#'' \<Longrightarrow> fst (commentLine path r l) = l"
  by (simp add: commentLine_def)

lemma editRemove_result_settled:
  "fold (\<lambda>r. mapEdit (commentLine path r)) rs (ls, ds) = (ls', ds') \<Longrightarrow>
   \<forall>l \<in> set ls. settled done l \<Longrightarrow> \<forall>l \<in> set ls'. settled (done @ rs) l"
proof (induction rs arbitrary: ls ds "done")
  case Nil
  then show ?case by simp
next
  case (Cons r rs)
  obtain l1 d1 where 1: "mapEdit (commentLine path r) (ls, ds) = (l1, d1)" by force
  with Cons.prems(1) have f: "fold (\<lambda>r. mapEdit (commentLine path r)) rs (l1, d1) = (ls', ds')" by simp
  have "settled (done @ [r]) (fst (commentLine path r l))" if "l \<in> set ls" for l
    using that Cons.prems(2) by (auto simp: settled_def commentLine_def)
  then have "\<forall>l \<in> set l1. settled (done @ [r]) l" using 1 by (auto simp: mapEdit_def)
  from Cons.IH [OF f this] show ?case by simp
qed

lemma mapEdit_lines:
  assumes "\<And>l. l \<in> set ls \<Longrightarrow> chNL \<notin> set (fst (f l))" and "ls \<noteq> []"
  shows "fst (mapEdit f (ls, ds)) \<noteq> [] \<and> (\<forall>l \<in> set (fst (mapEdit f (ls, ds))). chNL \<notin> set l)"
  using assms by (auto simp: mapEdit_def)

lemma editRemove_lines:
  "fold (\<lambda>r. mapEdit (commentLine path r)) rs (ls, ds) = (ls', ds') \<Longrightarrow>
   \<forall>l \<in> set ls. chNL \<notin> set l \<Longrightarrow> ls \<noteq> [] \<Longrightarrow> ls' \<noteq> [] \<and> (\<forall>l \<in> set ls'. chNL \<notin> set l)"
proof (induction rs arbitrary: ls ds)
  case Nil
  then show ?case by simp
next
  case (Cons r rs)
  obtain l1 d1 where 1: "mapEdit (commentLine path r) (ls, ds) = (l1, d1)" by force
  with Cons.prems(1) have f: "fold (\<lambda>r. mapEdit (commentLine path r)) rs (l1, d1) = (ls', ds')" by simp
  have "l1 \<noteq> []" and "\<forall>l \<in> set l1. chNL \<notin> set l"
    using 1 Cons.prems(2,3) by (auto simp: mapEdit_def commentLine_def split: if_splits)
  from Cons.IH [OF f this(2,1)] show ?case .
qed

interpretation remove_editor: stable_editor editRemove
proof (unfold_locales, goal_cases)
  case (1 path args ls ls')
  then show ?case
    using fold_mapEdit_nil [of "commentLine path" args ls "[]" ls'] commentLine_nil
    by (auto simp: editRemove_def)
next
  case (2 path args ls ls' ds)
  then have "\<forall>l \<in> set ls'. settled ([] @ args) l"
    by (intro editRemove_result_settled [where ls = ls]) (auto simp: editRemove_def settled_def)
  then show ?case using editRemove_settled [of ls' args args] by (simp add: editRemove_def)
next
  case (3 path args ls ls' ds)
  then show ?case using editRemove_lines by (auto simp: editRemove_def)
qed

lemma dropValue_nil: "snd (dropValue path k v l) = [] \<Longrightarrow> fst (dropValue path k v l) = l"
  by (cases "contains l k \<and> contains l v") (auto simp: dropValue_def Let_def)

interpretation value_editor: line_editor editValues
proof (unfold_locales, goal_cases)
  case (1 path args ls ls')
  have "foldE (\<lambda>r st. let sp = splitN2 CHR ''='' r
      in if length sp \<noteq> 2 then Inl (BadRemoveLine r)
         else Inr (mapEdit (dropValue path (sp ! 0) (sp ! 1)) st)) args (ls, ds) = Inr (ls', []) \<Longrightarrow>
      ls' = ls \<and> ds = []" for ds
  proof (induction args arbitrary: ls ds)
    case Nil
    then show ?case by simp
  next
    case (Cons r rs)
    let ?sp = "splitN2 CHR ''='' r"
    have "length ?sp = 2" using Cons.prems by (auto simp: Let_def split: if_splits)
    moreover obtain l1 d1 where 1: "mapEdit (dropValue path (?sp ! 0) (?sp ! 1)) (ls, ds) = (l1, d1)" by force
    ultimately have "ls' = l1 \<and> d1 = []" using Cons by (auto simp: Let_def)
    with mapEdit_nil [of "dropValue path (?sp ! 0) (?sp ! 1)" ls ds] 1 dropValue_nil show ?case by auto
  qed
  with 1 show ?case by (auto simp: editValues_def)
qed

lemma regenVal_False: "fst (fold regenVal vs (u, got)) = False \<Longrightarrow> fold regenVal vs (u, got) = (False, got) \<and> \<not> u"
proof (induction vs arbitrary: u got)
  case Nil
  then show ?case by simp
next
  case (Cons v vs)
  obtain u1 g1 where 1: "regenVal v (u, got) = (u1, g1)" by force
  with Cons.prems have "fst (fold regenVal vs (u1, g1)) = False" by simp
  from Cons.IH [OF this] have 2: "fold regenVal vs (u1, g1) = (False, g1)" "\<not> u1" by auto
  then have "u1 = u" "g1 = got" using 1 by (auto simp: regenVal_def Let_def split: if_splits)
  with 1 2 show ?case by simp
qed

lemma regenerateLine_False: "regenerateLine got want = (False, new) \<Longrightarrow> new = got"
  using regenVal_False [of "splitOn chSpace (trim (splitN2 CHR ''='' want ! 1) [chQuote])" False got]
  by (auto simp: regenerateLine_def Let_def split: if_splits)

lemma regenLine_nil: "snd (regenLine path want l) = [] \<Longrightarrow> fst (regenLine path want l) = l"
  using regenerateLine_False [of l want] by (auto simp: regenLine_def Let_def split: if_splits prod.splits)

lemma fold_regenWant_nil:
  "fold (regenWant path) ws (ls, ds) = (ls', []) \<Longrightarrow> ls' = ls \<and> ds = []"
proof (induction ws arbitrary: ls ds)
  case Nil
  then show ?case by simp
next
  case (Cons x ws)
  obtain l1 d1 where 1: "regenWant path x (ls, ds) = (l1, d1)" by force
  with Cons have "ls' = l1 \<and> d1 = []" by simp
  with 1 mapEdit_nil [of "regenLine path x" ls ds] regenLine_nil show ?case
    by (auto simp: regenWant_def split: if_splits)
qed

interpretation regenerate_editor: line_editor editRegenerate
  by unfold_locales (auto simp: editRegenerate_def dest: fold_regenWant_nil)

lemma wp_checkAndRegenerateFile:
  "wp (checkAndRegenerateFile w c path want) Q log =
    (case read_env w log (ReadPath path) of
       Inl (OtherError e) \<Rightarrow> Q (Inl (ReadError (OtherError e))) (ReadPath path # log)
     | Inl NotExist \<Rightarrow> wp (commitEdit w c path want
         [\<lparr>d_file = path, d_op = RegenerateFile, d_got = [], d_want = want\<rparr>]) Q (ReadPath path # log)
     | Inr got \<Rightarrow> wp (commitEdit w c path want
         (if got \<noteq> want then [\<lparr>d_file = path, d_op = RegenerateFile, d_got = got, d_want = want\<rparr>] else []))
         Q (ReadPath path # log))"
  by (simp add: checkAndRegenerateFile_def wp_rules split: sum.splits read_error.splits)

lemma checkAndRegenerateFile_twice:
  assumes "keepsFile w path init" and "\<not> Check c"
  shows "wp (checkAndRegenerateFile w c path want)
    (\<lambda>r log1. (\<exists>b. r = Inr b) \<longrightarrow>
       wp (checkAndRegenerateFile w c path want) (\<lambda>r2 log2. r2 = Inr False \<and> only_quiet log1 log2) log1) log"
proof -
  have again: "wp (checkAndRegenerateFile w c path want) (\<lambda>r2 log2. r2 = Inr False \<and> only_quiet log1 log2) log1"
    if "read_env w log1 (ReadPath path) = Inr want" for log1
    using that by (simp add: checkAndRegenerateFile_def commitEdit_def wp_rules only_quiet_def)
  have commit: "wp (commitEdit w c path want [d])
      (\<lambda>r log1. (\<exists>b. r = Inr b) \<longrightarrow> wp (checkAndRegenerateFile w c path want)
         (\<lambda>r2 log2. r2 = Inr False \<and> only_quiet log1 log2) log1) (ReadPath path # log)" for d
    using assms(1) by (intro wp_mono [OF commitEdit_done' [OF assms(2)]]) (auto intro!: again simp: keepsFile_def)
  have kept: "read_env w (ReadPath path # log) (ReadPath path) = read_env w log (ReadPath path)"
    using assms(1) by (simp add: keepsFile_def)
  have same: "wp (commitEdit w c path want [])
      (\<lambda>r log1. (\<exists>b. r = Inr b) \<longrightarrow> wp (checkAndRegenerateFile w c path want)
         (\<lambda>r2 log2. r2 = Inr False \<and> only_quiet log1 log2) log1) (ReadPath path # log)"
    if "read_env w log (ReadPath path) = Inr want"
    using again [of "ReadPath path # log"] kept that by (simp add: commitEdit_def wp_return wp_bind)
  show ?thesis
    unfolding wp_checkAndRegenerateFile [of w c path want "\<lambda>r log1. (\<exists>b. r = Inr b) \<longrightarrow> _ log1" log]
    using commit same by (auto split: sum.split read_error.split)
qed

section \<open>Properties\<close>

text \<open>Applying settings converges: where only the program writes the file, a removal of lines or
  the regeneration of a whole file that ended without an error finds nothing to do when it is run
  again, and runs it without writing anything.\<close>

theorem apply_converges:
  assumes "keepsFile w path init" and "\<not> Check c"
  shows "wp (removeLines w c path removes)
      (\<lambda>r log1. (\<exists>b. r = Inr b) \<longrightarrow>
         wp (removeLines w c path removes) (\<lambda>r2 log2. r2 = Inr False \<and> only_quiet log1 log2) log1) log \<and>
    wp (checkAndRegenerateFile w c path want)
      (\<lambda>r log1. (\<exists>b. r = Inr b) \<longrightarrow>
         wp (checkAndRegenerateFile w c path want) (\<lambda>r2 log2. r2 = Inr False \<and> only_quiet log1 log2) log1) log"
  unfolding removeLines_def
  by (rule conjI) (rule remove_editor.editFile_twice [OF assms] checkAndRegenerateFile_twice [OF assms])+

definition oneFile :: "string \<Rightarrow> string \<Rightarrow> ci_world" where
  "oneFile path init = \<lparr>
     read_env = \<lambda>log _. (case written path log of [] \<Rightarrow> Inr init | s # _ \<Rightarrow> Inr s),
     write_env = \<lambda>_ _. None, mkdir_env = \<lambda>_ _. None, exec_env = \<lambda>_ _. okResult [], timestamp = ''1''\<rparr>"

definition applyArgs :: ci_args where
  "applyArgs = \<lparr>Apply = True, Check = False, Describe = False, Format = [], MachineType = ''x4-megamem-960'',
     HyperThreading = [], TimeoutSec = 0\<rparr>"

lemma apply_converges_witness:
  "wp (removeLines (oneFile ''logind.conf'' ''UserTasksMax=1'') applyArgs ''logind.conf'' [''UserTasksMax=''])
      (\<lambda>r log1. (\<exists>b. r = Inr b) \<longrightarrow>
         wp (removeLines (oneFile ''logind.conf'' ''UserTasksMax=1'') applyArgs ''logind.conf'' [''UserTasksMax=''])
           (\<lambda>r2 log2. r2 = Inr False \<and> only_quiet log1 log2) log1) [] \<and>
   fst (run_state (removeLines (oneFile ''logind.conf'' ''UserTasksMax=1'') applyArgs ''logind.conf''
     [''UserTasksMax='']) []) = Inr True"
proof
  show "wp (removeLines (oneFile ''logind.conf'' ''UserTasksMax=1'') applyArgs ''logind.conf'' [''UserTasksMax=''])
      (\<lambda>r log1. (\<exists>b. r = Inr b) \<longrightarrow>
         wp (removeLines (oneFile ''logind.conf'' ''UserTasksMax=1'') applyArgs ''logind.conf'' [''UserTasksMax=''])
           (\<lambda>r2 log2. r2 = Inr False \<and> only_quiet log1 log2) log1) []"
    by (rule apply_converges [where init = "Inr ''UserTasksMax=1''", THEN conjunct1])
      (simp_all add: keepsFile_def oneFile_def applyArgs_def split: list.splits)
qed code_simp

text \<open>A setting with blanks around its equals sign is not replaced: the wanted value is appended to the
  line, and the result, which systemd does not accept, counts as configured from then on. A wanted
  value that is a prefix of the value in the file also counts as configured.\<close>

lemma spaced_setting_corrupted:
  "regenerateLine ''DefaultTasksMax = 80%'' ''DefaultTasksMax=infinity''
     = (True, ''DefaultTasksMax = 80% infinity'' @ [chQuote])"
  "regenerateLine (''DefaultTasksMax = 80% infinity'' @ [chQuote]) ''DefaultTasksMax=infinity''
     = (False, ''DefaultTasksMax = 80% infinity'' @ [chQuote])"
  "regenerateLine (''GRUB_CMDLINE_LINUX_DEFAULT='' @ [chQuote] @ ''quiet mce=20'' @ [chQuote])
     (''GRUB_CMDLINE_LINUX_DEFAULT='' @ [chQuote] @ ''mce=2'' @ [chQuote])
     = (False, ''GRUB_CMDLINE_LINUX_DEFAULT='' @ [chQuote] @ ''quiet mce=20'' @ [chQuote])"
  by code_simp+

text \<open>Removing a boot parameter looks for it after a blank or an equals sign, so the first one inside
  the quotes is never removed although the line is reported as different, and a longer parameter
  with the same start is cut.\<close>

lemma removed_value_mishandled:
  "dropValue p ''GRUB_CMDLINE_LINUX_DEFAULT'' ''nosmt''
     (''GRUB_CMDLINE_LINUX_DEFAULT='' @ [chQuote] @ ''nosmt quiet'' @ [chQuote]) =
     (''GRUB_CMDLINE_LINUX_DEFAULT='' @ [chQuote] @ ''nosmt quiet'' @ [chQuote],
      [\<lparr>d_file = p, d_op = RemoveValue,
         d_got = ''GRUB_CMDLINE_LINUX_DEFAULT='' @ [chQuote] @ ''nosmt quiet'' @ [chQuote],
         d_want = ''GRUB_CMDLINE_LINUX_DEFAULT='' @ [chQuote] @ ''nosmt quiet'' @ [chQuote]\<rparr>])"
  "fst (dropValue p ''GRUB_CMDLINE_LINUX_DEFAULT'' ''nosmt''
     (''GRUB_CMDLINE_LINUX_DEFAULT='' @ [chQuote] @ ''quiet nosmt=force'' @ [chQuote])) =
     ''GRUB_CMDLINE_LINUX_DEFAULT='' @ [chQuote] @ ''quiet=force'' @ [chQuote]"
  by code_simp+

end
