(* ===== verification/ConfigureInstance.thy ===== *)
theory ConfigureInstance
  imports LineEdit
begin

text \<open>
  \<open>configureinstance.go\<close>, \<open>configurex4.go\<close> and \<open>configurex5.go\<close> of
  \<open>internal/onetime/configureinstance\<close>: checking and applying the operating system settings of the
  X4 and X5 machine series. The two series have the same code up to names, so each operation is
  defined once over a \<open>series\<close> and instantiated for both. The embedded configuration files are
  fields of the series; \<open>semver\<close> is the parameter \<open>geq\<close>, with \<open>None\<close> for a version that does not
  parse. The package variable \<open>grubLinuxDefault\<close>, which the code assigns to, is passed and returned.
\<close>

section \<open>Series\<close>

record series =
  s_name :: string
  s_title :: string
  s_conf :: string
  s_tuned :: string

definition systemConf :: "string list" where
  "systemConf = [''DefaultTimeoutStartSec=300s'', ''DefaultTimeoutStopSec=300s'', ''DefaultTasksMax=infinity'']"

definition logindConf :: "string list" where
  "logindConf = [''UserTasksMax='']"

definition modprobeConf :: string where
  "modprobeConf = concat (map (\<lambda>m. ''blacklist '' @ m @ [chNL])
     [''idxd'', ''hpilo'', ''acpi_cpufreq'', ''qat_4xxx'', ''intel_qat''])"

definition grubLinuxDefault :: string where
  "grubLinuxDefault = ''GRUB_CMDLINE_LINUX_DEFAULT='' @ [chQuote]
     @ ''tsc=nowatchdog add_efi_memmap udev.children-max=512 nmi_watchdog=0 watchdog_thresh=60 workqueue.watchdog_thresh=120 mce=2 console=ttyS0,115200 earlyprintk=ttyS0,115200 uv_nmi.action=kdump bau=0 pci=nobar transparent_hugepage=never numa_balancing=disable clocksource=tsc''
     @ [chQuote]"

section \<open>Regular expressions\<close>

definition matchVersion :: "string \<Rightarrow> string option" where
  "matchVersion s =
     (if hasPrefix s (''VERSION_ID='' @ [chQuote]) then
        let r = drop 12 s; v = takeWhile (\<lambda>c. c \<noteq> chQuote) r
        in if length v < length r then Some v else None
      else None)"

definition solutionAt :: "string \<Rightarrow> unit option" where
  "solutionAt s =
     (if hasPrefix s ''enabled Solution:'' \<and>
         (\<exists>n \<in> set [''HANA'', ''NETWEAVER+HANA'', ''S4HANA-APP+DB'', ''S4HANA-DBSERVER''].
            hasPrefix (dropWhile isReSpace (drop 17 s)) n)
      then Some () else None)"

fun noteIn :: "string \<Rightarrow> bool \<Rightarrow> string \<Rightarrow> bool" where
  "noteIn note prevWord [] = False"
| "noteIn note prevWord (c # s) =
     (if \<not> prevWord \<and> hasPrefix (c # s) note \<and>
         (case drop (length note) (c # s) of [] \<Rightarrow> True | d # _ \<Rightarrow> \<not> isWordChar d)
      then True
      else if c = chNL then False
      else noteIn note (isWordChar c) s)"

definition noteAt :: "string \<Rightarrow> string \<Rightarrow> unit option" where
  "noteAt note s =
     (if hasPrefix s ''additional enabled Notes:'' \<and> noteIn note False (drop 25 s) then Some () else None)"

text \<open>\<open>saptuneSolutionRegex\<close> and \<open>saptuneNotesRegex\<close>, which ignore case: the rest of the line after the
  title. The capture is trimmed by the callers, so the blanks the pattern skips are left in.\<close>

definition restOfLine :: "string \<Rightarrow> string \<Rightarrow> string option" where
  "restOfLine title s =
     (if hasPrefix (toLower s) (toLower title) then
        let r = takeWhile (\<lambda>c. c \<noteq> CHR 0x0D \<and> c \<noteq> chNL) (drop (length title) s)
        in if r = [] then None else Some r
      else None)"

definition cutParen :: "string \<Rightarrow> string" where
  "cutParen s = trimSpace (hd (splitOn CHR ''('' s))"

definition isSet :: "string \<Rightarrow> bool" where
  "isSet v \<longleftrightarrow> v \<noteq> [] \<and> toLower v \<noteq> ''none''"

definition parseSaptuneSolution :: "string \<Rightarrow> string" where
  "parseSaptuneSolution stdout =
     (let fallback =
        (let trimmed = trimSpace stdout
         in if trimmed \<noteq> [] \<and> \<not> contains trimmed [chNL] \<and> isSet (cutParen trimmed)
            then cutParen trimmed else ''NOT_SET'')
      in case findMatch (restOfLine ''enabled Solution:'') stdout of
           None \<Rightarrow> fallback
         | Some m \<Rightarrow> (let val = cutParen (trimSpace m) in if isSet val then val else fallback))"

definition parseSaptuneNotes :: "string \<Rightarrow> string" where
  "parseSaptuneNotes stdout =
     (case findMatch (restOfLine ''additional enabled Notes:'') stdout of
        None \<Rightarrow> ''NOT_SET''
      | Some m \<Rightarrow> (let val = cutParen (trimSpace m) in if isSet val then val else ''NOT_SET''))"

definition containsWord :: "string \<Rightarrow> string \<Rightarrow> bool" where
  "containsWord s word \<longleftrightarrow> (\<exists>w \<in> set (goFields s). w = word)"

section \<open>Operating system\<close>

definition run :: "ci_world \<Rightarrow> ci_args \<Rightarrow> string \<Rightarrow> string \<Rightarrow> (ci_call, cmd_result) prog" where
  "run w c exe args = call (exec_env w) (Run exe args (TimeoutSec c))"

text \<open>A command whose failure is the error of the operation.\<close>

definition mustRun :: "ci_world \<Rightarrow> ci_args \<Rightarrow> string \<Rightarrow> string \<Rightarrow> (ci_call, ci_error option) prog" where
  "mustRun w c exe args = do {
     r \<leftarrow> run w c exe args;
     ret (if ExitCode r \<noteq> 0 then Some (CommandFailed exe args (ExitCode r)) else None)
   }"

definition transparentHugePageAdvise ::
  "(string \<Rightarrow> string \<Rightarrow> bool option) \<Rightarrow> ci_world \<Rightarrow> (ci_call, bool) prog" where
  "transparentHugePageAdvise geq w = do {
     r \<leftarrow> call (read_env w) (ReadPath ''/etc/os-release'');
     ret (case r of
            Inl _ \<Rightarrow> False
          | Inr osRelease \<Rightarrow>
              (case findMatch matchVersion osRelease of
                 None \<Rightarrow> False
               | Some v \<Rightarrow>
                   if v = [] then False
                   else if contains osRelease ''SLES'' then geq v ''15.5'' = Some True
                   else if contains osRelease ''Red Hat Enterprise Linux'' then geq v ''9.2'' = Some True
                   else False))
   }"

definition grubBootLoader :: "ci_world \<Rightarrow> ci_args \<Rightarrow> (ci_call, bool) prog" where
  "grubBootLoader w c = do {
     r \<leftarrow> run w c ''grub2-mkconfig'' ''--help'';
     ret (contains (StdOut r) ''update-bls-cmdline'' \<or> contains (StdErr r) ''update-bls-cmdline'')
   }"

definition enableAndStart :: "ci_world \<Rightarrow> ci_args \<Rightarrow> string \<Rightarrow> (ci_call, ci_error option) prog" where
  "enableAndStart w c service = do {
     e \<leftarrow> mustRun w c ''systemctl'' (''enable '' @ service);
     case e of
       Some x \<Rightarrow> ret (Some x)
     | None \<Rightarrow> mustRun w c ''systemctl'' (''start '' @ service)
   }"

text \<open>The service must exist; a check fails if it is not running, an apply starts it.\<close>

definition saptuneStatus :: "ci_world \<Rightarrow> ci_args \<Rightarrow> (ci_call, ci_error option) prog" where
  "saptuneStatus w c = do {
     r \<leftarrow> run w c ''systemctl'' ''status saptune'';
     if ExitCode r = 4 then ret (Some (NotFoundService ''saptune''))
     else if ExitCode r \<noteq> 0 then
       (if Check c then ret (Some (NotCompliant ''saptune''))
        else do {
          _ \<leftarrow> run w c ''rm'' ''-f /run/sapconf/active'';
          enableAndStart w c ''saptune''
        })
     else ret None
   }"

definition sapconfTakeover :: "ci_world \<Rightarrow> ci_args \<Rightarrow> (ci_call, ci_error option) prog" where
  "sapconfTakeover w c = do {
     r \<leftarrow> run w c ''systemctl'' ''status sapconf'';
     if ExitCode r = 0 then
       (if Check c then ret (Some (NotCompliant ''sapconf''))
        else do {
          _ \<leftarrow> run w c ''systemctl'' ''kill sapconf'';
          _ \<leftarrow> run w c ''systemctl'' ''kill tuned'';
          _ \<leftarrow> run w c ''rm'' ''-f /run/sapconf/active'';
          mustRun w c ''saptune'' ''service takeover''
        })
     else ret None
   }"

definition saptuneService :: "ci_world \<Rightarrow> ci_args \<Rightarrow> (ci_call, ci_error option) prog" where
  "saptuneService w c = do {
     activating \<leftarrow> (if Check c then do {
         r \<leftarrow> run w c ''systemctl'' ''show -p ActiveState saptune'';
         ret (contains (StdOut r) ''activating'')
       } else ret False);
     if activating then ret (Some (NotCompliant ''activating''))
     else do {
       e \<leftarrow> sapconfTakeover w c;
       case e of Some x \<Rightarrow> ret (Some x) | None \<Rightarrow> saptuneStatus w c
     }
   }"

definition saptuneSolutions :: "series \<Rightarrow> ci_world \<Rightarrow> ci_args \<Rightarrow> (ci_call, bool \<times> bool) prog" where
  "saptuneSolutions s w c = do {
     r \<leftarrow> run w c ''saptune'' ''status'';
     ret (findMatch solutionAt (StdOut r) = None,
          findMatch (noteAt (''google-'' @ s_name s)) (StdOut r) = None)
   }"

definition saptuneReapply ::
  "series \<Rightarrow> ci_world \<Rightarrow> ci_args \<Rightarrow> bool \<Rightarrow> bool \<Rightarrow> (ci_call, ci_error option) prog" where
  "saptuneReapply s w c solutionReapply noteReapply =
     (if \<not> solutionReapply \<and> \<not> noteReapply then ret None
      else if Check c then ret None
      else do {
        e \<leftarrow> (if solutionReapply then mustRun w c ''saptune'' ''solution change --force HANA''
              else ret None);
        case e of
          Some x \<Rightarrow> ret (Some x)
        | None \<Rightarrow>
            (if noteReapply then do {
               e2 \<leftarrow> mustRun w c ''saptune'' (''note revert google-'' @ s_name s);
               case e2 of
                 Some x \<Rightarrow> ret (Some x)
               | None \<Rightarrow> mustRun w c ''saptune'' (''note apply google-'' @ s_name s)
             } else ret None)
      })"

definition saptuneVerify :: "series \<Rightarrow> ci_world \<Rightarrow> ci_args \<Rightarrow> (ci_call, ci_error option) prog" where
  "saptuneVerify s w c = do {
     e \<leftarrow> mustRun w c ''saptune'' ''solution verify HANA'';
     case e of
       Some x \<Rightarrow> ret (Some x)
     | None \<Rightarrow> mustRun w c ''saptune'' (''note verify google-'' @ s_name s)
   }"

definition applySLES :: "series \<Rightarrow> ci_world \<Rightarrow> ci_args \<Rightarrow> (ci_call, (ci_error, bool) result) prog" where
  "applySLES s w c = do {
     e \<leftarrow> saptuneService w c;
     case e of
       Some x \<Rightarrow> ret (Inl x)
     | None \<Rightarrow> do {
         f \<leftarrow> checkAndRegenerateFile w c (''/etc/saptune/extra/google-'' @ s_name s @ ''.conf'') (s_conf s);
         case f of
           Inl x \<Rightarrow> ret (Inl x)
         | Inr noteRegenerated \<Rightarrow> do {
             sol \<leftarrow> saptuneSolutions s w c;
             let solutionReapply = fst sol;
             let noteReapply = (snd sol \<or> noteRegenerated);
             e2 \<leftarrow> saptuneReapply s w c solutionReapply noteReapply;
             case e2 of
               Some x \<Rightarrow> ret (Inl x)
             | None \<Rightarrow> do {
                 e3 \<leftarrow> saptuneVerify s w c;
                 ret (case e3 of Some x \<Rightarrow> Inl x | None \<Rightarrow> Inr (solutionReapply \<or> noteReapply))
               }
           }
       }
   }"

definition ifRelease ::
  "string \<Rightarrow> ci_world \<Rightarrow> (ci_call, (ci_error, bool) result) prog \<Rightarrow> (ci_call, (ci_error, bool) result) prog" where
  "ifRelease name w m = do {
     r \<leftarrow> call (read_env w) (ReadPath ''/etc/os-release'');
     case r of
       Inl e \<Rightarrow> ret (Inl (ReadError e))
     | Inr osRelease \<Rightarrow> if \<not> contains osRelease name then ret (Inr False) else m
   }"

definition configureSLES :: "series \<Rightarrow> ci_world \<Rightarrow> ci_args \<Rightarrow> (ci_call, (ci_error, bool) result) prog" where
  "configureSLES s w c = ifRelease ''SLES'' w (applySLES s w c)"

definition tunedService :: "ci_world \<Rightarrow> ci_args \<Rightarrow> (ci_call, ci_error option) prog" where
  "tunedService w c = do {
     r \<leftarrow> run w c ''systemctl'' ''status tuned'';
     if ExitCode r = 4 then ret (Some (NotFoundService ''tuned''))
     else if ExitCode r \<noteq> 0 then
       (if Check c then ret (Some (NotCompliant ''tuned'')) else enableAndStart w c ''tuned'')
     else ret None
   }"

definition tunedReapply :: "series \<Rightarrow> ci_world \<Rightarrow> ci_args \<Rightarrow> bool \<Rightarrow> (ci_call, ci_error option) prog" where
  "tunedReapply s w c reapply =
     (if \<not> reapply then ret None
      else if Check c then ret (Some (NotCompliant ''tuned re-apply''))
      else do {
        e \<leftarrow> mustRun w c ''tuned-adm'' (''profile google-'' @ s_name s);
        case e of
          Some x \<Rightarrow> ret (Some x)
        | None \<Rightarrow> do {
            r \<leftarrow> run w c ''tuned-adm'' ''active'';
            ret (if contains (StdOut r) (''google-'' @ s_name s) then None
                 else Some (NotCompliant ''active profile''))
          }
      })"

definition applyRHEL :: "series \<Rightarrow> ci_world \<Rightarrow> ci_args \<Rightarrow> (ci_call, (ci_error, bool) result) prog" where
  "applyRHEL s w c = do {
     e \<leftarrow> tunedService w c;
     case e of
       Some x \<Rightarrow> ret (Inl x)
     | None \<Rightarrow> do {
         f \<leftarrow> checkAndRegenerateFile w c (''/etc/tuned/google-'' @ s_name s @ ''/tuned.conf'') (s_tuned s);
         case f of
           Inl x \<Rightarrow> ret (Inl x)
         | Inr regenerated \<Rightarrow> do {
             active \<leftarrow> run w c ''tuned-adm'' ''active'';
             let reapply = (regenerated \<or> \<not> contains (StdOut active) (''google-'' @ s_name s));
             e2 \<leftarrow> tunedReapply s w c reapply;
             case e2 of
               Some x \<Rightarrow> ret (Inl x)
             | None \<Rightarrow> do {
                 e3 \<leftarrow> (if Apply c then mustRun w c ''systemctl'' ''restart tuned'' else ret None);
                 case e3 of
                   Some x \<Rightarrow> ret (Inl x)
                 | None \<Rightarrow> do {
                     e4 \<leftarrow> mustRun w c ''tuned-adm'' ''verify'';
                     ret (case e4 of Some x \<Rightarrow> Inl x | None \<Rightarrow> Inr reapply)
                   }
               }
           }
       }
   }"

definition configureRHEL :: "series \<Rightarrow> ci_world \<Rightarrow> ci_args \<Rightarrow> (ci_call, (ci_error, bool) result) prog" where
  "configureRHEL s w c = ifRelease ''Red Hat Enterprise Linux'' w (applyRHEL s w c)"

section \<open>The general configuration\<close>

text \<open>systemd, logind and modprobe; a regenerated blacklist needs a new initramfs.\<close>

definition configureSystem :: "series \<Rightarrow> ci_world \<Rightarrow> ci_args \<Rightarrow> (ci_call, (ci_error, bool) result) prog" where
  "configureSystem s w c =
     bindE (checkAndRegenerateLines w c ''/etc/systemd/system.conf'' systemConf) (\<lambda>rebootSystem.
     bindE (removeLines w c ''/etc/systemd/logind.conf'' logindConf) (\<lambda>rebootLogin.
     bindE (checkAndRegenerateFile w c (''/etc/modprobe.d/google-'' @ s_name s @ ''.conf'') modprobeConf)
       (\<lambda>rebootModprobe.
     bindE (if rebootModprobe \<and> Apply c then orFail (mustRun w c ''/usr/bin/dracut'' ''--force'')
            else ret (Inr ())) (\<lambda>_.
     ret (Inr (rebootSystem \<or> rebootLogin \<or> rebootModprobe))))))"

text \<open>The assignments to the package variable.\<close>

definition grubWanted :: "ci_args \<Rightarrow> bool \<Rightarrow> string \<Rightarrow> string" where
  "grubWanted c advise grub =
     (let g1 = (if HyperThreading c = ''off'' \<and> Apply c
                then trimSuffix grub [chQuote] @ '' nosmt'' @ [chQuote] else grub)
      in if advise then replaceAll g1 ''transparent_hugepage=never'' ''transparent_hugepage=madvise'' else g1)"

definition rebuildGrub :: "ci_world \<Rightarrow> ci_args \<Rightarrow> bool \<Rightarrow> (ci_call, (ci_error, unit) result) prog" where
  "rebuildGrub w c rebootGrub =
     (if rebootGrub \<and> \<not> Check c then do {
        bls \<leftarrow> grubBootLoader w c;
        orFail (mustRun w c ''grub2-mkconfig''
          (if bls then ''-o /boot/grub2/grub.cfg --update-bls-cmdline'' else ''-o /boot/grub2/grub.cfg''))
      } else ret (Inr ()))"

definition configureGrub :: "ci_world \<Rightarrow> ci_args \<Rightarrow> string \<Rightarrow> (ci_call, (ci_error, bool) result) prog" where
  "configureGrub w c grub =
     bindE (checkAndRegenerateLines w c ''/etc/default/grub'' [grub]) (\<lambda>rebootGrub.
     bindE (if HyperThreading c = ''on'' \<and> Apply c
            then removeValues w c ''/etc/default/grub'' [''GRUB_CMDLINE_LINUX_DEFAULT=nosmt'']
            else ret (Inr False)) (\<lambda>removeNosmt.
     bindE (rebuildGrub w c (rebootGrub \<or> removeNosmt)) (\<lambda>_.
     ret (Inr (rebootGrub \<or> removeNosmt)))))"

definition osSpecific :: "(ci_call, (ci_error, bool) result) prog \<Rightarrow> (ci_call, (ci_error, bool) result) prog" where
  "osSpecific m = do { r \<leftarrow> m; ret (case r of Inl e \<Rightarrow> Inl (OsSpecific e) | Inr b \<Rightarrow> Inr b) }"

definition configureSeries ::
  "series \<Rightarrow> (string \<Rightarrow> string \<Rightarrow> bool option) \<Rightarrow> ci_world \<Rightarrow> ci_args \<Rightarrow> string
   \<Rightarrow> (ci_call, (ci_error, bool) result \<times> string) prog" where
  "configureSeries s geq w c grub = do {
     r \<leftarrow> configureSystem s w c;
     case r of
       Inl e \<Rightarrow> ret (Inl e, grub)
     | Inr rebootSystem \<Rightarrow> do {
         advise \<leftarrow> transparentHugePageAdvise geq w;
         let grub' = grubWanted c advise grub;
         res \<leftarrow> bindE (configureGrub w c grub') (\<lambda>rebootGrub.
                bindE (osSpecific (configureSLES s w c)) (\<lambda>rebootSLES.
                bindE (osSpecific (configureRHEL s w c)) (\<lambda>rebootRHEL.
                ret (Inr (rebootSLES \<or> rebootRHEL \<or> rebootSystem \<or> rebootGrub)))));
         ret (res, grub')
       }
   }"

section \<open>Describing\<close>

record config_rule =
  Category :: string
  TargetFile :: string
  ParameterKey :: string
  ExpectedValue :: string
  CurrentValue :: string
  RebootRequired :: bool

definition mkRule :: "string \<Rightarrow> string \<Rightarrow> string \<Rightarrow> string \<Rightarrow> string \<Rightarrow> bool \<Rightarrow> config_rule" where
  "mkRule cat tgt key want cur reboot =
     \<lparr>Category = cat, TargetFile = tgt, ParameterKey = key, ExpectedValue = want, CurrentValue = cur,
      RebootRequired = reboot\<rparr>"

primrec mapProg :: "('a \<Rightarrow> ('c, 'b) prog) \<Rightarrow> 'a list \<Rightarrow> ('c, 'b list) prog" where
  "mapProg f [] = ret []"
| "mapProg f (x # xs) = do { y \<leftarrow> f x; ys \<leftarrow> mapProg f xs; ret (y # ys) }"

definition systemdRules :: "ci_world \<Rightarrow> (ci_call, config_rule list) prog" where
  "systemdRules w = do {
     rules \<leftarrow> mapProg (\<lambda>line.
         let parts = splitN2 CHR ''='' line
         in if length parts \<noteq> 2 then ret []
            else do {
              curr \<leftarrow> readCurrentLineValue w ''/etc/systemd/system.conf'' (trimSpace (parts ! 0));
              ret [mkRule ''Systemd'' ''/etc/systemd/system.conf'' (trimSpace (parts ! 0))
                     (trimSpace (parts ! 1)) curr True]
            }) systemConf;
     cur \<leftarrow> readCurrentLineValue w ''/etc/systemd/logind.conf'' ''UserTasksMax'';
     ret (concat rules @ [mkRule ''Systemd'' ''/etc/systemd/logind.conf'' ''UserTasksMax'' ''NOT_SET''
            (if cur = ''<COMMENTED_OUT>'' then ''NOT_SET'' else cur) True])
   }"

definition modprobeRules :: "series \<Rightarrow> ci_world \<Rightarrow> (ci_call, config_rule list) prog" where
  "modprobeRules s w =
     (let path = ''/etc/modprobe.d/google-'' @ s_name s @ ''.conf''
      in do {
        rules \<leftarrow> mapProg (\<lambda>l.
            let line = trimSpace l
            in if line = [] \<or> hasPrefix line ''#'' then ret []
               else do {
                 curr \<leftarrow> readCurrentLineValue w path line;
                 ret [mkRule ''Modprobe'' path line line curr True]
               }) (splitOn chNL modprobeConf);
        ret (concat rules)
      })"

definition grubRules ::
  "(string \<Rightarrow> string \<Rightarrow> bool option) \<Rightarrow> ci_world \<Rightarrow> ci_args \<Rightarrow> string \<Rightarrow> (ci_call, config_rule list) prog" where
  "grubRules geq w c grub = do {
     advise \<leftarrow> transparentHugePageAdvise geq w;
     let e1 = (if HyperThreading c = ''off'' then trimSuffix grub [chQuote] @ '' nosmt'' @ [chQuote] else grub);
     let expected = (if advise then replaceAll e1 ''transparent_hugepage=never'' ''transparent_hugepage=madvise''
                     else e1);
     curr \<leftarrow> readCurrentLineValue w ''/etc/default/grub'' ''GRUB_CMDLINE_LINUX_DEFAULT'';
     let val = (if curr = ''NOT_SET'' \<or> curr = ''<COMMENTED_OUT>''
                then trimPrefix expected ''GRUB_CMDLINE_LINUX_DEFAULT=''
                else trimPrefix (snd (regenerateLine (''GRUB_CMDLINE_LINUX_DEFAULT='' @ curr) expected))
                       ''GRUB_CMDLINE_LINUX_DEFAULT='');
     ret [mkRule ''Grub'' ''/etc/default/grub'' ''GRUB_CMDLINE_LINUX_DEFAULT'' val curr True]
   }"

text \<open>The rules of an embedded configuration file, by section.\<close>

fun confRules :: "ci_world \<Rightarrow> string \<Rightarrow> string \<Rightarrow> string list \<Rightarrow> (ci_call, config_rule list) prog" where
  "confRules w path sec [] = ret []"
| "confRules w path sec (l # ls) =
     (let line = trimSpace l
      in if line = [] \<or> hasPrefix line ''#'' then confRules w path sec ls
         else if hasPrefix line ''['' \<and> hasSuffix line '']'' then
           confRules w path (toLower (trim line ''[]'')) ls
         else if sec = ''version'' \<or> sec = ''main'' then confRules w path sec ls
         else
           let parts = splitN2 CHR ''='' line
           in if length parts = 2 then do {
                curr \<leftarrow> readCurrentLineValue w path (trimSpace (parts ! 0));
                rest \<leftarrow> confRules w path sec ls;
                ret (mkRule (if sec = ''cpu'' then ''CPU'' else if sec = ''scheduler'' then ''Scheduler'' else ''Sysctl'')
                       path (trimSpace (parts ! 0)) (trimSpace (parts ! 1)) curr False # rest)
              } else confRules w path sec ls)"

definition activeState :: "ci_world \<Rightarrow> ci_args \<Rightarrow> string \<Rightarrow> string \<Rightarrow> (ci_call, config_rule) prog" where
  "activeState w c service want = do {
     r \<leftarrow> run w c ''systemctl'' (''show -p ActiveState '' @ service);
     let v = trimSpace (trimPrefix (StdOut r) ''ActiveState='');
     ret (mkRule ''Service'' service ''ActiveState'' want (if v = [] then ''NOT_SET'' else v) False)
   }"

definition slesRules :: "series \<Rightarrow> ci_world \<Rightarrow> ci_args \<Rightarrow> (ci_call, config_rule list) prog" where
  "slesRules s w c = do {
     r1 \<leftarrow> activeState w c ''sapconf'' ''inactive'';
     r2 \<leftarrow> activeState w c ''saptune'' ''active'';
     p \<leftarrow> run w c ''saptune'' ''status'';
     let profVal = parseSaptuneSolution (StdOut p);
     let expProf = (if profVal \<in> {''NETWEAVER+HANA'', ''S4HANA-APP+DB'', ''S4HANA-DBSERVER''} then profVal
                    else ''HANA'');
     ret [r1, r2, mkRule ''SaptuneProfile'' ''saptune'' ''EnabledSolution'' expProf profVal False,
          mkRule ''SaptuneNote'' ''saptune'' ''EnabledNotes'' (''google-'' @ s_name s)
            (parseSaptuneNotes (StdOut p)) False]
   }"

definition rhelRules :: "series \<Rightarrow> ci_world \<Rightarrow> ci_args \<Rightarrow> (ci_call, config_rule list) prog" where
  "rhelRules s w c = do {
     r1 \<leftarrow> activeState w c ''tuned'' ''active'';
     p \<leftarrow> run w c ''tuned-adm'' ''active'';
     let v = trimSpace (trimPrefix (StdOut p) ''Current active profile:'');
     ret [r1, mkRule ''TunedProfile'' ''tuned-adm'' ''ActiveProfile'' (''google-'' @ s_name s)
            (if v = [] then ''NOT_SET'' else v) False]
   }"

definition describeSeries ::
  "series \<Rightarrow> (string \<Rightarrow> string \<Rightarrow> bool option) \<Rightarrow> ci_world \<Rightarrow> ci_args \<Rightarrow> string \<Rightarrow> (ci_call, config_rule list) prog" where
  "describeSeries s geq w c grub = do {
     r1 \<leftarrow> systemdRules w;
     r2 \<leftarrow> modprobeRules s w;
     r3 \<leftarrow> grubRules geq w c grub;
     osRelease \<leftarrow> readCurrentFileContent w ''/etc/os-release'';
     let rhel = contains osRelease ''Red Hat Enterprise Linux'';
     r4 \<leftarrow> confRules w (if rhel then ''/etc/tuned/google-'' @ s_name s @ ''/tuned.conf''
                       else ''/etc/saptune/extra/google-'' @ s_name s @ ''.conf'') []
            (splitOn chNL (if rhel then s_tuned s else s_conf s));
     r5 \<leftarrow> (if contains osRelease ''SLES'' then slesRules s w c
           else if rhel then rhelRules s w c else ret []);
     ret (r1 @ r2 @ r3 @ r4 @ r5)
   }"

text \<open>The rows that \<open>formatDescribeOutput\<close> gives to the CSV writer, or the value it marshals.\<close>

datatype describe_output = Csv "string list list" | Json string "config_rule list"

definition formatDescribeOutput :: "ci_args \<Rightarrow> string \<Rightarrow> config_rule list \<Rightarrow> describe_output" where
  "formatDescribeOutput c title rules =
     (if toLower (Format c) = ''json'' then Json title rules
      else Csv ([''Series'', ''Category'', ''TargetFile'', ''ParameterKey'', ''ExpectedValue'', ''CurrentValue'',
                 ''RebootRequired'']
             # map (\<lambda>r. [title, Category r, TargetFile r, ParameterKey r, ExpectedValue r, CurrentValue r,
                        if RebootRequired r then ''YES'' else ''NO'']) rules))"

section \<open>The subcommand\<close>

datatype exit_status = ExitSuccess | ExitFailure | ExitUsageError

datatype ci_message =
    NoMessage
  | UsageMode
  | UsageFormat
  | UsageHyperThreading
  | UsageMachine string
  | ErrorMessage ci_error
  | Described describe_output

definition setDefaults :: "ci_args \<Rightarrow> ci_args" where
  "setDefaults c =
     (let c1 = (if Format c = [] then c\<lparr>Format := ''csv''\<rparr> else c);
          c2 = (if HyperThreading c1 = [] then c1\<lparr>HyperThreading := ''on''\<rparr> else c1)
      in if TimeoutSec c2 = 0 then c2\<lparr>TimeoutSec := 300\<rparr> else c2)"

definition IsSupportedMachineType :: "ci_args \<Rightarrow> bool" where
  "IsSupportedMachineType c \<longleftrightarrow> hasPrefix (MachineType c) ''x4'' \<or> hasPrefix (MachineType c) ''x5''"

text \<open>The two series and the package variables with their wanted boot parameters.\<close>

record ci_setup =
  x4 :: series
  x5 :: series
  geq :: "string \<Rightarrow> string \<Rightarrow> bool option"

record grub_vars =
  grub4 :: string
  grub5 :: string

definition configureX4 where "configureX4 e w c grub = configureSeries (x4 e) (geq e) w c grub"
definition configureX5 where "configureX5 e w c grub = configureSeries (x5 e) (geq e) w c grub"
definition describeX4 where "describeX4 e w c grub = describeSeries (x4 e) (geq e) w c grub"
definition describeX5 where "describeX5 e w c grub = describeSeries (x5 e) (geq e) w c grub"

text \<open>The operations of \<open>configurex5.go\<close>, a copy of \<open>configurex4.go\<close> with the series' own names.\<close>

definition transparentHugePageAdviseX5 where "transparentHugePageAdviseX5 e w = transparentHugePageAdvise (geq e) w"
definition grubBootLoaderX5 where "grubBootLoaderX5 w c = grubBootLoader w c"
definition saptuneServiceX5 where "saptuneServiceX5 w c = saptuneService w c"
definition saptuneSolutionsX5 where "saptuneSolutionsX5 e w c = saptuneSolutions (x5 e) w c"
definition saptuneReapplyX5 where "saptuneReapplyX5 e w c a b = saptuneReapply (x5 e) w c a b"
definition saptuneVerifyX5 where "saptuneVerifyX5 e w c = saptuneVerify (x5 e) w c"
definition configureX5SLES where "configureX5SLES e w c = configureSLES (x5 e) w c"
definition tunedServiceX5 where "tunedServiceX5 w c = tunedService w c"
definition tunedReapplyX5 where "tunedReapplyX5 e w c a = tunedReapply (x5 e) w c a"
definition configureX5RHEL where "configureX5RHEL e w c = configureRHEL (x5 e) w c"

lemma configureX5_uses:
  "configureX5 e w c grub = do {
     r \<leftarrow> configureSystem (x5 e) w c;
     case r of
       Inl err \<Rightarrow> ret (Inl err, grub)
     | Inr rebootSystem \<Rightarrow> do {
         advise \<leftarrow> transparentHugePageAdviseX5 e w;
         let grub' = grubWanted c advise grub;
         res \<leftarrow> bindE (configureGrub w c grub') (\<lambda>rebootGrub.
                bindE (osSpecific (configureX5SLES e w c)) (\<lambda>rebootSLES.
                bindE (osSpecific (configureX5RHEL e w c)) (\<lambda>rebootRHEL.
                ret (Inr (rebootSLES \<or> rebootRHEL \<or> rebootSystem \<or> rebootGrub)))));
         ret (res, grub')
       }
   }"
  unfolding configureX5_def configureSeries_def transparentHugePageAdviseX5_def configureX5SLES_def
    configureX5RHEL_def by (rule refl)

lemma configureX5SLES_uses:
  "configureX5SLES e w c = ifRelease ''SLES'' w (do {
     e1 \<leftarrow> saptuneServiceX5 w c;
     case e1 of
       Some x \<Rightarrow> ret (Inl x)
     | None \<Rightarrow> bindE (checkAndRegenerateFile w c (''/etc/saptune/extra/google-'' @ s_name (x5 e) @ ''.conf'') (s_conf (x5 e)))
         (\<lambda>noteRegenerated. do {
           sol \<leftarrow> saptuneSolutionsX5 e w c;
           e2 \<leftarrow> saptuneReapplyX5 e w c (fst sol) (snd sol \<or> noteRegenerated);
           case e2 of
             Some x \<Rightarrow> ret (Inl x)
           | None \<Rightarrow> do {
               e3 \<leftarrow> saptuneVerifyX5 e w c;
               ret (case e3 of Some x \<Rightarrow> Inl x | None \<Rightarrow> Inr (fst sol \<or> (snd sol \<or> noteRegenerated)))
             }
         })
   })"
  unfolding configureX5SLES_def configureSLES_def applySLES_def bindE_def Let_def saptuneServiceX5_def
    saptuneSolutionsX5_def saptuneReapplyX5_def saptuneVerifyX5_def by (rule refl)

definition exitOf :: "ci_args \<Rightarrow> (ci_error, bool) result \<Rightarrow> exit_status \<times> ci_message" where
  "exitOf c r =
     (case r of
        Inl e \<Rightarrow> (ExitFailure, ErrorMessage e)
      | Inr rebootRequired \<Rightarrow>
          (if Check c \<and> rebootRequired then ExitFailure else ExitSuccess, NoMessage))"

definition configureInstanceHandler ::
  "ci_setup \<Rightarrow> ci_world \<Rightarrow> ci_args \<Rightarrow> grub_vars \<Rightarrow> (ci_call, (exit_status \<times> ci_message) \<times> grub_vars) prog" where
  "configureInstanceHandler e w c g =
     (if hasPrefix (MachineType c) ''x4'' then
        (if Describe c then do {
           rules \<leftarrow> describeX4 e w c (grub4 g);
           ret ((ExitSuccess, Described (formatDescribeOutput c ''X4'' rules)), g)
         } else do {
           r \<leftarrow> configureX4 e w c (grub4 g);
           ret (exitOf c (fst r), g\<lparr>grub4 := snd r\<rparr>)
         })
      else if hasPrefix (MachineType c) ''x5'' then
        (if Describe c then do {
           rules \<leftarrow> describeX5 e w c (grub5 g);
           ret ((ExitSuccess, Described (formatDescribeOutput c ''X5'' rules)), g)
         } else do {
           r \<leftarrow> configureX5 e w c (grub5 g);
           ret (exitOf c (fst r), g\<lparr>grub5 := snd r\<rparr>)
         })
      else ret ((ExitUsageError, UsageMachine (MachineType c)), g))"

definition modeCount :: "ci_args \<Rightarrow> nat" where
  "modeCount c = length (filter id [Check c, Apply c, Describe c])"

definition RunConfigure ::
  "ci_setup \<Rightarrow> ci_world \<Rightarrow> string \<Rightarrow> ci_args \<Rightarrow> grub_vars
   \<Rightarrow> (ci_call, (exit_status \<times> ci_message) \<times> grub_vars) prog" where
  "RunConfigure e w machine c0 g =
     (let c = setDefaults c0
      in if modeCount c \<noteq> 1 then ret ((ExitUsageError, UsageMode), g)
         else if Describe c \<and> toLower (Format c) \<notin> {''csv'', ''json''} then ret ((ExitUsageError, UsageFormat), g)
         else if HyperThreading c \<notin> {''default'', ''on'', ''off''} then ret ((ExitUsageError, UsageHyperThreading), g)
         else configureInstanceHandler e w
                (if MachineType c = [] then c\<lparr>MachineType := machine\<rparr> else c) g)"

section \<open>What the subcommand may change\<close>

text \<open>Calls that leave the system as it is: reading files, recording differences and querying the
  state of services and profiles.\<close>

fun read_only :: "ci_call \<Rightarrow> bool" where
  "read_only (ReadPath p) = True"
| "read_only (AddDiff d) = True"
| "read_only (Run exe args t) \<longleftrightarrow>
     exe = ''systemctl'' \<and> (hasPrefix args ''status '' \<or> hasPrefix args ''show '') \<or>
     exe = ''saptune'' \<and> (args = ''status'' \<or> hasPrefix args ''solution verify '' \<or> hasPrefix args ''note verify '') \<or>
     exe = ''tuned-adm'' \<and> (args = ''active'' \<or> args = ''verify'')"
| "read_only _ = False"

lemma ro_addDiffs [calls_rules]: "calls_only read_only (addDiffs ds)"
  by (induction ds) (auto intro!: calls_rules)

lemma ro_commitEdit: "Check c \<Longrightarrow> calls_only read_only (commitEdit w c path s ds)"
  by (auto simp: commitEdit_def intro!: calls_rules)

lemma ro_editFile: "Check c \<Longrightarrow> calls_only read_only (editFile edit w c path args)"
  by (auto simp: editFile_def readOrEmpty_def intro!: calls_rules ro_commitEdit)

lemma ro_checkFile: "Check c \<Longrightarrow> calls_only read_only (checkAndRegenerateFile w c path want)"
  by (auto simp: checkAndRegenerateFile_def intro!: calls_rules ro_commitEdit split: sum.splits read_error.splits)

lemma ro_run [calls_rules]: "read_only (Run exe args (TimeoutSec c)) \<Longrightarrow> calls_only read_only (run w c exe args)"
  by (simp add: run_def calls_rules)

lemma ro_mustRun [calls_rules]:
  "read_only (Run exe args (TimeoutSec c)) \<Longrightarrow> calls_only read_only (mustRun w c exe args)"
  by (auto simp: mustRun_def intro!: calls_rules)

lemma calls_only_ifRelease [calls_rules]:
  "P (ReadPath ''/etc/os-release'') \<Longrightarrow> calls_only P m \<Longrightarrow> calls_only P (ifRelease name w m)"
  by (auto simp: ifRelease_def intro!: calls_rules)

lemma calls_only_osSpecific [calls_rules]: "calls_only P m \<Longrightarrow> calls_only P (osSpecific m)"
  by (auto simp: osSpecific_def intro!: calls_rules)

lemma calls_only_mapProg [calls_rules]: "(\<And>x. calls_only P (f x)) \<Longrightarrow> calls_only P (mapProg f xs)"
  by (induction xs) (auto intro!: calls_rules)

lemma ro_saptune:
  assumes "Check c"
  shows "calls_only read_only (saptuneService w c)"
    and "calls_only read_only (saptuneSolutions s w c)"
    and "calls_only read_only (saptuneReapply s w c a b)"
    and "calls_only read_only (saptuneVerify s w c)"
  using assms
  by (auto simp: saptuneService_def sapconfTakeover_def saptuneStatus_def saptuneSolutions_def
      saptuneReapply_def saptuneVerify_def intro!: calls_rules)

lemma ro_applySLES: "Check c \<Longrightarrow> calls_only read_only (applySLES s w c)"
  unfolding applySLES_def by (intro calls_rules ro_saptune ro_checkFile) auto

lemma ro_tuned:
  assumes "Check c"
  shows "calls_only read_only (tunedService w c)" and "calls_only read_only (tunedReapply s w c a)"
  using assms by (auto simp: tunedService_def tunedReapply_def intro!: calls_rules)

lemma ro_applyRHEL: "Check c \<Longrightarrow> \<not> Apply c \<Longrightarrow> calls_only read_only (applyRHEL s w c)"
  unfolding applyRHEL_def by (intro calls_rules ro_tuned ro_checkFile) auto

lemma ro_advise: "calls_only read_only (transparentHugePageAdvise gq w)"
  by (auto simp: transparentHugePageAdvise_def intro!: calls_rules)

lemma ro_configureSeries:
  assumes "Check c" and "\<not> Apply c"
  shows "calls_only read_only (configureSeries s g w c grub)"
proof -
  have sys: "calls_only read_only (configureSystem s w c)"
    unfolding configureSystem_def checkAndRegenerateLines_def removeLines_def
    by (intro calls_rules ro_editFile ro_checkFile) (use assms in auto)
  have reb: "calls_only read_only (rebuildGrub w c b)" for b
    using assms by (simp add: rebuildGrub_def calls_rules)
  have grub: "calls_only read_only (configureGrub w c x)" for x
    unfolding configureGrub_def checkAndRegenerateLines_def removeValues_def
    by (intro calls_rules ro_editFile reb) (use assms in auto)
  have "calls_only read_only (configureSLES s w c)" "calls_only read_only (configureRHEL s w c)"
    unfolding configureSLES_def configureRHEL_def
    by (intro calls_rules ro_applySLES ro_applyRHEL; use assms in simp)+
  with sys grub show ?thesis
    unfolding configureSeries_def by (intro calls_rules ro_advise) auto
qed

lemma ro_reads: "calls_only read_only (readCurrentLineValue w path key)"
  "calls_only read_only (readCurrentFileContent w path)"
  by (auto simp: readCurrentLineValue_def readCurrentFileContent_def intro!: calls_rules)

lemma ro_confRules: "calls_only read_only (confRules w path sec ls)"
proof (induction ls arbitrary: sec)
  case Nil
  then show ?case by (simp add: calls_rules)
next
  case (Cons l ls)
  show ?case unfolding confRules.simps(2) by (intro calls_rules ro_reads Cons)
qed

lemma ro_describeSeries: "calls_only read_only (describeSeries s g w c grub)"
proof -
  have 1: "calls_only read_only (systemdRules w)" "calls_only read_only (modprobeRules s w)"
    "calls_only read_only (grubRules g w c grub)"
    by (auto simp: systemdRules_def modprobeRules_def grubRules_def Let_def
        intro!: calls_rules ro_reads ro_advise)
  have 2: "calls_only read_only (slesRules s w c)" "calls_only read_only (rhelRules s w c)"
    by (auto simp: slesRules_def rhelRules_def activeState_def Let_def intro!: calls_rules)
  show ?thesis unfolding describeSeries_def by (intro calls_rules 1 2 ro_reads ro_confRules)
qed

lemma setDefaults_modes [simp]:
  "Check (setDefaults c) = Check c" "Apply (setDefaults c) = Apply c" "Describe (setDefaults c) = Describe c"
  by (simp_all add: setDefaults_def Let_def)

section \<open>The boot loader configuration\<close>

text \<open>The boot parameters have been written and the boot loader configuration not yet rebuilt.\<close>

fun isGrubWrite :: "ci_call \<Rightarrow> bool" where
  "isGrubWrite (WritePath p s) \<longleftrightarrow> p = ''/etc/default/grub''"
| "isGrubWrite _ = False"

fun isRebuild :: "ci_call \<Rightarrow> bool" where
  "isRebuild (Run exe args t) \<longleftrightarrow> exe = ''grub2-mkconfig'' \<and> hasPrefix args ''-o /boot/grub2/grub.cfg''"
| "isRebuild _ = False"

definition grub_stale :: "ci_call list \<Rightarrow> bool" where
  "grub_stale log \<longleftrightarrow> (\<exists>c \<in> set (takeWhile (\<lambda>c. \<not> isRebuild c) log). isGrubWrite c)"

lemma grub_stale_append:
  "list_all (\<lambda>c. \<not> isGrubWrite c) new \<Longrightarrow> grub_stale (new @ log) \<Longrightarrow> grub_stale log"
  by (induction new) (auto simp: grub_stale_def split: if_splits)

lemma stale_kept:
  assumes "calls_only (\<lambda>c. \<not> isGrubWrite c) m" and "\<not> grub_stale log"
  shows "wp m (\<lambda>_ log'. \<not> grub_stale log') log"
  by (rule wp_mono [OF calls_onlyD [OF assms(1)]]) (use assms(2) grub_stale_append in blast)

abbreviation noGrub :: "ci_call \<Rightarrow> bool" where
  "noGrub \<equiv> \<lambda>c. \<not> isGrubWrite c"

lemma ng_addDiffs: "calls_only noGrub (addDiffs ds)"
  by (induction ds) (auto intro!: calls_rules)

lemma ng_commitEdit: "path \<noteq> ''/etc/default/grub'' \<Longrightarrow> calls_only noGrub (commitEdit w c path s ds)"
  unfolding commitEdit_def backupAndWriteFile_def by (intro calls_rules ng_addDiffs) auto

lemma ng_editFile: "path \<noteq> ''/etc/default/grub'' \<Longrightarrow> calls_only noGrub (editFile edit w c path args)"
  unfolding editFile_def readOrEmpty_def by (intro calls_rules ng_commitEdit) auto

lemma ng_checkFile: "path \<noteq> ''/etc/default/grub'' \<Longrightarrow> calls_only noGrub (checkAndRegenerateFile w c path want)"
  by (auto simp: checkAndRegenerateFile_def intro!: calls_rules ng_commitEdit split: sum.splits read_error.splits)

lemma ng_run: "calls_only noGrub (run w c exe args)" "calls_only noGrub (mustRun w c exe args)"
  by (auto simp: run_def mustRun_def intro!: calls_rules)

lemma ng_advise: "calls_only noGrub (transparentHugePageAdvise gq w)"
  by (auto simp: transparentHugePageAdvise_def intro!: calls_rules)

lemma ng_system: "calls_only noGrub (configureSystem s w c)"
  unfolding configureSystem_def checkAndRegenerateLines_def removeLines_def
  by (intro calls_rules ng_editFile ng_checkFile ng_run) auto

lemma ng_SLES: "calls_only noGrub (configureSLES s w c)"
  unfolding configureSLES_def applySLES_def saptuneService_def sapconfTakeover_def saptuneStatus_def
    saptuneSolutions_def saptuneReapply_def saptuneVerify_def enableAndStart_def
  by (intro calls_rules ng_run ng_checkFile) auto

lemma ng_RHEL: "calls_only noGrub (configureRHEL s w c)"
  unfolding configureRHEL_def applyRHEL_def tunedService_def tunedReapply_def enableAndStart_def
  by (intro calls_rules ng_run ng_checkFile) auto

text \<open>An edit makes the boot loader configuration stale only if it says so.\<close>

definition flagged :: "ci_args \<Rightarrow> ci_call list \<Rightarrow> (ci_error, bool) result \<Rightarrow> ci_call list \<Rightarrow> bool" where
  "flagged c log r log' \<longleftrightarrow> (grub_stale log' \<longrightarrow> grub_stale log \<or> (\<not> Check c \<and> r \<noteq> Inr False))"

lemma grub_stale_quiet [simp]:
  "grub_stale (ReadPath p # log) = grub_stale log"
  "grub_stale (MkdirPath p # log) = grub_stale log"
  "grub_stale (rev (map AddDiff ds) @ log) = grub_stale log"
proof -
  show "grub_stale (ReadPath p # log) = grub_stale log" "grub_stale (MkdirPath p # log) = grub_stale log"
    by (simp_all add: grub_stale_def)
  show "grub_stale (rev (map AddDiff ds) @ log) = grub_stale log"
    by (induction ds arbitrary: log) (simp_all add: grub_stale_def)
qed

lemma flagged_editFile: "wp (editFile edit w c path args) (flagged c log) log"
  by (auto simp: editFile_def readOrEmpty_def commitEdit_def backupAndWriteFile_def wp_rules flagged_def
      split: sum.splits option.splits read_error.splits prod.splits)

lemma rebuildGrub_fresh:
  "wp (rebuildGrub w c b) (\<lambda>r log'. (\<exists>u. r = Inr u) \<longrightarrow>
     \<not> grub_stale log' \<or> (grub_stale log \<and> (Check c \<or> \<not> b))) log"
  by (auto simp: rebuildGrub_def grubBootLoader_def run_def mustRun_def orFail_def wp_rules grub_stale_def)

lemma configureGrub_fresh:
  assumes "\<not> grub_stale log"
  shows "wp (configureGrub w c grub) (\<lambda>r log'. (\<exists>b. r = Inr b) \<longrightarrow> \<not> grub_stale log') log"
  unfolding configureGrub_def checkAndRegenerateLines_def removeValues_def
proof (rule bindE_wp [OF flagged_editFile], simp, goal_cases)
  case (1 rebootGrub log1)
  have "wp (if HyperThreading c = ''on'' \<and> Apply c
        then editFile editValues w c ''/etc/default/grub'' [''GRUB_CMDLINE_LINUX_DEFAULT=nosmt'']
        else ret (Inr False)) (flagged c log1) log1"
    using flagged_editFile by (auto simp: wp_rules flagged_def)
  then show ?case
  proof (rule bindE_wp, simp, goal_cases)
    case (1 removeNosmt log2)
    show ?case
    proof (rule bindE_wp [OF rebuildGrub_fresh], simp, goal_cases)
      case (1 u log3)
      with \<open>flagged c log1 (Inr removeNosmt) log2\<close> \<open>flagged c log (Inr rebootGrub) log1\<close> assms
      show ?case by (auto simp: flagged_def wp_rules)
    qed
  qed
qed

section \<open>Properties\<close>

text \<open>Without \<open>-apply\<close> the subcommand changes nothing: whatever files and services look like, it
  reads files and queries services and profiles, and neither writes a file, nor creates a
  directory, nor runs a command that changes the system.\<close>

theorem check_and_describe_change_nothing:
  assumes "\<not> Apply c"
  shows "calls_only read_only (RunConfigure e w machine c g)"
proof (cases "modeCount (setDefaults c) = 1")
  case False
  then show ?thesis by (simp add: RunConfigure_def Let_def calls_rules)
next
  case True
  have handler: "calls_only read_only (configureInstanceHandler e w d g)"
    if "\<not> Apply d" "Check d \<or> Describe d" for d
    unfolding configureInstanceHandler_def configureX4_def configureX5_def describeX4_def describeX5_def
    by (intro calls_rules ro_describeSeries ro_configureSeries) (use that in auto)
  have "Check c \<or> Describe c"
    using True assms by (cases "Check c"; cases "Describe c") (simp_all add: modeCount_def)
  then show ?thesis
    unfolding RunConfigure_def Let_def by (intro calls_rules handler) (use assms in auto)
qed

definition checkArgs :: ci_args where
  "checkArgs = \<lparr>Apply = False, Check = True, Describe = False, Format = [], MachineType = ''x4-megamem-960'',
     HyperThreading = [], TimeoutSec = 0\<rparr>"

lemma check_and_describe_change_nothing_witness:
  "\<forall>e w machine g. calls_only read_only (RunConfigure e w machine checkArgs g)"
proof (intro allI)
  fix e w machine g
  show "calls_only read_only (RunConfigure e w machine checkArgs g)"
    by (rule check_and_describe_change_nothing) (simp add: checkArgs_def)
qed

text \<open>C40. The boot loader configuration is never left behind the boot parameters: when configuring a
  machine ends without an error, \<open>grub2-mkconfig\<close> has run after the last write of
  \<open>/etc/default/grub\<close>.\<close>

theorem grub_rebuilt_after_write:
  assumes "\<not> grub_stale log"
  shows "wp (configureSeries s gq w c grub) (\<lambda>(r, _) log'. (\<exists>b. r = Inr b) \<longrightarrow> \<not> grub_stale log') log"
proof -
  have os: "wp (bindE (osSpecific (configureSLES s w c)) (\<lambda>a. bindE (osSpecific (configureRHEL s w c))
      (\<lambda>b. ret (Inr (h a b))))) (\<lambda>_ log'. \<not> grub_stale log') log1" if "\<not> grub_stale log1" for h log1
    by (rule stale_kept [OF _ that]) (intro calls_rules ng_SLES ng_RHEL)
  have grub: "wp (bindE (configureGrub w c x) (\<lambda>rebootGrub. bindE (osSpecific (configureSLES s w c))
      (\<lambda>rebootSLES. bindE (osSpecific (configureRHEL s w c)) (\<lambda>rebootRHEL.
        ret (Inr (rebootSLES \<or> rebootRHEL \<or> rebootSystem \<or> rebootGrub))))))
      (\<lambda>r log'. (\<exists>b. r = Inr b) \<longrightarrow> \<not> grub_stale log') log1" if "\<not> grub_stale log1" for x rebootSystem log1
  proof (rule bindE_wp [OF configureGrub_fresh [OF that]], simp, goal_cases)
    case (1 a log2)
    then have "\<not> grub_stale log2" by simp
    from os [OF this] show ?case by (rule wp_mono) simp
  qed
  show ?thesis
    unfolding configureSeries_def wp_bind
  proof (rule wp_mono [OF stale_kept [OF ng_system assms]], goal_cases)
    case (1 r log1)
    show ?case
    proof (cases r)
      case (Inl e)
      then show ?thesis by (simp add: wp_rules)
    next
      case (Inr b)
      have adv: "wp (transparentHugePageAdvise gq w) (\<lambda>_ log'. \<not> grub_stale log') log1"
        by (rule stale_kept [OF ng_advise 1])
      show ?thesis
        unfolding Inr sum.case wp_bind Let_def
      proof (rule wp_mono [OF adv], goal_cases)
        case (1 a log2)
        from grub [OF 1] show ?case by (rule wp_mono) (simp add: wp_return_fun)
      qed
    qed
  qed
qed

lemma grub_rebuilt_after_write_witness:
  "\<not> grub_stale [WritePath ''/etc/systemd/system.conf'' []] \<and>
   (\<forall>s gq w c grub. wp (configureSeries s gq w c grub)
      (\<lambda>(r, _) log'. (\<exists>b. r = Inr b) \<longrightarrow> \<not> grub_stale log') [WritePath ''/etc/systemd/system.conf'' []])"
proof -
  have "\<not> grub_stale [WritePath ''/etc/systemd/system.conf'' []]" by (simp add: grub_stale_def)
  with grub_rebuilt_after_write [OF this] show ?thesis by blast
qed

text \<open>The wanted boot parameters are a package variable: after an apply with hyper-threading off, a later
  run of the same process still wants \<open>nosmt\<close>, whatever it is asked for, and wants it twice after
  another apply.\<close>

lemma nosmt_wanted_forever:
  "grubWanted applyArgs False (grubWanted (applyArgs\<lparr>HyperThreading := ''off''\<rparr>) False grubLinuxDefault) =
     trimSuffix grubLinuxDefault [chQuote] @ '' nosmt'' @ [chQuote]"
  "grubWanted (applyArgs\<lparr>HyperThreading := ''off''\<rparr>) False
     (grubWanted (applyArgs\<lparr>HyperThreading := ''off''\<rparr>) False grubLinuxDefault) =
     trimSuffix grubLinuxDefault [chQuote] @ '' nosmt nosmt'' @ [chQuote]"
  by code_simp+

end
