(* ===== verification/HanaBackup.thy ===== *)
theory HanaBackup
  imports Commands
begin

text \<open>
  \<open>internal/hanabackup/hanabackup.go\<close>: the operating system side of the disk backup and restore
  workflows. As in the code every operation takes the function \<open>exec\<close> that runs a command; it is a
  program of any kind of call. \<open>shsprintf\<close>, which refuses arguments that are not safe in a shell
  command, is the parameter \<open>safe\<close>, and the JSON decoder of the key file is \<open>decode\<close>.
\<close>

section \<open>Errors\<close>

datatype hb_error =
    ParseBasePathFailed string cmd_result
  | ParseLogicalPathFailed string cmd_result
  | FindmntFailed string cmd_result
  | DeviceMismatch string string string
  | LsblkFailed string cmd_result
  | LvdisplayFailed string cmd_result
  | NoPhysicalDevice string
  | UnmountFailed string cmd_result cmd_result
  | FreezeFailed string cmd_result
  | UnfreezeFailed string cmd_result
  | NotLVM
  | StripesFailed string cmd_result
  | MountPathFailed string cmd_result
  | RescanFailed string cmd_result
  | StopFailed string cmd_result
  | StillRunning string cmd_result
  | IndexServerRunning string cmd_result
  | KeyFileError string
  | BadKeyFile
  | NoKey string string
  | TopologyFailed string string
  | NoInstances string
  | InstanceNumberFailed string cmd_result
  | NoInstanceFound string

section \<open>Commands\<close>

abbreviation chTick :: char where "chTick \<equiv> CHR 0x27"

text \<open>\<open>-c '...'\<close>\<close>

definition shC :: "string \<Rightarrow> string" where
  "shC s = ''-c '' @ [chTick] @ s @ [chTick]"

definition failed :: "cmd_result \<Rightarrow> bool" where
  "failed r \<longleftrightarrow> CmdError r \<noteq> None \<or> StdErr r \<noteq> []"

section \<open>Paths\<close>

definition basePathCmd :: "string \<Rightarrow> string \<Rightarrow> cmd" where
  "basePathCmd pattern sid = CmdSplit ''/bin/sh'' (shC (''grep '' @ pattern @ '' /usr/sap/'' @ sid
     @ ''/SYS/global/hdb/custom/config/global.ini | cut -d= -f 2'')) []"

definition findmntCmd :: "string \<Rightarrow> cmd" where
  "findmntCmd basePath = CmdArgs ''findmnt'' [''-n'', ''--output'', ''SOURCE'', ''--target'', basePath] []"

definition ParseBasePath ::
  "string \<Rightarrow> string \<Rightarrow> (cmd \<Rightarrow> ('c, cmd_result) prog) \<Rightarrow> ('c, (hb_error, string) result) prog" where
  "ParseBasePath pattern sid exec = do {
     r \<leftarrow> exec (basePathCmd pattern sid);
     ret (if failed r then Inl (ParseBasePathFailed pattern r) else Inr (trimSpace (StdOut r)))
   }"

definition ParseLogicalPath ::
  "string \<Rightarrow> (cmd \<Rightarrow> ('c, cmd_result) prog) \<Rightarrow> ('c, (hb_error, string) result) prog" where
  "ParseLogicalPath basePath exec = do {
     r \<leftarrow> exec (CmdSplit ''/bin/sh'' (shC (''df --output=source '' @ basePath @ '' | tail -n 1'')) []);
     if failed r then ret (Inl (ParseLogicalPathFailed basePath r))
     else do {
       let logicalDevice = trimSpace (StdOut r);
       f \<leftarrow> exec (findmntCmd basePath);
       ret (if failed f then Inl (FindmntFailed basePath f)
            else if trimSpace (StdOut f) \<noteq> logicalDevice
            then Inl (DeviceMismatch basePath logicalDevice (trimSpace (StdOut f)))
            else Inr logicalDevice)
     }
   }"

text \<open>The lines of \<open>lsblk\<close> that name a disk.\<close>

definition isDiskLine :: "string \<Rightarrow> bool" where
  "isDiskLine line \<longleftrightarrow> \<not> (contains line ''NAME'' \<or> contains line ''/dev/mapper'' \<or> line = [])"

definition lsblkDevices :: "string \<Rightarrow> string" where
  "lsblkDevices stdout = trimSpace (concat (map (\<lambda>line. line @ [chNL]) (filter isDiskLine (splitOn chNL stdout))))"

definition nonRootMessage :: string where
  "nonRootMessage = ''Running as a non-root user. Functionality may be unavailable.''"

definition ParsePhysicalPath ::
  "string \<Rightarrow> (cmd \<Rightarrow> ('c, cmd_result) prog) \<Rightarrow> ('c, (hb_error, string) result) prog" where
  "ParsePhysicalPath logicalPath exec = do {
     r \<leftarrow> exec (CmdSplit ''/bin/sh'' (shC (''/sbin/lvdisplay -m '' @ logicalPath @ '' | grep '' @ [chQuote]
            @ ''Physical volume'' @ [chQuote] @ '' | awk '' @ [chQuote] @ ''{print '' @ [chBackslash] @ ''$3}''
            @ [chQuote])) []);
     if failed r then
       (if contains (StdErr r) nonRootMessage then do {
          l \<leftarrow> exec (CmdArgs ''/bin/sh''
                 [''-c'', ''lsblk --output NAME --inverse --paths --list '' @ logicalPath] []);
          ret (if failed l then Inl (LsblkFailed logicalPath l)
               else if lsblkDevices (StdOut l) = [] then Inl (NoPhysicalDevice logicalPath)
               else Inr (lsblkDevices (StdOut l)))
        } else ret (Inl (LvdisplayFailed logicalPath r)))
     else ret (if trimSpace (StdOut r) = [] then Inl (NoPhysicalDevice logicalPath)
               else Inr (trimSpace (StdOut r)))
   }"

text \<open>The paths found so far are returned beside the error.\<close>

definition CheckDataDir ::
  "string \<Rightarrow> (cmd \<Rightarrow> ('c, cmd_result) prog) \<Rightarrow> ('c, (string \<times> string \<times> string) \<times> hb_error option) prog" where
  "CheckDataDir sid exec = do {
     d \<leftarrow> ParseBasePath ''basepath_datavolumes'' sid exec;
     case d of
       Inl e \<Rightarrow> ret (([], [], []), Some e)
     | Inr dataPath \<Rightarrow> do {
         l \<leftarrow> ParseLogicalPath dataPath exec;
         case l of
           Inl e \<Rightarrow> ret ((dataPath, [], []), Some e)
         | Inr logical \<Rightarrow>
             if \<not> contains logical ''/dev/mapper'' then ret ((dataPath, [], []), Some NotLVM)
             else do {
               p \<leftarrow> ParsePhysicalPath logical exec;
               ret (case p of
                      Inl e \<Rightarrow> ((dataPath, logical, []), Some e)
                    | Inr physical \<Rightarrow> ((dataPath, logical, physical), None))
             }
       }
   }"

definition CheckLogDir ::
  "string \<Rightarrow> (cmd \<Rightarrow> ('c, cmd_result) prog) \<Rightarrow> ('c, (string \<times> string \<times> string) \<times> hb_error option) prog" where
  "CheckLogDir sid exec = do {
     d \<leftarrow> ParseBasePath ''basepath_logvolumes'' sid exec;
     case d of
       Inl e \<Rightarrow> ret (([], [], []), Some e)
     | Inr baseLogPath \<Rightarrow> do {
         l \<leftarrow> ParseLogicalPath baseLogPath exec;
         case l of
           Inl e \<Rightarrow> ret ((baseLogPath, [], []), Some e)
         | Inr logical \<Rightarrow> do {
             p \<leftarrow> ParsePhysicalPath logical exec;
             ret (case p of
                    Inl e \<Rightarrow> ((baseLogPath, logical, []), Some e)
                  | Inr physical \<Rightarrow> ((baseLogPath, logical, physical), None))
           }
       }
   }"

definition CheckDataDeviceForStripes ::
  "string \<Rightarrow> (cmd \<Rightarrow> ('c, cmd_result) prog) \<Rightarrow> ('c, (hb_error, bool) result) prog" where
  "CheckDataDeviceForStripes logicalDataPath exec = do {
     r \<leftarrow> exec (CmdSplit ''/bin/sh'' ('' '' @ shC (''/sbin/lvdisplay -m '' @ logicalDataPath @ '' | grep Stripes'')) []);
     ret (if failed r then Inl (StripesFailed logicalDataPath r) else Inr (ExitCode r = 0))
   }"

definition ReadDataDirMountPath ::
  "string \<Rightarrow> (cmd \<Rightarrow> ('c, cmd_result) prog) \<Rightarrow> ('c, (hb_error, string) result) prog" where
  "ReadDataDirMountPath baseDataPath exec = do {
     r \<leftarrow> exec (CmdSplit ''bash'' ('' '' @ shC (''df --output=target '' @ baseDataPath @ ''| tail -n 1'')) []);
     ret (if failed r then Inl (MountPathFailed baseDataPath r) else Inr (trimSpace (StdOut r)))
   }"

definition DiskMatches :: "string \<Rightarrow> string \<Rightarrow> bool" where
  "DiskMatches physicalDataPath mapping =
     (let clean = trimSpace (pathBase mapping)
      in if clean = [] \<or> clean = ''.'' \<or> clean = ''/'' then False
         else list_ex (\<lambda>dev. pathBase (trimSpace dev) = clean) (goFields physicalDataPath))"

section \<open>File systems\<close>

definition Unmount ::
  "string \<Rightarrow> (cmd \<Rightarrow> ('c, cmd_result) prog) \<Rightarrow> bool \<Rightarrow> ('c, hb_error option) prog" where
  "Unmount path exec isScaleout = do {
     r \<leftarrow> exec (CmdSplit ''bash'' ('' '' @ shC (''sync;umount -f '' @ path)) []);
     if CmdError r = None \<or> (isScaleout \<and> contains (StdErr r) ''not mounted.'') then ret None
     else do {
       open_refs \<leftarrow> exec (CmdSplit ''bash'' ('' '' @ shC (''lsof | grep '' @ path)) []);
       ret (Some (UnmountFailed path r open_refs))
     }
   }"

definition freezeCmd :: "string \<Rightarrow> cmd" where
  "freezeCmd path = CmdSplit ''/usr/sbin/xfs_freeze'' (''-f '' @ path) []"

definition unfreezeCmd :: "string \<Rightarrow> cmd" where
  "unfreezeCmd path = CmdSplit ''/usr/sbin/xfs_freeze'' (''-u '' @ path) []"

definition FreezeXFS :: "string \<Rightarrow> (cmd \<Rightarrow> ('c, cmd_result) prog) \<Rightarrow> ('c, hb_error option) prog" where
  "FreezeXFS hanaDataPath exec = do {
     r \<leftarrow> exec (freezeCmd hanaDataPath);
     ret (if failed r then Some (FreezeFailed hanaDataPath r) else None)
   }"

definition UnFreezeXFS :: "string \<Rightarrow> (cmd \<Rightarrow> ('c, cmd_result) prog) \<Rightarrow> ('c, hb_error option) prog" where
  "UnFreezeXFS hanaDataPath exec = do {
     r \<leftarrow> exec (unfreezeCmd hanaDataPath);
     ret (if failed r then Some (UnfreezeFailed hanaDataPath r) else None)
   }"

text \<open>The commands of \<open>RescanVolumeGroups\<close>, each of which must succeed; the pause before the last
  is left out.\<close>

definition rescanCommands :: "cmd list" where
  "rescanCommands =
     [CmdSplit ''/sbin/dmsetup'' ''remove_all'' [], CmdSplit ''/sbin/vgscan'' ''--mknodes'' [],
      CmdSplit ''/sbin/vgchange'' ''-ay'' [], CmdArgs ''/sbin/lvscan'' [] [], CmdSplit ''mount'' ''-av'' []]"

fun cmdExecutable :: "cmd \<Rightarrow> string" where
  "cmdExecutable (CmdArgs x _ _) = x"
| "cmdExecutable (CmdSplit x _ _) = x"

primrec runAll :: "(cmd \<Rightarrow> ('c, cmd_result) prog) \<Rightarrow> cmd list \<Rightarrow> ('c, hb_error option) prog" where
  "runAll exec [] = ret None"
| "runAll exec (x # xs) = do {
     r \<leftarrow> exec x;
     if failed r then ret (Some (RescanFailed (cmdExecutable x) r)) else runAll exec xs
   }"

definition RescanVolumeGroups :: "(cmd \<Rightarrow> ('c, cmd_result) prog) \<Rightarrow> ('c, hb_error option) prog" where
  "RescanVolumeGroups exec = runAll exec rescanCommands"

section \<open>Stopping HANA\<close>

definition stopCmd :: "bool \<Rightarrow> string \<Rightarrow> string \<Rightarrow> cmd" where
  "stopCmd force user sid =
     CmdSplit ''bash'' (shC (''source /usr/sap/'' @ sid @ ''/home/.sapenv.sh && /usr/sap/'' @ sid
       @ (if force then ''/*/HDB stop'' else ''/*/HDB kill''))) user"

definition psFormat :: string where
  "psFormat = shC (''ps -U %sadm -o comm | grep -E '' @ [chQuote] @ ''hdbdaemon|hdb.sap'' @ [chQuote]
     @ '' | grep -v defunct'')"

definition StopHANA ::
  "(string \<Rightarrow> string \<Rightarrow> string option) \<Rightarrow> bool \<Rightarrow> string \<Rightarrow> string \<Rightarrow> (cmd \<Rightarrow> ('c, cmd_result) prog)
   \<Rightarrow> ('c, hb_error option) prog" where
  "StopHANA safe force user sid exec = do {
     r \<leftarrow> exec (stopCmd force user sid);
     if \<not> failed r then ret None
     else if \<not> contains (StdErr r) ''No such process'' then ret (Some (StopFailed sid r))
     else
       (case safe psFormat (toLower sid) of
          None \<Rightarrow> ret (Some (StopFailed sid r))
        | Some ps \<Rightarrow> do {
            check \<leftarrow> exec (CmdSplit ''bash'' ps user);
            ret (if StdOut check \<noteq> [] \<or> StdErr check \<noteq> [] then Some (StillRunning sid r) else None)
          })
   }"

definition indexServerCmd :: "string \<Rightarrow> cmd" where
  "indexServerCmd user = CmdSplit ''bash'' (shC ''ps x | grep hdbindexs | grep -v grep'') user"

definition waitForIndexServerToStop ::
  "string \<Rightarrow> (cmd \<Rightarrow> ('c, cmd_result) prog) \<Rightarrow> ('c, hb_error option) prog" where
  "waitForIndexServerToStop user exec = do {
     r \<leftarrow> exec (indexServerCmd user);
     ret (if ExitCode r = 0 then Some (IndexServerRunning user r) else None)
   }"

text \<open>\<open>backoff.Retry\<close> with a constant pause and \<open>n\<close> retries.\<close>

primrec retry :: "nat \<Rightarrow> ('c, 'e option) prog \<Rightarrow> ('c, 'e option) prog" where
  "retry 0 op = op"
| "retry (Suc n) op = do {
     e \<leftarrow> op;
     case e of None \<Rightarrow> ret None | Some _ \<Rightarrow> retry n op
   }"

definition WaitForIndexServerToStopWithRetry ::
  "string \<Rightarrow> (cmd \<Rightarrow> ('c, cmd_result) prog) \<Rightarrow> ('c, hb_error option) prog" where
  "WaitForIndexServerToStopWithRetry user exec = retry 90 (waitForIndexServerToStop user exec)"

section \<open>Encryption keys\<close>

record key_entry =
  URI :: string
  Key :: string
  KeyType :: string

fun computeResourcePath :: "string \<Rightarrow> string" where
  "computeResourcePath [] = []"
| "computeResourcePath (c # s) = (if hasPrefix (c # s) ''projects/'' then c # s else computeResourcePath s)"

definition ReadKey ::
  "(string \<Rightarrow> key_entry list option) \<Rightarrow> (string, string) result \<Rightarrow> string \<Rightarrow> string \<Rightarrow> (hb_error, string) result" where
  "ReadKey decode contents file diskURI =
     (case contents of
        Inl e \<Rightarrow> Inl (KeyFileError e)
      | Inr s \<Rightarrow>
          (case decode s of
             None \<Rightarrow> Inl BadKeyFile
           | Some keys \<Rightarrow>
               (case find (\<lambda>k. URI k = diskURI) keys of
                  Some k \<Rightarrow> Inr (Key k)
                | None \<Rightarrow>
                    (let wantPath = computeResourcePath diskURI
                     in if wantPath = [] then Inl (NoKey diskURI file)
                        else (case find (\<lambda>k. computeResourcePath (URI k) = wantPath) keys of
                                Some k \<Rightarrow> Inr (Key k)
                              | None \<Rightarrow> Inl (NoKey diskURI file))))))"

section \<open>Topology\<close>

definition isAlpha :: "char \<Rightarrow> bool" where
  "isAlpha c \<longleftrightarrow> (65 \<le> codeOf c \<and> codeOf c \<le> 90) \<or> (97 \<le> codeOf c \<and> codeOf c \<le> 122)"

definition isSidText :: "string \<Rightarrow> bool" where
  "isSidText s \<longleftrightarrow> length s = 3 \<and> 65 \<le> codeOf (s ! 0) \<and> codeOf (s ! 0) \<le> 90 \<and>
     list_all (\<lambda>c. isDigit c \<or> (65 \<le> codeOf c \<and> codeOf c \<le> 90)) s"

text \<open>\<open>/profile/SID_NAMEnn\<close>: the digits.\<close>

definition profileAt :: "string \<Rightarrow> string option" where
  "profileAt s =
     (if hasPrefix s ''/profile/'' \<and> isSidText (take 3 (drop 9 s)) \<and> hasPrefix (drop 12 s) ''_'' then
        let r = drop 13 s; letters = takeWhile isAlpha r; digits = takeWhile isDigit (dropWhile isAlpha r)
        in if letters \<noteq> [] \<and> digits \<noteq> [] then Some digits else None
      else None)"

text \<open>The directories between the system ID and the profile: the longest run that leaves a match.\<close>

fun lastProfile :: "string \<Rightarrow> string option" where
  "lastProfile [] = None"
| "lastProfile (c # s) =
     (if c = chSlash \<or> isAlpha c \<or> isDigit c then
        (case lastProfile s of Some d \<Rightarrow> Some d | None \<Rightarrow> profileAt (c # s))
      else profileAt (c # s))"

text \<open>The instance number, the fifth group of \<open>sapServicesStartsrvPattern\<close>.\<close>

definition startsrvAt :: "string \<Rightarrow> string option" where
  "startsrvAt s =
     (let p = ''sapstartsrv pf=/''; r = drop (length p) s;
          after = (if hasPrefix r ''usr/sap/'' then drop 8 r else drop 7 r)
      in if hasPrefix s p \<and> (hasPrefix r ''usr/sap/'' \<or> hasPrefix r ''sapmnt/'') \<and> isSidText (take 3 after)
         then lastProfile (drop 3 after) else None)"

definition getInstanceNumber ::
  "(cmd \<Rightarrow> ('c, cmd_result) prog) \<Rightarrow> string \<Rightarrow> ('c, (hb_error, string) result) prog" where
  "getInstanceNumber exec sid = do {
     r \<leftarrow> exec (CmdSplit ''grep'' ([chTick] @ ''pf=/usr/sap/'' @ sid @ [chTick] @ '' /usr/sap/sapservices'') []);
     ret (if failed r then Inl (InstanceNumberFailed sid r)
          else case findMatch startsrvAt (StdOut r) of
                 None \<Rightarrow> Inl (NoInstanceFound sid)
               | Some n \<Rightarrow> Inr n)
   }"

definition topologyCmd :: "string \<Rightarrow> bool \<Rightarrow> string \<Rightarrow> cmd" where
  "topologyCmd sid isSidadmUser instanceNumber =
     (if isSidadmUser
      then CmdArgs ''sapcontrol'' [''-nr'', instanceNumber, ''-function'', ''GetSystemInstanceList''] []
      else CmdArgs ''sudo'' [''-i'', ''-u'', toLower sid @ ''adm'', ''sapcontrol'', ''-nr'', instanceNumber,
                             ''-function'', ''GetSystemInstanceList''] [])"

definition CheckTopology ::
  "(cmd \<Rightarrow> ('c, cmd_result) prog) \<Rightarrow> string \<Rightarrow> bool \<Rightarrow> string \<Rightarrow> ('c, (hb_error, bool) result) prog" where
  "CheckTopology exec sid isSidadmUser instanceNumber = do {
     n \<leftarrow> (if instanceNumber = [] then getInstanceNumber exec sid else ret (Inr instanceNumber));
     case n of
       Inl e \<Rightarrow> ret (Inl e)
     | Inr nr \<Rightarrow> do {
         r \<leftarrow> exec (topologyCmd sid isSidadmUser nr);
         ret (case CmdError r of
                Some e \<Rightarrow> Inl (TopologyFailed sid e)
              | None \<Rightarrow>
                  (let n = length (splitOn chNL (StdOut r))
                   in if n = 7 then Inr False else if n > 7 then Inr True else Inl (NoInstances sid)))
       }
   }"

section \<open>Lemmas\<close>

text \<open>What a run of commands in an environment answered.\<close>

definition answered :: "(cmd, cmd_result) env \<Rightarrow> cmd list \<Rightarrow> cmd \<Rightarrow> (cmd_result \<Rightarrow> bool) \<Rightarrow> bool" where
  "answered env log c P \<longleftrightarrow> (\<exists>new log1. log = new @ c # log1 \<and> P (env log1 c))"

lemma answeredI: "P (env log c) \<Longrightarrow> answered env (c # log) c P"
  unfolding answered_def by (rule exI [of _ "[]"]) auto

lemma answered_Cons: "answered env log c P \<Longrightarrow> answered env (d # log) c P"
  unfolding answered_def by (metis append_Cons)

lemma wp_ParseLogicalPath:
  "wp (ParseLogicalPath base (call env))
     (\<lambda>r log'. \<forall>l. r = Inr l \<longrightarrow>
        answered env log' (findmntCmd base)
          (\<lambda>a. \<not> failed a \<and> trimSpace (StdOut a) = l)) log"
  by (auto simp: ParseLogicalPath_def wp_rules Let_def intro!: answeredI)

lemma wp_ParsePhysicalPath:
  "wp (ParsePhysicalPath logical (call env))
     (\<lambda>r log'. (\<forall>p. r = Inr p \<longrightarrow> p \<noteq> []) \<and> (\<forall>c P. answered env log c P \<longrightarrow> answered env log' c P)) log"
  by (auto simp: ParsePhysicalPath_def wp_rules intro: answered_Cons)

lemma wp_ParseBasePath: "wp (ParseBasePath pat sid (call env)) Q log =
  Q (if failed (env log (basePathCmd pat sid)) then Inl (ParseBasePathFailed pat (env log (basePathCmd pat sid)))
     else Inr (trimSpace (StdOut (env log (basePathCmd pat sid))))) (basePathCmd pat sid # log)"
  by (simp add: ParseBasePath_def wp_rules)

lemma retry_calls:
  assumes "\<And>log. wp op (\<lambda>e log'. log' = c # log \<and> (e = None \<longleftrightarrow> good log)) log"
  shows "wp (retry n op)
    (\<lambda>e log'. \<exists>k \<le> n. log' = replicate (Suc k) c @ log \<and> (\<forall>j < k. \<not> good (replicate j c @ log)) \<and>
       (e = None \<longleftrightarrow> good (replicate k c @ log)) \<and> (e \<noteq> None \<longrightarrow> k = n)) log"
proof (induction n arbitrary: log)
  case 0
  show ?case unfolding retry.simps(1) by (rule wp_mono [OF assms]) simp
next
  case (Suc n)
  have rep: "replicate j c @ c # log = replicate (Suc j) c @ log" for j
    by (simp add: replicate_app_Cons_same)
  show ?case
    unfolding retry.simps(2) wp_bind wp_case_option
  proof (rule wp_mono [OF assms], goal_cases)
    case (1 e log1)
    show ?case
    proof (cases e)
      case None
      with 1 show ?thesis by (auto simp: wp_return intro!: exI [of _ 0])
    next
      case (Some x)
      with 1 have log1: "log1 = c # log" and bad: "\<not> good log" by auto
      have "wp (retry n op) (\<lambda>e log'. \<exists>k \<le> Suc n. log' = replicate (Suc k) c @ log \<and>
          (\<forall>j < k. \<not> good (replicate j c @ log)) \<and> (e = None \<longleftrightarrow> good (replicate k c @ log)) \<and>
          (e \<noteq> None \<longrightarrow> k = Suc n)) (c # log)"
      proof (rule wp_mono [OF Suc.IH], elim exE conjE, goal_cases)
        case (1 e2 log2 k)
        have "\<not> good (replicate j c @ log)" if "j < Suc k" for j
          using that bad 1(3) rep by (cases j) auto
        with 1 show ?case by (intro exI [of _ "Suc k"]) (auto simp: rep)
      qed
      with Some log1 show ?thesis by simp
    qed
  qed
qed

text \<open>What a check of the data directory establishes; the outcome is the three paths and the error.\<close>

definition dataDirChecked ::
  "(cmd, cmd_result) env \<Rightarrow> (string \<times> string \<times> string) \<times> hb_error option \<Rightarrow> cmd list \<Rightarrow> bool" where
  "dataDirChecked env out log \<longleftrightarrow>
     (case out of ((dataPath, logical, physical), err) \<Rightarrow>
        (err = None \<longrightarrow> contains logical ''/dev/mapper'' \<and> physical \<noteq> [] \<and>
           answered env log (findmntCmd dataPath) (\<lambda>a. \<not> failed a \<and> trimSpace (StdOut a) = logical)) \<and>
        (err \<noteq> None \<longrightarrow> physical = []))"

section \<open>Properties\<close>

text \<open>The data directory check of a backup succeeds only for a directory whose file system, as
  \<open>findmnt\<close> confirms, is a logical volume, and only with at least one physical volume; with an
  error the physical path is empty.\<close>

theorem CheckDataDir_sound: "wp (CheckDataDir sid (call env)) (dataDirChecked env) log"
proof -
  have physical: "wp (ParsePhysicalPath l (call env)) (\<lambda>p. wp (ret (case p of
        Inl e \<Rightarrow> ((d, l, []), Some e) | Inr physical \<Rightarrow> ((d, l, physical), None))) (dataDirChecked env)) log1"
    if "contains l ''/dev/mapper''" and "answered env log1 (findmntCmd d)
        (\<lambda>a. \<not> failed a \<and> trimSpace (StdOut a) = l)" for d l log1
    by (rule wp_mono [OF wp_ParsePhysicalPath])
       (use that in \<open>auto simp: wp_return dataDirChecked_def split: sum.splits\<close>)
  have logical: "wp (ParseLogicalPath d (call env) \<bind> (\<lambda>r. case r of
        Inl e \<Rightarrow> ret ((d, [], []), Some e)
      | Inr logical \<Rightarrow>
          if \<not> contains logical ''/dev/mapper'' then ret ((d, [], []), Some NotLVM)
          else do {
            p \<leftarrow> ParsePhysicalPath logical (call env);
            ret (case p of
                   Inl e \<Rightarrow> ((d, logical, []), Some e)
                 | Inr physical \<Rightarrow> ((d, logical, physical), None))
          })) (dataDirChecked env) log1" for d log1
    unfolding wp_bind by (rule wp_mono [OF wp_ParseLogicalPath])
       (auto simp: wp_return wp_case_sum wp_bind dataDirChecked_def [of env "((d, x, []), Some e)" for x e]
         intro!: physical split: sum.splits)
  show ?thesis
    unfolding CheckDataDir_def wp_bind wp_ParseBasePath
    by (auto simp: wp_return dataDirChecked_def intro: logical)
qed

definition lvmAnswers :: "(cmd, cmd_result) env" where
  "lvmAnswers log c =
     (case c of
        CmdArgs x args u \<Rightarrow> okResult ''/dev/mapper/vg-data''
      | CmdSplit x s u \<Rightarrow> if contains s ''lvdisplay'' then okResult ''/dev/sdb''
                         else if contains s ''df'' then okResult ''/dev/mapper/vg-data'' else okResult ''/hana/data'')"

lemma CheckDataDir_sound_witness:
  "fst (run_state (CheckDataDir ''HDB'' (call lvmAnswers)) []) =
     ((''/hana/data'', ''/dev/mapper/vg-data'', ''/dev/sdb''), None) \<and>
   answered lvmAnswers (snd (run_state (CheckDataDir ''HDB'' (call lvmAnswers)) []))
     (findmntCmd ''/hana/data'')
     (\<lambda>a. \<not> failed a \<and> trimSpace (StdOut a) = ''/dev/mapper/vg-data'')"
proof -
  have r: "fst (run_state (CheckDataDir ''HDB'' (call lvmAnswers)) []) =
     ((''/hana/data'', ''/dev/mapper/vg-data'', ''/dev/sdb''), None)" by code_simp
  with CheckDataDir_sound [of "''HDB''" lvmAnswers "[]"] show ?thesis
    by (auto simp: wp_def dataDirChecked_def split: prod.splits)
qed

text \<open>Waiting for the index server runs the check at most 91 times, once more after each check that
  still saw the process and never after one that did not, and fails only when all 91 saw it.\<close>

theorem WaitForIndexServer_bounded:
  "wp (WaitForIndexServerToStopWithRetry user (call env))
     (\<lambda>e log'. \<exists>k \<le> 90. log' = replicate (Suc k) (indexServerCmd user) @ log \<and>
        (\<forall>j < k. ExitCode (env (replicate j (indexServerCmd user) @ log)
            (indexServerCmd user)) = 0) \<and>
        (e = None \<longleftrightarrow> ExitCode (env (replicate k (indexServerCmd user) @ log)
            (indexServerCmd user)) \<noteq> 0) \<and>
        (e \<noteq> None \<longrightarrow> k = 90)) log"
  using retry_calls [of "waitForIndexServerToStop user (call env)"
      "indexServerCmd user"
      "\<lambda>log. ExitCode (env log (indexServerCmd user)) \<noteq> 0" 90 log]
  unfolding WaitForIndexServerToStopWithRetry_def
  by (simp add: waitForIndexServerToStop_def wp_rules)

lemma WaitForIndexServer_bounded_witness:
  "run_state (WaitForIndexServerToStopWithRetry ''hdbadm'' (call (\<lambda>_ _. failResult [] 1))) [] =
     (None, [indexServerCmd ''hdbadm''])"
  using WaitForIndexServer_bounded [of "''hdbadm''" "\<lambda>_ _. failResult [] 1" "[]"]
  by (auto simp: wp_def failResult_def split: prod.splits dest: spec [of _ 0])

text \<open>Stopping HANA by force runs \<open>HDB stop\<close>, and stopping it normally runs \<open>HDB kill\<close>: the two are
  swapped, although the flag \<open>-force-stop-hana\<close> is documented as using \<open>HDB kill\<close>.\<close>

lemma stop_and_kill_swapped:
  "stopCmd True user sid = CmdSplit ''bash'' (shC (''source /usr/sap/'' @ sid @ ''/home/.sapenv.sh && /usr/sap/''
     @ sid @ ''/*/HDB stop'')) user"
  "stopCmd False user sid = CmdSplit ''bash'' (shC (''source /usr/sap/'' @ sid @ ''/home/.sapenv.sh && /usr/sap/''
     @ sid @ ''/*/HDB kill'')) user"
  by (simp_all add: stopCmd_def)

end
