(* ===== verification/SnapshotArgs.thy ===== *)
theory SnapshotArgs
  imports HanaBackup "HOL-Library.List_Lexorder" "HOL-Library.Char_ord" "HOL-Library.AList"
begin

text \<open>
  The arguments and the state of \<open>hanadiskbackup\<close> (\<open>internal/onetime/hanadiskbackup\<close>), their
  validation, and the names and labels of the snapshots. A Go map of labels is an association list
  with one entry per key. SHA-224 and the version of the agent are parameters.
\<close>

section \<open>State\<close>

text \<open>\<open>Snapshot\<close>, without the services, the monitoring and the options of the logger.\<close>

record snapshot =
  Project :: string
  Port :: string
  Sid :: string
  HanaSidAdm :: string
  InstanceID :: string
  HanaDBUser :: string
  Password :: string
  PasswordSecret :: string
  HDBUserstoreKey :: string
  Disk :: string
  Disks :: string
  DiskZone :: string
  DiskKeyFile :: string
  StorageLocation :: string
  SnapshotName :: string
  SnapshotType :: string
  Description :: string
  AbandonPrepared :: bool
  FreezeFileSystem :: bool
  ConfirmDataSnapshotAfterCreate :: bool
  SnapshotPrefix :: string
  GroupSnapshotName :: string
  disks :: "string list"
  SkipDBSnapshotForChangeDiskType :: bool
  hanaDataPath :: string
  logicalDataPath :: string
  physicalDataPath :: string
  Labels :: string
  cgName :: string
  groupSnapshot :: bool
  sidadmUser :: bool
  provisionedIops :: int
  provisionedThroughput :: int
  UseSnapshotGroupWorkflow :: bool

record cloud_properties =
  ProjectId :: string
  Zone :: string
  InstanceName :: string

datatype disk_error =
    Hana hb_error
  | DbError string
  | NoSnapshotId
  | AlreadyPrepared
  | AttachCheckFailed string string
  | NotAttached string
  | GceError string
  | CreateFailed string disk_error
  | UploadFailed string
  | BadZone string
  | NoComputeService
  | NotInUse string
  | CGMismatch string string "string list" string
  | NoConsistencyGroup string
  | NoSnapshotsInGroup string
  | LabelsFailed string string
  | BadVersion string
  | UsageError string

section \<open>Versions\<close>

definition compareVersions :: "string \<Rightarrow> string \<Rightarrow> (disk_error, bool) result" where
  "compareVersions version1 version2 =
     (let v1 = splitOn CHR ''.'' version1; v2 = splitOn CHR ''.'' version2
      in if length v1 \<noteq> 2 \<or> length v2 \<noteq> 2 then Inl (BadVersion version1)
         else case (parseInt64 (v1 ! 0), parseInt64 (v1 ! 1)) of
                (Some major1, Some minor1) \<Rightarrow>
                  (case (parseInt64 (v2 ! 0), parseInt64 (v2 ! 1)) of
                     (Some major2, Some minor2) \<Rightarrow>
                       Inr (if major1 < major2 then True
                            else if major1 > major2 then False
                            else minor1 < minor2)
                   | _ \<Rightarrow> Inl (BadVersion version2))
              | _ \<Rightarrow> Inl (BadVersion version1))"

section \<open>Validation\<close>

definition isNameChar :: "char \<Rightarrow> bool" where
  "isNameChar c \<longleftrightarrow> c = CHR ''-'' \<or> isDigit c \<or> (97 \<le> codeOf c \<and> codeOf c \<le> 122)"

text \<open>\<open>snapshotNameRegex\<close>\<close>

definition validSnapshotName :: "string \<Rightarrow> bool" where
  "validSnapshotName s \<longleftrightarrow>
     s \<noteq> [] \<and> length s \<le> 63 \<and> 97 \<le> codeOf (hd s) \<and> codeOf (hd s) \<le> 122 \<and>
     list_all isNameChar s \<and> last s \<noteq> CHR ''-''"

definition portValue :: "snapshot \<Rightarrow> string" where
  "portValue s = (if Port s = [] then ''3'' @ InstanceID s @ ''13'' else Port s)"

text \<open>The values that default to the instance the agent runs on.\<close>

definition completeParameters :: "cloud_properties \<Rightarrow> snapshot \<Rightarrow> snapshot" where
  "completeParameters cp s =
     (let s1 = (if Project s = [] then s\<lparr>Project := ProjectId cp\<rparr> else s);
          s2 = (if DiskZone s1 = [] then s1\<lparr>DiskZone := Zone cp\<rparr> else s1);
          s3 = (if Description s2 = []
                then s2\<lparr>Description := ''Snapshot created by Agent for SAP for HANA sid: '' @ quote (Sid s2)\<rparr>
                else s2)
      in s3\<lparr>Port := portValue s3\<rparr>)"

definition validateParameters :: "string \<Rightarrow> cloud_properties \<Rightarrow> snapshot \<Rightarrow> (disk_error, snapshot) result" where
  "validateParameters os cp s0 =
     (let s = s0\<lparr>Sid := toUpper (Sid s0)\<rparr>
      in if SkipDBSnapshotForChangeDiskType s then Inr s
         else if os = ''windows'' then Inl (UsageError ''os'')
         else if Sid s = [] then Inl (UsageError ''sid'')
         else if HDBUserstoreKey s = [] \<and> HanaDBUser s = [] then Inl (UsageError ''hana-db-user'')
         else if HDBUserstoreKey s = [] \<and> Port s = [] \<and> InstanceID s = [] then Inl (UsageError ''port'')
         else if HDBUserstoreKey s = [] \<and> Password s = [] \<and> PasswordSecret s = []
         then Inl (UsageError ''password'')
         else if SnapshotType s \<noteq> ''STANDARD'' \<and> SnapshotType s \<noteq> ''ARCHIVE'' then Inl (UsageError ''snapshot-type'')
         else
           let s1 = completeParameters cp s
           in if SnapshotName s1 \<noteq> [] \<and> \<not> validSnapshotName (SnapshotName s1) then Inl (UsageError ''snapshot-name'')
              else if GroupSnapshotName s1 \<noteq> [] \<and> \<not> validSnapshotName (GroupSnapshotName s1)
              then Inl (UsageError ''group-snapshot-name'')
              else Inr s1)"

definition validateUser :: "int \<Rightarrow> (string, string) result \<Rightarrow> snapshot \<Rightarrow> (disk_error, snapshot) result" where
  "validateUser euid user s0 =
     (let s = s0\<lparr>HanaSidAdm := toLower (Sid s0) @ ''adm''\<rparr>
      in if euid = 0 then Inr (s\<lparr>sidadmUser := False\<rparr>)
         else case user of
                Inl e \<Rightarrow> Inl (UsageError e)
              | Inr name \<Rightarrow> Inr (s\<lparr>sidadmUser := (name = HanaSidAdm s)\<rparr>))"

section \<open>Names\<close>

text \<open>\<open>stamp\<close> is the present time as the code formats it.\<close>

definition updateSnapshotName :: "string \<Rightarrow> snapshot \<Rightarrow> snapshot" where
  "updateSnapshotName stamp s =
     (if (groupSnapshot s \<and> GroupSnapshotName s \<noteq> []) \<or> (\<not> groupSnapshot s \<and> SnapshotName s \<noteq> []) then s
      else
        let p = (if groupSnapshot s then ''group-snapshot'' else ''snapshot'');
            p' = (if SnapshotPrefix s \<noteq> [] then SnapshotPrefix s else p);
            suffix = (if \<not> groupSnapshot s then Disk s else cgName s);
            name = take 63 (toLower (p' @ ''-'' @ stamp @ ''-'' @ suffix))
        in if groupSnapshot s then s\<lparr>GroupSnapshotName := trimSuffix name ''-''\<rparr>
           else s\<lparr>SnapshotName := trimSuffix name ''-''\<rparr>)"

text \<open>The name of the snapshot of one disk of a group. Cutting the name to a negative length, which
  panics in Go, needs a type of snapshot that validation refuses.\<close>

definition nameSuffix :: "string \<Rightarrow> string \<Rightarrow> string" where
  "nameSuffix snapshotType stamp = ''-'' @ stamp @ ''-'' @ toLower snapshotType"

definition createSnapshotName :: "snapshot \<Rightarrow> string \<Rightarrow> string \<Rightarrow> string" where
  "createSnapshotName s instantSnapshotName stamp =
     (let suffix = nameSuffix (SnapshotType s) stamp
      in take (63 - length suffix) instantSnapshotName @ suffix)"

definition truncate :: "string \<Rightarrow> nat \<Rightarrow> string" where
  "truncate s n = take n s"

section \<open>Labels\<close>

type_synonym labels = "(string \<times> string) list"

definition agentPrefix :: string where "agentPrefix = ''goog-sapagent''"

definition generateSHA :: "(string \<Rightarrow> string) \<Rightarrow> labels \<Rightarrow> string" where
  "generateSHA sha224 ls =
     sha224 (concat (map (\<lambda>k. k @ (case map_of ls k of Some v \<Rightarrow> v | None \<Rightarrow> []))
       (sort (map fst (filter (\<lambda>(k, _). hasPrefix k agentPrefix) ls)))))"

definition regionOf :: "string \<Rightarrow> string" where
  "regionOf zone = joinWith ''-'' (butlast (splitOn CHR ''-'' zone))"

definition createGroupBackupLabels ::
  "(string \<Rightarrow> string) \<Rightarrow> string \<Rightarrow> int \<Rightarrow> snapshot \<Rightarrow> string \<Rightarrow> string \<Rightarrow> labels" where
  "createGroupBackupLabels sha224 agentVersion now s disk instanceName =
     (if \<not> groupSnapshot s then
        (if provisionedIops s \<noteq> 0
         then [(''goog-sapagent-provisioned-iops'', intStr (provisionedIops s))] else [])
        @ (if provisionedThroughput s \<noteq> 0
           then [(''goog-sapagent-provisioned-throughput'', intStr (provisionedThroughput s))] else [])
      else
        let cg = regionOf (DiskZone s) @ ''-'' @ cgName s;
            ls = [(''goog-sapagent-version'', replaceAll agentVersion ''.'' ''_''),
                  (''goog-sapagent-isg'', truncate (GroupSnapshotName s) 63),
                  (''goog-sapagent-cgpath'', if length cg > 63 then truncate (cgName s) 63 else cg)]
                 @ (if disk \<noteq> [] then [(''goog-sapagent-disk-name'', truncate disk 63)] else [])
                 @ (if instanceName \<noteq> [] then [(''goog-sapagent-instance-name'', truncate instanceName 63)] else [])
                 @ [(''goog-sapagent-timestamp'', intStr now)]
        in ls @ [(''goog-sapagent-sha224'', generateSHA sha224 ls)])"

definition addLabel :: "string \<Rightarrow> labels \<Rightarrow> labels" where
  "addLabel label ls =
     (let sp = splitOn CHR ''='' label in if length sp = 2 then AList.update (sp ! 0) (sp ! 1) ls else ls)"

definition parseLabels :: "(string \<Rightarrow> string) \<Rightarrow> string \<Rightarrow> int \<Rightarrow> snapshot \<Rightarrow> string \<Rightarrow> string \<Rightarrow> labels" where
  "parseLabels sha224 agentVersion now s disk instanceName =
     (let ls = createGroupBackupLabels sha224 agentVersion now s disk instanceName
      in if Labels s \<noteq> [] then fold addLabel (splitOn CHR '','' (Labels s)) ls else ls)"

section \<open>Consistency groups\<close>

text \<open>The name after the last path element \<open>resourcePolicies\<close> is missing; the first other one counts.\<close>

fun afterPolicies :: "string list \<Rightarrow> string option" where
  "afterPolicies (p # q # ps) = (if p = ''resourcePolicies'' then Some q else afterPolicies (q # ps))"
| "afterPolicies _ = None"

fun cgPath :: "string list \<Rightarrow> string" where
  "cgPath [] = []"
| "cgPath (policyLink # rest) =
     (case afterPolicies (splitOn chSlash policyLink) of Some cg \<Rightarrow> cg | None \<Rightarrow> cgPath rest)"

end
