(* ===== verification/DiskBackup.thy ===== *)
theory DiskBackup
  imports SnapshotArgs
begin

text \<open>
  The workflows of \<open>hanadiskbackup\<close> (\<open>hanadiskbackup.go\<close>, \<open>singledisk.go\<close>, \<open>multidisk.go\<close>,
  \<open>hanautils.go\<close>): a HANA data snapshot is created, the disks are snapshotted while the file system
  is frozen, and the HANA snapshot is closed. Compute Engine, its snapshot services, the database,
  the operating system and the clock are calls of the environment. Usage metrics, monitoring and
  logging are left out.
\<close>

section \<open>Calls\<close>

text \<open>The statements sent to HANA.\<close>

datatype hana_query =
    CreateSnap string
  | ReadPrepared
  | CloseSuccessful string string
  | CloseUnsuccessful string

fun queryText :: "hana_query \<Rightarrow> string" where
  "queryText (CreateSnap name) = ''BACKUP DATA FOR FULL SYSTEM CREATE SNAPSHOT COMMENT '' @ [chTick] @ name @ [chTick]"
| "queryText ReadPrepared =
     ''SELECT BACKUP_ID FROM M_BACKUP_CATALOG WHERE ENTRY_TYPE_NAME = '' @ [chTick] @ ''data snapshot'' @ [chTick]
     @ '' AND STATE_NAME = '' @ [chTick] @ ''prepared'' @ [chTick]"
| "queryText (CloseSuccessful snapshotID name) =
     ''BACKUP DATA FOR FULL SYSTEM CLOSE SNAPSHOT BACKUP_ID '' @ snapshotID @ '' SUCCESSFUL '' @ [chTick] @ name @ [chTick]"
| "queryText (CloseUnsuccessful snapshotID) =
     ''BACKUP DATA FOR FULL SYSTEM CLOSE SNAPSHOT BACKUP_ID '' @ snapshotID @ '' UNSUCCESSFUL''"

text \<open>\<open>compute.Snapshot\<close>: what the code fills in.\<close>

record snapshot_request =
  sr_name :: string
  sr_description :: string
  sr_type :: string
  sr_location :: string
  sr_source :: string
  sr_labels :: labels
  sr_key :: "string option"

record isg_request =
  ir_name :: string
  ir_group :: string
  ir_description :: string
  ir_key :: "string option"

record disk_info =
  Users :: "string list"
  ResourcePolicies :: "string list"
  ProvisionedIops :: int
  ProvisionedThroughput :: int

record disk_mapping =
  DiskName :: string
  Mapping :: string
  MappingIops :: int
  MappingThroughput :: int

datatype disk_call =
    Exec cmd
  | RunQuery hana_query
  | DiskAttached string
  | GetDisk string
  | ReadDiskMapping
  | ListSnapshots
  | NewService string
  | ConnectDB
  | CreateDiskSnapshot snapshot_request
  | WaitCreated string string
  | WaitUploaded string string
  | WaitConverted string string
  | CreateSnapshot snapshot_request
  | CreateISG isg_request
  | WaitISG string
  | DescribeISG string
  | DeleteISG string
  | CreateSG string string
  | WaitSGCreated string
  | WaitSGUploaded string
  | DeleteSG string
  | ListSG string
  | SetLabels string labels
  | ReadKeyFile string
  | ReadClock
  | ReadStamp

text \<open>\<open>done_env\<close> answers the calls that return only an error, \<open>value_env\<close> those that return a string.\<close>

record disk_world =
  exec_env :: "(disk_call, cmd_result) env"
  done_env :: "(disk_call, string option) env"
  value_env :: "(disk_call, (string, string) result) env"
  attached_env :: "(disk_call, (string, bool) result) env"
  disk_env :: "(disk_call, (string, disk_info) result) env"
  mapping_env :: "(disk_call, (string, disk_mapping list) result) env"
  items_env :: "(disk_call, (string, (string \<times> string) list) result) env"
  clock_env :: "(disk_call, int) env"
  stamp_env :: "(disk_call, string) env"
  decodeKeys :: "string \<Rightarrow> key_entry list option"
  safeFmt :: "string \<Rightarrow> string \<Rightarrow> string option"
  sha224 :: "string \<Rightarrow> string"
  agentVersion :: string
  computePrefix :: string
  haveCompute :: bool

section \<open>Helpers\<close>

definition exec :: "disk_world \<Rightarrow> cmd \<Rightarrow> (disk_call, cmd_result) prog" where
  "exec w c = call (exec_env w) (Exec c)"

text \<open>An operation that returns only an error, and its error.\<close>

definition perform :: "disk_world \<Rightarrow> (string \<Rightarrow> disk_error) \<Rightarrow> disk_call \<Rightarrow> (disk_call, (disk_error, unit) result) prog" where
  "perform w mkErr c = do {
     e \<leftarrow> call (done_env w) c;
     ret (case e of None \<Rightarrow> Inr () | Some x \<Rightarrow> Inl (mkErr x))
   }"

definition queryHana :: "disk_world \<Rightarrow> hana_query \<Rightarrow> (disk_call, (disk_error, string) result) prog" where
  "queryHana w q = do {
     r \<leftarrow> call (value_env w) (RunQuery q);
     ret (case r of Inl e \<Rightarrow> Inl (DbError e) | Inr v \<Rightarrow> Inr v)
   }"

definition getDisk :: "disk_world \<Rightarrow> string \<Rightarrow> (disk_call, (disk_error, disk_info) result) prog" where
  "getDisk w disk = do {
     r \<leftarrow> call (disk_env w) (GetDisk disk);
     ret (case r of Inl e \<Rightarrow> Inl (GceError e) | Inr d \<Rightarrow> Inr d)
   }"

definition hanaErr :: "(disk_call, hb_error option) prog \<Rightarrow> (disk_call, (disk_error, unit) result) prog" where
  "hanaErr m = do { e \<leftarrow> m; ret (case e of None \<Rightarrow> Inr () | Some x \<Rightarrow> Inl (Hana x)) }"

text \<open>\<open>parts[len(parts)-1]\<close> of a path.\<close>

definition lastPart :: "string \<Rightarrow> string" where
  "lastPart s = last (splitOn chSlash s)"

definition lower :: "snapshot \<Rightarrow> string" where
  "lower s = toLower (SnapshotType s)"

section \<open>HANA snapshots (hanautils.go)\<close>

definition snapshotComment :: "snapshot \<Rightarrow> string" where
  "snapshotComment s = (if groupSnapshot s then GroupSnapshotName s else SnapshotName s)"

definition markSnapshotAsSuccessful :: "disk_world \<Rightarrow> snapshot \<Rightarrow> string \<Rightarrow> (disk_call, (disk_error, unit) result) prog" where
  "markSnapshotAsSuccessful w s snapshotID =
     bindE (queryHana w (CloseSuccessful snapshotID (snapshotComment s))) (\<lambda>_. ret (Inr ()))"

definition abandonHANASnapshot :: "disk_world \<Rightarrow> string \<Rightarrow> (disk_call, (disk_error, unit) result) prog" where
  "abandonHANASnapshot w snapshotID = bindE (queryHana w (CloseUnsuccessful snapshotID)) (\<lambda>_. ret (Inr ()))"

definition createNewHANASnapshot :: "disk_world \<Rightarrow> snapshot \<Rightarrow> (disk_call, (disk_error, string) result) prog" where
  "createNewHANASnapshot w s =
     bindE (queryHana w (CreateSnap (snapshotComment s))) (\<lambda>_.
     bindE (queryHana w ReadPrepared) (\<lambda>snapshotID.
     ret (if snapshotID = [] then Inl NoSnapshotId else Inr snapshotID)))"

definition abandonPreparedSnapshot :: "disk_world \<Rightarrow> snapshot \<Rightarrow> (disk_call, (disk_error, unit) result) prog" where
  "abandonPreparedSnapshot w s =
     bindE (queryHana w ReadPrepared) (\<lambda>snapshotID.
     if snapshotID = [] then ret (Inr ())
     else if \<not> AbandonPrepared s then ret (Inl AlreadyPrepared)
     else abandonHANASnapshot w snapshotID)"

text \<open>Its own failure is only logged.\<close>

definition diskSnapshotFailureHandler :: "disk_world \<Rightarrow> string \<Rightarrow> (disk_call, unit) prog" where
  "diskSnapshotFailureHandler w snapshotID = do { _ \<leftarrow> abandonHANASnapshot w snapshotID; ret () }"

section \<open>Disks\<close>

definition isDiskAttachedToInstance :: "disk_world \<Rightarrow> string \<Rightarrow> (disk_call, (disk_error, unit) result) prog" where
  "isDiskAttachedToInstance w disk = do {
     r \<leftarrow> call (attached_env w) (DiskAttached disk);
     ret (case r of
            Inl e \<Rightarrow> Inl (AttachCheckFailed disk e)
          | Inr ok \<Rightarrow> if ok then Inr () else Inl (NotAttached disk))
   }"

definition readConsistencyGroup :: "disk_world \<Rightarrow> string \<Rightarrow> (disk_call, (disk_error, string) result) prog" where
  "readConsistencyGroup w disk =
     bindE (getDisk w disk) (\<lambda>d.
     ret (if cgPath (ResourcePolicies d) \<noteq> [] then Inr (cgPath (ResourcePolicies d))
          else Inl (NoConsistencyGroup disk)))"

text \<open>The loop over the disks; \<open>traversed\<close> is for the message.\<close>

primrec disksInCG :: "disk_world \<Rightarrow> string list \<Rightarrow> string list \<Rightarrow> snapshot \<Rightarrow> (disk_call, (disk_error, snapshot) result) prog" where
  "disksInCG w [] traversed s = ret (Inr s)"
| "disksInCG w (d # ds) traversed s =
     bindE (readConsistencyGroup w d) (\<lambda>cg.
     if cgName s \<noteq> [] \<and> cg \<noteq> cgName s then ret (Inl (CGMismatch d cg traversed (cgName s)))
     else disksInCG w ds (traversed @ [d]) (s\<lparr>cgName := cg\<rparr>))"

definition validateDisksBelongToCG :: "disk_world \<Rightarrow> string list \<Rightarrow> snapshot \<Rightarrow> (disk_call, (disk_error, snapshot) result) prog" where
  "validateDisksBelongToCG w ds s = disksInCG w ds [] s"

text \<open>The instance a disk belongs to.\<close>

definition diskInstance :: "disk_world \<Rightarrow> string \<Rightarrow> (disk_call, (disk_error, string) result) prog" where
  "diskInstance w disk =
     bindE (getDisk w disk) (\<lambda>d.
     ret (case Users d of [] \<Rightarrow> Inl (NotInUse disk) | u # _ \<Rightarrow> Inr (lastPart u)))"

definition labelsFor :: "disk_world \<Rightarrow> snapshot \<Rightarrow> string \<Rightarrow> string \<Rightarrow> (disk_call, labels) prog" where
  "labelsFor w s disk instanceName = do {
     now \<leftarrow> (if groupSnapshot s then call (clock_env w) ReadClock else ret 0);
     ret (parseLabels (sha224 w) (agentVersion w) now s disk instanceName)
   }"

definition sourceDiskURI :: "disk_world \<Rightarrow> snapshot \<Rightarrow> string" where
  "sourceDiskURI w s = computePrefix w @ ''projects/'' @ Project s @ ''/zones/'' @ DiskZone s @ ''/disks/'' @ Disk s"

text \<open>The key of the source disk, if a key file is given.\<close>

definition diskKey :: "disk_world \<Rightarrow> snapshot \<Rightarrow> (disk_call, (disk_error, string option) result) prog" where
  "diskKey w s =
     (if DiskKeyFile s = [] then ret (Inr None)
      else do {
        r \<leftarrow> call (value_env w) (ReadKeyFile (DiskKeyFile s));
        ret (case ReadKey (decodeKeys w) r (DiskKeyFile s) (sourceDiskURI w s) of
               Inl e \<Rightarrow> Inl (Hana e)
             | Inr k \<Rightarrow> Inr (Some k))
      })"

section \<open>One disk\<close>

definition freezeIfAsked :: "disk_world \<Rightarrow> snapshot \<Rightarrow> (disk_call, (disk_error, unit) result) prog" where
  "freezeIfAsked w s = (if FreezeFileSystem s then hanaErr (FreezeXFS (hanaDataPath s) (exec w)) else ret (Inr ()))"

definition unfreezeIfAsked :: "disk_world \<Rightarrow> snapshot \<Rightarrow> (disk_call, (disk_error, unit) result) prog" where
  "unfreezeIfAsked w s = (if FreezeFileSystem s then hanaErr (UnFreezeXFS (hanaDataPath s) (exec w)) else ret (Inr ()))"

definition startSnapshot :: "disk_world \<Rightarrow> snapshot_request \<Rightarrow> (disk_call, (disk_error, string) result) prog" where
  "startSnapshot w req = do {
     r \<leftarrow> call (value_env w) (CreateDiskSnapshot req);
     ret (case r of Inl e \<Rightarrow> Inl (GceError e) | Inr op \<Rightarrow> Inr op)
   }"

definition createBackup :: "disk_world \<Rightarrow> snapshot \<Rightarrow> snapshot_request \<Rightarrow> (disk_call, (disk_error, string) result) prog" where
  "createBackup w s req =
     bindE (diskKey w s) (\<lambda>key.
     if \<not> haveCompute w then ret (Inl NoComputeService)
     else bindE (freezeIfAsked w s) (\<lambda>_.
       bindE (startSnapshot w (req\<lparr>sr_key := key\<rparr>)) (\<lambda>op.
       bindE (perform w GceError (WaitCreated op (SnapshotName s))) (\<lambda>_.
       ret (Inr op)))))"

definition createDiskSnapshot :: "disk_world \<Rightarrow> snapshot \<Rightarrow> string \<Rightarrow> (disk_call, (disk_error, string) result) prog" where
  "createDiskSnapshot w s instanceName = do {
     ls \<leftarrow> labelsFor w s (Disk s) instanceName;
     createBackup w s
       \<lparr>sr_name = SnapshotName s, sr_description = Description s, sr_type = SnapshotType s,
        sr_location = StorageLocation s, sr_source = Disk s, sr_labels = ls, sr_key = None\<rparr>
   }"

text \<open>After the disk snapshot: unfreeze, then confirm and wait, or abandon.\<close>

definition finishDiskSnapshot ::
  "disk_world \<Rightarrow> snapshot \<Rightarrow> string \<Rightarrow> (disk_error, string) result \<Rightarrow> (disk_call, (disk_error, unit) result) prog" where
  "finishDiskSnapshot w s snapshotID created =
     (case created of
        Inl e \<Rightarrow> do { _ \<leftarrow> diskSnapshotFailureHandler w snapshotID; ret (Inl e) }
      | Inr op \<Rightarrow>
          bindE (if ConfirmDataSnapshotAfterCreate s then markSnapshotAsSuccessful w s snapshotID else ret (Inr ()))
            (\<lambda>_. do {
              up \<leftarrow> perform w UploadFailed (WaitUploaded op (SnapshotName s));
              case up of
                Inl e \<Rightarrow> do { _ \<leftarrow> diskSnapshotFailureHandler w snapshotID; ret (Inl e) }
              | Inr _ \<Rightarrow>
                  (if \<not> ConfirmDataSnapshotAfterCreate s then markSnapshotAsSuccessful w s snapshotID
                   else ret (Inr ()))
            }))"

definition runWorkflowForDiskSnapshot ::
  "disk_world \<Rightarrow> cloud_properties \<Rightarrow> snapshot \<Rightarrow> (disk_call, (disk_error, unit) result) prog" where
  "runWorkflowForDiskSnapshot w cp s =
     bindE (isDiskAttachedToInstance w (Disk s)) (\<lambda>_.
     bindE (abandonPreparedSnapshot w s) (\<lambda>_.
     bindE (createNewHANASnapshot w s) (\<lambda>snapshotID. do {
       created \<leftarrow> createDiskSnapshot w s (InstanceName cp);
       bindE (unfreezeIfAsked w s) (\<lambda>_. finishDiskSnapshot w s snapshotID created)
     })))"

definition prepareForChangeDiskTypeWorkflow :: "disk_world \<Rightarrow> snapshot \<Rightarrow> (disk_call, (disk_error, unit) result) prog" where
  "prepareForChangeDiskTypeWorkflow w s =
     bindE (hanaErr (StopHANA (safeFmt w) False (HanaSidAdm s) (Sid s) (exec w))) (\<lambda>_.
     hanaErr (WaitForIndexServerToStopWithRetry (HanaSidAdm s) (exec w)))"

definition runWorkflowForChangeDiskType ::
  "disk_world \<Rightarrow> cloud_properties \<Rightarrow> snapshot \<Rightarrow> (disk_call, (disk_error, unit) result) prog" where
  "runWorkflowForChangeDiskType w cp s =
     bindE (prepareForChangeDiskTypeWorkflow w s) (\<lambda>_.
     bindE (isDiskAttachedToInstance w (Disk s)) (\<lambda>_. do {
       created \<leftarrow> createDiskSnapshot w s (InstanceName cp);
       bindE (unfreezeIfAsked w s) (\<lambda>_.
         case created of
           Inl e \<Rightarrow> ret (Inl e)
         | Inr op \<Rightarrow> perform w UploadFailed (WaitUploaded op (SnapshotName s)))
     }))"

section \<open>Groups of disks (multidisk.go)\<close>

definition createISG :: "disk_world \<Rightarrow> snapshot \<Rightarrow> isg_request \<Rightarrow> (disk_call, (disk_error, unit) result) prog" where
  "createISG w s req =
     bindE (diskKey w s) (\<lambda>key.
     bindE (freezeIfAsked w s) (\<lambda>_.
     bindE (perform w GceError (CreateISG (req\<lparr>ir_key := key\<rparr>))) (\<lambda>_.
     perform w GceError (WaitISG (computePrefix w @ ''projects/'' @ Project s @ ''/zones/'' @ DiskZone s
       @ ''/instantSnapshotGroups/'' @ ir_name req)))))"

text \<open>A missing group name is filled in and kept.\<close>

definition withGroupName :: "disk_world \<Rightarrow> snapshot \<Rightarrow> (disk_call, snapshot) prog" where
  "withGroupName w s =
     (if GroupSnapshotName s = [] then do {
        stamp \<leftarrow> call (stamp_env w) ReadStamp;
        ret (updateSnapshotName stamp s)
      } else ret s)"

definition createInstantSnapshotGroup ::
  "disk_world \<Rightarrow> snapshot \<Rightarrow> (disk_call, (disk_error, unit) result \<times> snapshot) prog" where
  "createInstantSnapshotGroup w s0 = do {
     s \<leftarrow> withGroupName w s0;
     r \<leftarrow> (if length (splitOn CHR ''-'' (DiskZone s)) < 3 then ret (Inl (BadZone (DiskZone s)))
          else createISG w s
            \<lparr>ir_name = GroupSnapshotName s,
             ir_group = ''projects/'' @ Project s @ ''/regions/'' @ regionOf (DiskZone s)
               @ ''/resourcePolicies/'' @ cgName s,
             ir_description = Description s, ir_key = None\<rparr>);
     ret (r, s)
   }"

text \<open>The items of an instant snapshot group and of a snapshot group: name and source disk.\<close>

definition listItems :: "disk_world \<Rightarrow> disk_call \<Rightarrow> (disk_call, (disk_error, (string \<times> string) list) result) prog" where
  "listItems w c = do {
     r \<leftarrow> call (items_env w) c;
     ret (case r of Inl e \<Rightarrow> Inl (GceError e) | Inr xs \<Rightarrow> Inr xs)
   }"

definition convertOne :: "disk_world \<Rightarrow> string \<Rightarrow> snapshot_request \<Rightarrow> (disk_call, (disk_error, string) result) prog" where
  "convertOne w isName req = do {
     r \<leftarrow> call (value_env w) (CreateSnapshot req);
     case r of
       Inl e \<Rightarrow> ret (Inl (CreateFailed isName (GceError e)))
     | Inr op \<Rightarrow> bindE (perform w (\<lambda>e. CreateFailed isName (GceError e)) (WaitCreated op (sr_name req)))
         (\<lambda>_. ret (Inr op))
   }"

definition createGroupBackup ::
  "disk_world \<Rightarrow> snapshot \<Rightarrow> string \<times> string \<Rightarrow> (disk_call, (disk_error, string \<times> string) result) prog" where
  "createGroupBackup w s item = do {
     stamp \<leftarrow> call (clock_env w) ReadClock;
     let isName = fst item;
     let snapshotName = createSnapshotName s isName (intStr stamp);
     let diskName = lastPart (snd item);
     bindE (diskInstance w diskName) (\<lambda>instanceName. do {
       ls \<leftarrow> labelsFor w s diskName instanceName;
       key \<leftarrow> diskKey w s;
       case key of
         Inl e \<Rightarrow> ret (Inl (CreateFailed isName e))
       | Inr k \<Rightarrow>
           bindE (convertOne w isName
             \<lparr>sr_name = snapshotName, sr_description = Description s, sr_type = toUpper (SnapshotType s),
              sr_location = [],
              sr_source = ''projects/'' @ Project s @ ''/zones/'' @ DiskZone s @ ''/instantSnapshots/'' @ isName,
              sr_labels = ls, sr_key = k\<rparr>) (\<lambda>op. ret (Inr (op, snapshotName)))
     })
   }"

text \<open>All items are converted; the first error is returned afterwards.\<close>

primrec convertAll ::
  "disk_world \<Rightarrow> snapshot \<Rightarrow> (string \<times> string) list \<Rightarrow> (disk_call, disk_error list \<times> (string \<times> string) list) prog" where
  "convertAll w s [] = ret ([], [])"
| "convertAll w s (x # xs) = do {
     r \<leftarrow> createGroupBackup w s x;
     rest \<leftarrow> convertAll w s xs;
     ret (case r of
            Inl e \<Rightarrow> (e # fst rest, snd rest)
          | Inr op \<Rightarrow> (fst rest, op # snd rest))
   }"

definition convertISGInstantSnapshots ::
  "disk_world \<Rightarrow> snapshot \<Rightarrow> (disk_call, (disk_error, (string \<times> string) list) result) prog" where
  "convertISGInstantSnapshots w s =
     bindE (listItems w (DescribeISG (GroupSnapshotName s))) (\<lambda>items. do {
       r \<leftarrow> convertAll w s items;
       ret (case fst r of [] \<Rightarrow> Inr (snd r) | e # _ \<Rightarrow> Inl e)
     })"

definition createSnapshotGroupFromISG :: "disk_world \<Rightarrow> snapshot \<Rightarrow> (disk_call, (disk_error, unit) result) prog" where
  "createSnapshotGroupFromISG w s =
     bindE (perform w (\<lambda>e. CreateFailed (GroupSnapshotName s) (GceError e))
       (CreateSG (GroupSnapshotName s) (''projects/'' @ Project s @ ''/zones/'' @ DiskZone s
         @ ''/instantSnapshotGroups/'' @ GroupSnapshotName s))) (\<lambda>_.
     perform w GceError (WaitSGCreated (GroupSnapshotName s)))"

primrec labelAll :: "disk_world \<Rightarrow> snapshot \<Rightarrow> (string \<times> string) list \<Rightarrow> (disk_call, (disk_error, unit) result) prog" where
  "labelAll w s [] = ret (Inr ())"
| "labelAll w s (x # xs) =
     bindE (diskInstance w (lastPart (snd x))) (\<lambda>instanceName. do {
       ls \<leftarrow> labelsFor w s (lastPart (snd x)) instanceName;
       bindE (perform w (LabelsFailed (fst x)) (SetLabels (fst x) ls)) (\<lambda>_. labelAll w s xs)
     })"

definition updateLabelsForSnapshotGroup :: "disk_world \<Rightarrow> snapshot \<Rightarrow> string \<Rightarrow> (disk_call, (disk_error, unit) result) prog" where
  "updateLabelsForSnapshotGroup w s snapshotGroup =
     bindE (listItems w (ListSG snapshotGroup)) (\<lambda>items.
     if items = [] then ret (Inl (NoSnapshotsInGroup (GroupSnapshotName s))) else labelAll w s items)"

text \<open>The failure of a clean-up is only logged.\<close>

definition cleanUp :: "disk_world \<Rightarrow> disk_call \<Rightarrow> (disk_call, unit) prog" where
  "cleanUp w c = do { _ \<leftarrow> call (done_env w) c; ret () }"

definition confirmDataSnapshotAfterCreate ::
  "disk_world \<Rightarrow> snapshot \<Rightarrow> string \<Rightarrow> (disk_call, (disk_error, unit) result) prog" where
  "confirmDataSnapshotAfterCreate w s snapshotID =
     (if ConfirmDataSnapshotAfterCreate s then do {
        r \<leftarrow> markSnapshotAsSuccessful w s snapshotID;
        case r of
          Inr _ \<Rightarrow> ret (Inr ())
        | Inl e \<Rightarrow> do {
            _ \<leftarrow> cleanUp w (DeleteISG (GroupSnapshotName s));
            _ \<leftarrow> (if UseSnapshotGroupWorkflow s then cleanUp w (DeleteSG (GroupSnapshotName s)) else ret ());
            ret (Inl e)
          }
      } else ret (Inr ()))"

text \<open>Abandon the HANA snapshot and delete the instant snapshots.\<close>

definition abandonGroup :: "disk_world \<Rightarrow> snapshot \<Rightarrow> string \<Rightarrow> disk_error \<Rightarrow> (disk_call, (disk_error, unit) result) prog" where
  "abandonGroup w s snapshotID e = do {
     _ \<leftarrow> diskSnapshotFailureHandler w snapshotID;
     _ \<leftarrow> cleanUp w (DeleteISG (GroupSnapshotName s));
     ret (Inl e)
   }"

definition snapshotGroupWorkflow :: "disk_world \<Rightarrow> snapshot \<Rightarrow> string \<Rightarrow> (disk_call, (disk_error, unit) result) prog" where
  "snapshotGroupWorkflow w s snapshotID = do {
     r \<leftarrow> createSnapshotGroupFromISG w s;
     case r of
       Inl e \<Rightarrow> abandonGroup w s snapshotID e
     | Inr _ \<Rightarrow>
         bindE (confirmDataSnapshotAfterCreate w s snapshotID) (\<lambda>_.
         bindE (perform w UploadFailed (WaitSGUploaded (GroupSnapshotName s))) (\<lambda>_.
         updateLabelsForSnapshotGroup w s (GroupSnapshotName s)))
   }"

primrec waitConversions ::
  "disk_world \<Rightarrow> snapshot \<Rightarrow> string \<Rightarrow> (string \<times> string) list \<Rightarrow> (disk_call, (disk_error, unit) result) prog" where
  "waitConversions w s snapshotID [] = ret (Inr ())"
| "waitConversions w s snapshotID (x # xs) = do {
     r \<leftarrow> perform w UploadFailed (WaitConverted (fst x) (snd x));
     case r of
       Inl e \<Rightarrow> abandonGroup w s snapshotID e
     | Inr _ \<Rightarrow> waitConversions w s snapshotID xs
   }"

definition conversionWorkflow :: "disk_world \<Rightarrow> snapshot \<Rightarrow> string \<Rightarrow> (disk_call, (disk_error, unit) result) prog" where
  "conversionWorkflow w s snapshotID = do {
     r \<leftarrow> convertISGInstantSnapshots w s;
     case r of
       Inl e \<Rightarrow> abandonGroup w s snapshotID e
     | Inr ssOps \<Rightarrow>
         bindE (confirmDataSnapshotAfterCreate w s snapshotID) (\<lambda>_. waitConversions w s snapshotID ssOps)
   }"

text \<open>What follows the creation of the instant snapshot group and the unfreezing.\<close>

definition finishGroup ::
  "disk_world \<Rightarrow> snapshot \<Rightarrow> string \<Rightarrow> (disk_error, unit) result \<Rightarrow> (disk_call, (disk_error, unit) result) prog" where
  "finishGroup w s snapshotID created =
     (case created of
        Inl e \<Rightarrow> do { _ \<leftarrow> diskSnapshotFailureHandler w snapshotID; ret (Inl e) }
      | Inr _ \<Rightarrow>
          bindE (if UseSnapshotGroupWorkflow s then snapshotGroupWorkflow w s snapshotID
                 else conversionWorkflow w s snapshotID) (\<lambda>_. do {
            _ \<leftarrow> cleanUp w (DeleteISG (GroupSnapshotName s));
            (if \<not> ConfirmDataSnapshotAfterCreate s then markSnapshotAsSuccessful w s snapshotID else ret (Inr ()))
          }))"

primrec allAttached :: "disk_world \<Rightarrow> string list \<Rightarrow> (disk_call, (disk_error, unit) result) prog" where
  "allAttached w [] = ret (Inr ())"
| "allAttached w (d # ds) = bindE (isDiskAttachedToInstance w d) (\<lambda>_. allAttached w ds)"

definition runWorkflowForInstantSnapshotGroups ::
  "disk_world \<Rightarrow> snapshot \<Rightarrow> (disk_call, (disk_error, unit) result \<times> snapshot) prog" where
  "runWorkflowForInstantSnapshotGroups w s0 = do {
     pre \<leftarrow> bindE (allAttached w (disks s0)) (\<lambda>_.
           bindE (abandonPreparedSnapshot w s0) (\<lambda>_. createNewHANASnapshot w s0));
     case pre of
       Inl e \<Rightarrow> ret (Inl e, s0)
     | Inr snapshotID \<Rightarrow> do {
         cs \<leftarrow> createInstantSnapshotGroup w s0;
         let s = snd cs;
         r \<leftarrow> bindE (unfreezeIfAsked w s) (\<lambda>_. finishGroup w s snapshotID (fst cs));
         ret (r, s)
       }
   }"

section \<open>What the calls have done\<close>

text \<open>The file systems that may be frozen, and what was last asked of the HANA snapshot. A freeze counts from the
  attempt on, a thaw only when its command succeeded, and only for its own path.\<close>

fun isFreeze :: "disk_call \<Rightarrow> bool" where
  "isFreeze (Exec (CmdSplit x args u)) \<longleftrightarrow> x = ''/usr/sbin/xfs_freeze'' \<and> hasPrefix args ''-f ''"
| "isFreeze _ \<longleftrightarrow> False"

fun isThaw :: "disk_call \<Rightarrow> bool" where
  "isThaw (Exec (CmdSplit x args u)) \<longleftrightarrow> x = ''/usr/sbin/xfs_freeze'' \<and> hasPrefix args ''-u ''"
| "isThaw _ \<longleftrightarrow> False"

fun frozenPath :: "disk_call \<Rightarrow> string" where
  "frozenPath (Exec (CmdSplit x args u)) = drop 3 args"
| "frozenPath _ = []"

definition freezeStep :: "disk_world \<Rightarrow> disk_call list \<Rightarrow> disk_call \<Rightarrow> string set \<Rightarrow> string set" where
  "freezeStep w log c F =
     (if isFreeze c then insert (frozenPath c) F
      else if isThaw c \<and> \<not> failed (exec_env w log c) then F - {frozenPath c} else F)"

datatype hana_state = Idle | Prepared | Confirmed | Abandoned

fun hanaStep :: "disk_call \<Rightarrow> hana_state \<Rightarrow> hana_state" where
  "hanaStep (RunQuery (CreateSnap name)) st = Prepared"
| "hanaStep (RunQuery (CloseSuccessful i name)) st = Confirmed"
| "hanaStep (RunQuery (CloseUnsuccessful i)) st = Abandoned"
| "hanaStep _ st = st"

definition noFreeze :: "disk_call \<Rightarrow> bool" where
  "noFreeze c \<longleftrightarrow> \<not> isFreeze c \<and> \<not> isThaw c"

fun noHana :: "disk_call \<Rightarrow> bool" where
  "noHana (RunQuery q) \<longleftrightarrow> q = ReadPrepared"
| "noHana _ \<longleftrightarrow> True"

definition frozen :: "disk_world \<Rightarrow> disk_call list \<Rightarrow> string set" where
  "frozen w log = readLog (freezeStep w) {} log"

definition hanaState :: "disk_call list \<Rightarrow> hana_state" where
  "hanaState log = foldr hanaStep log Idle"

interpretation freeze_monitor: log_monitor "freezeStep w" noFreeze for w
  by unfold_locales (simp add: freezeStep_def noFreeze_def)

interpretation hana_monitor: call_monitor hanaStep noHana
proof (unfold_locales, goal_cases)
  case (1 c s)
  then show ?case
  proof (cases c)
    case (RunQuery q)
    with 1 show ?thesis by simp
  qed simp_all
qed

lemmas frozen_kept = freeze_monitor.kept [where i = "{}", folded frozen_def]
lemmas hana_kept = hana_monitor.kept [where i = Idle, folded hanaState_def]

lemma frozen_simps [simp]:
  "frozen w [] = {}"
  "frozen w (c # log) = freezeStep w log c (frozen w log)"
  by (simp_all add: frozen_def)

lemma hanaState_simps [simp]:
  "hanaState [] = Idle"
  "hanaState (c # log) = hanaStep c (hanaState log)"
  by (simp_all add: hanaState_def)

section \<open>Calls of the operations\<close>

text \<open>Both: calls that no monitor sees.\<close>

definition plain :: "disk_call \<Rightarrow> bool" where
  "plain c \<longleftrightarrow> noFreeze c \<and> noHana c"

lemma plain_calls [simp]:
  "plain (DiskAttached d)" "plain (GetDisk d)" "plain ReadDiskMapping" "plain ListSnapshots" "plain (NewService x)"
  "plain ConnectDB" "plain (CreateDiskSnapshot r)" "plain (WaitCreated o1 n)" "plain (WaitUploaded o1 n)"
  "plain (WaitConverted o1 n)" "plain (CreateSnapshot r)" "plain (CreateISG q)" "plain (WaitISG u)"
  "plain (DescribeISG g)" "plain (DeleteISG g)" "plain (CreateSG g u)" "plain (WaitSGCreated g)"
  "plain (WaitSGUploaded g)" "plain (DeleteSG g)" "plain (ListSG g)" "plain (SetLabels n ls)"
  "plain (ReadKeyFile f)" "plain ReadClock" "plain ReadStamp" "plain (RunQuery ReadPrepared)"
  by (simp_all add: plain_def noFreeze_def)

lemma plain_noFreeze: "plain c \<Longrightarrow> noFreeze c" by (simp add: plain_def)
lemma plain_noHana: "plain c \<Longrightarrow> noHana c" by (simp add: plain_def)

lemma calls_perform [calls_rules]: "P c \<Longrightarrow> calls_only P (perform w f c)"
  by (auto simp: perform_def intro!: calls_rules)

lemma calls_queryHana [calls_rules]: "P (RunQuery q) \<Longrightarrow> calls_only P (queryHana w q)"
  by (auto simp: queryHana_def intro!: calls_rules)

lemma calls_cleanUp [calls_rules]: "P c \<Longrightarrow> calls_only P (cleanUp w c)"
  by (auto simp: cleanUp_def intro!: calls_rules)

lemma calls_getDisk [calls_rules]: "P (GetDisk d) \<Longrightarrow> calls_only P (getDisk w d)"
  by (auto simp: getDisk_def intro!: calls_rules)

lemma calls_listItems [calls_rules]: "P c \<Longrightarrow> calls_only P (listItems w c)"
  by (auto simp: listItems_def intro!: calls_rules)

lemma plain_attached [calls_rules]: "calls_only plain (isDiskAttachedToInstance w d)"
  by (auto simp: isDiskAttachedToInstance_def intro!: calls_rules)

lemma plain_allAttached [calls_rules]: "calls_only plain (allAttached w ds)"
  by (induction ds) (auto intro!: calls_rules)

lemma plain_labelsFor [calls_rules]: "calls_only plain (labelsFor w s d i)"
  by (auto simp: labelsFor_def intro!: calls_rules)

lemma plain_diskKey [calls_rules]: "calls_only plain (diskKey w s)"
  by (auto simp: diskKey_def intro!: calls_rules)

lemma plain_diskInstance [calls_rules]: "calls_only plain (diskInstance w d)"
  by (auto simp: diskInstance_def intro!: calls_rules)

lemma plain_startSnapshot [calls_rules]: "calls_only plain (startSnapshot w r)"
  by (auto simp: startSnapshot_def intro!: calls_rules)

lemma plain_convertOne [calls_rules]: "calls_only plain (convertOne w n r)"
  by (auto simp: convertOne_def intro!: calls_rules)

lemma plain_createGroupBackup [calls_rules]: "calls_only plain (createGroupBackup w s x)"
  by (auto simp: createGroupBackup_def Let_def intro!: calls_rules)

lemma plain_convertAll [calls_rules]: "calls_only plain (convertAll w s xs)"
  by (induction xs) (auto intro!: calls_rules)

lemma plain_convert [calls_rules]: "calls_only plain (convertISGInstantSnapshots w s)"
  by (auto simp: convertISGInstantSnapshots_def intro!: calls_rules)

lemma plain_createSG [calls_rules]: "calls_only plain (createSnapshotGroupFromISG w s)"
  by (auto simp: createSnapshotGroupFromISG_def intro!: calls_rules)

lemma plain_labelAll [calls_rules]: "calls_only plain (labelAll w s xs)"
  by (induction xs) (auto intro!: calls_rules)

lemma plain_updateLabels [calls_rules]: "calls_only plain (updateLabelsForSnapshotGroup w s g)"
  by (auto simp: updateLabelsForSnapshotGroup_def intro!: calls_rules)

lemma plain_withGroupName [calls_rules]: "calls_only plain (withGroupName w s)"
  by (auto simp: withGroupName_def intro!: calls_rules)

section \<open>Freezing\<close>

lemma calls_only_retry: "calls_only P op \<Longrightarrow> calls_only P (retry n op)"
  by (induction n) (auto intro!: calls_rules)


lemma hana_calls_noFreeze [simp]: "noFreeze (RunQuery q)"
  by (simp add: noFreeze_def)

lemma exec_noHana [simp]: "noHana (Exec c)"
  by simp

lemma calls_exec [calls_rules]: "P (Exec c) \<Longrightarrow> calls_only P (exec w c)"
  by (auto simp: exec_def intro!: calls_rules)

lemma calls_hanaErr [calls_rules]: "calls_only P m \<Longrightarrow> calls_only P (hanaErr m)"
  by (auto simp: hanaErr_def intro!: calls_rules)

lemma noHana_freeze [calls_rules]:
  "calls_only noHana (freezeIfAsked w s)" "calls_only noHana (unfreezeIfAsked w s)"
  by (auto simp: freezeIfAsked_def unfreezeIfAsked_def FreezeXFS_def UnFreezeXFS_def intro!: calls_rules)

lemma noFreeze_plain: "calls_only plain m \<Longrightarrow> calls_only noFreeze m"
  by (erule calls_only_mono) (rule plain_noFreeze)

lemma noHana_plain: "calls_only plain m \<Longrightarrow> calls_only noHana m"
  by (erule calls_only_mono) (rule plain_noHana)

lemma noFreeze_freezeIfAsked: "\<not> FreezeFileSystem s \<Longrightarrow> calls_only noFreeze (freezeIfAsked w s)"
  by (simp add: freezeIfAsked_def calls_rules)

text \<open>Calls that freeze at most one path and thaw nothing.\<close>

definition freezesOnly :: "string \<Rightarrow> disk_call \<Rightarrow> bool" where
  "freezesOnly p c \<longleftrightarrow> \<not> isThaw c \<and> (isFreeze c \<longrightarrow> frozenPath c = p)"

lemma freezesOnly_plain: "plain c \<Longrightarrow> freezesOnly p c"
  by (simp add: freezesOnly_def plain_def noFreeze_def)

lemma freezesOnly_freezeIfAsked: "hanaDataPath s = p \<Longrightarrow> calls_only (freezesOnly p) (freezeIfAsked w s)"
  by (auto simp: freezeIfAsked_def FreezeXFS_def freezesOnly_def freezeCmd_def hasPrefix_def intro!: calls_rules)

lemma freezesOnly_frozen:
  assumes "calls_only (freezesOnly p) m" "frozen w log \<subseteq> {p}"
  shows "wp m (\<lambda>_ log'. frozen w log' \<subseteq> {p}) log"
proof (rule wp_mono [OF calls_onlyD [OF assms(1)]], elim exE conjE)
  fix log' new
  assume "log' = new @ log" "list_all (freezesOnly p) new"
  moreover have "list_all (freezesOnly p) new \<Longrightarrow> frozen w (new @ log) \<subseteq> {p}"
    by (induction new) (auto simp: assms(2) freezeStep_def freezesOnly_def)
  ultimately show "frozen w log' \<subseteq> {p}" by simp
qed

lemma createDiskSnapshot_calls:
  assumes "\<And>c. plain c \<Longrightarrow> P c" and "calls_only P (freezeIfAsked w s)"
  shows "calls_only P (createDiskSnapshot w s i)"
  unfolding createDiskSnapshot_def createBackup_def
  by (intro calls_rules assms calls_only_mono [OF plain_labelsFor] calls_only_mono [OF plain_diskKey]
      calls_only_mono [OF plain_startSnapshot]) (auto intro: assms(1))

lemma createISG_calls:
  assumes "\<And>c. plain c \<Longrightarrow> P c" and "calls_only P (freezeIfAsked w s)"
  shows "calls_only P (createISG w s q)"
  unfolding createISG_def
  by (intro calls_rules assms calls_only_mono [OF plain_diskKey]) (auto intro: assms(1))

lemma withGroupName_keeps:
  "wp (withGroupName w s) (\<lambda>s' _. FreezeFileSystem s' = FreezeFileSystem s \<and> hanaDataPath s' = hanaDataPath s) log"
  by (auto simp: withGroupName_def updateSnapshotName_def Let_def wp_rules)

lemma createInstantSnapshotGroup_calls:
  assumes "\<And>c. plain c \<Longrightarrow> P c"
    and "\<And>s'. FreezeFileSystem s' = FreezeFileSystem s \<Longrightarrow> hanaDataPath s' = hanaDataPath s \<Longrightarrow> calls_only P (freezeIfAsked w s')"
  shows "calls_only P (createInstantSnapshotGroup w s)"
  unfolding createInstantSnapshotGroup_def
proof (rule calls_only_bind_post [OF _ withGroupName_keeps], goal_cases)
  case 1
  show ?case by (rule calls_only_mono [OF plain_withGroupName assms(1)])
next
  case (2 a)
  with assms show ?case by (intro calls_rules createISG_calls) auto
qed

lemma noFreeze_mark [calls_rules]: "calls_only noFreeze (markSnapshotAsSuccessful w s i)"
  by (auto simp: markSnapshotAsSuccessful_def intro!: calls_rules)

lemma noFreeze_abandon [calls_rules]:
  "calls_only noFreeze (abandonHANASnapshot w i)" "calls_only noFreeze (diskSnapshotFailureHandler w i)"
  "calls_only noFreeze (abandonPreparedSnapshot w s)" "calls_only noFreeze (createNewHANASnapshot w s)"
  by (auto simp: abandonHANASnapshot_def diskSnapshotFailureHandler_def abandonPreparedSnapshot_def
      createNewHANASnapshot_def intro!: calls_rules)

lemma noFreeze_done: "noFreeze (WaitUploaded a b)" "noFreeze (WaitConverted a b)" "noFreeze (DeleteISG g)"
  "noFreeze (DeleteSG g)" "noFreeze (WaitSGUploaded g)"
  by (simp_all add: noFreeze_def)

lemma noFreeze_finishDiskSnapshot [calls_rules]: "calls_only noFreeze (finishDiskSnapshot w s i r)"
  by (auto simp: finishDiskSnapshot_def noFreeze_done intro!: calls_rules)

lemma noFreeze_abandonGroup [calls_rules]: "calls_only noFreeze (abandonGroup w s i e)"
  by (auto simp: abandonGroup_def noFreeze_done intro!: calls_rules)

lemma noFreeze_waitConversions [calls_rules]: "calls_only noFreeze (waitConversions w s i xs)"
  by (induction xs) (auto simp: noFreeze_done intro!: calls_rules)

lemma noFreeze_confirm [calls_rules]: "calls_only noFreeze (confirmDataSnapshotAfterCreate w s i)"
  by (auto simp: confirmDataSnapshotAfterCreate_def noFreeze_done intro!: calls_rules)

lemma noFreeze_finishGroup [calls_rules]: "calls_only noFreeze (finishGroup w s i r)"
  unfolding finishGroup_def snapshotGroupWorkflow_def conversionWorkflow_def
  by (intro calls_rules noFreeze_plain [OF plain_createSG] noFreeze_plain [OF plain_updateLabels]
      noFreeze_plain [OF plain_convert]) (auto simp: noFreeze_done)

lemma createInstantSnapshotGroup_keeps:
  "wp (createInstantSnapshotGroup w s)
     (\<lambda>r _. FreezeFileSystem (snd r) = FreezeFileSystem s \<and> hanaDataPath (snd r) = hanaDataPath s) log"
  unfolding createInstantSnapshotGroup_def wp_bind
  by (rule wp_mono [OF withGroupName_keeps]) (simp add: wp_def split: prod.splits)

text \<open>A failure to thaw, and how a section that froze the path \<open>p\<close> may end: with nothing frozen, or with
  the error of the thaw of that very path.\<close>

fun thaw_error :: "disk_error \<Rightarrow> bool" where
  "thaw_error (Hana (UnfreezeFailed p r)) = True"
| "thaw_error _ = False"

definition thawFailed :: "string \<Rightarrow> (disk_error, 'a) result \<Rightarrow> bool" where
  "thawFailed p r \<longleftrightarrow> (\<exists>res. r = Inl (Hana (UnfreezeFailed p res)))"

definition released :: "disk_world \<Rightarrow> string \<Rightarrow> (disk_error, 'a) result \<Rightarrow> disk_call list \<Rightarrow> bool" where
  "released w p r log \<longleftrightarrow> frozen w log = {} \<or> frozen w log = {p} \<and> thawFailed p r"

text \<open>The thaw that follows a snapshot, whatever the snapshot's result.\<close>

lemma thawed:
  assumes "frozen w log \<subseteq> {hanaDataPath s}" "FreezeFileSystem s \<or> frozen w log = {}"
  shows "wp (unfreezeIfAsked w s) (\<lambda>r log'. released w (hanaDataPath s) r log' \<and> (\<forall>u. r = Inr u \<longrightarrow> frozen w log' = {})) log"
proof (cases "FreezeFileSystem s")
  case True
  let ?c = "Exec (unfreezeCmd (hanaDataPath s))"
  have c: "\<not> isFreeze ?c" "isThaw ?c" "frozenPath ?c = hanaDataPath s" by (simp_all add: unfreezeCmd_def hasPrefix_def)
  show ?thesis
    using assms(1) True c
    by (auto simp: unfreezeIfAsked_def hanaErr_def UnFreezeXFS_def exec_def wp_rules released_def thawFailed_def freezeStep_def)
qed (use assms in \<open>simp add: unfreezeIfAsked_def wp_rules released_def\<close>)

definition isUploadWait :: "disk_call \<Rightarrow> bool" where
  "isUploadWait c \<longleftrightarrow> (case c of WaitUploaded _ _ \<Rightarrow> True | WaitSGUploaded _ \<Rightarrow> True | WaitConverted _ _ \<Rightarrow> True | _ \<Rightarrow> False)"

text \<open>Uploads are waited for only when nothing is frozen.\<close>

definition uploadsThawed :: "disk_world \<Rightarrow> disk_call list \<Rightarrow> bool" where
  "uploadsThawed w log \<longleftrightarrow> guarded (\<lambda>l. frozen w l = {}) isUploadWait log"

lemma uploadsThawed_free: "calls_only (\<lambda>c. \<not> isUploadWait c) m \<Longrightarrow> uploadsThawed w log \<Longrightarrow> wp m (\<lambda>_. uploadsThawed w) log"
  unfolding uploadsThawed_def by (rule guarded_free)

lemma uploadsThawed_noFreeze:
  assumes "calls_only noFreeze m" "frozen w log = {}" "uploadsThawed w log"
  shows "wp m (\<lambda>_ log'. frozen w log' = {} \<and> uploadsThawed w log') log"
proof (rule wp_mono [OF calls_onlyD [OF assms(1)]], elim exE conjE)
  fix log' new
  assume "log' = new @ log" "list_all noFreeze new"
  moreover have "list_all noFreeze new \<Longrightarrow> frozen w (new @ log) = {} \<and> uploadsThawed w (new @ log)"
    by (induction new) (use assms(2,3) in \<open>auto simp: freezeStep_def noFreeze_def uploadsThawed_def\<close>)
  ultimately show "frozen w log' = {} \<and> uploadsThawed w log'" by simp
qed

lemma noFreeze_released:
  "calls_only noFreeze m \<Longrightarrow> frozen w log = {} \<Longrightarrow> uploadsThawed w log \<Longrightarrow>
   wp m (\<lambda>r log'. released w p r log' \<and> uploadsThawed w log') log"
  by (rule wp_mono [OF uploadsThawed_noFreeze]) (auto simp: released_def)

lemma thawed_section:
  assumes "frozen w log = {}" "uploadsThawed w log"
    and create: "calls_only (freezesOnly (hanaDataPath s)) create" "\<not> FreezeFileSystem s \<Longrightarrow> calls_only noFreeze create"
      "calls_only (\<lambda>c. \<not> isUploadWait c) create"
    and same: "wp create (\<lambda>r _. FreezeFileSystem (t r) = FreezeFileSystem s \<and> hanaDataPath (t r) = hanaDataPath s) log"
    and rest: "\<And>r. calls_only noFreeze (f r)"
  shows "wp (do { r \<leftarrow> create; bindE (unfreezeIfAsked w (t r)) (\<lambda>_. f r) })
    (\<lambda>r log'. released w (hanaDataPath s) r log' \<and> uploadsThawed w log') log"
proof -
  let ?p = "hanaDataPath s"
  have "wp create (\<lambda>_ log'. FreezeFileSystem s \<or> frozen w log' = {}) log"
  proof (cases "FreezeFileSystem s")
    case False
    from frozen_kept [OF create(2) [OF this], of w log] assms(1) show ?thesis by (auto elim: wp_mono)
  qed (simp add: wp_def split: prod.splits)
  moreover have "wp create (\<lambda>_ log'. frozen w log' \<subseteq> {?p}) log"
    by (rule freezesOnly_frozen [OF create(1)]) (simp add: assms(1))
  moreover note uploadsThawed_free [OF create(3) assms(2)] same
  ultimately have "wp create (\<lambda>r log'. (FreezeFileSystem s \<or> frozen w log' = {}) \<and> frozen w log' \<subseteq> {?p} \<and>
      uploadsThawed w log' \<and> FreezeFileSystem (t r) = FreezeFileSystem s \<and> hanaDataPath (t r) = ?p) log"
    by (rule wp_conj [OF _ wp_conj [OF _ wp_conj]])
  then show ?thesis
    unfolding wp_bind
  proof (rule wp_mono, elim conjE, goal_cases)
    case (1 r log1)
    have thaw: "calls_only (\<lambda>c. \<not> isUploadWait c) (unfreezeIfAsked w (t r))"
      by (auto simp: unfreezeIfAsked_def UnFreezeXFS_def isUploadWait_def intro!: calls_rules)
    have "wp (unfreezeIfAsked w (t r)) (\<lambda>r log'. (released w ?p r log' \<and> (\<forall>u. r = Inr u \<longrightarrow> frozen w log' = {})) \<and>
        uploadsThawed w log') log1"
      using 1 by (intro wp_conj uploadsThawed_free [OF thaw] thawed [of w log1 "t r", simplified 1]) auto
    then show ?case
    proof (rule bindE_wp)
      fix a log2
      assume "(released w ?p (Inr a) log2 \<and> (\<forall>u. Inr a = Inr u \<longrightarrow> frozen w log2 = {})) \<and> uploadsThawed w log2"
      then show "wp (f r) (\<lambda>r log'. released w ?p r log' \<and> uploadsThawed w log') log2"
        by (intro noFreeze_released rest) auto
    qed (auto simp: released_def thawFailed_def)
  qed
qed

section \<open>Closing the HANA snapshot\<close>

text \<open>Errors of the storage side and of the database side.\<close>

fun database_error :: "disk_error \<Rightarrow> bool" where
  "database_error (DbError e) = True"
| "database_error NoSnapshotId = True"
| "database_error _ = False"

fun precondition_error :: "disk_error \<Rightarrow> bool" where
  "precondition_error (AttachCheckFailed d e) = True"
| "precondition_error (NotAttached d) = True"
| "precondition_error AlreadyPrepared = True"
| "precondition_error _ = False"

definition storage_error :: "disk_error \<Rightarrow> bool" where
  "storage_error e \<longleftrightarrow> \<not> thaw_error e \<and> \<not> database_error e \<and> \<not> precondition_error e"

text \<open>How a run may leave the HANA snapshot: confirmed after a success, abandoned after any error of the
  storage side, and still prepared only if HANA itself or the thaw failed.\<close>

definition hana_settled :: "(disk_error, unit) result \<Rightarrow> disk_call list \<Rightarrow> bool" where
  "hana_settled r log \<longleftrightarrow>
     (case r of
        Inr _ \<Rightarrow> hanaState log = Confirmed
      | Inl e \<Rightarrow> (storage_error e \<longrightarrow> hanaState log = Abandoned) \<and>
                 (hanaState log = Prepared \<longrightarrow> thaw_error e \<or> database_error e))"

lemma storage_simps [simp]:
  "storage_error (GceError e)" "storage_error (UploadFailed e)" "storage_error NoComputeService"
  "storage_error (CreateFailed n x)" "storage_error (BadZone z)" "storage_error (NotInUse d)"
  "\<not> storage_error (DbError e)" "\<not> storage_error NoSnapshotId" "\<not> storage_error AlreadyPrepared"
  "\<not> storage_error (NotAttached d)" "\<not> storage_error (AttachCheckFailed d e)"
  "storage_error (Hana (FreezeFailed p r))" "\<not> storage_error (Hana (UnfreezeFailed p r))"
  "storage_error (Hana (KeyFileError m))" "storage_error (Hana BadKeyFile)" "storage_error (Hana (NoKey u f))"
  by (simp_all add: storage_error_def)

lemma ReadKey_error: "ReadKey dec c f u = Inl e \<Longrightarrow> storage_error (Hana e)"
  by (auto simp: ReadKey_def Let_def split: sum.splits option.splits if_splits)

lemma storage_only:
  "wp (diskKey w s) (\<lambda>r _. \<forall>e. r = Inl e \<longrightarrow> storage_error e) log"
  "wp (freezeIfAsked w s) (\<lambda>r _. \<forall>e. r = Inl e \<longrightarrow> storage_error e) log"
  "wp (perform w GceError c) (\<lambda>r _. \<forall>e. r = Inl e \<longrightarrow> storage_error e) log"
  "wp (startSnapshot w req) (\<lambda>r _. \<forall>e. r = Inl e \<longrightarrow> storage_error e) log"
  by (auto simp: diskKey_def freezeIfAsked_def hanaErr_def FreezeXFS_def exec_def perform_def startSnapshot_def wp_rules
      dest: ReadKey_error split: sum.splits option.splits)

lemma bindE_storage:
  assumes "wp m (\<lambda>r _. \<forall>e. r = Inl e \<longrightarrow> storage_error e) log"
    and "\<And>a log'. wp (f a) (\<lambda>r _. \<forall>e. r = Inl e \<longrightarrow> storage_error e) log'"
  shows "wp (bindE m f) (\<lambda>r _. \<forall>e. r = Inl e \<longrightarrow> storage_error e) log"
  by (rule bindE_wp [OF assms(1)]) (use assms(2) in auto)

lemma createDiskSnapshot_error:
  "wp (createDiskSnapshot w s i) (\<lambda>r _. \<forall>e. r = Inl e \<longrightarrow> storage_error e) log"
proof -
  have "wp (createBackup w s req) (\<lambda>r _. \<forall>e. r = Inl e \<longrightarrow> storage_error e) log1" for req log1
    unfolding createBackup_def
  proof (rule bindE_storage [OF storage_only(1)])
    fix key log2
    show "wp (if \<not> haveCompute w then ret (Inl NoComputeService)
        else bindE (freezeIfAsked w s) (\<lambda>_. bindE (startSnapshot w (req\<lparr>sr_key := key\<rparr>)) (\<lambda>op.
          bindE (perform w GceError (WaitCreated op (SnapshotName s))) (\<lambda>_. ret (Inr op)))))
        (\<lambda>r _. \<forall>e. r = Inl e \<longrightarrow> storage_error e) log2"
    proof (cases "haveCompute w")
      case True
      then show ?thesis by (simp only: if_False not_True_eq_False)
          (intro bindE_storage storage_only, simp add: wp_return)
    qed (simp add: wp_return)
  qed
  then show ?thesis
    unfolding createDiskSnapshot_def wp_bind by (simp add: wp_def split: prod.splits)
qed

lemma createISG_error: "wp (createISG w s q) (\<lambda>r _. \<forall>e. r = Inl e \<longrightarrow> storage_error e) log"
  unfolding createISG_def by (intro bindE_storage storage_only)

lemma createInstantSnapshotGroup_error:
  "wp (createInstantSnapshotGroup w s) (\<lambda>r _. \<forall>e. fst r = Inl e \<longrightarrow> storage_error e) log"
proof -
  have "wp (if b then ret (Inl (BadZone z)) else createISG w s1 q) (\<lambda>r. wp (ret (r, s1)) (\<lambda>r _. \<forall>e. fst r = Inl e \<longrightarrow> storage_error e)) log1"
    for b z s1 q log1
    using wp_mono [OF createISG_error [of w s1 q log1]] by (auto simp: wp_rules)
  then show ?thesis
    unfolding createInstantSnapshotGroup_def wp_bind by (simp add: wp_def split: prod.splits)
qed

lemma createNewHANASnapshot_prepared:
  "wp (createNewHANASnapshot w s) (\<lambda>r log'. case r of
     Inl e \<Rightarrow> database_error e | Inr i \<Rightarrow> hanaState log' = Prepared) log"
  by (auto simp: createNewHANASnapshot_def queryHana_def wp_bindE wp_rules split: sum.splits)

lemma abandonPreparedSnapshot_settled:
  "hanaState log = Idle \<Longrightarrow> wp (abandonPreparedSnapshot w s) (\<lambda>r log'. \<forall>e. r = Inl e \<longrightarrow> hana_settled (Inl e) log') log"
  by (auto simp: abandonPreparedSnapshot_def abandonHANASnapshot_def queryHana_def wp_bindE wp_rules hana_settled_def
      split: sum.splits)

lemma attached_error:
  "wp (isDiskAttachedToInstance w d) (\<lambda>r log'. (\<forall>e. r = Inl e \<longrightarrow> precondition_error e) \<and> hanaState log' = hanaState log) log"
  by (auto simp: isDiskAttachedToInstance_def wp_rules split: sum.splits)

lemma unfreezeIfAsked_error:
  "wp (unfreezeIfAsked w s) (\<lambda>r log'. (\<forall>e. r = Inl e \<longrightarrow> thaw_error e) \<and> hanaState log' = hanaState log) log"
  by (auto simp: unfreezeIfAsked_def hanaErr_def UnFreezeXFS_def exec_def wp_rules split: option.splits)

text \<open>The upload of the disk snapshot has been waited for: after HANA was told of the success if it is to be told
  when the disk snapshot is created, and before otherwise.\<close>

definition uploaded :: "disk_world \<Rightarrow> snapshot \<Rightarrow> disk_call list \<Rightarrow> bool" where
  "uploaded w s log \<longleftrightarrow> (\<exists>op new log1. log = new @ WaitUploaded op (SnapshotName s) # log1 \<and>
     done_env w log1 (WaitUploaded op (SnapshotName s)) = None \<and>
     hanaState log1 = (if ConfirmDataSnapshotAfterCreate s then Confirmed else Prepared))"

lemma uploadedI:
  "done_env w log1 (WaitUploaded op (SnapshotName s)) = None \<Longrightarrow>
   hanaState log1 = (if ConfirmDataSnapshotAfterCreate s then Confirmed else Prepared) \<Longrightarrow>
   uploaded w s (WaitUploaded op (SnapshotName s) # log1)"
  unfolding uploaded_def by (metis append_Nil)

lemma uploaded_Cons: "uploaded w s log \<Longrightarrow> uploaded w s (c # log)"
  unfolding uploaded_def by (metis append_Cons)

lemma finishDiskSnapshot_settled:
  assumes "hanaState log = Prepared" and "\<And>e. created = Inl e \<Longrightarrow> storage_error e"
  shows "wp (finishDiskSnapshot w s i created)
    (\<lambda>r log'. hana_settled r log' \<and> (\<forall>u. r = Inr u \<longrightarrow> uploaded w s log')) log"
proof (cases created)
  case (Inl e)
  with assms show ?thesis
    by (simp add: finishDiskSnapshot_def diskSnapshotFailureHandler_def abandonHANASnapshot_def queryHana_def
        wp_bindE wp_rules hana_settled_def split: sum.splits)
next
  case (Inr op)
  show ?thesis
  proof (cases "ConfirmDataSnapshotAfterCreate s")
    case True
    with Inr assms show ?thesis
      by (auto simp: finishDiskSnapshot_def diskSnapshotFailureHandler_def abandonHANASnapshot_def queryHana_def
          markSnapshotAsSuccessful_def perform_def wp_bindE wp_rules hana_settled_def
          intro!: uploadedI split: sum.splits option.splits)
  next
    case False
    with Inr assms show ?thesis
      by (auto simp: finishDiskSnapshot_def diskSnapshotFailureHandler_def abandonHANASnapshot_def queryHana_def
          markSnapshotAsSuccessful_def perform_def wp_bindE wp_rules hana_settled_def
          intro!: uploaded_Cons [OF uploadedI] split: sum.splits option.splits)
  qed
qed

text \<open>The part of a workflow between the creation of the HANA snapshot and its end.\<close>

lemma noHana_createDiskSnapshot: "calls_only noHana (createDiskSnapshot w s i)"
  by (rule createDiskSnapshot_calls [OF plain_noHana]) (simp_all add: calls_rules)

lemma after_prepared:
  assumes "hanaState log = Prepared" and create: "calls_only noHana create"
    and err: "wp create (\<lambda>r _. K r \<and> (\<forall>e. res r = Inl e \<longrightarrow> storage_error e)) log"
    and finish: "\<And>r log1. K r \<Longrightarrow> hanaState log1 = Prepared \<Longrightarrow> (\<And>e. res r = Inl e \<Longrightarrow> storage_error e) \<Longrightarrow>
      wp (f r) (\<lambda>r log'. hana_settled r log' \<and> Q r log') log1"
    and Q: "\<And>e log'. Q (Inl e) log'"
  shows "wp (do { r \<leftarrow> create; bindE (unfreezeIfAsked w (t r)) (\<lambda>_. f r) })
    (\<lambda>r log'. hana_settled r log' \<and> Q r log') log"
  unfolding wp_bind
proof (rule wp_mono [OF wp_conj [OF hana_kept [OF create] err]], elim conjE, goal_cases)
  case (1 r log1)
  show ?case
  proof (rule bindE_wp [OF unfreezeIfAsked_error], goal_cases)
    case (1 e log2)
    then show ?case by (cases "thaw_error e") (auto simp: hana_settled_def storage_error_def Q)
  next
    case (2 u log2)
    with 1 assms(1) show ?case by (intro finish) auto
  qed
qed

text \<open>The conversion of instant snapshots.\<close>

lemma diskInstance_error: "wp (diskInstance w d) (\<lambda>r _. \<forall>e. r = Inl e \<longrightarrow> storage_error e) log"
  by (auto simp: diskInstance_def getDisk_def wp_bindE wp_rules split: sum.splits list.splits)

lemma createGroupBackup_error: "wp (createGroupBackup w s x) (\<lambda>r _. \<forall>e. r = Inl e \<longrightarrow> storage_error e) log"
proof -
  have one: "wp (bindE (convertOne w n req) (\<lambda>op. ret (Inr (op, m)))) (\<lambda>r _. \<forall>e. r = Inl e \<longrightarrow> storage_error e) log1"
    for n m req log1
    by (auto simp: convertOne_def perform_def wp_bindE wp_rules split: sum.splits option.splits)
  have keyed: "wp (do { ls \<leftarrow> labelsFor w s d i; key \<leftarrow> diskKey w s;
        case key of Inl e \<Rightarrow> ret (Inl (CreateFailed n e))
        | Inr k \<Rightarrow> bindE (convertOne w n (req ls k)) (\<lambda>op. ret (Inr (op, m))) })
      (\<lambda>r _. \<forall>e. r = Inl e \<longrightarrow> storage_error e) log1" for d i n m req log1
    unfolding wp_bind
  proof (rule wp_mono [OF wp_triv], rule wp_mono [OF wp_triv], goal_cases)
    case (1 ls log2 key log3)
    show ?case using one by (cases key) (simp_all add: wp_return)
  qed
  show ?thesis
    unfolding createGroupBackup_def wp_bind wp_call Let_def by (intro bindE_storage diskInstance_error keyed)
qed

lemma convertAll_error: "wp (convertAll w s xs) (\<lambda>r _. \<forall>e \<in> set (fst r). storage_error e) log"
proof (induction xs arbitrary: log)
  case (Cons x xs)
  show ?case
    unfolding convertAll.simps(2) wp_bind
  proof (rule wp_mono [OF createGroupBackup_error], goal_cases)
    case (1 r log1)
    show ?case by (rule wp_mono [OF Cons.IH]) (use 1 in \<open>auto simp: wp_return split: sum.splits\<close>)
  qed
qed (simp add: wp_return)

lemma convert_error: "wp (convertISGInstantSnapshots w s) (\<lambda>r _. \<forall>e. r = Inl e \<longrightarrow> storage_error e) log"
  unfolding convertISGInstantSnapshots_def
proof (rule bindE_storage)
  show "wp (listItems w (DescribeISG (GroupSnapshotName s))) (\<lambda>r _. \<forall>e. r = Inl e \<longrightarrow> storage_error e) log"
    by (auto simp: listItems_def wp_rules split: sum.splits)
  show "wp (do { r \<leftarrow> convertAll w s a; ret (case fst r of [] \<Rightarrow> Inr (snd r) | e # _ \<Rightarrow> Inl e) })
      (\<lambda>r _. \<forall>e. r = Inl e \<longrightarrow> storage_error e) log1" for a log1
    unfolding wp_bind by (rule wp_mono [OF convertAll_error]) (auto simp: wp_return split: list.splits)
qed

lemma abandonGroup_settled: "storage_error e \<Longrightarrow> wp (abandonGroup w s i e)
    (\<lambda>r log'. (\<exists>e. r = Inl e) \<and> hana_settled r log') log"
  by (simp add: abandonGroup_def diskSnapshotFailureHandler_def abandonHANASnapshot_def queryHana_def cleanUp_def
      wp_bindE wp_rules hana_settled_def split: sum.splits)

lemma confirm_settled:
  "hanaState log = Prepared \<Longrightarrow> wp (confirmDataSnapshotAfterCreate w s i)
     (\<lambda>r log'. (\<forall>e. r = Inl e \<longrightarrow> hana_settled r log') \<and>
        (\<forall>u. r = Inr u \<longrightarrow> hanaState log' = (if ConfirmDataSnapshotAfterCreate s then Confirmed else Prepared))) log"
  by (auto simp: confirmDataSnapshotAfterCreate_def markSnapshotAsSuccessful_def queryHana_def cleanUp_def
      wp_bindE wp_rules hana_settled_def split: sum.splits)

lemma waitConversions_settled:
  "wp (waitConversions w s i xs)
     (\<lambda>r log'. (\<forall>e. r = Inl e \<longrightarrow> hana_settled r log') \<and> (\<forall>u. r = Inr u \<longrightarrow> hanaState log' = hanaState log)) log"
proof (induction xs arbitrary: log)
  case (Cons x xs)
  have "wp (abandonGroup w s i (UploadFailed e))
      (\<lambda>r log'. (\<forall>e. r = Inl e \<longrightarrow> hana_settled r log') \<and> (\<forall>u. r = Inr u \<longrightarrow> hanaState log' = hanaState log)) log1"
    for e log1 by (rule wp_mono [OF abandonGroup_settled]) auto
  moreover have "wp (waitConversions w s i xs)
      (\<lambda>r log'. (\<forall>e. r = Inl e \<longrightarrow> hana_settled r log') \<and> (\<forall>u. r = Inr u \<longrightarrow> hanaState log' = hanaState log))
      (WaitConverted (fst x) (snd x) # log)"
    using Cons.IH [of "WaitConverted (fst x) (snd x) # log"] by simp
  ultimately show ?case
    by (simp add: perform_def wp_bind wp_call wp_return split: option.splits)
qed (simp add: wp_return)

lemma conversionWorkflow_settled:
  assumes "hanaState log = Prepared"
  shows "wp (conversionWorkflow w s i)
    (\<lambda>r log'. (\<forall>e. r = Inl e \<longrightarrow> hana_settled r log') \<and>
       (\<forall>u. r = Inr u \<longrightarrow> hanaState log' = (if ConfirmDataSnapshotAfterCreate s then Confirmed else Prepared))) log"
  unfolding conversionWorkflow_def wp_bind
proof (rule wp_mono [OF wp_conj [OF convert_error [of w s log]
      hana_kept [OF noHana_plain [OF plain_convert [of w s]], of log]]], goal_cases)
  case (1 r log1)
  show ?case
  proof (cases r)
    case (Inl e)
    with 1 have "wp (abandonGroup w s i e) (\<lambda>r log'. (\<exists>e. r = Inl e) \<and> hana_settled r log') log1"
      by (intro abandonGroup_settled) auto
    with Inl show ?thesis by (auto intro: wp_mono)
  next
    case (Inr ops)
    have "wp (bindE (confirmDataSnapshotAfterCreate w s i) (\<lambda>_. waitConversions w s i ops))
        (\<lambda>r log'. (\<forall>e. r = Inl e \<longrightarrow> hana_settled r log') \<and>
           (\<forall>u. r = Inr u \<longrightarrow> hanaState log' = (if ConfirmDataSnapshotAfterCreate s then Confirmed else Prepared))) log1"
    proof (rule bindE_wp [OF confirm_settled])
      show "hanaState log1 = Prepared" using 1 assms by simp
    next
      fix a log2
      assume "(\<forall>e. Inr a = Inl e \<longrightarrow> hana_settled (Inr a) log2) \<and>
        (\<forall>u. Inr a = Inr u \<longrightarrow> hanaState log2 = (if ConfirmDataSnapshotAfterCreate s then Confirmed else Prepared))"
      then show "wp (waitConversions w s i ops) (\<lambda>r log'. (\<forall>e. r = Inl e \<longrightarrow> hana_settled r log') \<and>
           (\<forall>u. r = Inr u \<longrightarrow> hanaState log' = (if ConfirmDataSnapshotAfterCreate s then Confirmed else Prepared))) log2"
        by (intro wp_mono [OF waitConversions_settled]) auto
    qed auto
    with Inr show ?thesis by simp
  qed
qed

lemma finishGroup_settled:
  assumes "\<not> UseSnapshotGroupWorkflow s" and "hanaState log = Prepared" and "\<And>e. created = Inl e \<Longrightarrow> storage_error e"
  shows "wp (finishGroup w s i created) (\<lambda>r log'. hana_settled r log') log"
proof (cases created)
  case (Inl e)
  with assms show ?thesis
    by (simp add: finishGroup_def diskSnapshotFailureHandler_def abandonHANASnapshot_def queryHana_def
        wp_bindE wp_rules hana_settled_def split: sum.splits)
next
  case (Inr u)
  have "wp (bindE (conversionWorkflow w s i) (\<lambda>_. do {
          _ \<leftarrow> cleanUp w (DeleteISG (GroupSnapshotName s));
          (if \<not> ConfirmDataSnapshotAfterCreate s then markSnapshotAsSuccessful w s i else ret (Inr ()))
        })) (\<lambda>r log'. hana_settled r log') log"
    by (rule bindE_wp [OF conversionWorkflow_settled [OF assms(2)]])
       (auto simp: cleanUp_def markSnapshotAsSuccessful_def queryHana_def wp_bindE wp_rules hana_settled_def
         split: sum.splits)
  with Inr assms(1) show ?thesis by (simp add: finishGroup_def)
qed

lemma noHana_createGroup: "calls_only noHana (createInstantSnapshotGroup w s)"
  by (rule createInstantSnapshotGroup_calls [OF plain_noHana]) (simp_all add: calls_rules)

lemma createGroup_keeps_workflow:
  "wp (createInstantSnapshotGroup w s)
     (\<lambda>r _. UseSnapshotGroupWorkflow (snd r) = UseSnapshotGroupWorkflow s \<and> (\<forall>e. fst r = Inl e \<longrightarrow> storage_error e)) log"
proof (rule wp_conj [OF _ createInstantSnapshotGroup_error])
  have "wp (withGroupName w s) (\<lambda>s' _. UseSnapshotGroupWorkflow s' = UseSnapshotGroupWorkflow s) log"
    by (auto simp: withGroupName_def updateSnapshotName_def Let_def wp_rules)
  then show "wp (createInstantSnapshotGroup w s) (\<lambda>r _. UseSnapshotGroupWorkflow (snd r) = UseSnapshotGroupWorkflow s) log"
    unfolding createInstantSnapshotGroup_def wp_bind
    by (rule wp_mono) (simp add: wp_def split: prod.splits)
qed

lemma allAttached_error:
  "wp (allAttached w ds) (\<lambda>r log'. (\<forall>e. r = Inl e \<longrightarrow> precondition_error e) \<and> hanaState log' = hanaState log) log"
proof (induction ds arbitrary: log)
  case (Cons d ds)
  show ?case
    unfolding allAttached.simps(2)
  proof (rule bindE_wp [OF attached_error], goal_cases)
    case (2 a log1)
    then show ?case using Cons.IH [of log1] by simp
  qed simp
qed (simp add: wp_return)

text \<open>The beginning that all workflows with HANA share.\<close>

lemma start_settled:
  assumes "hanaState log = Idle"
    and check: "wp check (\<lambda>r log'. (\<forall>e. r = Inl e \<longrightarrow> precondition_error e) \<and> hanaState log' = hanaState log) log"
  shows "wp (bindE check (\<lambda>_. bindE (abandonPreparedSnapshot w s) (\<lambda>_. createNewHANASnapshot w s)))
    (\<lambda>r log'. (\<forall>e. r = Inl e \<longrightarrow> hana_settled (Inl e) log') \<and> (\<forall>i. r = Inr i \<longrightarrow> hanaState log' = Prepared)) log"
proof (rule bindE_wp [OF check], goal_cases)
  case (1 e log1)
  with assms show ?case by (auto simp: hana_settled_def storage_error_def)
next
  case (2 u log1)
  with assms have "hanaState log1 = Idle" by simp
  then show ?case
  proof (rule bindE_wp [OF abandonPreparedSnapshot_settled], goal_cases)
    case (1 e log2)
    then show ?case by simp
  next
    case (2 u log2)
    show ?case
      by (rule wp_mono [OF createNewHANASnapshot_prepared])
         (auto simp: hana_settled_def storage_error_def split: sum.splits)
  qed
qed

text \<open>How a workflow leaves the file system of the data directory, and its uploads.\<close>

definition thawedAfter :: "disk_world \<Rightarrow> snapshot \<Rightarrow> (disk_error, unit) result \<Rightarrow> disk_call list \<Rightarrow> bool" where
  "thawedAfter w s r log \<longleftrightarrow> released w (hanaDataPath s) r log \<and> uploadsThawed w log"

lemma thawedAfter_bindE:
  assumes "calls_only noFreeze m" "frozen w log = {}" "uploadsThawed w log"
    and "\<And>a log'. frozen w log' = {} \<Longrightarrow> uploadsThawed w log' \<Longrightarrow> wp (f a) (thawedAfter w s) log'"
  shows "wp (bindE m f) (thawedAfter w s) log"
  by (rule bindE_wp [OF uploadsThawed_noFreeze [OF assms(1-3)]]) (auto simp: thawedAfter_def released_def intro: assms(4))

lemma noUpload_freezeIfAsked: "calls_only (\<lambda>c. \<not> isUploadWait c) (freezeIfAsked w s)"
  by (auto simp: freezeIfAsked_def FreezeXFS_def isUploadWait_def intro!: calls_rules)

lemma noUpload_createDiskSnapshot: "calls_only (\<lambda>c. \<not> isUploadWait c) (createDiskSnapshot w s i)"
  unfolding createDiskSnapshot_def createBackup_def labelsFor_def diskKey_def startSnapshot_def
  by (auto simp: isUploadWait_def Let_def intro!: calls_rules noUpload_freezeIfAsked [unfolded isUploadWait_def])

lemma noUpload_createGroup: "calls_only (\<lambda>c. \<not> isUploadWait c) (createInstantSnapshotGroup w s)"
  unfolding createInstantSnapshotGroup_def createISG_def withGroupName_def diskKey_def
  by (auto simp: isUploadWait_def Let_def intro!: calls_rules noUpload_freezeIfAsked [unfolded isUploadWait_def])

lemma diskSection_thaws:
  assumes "frozen w log = {}" "uploadsThawed w log" "\<And>r. calls_only noFreeze (f r)"
  shows "wp (do { r \<leftarrow> createDiskSnapshot w s i; bindE (unfreezeIfAsked w s) (\<lambda>_. f r) }) (thawedAfter w s) log"
  unfolding thawedAfter_def
  by (rule thawed_section [where t = "\<lambda>_. s" and s = s, OF assms(1,2)])
    (auto intro: createDiskSnapshot_calls plain_noFreeze noFreeze_freezeIfAsked freezesOnly_plain
      freezesOnly_freezeIfAsked noUpload_createDiskSnapshot assms(3) simp: wp_triv)

lemma singleWorkflow_thaws:
  "frozen w log = {} \<Longrightarrow> uploadsThawed w log \<Longrightarrow> wp (runWorkflowForDiskSnapshot w cp s) (thawedAfter w s) log"
  unfolding runWorkflowForDiskSnapshot_def
  by (intro thawedAfter_bindE diskSection_thaws noFreeze_plain [OF plain_attached] noFreeze_abandon noFreeze_finishDiskSnapshot)

lemma changeWorkflow_thaws:
  assumes "frozen w log = {}" "uploadsThawed w log"
  shows "wp (runWorkflowForChangeDiskType w cp s) (thawedAfter w s) log"
proof -
  have stop: "calls_only noFreeze (prepareForChangeDiskTypeWorkflow w s)"
    by (auto simp: prepareForChangeDiskTypeWorkflow_def StopHANA_def WaitForIndexServerToStopWithRetry_def
        waitForIndexServerToStop_def noFreeze_def stopCmd_def indexServerCmd_def intro!: calls_rules calls_only_retry)
  show ?thesis
    unfolding runWorkflowForChangeDiskType_def
    by (intro thawedAfter_bindE stop noFreeze_plain [OF plain_attached] diskSection_thaws calls_rules noFreeze_done assms)
qed

lemma groupWorkflow_thaws:
  assumes "frozen w log = {}" "uploadsThawed w log"
  shows "wp (runWorkflowForInstantSnapshotGroups w s) (\<lambda>r. thawedAfter w s (fst r)) log"
proof -
  have first: "calls_only noFreeze (bindE (allAttached w (disks s))
      (\<lambda>_. bindE (abandonPreparedSnapshot w s) (\<lambda>_. createNewHANASnapshot w s)))"
    by (intro calls_only_bindE noFreeze_plain [OF plain_allAttached] noFreeze_abandon)
  have group: "wp (do { cs \<leftarrow> createInstantSnapshotGroup w s;
        r \<leftarrow> bindE (unfreezeIfAsked w (snd cs)) (\<lambda>_. finishGroup w (snd cs) i (fst cs));
        ret (r, snd cs) }) (\<lambda>r. thawedAfter w s (fst r)) log1" if "frozen w log1 = {}" "uploadsThawed w log1" for i log1
  proof -
    have "wp (do { cs \<leftarrow> createInstantSnapshotGroup w s;
        bindE (unfreezeIfAsked w (snd cs)) (\<lambda>_. finishGroup w (snd cs) i (fst cs)) }) (thawedAfter w s) log1"
      unfolding thawedAfter_def
      by (rule thawed_section [where s = s, OF that])
         (auto intro: createInstantSnapshotGroup_calls plain_noFreeze noFreeze_freezeIfAsked freezesOnly_plain
           freezesOnly_freezeIfAsked noUpload_createGroup createInstantSnapshotGroup_keeps calls_rules)
    then show ?thesis unfolding wp_bind by (simp add: wp_return_fun wp_return)
  qed
  show ?thesis
    unfolding runWorkflowForInstantSnapshotGroups_def wp_bind
  proof (rule wp_mono [OF uploadsThawed_noFreeze [OF first assms, unfolded wp_bind]], goal_cases)
    case (1 r log1)
    then show ?case
      using group [of log1] by (cases r) (simp_all add: wp_return wp_bind Let_def thawedAfter_def released_def)
  qed
qed

lemma single_settled:
  assumes "hanaState log = Idle"
  shows "wp (runWorkflowForDiskSnapshot w cp s)
    (\<lambda>r log'. hana_settled r log' \<and> (\<forall>u. r = Inr u \<longrightarrow> uploaded w s log')) log"
proof -
  have run: "runWorkflowForDiskSnapshot w cp s =
      bindE (bindE (isDiskAttachedToInstance w (Disk s)) (\<lambda>_. bindE (abandonPreparedSnapshot w s)
        (\<lambda>_. createNewHANASnapshot w s)))
      (\<lambda>i. do { created \<leftarrow> createDiskSnapshot w s (InstanceName cp);
                bindE (unfreezeIfAsked w s) (\<lambda>_. finishDiskSnapshot w s i created) })"
    by (simp add: runWorkflowForDiskSnapshot_def bindE_assoc)
  show ?thesis
    unfolding run
  proof (rule bindE_wp [OF start_settled [OF assms attached_error]], goal_cases)
    case (2 i log1)
    then show ?case
      by (intro after_prepared [where res = id and K = "\<lambda>_. True"] noHana_createDiskSnapshot finishDiskSnapshot_settled)
         (auto intro: createDiskSnapshot_error)
  qed simp
qed

section \<open>A sample environment\<close>

text \<open>Everything succeeds, except that there is no key file and that a file system can only be thawed if
  it is frozen.\<close>

definition sampleDiskWorld :: disk_world where
  "sampleDiskWorld = \<lparr>
     exec_env = \<lambda>log c. (if isThaw c \<and> \<not> list_ex isFreeze log then failResult ''not frozen'' 1 else okResult []),
     done_env = \<lambda>_ _. None,
     value_env = \<lambda>log c. (case c of
         RunQuery q \<Rightarrow> Inr (if q = ReadPrepared \<and> hanaState log = Prepared then ''17'' else [])
       | ReadKeyFile f \<Rightarrow> Inl ''no such file''
       | _ \<Rightarrow> Inr ''op''),
     attached_env = \<lambda>_ _. Inr True,
     disk_env = \<lambda>_ _. Inr \<lparr>Users = [''vm1''], ResourcePolicies = [''a/resourcePolicies/cg''], ProvisionedIops = 0,
                          ProvisionedThroughput = 0\<rparr>,
     mapping_env = \<lambda>_ _. Inr [],
     items_env = \<lambda>_ _. Inr [(''i1'', ''disks/d1'')],
     clock_env = \<lambda>_ _. 7,
     stamp_env = \<lambda>_ _. ''20240101-000000utc'',
     decodeKeys = \<lambda>_. None, safeFmt = \<lambda>_ _. None, sha224 = \<lambda>x. x, agentVersion = ''3.10'',
     computePrefix = [], haveCompute = True\<rparr>"

definition sampleSnapshot :: snapshot where
  "sampleSnapshot = \<lparr>Project = ''p'', Port = ''30013'', Sid = ''HDB'', HanaSidAdm = ''hdbadm'', InstanceID = [],
     HanaDBUser = ''SYSTEM'', Password = ''x'', PasswordSecret = [], HDBUserstoreKey = [], Disk = ''d1'', Disks = [],
     DiskZone = ''us-east1-b'', DiskKeyFile = [], StorageLocation = [], SnapshotName = ''snap'',
     SnapshotType = ''STANDARD'', Description = [], AbandonPrepared = False, FreezeFileSystem = True,
     ConfirmDataSnapshotAfterCreate = False, SnapshotPrefix = [], GroupSnapshotName = ''group'', disks = [''d1''],
     SkipDBSnapshotForChangeDiskType = False, hanaDataPath = ''/hana/data'', logicalDataPath = [],
     physicalDataPath = [], Labels = [], cgName = ''cg'', groupSnapshot = False, sidadmUser = False,
     provisionedIops = 0, provisionedThroughput = 0, UseSnapshotGroupWorkflow = False\<rparr>"

definition sampleProps :: cloud_properties where
  "sampleProps = \<lparr>ProjectId = ''p'', Zone = ''us-east1-b'', InstanceName = ''vm1''\<rparr>"

text \<open>If the key file cannot be read, nothing is frozen; the thaw that follows fails, and its error hides
  the first one and skips the abandoning of the HANA snapshot, which stays prepared.\<close>

lemma unread_key_leaves_hana_snapshot:
  "let (r, log) = run_state (runWorkflowForDiskSnapshot sampleDiskWorld sampleProps
         (sampleSnapshot\<lparr>DiskKeyFile := ''k''\<rparr>)) []
   in (case r of Inl e \<Rightarrow> thaw_error e | Inr _ \<Rightarrow> False) \<and> hanaState log = Prepared \<and> \<not> list_ex isFreeze log"
  by code_simp

text \<open>If the upload of a snapshot group fails before HANA was told of the snapshot, the HANA snapshot
  stays prepared and the instant snapshots are not deleted.\<close>

lemma failed_group_upload_leaves_hana_snapshot:
  "let (r, log) = run_state (runWorkflowForInstantSnapshotGroups
         (sampleDiskWorld\<lparr>done_env := \<lambda>_ c. (case c of WaitSGUploaded g \<Rightarrow> Some ''failed'' | _ \<Rightarrow> None)\<rparr>)
         (sampleSnapshot\<lparr>groupSnapshot := True, UseSnapshotGroupWorkflow := True\<rparr>)) []
   in fst r = Inl (UploadFailed ''failed'') \<and> hanaState log = Prepared \<and>
      \<not> list_ex (\<lambda>c. case c of DeleteISG g \<Rightarrow> True | _ \<Rightarrow> False) log"
  by code_simp

section \<open>Properties\<close>

text \<open>C7. Whatever fails, and whatever the answers of all services are: when a workflow ends, nothing is frozen
  any more, or the data directory is and the workflow reports that the thaw of this very path failed. A freeze counts
  from the attempt on, a thaw only if its command succeeded. And no workflow waits for an upload while a file system is
  frozen.\<close>

theorem freeze_released:
  assumes "frozen w log = {}" and "uploadsThawed w log"
  shows "wp (runWorkflowForDiskSnapshot w cp s) (thawedAfter w s) log \<and>
    wp (runWorkflowForChangeDiskType w cp s) (thawedAfter w s) log \<and>
    wp (runWorkflowForInstantSnapshotGroups w s) (\<lambda>r. thawedAfter w s (fst r)) log"
  using assms by (intro conjI singleWorkflow_thaws changeWorkflow_thaws groupWorkflow_thaws)

lemma freeze_released_witness:
  "fst (run_state (runWorkflowForDiskSnapshot sampleDiskWorld sampleProps sampleSnapshot) []) = Inr () \<and>
   list_ex isFreeze (snd (run_state (runWorkflowForDiskSnapshot sampleDiskWorld sampleProps sampleSnapshot) [])) \<and>
   frozen sampleDiskWorld (snd (run_state (runWorkflowForDiskSnapshot sampleDiskWorld sampleProps sampleSnapshot) [])) = {}"
proof -
  have "fst (run_state (runWorkflowForDiskSnapshot sampleDiskWorld sampleProps sampleSnapshot) []) = Inr ()" (is "?f = _")
    by code_simp
  moreover have "list_ex isFreeze (snd (run_state (runWorkflowForDiskSnapshot sampleDiskWorld sampleProps sampleSnapshot) []))"
    by code_simp
  moreover have "wp (runWorkflowForDiskSnapshot sampleDiskWorld sampleProps sampleSnapshot)
      (thawedAfter sampleDiskWorld sampleSnapshot) []"
    by (rule freeze_released [THEN conjunct1]) (simp_all add: uploadsThawed_def)
  ultimately show ?thesis
    by (auto simp: wp_def thawedAfter_def released_def thawFailed_def split: prod.splits)
qed



text \<open>A group backup that converts the instant snapshots settles its HANA snapshot in the same way.\<close>

theorem group_backup_settles:
  assumes "hanaState log = Idle" and "\<not> UseSnapshotGroupWorkflow s"
  shows "wp (runWorkflowForInstantSnapshotGroups w s) (\<lambda>(r, _) log'. hana_settled r log') log"
  unfolding runWorkflowForInstantSnapshotGroups_def wp_bind
proof (rule wp_mono [OF start_settled [OF assms(1) allAttached_error, unfolded wp_bind]], goal_cases)
  case (1 r log1)
  show ?case
  proof (cases r)
    case (Inl e)
    with 1 show ?thesis by (simp add: wp_return)
  next
    case (Inr i)
    with 1 have p: "hanaState log1 = Prepared" by simp
    have "wp (do { cs \<leftarrow> createInstantSnapshotGroup w s;
        bindE (unfreezeIfAsked w (snd cs)) (\<lambda>_. finishGroup w (snd cs) i (fst cs)) })
      (\<lambda>r log'. hana_settled r log' \<and> True) log1"
      by (rule after_prepared [where res = fst and K = "\<lambda>r. UseSnapshotGroupWorkflow (snd r) = UseSnapshotGroupWorkflow s",
            OF p noHana_createGroup createGroup_keeps_workflow])
         (use assms(2) in \<open>auto intro: finishGroup_settled\<close>)
    then show ?thesis unfolding Inr by (simp add: wp_bind_fun wp_return_fun Let_def)
  qed
qed

lemma group_backup_settles_witness:
  "hana_settled (fst (fst (run_state (runWorkflowForInstantSnapshotGroups sampleDiskWorld
       (sampleSnapshot\<lparr>groupSnapshot := True\<rparr>)) [])))
     (snd (run_state (runWorkflowForInstantSnapshotGroups sampleDiskWorld
       (sampleSnapshot\<lparr>groupSnapshot := True\<rparr>)) []))"
  using group_backup_settles [of "[]" "sampleSnapshot\<lparr>groupSnapshot := True\<rparr>" sampleDiskWorld]
  by (simp add: sampleSnapshot_def wp_def split: prod.splits)

end
