(* ===== verification/SnapshotHandler.thy ===== *)
theory SnapshotHandler
  imports DiskBackup
begin

text \<open>
  The subcommand \<open>hanadiskbackup\<close> as a whole (\<open>hanadiskbackup.go\<close>): checking the arguments and the
  user, finding the disks of the data directory and running the workflow that fits them.
\<close>

section \<open>Services\<close>

datatype exit_status = ExitSuccess | ExitFailure | ExitUsageError

datatype outcome =
    Done string
  | Refused disk_error
  | Failed string disk_error

definition exitStatus :: "outcome \<Rightarrow> exit_status" where
  "exitStatus r = (case r of Done n \<Rightarrow> ExitSuccess | Refused e \<Rightarrow> ExitUsageError | Failed m e \<Rightarrow> ExitFailure)"

text \<open>The services of the instant snapshot groups, created when needed.\<close>

definition groupServices :: "disk_world \<Rightarrow> snapshot \<Rightarrow> (disk_call, (disk_error, unit) result) prog" where
  "groupServices w s =
     bindE (if UseSnapshotGroupWorkflow s then perform w GceError (NewService ''snapshot group'') else ret (Inr ()))
       (\<lambda>_. perform w GceError (NewService ''instant snapshot group''))"

section \<open>Finding the disks\<close>

definition verifyStriping :: "disk_world \<Rightarrow> snapshot \<Rightarrow> (disk_call, (disk_error, unit) result) prog" where
  "verifyStriping w s = do {
     r \<leftarrow> CheckDataDeviceForStripes (logicalDataPath s) (exec w);
     ret (case r of
            Inl e \<Rightarrow> Inl (Hana e)
          | Inr ok \<Rightarrow> if ok then Inr () else Inl (UsageError ''not striped''))
   }"

definition addMapping :: "cloud_properties \<Rightarrow> disk_mapping \<Rightarrow> snapshot \<Rightarrow> snapshot" where
  "addMapping cp d s =
     (if DiskMatches (physicalDataPath s) (Mapping d)
      then s\<lparr>Disk := DiskName d, DiskZone := Zone cp, disks := disks s @ [DiskName d],
             provisionedIops := MappingIops d, provisionedThroughput := MappingThroughput d\<rparr>
      else s)"

definition readDiskMapping :: "disk_world \<Rightarrow> cloud_properties \<Rightarrow> snapshot \<Rightarrow> (disk_call, (disk_error, snapshot) result) prog" where
  "readDiskMapping w cp s = do {
     r \<leftarrow> call (mapping_env w) ReadDiskMapping;
     ret (case r of Inl e \<Rightarrow> Inl (GceError e) | Inr ds \<Rightarrow> Inr (fold (addMapping cp) ds s))
   }"

text \<open>The disks the user names, on one instance.\<close>

primrec userDisks ::
  "disk_world \<Rightarrow> cloud_properties \<Rightarrow> string list \<Rightarrow> snapshot \<Rightarrow> (disk_call, (disk_error, snapshot) result) prog" where
  "userDisks w cp [] s = ret (Inr s)"
| "userDisks w cp (x # xs) s =
     (let disk = trimSpace x
      in bindE (isDiskAttachedToInstance w disk) (\<lambda>_.
         bindE (getDisk w disk) (\<lambda>d.
         userDisks w cp xs (s\<lparr>DiskZone := Zone cp, provisionedIops := ProvisionedIops d,
           provisionedThroughput := ProvisionedThroughput d, disks := disks s @ [disk]\<rparr>))))"

definition findDisks :: "disk_world \<Rightarrow> cloud_properties \<Rightarrow> snapshot \<Rightarrow> (disk_call, (disk_error, snapshot) result) prog" where
  "findDisks w cp s =
     (if Disks s \<noteq> [] then userDisks w cp (splitOn CHR '','' (Disks s)) s
      else bindE (readDiskMapping w cp s) (\<lambda>s1.
        if disks s1 = [] \<or> Disk s1 = [] then ret (Inl (UsageError ''no mapping found for /hana/data/'')) else ret (Inr s1)))"

definition makeGroup :: "disk_world \<Rightarrow> snapshot \<Rightarrow> (disk_call, (disk_error, snapshot) result) prog" where
  "makeGroup w s =
     (if length (disks s) > 1 then
        bindE (if \<not> sidadmUser s then verifyStriping w s else ret (Inr ())) (\<lambda>_.
        bindE (groupServices w s) (\<lambda>_.
        bindE (validateDisksBelongToCG w (disks s) s) (\<lambda>s1.
        ret (Inr (s1\<lparr>groupSnapshot := True\<rparr>)))))
      else ret (Inr s))"

definition validateScaleupDisks :: "disk_world \<Rightarrow> cloud_properties \<Rightarrow> snapshot \<Rightarrow> (disk_call, (disk_error, snapshot) result) prog" where
  "validateScaleupDisks w cp s =
     (if Disk s = [] then bindE (findDisks w cp s) (makeGroup w) else ret (Inr s))"

primrec disksInUse :: "disk_world \<Rightarrow> string list \<Rightarrow> (disk_call, (disk_error, unit) result) prog" where
  "disksInUse w [] = ret (Inr ())"
| "disksInUse w (d # ds) =
     (if d = [] then disksInUse w ds
      else bindE (getDisk w d) (\<lambda>i. if Users i = [] then ret (Inl (NotInUse d)) else disksInUse w ds))"

definition validateScaleoutDisks :: "disk_world \<Rightarrow> snapshot \<Rightarrow> (disk_call, (disk_error, snapshot) result) prog" where
  "validateScaleoutDisks w s =
     (if Disks s = [] then ret (Inl (UsageError ''autodiscovery is not supported for scaleout''))
      else
        let ds = map trimSpace (splitOn CHR '','' (Disks s))
        in bindE (groupServices w s) (\<lambda>_.
           bindE (disksInUse w ds) (\<lambda>_.
           bindE (validateDisksBelongToCG w ds s) (\<lambda>s1.
           ret (Inr (s1\<lparr>groupSnapshot := True\<rparr>))))))"

definition instanceNumber :: "snapshot \<Rightarrow> string" where
  "instanceNumber s =
     (if InstanceID s \<noteq> [] then InstanceID s
      else if length (Port s) < 5 then [] else take 2 (drop 1 (Port s)))"

definition validateDisks :: "disk_world \<Rightarrow> cloud_properties \<Rightarrow> snapshot \<Rightarrow> (disk_call, (disk_error, snapshot) result) prog" where
  "validateDisks w cp s = do {
     r \<leftarrow> CheckTopology (exec w) (Sid s) (sidadmUser s) (instanceNumber s);
     case r of
       Inl e \<Rightarrow> ret (Inl (Hana e))
     | Inr isScaleout \<Rightarrow> if isScaleout then validateScaleoutDisks w s else validateScaleupDisks w cp s
   }"

section \<open>The handler\<close>

definition groupIsNew :: "disk_world \<Rightarrow> snapshot \<Rightarrow> (disk_call, (disk_error, unit) result) prog" where
  "groupIsNew w s =
     (if GroupSnapshotName s = [] then ret (Inr ())
      else bindE (listItems w ListSnapshots) (\<lambda>items.
        ret (if list_ex (\<lambda>i. snd i = GroupSnapshotName s) items
             then Inl (UsageError ''group snapshot with given name already exists'') else Inr ())))"

definition checkDataDir :: "disk_world \<Rightarrow> snapshot \<Rightarrow> (disk_call, (disk_error, snapshot) result) prog" where
  "checkDataDir w s = do {
     r \<leftarrow> CheckDataDir (Sid s) (exec w);
     ret (case r of
            ((d, l, p), None) \<Rightarrow> Inr (s\<lparr>hanaDataPath := d, logicalDataPath := l, physicalDataPath := p\<rparr>)
          | (_, Some e) \<Rightarrow> Inl (Hana e))
   }"

text \<open>The name is set unless the user gave one.\<close>

definition setName :: "disk_world \<Rightarrow> snapshot \<Rightarrow> (disk_call, snapshot) prog" where
  "setName w s =
     (if (groupSnapshot s \<and> GroupSnapshotName s \<noteq> []) \<or> (\<not> groupSnapshot s \<and> SnapshotName s \<noteq> []) then ret s
      else do {
        stamp \<leftarrow> call (stamp_env w) ReadStamp;
        ret (updateSnapshotName stamp s)
      })"

definition prepareSnapshot :: "disk_world \<Rightarrow> cloud_properties \<Rightarrow> snapshot \<Rightarrow> (disk_call, (disk_error, snapshot) result) prog" where
  "prepareSnapshot w cp s =
     bindE (perform w GceError (NewService ''gce'')) (\<lambda>_.
     bindE (checkDataDir w s) (\<lambda>s1.
     bindE (validateDisks w cp s1) (\<lambda>s2.
     bindE (groupIsNew w s2) (\<lambda>_. do {
       s3 \<leftarrow> setName w s2;
       bindE (if SkipDBSnapshotForChangeDiskType s3 then ret (Inr ()) else perform w DbError ConnectDB) (\<lambda>_.
       bindE (perform w GceError (NewService ''compute'')) (\<lambda>_. ret (Inr s3)))
     }))))"

definition runWorkflow :: "disk_world \<Rightarrow> cloud_properties \<Rightarrow> snapshot \<Rightarrow> (disk_call, (disk_error, unit) result \<times> snapshot) prog" where
  "runWorkflow w cp s =
     (if SkipDBSnapshotForChangeDiskType s then do { r \<leftarrow> runWorkflowForChangeDiskType w cp s; ret (r, s) }
      else if groupSnapshot s then runWorkflowForInstantSnapshotGroups w s
      else do { r \<leftarrow> runWorkflowForDiskSnapshot w cp s; ret (r, s) })"

definition snapshotHandler :: "disk_world \<Rightarrow> cloud_properties \<Rightarrow> snapshot \<Rightarrow> (disk_call, outcome) prog" where
  "snapshotHandler w cp s = do {
     p \<leftarrow> prepareSnapshot w cp s;
     case p of
       Inl e \<Rightarrow> ret (Failed ''preparation'' e)
     | Inr s1 \<Rightarrow> do {
         r \<leftarrow> runWorkflow w cp s1;
         ret (case fst r of
                Inl e \<Rightarrow> Failed ''workflow'' e
              | Inr _ \<Rightarrow> Done (snapshotComment (snd r)))
       }
   }"

text \<open>Versions before 3.10 convert instant snapshots instead of making snapshot groups.\<close>

definition chooseWorkflow :: "disk_world \<Rightarrow> snapshot \<Rightarrow> snapshot" where
  "chooseWorkflow w s = s\<lparr>UseSnapshotGroupWorkflow := (compareVersions (agentVersion w) ''3.10'' \<noteq> Inr True)\<rparr>"

definition Run_backup ::
  "disk_world \<Rightarrow> string \<Rightarrow> int \<Rightarrow> (string, string) result \<Rightarrow> cloud_properties \<Rightarrow> snapshot \<Rightarrow> (disk_call, outcome) prog" where
  "Run_backup w os euid user cp s0 =
     (case validateParameters os cp s0 of
        Inl e \<Rightarrow> ret (Refused e)
      | Inr s1 \<Rightarrow>
          (case validateUser euid user s1 of
             Inl e \<Rightarrow> ret (Refused e)
           | Inr s2 \<Rightarrow> do {
               m \<leftarrow> perform w GceError (NewService ''monitoring'');
               case m of
                 Inl e \<Rightarrow> ret (Failed ''monitoring'' e)
               | Inr _ \<Rightarrow> snapshotHandler w cp (chooseWorkflow w s2)
             }))"

section \<open>Calls of the preparation\<close>

lemma plain_exec [simp]: "plain (Exec (CmdArgs x a u))" "x \<noteq> ''/usr/sbin/xfs_freeze'' \<Longrightarrow> plain (Exec (CmdSplit x args u))"
  by (simp_all add: plain_def noFreeze_def)

lemma plain_groupServices [calls_rules]: "calls_only plain (groupServices w s)"
  by (auto simp: groupServices_def intro!: calls_rules)

lemma plain_paths [calls_rules]:
  "calls_only plain (ParseBasePath p sid (exec w))" "calls_only plain (ParseLogicalPath b (exec w))"
  "calls_only plain (ParsePhysicalPath l (exec w))"
  by (auto simp: ParseBasePath_def ParseLogicalPath_def ParsePhysicalPath_def basePathCmd_def findmntCmd_def Let_def
      intro!: calls_rules)

lemma plain_checkDataDir [calls_rules]: "calls_only plain (checkDataDir w s)"
  by (auto simp: checkDataDir_def CheckDataDir_def intro!: calls_rules)

lemma plain_verifyStriping [calls_rules]: "calls_only plain (verifyStriping w s)"
  by (auto simp: verifyStriping_def CheckDataDeviceForStripes_def intro!: calls_rules)

lemma plain_CheckTopology [calls_rules]: "calls_only plain (CheckTopology (exec w) sid b n)"
  by (auto simp: CheckTopology_def getInstanceNumber_def topologyCmd_def intro!: calls_rules)

lemma plain_userDisks [calls_rules]: "calls_only plain (userDisks w cp xs s)"
  by (induction xs arbitrary: s) (auto simp: Let_def intro!: calls_rules)

lemma plain_disksInUse [calls_rules]: "calls_only plain (disksInUse w ds)"
  by (induction ds) (auto intro!: calls_rules)

lemma plain_disksInCG [calls_rules]: "calls_only plain (disksInCG w ds ts s)"
  by (induction ds arbitrary: ts s) (auto simp: readConsistencyGroup_def intro!: calls_rules)

lemma plain_findDisks [calls_rules]: "calls_only plain (findDisks w cp s)"
  by (auto simp: findDisks_def readDiskMapping_def intro!: calls_rules)

lemma plain_makeGroup [calls_rules]: "calls_only plain (makeGroup w s)"
  by (auto simp: makeGroup_def validateDisksBelongToCG_def intro!: calls_rules)

lemma plain_validateDisks [calls_rules]: "calls_only plain (validateDisks w cp s)"
  by (auto simp: validateDisks_def validateScaleupDisks_def validateScaleoutDisks_def validateDisksBelongToCG_def Let_def
      intro!: calls_rules)

lemma plain_setName [calls_rules]: "calls_only plain (setName w s)"
  by (auto simp: setName_def intro!: calls_rules)

lemma plain_prepareSnapshot: "calls_only plain (prepareSnapshot w cp s)"
  by (auto simp: prepareSnapshot_def groupIsNew_def intro!: calls_rules)

section \<open>What the preparation keeps\<close>

text \<open>\<open>keeps f m x\<close>: the state that \<open>m\<close> returns has the same \<open>f\<close> as \<open>x\<close>.\<close>

definition keeps :: "('s \<Rightarrow> 'v) \<Rightarrow> ('c, ('e, 's) result) prog \<Rightarrow> 's \<Rightarrow> bool" where
  "keeps f m x \<longleftrightarrow> (\<forall>log. wp m (\<lambda>r _. \<forall>y. r = Inr y \<longrightarrow> f y = f x) log)"

lemma keeps_ret [intro]: "f y = f x \<Longrightarrow> keeps f (ret (Inr y)) x" "keeps f (ret (Inl e)) x"
  by (simp_all add: keeps_def wp_return)

lemma keeps_if [intro]: "(b \<Longrightarrow> keeps f m x) \<Longrightarrow> (\<not> b \<Longrightarrow> keeps f n x) \<Longrightarrow> keeps f (if b then m else n) x"
  by simp

lemma keeps_bindE: "(\<And>a. keeps f (g a) x) \<Longrightarrow> keeps f (bindE m g) x"
  unfolding keeps_def by (intro allI bindE_wp [OF wp_triv]) auto

lemma keeps_bindE_state:
  assumes "keeps f m x" and "\<And>y. f y = f x \<Longrightarrow> keeps f (g y) y"
  shows "keeps f (bindE m g) x"
  unfolding keeps_def
proof (intro allI bindE_wp [OF assms(1) [unfolded keeps_def, rule_format]])
  fix a log'
  assume "\<forall>y. Inr a = Inr y \<longrightarrow> f y = f x"
  then have eq: "f a = f x" by simp
  from assms(2) [OF this] eq show "wp (g a) (\<lambda>r _. \<forall>y. r = Inr y \<longrightarrow> f y = f x) log'"
    by (simp add: keeps_def)
qed simp

lemma keeps_trans: "keeps f m y \<Longrightarrow> f y = f x \<Longrightarrow> keeps f m x"
  by (simp add: keeps_def)

abbreviation skipDB :: "snapshot \<Rightarrow> bool" where "skipDB \<equiv> SkipDBSnapshotForChangeDiskType"

text \<open>The preparation after the check of the data directory.\<close>

definition afterDataDir :: "disk_world \<Rightarrow> cloud_properties \<Rightarrow> snapshot \<Rightarrow> (disk_call, (disk_error, snapshot) result) prog" where
  "afterDataDir w cp s1 =
     bindE (validateDisks w cp s1) (\<lambda>s2.
     bindE (groupIsNew w s2) (\<lambda>_. do {
       s3 \<leftarrow> setName w s2;
       bindE (if SkipDBSnapshotForChangeDiskType s3 then ret (Inr ()) else perform w DbError ConnectDB) (\<lambda>_.
       bindE (perform w GceError (NewService ''compute'')) (\<lambda>_. ret (Inr s3)))
     }))"

lemma prepareSnapshot_parts:
  "prepareSnapshot w cp s = bindE (perform w GceError (NewService ''gce'')) (\<lambda>_. bindE (checkDataDir w s) (afterDataDir w cp))"
  by (simp add: prepareSnapshot_def afterDataDir_def [abs_def])

text \<open>A part of the snapshot that finding the disks does not change.\<close>

locale disk_field =
  fixes f :: "snapshot \<Rightarrow> 'v"
  assumes upd_cg: "f (s\<lparr>cgName := a\<rparr>) = f s"
    and upd_group: "f (s\<lparr>groupSnapshot := True\<rparr>) = f s"
    and upd_disk: "f (s\<lparr>DiskZone := z, provisionedIops := i, provisionedThroughput := t, disks := ds\<rparr>) = f s"
    and upd_mapping: "f (addMapping cp d s) = f s"
begin

lemma keeps_disksInCG: "keeps f (disksInCG w ds ts s) s"
proof (induction ds arbitrary: ts s)
  case (Cons d ds)
  have "keeps f (disksInCG w ds ts (s\<lparr>cgName := cg\<rparr>)) s" for cg ts
    using Cons.IH [of ts "s\<lparr>cgName := cg\<rparr>"] by (rule keeps_trans) (rule upd_cg)
  then show ?case by (auto intro!: keeps_bindE)
qed auto

lemma keeps_userDisks: "keeps f (userDisks w cp xs s) s"
proof (induction xs arbitrary: s)
  case (Cons x xs)
  have "keeps f (userDisks w cp xs (s\<lparr>DiskZone := z, provisionedIops := i, provisionedThroughput := t,
      disks := ds\<rparr>)) s" for z i t ds
    using Cons.IH by (rule keeps_trans) (rule upd_disk)
  then show ?case by (auto simp: Let_def intro!: keeps_bindE)
qed auto

lemma fold_addMapping: "f (fold (addMapping cp) ds s) = f s"
  by (induction ds arbitrary: s) (simp_all add: upd_mapping)

lemma keeps_findDisks: "keeps f (findDisks w cp s) s"
proof -
  have "keeps f (readDiskMapping w cp s) s"
    by (auto simp: keeps_def readDiskMapping_def wp_rules fold_addMapping split: sum.splits)
  then show ?thesis
    unfolding findDisks_def by (auto intro!: keeps_userDisks keeps_bindE_state)
qed

lemma keeps_grouped: "keeps f (bindE (validateDisksBelongToCG w ds s) (\<lambda>s1. ret (Inr (s1\<lparr>groupSnapshot := True\<rparr>)))) s"
  by (rule keeps_bindE_state) (auto simp: validateDisksBelongToCG_def upd_group intro!: keeps_disksInCG)

lemma keeps_makeGroup: "keeps f (makeGroup w s) s"
  unfolding makeGroup_def by (intro keeps_if keeps_bindE keeps_grouped keeps_ret refl)

lemma keeps_validateDisks: "keeps f (validateDisks w cp s) s"
proof -
  have up: "keeps f (validateScaleupDisks w cp s) s"
    unfolding validateScaleupDisks_def
    by (intro keeps_if keeps_bindE_state keeps_findDisks keeps_makeGroup keeps_ret refl)
  have out: "keeps f (validateScaleoutDisks w s) s"
    unfolding validateScaleoutDisks_def Let_def by (intro keeps_if keeps_bindE keeps_grouped keeps_ret)
  show ?thesis
    unfolding keeps_def validateDisks_def wp_bind
  proof (rule allI, rule wp_mono [OF wp_triv], goal_cases)
    case (1 log r log1)
    show ?case
    proof (cases r)
      case (Inr b)
      then show ?thesis using up out by (cases b) (simp_all add: keeps_def)
    qed (simp add: wp_return)
  qed
qed

lemma keeps_afterDataDir:
  assumes n: "\<And>y log. f y = f s \<Longrightarrow> wp (setName w y) (\<lambda>s3 _. f s3 = f y) log"
  shows "keeps f (afterDataDir w cp s) s"
proof -
  have name: "keeps f (do {
       s3 \<leftarrow> setName w y;
       bindE (if SkipDBSnapshotForChangeDiskType s3 then ret (Inr ()) else perform w DbError ConnectDB) (\<lambda>_.
       bindE (perform w GceError (NewService ''compute'')) (\<lambda>_. ret (Inr s3)))
     }) y" if y: "f y = f s" for y
  proof -
    have "keeps f (bindE (if SkipDBSnapshotForChangeDiskType s3 then ret (Inr ()) else perform w DbError ConnectDB)
       (\<lambda>_. bindE (perform w GceError (NewService ''compute'')) (\<lambda>_. ret (Inr s3)))) y" if "f s3 = f y" for s3
      using that by (intro keeps_bindE keeps_ret)
    with n [OF y] show ?thesis
      unfolding keeps_def wp_bind by (blast intro: wp_mono)
  qed
  show ?thesis
    unfolding afterDataDir_def
    by (rule keeps_bindE_state [OF keeps_validateDisks], rule keeps_bindE, rule name)
qed

end

text \<open>A part that the check of the data directory does not change either.\<close>

locale snapshot_field = disk_field f for f :: "snapshot \<Rightarrow> 'v" +
  assumes upd_paths: "f (s\<lparr>hanaDataPath := a, logicalDataPath := b, physicalDataPath := c\<rparr>) = f s"
begin

lemma keeps_checkDataDir: "keeps f (checkDataDir w s) s"
  unfolding keeps_def checkDataDir_def wp_bind
proof (rule allI, rule wp_mono [OF wp_triv], goal_cases)
  case (1 log r log1)
  obtain d l p e where "r = ((d, l, p), e)" by (metis prod_cases3 prod.collapse)
  then show ?case by (cases e) (simp_all add: wp_return upd_paths)
qed

lemma keeps_prepareSnapshot:
  assumes n: "\<And>y log. f y = f s \<Longrightarrow> wp (setName w y) (\<lambda>s3 _. f s3 = f y) log"
  shows "keeps f (prepareSnapshot w cp s) s"
  unfolding prepareSnapshot_parts
  by (rule keeps_bindE, rule keeps_bindE_state [OF keeps_checkDataDir], rule keeps_afterDataDir) (metis n)

end

interpretation path_kept: disk_field hanaDataPath
  by unfold_locales (simp_all add: addMapping_def)

interpretation user_kept: snapshot_field HanaSidAdm
  by unfold_locales (simp_all add: addMapping_def)

interpretation skip_kept: snapshot_field SkipDBSnapshotForChangeDiskType
  by unfold_locales (simp_all add: addMapping_def)

interpretation name_kept: snapshot_field SnapshotName
  by unfold_locales (simp_all add: addMapping_def)

lemma setName_skip: "wp (setName w y) (\<lambda>s3 _. skipDB s3 = skipDB y) log"
  by (auto simp: setName_def updateSnapshotName_def Let_def wp_rules)

lemma setName_name: "SnapshotName y \<noteq> [] \<Longrightarrow> wp (setName w y) (\<lambda>s3 _. SnapshotName s3 = SnapshotName y) log"
  by (auto simp: setName_def updateSnapshotName_def Let_def wp_rules)

lemma setName_path: "wp (setName w y) (\<lambda>s3 _. hanaDataPath s3 = hanaDataPath y) log"
  by (auto simp: setName_def updateSnapshotName_def Let_def wp_rules)

lemma setName_user: "wp (setName w y) (\<lambda>s3 _. HanaSidAdm s3 = HanaSidAdm y) log"
  by (auto simp: setName_def updateSnapshotName_def Let_def wp_rules)

lemmas afterDataDir_path = path_kept.keeps_afterDataDir [OF setName_path]
lemmas prepareSnapshot_user = user_kept.keeps_prepareSnapshot [OF setName_user]
lemmas prepareSnapshot_skip = skip_kept.keeps_prepareSnapshot [OF setName_skip]

lemma prepareSnapshot_name: "SnapshotName s \<noteq> [] \<Longrightarrow> keeps SnapshotName (prepareSnapshot w cp s) s"
  by (rule name_kept.keeps_prepareSnapshot) (metis setName_name)

section \<open>Success\<close>

lemma completeParameters_skip: "skipDB (completeParameters cp s) = skipDB s"
  by (simp add: completeParameters_def Let_def)

lemma validateParameters_skip: "validateParameters os cp s = Inr s1 \<Longrightarrow> skipDB s1 = skipDB s"
  by (auto simp: validateParameters_def Let_def completeParameters_skip split: if_split_asm)

lemma validateUser_skip: "validateUser euid user s = Inr s1 \<Longrightarrow> skipDB s1 = skipDB s"
  by (auto simp: validateUser_def Let_def split: if_split_asm sum.split_asm)

lemma sgWorkflow_confirmed:
  assumes "hanaState log = Prepared"
  shows "wp (snapshotGroupWorkflow w s i) (\<lambda>r log'. \<forall>u. r = Inr u \<longrightarrow>
    hanaState log' = (if ConfirmDataSnapshotAfterCreate s then Confirmed else Prepared)) log"
  unfolding snapshotGroupWorkflow_def wp_bind
proof (rule wp_mono [OF hana_kept [OF noHana_plain [OF plain_createSG]]], goal_cases)
  case (1 r log1)
  have failed: "wp (abandonGroup w s i e) (\<lambda>r log'. \<forall>u. r = Inr u \<longrightarrow>
      hanaState log' = (if ConfirmDataSnapshotAfterCreate s then Confirmed else Prepared)) log1" for e
    by (simp add: abandonGroup_def wp_bind wp_return) (simp add: wp_def split: prod.splits)
  have late: "calls_only noHana (bindE (perform w UploadFailed (WaitSGUploaded (GroupSnapshotName s)))
      (\<lambda>_. updateLabelsForSnapshotGroup w s (GroupSnapshotName s)))"
    by (intro noHana_plain calls_rules plain_updateLabels) simp
  have "wp (bindE (confirmDataSnapshotAfterCreate w s i)
      (\<lambda>_. bindE (perform w UploadFailed (WaitSGUploaded (GroupSnapshotName s)))
        (\<lambda>_. updateLabelsForSnapshotGroup w s (GroupSnapshotName s))))
      (\<lambda>r log'. \<forall>u. r = Inr u \<longrightarrow> hanaState log' = (if ConfirmDataSnapshotAfterCreate s then Confirmed else Prepared)) log1"
  proof (rule bindE_wp [OF confirm_settled], goal_cases)
    case 1
    then show ?case using \<open>hanaState log1 = hanaState log\<close> assms by simp
  next
    case (3 a log2)
    then show ?case by (intro wp_mono [OF hana_kept [OF late]]) auto
  qed simp
  with failed show ?case by (cases r) simp_all
qed

lemma groupWorkflow_confirmed:
  "hanaState log = Prepared \<Longrightarrow>
   wp (if UseSnapshotGroupWorkflow s then snapshotGroupWorkflow w s i else conversionWorkflow w s i)
    (\<lambda>r log'. \<forall>u. r = Inr u \<longrightarrow>
       hanaState log' = (if ConfirmDataSnapshotAfterCreate s then Confirmed else Prepared)) log"
  using sgWorkflow_confirmed [of log w s i] wp_mono [OF conversionWorkflow_settled [of log w s i]] by auto

lemma finishGroup_confirmed:
  assumes "hanaState log = Prepared"
  shows "wp (finishGroup w s i created) (\<lambda>r log'. \<forall>u. r = Inr u \<longrightarrow> hanaState log' = Confirmed) log"
proof (cases created)
  case (Inl e)
  then show ?thesis by (simp add: finishGroup_def wp_bind wp_return) (simp add: wp_def split: prod.splits)
next
  case (Inr u)
  show ?thesis
    unfolding finishGroup_def Inr sum.case
    by (rule bindE_wp [OF groupWorkflow_confirmed [OF assms]])
       (auto simp: cleanUp_def markSnapshotAsSuccessful_def queryHana_def wp_bindE wp_rules split: sum.splits)
qed

lemma groups_confirmed:
  "wp (runWorkflowForInstantSnapshotGroups w s) (\<lambda>r log'. \<forall>u. fst r = Inr u \<longrightarrow> hanaState log' = Confirmed) log"
proof -
  have pre: "wp (bindE (allAttached w (disks s)) (\<lambda>_. bindE (abandonPreparedSnapshot w s) (\<lambda>_. createNewHANASnapshot w s)))
      (\<lambda>r log'. \<forall>i. r = Inr i \<longrightarrow> hanaState log' = Prepared) log"
    by (intro bindE_wp [OF wp_triv] wp_mono [OF createNewHANASnapshot_prepared]) auto
  have post: "wp (do { cs \<leftarrow> createInstantSnapshotGroup w s;
        bindE (unfreezeIfAsked w (snd cs)) (\<lambda>_. finishGroup w (snd cs) i (fst cs)) })
      (\<lambda>r log'. \<forall>u. r = Inr u \<longrightarrow> hanaState log' = Confirmed) log1" if "hanaState log1 = Prepared" for i log1
    unfolding wp_bind
  proof (rule wp_mono [OF hana_kept [OF noHana_createGroup]], goal_cases)
    case (1 cs log2)
    show ?case
    proof (rule bindE_wp [OF unfreezeIfAsked_error], goal_cases)
      case (2 u log3)
      with 1 that show ?case by (intro finishGroup_confirmed) simp
    qed simp
  qed
  show ?thesis
    unfolding runWorkflowForInstantSnapshotGroups_def wp_bind
  proof (rule wp_mono [OF pre [unfolded wp_bind]], goal_cases)
    case (1 r log1)
    then show ?case
      using post [of log1] by (cases r) (simp_all add: wp_return wp_bind_fun wp_return_fun Let_def)
  qed
qed

section \<open>What is frozen\<close>

text \<open>The configuration of the system was read and names the directory for its data volumes.\<close>

primrec dataPathRead :: "disk_world \<Rightarrow> string \<Rightarrow> string \<Rightarrow> disk_call list \<Rightarrow> bool" where
  "dataPathRead w sid p [] \<longleftrightarrow> False"
| "dataPathRead w sid p (c # log) \<longleftrightarrow>
     c = Exec (basePathCmd ''basepath_datavolumes'' sid) \<and> \<not> failed (exec_env w log c) \<and>
       trimSpace (StdOut (exec_env w log c)) = p \<or>
     dataPathRead w sid p log"

interpretation path_first: precedence "dataPathRead w sid p" for w sid p
  by unfold_locales simp

text \<open>Only the data directory of the system is ever frozen.\<close>

primrec freezesData :: "disk_world \<Rightarrow> string \<Rightarrow> disk_call list \<Rightarrow> bool" where
  "freezesData w sid [] \<longleftrightarrow> True"
| "freezesData w sid (c # log) \<longleftrightarrow> freezesData w sid log \<and> (isFreeze c \<longrightarrow> dataPathRead w sid (frozenPath c) log)"

definition atMost :: "string \<Rightarrow> disk_call \<Rightarrow> bool" where
  "atMost p c \<longleftrightarrow> (isFreeze c \<longrightarrow> frozenPath c = p)"

lemma freezesData_noFreeze:
  assumes "calls_only noFreeze m" "freezesData w sid log"
  shows "wp m (\<lambda>_. freezesData w sid) log"
proof (rule wp_mono [OF calls_onlyD [OF assms(1)]], elim exE conjE)
  fix log' new
  assume "log' = new @ log" "list_all noFreeze new"
  moreover have "list_all noFreeze new \<Longrightarrow> freezesData w sid (new @ log)"
    by (induction new) (auto simp: assms(2) noFreeze_def)
  ultimately show "freezesData w sid log'" by simp
qed

lemma freezesData_atMost:
  assumes "calls_only (atMost p) m" "dataPathRead w sid p log" "freezesData w sid log"
  shows "wp m (\<lambda>_. freezesData w sid) log"
proof (rule wp_mono [OF calls_onlyD [OF assms(1)]], elim exE conjE)
  fix log' new
  assume "log' = new @ log" "list_all (atMost p) new"
  moreover have "list_all (atMost p) new \<Longrightarrow> freezesData w sid (new @ log)"
    by (induction new) (simp_all add: assms(3) atMost_def path_first.stable_append [OF assms(2)])
  ultimately show "freezesData w sid log'" by simp
qed

lemma atMost_noFreeze: "calls_only noFreeze m \<Longrightarrow> calls_only (atMost p) m"
  by (erule calls_only_mono) (simp add: noFreeze_def atMost_def)

lemma atMost_freeze: "hanaDataPath s = p \<Longrightarrow> calls_only (atMost p) (freezeIfAsked w s)"
  by (erule calls_only_mono [OF freezesOnly_freezeIfAsked]) (simp add: freezesOnly_def atMost_def)

lemma atMost_plain: "plain c \<Longrightarrow> atMost p c"
  by (simp add: atMost_def plain_def noFreeze_def)

lemma atMost_unfreeze: "calls_only (atMost p) (unfreezeIfAsked w s)"
  by (auto simp: unfreezeIfAsked_def UnFreezeXFS_def unfreezeCmd_def atMost_def hasPrefix_def intro!: calls_rules)

lemma runWorkflow_atMost: "calls_only (atMost (hanaDataPath s)) (runWorkflow w cp s)"
proof -
  let ?P = "atMost (hanaDataPath s)"
  have disk: "calls_only ?P (createDiskSnapshot w s i)" for i
    by (intro createDiskSnapshot_calls atMost_freeze) (simp_all add: atMost_plain)
  have group: "calls_only ?P (createInstantSnapshotGroup w s)"
    by (intro createInstantSnapshotGroup_calls atMost_freeze) (simp_all add: atMost_plain)
  have stop: "calls_only noFreeze (prepareForChangeDiskTypeWorkflow w s)"
    by (auto simp: prepareForChangeDiskTypeWorkflow_def StopHANA_def WaitForIndexServerToStopWithRetry_def
        waitForIndexServerToStop_def noFreeze_def stopCmd_def indexServerCmd_def intro!: calls_rules calls_only_retry)
  have first: "calls_only ?P (bindE (allAttached w (disks s))
      (\<lambda>_. bindE (abandonPreparedSnapshot w s) (\<lambda>_. createNewHANASnapshot w s)))"
    by (intro atMost_noFreeze calls_only_bindE noFreeze_plain [OF plain_allAttached] noFreeze_abandon)
  have wait: "?P (WaitUploaded a b)" for a b by (simp add: atMost_def)
  show ?thesis
    unfolding runWorkflow_def runWorkflowForChangeDiskType_def runWorkflowForDiskSnapshot_def
      runWorkflowForInstantSnapshotGroups_def Let_def
    by (intro calls_rules disk group first atMost_unfreeze wait atMost_noFreeze [OF stop]
        atMost_noFreeze [OF noFreeze_plain [OF plain_attached]] atMost_noFreeze [OF noFreeze_abandon(3)]
        atMost_noFreeze [OF noFreeze_abandon(4)] atMost_noFreeze [OF noFreeze_finishDiskSnapshot]
        atMost_noFreeze [OF noFreeze_finishGroup])
qed

lemma checkDataDir_reads:
  "wp (checkDataDir w s) (\<lambda>r log'. \<forall>y. r = Inr y \<longrightarrow> dataPathRead w (Sid s) (hanaDataPath y) log') log"
proof -
  have keep: "wp m (\<lambda>_ log'. dataPathRead w sid p log') log1" if "calls_only (\<lambda>_. True) m" "dataPathRead w sid p log1"
    for m :: "(disk_call, (string \<times> string \<times> string) \<times> hb_error option) prog" and sid p log1
    by (rule wp_mono [OF calls_onlyD [OF that(1)]]) (auto intro: path_first.stable_append that(2))
  have base: "wp (ParseBasePath ''basepath_datavolumes'' sid (exec w))
      (\<lambda>d log'. \<forall>p. d = Inr p \<longrightarrow> dataPathRead w sid p log') log" for sid log
    by (auto simp: ParseBasePath_def exec_def wp_rules)
  have "wp (CheckDataDir (Sid s) (exec w)) (\<lambda>x log'. snd x = None \<longrightarrow> dataPathRead w (Sid s) (fst (fst x)) log') log"
    unfolding CheckDataDir_def wp_bind
  proof (rule wp_mono [OF base], goal_cases)
    case (1 d log1)
    show ?case
    proof (cases d)
      case (Inr p)
      with 1 have k: "dataPathRead w (Sid s) p log1" by simp
      have same: "wp (State_Monad.bind (ParseLogicalPath p (exec w)) f) (\<lambda>x _. snd x = None \<longrightarrow> fst (fst x) = p) log1"
        if "\<And>l log2. wp (f l) (\<lambda>x _. snd x = None \<longrightarrow> fst (fst x) = p) log2"
        for f :: "(hb_error, string) result \<Rightarrow> (disk_call, (string \<times> string \<times> string) \<times> hb_error option) prog"
        by (rule wp_any) (rule that)
      show ?thesis
        unfolding Inr sum.case
      proof (rule wp_mono [OF wp_conj [OF same keep [OF _ k]]], goal_cases)
        case (1 l log2)
        show ?case by (auto simp: wp_return split: sum.splits intro!: wp_any)
      next
        case 2
        show ?case
          unfolding ParseLogicalPath_def ParsePhysicalPath_def Let_def by (intro calls_rules) simp_all
      qed simp
    qed (simp add: wp_return)
  qed
  then show ?thesis
    unfolding checkDataDir_def wp_bind by (rule wp_mono) (auto simp: wp_return split: option.splits)
qed

lemma prepareSnapshot_reads:
  "wp (prepareSnapshot w cp s) (\<lambda>r log'. \<forall>y. r = Inr y \<longrightarrow> dataPathRead w (Sid s) (hanaDataPath y) log') log"
  unfolding prepareSnapshot_parts
proof (rule bindE_wp [OF wp_triv], simp, rule bindE_wp [OF checkDataDir_reads], goal_cases)
  case (2 u log1 s1 log2)
  then have k: "dataPathRead w (Sid s) (hanaDataPath s1) log2" by simp
  have "calls_only plain (afterDataDir w cp s1)"
    by (auto simp: afterDataDir_def groupIsNew_def intro!: calls_rules)
  from wp_conj [OF calls_onlyD [OF this] afterDataDir_path [unfolded keeps_def, rule_format]]
  show ?case by (rule wp_mono) (use k in \<open>auto intro: path_first.stable_append\<close>)
qed simp

section \<open>Properties\<close>

text \<open>A sample machine with one data disk, on which every command answers and every service works.\<close>

definition sampleAnswer :: "cmd \<Rightarrow> cmd_result" where
  "sampleAnswer c =
     (case c of
        CmdArgs x args u \<Rightarrow> okResult (if x = ''findmnt'' then ''/dev/mapper/vg-data'' else concat (replicate 6 [chNL]))
      | CmdSplit x args u \<Rightarrow> okResult
          (if contains args ''basepath_datavolumes'' then ''/hana/data/HDB''
           else if contains args ''df --output=source'' then ''/dev/mapper/vg-data''
           else if contains args ''lvdisplay'' then ''/dev/sdb'' else []))"

definition sampleMachine :: disk_world where
  "sampleMachine = sampleDiskWorld\<lparr>exec_env := \<lambda>log c. (case c of Exec x \<Rightarrow> sampleAnswer x | _ \<Rightarrow> okResult [])\<rparr>"

text \<open>How a command leaves what it froze: nothing is frozen any more, or a thaw failed and the command reports it.\<close>

definition releasedBy :: "disk_world \<Rightarrow> outcome \<Rightarrow> disk_call list \<Rightarrow> bool" where
  "releasedBy w r log \<longleftrightarrow>
     frozen w log = {} \<or> (\<exists>p res. frozen w log = {p} \<and> r = Failed ''workflow'' (Hana (UnfreezeFailed p res)))"

definition backupSettled :: "disk_world \<Rightarrow> snapshot \<Rightarrow> outcome \<Rightarrow> disk_call list \<Rightarrow> bool" where
  "backupSettled w s r log \<longleftrightarrow>
     releasedBy w r log \<and> uploadsThawed w log \<and> freezesData w (toUpper (Sid s)) log \<and>
     (exitStatus r = ExitSuccess \<longrightarrow> SkipDBSnapshotForChangeDiskType s \<or> hanaState log = Confirmed)"

lemma runWorkflow_settled:
  assumes "hanaState log = Idle" "frozen w log = {}" "uploadsThawed w log"
  shows "wp (runWorkflow w cp s) (\<lambda>r log'. thawedAfter w s (fst r) log' \<and>
    (\<forall>u. fst r = Inr u \<longrightarrow> skipDB s \<or> hanaState log' = Confirmed)) log"
proof (cases "skipDB s")
  case True
  then show ?thesis
    unfolding runWorkflow_def using changeWorkflow_thaws [OF assms(2,3), of cp s] by (simp add: wp_bind wp_return_fun)
next
  case False
  have "wp (runWorkflowForInstantSnapshotGroups w s)
      (\<lambda>r log'. thawedAfter w s (fst r) log' \<and> (\<forall>u. fst r = Inr u \<longrightarrow> hanaState log' = Confirmed)) log"
    by (rule wp_conj [OF groupWorkflow_thaws [OF assms(2,3)] groups_confirmed])
  moreover have "wp (runWorkflowForDiskSnapshot w cp s)
      (\<lambda>r log'. thawedAfter w s r log' \<and> (\<forall>u. r = Inr u \<longrightarrow> hanaState log' = Confirmed)) log"
    using wp_conj [OF singleWorkflow_thaws [OF assms(2,3)] single_settled [OF assms(1)]]
    by (rule wp_mono) (auto simp: hana_settled_def)
  ultimately show ?thesis
    using False by (simp add: runWorkflow_def wp_bind wp_return_fun)
qed

lemma snapshotHandler_settled:
  assumes "hanaState log = Idle" "frozen w log = {}" "uploadsThawed w log" "freezesData w (Sid s) log"
    and sid: "toUpper (Sid s0) = Sid s" and skip: "skipDB s0 = skipDB s"
  shows "wp (snapshotHandler w cp s) (backupSettled w s0) log"
  unfolding snapshotHandler_def wp_bind
proof (rule wp_mono [OF wp_conj [OF prepareSnapshot_skip [unfolded keeps_def, rule_format]
      wp_conj [OF hana_kept [OF noHana_plain [OF plain_prepareSnapshot]]
      wp_conj [OF uploadsThawed_noFreeze [OF noFreeze_plain [OF plain_prepareSnapshot] assms(2,3)]
      wp_conj [OF freezesData_noFreeze [OF noFreeze_plain [OF plain_prepareSnapshot] assms(4)] prepareSnapshot_reads]]]]],
    goal_cases)
  case (1 p log2)
  show ?case
  proof (cases p)
    case (Inl e)
    with 1 assms show ?thesis by (simp add: wp_return exitStatus_def backupSettled_def releasedBy_def)
  next
    case (Inr s2)
    with 1 assms(1) have "wp (runWorkflow w cp s2) (\<lambda>r log'. (thawedAfter w s2 (fst r) log' \<and>
        (\<forall>u. fst r = Inr u \<longrightarrow> skipDB s2 \<or> hanaState log' = Confirmed)) \<and> freezesData w (Sid s) log') log2"
      by (intro wp_conj [OF runWorkflow_settled freezesData_atMost [OF runWorkflow_atMost]]) auto
    then show ?thesis
      unfolding Inr sum.case wp_bind
    proof (rule wp_mono, goal_cases)
      case *: (1 r log3)
      from 1 Inr skip have "skipDB s2 = skipDB s0" by simp
      with * sid show ?case
        by (cases "fst r") (auto simp: wp_return exitStatus_def backupSettled_def releasedBy_def thawedAfter_def released_def
            thawFailed_def)
    qed
  qed
qed

lemma completeParameters_sid: "Sid (completeParameters cp s) = Sid s"
  by (simp add: completeParameters_def Let_def)

lemma validateParameters_sid: "validateParameters os cp s = Inr s1 \<Longrightarrow> Sid s1 = toUpper (Sid s)"
  by (auto simp: validateParameters_def Let_def completeParameters_sid split: if_split_asm)

lemma validateUser_sid: "validateUser euid user s = Inr s1 \<Longrightarrow> Sid s1 = Sid s"
  by (auto simp: validateUser_def Let_def split: if_split_asm sum.split_asm)

lemma wp_perform: "wp (perform w f c) Q log =
   (case done_env w log c of None \<Rightarrow> Q (Inr ()) (c # log) | Some x \<Rightarrow> Q (Inl (f x)) (c # log))"
  by (simp add: perform_def wp_rules split: option.split)



text \<open>A single disk given in the list of source disks is checked but not kept as the disk to be backed
  up: on a scale-up system the workflow goes on with an empty disk name.\<close>

lemma single_source_disk_lost:
  "let r = fst (run_state (validateScaleupDisks sampleDiskWorld sampleProps
       (sampleSnapshot\<lparr>Disk := [], Disks := ''d1'', disks := []\<rparr>)) [])
   in case r of Inl e \<Rightarrow> False | Inr s \<Rightarrow> Disk s = [] \<and> disks s = [''d1''] \<and> \<not> groupSnapshot s"
  by code_simp

end
