(* ===== verification/DiskRestore.thy ===== *)
theory DiskRestore
  imports SnapshotArgs
begin

text \<open>
  \<open>internal/onetime/hanadiskrestore\<close>: restoring the HANA data volume from disk snapshots. HANA is
  stopped, the data directory unmounted and the old disks detached; new disks are made from the
  snapshots, attached and renamed to the old volume; on a failure the old disks are attached again.
  Compute Engine, its snapshot services and commands are calls of the environment; the time stamps of
  disks are read by the parameter \<open>parseTime\<close>.
\<close>

section \<open>State\<close>

text \<open>\<open>multiDisks\<close>\<close>

record disk_ref =
  DrName :: string
  DrDevice :: string
  DrInstance :: string

text \<open>A snapshot of a group; the key that encrypts it is empty when there is none.\<close>

record snapshot_item =
  SiName :: string
  SiLabels :: labels
  SiKmsKey :: string

record restorer =
  r_Project :: string
  r_Sid :: string
  r_HanaSidAdm :: string
  DataDiskName :: string
  DataDiskDeviceName :: string
  DataDiskZone :: string
  SourceSnapshot :: string
  GroupSnapshot :: string
  NewDiskType :: string
  SourceDisks :: string
  r_disks :: "disk_ref list"
  DataDiskVG :: string
  DataDiskLV :: string
  r_cgName :: string
  baseDataPath :: string
  r_logicalDataPath :: string
  r_physicalDataPath :: string
  physicalLogPath :: string
  labelsOnDetachedDisk :: string
  r_SkipDB :: bool
  ForceStopHANA :: bool
  isGroupSnapshot :: bool
  isScaleout :: bool
  NewDiskName :: string
  NewDiskNames :: string
  NewDiskSuffix :: string
  CSEKKeyFile :: string
  r_Iops :: int
  r_Throughput :: int
  DiskSizeGb :: int
  r_UseSG :: bool
  snapshotItems :: "snapshot_item list"
  newAttachedDisks :: "disk_ref list"
  TargetKMSKey :: string
  TargetKMSKeyring :: string
  TargetKMSLocation :: string
  TargetKMSProject :: string
  TargetKMSServiceAccount :: string

datatype restore_error =
    RHana hb_error
  | RFail string string
  | RUsage string
  | RPanic string

text \<open>\<open>compute.Snapshot\<close> and \<open>compute.Disk\<close>, as far as they are read or written.\<close>

record snapshot_info =
  SnapSize :: int
  SnapKmsKey :: string
  SnapLabels :: labels

record new_disk =
  nd_name :: string
  nd_type :: string
  nd_zone :: string
  nd_source :: string
  nd_kms :: "(string \<times> string) option"
  nd_csek :: "string option"
  nd_size :: int
  nd_iops :: int
  nd_throughput :: int

record found_disk =
  FdUsers :: "string list"
  FdPolicies :: "string list"
  FdType :: string
  FdLabels :: labels
  FdFingerprint :: string

record attached_disk =
  AdName :: string
  AdDevice :: string
  AdMapping :: string

datatype get_error = DiskNotFound | GetFailed string

datatype restore_call =
    RExec cmd
  | ReadMapping
  | GetSnapshot string
  | ListAllSnapshots
  | ListGroupSnapshots string
  | GetGroup string
  | FindDisk string
  | ReadDiskType string
  | IsAttached string string
  | AttachDisk string string
  | DetachDisk string string string
  | InsertDisk new_disk
  | BulkInsert string string
  | WaitDiskOp string
  | ListDisksFromSnapshot string
  | AddPolicy string string
  | RemovePolicy string string
  | ReadKeys string
  | UpdateLabels string string labels
  | RNewService string
  | RClock

record restore_world =
  rexec_env :: "(restore_call, cmd_result) env"
  rdone_env :: "(restore_call, string option) env"
  rvalue_env :: "(restore_call, (string, string) result) env"
  rattached_env :: "(restore_call, (string, string \<times> bool) result) env"
  rdisk_env :: "(restore_call, (get_error, found_disk) result) env"
  rsnap_env :: "(restore_call, (string, snapshot_info) result) env"
  ritems_env :: "(restore_call, (string, snapshot_item list) result) env"
  rmade_env :: "(restore_call, (string, (string \<times> string) list) result) env"
  rmapping_env :: "(restore_call, (string, attached_disk list) result) env"
  rclock_env :: "(restore_call, string) env"
  parseTime :: "string \<Rightarrow> int option"
  rdecodeKeys :: "string \<Rightarrow> key_entry list option"
  rsafeFmt :: "string \<Rightarrow> string \<Rightarrow> string option"
  rcomputePrefix :: string
  ragentVersion :: string

section \<open>Programs that change the restorer\<close>

text \<open>A method of \<open>Restorer\<close>: its result and the restorer afterwards, also when it fails.\<close>

type_synonym 'a rprog = "(restore_call, (restore_error, 'a) result \<times> restorer) prog"

definition rfail :: "restore_error \<Rightarrow> restorer \<Rightarrow> 'a rprog" where
  "rfail e r = ret (Inl e, r)"

definition rok :: "'a \<Rightarrow> restorer \<Rightarrow> 'a rprog" where
  "rok a r = ret (Inr a, r)"

definition thenR :: "'a rprog \<Rightarrow> ('a \<Rightarrow> restorer \<Rightarrow> 'b rprog) \<Rightarrow> 'b rprog" where
  "thenR m f = do {
     x \<leftarrow> m;
     case fst x of Inl e \<Rightarrow> ret (Inl e, snd x) | Inr a \<Rightarrow> f a (snd x)
   }"

text \<open>An operation that does not change the restorer.\<close>

definition reading :: "(restore_call, (restore_error, 'a) result) prog \<Rightarrow> restorer \<Rightarrow> 'a rprog" where
  "reading m r = do { x \<leftarrow> m; ret (x, r) }"

definition rexec :: "restore_world \<Rightarrow> cmd \<Rightarrow> (restore_call, cmd_result) prog" where
  "rexec w c = call (rexec_env w) (RExec c)"

definition rdo :: "restore_world \<Rightarrow> string \<Rightarrow> restore_call \<Rightarrow> (restore_call, (restore_error, unit) result) prog" where
  "rdo w what c = do {
     e \<leftarrow> call (rdone_env w) c;
     ret (case e of None \<Rightarrow> Inr () | Some x \<Rightarrow> Inl (RFail what x))
   }"

definition rget :: "(restore_call, (string, 'a) result) env \<Rightarrow> string \<Rightarrow> restore_call \<Rightarrow> (restore_call, (restore_error, 'a) result) prog" where
  "rget env what c = do {
     x \<leftarrow> call env c;
     ret (case x of Inl e \<Rightarrow> Inl (RFail what e) | Inr a \<Rightarrow> Inr a)
   }"

definition rhana :: "(restore_call, hb_error option) prog \<Rightarrow> (restore_call, (restore_error, unit) result) prog" where
  "rhana m = do { e \<leftarrow> m; ret (case e of None \<Rightarrow> Inr () | Some x \<Rightarrow> Inl (RHana x)) }"

text \<open>A failure that is only logged.\<close>

definition tryIt :: "(restore_call, 'a) prog \<Rightarrow> (restore_call, unit) prog" where
  "tryIt m = do { _ \<leftarrow> m; ret () }"

section \<open>Volumes\<close>

definition fetchVG :: "restore_world \<Rightarrow> string \<Rightarrow> (restore_call, (restore_error, string) result) prog" where
  "fetchVG w path = do {
     r \<leftarrow> rexec w (CmdSplit ''/sbin/pvs'' (hd (splitOn chNL path)) []);
     ret (case CmdError r of
            Some e \<Rightarrow> Inl (RFail ''pvs'' e)
          | None \<Rightarrow>
              (let ls = splitOn chNL (StdOut r)
               in if length ls < 2 then Inl (RFail ''no vg'' path)
                  else let fs = goFields (ls ! 1)
                       in if length fs < 6 then Inl (RFail ''no vg'' path) else Inr (fs ! 1)))
   }"

definition fetchLV :: "restore_world \<Rightarrow> string \<Rightarrow> (restore_call, (restore_error, string) result) prog" where
  "fetchLV w vg = do {
     r \<leftarrow> rexec w (CmdSplit ''/sbin/lvs'' (''--noheadings -o lv_name '' @ vg) []);
     ret (case CmdError r of
            Some e \<Rightarrow> Inl (RFail ''lvs'' e)
          | None \<Rightarrow> if trimSpace (StdOut r) = [] then Inl (RFail ''no lv'' vg) else Inr (trimSpace (StdOut r)))
   }"

definition waitForVG :: "restore_world \<Rightarrow> string \<Rightarrow> (restore_call, restore_error option) prog" where
  "waitForVG w vg = do {
     r \<leftarrow> rexec w (CmdSplit ''/sbin/vgs'' vg []);
     ret (if CmdError r \<noteq> None \<or> ExitCode r \<noteq> 0 then Some (RFail ''vgs'' vg) else None)
   }"

definition waitForVGWithRetry :: "restore_world \<Rightarrow> string \<Rightarrow> (restore_call, restore_error option) prog" where
  "waitForVGWithRetry w vg = retry 60 (waitForVG w vg)"

text \<open>A command that fails only with an error of its execution.\<close>

definition mustExec :: "restore_world \<Rightarrow> string \<Rightarrow> cmd \<Rightarrow> (restore_call, (restore_error, unit) result) prog" where
  "mustExec w what c = do {
     r \<leftarrow> rexec w c;
     ret (if CmdError r \<noteq> None then Inl (RFail what (StdErr r)) else Inr ())
   }"

definition ensureVGRenameSuccessful :: "restore_world \<Rightarrow> string \<Rightarrow> (restore_call, (restore_error, unit) result) prog" where
  "ensureVGRenameSuccessful w vg =
     bindE (mustExec w ''vgscan'' (CmdSplit ''/sbin/vgscan'' ''--mknodes'' [])) (\<lambda>_.
     bindE (mustExec w ''udevadm'' (CmdSplit ''/sbin/udevadm'' ''settle'' [])) (\<lambda>_.
     orFail (waitForVGWithRetry w vg)))"

text \<open>The path of the device, as the last of the disks with its name gives it.\<close>

definition devicePath :: "string \<Rightarrow> attached_disk list \<Rightarrow> string" where
  "devicePath device ds = fold (\<lambda>d p. if AdDevice d = device then ''/dev/'' @ AdMapping d else p) ds []"

definition renameVolumes :: "restore_world \<Rightarrow> restorer \<Rightarrow> string \<Rightarrow> (restore_call, (restore_error, unit) result) prog" where
  "renameVolumes w r restoredVG =
     bindE (if restoredVG \<noteq> DataDiskVG r then
              bindE (mustExec w ''vgrename'' (CmdSplit ''/sbin/vgrename'' (restoredVG @ '' '' @ DataDiskVG r) []))
                (\<lambda>_. ensureVGRenameSuccessful w (DataDiskVG r))
            else ret (Inr ())) (\<lambda>_.
     bindE (fetchLV w (DataDiskVG r)) (\<lambda>restoredLV.
     if restoredLV \<noteq> DataDiskLV r then
       mustExec w ''lvrename''
         (CmdSplit ''/sbin/lvrename'' (DataDiskVG r @ '' '' @ restoredLV @ '' '' @ DataDiskLV r) [])
     else ret (Inr ())))"

definition renameLVM :: "restore_world \<Rightarrow> restorer \<Rightarrow> string \<Rightarrow> (restore_call, (restore_error, unit) result) prog" where
  "renameLVM w r device =
     bindE (rget (rmapping_env w) ''disk mapping'' ReadMapping) (\<lambda>ds.
     bindE (fetchVG w (devicePath device ds)) (\<lambda>vg. renameVolumes w r vg))"

definition checkExec :: "restore_world \<Rightarrow> string \<Rightarrow> cmd \<Rightarrow> (cmd_result \<Rightarrow> bool) \<Rightarrow> (restore_call, (restore_error, cmd_result) result) prog" where
  "checkExec w what c ok = do {
     r \<leftarrow> rexec w c;
     ret (if ok r then Inr r else Inl (RFail what (StdErr r)))
   }"

definition verifyDataVolumeState :: "restore_world \<Rightarrow> restorer \<Rightarrow> (restore_call, (restore_error, unit) result) prog" where
  "verifyDataVolumeState w r =
     bindE (checkExec w ''vgdisplay'' (CmdSplit ''/sbin/vgdisplay'' (DataDiskVG r) [])
       (\<lambda>x. CmdError x = None \<and> ExitCode x = 0 \<and> contains (StdOut x) (DataDiskVG r))) (\<lambda>_.
     bindE (checkExec w ''lvdisplay'' (CmdSplit ''/sbin/lvdisplay'' (r_logicalDataPath r) [])
       (\<lambda>x. CmdError x = None \<and> ExitCode x = 0)) (\<lambda>_. do {
       m \<leftarrow> ReadDataDirMountPath (baseDataPath r) (rexec w);
       case m of
         Inl e \<Rightarrow> ret (Inl (RHana e))
       | Inr mountPath \<Rightarrow>
           bindE (checkExec w ''mountpoint'' (CmdSplit ''mountpoint'' mountPath []) (\<lambda>x. ExitCode x = 0)) (\<lambda>_.
           bindE (checkExec w ''findmnt'' (CmdSplit ''findmnt'' (''-n -o SOURCE --target '' @ mountPath) [])
             (\<lambda>x. CmdError x = None \<and> ExitCode x = 0)) (\<lambda>x.
           ret (if trimSpace (StdOut x) \<noteq> r_logicalDataPath r then Inl (RFail ''wrong volume'' mountPath) else Inr ())))
     }))"

section \<open>Disks\<close>

definition attach :: "restore_world \<Rightarrow> string \<Rightarrow> string \<Rightarrow> (restore_call, (restore_error, unit) result) prog" where
  "attach w disk instance = rdo w ''attach'' (AttachDisk disk instance)"

definition detach :: "restore_world \<Rightarrow> string \<Rightarrow> string \<Rightarrow> string \<Rightarrow> (restore_call, (restore_error, unit) result) prog" where
  "detach w instance disk device = rdo w ''detach'' (DetachDisk instance disk device)"

definition isAttached :: "restore_world \<Rightarrow> string \<Rightarrow> string \<Rightarrow> (restore_call, (restore_error, string \<times> bool) result) prog" where
  "isAttached w instance disk = rget (rattached_env w) ''attachment'' (IsAttached instance disk)"

text \<open>\<open>dev, _, _ := DiskAttachedToInstance(...)\<close>: the device, empty on an error.\<close>

definition deviceOf :: "restore_world \<Rightarrow> string \<Rightarrow> string \<Rightarrow> (restore_call, string) prog" where
  "deviceOf w instance disk = do {
     x \<leftarrow> call (rattached_env w) (IsAttached instance disk);
     ret (case x of Inl _ \<Rightarrow> [] | Inr (dev, _) \<Rightarrow> dev)
   }"

definition findDisk :: "restore_world \<Rightarrow> string \<Rightarrow> (restore_call, (restore_error, found_disk) result) prog" where
  "findDisk w disk = do {
     x \<leftarrow> call (rdisk_env w) (FindDisk disk);
     ret (case x of
            Inl DiskNotFound \<Rightarrow> Inl (RFail ''disk not found'' disk)
          | Inl (GetFailed e) \<Rightarrow> Inl (RFail ''get disk'' e)
          | Inr d \<Rightarrow> Inr d)
   }"

definition modifyDiskInCG :: "restore_world \<Rightarrow> restorer \<Rightarrow> string \<Rightarrow> bool \<Rightarrow> (restore_call, (restore_error, unit) result) prog" where
  "modifyDiskInCG w r disk add =
     (if length (splitOn CHR ''-'' (DataDiskZone r)) < 3 then ret (Inl (RFail ''zone'' (DataDiskZone r)))
      else
        let policy = ''projects/'' @ r_Project r @ ''/regions/'' @ regionOf (DataDiskZone r) @ ''/resourcePolicies/'' @ r_cgName r
        in bindE (rget (rvalue_env w) ''policy'' (if add then AddPolicy disk policy else RemovePolicy disk policy)) (\<lambda>op.
           rdo w ''policy'' (WaitDiskOp op)))"

definition rescan :: "restore_world \<Rightarrow> (restore_call, (restore_error, unit) result) prog" where
  "rescan w = rhana (RescanVolumeGroups (rexec w))"

section \<open>Making a disk from a snapshot\<close>

definition labelOf :: "labels \<Rightarrow> string \<Rightarrow> string" where
  "labelOf ls k = (case map_of ls k of Some v \<Rightarrow> v | None \<Rightarrow> [])"

definition kmsURI :: "restorer \<Rightarrow> string" where
  "kmsURI r = ''projects/'' @ (if TargetKMSProject r = [] then r_Project r else TargetKMSProject r)
     @ ''/locations/'' @ TargetKMSLocation r @ ''/keyRings/'' @ TargetKMSKeyring r @ ''/cryptoKeys/'' @ TargetKMSKey r"

text \<open>The keys of the new disk: the one asked for, the customer-supplied one, or that of the snapshot.\<close>

definition diskKeys ::
  "restore_world \<Rightarrow> restorer \<Rightarrow> snapshot_info \<Rightarrow> string
   \<Rightarrow> (restore_call, (restore_error, (string \<times> string) option \<times> string option) result) prog" where
  "diskKeys w r snap source =
     (if TargetKMSKey r \<noteq> [] \<and> TargetKMSKeyring r \<noteq> []
      then ret (Inr (Some (kmsURI r, TargetKMSServiceAccount r), None))
      else if CSEKKeyFile r \<noteq> [] then do {
        contents \<leftarrow> call (rvalue_env w) (ReadKeys (CSEKKeyFile r));
        ret (case ReadKey (rdecodeKeys w) contents (CSEKKeyFile r)
                    (rcomputePrefix w @ ''projects/'' @ r_Project r @ ''/zones/'' @ DataDiskZone r @ ''/snapshots/'' @ source) of
               Inl e \<Rightarrow> Inl (RHana e)
             | Inr k \<Rightarrow> Inr (None, Some k))
      }
      else ret (Inr (if SnapKmsKey snap \<noteq> [] then Some (SnapKmsKey snap, []) else None, None)))"

definition newDisk :: "restorer \<Rightarrow> string \<Rightarrow> string \<Rightarrow> (string \<times> string) option \<Rightarrow> string option \<Rightarrow> new_disk" where
  "newDisk r name source kms csek =
     \<lparr>nd_name = name, nd_type = NewDiskType r, nd_zone = DataDiskZone r,
      nd_source = ''projects/'' @ r_Project r @ ''/global/snapshots/'' @ source,
      nd_kms = kms, nd_csek = csek,
      nd_size = (if DiskSizeGb r > 0 then DiskSizeGb r else 0),
      nd_iops = (if r_Iops r > 0 then r_Iops r else 0),
      nd_throughput = (if r_Throughput r > 0 then r_Throughput r else 0)\<rparr>"

definition insertAndAttach ::
  "restore_world \<Rightarrow> string \<Rightarrow> new_disk \<Rightarrow> (restore_call, (restore_error, unit) result) prog" where
  "insertAndAttach w instance disk =
     bindE (rget (rvalue_env w) ''insert disk'' (InsertDisk disk)) (\<lambda>op.
     bindE (rdo w ''insert disk'' (WaitDiskOp op)) (\<lambda>_.
     bindE (attach w (nd_name disk) instance) (\<lambda>_.
     bindE (isAttached w instance (nd_name disk)) (\<lambda>(dev, ok).
     ret (if ok then Inr () else Inl (RFail ''not attached'' (nd_name disk)))))))"

text \<open>A size that is not given is that of the snapshot, and stays in the restorer.\<close>

definition restoreFromSnapshot :: "restore_world \<Rightarrow> string \<Rightarrow> string \<Rightarrow> string \<Rightarrow> restorer \<Rightarrow> unit rprog" where
  "restoreFromSnapshot w instance name source r0 =
     thenR (reading (rget (rsnap_env w) ''get snapshot'' (GetSnapshot source)) r0) (\<lambda>snap r1.
       let r = (if DiskSizeGb r1 = 0 then r1\<lparr>DiskSizeGb := SnapSize snap\<rparr> else r1)
       in reading (bindE (diskKeys w r snap source) (\<lambda>(kms, csek).
            insertAndAttach w instance (newDisk r name source kms csek))) r)"

section \<open>One disk\<close>

definition finishRestore :: "restore_world \<Rightarrow> restorer \<Rightarrow> (restore_call, (restore_error, unit) result) prog" where
  "finishRestore w r = bindE (rescan w) (\<lambda>_. verifyDataVolumeState w r)"

definition reattachOld :: "restore_world \<Rightarrow> string \<Rightarrow> restorer \<Rightarrow> (restore_call, unit) prog" where
  "reattachOld w instance r = do {
     _ \<leftarrow> attach w (DataDiskName r) instance;
     tryIt (rescan w)
   }"

definition configureDisk :: "restore_world \<Rightarrow> string \<Rightarrow> restorer \<Rightarrow> unit rprog" where
  "configureDisk w instance r = do {
     dev \<leftarrow> deviceOf w instance (NewDiskName r);
     x \<leftarrow> (if DataDiskVG r \<noteq> [] then renameLVM w r dev else ret (Inr ()));
     case x of
       Inl e \<Rightarrow> do {
         dev2 \<leftarrow> deviceOf w instance (NewDiskName r);
         _ \<leftarrow> detach w instance (NewDiskName r) dev2;
         _ \<leftarrow> reattachOld w instance r;
         rfail e r
       }
     | Inr _ \<Rightarrow> reading (finishRestore w r) r
   }"

definition diskRestore :: "restore_world \<Rightarrow> string \<Rightarrow> restorer \<Rightarrow> unit rprog" where
  "diskRestore w instance r0 = do {
     (x, r) \<leftarrow> restoreFromSnapshot w instance (NewDiskName r0) (SourceSnapshot r0) r0;
     case x of
       Inl e \<Rightarrow> do {
         _ \<leftarrow> reattachOld w instance r;
         rfail e r
       }
     | Inr _ \<Rightarrow> configureDisk w instance r
   }"

end
