(* ===== verification/GroupRestore.thy ===== *)
theory GroupRestore
  imports DiskRestore
begin

text \<open>
  Restoring all disks of a group snapshot (\<open>hanadiskrestore/multidisk.go\<close>), by the snapshot group or,
  for older agents, by the labels of the snapshots; and undoing a failed restore.
\<close>

section \<open>Disks of a snapshot group\<close>

definition bulkInsertDisksFromSG :: "restore_world \<Rightarrow> restorer \<Rightarrow> (restore_call, (restore_error, unit) result) prog" where
  "bulkInsertDisksFromSG w r =
     bindE (rget (rvalue_env w) ''bulk insert'' (BulkInsert
        (rcomputePrefix w @ ''projects/'' @ r_Project r @ ''/global/snapshotGroups/'' @ GroupSnapshot r)
        (rcomputePrefix w @ ''projects/'' @ r_Project r @ ''/zones/'' @ DataDiskZone r @ ''/diskTypes/''
           @ last (splitOn chSlash (NewDiskType r))))) (\<lambda>op.
     rdo w ''bulk insert'' (WaitDiskOp op))"

text \<open>The disk with the latest time stamp that can be read; the first one's must be readable when
  there are several.\<close>

definition laterDisk :: "(string \<Rightarrow> int option) \<Rightarrow> string \<times> string \<Rightarrow> string \<times> int \<Rightarrow> string \<times> int" where
  "laterDisk parse d latest =
     (case parse (snd d) of
        None \<Rightarrow> latest
      | Some t \<Rightarrow> if t > snd latest then (fst d, t) else latest)"

definition latestDisk :: "(string \<Rightarrow> int option) \<Rightarrow> (string \<times> string) list \<Rightarrow> (restore_error, string) result" where
  "latestDisk parse ds =
     (case ds of
        [] \<Rightarrow> Inl (RFail ''no disks for snapshot'' [])
      | d # rest \<Rightarrow>
          if rest = [] then Inr (fst d)
          else (case parse (snd d) of
                  None \<Rightarrow> Inl (RFail ''timestamp'' (fst d))
                | Some t \<Rightarrow> Inr (fst (fold (laterDisk parse) ds (fst d, t)))))"

definition fetchLatestDisk :: "restore_world \<Rightarrow> string \<Rightarrow> (restore_call, (restore_error, string) result) prog" where
  "fetchLatestDisk w snapshotName =
     bindE (rget (rmade_env w) ''list disks'' (ListDisksFromSnapshot snapshotName)) (\<lambda>ds.
     ret (latestDisk (parseTime w) ds))"

text \<open>A disk made under the next of the given names, or the one the group made.\<close>

definition placeDisk ::
  "restore_world \<Rightarrow> string \<Rightarrow> snapshot_item \<Rightarrow> bool \<Rightarrow> string list \<Rightarrow> restorer \<Rightarrow> (string \<times> string list) rprog" where
  "placeDisk w instance item recreate names r =
     (if recreate then
        (case names of
           [] \<Rightarrow> rfail (RFail ''not enough new disk names'' (SiName item)) r
         | n # rest \<Rightarrow> thenR (restoreFromSnapshot w instance n (SiName item) r) (\<lambda>_ r1. rok (n, rest) r1))
      else
        reading (bindE (fetchLatestDisk w (SiName item)) (\<lambda>d.
          bindE (attach w d instance) (\<lambda>_. ret (Inr (d, names))))) r)"

definition addAttached :: "string \<Rightarrow> string \<Rightarrow> string \<Rightarrow> restorer \<Rightarrow> restorer" where
  "addAttached disk dev instance r =
     r\<lparr>newAttachedDisks := newAttachedDisks r @ [\<lparr>DrName = disk, DrDevice = dev, DrInstance = instance\<rparr>]\<rparr>"

definition recordDisk :: "restore_world \<Rightarrow> string \<Rightarrow> string \<Rightarrow> restorer \<Rightarrow> string rprog" where
  "recordDisk w instance disk r0 =
     thenR (reading (isAttached w instance disk) r0) (\<lambda>(dev, ok) r1.
       if \<not> ok then rfail (RFail ''not attached'' disk) r1
       else
         let r = addAttached disk dev instance r1
         in do {
              _ \<leftarrow> modifyDiskInCG w r disk True;
              rok dev r
            })"

definition targetInstance :: "string \<Rightarrow> restorer \<Rightarrow> snapshot_item \<Rightarrow> (restore_error, string) result" where
  "targetInstance cpInstance r item =
     (if \<not> isScaleout r then Inr cpInstance
      else let i = labelOf (SiLabels item) ''goog-sapagent-instance-name''
           in if i = [] then Inl (RFail ''no instance name'' (SiName item)) else Inr i)"

definition restoreAndConfigureDisk ::
  "restore_world \<Rightarrow> string \<Rightarrow> snapshot_item \<Rightarrow> bool \<Rightarrow> string list \<Rightarrow> restorer \<Rightarrow> (string \<times> string list) rprog" where
  "restoreAndConfigureDisk w cpInstance item recreate names r0 =
     thenR (reading (ret (targetInstance cpInstance r0 item)) r0) (\<lambda>instance r1.
     thenR (placeDisk w instance item recreate names r1) (\<lambda>(disk, rest) r2.
     thenR (recordDisk w instance disk r2) (\<lambda>dev r3.
     rok (dev, rest) r3)))"

primrec restoreItems ::
  "restore_world \<Rightarrow> string \<Rightarrow> bool \<Rightarrow> snapshot_item list \<Rightarrow> string list \<Rightarrow> string \<Rightarrow> restorer \<Rightarrow> string rprog" where
  "restoreItems w cpInstance recreate [] names dev r = rok dev r"
| "restoreItems w cpInstance recreate (item # items) names dev r =
     thenR (restoreAndConfigureDisk w cpInstance item recreate names r) (\<lambda>(dev', rest) r1.
     restoreItems w cpInstance recreate items rest dev' r1)"

definition renameLVMForScaleup :: "restore_world \<Rightarrow> string \<Rightarrow> restorer \<Rightarrow> unit rprog" where
  "renameLVMForScaleup w dev r =
     (if \<not> isScaleout r \<and> DataDiskVG r \<noteq> [] then reading (renameLVM w r dev) r else rok () r)"

definition shouldRecreateDisk :: "restorer \<Rightarrow> bool" where
  "shouldRecreateDisk r \<longleftrightarrow>
     NewDiskNames r \<noteq> [] \<or> r_Iops r > 0 \<or> r_Throughput r > 0 \<or> DiskSizeGb r > 0 \<or> TargetKMSKey r \<noteq> []"

definition splitNames :: "string \<Rightarrow> string list" where
  "splitNames s = map trimSpace (splitOn CHR '','' s)"

definition generatedNames :: "restorer \<Rightarrow> string \<Rightarrow> string list" where
  "generatedNames r stamp =
     map (\<lambda>i. GroupSnapshot r @ ''-disk'' @ natStr (i + 1) @ ''-'' @ stamp) [0..<length (snapshotItems r)]"

definition namesForDisks :: "restore_world \<Rightarrow> restorer \<Rightarrow> (restore_call, (restore_error, string list) result) prog" where
  "namesForDisks w r =
     (if NewDiskNames r \<noteq> [] then ret (Inr (splitNames (NewDiskNames r)))
      else do {
        stamp \<leftarrow> call (rclock_env w) RClock;
        ret (case find (\<lambda>n. length n > 63) (generatedNames r stamp) of
               Some n \<Rightarrow> Inl (RFail ''disk name too long'' n)
             | None \<Rightarrow> Inr (generatedNames r stamp))
      })"

definition createAttachAndConfigureDisks :: "restore_world \<Rightarrow> string \<Rightarrow> restorer \<Rightarrow> unit rprog" where
  "createAttachAndConfigureDisks w cpInstance r0 =
     thenR (reading (if shouldRecreateDisk r0 then namesForDisks w r0
                     else bindE (bulkInsertDisksFromSG w r0) (\<lambda>_. ret (Inr []))) r0) (\<lambda>names r1.
     thenR (restoreItems w cpInstance (shouldRecreateDisk r0) (snapshotItems r1) names [] r1) (\<lambda>dev r2.
     renameLVMForScaleup w dev r2))"

text \<open>\<open>GetGroup\<close> answers with an empty name when there is no such group.\<close>

definition groupRestoreWithSGWorkflow :: "restore_world \<Rightarrow> string \<Rightarrow> restorer \<Rightarrow> unit rprog" where
  "groupRestoreWithSGWorkflow w cpInstance r0 =
     thenR (reading (rget (rvalue_env w) ''get group'' (GetGroup (GroupSnapshot r0))) r0) (\<lambda>sg r1.
       if sg = [] then rfail (RFail ''group not found'' (GroupSnapshot r1)) r1
       else createAttachAndConfigureDisks w cpInstance r1)"

section \<open>Snapshots found by their label\<close>

definition ofGroup :: "restorer \<Rightarrow> snapshot_item \<Rightarrow> bool" where
  "ofGroup r item \<longleftrightarrow> labelOf (SiLabels item) ''goog-sapagent-isg'' = GroupSnapshot r"

definition restoreLabelled ::
  "restore_world \<Rightarrow> string \<Rightarrow> snapshot_item \<Rightarrow> string \<Rightarrow> restorer \<Rightarrow> string rprog" where
  "restoreLabelled w cpInstance item name r0 =
     (let instance = labelOf (SiLabels item) ''goog-sapagent-instance-name''
      in if instance = [] then rfail (RFail ''no instance name'' (SiName item)) r0
         else
           thenR (restoreFromSnapshot w instance name (SiName item) r0) (\<lambda>_ r1. do {
             dev \<leftarrow> deviceOf w cpInstance name;
             let r = addAttached name dev cpInstance r1;
             _ \<leftarrow> modifyDiskInCG w r name True;
             rok dev r
           }))"

text \<open>Taking the next name from an empty list panics.\<close>

fun restoreAllLabelled ::
  "restore_world \<Rightarrow> string \<Rightarrow> snapshot_item list \<Rightarrow> string list \<Rightarrow> nat \<Rightarrow> string \<Rightarrow> restorer \<Rightarrow> (nat \<times> string) rprog" where
  "restoreAllLabelled w cpInstance [] names n dev r = rok (n, dev) r"
| "restoreAllLabelled w cpInstance (item # items) names n dev r =
     (if \<not> ofGroup r item then restoreAllLabelled w cpInstance items names n dev r
      else case names of
             [] \<Rightarrow> rfail (RPanic ''no disk name left'') r
           | name # rest \<Rightarrow>
               thenR (restoreLabelled w cpInstance item name r) (\<lambda>dev' r1.
               restoreAllLabelled w cpInstance items rest (n + 1) dev' r1))"

definition groupRestoreWithISGWorkflow :: "restore_world \<Rightarrow> string \<Rightarrow> restorer \<Rightarrow> unit rprog" where
  "groupRestoreWithISGWorkflow w cpInstance r0 =
     thenR (reading (rget (ritems_env w) ''list snapshots'' ListAllSnapshots) r0) (\<lambda>items r1.
     thenR (restoreAllLabelled w cpInstance items (splitNames (NewDiskNames r1)) 0 [] r1) (\<lambda>(n, dev) r2.
       if n \<noteq> length (r_disks r2) then rfail (RFail ''wrong number of disks'' (natStr n)) r2
       else renameLVMForScaleup w dev r2))"

section \<open>Failures\<close>

primrec detachNew :: "restore_world \<Rightarrow> restorer \<Rightarrow> disk_ref list \<Rightarrow> (restore_call, unit) prog" where
  "detachNew w r [] = ret ()"
| "detachNew w r (d # ds) = do {
     _ \<leftarrow> detach w (DrInstance d) (DrName d) (DrDevice d);
     _ \<leftarrow> modifyDiskInCG w r (DrName d) False;
     detachNew w r ds
   }"

primrec reattachDisks :: "restore_world \<Rightarrow> restorer \<Rightarrow> disk_ref list \<Rightarrow> (restore_call, unit) prog" where
  "reattachDisks w r [] = ret ()"
| "reattachDisks w r (d # ds) = do {
     x \<leftarrow> attach w (DrName d) (DrInstance d);
     _ \<leftarrow> (case x of Inl _ \<Rightarrow> ret (Inr ()) | Inr _ \<Rightarrow> modifyDiskInCG w r (DrName d) True);
     reattachDisks w r ds
   }"

definition handleRestoreFailure :: "restore_world \<Rightarrow> restorer \<Rightarrow> (restore_call, unit) prog" where
  "handleRestoreFailure w r = do {
     _ \<leftarrow> detachNew w r (newAttachedDisks r);
     _ \<leftarrow> reattachDisks w r (r_disks r);
     tryIt (rescan w)
   }"

fun isPanic :: "restore_error \<Rightarrow> bool" where
  "isPanic (RPanic _) = True"
| "isPanic _ = False"

text \<open>A panic leaves the function at once.\<close>

definition groupRestore :: "restore_world \<Rightarrow> string \<Rightarrow> restorer \<Rightarrow> unit rprog" where
  "groupRestore w cpInstance r0 = do {
     (x, r) \<leftarrow> (if r_UseSG r0 then groupRestoreWithSGWorkflow w cpInstance r0
                else groupRestoreWithISGWorkflow w cpInstance r0);
     case x of
       Inl e \<Rightarrow>
         if isPanic e then rfail e r
         else do {
           _ \<leftarrow> handleRestoreFailure w r;
           rfail e r
         }
     | Inr _ \<Rightarrow> reading (finishRestore w r) r
   }"

end
