(* ===== verification/RestoreHandler.thy ===== *)
theory RestoreHandler
  imports GroupRestore
begin

text \<open>
  The subcommand \<open>hanadiskrestore\<close> as a whole (\<open>hanadiskrestore.go\<close>): validation of the arguments,
  the checks before a restore, stopping HANA and detaching the old disks, and the handler. Creating
  the clients of the services can fail; afterwards none of them is nil. The validation of encryption
  keys, which only warns, and the recording of the system's state are left out.
\<close>

section \<open>Arguments\<close>

definition isSuffixChar :: "char \<Rightarrow> bool" where
  "isSuffixChar c \<longleftrightarrow> isDigit c \<or> (97 \<le> codeOf c \<and> codeOf c \<le> 122)"

text \<open>\<open>suffixRegex\<close>\<close>

definition validSuffix :: "string \<Rightarrow> bool" where
  "validSuffix s \<longleftrightarrow> s \<noteq> [] \<and> isSuffixChar (hd s) \<and> isSuffixChar (last s) \<and>
     list_all (\<lambda>c. isSuffixChar c \<or> c = CHR ''-'') s"

definition fromGroup :: "restorer \<Rightarrow> bool" where
  "fromGroup r \<longleftrightarrow> r_Sid r \<noteq> [] \<and> GroupSnapshot r \<noteq> []"

definition fromSingle :: "restorer \<Rightarrow> bool" where
  "fromSingle r \<longleftrightarrow> r_Sid r \<noteq> [] \<and> SourceSnapshot r \<noteq> [] \<and> NewDiskName r \<noteq> []"

definition setNames :: "cloud_properties option \<Rightarrow> restorer \<Rightarrow> (restore_error, restorer) result" where
  "setNames cp r =
     (let sid = toUpper (r_Sid r);
          done = (\<lambda>r1. r1\<lparr>r_Sid := sid,
                   r_HanaSidAdm := (if r_HanaSidAdm r1 = [] then toLower sid @ ''adm'' else r_HanaSidAdm r1),
                   isGroupSnapshot := (fromGroup r \<or> isGroupSnapshot r1)\<rparr>)
      in if r_Project r \<noteq> [] then Inr (done r)
         else case cp of
                None \<Rightarrow> Inl (RUsage ''project'')
              | Some c \<Rightarrow> Inr (done (r\<lparr>r_Project := ProjectId c\<rparr>)))"

definition zoneRegion :: "string \<Rightarrow> string" where
  "zoneRegion zone = (if length (splitOn CHR ''-'' zone) \<ge> 2 then regionOf zone else [])"

definition setKmsLocation :: "cloud_properties option \<Rightarrow> restorer \<Rightarrow> (restore_error, restorer) result" where
  "setKmsLocation cp r =
     (if TargetKMSLocation r \<noteq> [] then Inr r
      else if DataDiskZone r \<noteq> [] then Inr (r\<lparr>TargetKMSLocation := zoneRegion (DataDiskZone r)\<rparr>)
      else case cp of
             None \<Rightarrow> Inl (RUsage ''target kms location'')
           | Some c \<Rightarrow> Inr (r\<lparr>TargetKMSLocation := zoneRegion (Zone c)\<rparr>))"

definition setKmsProject :: "cloud_properties option \<Rightarrow> restorer \<Rightarrow> (restore_error, restorer) result" where
  "setKmsProject cp r =
     (if TargetKMSProject r \<noteq> [] then Inr r
      else case cp of
             None \<Rightarrow> Inl (RUsage ''target kms project'')
           | Some c \<Rightarrow> Inr (r\<lparr>TargetKMSProject := ProjectId c\<rparr>))"

definition checkEncryption :: "restorer \<Rightarrow> restore_error option" where
  "checkEncryption r =
     (if isGroupSnapshot r \<and> CSEKKeyFile r \<noteq> [] then Some (RUsage ''csek of a group'')
      else if CSEKKeyFile r \<noteq> [] \<and> TargetKMSKey r \<noteq> [] then Some (RUsage ''csek and kms'')
      else if (TargetKMSKey r = []) \<noteq> (TargetKMSKeyring r = []) then Some (RUsage ''kms key and keyring'')
      else None)"

definition checkArguments :: "string \<Rightarrow> restorer \<Rightarrow> restore_error option" where
  "checkArguments os r =
     (if os = ''windows'' then Some (RUsage ''os'')
      else if fromGroup r \<and> fromSingle r then Some (RUsage ''source-snapshot and group-snapshot-name'')
      else if \<not> fromGroup r \<and> \<not> fromSingle r then Some (RUsage ''required arguments'')
      else if length (NewDiskName r) > 63 then Some (RUsage ''new-disk-name'')
      else if NewDiskSuffix r \<noteq> [] \<and> \<not> validSuffix (NewDiskSuffix r) then Some (RUsage ''new-disk-suffix'')
      else None)"

definition andThen :: "('e, 'a) result \<Rightarrow> ('a \<Rightarrow> ('e, 'b) result) \<Rightarrow> ('e, 'b) result" where
  "andThen x f = (case x of Inl e \<Rightarrow> Inl e | Inr a \<Rightarrow> f a)"

definition validateRestore :: "string \<Rightarrow> cloud_properties option \<Rightarrow> restorer \<Rightarrow> (restore_error, restorer) result" where
  "validateRestore os cp r =
     (if r_SkipDB r then Inr r
      else case checkArguments os r of
             Some e \<Rightarrow> Inl e
           | None \<Rightarrow>
               andThen (setNames cp r) (\<lambda>r1.
               case checkEncryption r1 of
                 Some e \<Rightarrow> Inl e
               | None \<Rightarrow> andThen (setKmsLocation cp r1) (setKmsProject cp)))"

section \<open>Snapshots\<close>

fun parseKMSKeyLocation :: "string list \<Rightarrow> string" where
  "parseKMSKeyLocation (p # q # ps) = (if p = ''locations'' then q else parseKMSKeyLocation (q # ps))"
| "parseKMSKeyLocation _ = []"

definition isValidKMSLocation :: "string \<Rightarrow> string \<Rightarrow> bool" where
  "isValidKMSLocation kmsLocation diskRegion \<longleftrightarrow>
     kmsLocation = diskRegion \<or> kmsLocation = ''global'' \<or>
     \<not> contains kmsLocation ''-'' \<or> contains kmsLocation ''nam-eur-asia''"

definition validateSnapshotCMEKLocation :: "restorer \<Rightarrow> string \<Rightarrow> string \<Rightarrow> (restore_error, unit) result" where
  "validateSnapshotCMEKLocation r kmsKey diskRegion =
     (let loc = parseKMSKeyLocation (splitOn chSlash kmsKey)
      in if TargetKMSKey r \<noteq> [] \<and> TargetKMSKeyring r \<noteq> [] then Inr ()
         else if kmsKey = [] \<or> loc = [] then Inr ()
         else if diskRegion = [] then Inl (RFail ''unknown disk region'' loc)
         else if isValidKMSLocation loc diskRegion then Inr ()
         else Inl (RFail ''snapshot key location'' loc))"

text \<open>The value of \<open>strconv.ParseInt(s, 10, 64)\<close> whatever its error: 0 for a text that is not a
  number, the nearest bound for a number that does not fit.\<close>

fun satDigits :: "nat \<Rightarrow> string \<Rightarrow> nat option" where
  "satDigits acc [] = Some acc"
| "satDigits acc (c # s) =
     (if \<not> isDigit c then None
      else let a = acc * 10 + (codeOf c - 48) in if a \<ge> 2 ^ 64 then Some (2 ^ 64 - 1) else satDigits a s)"

definition parseIntValue :: "string \<Rightarrow> int" where
  "parseIntValue s =
     (let (neg, ds) = (case s of
          [] \<Rightarrow> (False, s)
        | c # r \<Rightarrow> (if c = CHR ''-'' then (True, r) else if c = CHR ''+'' then (False, r) else (False, s)))
      in if ds = [] then 0
         else case satDigits 0 ds of
                None \<Rightarrow> 0
              | Some n \<Rightarrow> max int64Min (min int64Max (if neg then - int n else int n)))"

definition extractLabels :: "labels \<Rightarrow> restorer \<Rightarrow> restorer" where
  "extractLabels ls r =
     (let iops = map_of ls ''goog-sapagent-provisioned-iops'';
          tpt = map_of ls ''goog-sapagent-provisioned-throughput''
      in r\<lparr>r_Iops := (case iops of Some v \<Rightarrow> if r_Iops r = 0 then parseIntValue v else r_Iops r | None \<Rightarrow> r_Iops r),
           r_Throughput := (case tpt of Some v \<Rightarrow> if r_Throughput r = 0 then parseIntValue v else r_Throughput r
                            | None \<Rightarrow> r_Throughput r)\<rparr>)"

definition useSnapshot :: "restore_world \<Rightarrow> string \<Rightarrow> string \<Rightarrow> restorer \<Rightarrow> unit rprog" where
  "useSnapshot w name diskRegion r0 =
     thenR (reading (rget (rsnap_env w) ''get snapshot'' (GetSnapshot name)) r0) (\<lambda>snap r1.
       let r = extractLabels (SnapLabels snap) r1
       in ret (validateSnapshotCMEKLocation r (SnapKmsKey snap) diskRegion, r))"

primrec useLabelled :: "string \<Rightarrow> snapshot_item list \<Rightarrow> nat \<Rightarrow> restorer \<Rightarrow> (restore_error, nat) result \<times> restorer" where
  "useLabelled diskRegion [] n r = (Inr n, r)"
| "useLabelled diskRegion (item # items) n r =
     (if \<not> ofGroup r item then useLabelled diskRegion items n r
      else
        let r1 = extractLabels (SiLabels item) r
        in case validateSnapshotCMEKLocation r1 (SiKmsKey item) diskRegion of
             Inl e \<Rightarrow> (Inl e, r1)
           | Inr _ \<Rightarrow> useLabelled diskRegion items (n + 1) r1)"

definition verifySnapshotPresence :: "restore_world \<Rightarrow> string \<Rightarrow> restorer \<Rightarrow> unit rprog" where
  "verifySnapshotPresence w diskRegion r0 =
     (if \<not> isGroupSnapshot r0 then useSnapshot w (SourceSnapshot r0) diskRegion r0
      else if r_UseSG r0 then
        thenR (reading (rget (ritems_env w) ''list group'' (ListGroupSnapshots (GroupSnapshot r0))) r0) (\<lambda>items r1.
          if items = [] then rfail (RFail ''no snapshots in group'' (GroupSnapshot r1)) r1
          else if length items \<noteq> length (r_disks r1) then rfail (RFail ''wrong number of snapshots'' (GroupSnapshot r1)) r1
          else useSnapshot w (SiName (hd items)) diskRegion (r1\<lparr>snapshotItems := items\<rparr>))
      else
        thenR (reading (rget (ritems_env w) ''list snapshots'' ListAllSnapshots) r0) (\<lambda>items r1.
        thenR (ret (useLabelled diskRegion items 0 r1)) (\<lambda>n r2.
          if n \<noteq> length (r_disks r2) then rfail (RFail ''wrong number of snapshots'' (GroupSnapshot r2)) r2
          else rok () r2)))"

section \<open>Disks of the data directory\<close>

text \<open>The getters of cloud properties that are nil give empty strings.\<close>

definition cpOf :: "cloud_properties option \<Rightarrow> cloud_properties" where
  "cpOf cp = (case cp of None \<Rightarrow> \<lparr>ProjectId = [], Zone = [], InstanceName = []\<rparr> | Some c \<Rightarrow> c)"

definition addMapped :: "cloud_properties \<Rightarrow> attached_disk \<Rightarrow> restorer \<Rightarrow> restorer" where
  "addMapped cp d r =
     (if \<not> DiskMatches (r_physicalDataPath r) (AdMapping d) then r
      else if isGroupSnapshot r then
        r\<lparr>r_disks := r_disks r @ [\<lparr>DrName = AdName d, DrDevice = AdDevice d, DrInstance = InstanceName cp\<rparr>],
          DataDiskZone := Zone cp\<rparr>
      else if DataDiskName r \<noteq> [] \<and> DataDiskName r \<noteq> AdName d then r
      else r\<lparr>DataDiskName := AdName d, DataDiskZone := Zone cp\<rparr>)"

definition readMapping :: "restore_world \<Rightarrow> cloud_properties \<Rightarrow> restorer \<Rightarrow> unit rprog" where
  "readMapping w cp r0 =
     thenR (reading (rget (rmapping_env w) ''disk mapping'' ReadMapping) r0) (\<lambda>ds r1.
     rok () (fold (addMapped cp) ds r1))"

definition addDisk :: "string \<Rightarrow> string \<Rightarrow> string \<Rightarrow> restorer \<Rightarrow> restorer" where
  "addDisk disk dev instance r =
     r\<lparr>r_disks := r_disks r @ [\<lparr>DrName = disk, DrDevice = dev, DrInstance = instance\<rparr>]\<rparr>"

primrec scaleupDisks :: "restore_world \<Rightarrow> cloud_properties \<Rightarrow> string list \<Rightarrow> restorer \<Rightarrow> unit rprog" where
  "scaleupDisks w cp [] r = rok () r"
| "scaleupDisks w cp (x # xs) r0 =
     thenR (reading (isAttached w (InstanceName cp) (trimSpace x)) r0) (\<lambda>(dev, ok) r1.
       if \<not> ok then rfail (RFail ''not attached'' (trimSpace x)) r1
       else scaleupDisks w cp xs (addDisk (trimSpace x) dev (InstanceName cp) (r1\<lparr>DataDiskZone := Zone cp\<rparr>)))"

text \<open>\<open>mine\<close>: the disks of the data directory not met yet.\<close>

primrec scaleoutDisks ::
  "restore_world \<Rightarrow> cloud_properties \<Rightarrow> string list \<Rightarrow> string list \<Rightarrow> restorer \<Rightarrow> unit rprog" where
  "scaleoutDisks w cp [] mine r =
     (if mine = [] then rok () r else rfail (RFail ''source-disks lacks'' (joinWith '','' mine)) r)"
| "scaleoutDisks w cp (x # xs) mine r0 =
     (let d = trimSpace x
      in if d \<in> set mine then
           thenR (reading (isAttached w (InstanceName cp) d) r0) (\<lambda>(dev, ok) r1.
             if \<not> ok then rfail (RFail ''not attached'' d) r1
             else scaleoutDisks w cp xs (filter (\<lambda>m. m \<noteq> d) mine) r1)
         else
           thenR (reading (findDisk w d) r0) (\<lambda>disk r1.
             if FdUsers disk = [] then rfail (RFail ''in no instance'' d) r1
             else
               let instance = last (splitOn chSlash (hd (FdUsers disk)))
               in do {
                    dev \<leftarrow> deviceOf w instance d;
                    scaleoutDisks w cp xs mine (addDisk d dev instance r1)
                  }))"

definition multiDisksAttachedToInstance :: "restore_world \<Rightarrow> cloud_properties \<Rightarrow> restorer \<Rightarrow> unit rprog" where
  "multiDisksAttachedToInstance w cp r0 = do {
     t \<leftarrow> CheckTopology (rexec w) (r_Sid r0) False [];
     case t of
       Inl e \<Rightarrow> rfail (RHana e) (r0\<lparr>isScaleout := False\<rparr>)
     | Inr scaleout \<Rightarrow>
         let r = r0\<lparr>isScaleout := scaleout\<rparr>
         in if scaleout then
              (if SourceDisks r = [] then rfail (RFail ''source-disks'' ''scaleout'') r
               else scaleoutDisks w cp (splitOn CHR '','' (SourceDisks r)) (remdups (map DrName (r_disks r))) r)
            else if SourceDisks r \<noteq> [] then
              scaleupDisks w cp (splitOn CHR '','' (SourceDisks r)) (r\<lparr>r_disks := []\<rparr>)
            else rok () r
   }"

definition attachedToInstance :: "restore_world \<Rightarrow> cloud_properties \<Rightarrow> restorer \<Rightarrow> unit rprog" where
  "attachedToInstance w cp r0 =
     (if isGroupSnapshot r0 then multiDisksAttachedToInstance w cp r0
      else
        thenR (reading (isAttached w (InstanceName cp) (DataDiskName r0)) r0) (\<lambda>(dev, ok) r1.
          if ok then rok () (r1\<lparr>DataDiskDeviceName := dev\<rparr>)
          else rfail (RFail ''not attached'' (DataDiskName r1)) r1))"

section \<open>Consistency groups and names of new disks\<close>

definition readConsistencyGroupOf :: "restore_world \<Rightarrow> string \<Rightarrow> (restore_call, (restore_error, string) result) prog" where
  "readConsistencyGroupOf w disk =
     bindE (findDisk w disk) (\<lambda>d.
     ret (if cgPath (FdPolicies d) = [] then Inl (RFail ''no consistency group'' disk) else Inr (cgPath (FdPolicies d))))"

primrec sameGroup :: "restore_world \<Rightarrow> disk_ref list \<Rightarrow> restorer \<Rightarrow> unit rprog" where
  "sameGroup w [] r = rok () r"
| "sameGroup w (d # ds) r0 =
     thenR (reading (readConsistencyGroupOf w (DrName d)) r0) (\<lambda>cg r1.
       if r_cgName r1 \<noteq> [] \<and> cg \<noteq> r_cgName r1 then rfail (RFail ''consistency group'' (DrName d)) r1
       else sameGroup w ds (r1\<lparr>r_cgName := cg\<rparr>))"

definition buildNewDiskName :: "string \<Rightarrow> string \<Rightarrow> (restore_error, string) result" where
  "buildNewDiskName disk sfx =
     (let n = disk @ ''-'' @ sfx
      in if length n > 63 then Inl (RFail ''new disk name too long'' n) else Inr n)"

definition addNewName :: "string \<Rightarrow> disk_ref \<Rightarrow> string \<Rightarrow> (restore_error, string) result" where
  "addNewName sfx d names = andThen (buildNewDiskName (DrName d) sfx) (\<lambda>n. Inr (names @ '','' @ n))"

text \<open>When a name is too long, the names before it stay in the restorer; the command then ends.\<close>

definition nameNewDisks :: "restorer \<Rightarrow> (restore_error, restorer) result" where
  "nameNewDisks r =
     (if NewDiskNames r = [] \<and> NewDiskSuffix r \<noteq> [] then
        andThen (foldE (addNewName (NewDiskSuffix r)) (r_disks r) [])
          (\<lambda>names. Inr (r\<lparr>NewDiskNames := trimPrefix names '',''\<rparr>))
      else Inr r)"

definition isDiskUnique :: "restore_world \<Rightarrow> string \<Rightarrow> (restore_call, (restore_error, bool) result) prog" where
  "isDiskUnique w disk = do {
     x \<leftarrow> call (rdisk_env w) (FindDisk disk);
     ret (case x of
            Inr _ \<Rightarrow> Inr False
          | Inl DiskNotFound \<Rightarrow> Inr True
          | Inl (GetFailed e) \<Rightarrow> Inl (RFail ''get disk'' e))
   }"

primrec allUnique :: "restore_world \<Rightarrow> string list \<Rightarrow> (restore_call, (restore_error, unit) result) prog" where
  "allUnique w [] = ret (Inr ())"
| "allUnique w (n # ns) =
     bindE (isDiskUnique w n) (\<lambda>ok.
       if ok then allUnique w ns else ret (Inl (RFail ''disk exists'' n)))"

definition checkNewNames :: "restore_world \<Rightarrow> restorer \<Rightarrow> (restore_call, (restore_error, unit) result) prog" where
  "checkNewNames w r =
     (if NewDiskNames r = [] then ret (Inr ())
      else
        let names = splitOn CHR '','' (NewDiskNames r)
        in if length names \<noteq> length (r_disks r) then ret (Inl (RFail ''number of new disk names'' (NewDiskNames r)))
           else allUnique w names)"

definition setDiskType :: "restore_world \<Rightarrow> restorer \<Rightarrow> unit rprog" where
  "setDiskType w r0 =
     (if NewDiskType r0 \<noteq> [] then
        rok () (r0\<lparr>NewDiskType :=
          ''projects/'' @ r_Project r0 @ ''/zones/'' @ DataDiskZone r0 @ ''/diskTypes/'' @ NewDiskType r0\<rparr>)
      else if \<not> isGroupSnapshot r0 then
        thenR (reading (rget (rvalue_env w) ''disk type'' (ReadDiskType (DataDiskName r0))) r0) (\<lambda>t r1.
        rok () (r1\<lparr>NewDiskType := t\<rparr>))
      else if r_disks r0 = [] then rfail (RFail ''no disks'' []) r0
      else
        thenR (reading (findDisk w (DrName (hd (r_disks r0)))) r0) (\<lambda>d r1.
        rok () (r1\<lparr>NewDiskType := FdType d\<rparr>)))"

section \<open>Checks before a restore\<close>

definition checkDirs :: "restore_world \<Rightarrow> restorer \<Rightarrow> unit rprog" where
  "checkDirs w r0 = do {
     ((d, l, p), e) \<leftarrow> CheckDataDir (r_Sid r0) (rexec w);
     let r = r0\<lparr>baseDataPath := d, r_logicalDataPath := l, r_physicalDataPath := p\<rparr>;
     case e of
       Some x \<Rightarrow> rfail (RHana x) r
     | None \<Rightarrow> do {
         ((_, _, lp), e2) \<leftarrow> CheckLogDir (r_Sid r) (rexec w);
         let r2 = r\<lparr>physicalLogPath := lp\<rparr>;
         (case e2 of Some x \<Rightarrow> rfail (RHana x) r2 | None \<Rightarrow> rok () r2)
       }
   }"

definition sharedDevice :: "restorer \<Rightarrow> bool" where
  "sharedDevice r \<longleftrightarrow>
     list_ex (\<lambda>d. list_ex (\<lambda>l. d = l) (goFields (physicalLogPath r))) (goFields (r_physicalDataPath r))"

definition checkPaths :: "restorer \<Rightarrow> restore_error option" where
  "checkPaths r =
     (if r_physicalDataPath r = [] \<or> physicalLogPath r = [] then Some (RFail ''no physical path'' [])
      else if sharedDevice r then Some (RFail ''data and log on one disk'' (r_physicalDataPath r))
      else None)"

definition diskRegionOf :: "cloud_properties option \<Rightarrow> restorer \<Rightarrow> (restore_error, string) result" where
  "diskRegionOf cp r =
     (if DataDiskZone r \<noteq> [] then Inr (zoneRegion (DataDiskZone r))
      else case cp of
             None \<Rightarrow> Inl (RFail ''target disk zone'' [])
           | Some c \<Rightarrow> Inr (zoneRegion (Zone c)))"

definition checkTargetKey :: "string \<Rightarrow> restorer \<Rightarrow> (restore_error, restorer) result" where
  "checkTargetKey diskRegion r =
     (if TargetKMSKey r \<noteq> [] \<and> TargetKMSKeyring r \<noteq> [] then
        (if diskRegion = [] then Inl (RFail ''target disk region'' [])
         else if TargetKMSLocation r = [] then Inr (r\<lparr>TargetKMSLocation := diskRegion\<rparr>)
         else if isValidKMSLocation (TargetKMSLocation r) diskRegion then Inr r
         else Inl (RFail ''target KMS location'' (TargetKMSLocation r)))
      else Inr r)"

definition checkSnapshots :: "restore_world \<Rightarrow> cloud_properties option \<Rightarrow> restorer \<Rightarrow> unit rprog" where
  "checkSnapshots w cp r =
     (case andThen (diskRegionOf cp r) (\<lambda>region. andThen (checkTargetKey region r) (\<lambda>r1. Inr (region, r1))) of
        Inl e \<Rightarrow> rfail e r
      | Inr (region, r1) \<Rightarrow> verifySnapshotPresence w region r1)"

definition checkNewDisks :: "restore_world \<Rightarrow> restorer \<Rightarrow> unit rprog" where
  "checkNewDisks w r0 =
     (case nameNewDisks r0 of
        Inl e \<Rightarrow> rfail e r0
      | Inr r \<Rightarrow> reading (checkNewNames w r) r)"

definition checkPreConditions :: "restore_world \<Rightarrow> cloud_properties option \<Rightarrow> restorer \<Rightarrow> unit rprog" where
  "checkPreConditions w cp r0 =
     thenR (checkDirs w r0) (\<lambda>_ r1.
     thenR (case checkPaths r1 of Some e \<Rightarrow> rfail e r1 | None \<Rightarrow> rok () r1) (\<lambda>_ r2.
     thenR (if DataDiskName r2 = [] \<or> DataDiskZone r2 = [] \<or> isGroupSnapshot r2
            then readMapping w (cpOf cp) r2 else rok () r2) (\<lambda>_ r3.
     thenR (attachedToInstance w (cpOf cp) r3) (\<lambda>_ r4.
     thenR (checkSnapshots w cp r4) (\<lambda>_ r5.
     thenR (setDiskType w r5) (\<lambda>_ r6.
     thenR (sameGroup w (r_disks r6) r6) (\<lambda>_ r7.
     checkNewDisks w r7)))))))"

section \<open>Preparation\<close>

text \<open>HANA is stopped and its data directory unmounted.\<close>

definition quiesce :: "restore_world \<Rightarrow> restorer \<Rightarrow> (restore_call, (restore_error, unit) result) prog" where
  "quiesce w r = do {
     m \<leftarrow> ReadDataDirMountPath (baseDataPath r) (rexec w);
     case m of
       Inl e \<Rightarrow> ret (Inl (RHana e))
     | Inr mountPath \<Rightarrow>
         bindE (rhana (StopHANA (rsafeFmt w) (ForceStopHANA r) (r_HanaSidAdm r) (r_Sid r) (rexec w))) (\<lambda>_.
         bindE (rhana (WaitForIndexServerToStopWithRetry (r_HanaSidAdm r) (rexec w))) (\<lambda>_.
         rhana (Unmount mountPath (rexec w) (isScaleout r))))
   }"

definition readVolumes :: "restore_world \<Rightarrow> restorer \<Rightarrow> unit rprog" where
  "readVolumes w r0 =
     (if isScaleout r0 then rok () r0
      else
        thenR (reading (fetchVG w (r_physicalDataPath r0)) r0) (\<lambda>vg r1.
        let r = r1\<lparr>DataDiskVG := vg\<rparr>
        in thenR (reading (fetchLV w vg) r) (\<lambda>lv r2. rok () (r2\<lparr>DataDiskLV := lv\<rparr>))))"

definition detachSingle :: "restore_world \<Rightarrow> string \<Rightarrow> restorer \<Rightarrow> (restore_call, (restore_error, unit) result) prog" where
  "detachSingle w instance r = do {
     x \<leftarrow> detach w instance (DataDiskName r) (DataDiskDeviceName r);
     case x of
       Inl e \<Rightarrow> do { _ \<leftarrow> rescan w; ret (Inl e) }
     | Inr _ \<Rightarrow> ret (Inr ())
   }"

text \<open>The disks detached so far, in order; the first that cannot be attached again ends the loop.\<close>

primrec reattachDetached :: "restore_world \<Rightarrow> restorer \<Rightarrow> disk_ref list \<Rightarrow> (restore_call, (restore_error, unit) result) prog" where
  "reattachDetached w r [] = ret (Inr ())"
| "reattachDetached w r (d # ds) =
     bindE (rdo w ''reattach'' (AttachDisk (DrName d) (DrInstance d))) (\<lambda>_. do {
       _ \<leftarrow> modifyDiskInCG w r (DrName d) True;
       reattachDetached w r ds
     })"

primrec detachAll ::
  "restore_world \<Rightarrow> restorer \<Rightarrow> disk_ref list \<Rightarrow> disk_ref list \<Rightarrow> (restore_call, (restore_error, unit) result) prog" where
  "detachAll w r detached [] = ret (Inr ())"
| "detachAll w r detached (d # ds) = do {
     x \<leftarrow> detach w (DrInstance d) (DrName d) (DrDevice d);
     case x of
       Inl e \<Rightarrow> bindE (reattachDetached w r detached) (\<lambda>_. do { _ \<leftarrow> rescan w; ret (Inl e) })
     | Inr _ \<Rightarrow> do {
         _ \<leftarrow> modifyDiskInCG w r (DrName d) False;
         detachAll w r (detached @ [d]) ds
       }
   }"

definition prepareRestore :: "restore_world \<Rightarrow> string \<Rightarrow> restorer \<Rightarrow> unit rprog" where
  "prepareRestore w instance r0 =
     thenR (reading (quiesce w r0) r0) (\<lambda>_ r1.
     thenR (readVolumes w r1) (\<lambda>_ r2.
     reading (if isGroupSnapshot r2 then detachAll w r2 [] (r_disks r2) else detachSingle w instance r2) r2))"

definition prepareForHANAChangeDiskType :: "restore_world \<Rightarrow> string \<Rightarrow> restorer \<Rightarrow> (restore_call, (restore_error, unit) result) prog" where
  "prepareForHANAChangeDiskType w instance r = do {
     m \<leftarrow> ReadDataDirMountPath (baseDataPath r) (rexec w);
     case m of
       Inl e \<Rightarrow> ret (Inl (RHana e))
     | Inr mountPath \<Rightarrow>
         bindE (rhana (Unmount mountPath (rexec w) (isScaleout r))) (\<lambda>_. detachSingle w instance r)
   }"

section \<open>The handler\<close>

definition addPair :: "string \<Rightarrow> labels \<Rightarrow> (restore_error, labels) result" where
  "addPair pair ls =
     (let parts = splitOn CHR ''='' pair
      in if length parts \<noteq> 2 then Inl (RFail ''labels'' pair)
         else Inr (AList.update (trimSpace (parts ! 0)) (trimSpace (parts ! 1)) ls))"

definition appendLabels :: "string \<Rightarrow> labels \<Rightarrow> (restore_error, labels) result" where
  "appendLabels newLabels ls = foldE addPair (splitOn CHR '','' (replaceAll newLabels '' '' [])) ls"

definition appendLabelsToDetachedDisk ::
  "restore_world \<Rightarrow> restorer \<Rightarrow> string \<Rightarrow> (restore_call, (restore_error, unit) result) prog" where
  "appendLabelsToDetachedDisk w r disk =
     bindE (findDisk w disk) (\<lambda>d.
     bindE (ret (appendLabels (labelsOnDetachedDisk r) (FdLabels d))) (\<lambda>ls.
     bindE (rget (rvalue_env w) ''update labels'' (UpdateLabels disk (FdFingerprint d) ls)) (\<lambda>op.
     rdo w ''update labels'' (WaitDiskOp op))))"

primrec labelDetached :: "restore_world \<Rightarrow> restorer \<Rightarrow> string list \<Rightarrow> (restore_call, (restore_error, unit) result) prog" where
  "labelDetached w r [] = ret (Inr ())"
| "labelDetached w r (d # ds) = bindE (appendLabelsToDetachedDisk w r d) (\<lambda>_. labelDetached w r ds)"

definition labelOldDisks :: "restore_world \<Rightarrow> restorer \<Rightarrow> (restore_call, (restore_error, unit) result) prog" where
  "labelOldDisks w r =
     (if labelsOnDetachedDisk r = [] then ret (Inr ())
      else labelDetached w r (if isGroupSnapshot r then map DrName (r_disks r) else [DataDiskName r]))"

primrec newServices :: "restore_world \<Rightarrow> string list \<Rightarrow> (restore_call, (restore_error, unit) result) prog" where
  "newServices w [] = ret (Inr ())"
| "newServices w (s # ss) = bindE (rdo w s (RNewService s)) (\<lambda>_. newServices w ss)"

definition servicesFor :: "restorer \<Rightarrow> string list" where
  "servicesFor r = [''monitoring'', ''gce''] @ (if r_UseSG r then [''snapshot group''] else []) @ [''compute'', ''kms'']"

definition prepareFor :: "restore_world \<Rightarrow> string \<Rightarrow> restorer \<Rightarrow> unit rprog" where
  "prepareFor w instance r =
     (if r_SkipDB r then reading (prepareForHANAChangeDiskType w instance r) r else prepareRestore w instance r)"

definition replaceDisks :: "restore_world \<Rightarrow> string \<Rightarrow> restorer \<Rightarrow> unit rprog" where
  "replaceDisks w instance r0 = do {
     _ \<leftarrow> rescan w;
     thenR (if isGroupSnapshot r0 then groupRestore w instance r0 else diskRestore w instance r0) (\<lambda>_ r.
     reading (labelOldDisks w r) r)
   }"

definition restoreHandler :: "restore_world \<Rightarrow> string \<Rightarrow> cloud_properties option \<Rightarrow> restorer \<Rightarrow> unit rprog" where
  "restoreHandler w os cp r0 =
     (case validateRestore os cp r0 of
        Inl e \<Rightarrow> rfail e r0
      | Inr r1 \<Rightarrow>
          thenR (reading (newServices w (servicesFor r1)) r1) (\<lambda>_ r2.
          thenR (checkPreConditions w cp r2) (\<lambda>_ r3.
          thenR (prepareFor w (InstanceName (cpOf cp)) r3) (\<lambda>_ r4.
          replaceDisks w (InstanceName (cpOf cp)) r4))))"

text \<open>Versions before 3.10 find the snapshots of a group by their labels.\<close>

definition Run_restore :: "restore_world \<Rightarrow> string \<Rightarrow> cloud_properties option \<Rightarrow> restorer \<Rightarrow> unit rprog" where
  "Run_restore w os cp r =
     restoreHandler w os cp (r\<lparr>r_UseSG := (compareVersions (ragentVersion w) ''3.10'' \<noteq> Inr True)\<rparr>)"

end
