(* ===== verification/RestoreSafety.thy ===== *)
theory RestoreSafety
  imports RestoreHandler
begin

text \<open>
  What a restore does to the disks of the instance. The state of a disk is read off the requests to
  attach and detach it and their answers: \<open>abandoned\<close> when it was detached and no attempt to attach it
  followed, \<open>placed\<close> when it was attached and no attempt to detach it followed. \<open>guarded\<close> states what
  came before every detach.
\<close>

section \<open>Programs with the restorer\<close>

lemma wp_thenR:
  "wp (thenR m f) Q log =
   wp m (\<lambda>x log'. case fst x of Inl e \<Rightarrow> Q (Inl e, snd x) log' | Inr a \<Rightarrow> wp (f a (snd x)) Q log') log"
proof -
  have "(\<lambda>x. wp (case fst x of Inl e \<Rightarrow> ret (Inl e, snd x) | Inr a \<Rightarrow> f a (snd x)) Q) =
      (\<lambda>x log'. case fst x of Inl e \<Rightarrow> Q (Inl e, snd x) log' | Inr a \<Rightarrow> wp (f a (snd x)) Q log')"
    by (rule ext, rule ext) (simp add: wp_rules split: sum.splits)
  then show ?thesis by (simp only: thenR_def wp_bind)
qed

lemma thenR_wp:
  assumes m: "wp m P log"
    and e: "\<And>e r log'. P (Inl e, r) log' \<Longrightarrow> Q (Inl e, r) log'"
    and f: "\<And>a r log'. P (Inr a, r) log' \<Longrightarrow> wp (f a r) Q log'"
  shows "wp (thenR m f) Q log"
  unfolding wp_thenR
proof (rule wp_mono [OF m])
  fix x log'
  assume "P x log'"
  then show "case fst x of Inl e \<Rightarrow> Q (Inl e, snd x) log' | Inr a \<Rightarrow> wp (f a (snd x)) Q log'"
    by (cases x; cases "fst x") (auto intro: e f)
qed

lemma wp_reading: "wp (reading m r) Q log = wp m (\<lambda>x. Q (x, r)) log"
  by (simp only: reading_def wp_bind wp_return_fun)

lemma wp_rok: "wp (rok a r) Q log = Q (Inr a, r) log"
  by (simp add: rok_def wp_return)

lemma wp_rfail: "wp (rfail e r) Q log = Q (Inl e, r) log"
  by (simp add: rfail_def wp_return)

lemma calls_thenR [calls_rules]:
  "calls_only P m \<Longrightarrow> (\<And>a r. calls_only P (f a r)) \<Longrightarrow> calls_only P (thenR m f)"
  by (auto simp: thenR_def intro!: calls_rules)

lemma calls_reading [calls_rules]: "calls_only P m \<Longrightarrow> calls_only P (reading m r)"
  by (auto simp: reading_def intro!: calls_rules)

lemma calls_rok [calls_rules]: "calls_only P (rok a r)" "calls_only P (rfail e r)"
  by (auto simp: rok_def rfail_def intro!: calls_rules)

section \<open>Calls of the operations\<close>

fun noDisk :: "restore_call \<Rightarrow> bool" where
  "noDisk (AttachDisk _ _) = False"
| "noDisk (DetachDisk _ _ _) = False"
| "noDisk _ = True"

fun noDetach :: "restore_call \<Rightarrow> bool" where
  "noDetach (DetachDisk _ _ _) = False"
| "noDetach _ = True"

lemma noDisk_noDetach: "noDisk c \<Longrightarrow> noDetach c"
  by (cases c) simp_all

lemma noDetach_mono: "calls_only noDisk m \<Longrightarrow> calls_only noDetach m"
  by (erule calls_only_mono) (rule noDisk_noDetach)

lemma calls_rexec [calls_rules]: "P (RExec c) \<Longrightarrow> calls_only P (rexec w c)"
  by (auto simp: rexec_def intro!: calls_rules)

lemma calls_rdo [calls_rules]: "P c \<Longrightarrow> calls_only P (rdo w what c)"
  by (auto simp: rdo_def intro!: calls_rules)

lemma calls_rget [calls_rules]: "P c \<Longrightarrow> calls_only P (rget env what c)"
  by (auto simp: rget_def intro!: calls_rules)

lemma calls_rhana [calls_rules]: "calls_only P m \<Longrightarrow> calls_only P (rhana m)"
  by (auto simp: rhana_def intro!: calls_rules)

lemma calls_tryIt [calls_rules]: "calls_only P m \<Longrightarrow> calls_only P (tryIt m)"
  by (auto simp: tryIt_def intro!: calls_rules)

lemma calls_retry [calls_rules]: "calls_only P op \<Longrightarrow> calls_only P (retry n op)"
  by (induction n) (auto intro!: calls_rules)

lemma calls_runAll: "(\<And>c. calls_only P (ex c)) \<Longrightarrow> calls_only P (runAll ex cs)"
  by (induction cs) (auto intro!: calls_rules)

lemma calls_commands [calls_rules]:
  assumes "\<And>c. calls_only P (ex c)"
  shows "calls_only P (RescanVolumeGroups ex)" "calls_only P (Unmount path ex b)"
    "calls_only P (ReadDataDirMountPath path ex)" "calls_only P (WaitForIndexServerToStopWithRetry user ex)"
  unfolding RescanVolumeGroups_def Unmount_def ReadDataDirMountPath_def WaitForIndexServerToStopWithRetry_def
    waitForIndexServerToStop_def
  by (intro calls_rules calls_runAll assms)+

lemma calls_StopHANA [calls_rules]:
  "(\<And>c. calls_only P (ex c)) \<Longrightarrow> calls_only P (StopHANA safe force user sid ex)"
  unfolding StopHANA_def by (intro calls_rules) auto

lemma calls_paths [calls_rules]:
  assumes "\<And>c. calls_only P (ex c)"
  shows "calls_only P (ParseBasePath pat sid ex)" "calls_only P (ParseLogicalPath path ex)"
    "calls_only P (ParsePhysicalPath path ex)"
  unfolding ParseBasePath_def ParseLogicalPath_def ParsePhysicalPath_def
  by (auto simp: Let_def intro!: calls_rules assms)

lemma calls_dirs [calls_rules]:
  assumes "\<And>c. calls_only P (ex c)"
  shows "calls_only P (CheckDataDir sid ex)" "calls_only P (CheckLogDir sid ex)"
    "calls_only P (CheckTopology ex sid b n)"
  unfolding CheckDataDir_def CheckLogDir_def CheckTopology_def getInstanceNumber_def
  by (auto intro!: calls_rules assms)

lemma noDisk_rescan [calls_rules]: "calls_only noDisk (rescan w)"
  unfolding rescan_def by (intro calls_rules) simp

lemma noDisk_volumes [calls_rules]:
  "calls_only noDisk (fetchVG w p)" "calls_only noDisk (fetchLV w vg)" "calls_only noDisk (mustExec w what c)"
  "calls_only noDisk (checkExec w what c ok)" "calls_only noDisk (waitForVGWithRetry w vg)"
  unfolding fetchVG_def fetchLV_def mustExec_def checkExec_def waitForVGWithRetry_def waitForVG_def
  by (auto intro!: calls_rules)

lemma noDisk_ensure [calls_rules]: "calls_only noDisk (ensureVGRenameSuccessful w vg)"
  unfolding ensureVGRenameSuccessful_def by (intro calls_rules)

lemma noDisk_renameLVM [calls_rules]: "calls_only noDisk (renameLVM w r dev)"
  unfolding renameLVM_def renameVolumes_def by (intro calls_rules) simp

lemma noDisk_verify [calls_rules]: "calls_only noDisk (verifyDataVolumeState w r)"
  unfolding verifyDataVolumeState_def by (intro calls_rules) auto

lemma noDisk_reads [calls_rules]:
  "calls_only noDisk (isAttached w i d)" "calls_only noDisk (deviceOf w i d)" "calls_only noDisk (findDisk w d)"
  unfolding isAttached_def deviceOf_def findDisk_def by (auto intro!: calls_rules)

lemma noDisk_modify [calls_rules]: "calls_only noDisk (modifyDiskInCG w r d add)"
  unfolding modifyDiskInCG_def Let_def by (auto intro!: calls_rules)

lemma noDisk_diskKeys [calls_rules]: "calls_only noDisk (diskKeys w r snap s)"
  unfolding diskKeys_def by (auto intro!: calls_rules)

lemma noDisk_finish [calls_rules]: "calls_only noDisk (finishRestore w r)"
  unfolding finishRestore_def by (intro calls_rules)

lemma noDisk_group [calls_rules]:
  "calls_only noDisk (bulkInsertDisksFromSG w r)" "calls_only noDisk (fetchLatestDisk w s)"
  "calls_only noDisk (namesForDisks w r)" "calls_only noDisk (renameLVMForScaleup w dev r)"
  unfolding bulkInsertDisksFromSG_def fetchLatestDisk_def namesForDisks_def renameLVMForScaleup_def
  by (auto intro!: calls_rules)

lemma noDisk_recordDisk [calls_rules]: "calls_only noDisk (recordDisk w i d r)"
  unfolding recordDisk_def Let_def by (auto intro!: calls_rules)

lemma noDetach_attach [calls_rules]: "calls_only noDetach (attach w d i)"
  unfolding attach_def by (intro calls_rules) simp

lemma noDetach_restoreFromSnapshot [calls_rules]: "calls_only noDetach (restoreFromSnapshot w i n s r)"
  unfolding restoreFromSnapshot_def insertAndAttach_def Let_def
  by (auto intro!: calls_rules noDetach_mono [OF noDisk_diskKeys] noDetach_mono [OF noDisk_reads(1)])

lemma noDetach_restoreItem [calls_rules]:
  "calls_only noDetach (restoreAndConfigureDisk w i item recreate systemNames r)"
  unfolding restoreAndConfigureDisk_def placeDisk_def
  by (auto split: list.splits intro!: calls_rules noDetach_mono [OF noDisk_recordDisk]
      noDetach_mono [OF noDisk_group(2)])

lemma noDetach_restoreItems [calls_rules]:
  "calls_only noDetach (restoreItems w i recreate items names dev r)"
  by (induction items arbitrary: names dev r) (auto intro!: calls_rules)

lemma noDetach_groupSG [calls_rules]: "calls_only noDetach (groupRestoreWithSGWorkflow w i r)"
  unfolding groupRestoreWithSGWorkflow_def createAttachAndConfigureDisks_def
  by (auto intro!: calls_rules noDetach_mono [OF noDisk_group(1)] noDetach_mono [OF noDisk_group(3)]
      noDetach_mono [OF noDisk_group(4)])

lemma noDetach_restoreLabelled [calls_rules]: "calls_only noDetach (restoreLabelled w i item n r)"
  unfolding restoreLabelled_def Let_def
  by (auto intro!: calls_rules noDetach_mono [OF noDisk_modify] noDetach_mono [OF noDisk_reads(2)])

lemma noDetach_restoreAllLabelled [calls_rules]:
  "calls_only noDetach (restoreAllLabelled w i items names n dev r)"
  by (induction items arbitrary: names n dev r) (auto split: list.splits intro!: calls_rules)

lemma noDetach_groupISG [calls_rules]: "calls_only noDetach (groupRestoreWithISGWorkflow w i r)"
  unfolding groupRestoreWithISGWorkflow_def
  by (auto intro!: calls_rules noDetach_mono [OF noDisk_group(4)])

lemma noDisk_useSnapshot [calls_rules]: "calls_only noDisk (useSnapshot w n region r)"
  unfolding useSnapshot_def Let_def by (intro calls_rules) simp

lemma noDisk_presence [calls_rules]: "calls_only noDisk (verifySnapshotPresence w region r)"
  unfolding verifySnapshotPresence_def by (auto intro!: calls_rules)

lemma noDisk_readMapping [calls_rules]: "calls_only noDisk (readMapping w cp r)"
  unfolding readMapping_def by (intro calls_rules) simp

lemma noDisk_scaleup [calls_rules]: "calls_only noDisk (scaleupDisks w cp xs r)"
  by (induction xs arbitrary: r) (auto intro!: calls_rules)

lemma noDisk_scaleout [calls_rules]: "calls_only noDisk (scaleoutDisks w cp xs mine r)"
  by (induction xs arbitrary: mine r) (auto simp: Let_def intro!: calls_rules)

lemma noDisk_multi [calls_rules]: "calls_only noDisk (multiDisksAttachedToInstance w cp r)"
  unfolding multiDisksAttachedToInstance_def Let_def by (auto intro!: calls_rules)

lemma noDisk_attached [calls_rules]: "calls_only noDisk (attachedToInstance w cp r)"
  unfolding attachedToInstance_def by (auto intro!: calls_rules)

lemma noDisk_sameGroup [calls_rules]: "calls_only noDisk (sameGroup w ds r)"
  by (induction ds arbitrary: r) (auto simp: readConsistencyGroupOf_def intro!: calls_rules)

lemma noDisk_unique [calls_rules]: "calls_only noDisk (allUnique w ns)"
  by (induction ns) (auto simp: isDiskUnique_def intro!: calls_rules)

lemma noDisk_newDisks [calls_rules]: "calls_only noDisk (checkNewDisks w r)" "calls_only noDisk (setDiskType w r)"
  unfolding checkNewDisks_def checkNewNames_def setDiskType_def Let_def by (auto intro!: calls_rules)

lemma noDisk_checkDirs [calls_rules]: "calls_only noDisk (checkDirs w r)"
  unfolding checkDirs_def Let_def by (auto intro!: calls_rules)

lemma noDisk_checkSnapshots [calls_rules]: "calls_only noDisk (checkSnapshots w cp r)"
  unfolding checkSnapshots_def by (auto intro!: calls_rules)

lemma noDisk_preConditions [calls_rules]: "calls_only noDisk (checkPreConditions w cp r)"
  unfolding checkPreConditions_def by (auto intro!: calls_rules)

lemma noDisk_prepare [calls_rules]: "calls_only noDisk (quiesce w r)" "calls_only noDisk (readVolumes w r)"
  unfolding quiesce_def readVolumes_def Let_def by (auto intro!: calls_rules)

lemma noDisk_newServices [calls_rules]: "calls_only noDisk (newServices w ss)"
  by (induction ss) (auto intro!: calls_rules)

lemma noDisk_labels [calls_rules]: "calls_only noDisk (appendLabelsToDetachedDisk w r d)"
  unfolding appendLabelsToDetachedDisk_def by (auto intro!: calls_rules)

lemma noDisk_labelDetached [calls_rules]: "calls_only noDisk (labelDetached w r ds)"
  by (induction ds) (auto intro!: calls_rules)

lemma noDisk_labelOld [calls_rules]: "calls_only noDisk (labelOldDisks w r)"
  unfolding labelOldDisks_def by (auto intro!: calls_rules)

section \<open>What the operations keep of the restorer\<close>

definition keepsR :: "(restorer \<Rightarrow> 'v) \<Rightarrow> 'a rprog \<Rightarrow> restorer \<Rightarrow> bool" where
  "keepsR f m r \<longleftrightarrow> (\<forall>log. wp m (\<lambda>x _. f (snd x) = f r) log)"

lemma keepsR_thenR:
  assumes "keepsR f m r" and "\<And>a r1. f r1 = f r \<Longrightarrow> keepsR f (g a r1) r1"
  shows "keepsR f (thenR m g) r"
  unfolding keepsR_def
proof
  fix log
  show "wp (thenR m g) (\<lambda>x _. f (snd x) = f r) log"
    by (rule thenR_wp [OF assms(1) [unfolded keepsR_def, rule_format]])
      (simp_all, metis assms(2) keepsR_def)
qed

lemma keepsR_ret: "f r1 = f r \<Longrightarrow> keepsR f (rok a r1) r" "f r1 = f r \<Longrightarrow> keepsR f (rfail e r1) r"
  "f (snd x) = f r \<Longrightarrow> keepsR f (ret x) r"
  by (simp_all add: keepsR_def wp_rok wp_rfail wp_return)

lemma keepsR_reading: "f r1 = f r \<Longrightarrow> keepsR f (reading m r1) r"
  by (simp add: keepsR_def wp_reading wp_triv)

lemma keepsR_bind: "(\<And>a. keepsR f (g a) r) \<Longrightarrow> keepsR f (State_Monad.bind m g) r"
  by (auto simp: keepsR_def wp_bind intro: wp_mono [OF wp_triv])

lemma keepsR_if: "(b \<Longrightarrow> keepsR f m r) \<Longrightarrow> (\<not> b \<Longrightarrow> keepsR f n r) \<Longrightarrow> keepsR f (if b then m else n) r"
  by simp

lemma keepsR_from: "keepsR f m r1 \<Longrightarrow> f r1 = f r \<Longrightarrow> keepsR f m r"
  by (simp add: keepsR_def)

lemmas keepsR_rules = keepsR_thenR keepsR_ret keepsR_reading keepsR_if

text \<open>What the checks before a restore do not change, and what only the first of them changes.\<close>

definition corePart :: "restorer \<Rightarrow> (bool \<times> bool \<times> bool \<times> disk_ref list \<times> string) \<times> string \<times> string" where
  "corePart r = ((r_SkipDB r, isGroupSnapshot r, r_UseSG r, newAttachedDisks r, NewDiskName r), r_Sid r, r_HanaSidAdm r)"

definition fixedPart :: "restorer \<Rightarrow> ((bool \<times> bool \<times> bool \<times> disk_ref list \<times> string) \<times> string \<times> string) \<times> string" where
  "fixedPart r = (corePart r, baseDataPath r)"

lemma fixedPart_updates [simp]:
  "fixedPart (r\<lparr>DataDiskZone := z\<rparr>) = fixedPart r" "fixedPart (r\<lparr>r_disks := ds\<rparr>) = fixedPart r"
  "fixedPart (r\<lparr>DataDiskName := z\<rparr>) = fixedPart r" "fixedPart (r\<lparr>DataDiskDeviceName := z\<rparr>) = fixedPart r"
  "fixedPart (r\<lparr>isScaleout := b\<rparr>) = fixedPart r" "fixedPart (r\<lparr>r_cgName := z\<rparr>) = fixedPart r"
  "fixedPart (r\<lparr>NewDiskNames := z\<rparr>) = fixedPart r" "fixedPart (r\<lparr>NewDiskType := z\<rparr>) = fixedPart r"
  "fixedPart (r\<lparr>snapshotItems := xs\<rparr>) = fixedPart r" "fixedPart (r\<lparr>TargetKMSLocation := z\<rparr>) = fixedPart r"
  "fixedPart (r\<lparr>r_Iops := i, r_Throughput := j\<rparr>) = fixedPart r" "fixedPart (addDisk d dev inst r) = fixedPart r"
  "fixedPart (r\<lparr>physicalLogPath := a\<rparr>) = fixedPart r" "fixedPart (r\<lparr>DataDiskVG := a\<rparr>) = fixedPart r"
  "fixedPart (r\<lparr>DataDiskLV := a\<rparr>) = fixedPart r" "fixedPart (extractLabels ls r) = fixedPart r"
  by (simp_all add: fixedPart_def corePart_def addDisk_def extractLabels_def Let_def)

lemma corePart_updates [simp]:
  "corePart (r\<lparr>baseDataPath := a, r_logicalDataPath := b, r_physicalDataPath := c\<rparr>) = corePart r"
  "corePart (r\<lparr>physicalLogPath := d\<rparr>) = corePart r"
  by (simp_all add: corePart_def)

lemma keepsR_weaken: "keepsR g m r \<Longrightarrow> (\<And>x y. g x = g y \<Longrightarrow> f x = f y) \<Longrightarrow> keepsR f m r"
  unfolding keepsR_def by (blast intro: wp_mono)

lemma keeps_core: "keepsR fixedPart m r \<Longrightarrow> keepsR corePart m r"
  by (erule keepsR_weaken) (simp add: fixedPart_def)

lemma fixedPart_addMapped: "fixedPart (fold (addMapped cp) ds r) = fixedPart r"
  by (induction ds arbitrary: r) (simp_all add: addMapped_def)

lemma keeps_readMapping: "keepsR fixedPart (readMapping w cp r) r"
  unfolding readMapping_def by (auto intro!: keepsR_rules simp: fixedPart_addMapped)

lemma keeps_scaleup: "keepsR fixedPart (scaleupDisks w cp xs r) r"
proof (induction xs arbitrary: r)
  case (Cons x xs)
  show ?case
    by (auto intro!: keepsR_rules intro!: keepsR_from [OF Cons.IH])
qed (simp add: keepsR_ret)

lemma keeps_scaleout: "keepsR fixedPart (scaleoutDisks w cp xs mine r) r"
proof (induction xs arbitrary: mine r)
  case (Cons x xs)
  show ?case
    by (auto simp: Let_def intro!: keepsR_rules keepsR_bind intro!: keepsR_from [OF Cons.IH])
qed (simp add: keepsR_ret)

lemma keeps_attached: "keepsR fixedPart (attachedToInstance w cp r) r"
  unfolding attachedToInstance_def multiDisksAttachedToInstance_def
  by (auto simp: Let_def split: sum.splits intro!: keepsR_rules keepsR_bind
      intro!: keepsR_from [OF keeps_scaleup] keepsR_from [OF keeps_scaleout])

lemma keeps_useSnapshot: "keepsR fixedPart (useSnapshot w n region r) r"
  unfolding useSnapshot_def by (auto simp: Let_def intro!: keepsR_rules)

lemma useLabelled_fixed: "fixedPart (snd (useLabelled region items n r)) = fixedPart r"
  by (induction items arbitrary: n r) (auto simp: Let_def split: sum.splits)

lemma keeps_presence: "keepsR fixedPart (verifySnapshotPresence w region r) r"
  unfolding verifySnapshotPresence_def
  by (auto intro!: keepsR_rules intro!: keepsR_from [OF keeps_useSnapshot] simp: useLabelled_fixed)

lemma checkTargetKey_fixed: "checkTargetKey region r = Inr r1 \<Longrightarrow> fixedPart r1 = fixedPart r"
  by (auto simp: checkTargetKey_def split: if_splits)

lemma keeps_checkSnapshots: "keepsR fixedPart (checkSnapshots w cp r) r"
proof (cases "andThen (diskRegionOf cp r) (\<lambda>region. andThen (checkTargetKey region r) (\<lambda>r1. Inr (region, r1)))")
  case (Inr x)
  then obtain region r1 where x: "x = (region, r1)" and "checkTargetKey region r = Inr r1"
    by (auto simp: andThen_def split: sum.splits)
  with Inr show ?thesis
    by (auto simp: checkSnapshots_def intro!: keepsR_from [OF keeps_presence] checkTargetKey_fixed)
qed (simp add: checkSnapshots_def keepsR_ret)

lemma keeps_setDiskType: "keepsR fixedPart (setDiskType w r) r"
  unfolding setDiskType_def by (auto intro!: keepsR_rules)

lemma keeps_sameGroup: "keepsR fixedPart (sameGroup w ds r) r"
proof (induction ds arbitrary: r)
  case (Cons d ds)
  show ?case by (auto intro!: keepsR_rules intro!: keepsR_from [OF Cons.IH])
qed (simp add: keepsR_ret)

lemma nameNewDisks_fixed: "nameNewDisks r = Inr r1 \<Longrightarrow> fixedPart r1 = fixedPart r"
  by (auto simp: nameNewDisks_def andThen_def split: if_splits sum.splits)

lemma keeps_checkNewDisks: "keepsR fixedPart (checkNewDisks w r) r"
  by (cases "nameNewDisks r") (auto simp: checkNewDisks_def nameNewDisks_fixed intro!: keepsR_rules)

lemma keeps_checkDirs: "keepsR corePart (checkDirs w r) r"
  unfolding checkDirs_def
  by (auto simp: Let_def split: option.splits prod.splits intro!: keepsR_bind keepsR_rules)

text \<open>The checks after that of the directories.\<close>

definition checkRest :: "restore_world \<Rightarrow> cloud_properties option \<Rightarrow> restorer \<Rightarrow> unit rprog" where
  "checkRest w cp r1 =
     thenR (case checkPaths r1 of Some e \<Rightarrow> rfail e r1 | None \<Rightarrow> rok () r1) (\<lambda>_ r2.
     thenR (if DataDiskName r2 = [] \<or> DataDiskZone r2 = [] \<or> isGroupSnapshot r2
            then readMapping w (cpOf cp) r2 else rok () r2) (\<lambda>_ r3.
     thenR (attachedToInstance w (cpOf cp) r3) (\<lambda>_ r4.
     thenR (checkSnapshots w cp r4) (\<lambda>_ r5.
     thenR (setDiskType w r5) (\<lambda>_ r6.
     thenR (sameGroup w (r_disks r6) r6) (\<lambda>_ r7.
     checkNewDisks w r7))))))"

lemma checkPreConditions_rest: "checkPreConditions w cp r = thenR (checkDirs w r) (\<lambda>_. checkRest w cp)"
  by (simp add: checkPreConditions_def checkRest_def [abs_def])

lemma keeps_checkRest: "keepsR fixedPart (checkRest w cp r) r"
  unfolding checkRest_def
  by (intro keepsR_thenR keepsR_if keeps_readMapping keeps_attached keeps_checkSnapshots
      keeps_setDiskType keeps_sameGroup keeps_checkNewDisks)
    (auto split: option.splits intro!: keepsR_ret)

lemma keeps_preConditions: "keepsR corePart (checkPreConditions w cp r) r"
  unfolding checkPreConditions_rest
  by (rule keepsR_thenR [OF keeps_checkDirs keeps_core [OF keeps_checkRest]])

lemma noDisk_checkRest: "calls_only noDisk (checkRest w cp r)"
  unfolding checkRest_def by (auto split: option.splits intro!: calls_rules)

section \<open>Nothing is detached before HANA is quiet\<close>

text \<open>Whether a command was run and answered as described.\<close>

primrec ran :: "restore_world \<Rightarrow> (cmd \<Rightarrow> cmd_result \<Rightarrow> bool) \<Rightarrow> restore_call list \<Rightarrow> bool" where
  "ran w P [] \<longleftrightarrow> False"
| "ran w P (c # log) \<longleftrightarrow> (case c of RExec x \<Rightarrow> P x (rexec_env w log c) | _ \<Rightarrow> False) \<or> ran w P log"

definition readsMount :: "string \<Rightarrow> string \<Rightarrow> cmd \<Rightarrow> cmd_result \<Rightarrow> bool" where
  "readsMount base mount c res \<longleftrightarrow>
     c = CmdSplit ''bash'' ('' '' @ shC (''df --output=target '' @ base @ ''| tail -n 1'')) [] \<and>
     \<not> failed res \<and> trimSpace (StdOut res) = mount"

definition readsDataPath :: "string \<Rightarrow> string \<Rightarrow> cmd \<Rightarrow> cmd_result \<Rightarrow> bool" where
  "readsDataPath sid base c res \<longleftrightarrow>
     c = basePathCmd ''basepath_datavolumes'' sid \<and> \<not> failed res \<and> trimSpace (StdOut res) = base"

text \<open>An unmount is done when its command succeeds or, on other hosts of a scale-out system, finds nothing mounted.\<close>

definition unmountDone :: "string \<Rightarrow> cmd \<Rightarrow> cmd_result \<Rightarrow> bool" where
  "unmountDone mount c res \<longleftrightarrow>
     c = CmdSplit ''bash'' ('' '' @ shC (''sync;umount -f '' @ mount)) [] \<and>
     (CmdError res = None \<or> contains (StdErr res) ''not mounted.'')"

definition indexServerGone :: "string \<Rightarrow> cmd \<Rightarrow> cmd_result \<Rightarrow> bool" where
  "indexServerGone user c res \<longleftrightarrow> c = indexServerCmd user \<and> ExitCode res \<noteq> 0"

text \<open>The directory that the configuration of the system names for the data volumes.\<close>

definition dataPathKnown :: "restore_world \<Rightarrow> string \<Rightarrow> string \<Rightarrow> restore_call list \<Rightarrow> bool" where
  "dataPathKnown w sid base log \<longleftrightarrow> ran w (readsDataPath sid base) log"

text \<open>The file system of a directory was looked up and unmounted.\<close>

definition unmounted :: "restore_world \<Rightarrow> string \<Rightarrow> restore_call list \<Rightarrow> bool" where
  "unmounted w base log \<longleftrightarrow> (\<exists>mount. ran w (readsMount base mount) log \<and> ran w (unmountDone mount) log)"

text \<open>The file system of the data directory of the system \<open>sid\<close> is unmounted and, unless the caller stops HANA
  itself, the index server of its administrator is gone.\<close>

definition quiet :: "restore_world \<Rightarrow> bool \<Rightarrow> string \<times> string \<Rightarrow> restore_call list \<Rightarrow> bool" where
  "quiet w skip who log \<longleftrightarrow>
     (\<exists>base. dataPathKnown w (fst who) base log \<and> unmounted w base log) \<and>
     (skip \<or> ran w (indexServerGone (snd who)) log)"

interpretation ran_first: precedence "ran w P" for w P
  by unfold_locales simp

interpretation quiet_first: precedence "quiet w skip who" for w skip who
  by unfold_locales (auto simp: quiet_def dataPathKnown_def unmounted_def)

fun isDetach :: "restore_call \<Rightarrow> bool" where
  "isDetach (DetachDisk _ _ _) = True"
| "isDetach _ = False"

lemma isDetach_iff: "(\<not> isDetach c) = noDetach c"
  by (cases c) simp_all

lemma ran_kept: "calls_only (\<lambda>_. True) m \<Longrightarrow> ran w P log \<Longrightarrow> wp m (\<lambda>_. ran w P) log"
  by (rule wp_mono [OF calls_onlyD]) (auto intro: ran_first.stable_append)

lemma guarded_noDisk: "calls_only noDisk m \<Longrightarrow> guarded Q isDetach log \<Longrightarrow> wp m (\<lambda>_. guarded Q isDetach) log"
  by (rule guarded_free) (auto simp: isDetach_iff noDetach_mono)

lemma calls_any: "calls_only P m \<Longrightarrow> calls_only (\<lambda>_. True) m"
  by (erule calls_only_mono) simp

lemma Unmount_done: "wp (Unmount mount (rexec w) b) (\<lambda>e log'. e = None \<longrightarrow> ran w (unmountDone mount) log') log"
  by (simp add: Unmount_def rexec_def wp_rules unmountDone_def)

lemma mount_read:
  "wp (ReadDataDirMountPath base (rexec w)) (\<lambda>m log'. \<forall>mount. m = Inr mount \<longrightarrow> ran w (readsMount base mount) log') log"
  by (simp add: ReadDataDirMountPath_def rexec_def wp_rules readsMount_def)

lemma retry_post:
  assumes "\<And>log. wp op (\<lambda>e log'. e = None \<longrightarrow> Q log') log"
  shows "wp (retry n op) (\<lambda>e log'. e = None \<longrightarrow> Q log') log"
proof (induction n arbitrary: log)
  case 0
  then show ?case by (simp add: assms)
next
  case (Suc n)
  show ?case
    unfolding retry.simps wp_bind
    by (rule wp_mono [OF assms]) (auto simp: wp_rules Suc split: option.splits)
qed

lemma Wait_done:
  "wp (WaitForIndexServerToStopWithRetry user (rexec w)) (\<lambda>e log'. e = None \<longrightarrow> ran w (indexServerGone user) log') log"
  unfolding WaitForIndexServerToStopWithRetry_def
  by (rule retry_post) (simp add: waitForIndexServerToStop_def rexec_def indexServerGone_def wp_rules)

lemma rhana_post:
  "wp m (\<lambda>e log'. e = None \<longrightarrow> Q log') log \<Longrightarrow> wp (rhana m) (\<lambda>x log'. \<forall>u. x = Inr u \<longrightarrow> Q log') log"
  unfolding rhana_def wp_bind by (erule wp_mono) (auto simp: wp_rules split: option.splits)

lemma rexec_any [calls_rules]: "calls_only (\<lambda>_. True) (rexec w c)"
  by (intro calls_rules) simp

lemma unmounting:
  assumes "ran w (readsMount base mount) log"
  shows "wp (rhana (Unmount mount (rexec w) b)) (\<lambda>x log'. \<forall>u. x = Inr u \<longrightarrow> unmounted w base log') log"
proof (rule rhana_post)
  have "calls_only (\<lambda>_. True) (Unmount mount (rexec w) b)" by (intro calls_rules) simp
  from wp_conj [OF Unmount_done ran_kept [OF this assms]]
  show "wp (Unmount mount (rexec w) b) (\<lambda>e log'. e = None \<longrightarrow> unmounted w base log') log"
    by (rule wp_mono) (auto simp: unmounted_def)
qed

text \<open>Stopping HANA, its index server last, between the two steps of the unmount.\<close>

definition stopping :: "restore_world \<Rightarrow> restorer \<Rightarrow> (restore_call, (restore_error, unit) result) prog" where
  "stopping w r =
     bindE (rhana (StopHANA (rsafeFmt w) (ForceStopHANA r) (r_HanaSidAdm r) (r_Sid r) (rexec w))) (\<lambda>_.
     rhana (WaitForIndexServerToStopWithRetry (r_HanaSidAdm r) (rexec w)))"

lemma stopping_gone:
  "wp (stopping w r) (\<lambda>x log'. \<forall>u. x = Inr u \<longrightarrow> ran w (indexServerGone (r_HanaSidAdm r)) log') log"
  unfolding stopping_def by (rule bindE_wp [OF wp_triv], simp, rule rhana_post [OF Wait_done])

lemma any_stopping: "calls_only (\<lambda>_. True) (stopping w r)"
  unfolding stopping_def by (intro calls_rules) simp_all

lemma quiesce_stopping:
  "quiesce w r = do {
     m \<leftarrow> ReadDataDirMountPath (baseDataPath r) (rexec w);
     case m of
       Inl e \<Rightarrow> ret (Inl (RHana e))
     | Inr mount \<Rightarrow> bindE (stopping w r) (\<lambda>_. rhana (Unmount mount (rexec w) (isScaleout r)))
   }"
  by (simp only: quiesce_def stopping_def bindE_assoc)

lemma quiesce_quiet:
  assumes known: "dataPathKnown w (r_Sid r) (baseDataPath r) log"
  shows "wp (quiesce w r) (\<lambda>x log'. \<forall>u. x = Inr u \<longrightarrow> quiet w skip (r_Sid r, r_HanaSidAdm r) log') log"
proof -
  let ?base = "baseDataPath r" and ?gone = "ran w (indexServerGone (r_HanaSidAdm r))"
  have stop: "wp (bindE (stopping w r) (\<lambda>_. rhana (Unmount mount (rexec w) b)))
      (\<lambda>x log'. \<forall>u. x = Inr u \<longrightarrow> unmounted w ?base log' \<and> ?gone log') log1"
    if m: "ran w (readsMount ?base mount) log1" for mount b log1
  proof (rule bindE_wp [OF wp_conj [OF stopping_gone ran_kept [OF any_stopping m]]])
    fix a log2
    assume *: "(\<forall>u. Inr a = Inr u \<longrightarrow> ?gone log2) \<and> ran w (readsMount ?base mount) log2"
    have "calls_only (\<lambda>_. True) (rhana (Unmount mount (rexec w) b))" by (intro calls_rules) simp
    with * have "wp (rhana (Unmount mount (rexec w) b)) (\<lambda>_. ?gone) log2" by (intro ran_kept) auto
    moreover from * have "ran w (readsMount ?base mount) log2" by simp
    ultimately have "wp (rhana (Unmount mount (rexec w) b))
        (\<lambda>x log'. (\<forall>u. x = Inr u \<longrightarrow> unmounted w ?base log') \<and> ?gone log') log2"
      by (intro wp_conj unmounting)
    then show "wp (rhana (Unmount mount (rexec w) b)) (\<lambda>x log'. \<forall>u. x = Inr u \<longrightarrow> unmounted w ?base log' \<and> ?gone log') log2"
      by (rule wp_mono) simp
  qed simp
  have all: "wp (quiesce w r) (\<lambda>x log'. \<forall>u. x = Inr u \<longrightarrow> unmounted w ?base log' \<and> ?gone log') log"
    unfolding quiesce_stopping wp_bind
    by (rule wp_mono [OF mount_read]) (auto simp: wp_rules split: sum.splits dest: stop [simplified])
  have "calls_only (\<lambda>_. True) (quiesce w r)" by (rule noDisk_prepare(1) [THEN calls_any])
  with known have "wp (quiesce w r) (\<lambda>_. dataPathKnown w (r_Sid r) ?base) log"
    unfolding dataPathKnown_def by (intro ran_kept)
  from wp_conj [OF all this] show ?thesis by (rule wp_mono) (auto simp: quiet_def)
qed

lemma any_attach [calls_rules]: "calls_only (\<lambda>_. True) (attach w d i)" "calls_only (\<lambda>_. True) (detach w i d dev)"
  unfolding attach_def detach_def by (intro calls_rules; simp)+

lemmas any_noDisk = noDisk_modify [THEN calls_any] noDisk_rescan [THEN calls_any] noDisk_finish [THEN calls_any]
  noDisk_labelOld [THEN calls_any] noDisk_reads(2) [THEN calls_any] noDisk_renameLVM [THEN calls_any]
  noDisk_prepare(2) [THEN calls_any]
lemmas any_noDetach = noDetach_restoreFromSnapshot [THEN calls_any] noDetach_groupSG [THEN calls_any]
  noDetach_groupISG [THEN calls_any]

lemma any_detachAll: "calls_only (\<lambda>_. True) (detachAll w r done ds)"
proof (induction ds arbitrary: "done")
  case (Cons d ds)
  have "calls_only (\<lambda>_. True) (reattachDetached w r xs)" for xs
    by (induction xs) (auto intro!: calls_rules any_noDisk)
  with Cons show ?case by (auto intro!: calls_rules any_noDisk)
qed (simp add: calls_rules)

lemma any_detachSingle: "calls_only (\<lambda>_. True) (detachSingle w i r)"
  unfolding detachSingle_def by (auto intro!: calls_rules any_noDisk)

lemma any_failure: "calls_only (\<lambda>_. True) (handleRestoreFailure w r)"
proof -
  have "calls_only (\<lambda>_. True) (detachNew w r ds)" for ds
    by (induction ds) (auto intro!: calls_rules any_noDisk)
  moreover have "calls_only (\<lambda>_. True) (reattachDisks w r ds)" for ds
    by (induction ds) (auto intro!: calls_rules any_noDisk)
  ultimately show ?thesis
    unfolding handleRestoreFailure_def by (auto intro!: calls_rules any_noDisk)
qed

lemma any_replaceDisks: "calls_only (\<lambda>_. True) (replaceDisks w i r)"
  unfolding replaceDisks_def groupRestore_def diskRestore_def configureDisk_def reattachOld_def
  by (auto intro!: calls_rules any_noDisk any_noDetach any_failure)

text \<open>A preparation ends with HANA quiet, or fails.\<close>

definition prepared ::
  "restore_world \<Rightarrow> bool \<Rightarrow> string \<times> string \<Rightarrow> (restore_error, unit) result \<times> restorer \<Rightarrow> restore_call list \<Rightarrow> bool" where
  "prepared w skip who x log \<longleftrightarrow> guarded (quiet w skip who) isDetach log \<and> (fst x = Inr () \<longrightarrow> quiet w skip who log)"

lemma preparedI: "guarded (quiet w skip who) isDetach log \<Longrightarrow> quiet w skip who log \<Longrightarrow> prepared w skip who x log"
  by (simp add: prepared_def)

lemma prepared_fail: "guarded (quiet w skip who) isDetach log \<Longrightarrow> prepared w skip who (Inl e, r) log"
  by (simp add: prepared_def)

lemma quiet_prepared:
  assumes "calls_only (\<lambda>_. True) m" and "guarded (quiet w skip who) isDetach log" and "quiet w skip who log"
  shows "wp m (prepared w skip who) log"
  by (rule wp_mono [OF quiet_first.stays [OF assms(1) assms(3) assms(2)]]) (simp add: preparedI)

definition systemNames :: "restorer \<Rightarrow> string \<times> string" where
  "systemNames r = (r_Sid r, r_HanaSidAdm r)"

text \<open>The restorer holds the data directory that was read from the configuration.\<close>

definition located :: "restore_world \<Rightarrow> restorer \<Rightarrow> restore_call list \<Rightarrow> bool" where
  "located w r log \<longleftrightarrow> dataPathKnown w (r_Sid r) (baseDataPath r) log"

lemma prepareRestore_prepared:
  assumes g: "guarded (quiet w skip (systemNames r)) isDetach log" and "located w r log"
  shows "wp (prepareRestore w i r) (prepared w skip (systemNames r)) log"
  unfolding prepareRestore_def
proof (rule thenR_wp)
  show "wp (reading (quiesce w r) r) (\<lambda>x log'. guarded (quiet w skip (systemNames r)) isDetach log' \<and>
      (\<forall>u. fst x = Inr u \<longrightarrow> quiet w skip (systemNames r) log')) log"
    unfolding wp_reading fst_conv systemNames_def
    by (rule wp_conj [OF guarded_noDisk [OF noDisk_prepare(1) g [unfolded systemNames_def]] quiesce_quiet])
      (use assms(2) in \<open>simp add: located_def\<close>)
qed (auto intro: prepared_fail intro!: quiet_prepared calls_rules any_noDisk any_detachAll any_detachSingle)

lemma prepareChange_prepared:
  assumes g: "guarded (quiet w True who) isDetach log" and located: "located w r log" and who: "fst who = r_Sid r"
  shows "wp (reading (prepareForHANAChangeDiskType w i r) r) (prepared w True who) log"
  unfolding wp_reading prepareForHANAChangeDiskType_def wp_bind
proof (rule wp_mono [OF wp_conj [OF guarded_noDisk [OF _ g] wp_conj [OF mount_read ran_kept]]])
  show "calls_only noDisk (ReadDataDirMountPath (baseDataPath r) (rexec w))" by (intro calls_rules) simp
  show "calls_only (\<lambda>_. True) (ReadDataDirMountPath (baseDataPath r) (rexec w))" by (intro calls_rules) simp
  show "ran w (readsDataPath (r_Sid r) (baseDataPath r)) log" using located by (simp add: located_def dataPathKnown_def)
next
  fix m :: "(hb_error, string) result" and log1
  assume *: "guarded (quiet w True who) isDetach log1 \<and>
    (\<forall>mount. m = Inr mount \<longrightarrow> ran w (readsMount (baseDataPath r) mount) log1) \<and>
    ran w (readsDataPath (r_Sid r) (baseDataPath r)) log1"
  show "wp (case m of Inl e \<Rightarrow> ret (Inl (RHana e))
      | Inr mount \<Rightarrow> bindE (rhana (Unmount mount (rexec w) (isScaleout r))) (\<lambda>_. detachSingle w i r))
    (\<lambda>x. prepared w True who (x, r)) log1"
  proof (cases m)
    case (Inr mount)
    let ?u = "rhana (Unmount mount (rexec w) (isScaleout r))"
    have u: "calls_only noDisk ?u" "calls_only (\<lambda>_. True) ?u" by (intro calls_rules; simp)+
    from * Inr have "ran w (readsMount (baseDataPath r) mount) log1" by simp
    with * have "wp ?u (\<lambda>x log'. guarded (quiet w True who) isDetach log' \<and>
        (\<forall>v. x = Inr v \<longrightarrow> unmounted w (baseDataPath r) log') \<and> ran w (readsDataPath (r_Sid r) (baseDataPath r)) log') log1"
      by (intro wp_conj guarded_noDisk [OF u(1)] unmounting ran_kept [OF u(2)]) auto
    then have "wp ?u (\<lambda>x log'. guarded (quiet w True who) isDetach log' \<and> (\<forall>v. x = Inr v \<longrightarrow> quiet w True who log')) log1"
      by (rule wp_mono) (auto simp: quiet_def who dataPathKnown_def)
    then show ?thesis
      unfolding Inr sum.case
    proof (rule bindE_wp)
      fix a log2
      assume "guarded (quiet w True who) isDetach log2 \<and> (\<forall>v. Inr a = Inr v \<longrightarrow> quiet w True who log2)"
      then have "wp (reading (detachSingle w i r) r) (prepared w True who) log2"
        by (intro quiet_prepared) (auto intro!: calls_rules any_detachSingle)
      then show "wp (detachSingle w i r) (\<lambda>x. prepared w True who (x, r)) log2" by (simp only: wp_reading)
    qed (auto intro: prepared_fail)
  qed (use * in \<open>simp add: wp_rules prepared_fail\<close>)
qed

lemma prepareFor_prepared:
  "guarded (quiet w (r_SkipDB r) (systemNames r)) isDetach log \<Longrightarrow> located w r log \<Longrightarrow>
   wp (prepareFor w i r) (prepared w (r_SkipDB r) (systemNames r)) log"
  by (cases "r_SkipDB r") (auto simp: prepareFor_def systemNames_def intro!: prepareRestore_prepared [unfolded systemNames_def] prepareChange_prepared)

text \<open>The checks find the data directory.\<close>

lemma CheckDataDir_known:
  "wp (CheckDataDir sid (rexec w)) (\<lambda>x log'. snd x = None \<longrightarrow> dataPathKnown w sid (fst (fst x)) log') log"
proof -
  have base: "wp (ParseBasePath pat sid (rexec w))
      (\<lambda>d log'. \<forall>p. d = Inr p \<longrightarrow> pat = ''basepath_datavolumes'' \<longrightarrow> dataPathKnown w sid p log') log"
    for pat
    by (auto simp: ParseBasePath_def rexec_def wp_rules dataPathKnown_def readsDataPath_def)
  have rest: "wp m (\<lambda>x log'. snd x = None \<longrightarrow> dataPathKnown w sid (fst (fst x)) log') log1"
    if "calls_only (\<lambda>_. True) m" "wp m (\<lambda>x _. snd x = None \<longrightarrow> fst (fst x) = p) log1" "dataPathKnown w sid p log1"
    for m :: "(restore_call, (string \<times> string \<times> string) \<times> hb_error option) prog" and p log1
    using wp_conj [OF that(2) ran_kept [OF that(1) that(3) [unfolded dataPathKnown_def]]]
    by (rule wp_mono) (simp add: dataPathKnown_def)
  show ?thesis
    unfolding CheckDataDir_def wp_bind
  proof (rule wp_mono [OF base], goal_cases)
    case d: (1 d log1)
    show ?case
    proof (cases d)
      case (Inr p)
      with d have k: "dataPathKnown w sid p log1" by simp
      show ?thesis
        unfolding Inr sum.case
        by (rule rest [OF _ _ k]; (intro calls_rules; simp)?)
          (rule wp_any, auto simp: wp_return split: sum.splits intro!: wp_any)
    qed (simp add: wp_return)
  qed
qed

lemma checkDirs_located: "wp (checkDirs w r) (\<lambda>x log'. fst x = Inr () \<longrightarrow> located w (snd x) log') log"
proof -
  have logDir: "calls_only (\<lambda>_. True) (CheckLogDir sid (rexec w))" for sid by (intro calls_rules) simp
  show ?thesis
    unfolding checkDirs_def wp_bind
    by (rule wp_mono [OF CheckDataDir_known])
      (auto simp: wp_rules Let_def rok_def rfail_def located_def dataPathKnown_def split: prod.splits option.splits
        intro!: wp_mono [OF ran_kept [OF logDir]])
qed

lemma checkPreConditions_located:
  "wp (checkPreConditions w cp r) (\<lambda>x log'. fst x = Inr () \<longrightarrow> located w (snd x) log') log"
  unfolding checkPreConditions_rest
proof (rule thenR_wp [OF checkDirs_located])
  fix a r1 log1
  assume "fst (Inr a, r1) = Inr () \<longrightarrow> located w (snd (Inr a, r1)) log1"
  then have "ran w (readsDataPath (r_Sid r1) (baseDataPath r1)) log1" by (simp add: located_def dataPathKnown_def)
  from wp_conj [OF ran_kept [OF noDisk_checkRest [THEN calls_any] this]
      keeps_checkRest [unfolded keepsR_def, rule_format, of w cp r1]]
  show "wp (checkRest w cp r1) (\<lambda>x log'. fst x = Inr () \<longrightarrow> located w (snd x) log') log1"
    by (rule wp_mono) (simp add: located_def dataPathKnown_def fixedPart_def corePart_def)
qed simp

text \<open>The system whose HANA must be quiet: the names as the validation of the arguments completes them.\<close>

definition systemOf :: "restorer \<Rightarrow> string \<times> string" where
  "systemOf r =
     (if r_SkipDB r then systemNames r
      else (toUpper (r_Sid r), if r_HanaSidAdm r = [] then toLower (toUpper (r_Sid r)) @ ''adm'' else r_HanaSidAdm r))"

lemma validateRestore_names:
  "validateRestore os cp r = Inr r1 \<Longrightarrow> r_SkipDB r1 = r_SkipDB r \<and> systemNames r1 = systemOf r"
  by (auto simp: validateRestore_def andThen_def setNames_def setKmsLocation_def setKmsProject_def Let_def systemNames_def
      systemOf_def split: if_splits option.splits sum.splits)

lemma restoreHandler_quiet:
  "wp (restoreHandler w os cp r) (\<lambda>_. guarded (quiet w (r_SkipDB r) (systemOf r)) isDetach) []"
proof (cases "validateRestore os cp r")
  case (Inr r1)
  let ?skip = "r_SkipDB r" and ?G = "guarded (quiet w (r_SkipDB r) (systemOf r)) isDetach"
  have v: "r_SkipDB r1 = ?skip" "systemNames r1 = systemOf r" using validateRestore_names [OF Inr] by auto
  have start: "wp (reading (newServices w (servicesFor r1)) r1) (\<lambda>x log'. ?G log' \<and> snd x = r1) []"
    unfolding wp_reading using guarded_noDisk [OF noDisk_newServices, of "quiet w ?skip (systemOf r)" "[]"] by simp
  have check: "wp (checkPreConditions w cp r1) (\<lambda>x log'. ?G log' \<and> (fst x = Inr () \<longrightarrow> located w (snd x) log') \<and>
      r_SkipDB (snd x) = ?skip \<and> systemNames (snd x) = systemOf r) log"
    if "?G log" for log
    using wp_conj [OF guarded_noDisk [OF noDisk_preConditions that] wp_conj [OF checkPreConditions_located
        keeps_preConditions [unfolded keepsR_def, rule_format, of w cp r1]]]
    by (rule wp_mono) (use v in \<open>auto simp: corePart_def systemNames_def\<close>)
  have rest: "wp (thenR (prepareFor w i r3) (\<lambda>_. replaceDisks w i)) (\<lambda>_. ?G) log"
    if "?G log" "located w r3 log" "r_SkipDB r3 = ?skip" "systemNames r3 = systemOf r" for r3 log i
    by (rule thenR_wp [OF prepareFor_prepared [of w r3, unfolded that(3,4), OF that(1,2)]])
      (auto simp: prepared_def intro!: wp_mono [OF quiet_first.stays [OF any_replaceDisks]])
  have checked: "wp (thenR (checkPreConditions w cp r1) (\<lambda>_ r3. thenR (prepareFor w i r3) (\<lambda>_. replaceDisks w i)))
      (\<lambda>_. ?G) log" if "?G log" for log i
    by (rule thenR_wp [OF check [OF that]]; (rule rest)?; simp)
  show ?thesis
    unfolding restoreHandler_def Inr sum.case
    by (rule thenR_wp [OF start]) (auto intro: checked)
qed (simp add: restoreHandler_def wp_rfail)

text \<open>C3. \<open>hanadiskrestore\<close> never detaches a disk, new or old, on any branch and whatever fails, before
  the file system of the data directory was unmounted: the directory is the one that the configuration of this
  system names for its data volumes, and the file system the one it was found on. Unless the command runs inside a
  change of the disk type, the index server of the system's administrator was seen to be gone before, too.\<close>

theorem detaches_need_quiet:
  "wp (Run_restore w os cp r) (\<lambda>_. guarded (quiet w (r_SkipDB r) (systemOf r)) isDetach) []"
proof -
  let ?r = "r\<lparr>r_UseSG := (compareVersions (ragentVersion w) ''3.10'' \<noteq> Inr True)\<rparr>"
  have "systemOf ?r = systemOf r" by (simp add: systemOf_def systemNames_def)
  then show ?thesis using restoreHandler_quiet [of w os cp ?r] by (simp add: Run_restore_def)
qed

end
