(* ===== verification/RestoreOutcome.thy ===== *)
theory RestoreOutcome
  imports RestoreSafety
begin

text \<open>
  Which disks the instance has after a restore, however it ends.
\<close>

section \<open>The disks as the requests leave them\<close>

definition abandonStep :: "restore_world \<Rightarrow> string \<Rightarrow> restore_call list \<Rightarrow> restore_call \<Rightarrow> bool \<Rightarrow> bool" where
  "abandonStep w disk log c s =
     (case c of
        DetachDisk i d dev \<Rightarrow> if d = disk \<and> rdone_env w log c = None then True else s
      | AttachDisk d i \<Rightarrow> if d = disk then False else s
      | _ \<Rightarrow> s)"

definition placeStep :: "restore_world \<Rightarrow> string \<Rightarrow> restore_call list \<Rightarrow> restore_call \<Rightarrow> bool \<Rightarrow> bool" where
  "placeStep w disk log c s =
     (case c of
        AttachDisk d i \<Rightarrow> if d = disk \<and> rdone_env w log c = None then True else s
      | DetachDisk i d dev \<Rightarrow> if d = disk then False else s
      | _ \<Rightarrow> s)"

text \<open>Detached, and no attempt to attach it since; attached, and no attempt to detach it since.\<close>

definition abandoned :: "restore_world \<Rightarrow> string \<Rightarrow> restore_call list \<Rightarrow> bool" where
  "abandoned w disk log = readLog (abandonStep w disk) False log"

definition placed :: "restore_world \<Rightarrow> string \<Rightarrow> restore_call list \<Rightarrow> bool" where
  "placed w disk log = readLog (placeStep w disk) False log"

interpretation abandon_monitor: log_monitor "abandonStep w disk" noDisk for w disk
proof (unfold_locales, goal_cases)
  case (1 c log s)
  then show ?case by (cases c) (simp_all add: abandonStep_def)
qed

interpretation place_monitor: log_monitor "placeStep w disk" noDisk for w disk
proof (unfold_locales, goal_cases)
  case (1 c log s)
  then show ?case by (cases c) (simp_all add: placeStep_def)
qed

lemmas abandoned_kept = abandon_monitor.kept [where i = False, folded abandoned_def]
lemmas placed_kept = place_monitor.kept [where i = False, folded placed_def]

lemma abandoned_simps [simp]:
  "abandoned w disk [] = False" "abandoned w disk (c # log) = abandonStep w disk log c (abandoned w disk log)"
  by (simp_all add: abandoned_def)

lemma placed_simps [simp]:
  "placed w disk [] = False" "placed w disk (c # log) = placeStep w disk log c (placed w disk log)"
  by (simp_all add: placed_def)

lemma noDetach_new:
  assumes "list_all noDetach new"
  shows "placed w d log \<Longrightarrow> placed w d (new @ log)" "\<not> abandoned w d log \<Longrightarrow> \<not> abandoned w d (new @ log)"
  using assms
proof (induction new)
  case (Cons c new)
  { case 1 with Cons show ?case by (cases c) (auto simp: placeStep_def) }
  { case 2 with Cons show ?case by (cases c) (auto simp: abandonStep_def) }
qed simp_all

text \<open>Nothing that was in place is lost without a detach.\<close>

definition better :: "restore_world \<Rightarrow> restore_call list \<Rightarrow> restore_call list \<Rightarrow> bool" where
  "better w log log' \<longleftrightarrow>
     (\<forall>d. (placed w d log \<longrightarrow> placed w d log') \<and> (\<not> abandoned w d log \<longrightarrow> \<not> abandoned w d log'))"

lemma better_refl [simp]: "better w log log"
  by (simp add: better_def)

lemma better_trans: "better w l1 l2 \<Longrightarrow> better w l2 l3 \<Longrightarrow> better w l1 l3"
  by (simp add: better_def)

lemma placed_better: "better w log log' \<Longrightarrow> placed w d log \<Longrightarrow> placed w d log'"
  by (simp add: better_def)

lemma abandoned_better: "better w log log' \<Longrightarrow> \<not> abandoned w d log \<Longrightarrow> \<not> abandoned w d log'"
  by (simp add: better_def)

lemma noDetach_better: "calls_only noDetach m \<Longrightarrow> wp m (\<lambda>_. better w log) log"
  by (rule wp_mono [OF calls_onlyD]) (auto simp: better_def noDetach_new)

lemmas noDisk_better = noDetach_better [OF noDetach_mono]

lemma wp_better:
  assumes "wp m Q log" and "calls_only noDetach m"
  shows "wp m (\<lambda>x log'. Q x log' \<and> better w log log') log"
  by (rule wp_conj [OF assms(1) noDetach_better [OF assms(2)]])

lemma attach_effect:
  "wp (attach w d i) (\<lambda>x log'. better w log log' \<and> \<not> abandoned w d log' \<and> (\<forall>u. x = Inr u \<longrightarrow> placed w d log')) log"
proof -
  have "wp (attach w d i) (\<lambda>x log'. \<not> abandoned w d log' \<and> (\<forall>u. x = Inr u \<longrightarrow> placed w d log')) log"
    by (auto simp: attach_def rdo_def wp_rules abandonStep_def placeStep_def split: option.splits)
  then show ?thesis
    by (rule wp_mono [OF wp_better]) (auto intro!: calls_rules)
qed

section \<open>What stays from the preparation on\<close>

definition steadyPart :: "restorer \<Rightarrow> bool \<times> string \<times> string \<times> disk_ref list \<times> bool \<times> snapshot_item list" where
  "steadyPart r = (isGroupSnapshot r, DataDiskName r, NewDiskName r, r_disks r, r_UseSG r, snapshotItems r)"

lemma steadyPart_updates [simp]:
  "steadyPart (r\<lparr>DiskSizeGb := i\<rparr>) = steadyPart r" "steadyPart (r\<lparr>DataDiskVG := s\<rparr>) = steadyPart r"
  "steadyPart (r\<lparr>DataDiskLV := s\<rparr>) = steadyPart r" "steadyPart (addAttached d dev inst r) = steadyPart r"
  by (simp_all add: steadyPart_def addAttached_def)

lemma newAttached_updates [simp]:
  "newAttachedDisks (addAttached d dev inst r) = newAttachedDisks r @ [\<lparr>DrName = d, DrDevice = dev, DrInstance = inst\<rparr>]"
  by (simp add: addAttached_def)

lemma restoreFromSnapshot_keeps:
  "(\<And>s. f (r\<lparr>DiskSizeGb := s\<rparr>) = f r) \<Longrightarrow> keepsR f (restoreFromSnapshot w i n s r) r"
  unfolding restoreFromSnapshot_def keepsR_def wp_thenR wp_reading Let_def
  by (auto simp: keepsR_def wp_reading wp_triv intro!: wp_mono [OF wp_triv] split: sum.splits)

lemma wp_rfail_fun: "wp (rfail e r) Q = Q (Inl e, r)"
  by (rule ext) (simp add: wp_rfail)

lemma wp_const: "P \<Longrightarrow> wp m (\<lambda>_ _. P) log"
  by (simp add: wp_triv)

lemma wp_kept: "keepsR f m r \<Longrightarrow> wp m (\<lambda>x _. f (snd x) = f r) log"
  by (simp add: keepsR_def)

section \<open>A disk made from a snapshot is in place\<close>

lemma insertAndAttach_placed:
  "wp (insertAndAttach w i disk) (\<lambda>x log'. \<forall>u. x = Inr u \<longrightarrow> placed w (nd_name disk) log') log"
  unfolding insertAndAttach_def
proof (rule bindE_wp [OF wp_triv], simp, rule bindE_wp [OF wp_triv], simp, rule bindE_wp [OF attach_effect], simp)
  fix u log1 log2
  assume "better w log1 log2 \<and> \<not> abandoned w (nd_name disk) log2 \<and> (\<forall>u'. Inr u = Inr u' \<longrightarrow> placed w (nd_name disk) log2)"
  then have p: "placed w (nd_name disk) log2" by simp
  have "calls_only noDetach (bindE (isAttached w i (nd_name disk)) (\<lambda>(dev, ok).
      ret (if ok then Inr () else Inl (RFail ''not attached'' (nd_name disk)))))"
    by (auto intro!: calls_rules noDetach_mono [OF noDisk_reads(1)])
  from noDetach_better [OF this, of w log2]
  show "wp (bindE (isAttached w i (nd_name disk)) (\<lambda>(dev, ok).
      ret (if ok then Inr () else Inl (RFail ''not attached'' (nd_name disk)))))
    (\<lambda>x log'. \<forall>u. x = Inr u \<longrightarrow> placed w (nd_name disk) log') log2"
    by (rule wp_mono) (simp add: placed_better [OF _ p])
qed

lemma restoreFromSnapshot_placed:
  "wp (restoreFromSnapshot w i n s r) (\<lambda>x log'. \<forall>u. fst x = Inr u \<longrightarrow> placed w n log') log"
  unfolding restoreFromSnapshot_def
proof (rule thenR_wp [OF wp_triv])
  fix snap r1 log1
  show "wp (let r = if DiskSizeGb r1 = 0 then r1\<lparr>DiskSizeGb := SnapSize snap\<rparr> else r1
            in reading (bindE (diskKeys w r snap s) (\<lambda>(kms, csek). insertAndAttach w i (newDisk r n s kms csek))) r)
    (\<lambda>x log'. \<forall>u. fst x = Inr u \<longrightarrow> placed w n log') log1"
    unfolding Let_def wp_reading fst_conv
  proof (rule bindE_wp [OF wp_triv])
    fix a log2
    show "wp (case a of (kms, csek) \<Rightarrow> insertAndAttach w i (newDisk (if DiskSizeGb r1 = 0 then r1\<lparr>DiskSizeGb := SnapSize snap\<rparr> else r1) n s kms csek))
      (\<lambda>x log'. \<forall>u. x = Inr u \<longrightarrow> placed w n log') log2"
    proof (cases a)
      case (Pair kms csek)
      show ?thesis
        unfolding Pair prod.case
        by (rule wp_mono [OF insertAndAttach_placed]) (simp add: newDisk_def)
    qed
  qed simp
qed simp

section \<open>One disk\<close>

text \<open>The new disk is in place, or the restore failed and the old one was given back.\<close>

definition singleSettled :: "restore_world \<Rightarrow> (restore_error, unit) result \<times> restorer \<Rightarrow> restore_call list \<Rightarrow> bool" where
  "singleSettled w x log \<longleftrightarrow>
     isGroupSnapshot (snd x) \<or> placed w (NewDiskName (snd x)) log \<or>
     (fst x \<noteq> Inr () \<and> \<not> abandoned w (DataDiskName (snd x)) log)"

lemma singleSettled_fail: "\<not> abandoned w (DataDiskName r) log \<Longrightarrow> singleSettled w (Inl e, r) log"
  by (simp add: singleSettled_def)

lemma singleSettled_placed: "placed w (NewDiskName r) log \<Longrightarrow> singleSettled w (x, r) log"
  by (simp add: singleSettled_def)

lemma reattachOld_given: "wp (reattachOld w i r) (\<lambda>_ log'. \<not> abandoned w (DataDiskName r) log') log"
  unfolding reattachOld_def wp_bind
proof (rule wp_mono [OF attach_effect])
  fix x log1
  assume "better w log log1 \<and> \<not> abandoned w (DataDiskName r) log1 \<and> (\<forall>u. x = Inr u \<longrightarrow> placed w (DataDiskName r) log1)"
  then have a: "\<not> abandoned w (DataDiskName r) log1" by simp
  have "calls_only noDisk (tryIt (rescan w))" by (intro calls_rules)
  from noDisk_better [OF this, of w log1]
  show "wp (tryIt (rescan w)) (\<lambda>_ log'. \<not> abandoned w (DataDiskName r) log') log1"
    by (rule wp_mono) (simp add: abandoned_better [OF _ a])
qed

lemma giveBack_settled: "wp (State_Monad.bind (reattachOld w i r) (\<lambda>_. rfail e r)) (singleSettled w) log"
  unfolding wp_bind wp_rfail by (rule wp_mono [OF reattachOld_given]) (rule singleSettled_fail)

lemma configureDisk_settled:
  assumes p: "placed w (NewDiskName r) log"
  shows "wp (configureDisk w i r) (singleSettled w) log"
  unfolding configureDisk_def wp_bind
proof (rule wp_mono [OF noDisk_better [OF noDisk_reads(2)]], rule wp_mono [OF noDisk_better])
  fix dev
  show "calls_only noDisk (if DataDiskVG r \<noteq> [] then renameLVM w r dev else ret (Inr ()))" by (intro calls_rules)
next
  fix dev x log1 log2
  assume b: "better w log log1" "better w log1 log2"
  show "wp (case x of
      Inl e \<Rightarrow> State_Monad.bind (deviceOf w i (NewDiskName r)) (\<lambda>dev2.
        State_Monad.bind (detach w i (NewDiskName r) dev2) (\<lambda>_.
        State_Monad.bind (reattachOld w i r) (\<lambda>_. rfail e r)))
    | Inr _ \<Rightarrow> reading (finishRestore w r) r) (singleSettled w) log2"
  proof (cases x)
    case (Inl e)
    show ?thesis
      unfolding Inl sum.case wp_bind [of "deviceOf w i (NewDiskName r)"] wp_bind [of "detach w i (NewDiskName r) _"]
      by (rule wp_mono [OF wp_triv], rule wp_mono [OF wp_triv], rule giveBack_settled)
  next
    case (Inr u)
    show ?thesis
      unfolding Inr sum.case wp_reading
      by (rule wp_mono [OF noDisk_better [OF noDisk_finish]])
        (rule singleSettled_placed, rule placed_better, assumption, rule placed_better [OF better_trans [OF b]], rule p)
  qed
qed

lemma diskRestore_settled: "wp (diskRestore w i r) (singleSettled w) log"
  unfolding diskRestore_def wp_bind
proof (rule wp_mono [OF wp_conj [OF restoreFromSnapshot_placed wp_kept [OF restoreFromSnapshot_keeps]]])
  show "NewDiskName (r\<lparr>DiskSizeGb := s\<rparr>) = NewDiskName r" for s by simp
next
  fix x :: "(restore_error, unit) result \<times> restorer" and log1
  assume post: "(\<forall>u. fst x = Inr u \<longrightarrow> placed w (NewDiskName r) log1) \<and> NewDiskName (snd x) = NewDiskName r"
  obtain y r1 where x: "x = (y, r1)" by (cases x)
  show "wp (case x of (y, r) \<Rightarrow>
      (case y of Inl e \<Rightarrow> State_Monad.bind (reattachOld w i r) (\<lambda>_. rfail e r) | Inr _ \<Rightarrow> configureDisk w i r))
    (singleSettled w) log1"
  proof (cases y)
    case (Inl e)
    then show ?thesis by (simp add: x giveBack_settled)
  next
    case (Inr u)
    with post show ?thesis by (simp add: x configureDisk_settled)
  qed
qed

section \<open>Several disks\<close>

text \<open>\<open>k\<close> disks were added to those recorded and are in place.\<close>

definition added :: "restore_world \<Rightarrow> nat \<Rightarrow> restorer \<Rightarrow> restorer \<Rightarrow> restore_call list \<Rightarrow> bool" where
  "added w k r0 r log \<longleftrightarrow>
     (\<exists>new. newAttachedDisks r = newAttachedDisks r0 @ new \<and> length new = k \<and> (\<forall>d \<in> set new. placed w (DrName d) log))"

lemma added_0: "newAttachedDisks r = newAttachedDisks r0 \<Longrightarrow> added w 0 r0 r log"
  by (simp add: added_def)

lemma added_1: "placed w d log \<Longrightarrow> added w 1 r (addAttached d dev inst r) log"
  by (simp add: added_def)

lemma added_better: "added w k r0 r log \<Longrightarrow> better w log log' \<Longrightarrow> added w k r0 r log'"
  by (auto simp: added_def placed_better)

lemma added_trans:
  assumes "added w k r0 r1 log" and "better w log log'" and "added w j r1 r2 log'"
  shows "added w (k + j) r0 r2 log'"
proof -
  obtain new where "newAttachedDisks r1 = newAttachedDisks r0 @ new" "length new = k"
      "\<forall>d \<in> set new. placed w (DrName d) log'"
    using assms(1,2) by (auto simp: added_def placed_better)
  moreover obtain new2 where "newAttachedDisks r2 = newAttachedDisks r1 @ new2" "length new2 = j"
      "\<forall>d \<in> set new2. placed w (DrName d) log'"
    using assms(3) by (auto simp: added_def)
  ultimately show ?thesis
    by (auto simp: added_def intro!: exI [of _ "new @ new2"])
qed

text \<open>The postcondition of the steps of a group restore.\<close>

definition stepDone ::
  "restore_world \<Rightarrow> restorer \<Rightarrow> ('a \<Rightarrow> nat) \<Rightarrow> restore_call list \<Rightarrow> (restore_error, 'a) result \<times> restorer \<Rightarrow> restore_call list \<Rightarrow> bool" where
  "stepDone w r0 k log x log' \<longleftrightarrow>
     better w log log' \<and> steadyPart (snd x) = steadyPart r0 \<and>
     (case fst x of Inl _ \<Rightarrow> True | Inr a \<Rightarrow> added w (k a) r0 (snd x) log')"

lemma stepDone_thenR:
  assumes m: "wp m (stepDone w r0 k log) log"
    and f: "\<And>a r1 log1. steadyPart r1 = steadyPart r0 \<Longrightarrow> better w log log1 \<Longrightarrow>
      added w (k a) r0 r1 log1 \<Longrightarrow> wp (f a r1) (stepDone w r1 (j a) log1) log1"
    and n: "\<And>a b. n b = k a + j a b"
  shows "wp (thenR m f) (stepDone w r0 n log) log"
proof (rule thenR_wp [OF m])
  fix a r1 log1
  assume "stepDone w r0 k log (Inr a, r1) log1"
  then have *: "better w log log1" "steadyPart r1 = steadyPart r0" "added w (k a) r0 r1 log1"
    by (simp_all add: stepDone_def)
  show "wp (f a r1) (stepDone w r0 n log) log1"
  proof (rule wp_mono [OF f [OF *(2,1,3)]])
    fix x log2
    assume "stepDone w r1 (j a) log1 x log2"
    with * show "stepDone w r0 n log x log2"
      by (auto simp: stepDone_def n [of _ a] split: sum.splits intro: better_trans added_trans)
  qed
qed (simp add: stepDone_def)

lemma stepDone_reading: "calls_only noDetach m \<Longrightarrow> wp (reading m r) (stepDone w r (\<lambda>_. 0) log) log"
  unfolding wp_reading
  by (rule wp_mono [OF noDetach_better]) (auto simp: stepDone_def added_0 split: sum.splits)

lemma stepDone_fail: "wp (rfail e r) (stepDone w r k log) log"
  by (simp add: wp_rfail stepDone_def)

lemma stepDone_ok: "wp (rok a r) (stepDone w r (\<lambda>_. 0) log) log"
  by (simp add: wp_rok stepDone_def added_0)

lemma restoreFromSnapshot_step: "wp (restoreFromSnapshot w i n s r) (stepDone w r (\<lambda>_. 0) log) log"
proof -
  have "wp (restoreFromSnapshot w i n s r) (\<lambda>x log'. better w log log' \<and>
      steadyPart (snd x) = steadyPart r \<and> newAttachedDisks (snd x) = newAttachedDisks r) log"
    by (intro wp_conj noDetach_better calls_rules wp_kept restoreFromSnapshot_keeps) simp_all
  then show ?thesis
    by (rule wp_mono) (auto simp: stepDone_def added_0 split: sum.splits)
qed

lemma fetchAndAttach_placed:
  "wp (bindE (fetchLatestDisk w s) (\<lambda>d. bindE (attach w d i) (\<lambda>_. ret (Inr (d, names)))))
     (\<lambda>x log'. \<forall>d rest. x = Inr (d, rest) \<longrightarrow> placed w d log') log"
  by (rule bindE_wp [OF wp_triv], simp, rule bindE_wp [OF attach_effect]) (auto simp: wp_rules)

lemma placeDisk_step:
  "wp (placeDisk w i item recreate names r)
     (\<lambda>x log'. stepDone w r (\<lambda>_. 0) log x log' \<and> (\<forall>d rest. fst x = Inr (d, rest) \<longrightarrow> placed w d log')) log"
proof (cases recreate)
  case True
  show ?thesis
  proof (cases names)
    case (Cons n rest)
    have "wp (restoreFromSnapshot w i n (SiName item) r) (\<lambda>x log'. stepDone w r (\<lambda>_. 0) log x log' \<and>
        (\<forall>u. fst x = Inr u \<longrightarrow> placed w n log')) log"
      by (rule wp_conj [OF restoreFromSnapshot_step restoreFromSnapshot_placed])
    then show ?thesis
      by (simp add: True Cons placeDisk_def wp_thenR wp_rok)
        (erule wp_mono, auto simp: stepDone_def wp_rok split: sum.splits)
  qed (simp add: True placeDisk_def wp_rfail stepDone_def)
next
  case False
  have "wp (placeDisk w i item recreate names r) (stepDone w r (\<lambda>_. 0) log) log"
    unfolding placeDisk_def using False
    by (auto intro!: stepDone_reading calls_rules noDetach_mono [OF noDisk_group(2)])
  moreover have "wp (placeDisk w i item recreate names r) (\<lambda>x log'. \<forall>d rest. fst x = Inr (d, rest) \<longrightarrow> placed w d log') log"
    using fetchAndAttach_placed [of w "SiName item" i names log] by (simp add: placeDisk_def False wp_reading)
  ultimately show ?thesis by (rule wp_conj)
qed

lemma recordDisk_step:
  assumes p: "placed w d log"
  shows "wp (recordDisk w i d r) (stepDone w r (\<lambda>_. 1) log) log"
  unfolding recordDisk_def
proof (rule thenR_wp)
  show "wp (reading (isAttached w i d) r) (\<lambda>x log'. better w log log' \<and> snd x = r) log"
    unfolding wp_reading by (rule wp_mono [OF noDisk_better [OF noDisk_reads(1)]]) simp
next
  fix a :: "string \<times> bool" and r1 log1
  assume "better w log log1 \<and> snd (Inr a :: (restore_error, string \<times> bool) result, r1) = r"
  then have b: "better w log log1" and r1: "r1 = r" by simp_all
  obtain dev ok where a: "a = (dev, ok)" by (cases a)
  show "wp ((case a of (dev, ok) \<Rightarrow> \<lambda>r1. if \<not> ok then rfail (RFail ''not attached'' d) r1
      else let r = addAttached d dev i r1 in State_Monad.bind (modifyDiskInCG w r d True) (\<lambda>_. rok dev r)) r1)
    (stepDone w r (\<lambda>_. 1) log) log1"
  proof (cases ok)
    case True
    then show ?thesis
      by (simp only: a r1 prod.case Let_def not_True_eq_False if_False wp_bind wp_rok)
        (rule wp_mono [OF noDisk_better [where w = w, OF noDisk_modify]],
          auto simp: wp_rok stepDone_def added_def intro: better_trans [OF b] placed_better [OF better_trans [OF b] p])
  next
    case False
    then show ?thesis by (simp add: a r1 wp_rfail stepDone_def b)
  qed
qed (simp add: stepDone_def)

lemma restoreItem_step:
  "wp (restoreAndConfigureDisk w i item recreate names r) (stepDone w r (\<lambda>_. 1) log) log"
  unfolding restoreAndConfigureDisk_def
proof (rule stepDone_thenR [where k = "\<lambda>_. 0" and j = "\<lambda>_ _. 1"])
  show "wp (reading (ret (targetInstance i r item)) r) (stepDone w r (\<lambda>_. 0) log) log"
    by (intro stepDone_reading calls_rules)
next
  fix inst :: string and r1 log1
  show "wp (thenR (placeDisk w inst item recreate names r1) (\<lambda>(disk, rest) r2.
        thenR (recordDisk w inst disk r2) (\<lambda>dev r3. rok (dev, rest) r3)))
     (stepDone w r1 (\<lambda>_. 1) log1) log1"
  proof (rule thenR_wp [OF placeDisk_step])
    fix a :: "string \<times> string list" and r2 log2
    assume *: "stepDone w r1 (\<lambda>_. 0) log1 (Inr a, r2) log2 \<and> (\<forall>d rest. fst (Inr a, r2) = Inr (d, rest) \<longrightarrow> placed w d log2)"
    obtain d rest where a: "a = (d, rest)" by (cases a)
    have "wp (recordDisk w inst d r2) (stepDone w r2 (\<lambda>_. 1) log2) log2"
      using * by (intro recordDisk_step) (simp add: a)
    then have "wp (thenR (recordDisk w inst d r2) (\<lambda>dev r3. rok (dev, rest) r3)) (stepDone w r2 (\<lambda>_. 1) log2) log2"
      by (rule thenR_wp) (simp_all add: stepDone_def wp_rok)
    then show "wp ((case a of (disk, rest) \<Rightarrow> \<lambda>r2. thenR (recordDisk w inst disk r2) (\<lambda>dev r3. rok (dev, rest) r3)) r2)
        (stepDone w r1 (\<lambda>_. 1) log1) log2"
      unfolding a prod.case
      by (rule wp_mono)
        (use * in \<open>auto simp: stepDone_def split: sum.splits intro: better_trans added_trans [where k = 0, simplified]\<close>)
  qed (simp add: stepDone_def)
qed simp

lemma restoreItems_step:
  "wp (restoreItems w i recreate items names dev r) (stepDone w r (\<lambda>_. length items) log) log"
proof (induction items arbitrary: names dev r log)
  case Nil
  show ?case using stepDone_ok [where a = dev] by simp
next
  case (Cons item items)
  show ?case
    unfolding restoreItems.simps
    by (rule stepDone_thenR [OF restoreItem_step, where j = "\<lambda>_ _. length items"])
      (auto split: prod.splits intro!: Cons)
qed

lemma restoreLabelled_step: "wp (restoreLabelled w i item n r) (stepDone w r (\<lambda>_. 1) log) log"
proof (cases "labelOf (SiLabels item) ''goog-sapagent-instance-name'' = []")
  case False
  have *: "wp (State_Monad.bind (deviceOf w i n) (\<lambda>dev.
        let r = addAttached n dev i r1 in State_Monad.bind (modifyDiskInCG w r n True) (\<lambda>_. rok dev r)))
      (stepDone w r (\<lambda>_. 1) log) log1"
    if b: "better w log log1" and s: "steadyPart r1 = steadyPart r" and a: "newAttachedDisks r1 = newAttachedDisks r"
      and p: "placed w n log1" for r1 log1
    unfolding wp_bind Let_def
  proof (rule wp_mono [OF noDisk_better [where w = w, OF noDisk_reads(2)]],
      rule wp_mono [OF noDisk_better [where w = w, OF noDisk_modify]])
    fix dev x log2 log3
    assume "better w log1 log2" "better w log2 log3"
    then have c: "better w log1 log3" by (rule better_trans)
    show "wp (rok dev (addAttached n dev i r1)) (stepDone w r (\<lambda>_. 1) log) log3"
      by (simp add: wp_rok stepDone_def added_def a s placed_better [OF c p] better_trans [OF b c])
  qed
  have "wp (restoreFromSnapshot w inst n (SiName item) r) (\<lambda>x log'. better w log log' \<and>
      steadyPart (snd x) = steadyPart r \<and> newAttachedDisks (snd x) = newAttachedDisks r
      \<and> (\<forall>u. fst x = Inr u \<longrightarrow> placed w n log')) log" for inst
    by (intro wp_conj noDetach_better calls_rules wp_kept restoreFromSnapshot_keeps restoreFromSnapshot_placed) simp_all
  then show ?thesis
    unfolding restoreLabelled_def using False
    by (simp only: Let_def [of "labelOf _ _"] if_False)
      (rule thenR_wp, assumption, simp add: stepDone_def, rule *, simp_all)
qed (simp add: restoreLabelled_def stepDone_fail)

lemma restoreAllLabelled_step:
  "wp (restoreAllLabelled w i items names n dev r)
     (\<lambda>x log'. stepDone w r (\<lambda>a. fst a - n) log x log' \<and> (\<forall>a. fst x = Inr a \<longrightarrow> n \<le> fst a)) log"
proof (induction items arbitrary: names n dev r log)
  case Nil
  show ?case using stepDone_ok [where a = "(n, dev)"] by (simp add: wp_rok stepDone_def)
next
  case (Cons item items)
  show ?case
  proof (cases "ofGroup r item")
    case True
    show ?thesis
    proof (cases names)
      case (Cons name rest)
      have "wp (thenR (restoreLabelled w i item name r) (\<lambda>dev' r1. restoreAllLabelled w i items rest (n + 1) dev' r1))
        (\<lambda>x log'. stepDone w r (\<lambda>a. fst a - n) log x log' \<and> (\<forall>a. fst x = Inr a \<longrightarrow> n \<le> fst a)) log"
      proof (rule thenR_wp [OF restoreLabelled_step])
        fix dev' :: string and r1 log1
        assume *: "stepDone w r (\<lambda>_. 1) log (Inr dev', r1) log1"
        show "wp (restoreAllLabelled w i items rest (n + 1) dev' r1)
          (\<lambda>x log'. stepDone w r (\<lambda>a. fst a - n) log x log' \<and> (\<forall>a. fst x = Inr a \<longrightarrow> n \<le> fst a)) log1"
        proof (rule wp_mono [OF Cons.IH])
          fix x :: "(restore_error, nat \<times> string) result \<times> restorer" and log2
          assume "stepDone w r1 (\<lambda>a. fst a - (n + 1)) log1 x log2 \<and> (\<forall>a. fst x = Inr a \<longrightarrow> n + 1 \<le> fst a)"
          with * show "stepDone w r (\<lambda>a. fst a - n) log x log2 \<and> (\<forall>a. fst x = Inr a \<longrightarrow> n \<le> fst a)"
            using added_trans [of w 1 r r1 log1 log2 "fst (projr (fst x)) - (n + 1)" "snd x"]
            by (auto simp: stepDone_def Suc_diff_Suc Suc_le_eq split: sum.splits intro: better_trans)
        qed
      qed (simp add: stepDone_def)
      with True Cons show ?thesis by simp
    qed (use True in \<open>simp add: wp_rfail stepDone_def\<close>)
  next
    case False
    with Cons.IH [of names n dev r log] show ?thesis by simp
  qed
qed

text \<open>As many new disks as there are old ones are in place.\<close>

definition replaced :: "restore_world \<Rightarrow> nat \<Rightarrow> restorer \<Rightarrow> restore_call list \<Rightarrow> bool" where
  "replaced w n r log \<longleftrightarrow>
     length (drop n (newAttachedDisks r)) = length (r_disks r) \<and>
     list_all (\<lambda>d. placed w (DrName d) log) (drop n (newAttachedDisks r))"

lemma added_replaced:
  "added w (length (r_disks r)) r0 r log \<Longrightarrow> replaced w (length (newAttachedDisks r0)) r log"
  by (auto simp: added_def replaced_def list_all_iff)

lemma replaced_better: "replaced w n r log \<Longrightarrow> better w log log' \<Longrightarrow> replaced w n r log'"
  by (auto simp: replaced_def list_all_iff placed_better)

text \<open>The workflow of a group fails, or all its disks are replaced.\<close>

definition workflowDone ::
  "restore_world \<Rightarrow> restorer \<Rightarrow> (restore_error, unit) result \<times> restorer \<Rightarrow> restore_call list \<Rightarrow> bool" where
  "workflowDone w r0 x log \<longleftrightarrow>
     steadyPart (snd x) = steadyPart r0 \<and>
     (fst x = Inr () \<longrightarrow> replaced w (length (newAttachedDisks r0)) (snd x) log)"

lemma rename_step: "wp (renameLVMForScaleup w dev r) (stepDone w r (\<lambda>_. 0) log) log"
  by (auto simp: renameLVMForScaleup_def stepDone_ok intro!: stepDone_reading noDetach_mono calls_rules)

lemma steadyPart_disks: "steadyPart r = steadyPart r0 \<Longrightarrow> r_disks r = r_disks r0"
  by (simp add: steadyPart_def)

lemma stepDone_workflow:
  "stepDone w r (\<lambda>_. length (r_disks r)) log x log' \<Longrightarrow> workflowDone w r x log'"
  using steadyPart_disks [of "snd x" r] added_replaced [of w "snd x" r log']
  by (simp add: stepDone_def workflowDone_def split: sum.splits)

lemma groupSG_done:
  assumes "length (snapshotItems r) = length (r_disks r)"
  shows "wp (groupRestoreWithSGWorkflow w i r) (workflowDone w r) log"
proof -
  have items: "wp (thenR (restoreItems w i b (snapshotItems r1) names [] r1) (renameLVMForScaleup w))
      (stepDone w r1 (\<lambda>_. length (snapshotItems r1)) log1) log1" for b r1 names log1
    by (rule stepDone_thenR [OF restoreItems_step, where j = "\<lambda>_ _. 0"]) (simp_all add: rename_step)
  have disks: "wp (createAttachAndConfigureDisks w i r) (stepDone w r (\<lambda>_. length (r_disks r)) log1) log1" for log1
    unfolding createAttachAndConfigureDisks_def
  proof (rule stepDone_thenR [where k = "\<lambda>_. 0" and j = "\<lambda>_ _. length (r_disks r)"])
    show "wp (reading (if shouldRecreateDisk r then namesForDisks w r
          else bindE (bulkInsertDisksFromSG w r) (\<lambda>_. ret (Inr []))) r) (stepDone w r (\<lambda>_. 0) log1) log1"
      by (intro stepDone_reading calls_rules noDetach_mono [OF noDisk_group(1)] noDetach_mono [OF noDisk_group(3)])
  next
    fix names r1 log2
    assume "steadyPart r1 = steadyPart r"
    then have "length (snapshotItems r1) = length (r_disks r)" using assms by (simp add: steadyPart_def)
    then show "wp (thenR (restoreItems w i (shouldRecreateDisk r) (snapshotItems r1) names [] r1) (renameLVMForScaleup w))
        (stepDone w r1 (\<lambda>_. length (r_disks r)) log2) log2"
      using items [of "shouldRecreateDisk r" r1 names log2] by simp
  qed simp
  have sg: "wp (reading m r) (\<lambda>x _. snd x = r) log" for m :: "(restore_call, (restore_error, string) result) prog"
    by (simp add: wp_reading wp_triv)
  show ?thesis
    unfolding groupRestoreWithSGWorkflow_def
    by (rule thenR_wp [OF sg])
      (auto simp: wp_rfail intro: wp_mono [OF disks stepDone_workflow], simp_all add: workflowDone_def)
qed

lemma groupISG_done: "wp (groupRestoreWithISGWorkflow w i r) (workflowDone w r) log"
proof -
  have *: "wp (thenR (restoreAllLabelled w i items names 0 [] r) (\<lambda>(n, dev) r2.
       if n \<noteq> length (r_disks r2) then rfail (RFail ''wrong number of disks'' (natStr n)) r2
       else renameLVMForScaleup w dev r2)) (workflowDone w r) log1" for items names log1
  proof (rule thenR_wp [OF restoreAllLabelled_step])
    fix a :: "nat \<times> string" and r2 log2
    assume s: "stepDone w r (\<lambda>a. fst a - 0) log1 (Inr a, r2) log2 \<and> (\<forall>b. fst (Inr a, r2) = Inr b \<longrightarrow> 0 \<le> fst b)"
    obtain n dev where a: "a = (n, dev)" by (cases a)
    have st: "steadyPart r2 = steadyPart r" and ad: "added w n r r2 log2" using s by (simp_all add: stepDone_def a)
    have "wp (renameLVMForScaleup w dev r2) (workflowDone w r) log2" if "n = length (r_disks r2)"
    proof (rule wp_mono [OF rename_step])
      fix x :: "(restore_error, unit) result \<times> restorer" and log3
      assume "stepDone w r2 (\<lambda>_. 0) log2 x log3"
      with st ad that have "stepDone w r (\<lambda>_. length (r_disks r)) log2 x log3"
        using added_trans [of w n r r2 log2 log3 0 "snd x"] steadyPart_disks [OF st]
        by (simp add: stepDone_def split: sum.splits)
      then show "workflowDone w r x log3" by (rule stepDone_workflow)
    qed
    then show "wp ((case a of (n, dev) \<Rightarrow> \<lambda>r2. if n \<noteq> length (r_disks r2)
          then rfail (RFail ''wrong number of disks'' (natStr n)) r2 else renameLVMForScaleup w dev r2) r2)
        (workflowDone w r) log2"
      by (auto simp: a wp_rfail workflowDone_def st)
  qed (simp add: stepDone_def workflowDone_def)
  have ls: "wp (reading m r) (\<lambda>x _. snd x = r) log" for m :: "(restore_call, (restore_error, snapshot_item list) result) prog"
    by (simp add: wp_reading wp_triv)
  show ?thesis
    unfolding groupRestoreWithISGWorkflow_def
    by (rule thenR_wp [OF ls]) (simp_all add: workflowDone_def *)
qed

section \<open>Giving the old disks back\<close>

definition intact :: "restore_world \<Rightarrow> restore_call list \<Rightarrow> bool" where
  "intact w log \<longleftrightarrow> (\<forall>d. \<not> abandoned w d log)"

definition givenBack :: "restore_world \<Rightarrow> restorer \<Rightarrow> restore_call list \<Rightarrow> bool" where
  "givenBack w r log \<longleftrightarrow> list_all (\<lambda>d. \<not> abandoned w (DrName d) log) (r_disks r)"

lemma intact_better: "intact w log \<Longrightarrow> better w log log' \<Longrightarrow> intact w log'"
  by (simp add: intact_def better_def)

lemma intact_given: "intact w log \<Longrightarrow> givenBack w r log"
  by (simp add: intact_def givenBack_def list_all_iff)

lemma intact_noDisk: "intact w log \<Longrightarrow> calls_only noDisk m \<Longrightarrow> wp m (\<lambda>_. intact w) log"
  by (rule wp_mono [OF noDisk_better]) (auto intro: intact_better)

lemma reattachDisks_given:
  "wp (reattachDisks w r ds) (\<lambda>_ log'. better w log log' \<and> (\<forall>d \<in> set ds. \<not> abandoned w (DrName d) log')) log"
proof (induction ds arbitrary: log)
  case (Cons d ds)
  show ?case
    unfolding reattachDisks.simps wp_bind
  proof (rule wp_mono [OF attach_effect], rule wp_mono [OF noDisk_better [where w = w]])
    fix x :: "(restore_error, unit) result"
    show "calls_only noDisk (case x of Inl _ \<Rightarrow> ret (Inr ()) | Inr _ \<Rightarrow> modifyDiskInCG w r (DrName d) True)"
      by (intro calls_rules)
  next
    fix x log1 y log2
    assume a: "better w log log1 \<and> \<not> abandoned w (DrName d) log1 \<and> (\<forall>u. x = Inr u \<longrightarrow> placed w (DrName d) log1)"
      and b: "better w log1 log2"
    show "wp (reattachDisks w r ds) (\<lambda>_ log'. better w log log' \<and> (\<forall>e \<in> set (d # ds). \<not> abandoned w (DrName e) log')) log2"
      by (rule wp_mono [OF Cons]) (use a b in \<open>auto intro: better_trans dest: abandoned_better\<close>)
  qed
qed (simp add: wp_rules)

lemma handleRestoreFailure_given: "wp (handleRestoreFailure w r) (\<lambda>_. givenBack w r) log"
  unfolding handleRestoreFailure_def wp_bind
proof (rule wp_mono [OF wp_triv], rule wp_mono [OF reattachDisks_given])
  fix u log1 u' log2
  assume g: "better w log1 log2 \<and> (\<forall>d \<in> set (r_disks r). \<not> abandoned w (DrName d) log2)"
  have "calls_only noDisk (tryIt (rescan w))" by (intro calls_rules)
  from noDisk_better [OF this]
  show "wp (tryIt (rescan w)) (\<lambda>_. givenBack w r) log2"
    by (rule wp_mono) (use g in \<open>auto simp: givenBack_def list_all_iff dest: abandoned_better\<close>)
qed

text \<open>The outcome for a group. A panic, and an old disk that could not be attached again while
  preparing, are the two ways to fail that leave the others detached.\<close>

fun leavesDisks :: "(restore_error, unit) result \<Rightarrow> bool" where
  "leavesDisks (Inl (RPanic _)) = True"
| "leavesDisks (Inl (RFail what _)) = (what = ''reattach'')"
| "leavesDisks _ = False"

definition groupSettled ::
  "restore_world \<Rightarrow> nat \<Rightarrow> (restore_error, unit) result \<times> restorer \<Rightarrow> restore_call list \<Rightarrow> bool" where
  "groupSettled w n x log \<longleftrightarrow>
     \<not> isGroupSnapshot (snd x) \<or> replaced w n (snd x) log \<or>
     (fst x \<noteq> Inr () \<and> givenBack w (snd x) log) \<or> leavesDisks (fst x)"

lemma groupSettled_fail: "givenBack w r log \<Longrightarrow> groupSettled w n (Inl e, r) log"
  by (simp add: groupSettled_def)

lemma groupSettled_replaced: "replaced w n r log \<Longrightarrow> groupSettled w n (x, r) log"
  by (simp add: groupSettled_def)

lemma isPanic_leaves: "isPanic e \<Longrightarrow> leavesDisks (Inl e)"
  by (cases e) simp_all

lemma finish_settled:
  "replaced w n r log \<Longrightarrow> wp (reading (finishRestore w r) r) (groupSettled w n) log"
  unfolding wp_reading
  by (rule wp_mono [OF noDisk_better [where w = w, OF noDisk_finish]]) (auto intro: groupSettled_replaced replaced_better)

lemma groupRestore_settled:
  assumes "r_UseSG r \<Longrightarrow> length (snapshotItems r) = length (r_disks r)"
  shows "wp (groupRestore w i r) (groupSettled w (length (newAttachedDisks r))) log"
  unfolding groupRestore_def wp_bind
proof (rule wp_mono)
  show "wp (if r_UseSG r then groupRestoreWithSGWorkflow w i r else groupRestoreWithISGWorkflow w i r)
      (workflowDone w r) log"
    using assms by (simp add: groupSG_done groupISG_done)
next
  fix x :: "(restore_error, unit) result \<times> restorer" and log1
  assume fin: "workflowDone w r x log1"
  obtain y r1 where x: "x = (y, r1)" by (cases x)
  show "wp (case x of (y, r) \<Rightarrow>
      (case y of Inl e \<Rightarrow> if isPanic e then rfail e r else State_Monad.bind (handleRestoreFailure w r) (\<lambda>_. rfail e r)
       | Inr _ \<Rightarrow> reading (finishRestore w r) r)) (groupSettled w (length (newAttachedDisks r))) log1"
  proof (cases y)
    case (Inl e)
    have "wp (State_Monad.bind (handleRestoreFailure w r1) (\<lambda>_. rfail e r1)) (groupSettled w n) log1" for n
      unfolding wp_bind wp_rfail by (rule wp_mono [OF handleRestoreFailure_given]) (rule groupSettled_fail)
    then show ?thesis by (simp add: x Inl wp_rfail groupSettled_def isPanic_leaves)
  next
    case (Inr u)
    with fin show ?thesis by (simp add: x workflowDone_def finish_settled)
  qed
qed

section \<open>Detaching the old disks\<close>

lemma detach_effect:
  "wp (detach w i d dev) (\<lambda>x log'. (\<forall>e. e \<noteq> d \<longrightarrow> abandoned w e log' = abandoned w e log) \<and>
     (\<forall>e. x = Inl e \<longrightarrow> (\<forall>d'. abandoned w d' log' = abandoned w d' log))) log"
  by (auto simp: detach_def rdo_def wp_rules abandonStep_def split: option.splits)

lemma detachSingle_intact:
  assumes "intact w log"
  shows "wp (detachSingle w i r) (\<lambda>x log'. \<forall>e. x = Inl e \<longrightarrow> intact w log') log"
  unfolding detachSingle_def wp_bind
proof (rule wp_mono [OF detach_effect])
  fix x :: "(restore_error, unit) result" and log1
  assume *: "(\<forall>e. e \<noteq> DataDiskName r \<longrightarrow> abandoned w e log1 = abandoned w e log) \<and>
     (\<forall>e. x = Inl e \<longrightarrow> (\<forall>d'. abandoned w d' log1 = abandoned w d' log))"
  show "wp (case x of Inl e \<Rightarrow> State_Monad.bind (rescan w) (\<lambda>_. ret (Inl e)) | Inr _ \<Rightarrow> ret (Inr ()))
    (\<lambda>x log'. \<forall>e. x = Inl e \<longrightarrow> intact w log') log1"
  proof (cases x)
    case (Inl e)
    with * assms have "intact w log1" by (simp add: intact_def)
    from intact_noDisk [OF this noDisk_rescan] show ?thesis
      unfolding Inl sum.case wp_bind wp_return_fun by (rule wp_mono) simp
  qed (simp add: wp_rules)
qed

lemma reattachDetached_intact:
  assumes "\<forall>d. d \<notin> DrName ` set ds \<longrightarrow> \<not> abandoned w d log"
  shows "wp (reattachDetached w r ds)
     (\<lambda>x log'. (case x of Inr _ \<Rightarrow> intact w log' | Inl e \<Rightarrow> leavesDisks (Inl e))) log"
  using assms
proof (induction ds arbitrary: log)
  case Nil
  then show ?case by (simp add: wp_rules intact_def)
next
  case (Cons d ds)
  have att: "wp (rdo w ''reattach'' (AttachDisk (DrName d) (DrInstance d)))
      (\<lambda>x log'. better w log log' \<and> \<not> abandoned w (DrName d) log' \<and> (\<forall>e. x = Inl e \<longrightarrow> leavesDisks (Inl e))) log"
  proof (rule wp_conj)
    show "wp (rdo w ''reattach'' (AttachDisk (DrName d) (DrInstance d))) (\<lambda>_. better w log) log"
      by (rule noDetach_better) (intro calls_rules, simp)
    show "wp (rdo w ''reattach'' (AttachDisk (DrName d) (DrInstance d)))
      (\<lambda>x log'. \<not> abandoned w (DrName d) log' \<and> (\<forall>e. x = Inl e \<longrightarrow> leavesDisks (Inl e))) log"
      by (auto simp: rdo_def wp_rules abandonStep_def split: option.splits)
  qed
  show ?case
    unfolding reattachDetached.simps
  proof (rule bindE_wp [OF att])
    fix u log1
    assume a: "better w log log1 \<and> \<not> abandoned w (DrName d) log1 \<and> (\<forall>e. (Inr u :: (restore_error, unit) result) = Inl e \<longrightarrow> leavesDisks (Inl e))"
    have rest: "\<forall>e. e \<notin> DrName ` set ds \<longrightarrow> \<not> abandoned w e log1"
      using a Cons.prems abandoned_better [of w log log1] by (metis image_insert insert_iff list.simps(15))
    show "wp (State_Monad.bind (modifyDiskInCG w r (DrName d) True) (\<lambda>_. reattachDetached w r ds))
       (\<lambda>x log'. (case x of Inr _ \<Rightarrow> intact w log' | Inl e \<Rightarrow> leavesDisks (Inl e))) log1"
      unfolding wp_bind
      by (rule wp_mono [OF noDisk_better [where w = w, OF noDisk_modify]], rule Cons.IH)
        (use rest in \<open>auto dest: abandoned_better\<close>)
  qed auto
qed

lemma detachAll_intact:
  assumes "\<forall>d. d \<notin> DrName ` set gone \<longrightarrow> \<not> abandoned w d log"
  shows "wp (detachAll w r gone ds) (\<lambda>x log'. \<forall>e. x = Inl e \<longrightarrow> intact w log' \<or> leavesDisks (Inl e)) log"
  using assms
proof (induction ds arbitrary: gone log)
  case (Cons d ds)
  show ?case
    unfolding detachAll.simps wp_bind
  proof (rule wp_mono [OF detach_effect])
    fix x :: "(restore_error, unit) result" and log1
    assume *: "(\<forall>e. e \<noteq> DrName d \<longrightarrow> abandoned w e log1 = abandoned w e log) \<and>
       (\<forall>e. x = Inl e \<longrightarrow> (\<forall>d'. abandoned w d' log1 = abandoned w d' log))"
    show "wp (case x of
        Inl e \<Rightarrow> bindE (reattachDetached w r gone) (\<lambda>_. State_Monad.bind (rescan w) (\<lambda>_. ret (Inl e)))
      | Inr _ \<Rightarrow> State_Monad.bind (modifyDiskInCG w r (DrName d) False) (\<lambda>_. detachAll w r (gone @ [d]) ds))
      (\<lambda>x log'. \<forall>e. x = Inl e \<longrightarrow> intact w log' \<or> leavesDisks (Inl e)) log1"
    proof (cases x)
      case (Inl e)
      with * Cons.prems have "\<forall>d. d \<notin> DrName ` set gone \<longrightarrow> \<not> abandoned w d log1" by simp
      from reattachDetached_intact [OF this, of r] show ?thesis
        unfolding Inl sum.case
        by (rule bindE_wp) (auto simp: wp_bind wp_return_fun intro: wp_mono [OF intact_noDisk [OF _ noDisk_rescan]])
    next
      case (Inr u)
      with * Cons.prems have gone: "\<forall>e. e \<notin> DrName ` set (gone @ [d]) \<longrightarrow> \<not> abandoned w e log1" by auto
      show ?thesis
        unfolding Inr sum.case wp_bind
        by (rule wp_mono [OF noDisk_better [where w = w, OF noDisk_modify]], rule Cons.IH)
          (use gone in \<open>auto dest: abandoned_better\<close>)
    qed
  qed
qed (simp add: wp_rules)

text \<open>The preparation keeps what matters later, and fails with all disks given back.\<close>

definition preparationDone ::
  "restore_world \<Rightarrow> restorer \<Rightarrow> (restore_error, unit) result \<times> restorer \<Rightarrow> restore_call list \<Rightarrow> bool" where
  "preparationDone w r0 x log \<longleftrightarrow>
     steadyPart (snd x) = steadyPart r0 \<and> newAttachedDisks (snd x) = newAttachedDisks r0 \<and>
     (fst x = Inr () \<or> intact w log \<or> isGroupSnapshot (snd x) \<and> leavesDisks (fst x))"

lemma preparationDone_reading:
  assumes "wp m (\<lambda>x log'. \<forall>e. x = Inl e \<longrightarrow> intact w log' \<or> isGroupSnapshot r \<and> leavesDisks (Inl e)) log"
    and "steadyPart r = steadyPart r0" "newAttachedDisks r = newAttachedDisks r0"
  shows "wp (reading m r) (preparationDone w r0) log"
  unfolding wp_reading
proof (rule wp_mono [OF assms(1)])
  fix x :: "(restore_error, unit) result" and log'
  assume "\<forall>e. x = Inl e \<longrightarrow> intact w log' \<or> isGroupSnapshot r \<and> leavesDisks (Inl e)"
  then show "preparationDone w r0 (x, r) log'"
    by (cases x) (auto simp: preparationDone_def assms)
qed

lemma readVolumes_kept: "keepsR (\<lambda>r. (steadyPart r, newAttachedDisks r)) (readVolumes w r) r"
  unfolding readVolumes_def by (auto simp: Let_def intro!: keepsR_rules)

lemma detachSingle_prepared:
  "intact w log \<Longrightarrow> wp (detachSingle w i r) (\<lambda>x log'. \<forall>e. x = Inl e \<longrightarrow> intact w log' \<or> b \<and> leavesDisks (Inl e)) log"
  by (rule wp_mono [OF detachSingle_intact]) auto

lemma detachOld_prepared:
  assumes "intact w log"
  shows "wp (if isGroupSnapshot r then detachAll w r [] (r_disks r) else detachSingle w i r)
    (\<lambda>x log'. \<forall>e. x = Inl e \<longrightarrow> intact w log' \<or> isGroupSnapshot r \<and> leavesDisks (Inl e)) log"
proof (cases "isGroupSnapshot r")
  case True
  have "wp (detachAll w r [] (r_disks r)) (\<lambda>x log'. \<forall>e. x = Inl e \<longrightarrow> intact w log' \<or> leavesDisks (Inl e)) log"
    using assms by (intro detachAll_intact) (simp add: intact_def)
  with True show ?thesis by simp
next
  case False
  with detachSingle_prepared [OF assms, of i r False] show ?thesis by simp
qed

lemma prepareRestore_done:
  assumes "intact w log"
  shows "wp (prepareRestore w i r) (preparationDone w r) log"
  unfolding prepareRestore_def
proof (rule thenR_wp)
  show "wp (reading (quiesce w r) r) (\<lambda>x log'. intact w log' \<and> snd x = r) log"
    unfolding wp_reading snd_conv by (rule wp_mono [OF intact_noDisk [OF assms noDisk_prepare(1)]]) simp
next
  fix a :: unit and r1 log1
  assume "intact w log1 \<and> snd (Inr a :: (restore_error, unit) result, r1) = r"
  then have i1: "intact w log1" and r1: "r1 = r" by simp_all
  show "wp (thenR (readVolumes w r1) (\<lambda>_ r2. reading (if isGroupSnapshot r2 then detachAll w r2 [] (r_disks r2)
      else detachSingle w i r2) r2)) (preparationDone w r) log1"
    unfolding r1
    by (rule thenR_wp [OF wp_conj [OF intact_noDisk [OF i1 noDisk_prepare(2)] wp_kept [OF readVolumes_kept]]])
      (simp add: preparationDone_def, rule preparationDone_reading [OF detachOld_prepared], simp_all)
qed (simp add: preparationDone_def)

lemma prepareFor_done:
  assumes "intact w log"
  shows "wp (prepareFor w i r) (preparationDone w r) log"
proof (cases "r_SkipDB r")
  case True
  have "wp (prepareForHANAChangeDiskType w i r)
      (\<lambda>x log'. \<forall>e. x = Inl e \<longrightarrow> intact w log' \<or> isGroupSnapshot r \<and> leavesDisks (Inl e)) log"
    unfolding prepareForHANAChangeDiskType_def wp_bind
  proof (rule wp_mono [OF intact_noDisk [OF assms]])
    show "calls_only noDisk (ReadDataDirMountPath (baseDataPath r) (rexec w))" by (intro calls_rules) simp
  next
    fix m :: "(hb_error, string) result" and log1
    assume i1: "intact w log1"
    have u: "calls_only noDisk (rhana (Unmount p (rexec w) (isScaleout r)))" for p by (intro calls_rules) simp
    show "wp (case m of Inl e \<Rightarrow> ret (Inl (RHana e))
        | Inr mountPath \<Rightarrow> bindE (rhana (Unmount mountPath (rexec w) (isScaleout r))) (\<lambda>_. detachSingle w i r))
      (\<lambda>x log'. \<forall>e. x = Inl e \<longrightarrow> intact w log' \<or> isGroupSnapshot r \<and> leavesDisks (Inl e)) log1"
      by (cases m) (auto simp: wp_rules i1 intro!: bindE_wp [OF intact_noDisk [OF i1 u]] detachSingle_prepared)
  qed
  then show ?thesis by (simp add: True prepareFor_def preparationDone_reading)
qed (simp add: prepareFor_def prepareRestore_done [OF assms])

section \<open>As many snapshots as disks\<close>

definition countPart :: "restorer \<Rightarrow> bool \<times> bool \<times> nat \<times> nat" where
  "countPart r = (isGroupSnapshot r, r_UseSG r, length (snapshotItems r), length (r_disks r))"

definition countsAgree :: "restorer \<Rightarrow> bool" where
  "countsAgree r \<longleftrightarrow> isGroupSnapshot r \<and> r_UseSG r \<longrightarrow> length (snapshotItems r) = length (r_disks r)"

lemma countPart_updates [simp]:
  "countPart (r\<lparr>NewDiskType := z\<rparr>) = countPart r" "countPart (r\<lparr>r_cgName := z\<rparr>) = countPart r"
  "countPart (r\<lparr>NewDiskNames := z\<rparr>) = countPart r" "countPart (extractLabels ls r) = countPart r"
  "countPart (r\<lparr>TargetKMSLocation := z\<rparr>) = countPart r"
  by (simp_all add: countPart_def extractLabels_def Let_def)

lemma countPart_agree: "countPart r = countPart r' \<Longrightarrow> countsAgree r = countsAgree r'"
  by (simp add: countPart_def countsAgree_def)

lemma count_useSnapshot: "keepsR countPart (useSnapshot w n region r) r"
  unfolding useSnapshot_def by (auto simp: Let_def intro!: keepsR_rules)

lemma count_setDiskType: "keepsR countPart (setDiskType w r) r"
  unfolding setDiskType_def by (auto intro!: keepsR_rules)

lemma count_sameGroup: "keepsR countPart (sameGroup w ds r) r"
proof (induction ds arbitrary: r)
  case (Cons d ds)
  show ?case by (auto intro!: keepsR_rules keepsR_from [OF Cons.IH])
qed (simp add: keepsR_ret)

lemma count_checkNewDisks: "keepsR countPart (checkNewDisks w r) r"
proof (cases "nameNewDisks r")
  case (Inr r1)
  then have "countPart r1 = countPart r"
    by (auto simp: nameNewDisks_def andThen_def split: if_splits sum.splits)
  with Inr show ?thesis by (simp add: checkNewDisks_def keepsR_reading)
qed (simp add: checkNewDisks_def keepsR_ret)

lemma count_presence:
  "wp (verifySnapshotPresence w region r) (\<lambda>x _. fst x = Inr () \<longrightarrow> countsAgree (snd x)) log"
proof -
  have use: "wp (useSnapshot w n region r1) (\<lambda>x _. fst x = Inr () \<longrightarrow> countsAgree (snd x)) log1"
    if "countsAgree r1" for n r1 log1
    by (rule wp_mono [OF wp_kept [OF count_useSnapshot]]) (use that countPart_agree in blast)
  have kept: "wp (reading m r) (\<lambda>x _. snd x = r) log" for m :: "(restore_call, (restore_error, snapshot_item list) result) prog"
    by (simp add: wp_reading wp_triv)
  have useLabelled: "r_UseSG (snd (useLabelled region items n r)) = r_UseSG r" for items n r
    using useLabelled_fixed [of region items n r] by (simp add: fixedPart_def corePart_def)
  consider (single) "\<not> isGroupSnapshot r" | (sg) "isGroupSnapshot r" "r_UseSG r" | (isg) "isGroupSnapshot r" "\<not> r_UseSG r"
    by blast
  then show ?thesis
  proof cases
    case single
    then have "countsAgree r" by (simp add: countsAgree_def)
    with single show ?thesis by (simp add: verifySnapshotPresence_def use)
  next
    case sg
    then show ?thesis
      unfolding verifySnapshotPresence_def
      by simp (rule thenR_wp [OF kept], auto simp: wp_rfail intro!: use, simp add: countsAgree_def)
  next
    case isg
    then show ?thesis
      unfolding verifySnapshotPresence_def
      by simp (rule thenR_wp [OF kept],
          auto simp: wp_thenR wp_return wp_rfail wp_rok countsAgree_def useLabelled split: sum.splits)
  qed
qed

lemma preConditions_count:
  "wp (checkPreConditions w cp r) (\<lambda>x _. fst x = Inr () \<longrightarrow> countsAgree (snd x)) log"
proof -
  have presence: "wp (checkSnapshots w cp r) (\<lambda>x _. fst x = Inr () \<longrightarrow> countsAgree (snd x)) log" for r log
    unfolding checkSnapshots_def
    by (auto simp: wp_rfail count_presence split: sum.splits)
  have keep: "wp m (\<lambda>x _. fst x = Inr () \<longrightarrow> countsAgree (snd x)) log"
    if "keepsR countPart m r" and "countsAgree r" for m :: "unit rprog" and r log
    by (rule wp_mono [OF wp_kept [OF that(1)]]) (use that(2) countPart_agree in blast)
  show ?thesis
    unfolding checkPreConditions_def
    by (rule thenR_wp [OF wp_triv], simp, rule thenR_wp [OF wp_triv], simp, rule thenR_wp [OF wp_triv], simp,
        rule thenR_wp [OF wp_triv], simp, rule thenR_wp [OF presence], simp,
        rule thenR_wp [OF keep [OF count_setDiskType]], simp, simp,
        rule thenR_wp [OF keep [OF count_sameGroup]], simp, simp,
        rule keep [OF count_checkNewDisks], simp)
qed

section \<open>The outcome of a restore\<close>

definition settled ::
  "restore_world \<Rightarrow> nat \<Rightarrow> (restore_error, unit) result \<times> restorer \<Rightarrow> restore_call list \<Rightarrow> bool" where
  "settled w n x log \<longleftrightarrow> groupSettled w n x log \<and> singleSettled w x log"

lemma settled_fail: "intact w log \<or> isGroupSnapshot r \<and> leavesDisks (Inl e) \<Longrightarrow> settled w n (Inl e, r) log"
  using intact_given [of w log r]
  by (auto simp: settled_def groupSettled_def singleSettled_def intact_def)

lemma diskRestore_keeps:
  assumes f: "\<And>r s. f (r\<lparr>DiskSizeGb := s\<rparr>) = f r"
  shows "keepsR f (diskRestore w i r) r"
  unfolding keepsR_def
proof
  fix log
  have c: "wp (configureDisk w i r1) (\<lambda>x _. f (snd x) = f r1) log1" for r1 log1
    unfolding configureDisk_def wp_bind wp_case_sum wp_reading wp_rfail
    by (auto intro!: wp_mono [OF wp_triv] simp: wp_bind wp_reading wp_rfail wp_triv split: sum.splits)
  show "wp (diskRestore w i r) (\<lambda>x _. f (snd x) = f r) log"
    unfolding diskRestore_def wp_bind
  proof (rule wp_mono [OF wp_kept [OF restoreFromSnapshot_keeps [where f = f, OF f]]])
    fix x :: "(restore_error, unit) result \<times> restorer" and log1
    assume k: "f (snd x) = f r"
    obtain y r1 where x: "x = (y, r1)" by (cases x)
    show "wp (case x of (y, r) \<Rightarrow>
        (case y of Inl e \<Rightarrow> State_Monad.bind (reattachOld w i r) (\<lambda>_. rfail e r) | Inr _ \<Rightarrow> configureDisk w i r))
      (\<lambda>x _. f (snd x) = f r) log1"
      using k c [of r1 log1] by (cases y) (simp_all add: x wp_bind wp_rfail_fun wp_const)
  qed
qed

lemma restore_settled:
  assumes "countsAgree r"
  shows "wp (if isGroupSnapshot r then groupRestore w i r else diskRestore w i r)
    (settled w (length (newAttachedDisks r))) log"
proof (cases "isGroupSnapshot r")
  case True
  then have "wp (groupRestore w i r) (groupSettled w (length (newAttachedDisks r))) log"
    using assms by (intro groupRestore_settled) (simp add: countsAgree_def)
  moreover have "wp (groupRestore w i r) (\<lambda>x _. isGroupSnapshot (snd x)) log"
  proof -
    have "wp (if r_UseSG r then groupRestoreWithSGWorkflow w i r else groupRestoreWithISGWorkflow w i r)
        (\<lambda>x _. isGroupSnapshot (snd x)) log"
      using True assms wp_mono [OF groupSG_done [of r w i log], of "\<lambda>x _. isGroupSnapshot (snd x)"]
        wp_mono [OF groupISG_done [of w i r log], of "\<lambda>x _. isGroupSnapshot (snd x)"]
      by (auto simp: workflowDone_def steadyPart_def countsAgree_def)
    then show ?thesis
      unfolding groupRestore_def wp_bind
      by (rule wp_mono) (auto simp: wp_bind wp_rfail_fun wp_reading split: prod.splits sum.splits intro!: wp_const)
  qed
  ultimately have "wp (groupRestore w i r) (\<lambda>x log'. groupSettled w (length (newAttachedDisks r)) x log' \<and> isGroupSnapshot (snd x)) log"
    by (rule wp_conj)
  then show ?thesis
    using True by simp (erule wp_mono, simp add: settled_def singleSettled_def)
next
  case False
  have "wp (diskRestore w i r) (\<lambda>x log'. singleSettled w x log' \<and> isGroupSnapshot (snd x) = isGroupSnapshot r) log"
    by (rule wp_conj [OF diskRestore_settled wp_kept [OF diskRestore_keeps]]) simp
  then show ?thesis
    using False by simp (erule wp_mono, simp add: settled_def groupSettled_def)
qed

lemma settled_better:
  assumes "settled w n (Inr u, r) log" and "better w log log'"
  shows "settled w n (x, r) log'"
proof -
  have "isGroupSnapshot r \<longrightarrow> replaced w n r log" "\<not> isGroupSnapshot r \<longrightarrow> placed w (NewDiskName r) log"
    using assms(1) by (auto simp: settled_def groupSettled_def singleSettled_def)
  then have "isGroupSnapshot r \<longrightarrow> replaced w n r log'" "\<not> isGroupSnapshot r \<longrightarrow> placed w (NewDiskName r) log'"
    using assms(2) replaced_better placed_better by blast+
  then show ?thesis
    by (auto simp: settled_def groupSettled_def singleSettled_def)
qed

lemma replaceDisks_settled:
  assumes "countsAgree r"
  shows "wp (replaceDisks w i r) (settled w (length (newAttachedDisks r))) log"
  unfolding replaceDisks_def wp_bind
proof (rule wp_mono [OF wp_triv], rule thenR_wp [OF restore_settled [OF assms]])
  fix u r1 log2
  assume "settled w (length (newAttachedDisks r)) (Inr u, r1) log2"
  then show "wp (reading (labelOldDisks w r1) r1) (settled w (length (newAttachedDisks r))) log2"
    unfolding wp_reading
    by (intro wp_mono [OF noDisk_better [where w = w, OF noDisk_labelOld]]) (rule settled_better)
qed

lemma validateRestore_disks: "validateRestore os cp r = Inr r1 \<Longrightarrow> newAttachedDisks r1 = newAttachedDisks r"
  by (auto simp: validateRestore_def andThen_def setNames_def setKmsLocation_def setKmsProject_def Let_def
      split: if_splits option.splits sum.splits)

lemma intact_start: "intact w []"
  by (simp add: intact_def)

lemma restoreHandler_settled: "wp (restoreHandler w os cp r) (settled w (length (newAttachedDisks r))) []"
proof (cases "validateRestore os cp r")
  case (Inr r1)
  let ?n = "length (newAttachedDisks r)"
  have start: "wp (reading (newServices w (servicesFor r1)) r1) (\<lambda>x log'. intact w log' \<and> newAttachedDisks (snd x) = newAttachedDisks r) []"
    unfolding wp_reading
    by (rule wp_mono [OF intact_noDisk [OF intact_start noDisk_newServices]]) (simp add: validateRestore_disks [OF Inr])
  have check: "wp (checkPreConditions w cp r2) (\<lambda>x log'. intact w log' \<and>
      newAttachedDisks (snd x) = newAttachedDisks r \<and> (fst x = Inr () \<longrightarrow> countsAgree (snd x))) log"
    if "intact w log" and "newAttachedDisks r2 = newAttachedDisks r" for r2 log
  proof (intro wp_conj)
    show "wp (checkPreConditions w cp r2) (\<lambda>x _. newAttachedDisks (snd x) = newAttachedDisks r) log"
      by (rule wp_mono [OF wp_kept [OF keeps_preConditions]]) (simp add: corePart_def that(2))
  qed (rule intact_noDisk [OF that(1) noDisk_preConditions] preConditions_count)+
  have rest: "wp (thenR (prepareFor w i r3) (\<lambda>_. replaceDisks w i)) (settled w ?n) log"
    if "intact w log" and "newAttachedDisks r3 = newAttachedDisks r" and c: "countsAgree r3" for i r3 log
  proof (rule thenR_wp [OF prepareFor_done [OF that(1)]])
    fix a r4 log4
    assume *: "preparationDone w r3 (Inr a, r4) log4"
    then have "countsAgree r4" using c by (auto simp: preparationDone_def steadyPart_def countsAgree_def)
    from replaceDisks_settled [OF this, of w i log4] * that(2)
    show "wp (replaceDisks w i r4) (settled w ?n) log4" by (simp add: preparationDone_def)
  qed (auto simp: preparationDone_def intro!: settled_fail)
  show ?thesis
    unfolding restoreHandler_def Inr sum.case
    by (rule thenR_wp [OF start], simp add: settled_fail)
      (rule thenR_wp [OF check]; (rule rest)?; simp add: settled_fail)
qed (simp add: restoreHandler_def wp_rfail settled_fail intact_start)



section \<open>Behaviour that surprises\<close>

definition sampleRestoreWorld :: restore_world where
  "sampleRestoreWorld = \<lparr>
     rexec_env = \<lambda>_ _. failResult ''no such command'' 1,
     rdone_env = \<lambda>_ _. None,
     rvalue_env = \<lambda>_ _. Inr ''op'',
     rattached_env = \<lambda>_ _. Inr (''dev'', True),
     rdisk_env = \<lambda>_ _. Inl DiskNotFound,
     rsnap_env = \<lambda>_ c. (case c of
         GetSnapshot s \<Rightarrow> Inr \<lparr>SnapSize = (if s = ''s1'' then 10 else 20), SnapKmsKey = [], SnapLabels = []\<rparr>
       | _ \<Rightarrow> Inl ''unknown''),
     ritems_env = \<lambda>_ _. Inr [],
     rmade_env = \<lambda>_ _. Inr [],
     rmapping_env = \<lambda>_ _. Inr [],
     rclock_env = \<lambda>_ _. ''20240101-000000'',
     parseTime = \<lambda>_. None, rdecodeKeys = \<lambda>_. None, rsafeFmt = \<lambda>_ _. None,
     rcomputePrefix = [], ragentVersion = ''3.10''\<rparr>"

definition sampleRestorer :: restorer where
  "sampleRestorer = \<lparr>r_Project = ''p'', r_Sid = ''HDB'', r_HanaSidAdm = ''hdbadm'', DataDiskName = ''old'',
     DataDiskDeviceName = ''dev'', DataDiskZone = ''us-east1-b'', SourceSnapshot = ''s1'', GroupSnapshot = ''g'',
     NewDiskType = ''t'', SourceDisks = [], r_disks = [], DataDiskVG = ''vg'', DataDiskLV = ''lv'', r_cgName = ''cg'',
     baseDataPath = [], r_logicalDataPath = [], r_physicalDataPath = [], physicalLogPath = [],
     labelsOnDetachedDisk = [], r_SkipDB = False, ForceStopHANA = False, isGroupSnapshot = False,
     isScaleout = False, NewDiskName = ''new'', NewDiskNames = [], NewDiskSuffix = [], CSEKKeyFile = [],
     r_Iops = 0, r_Throughput = 0, DiskSizeGb = 0, r_UseSG = True, snapshotItems = [], newAttachedDisks = [],
     TargetKMSKey = [], TargetKMSKeyring = [], TargetKMSLocation = [], TargetKMSProject = [],
     TargetKMSServiceAccount = []\<rparr>"

definition itemOn :: "string \<Rightarrow> string \<Rightarrow> snapshot_item" where
  "itemOn name instance = \<lparr>SiName = name, SiLabels = [(''goog-sapagent-isg'', ''g''),
     (''goog-sapagent-instance-name'', instance)], SiKmsKey = []\<rparr>"

text \<open>A snapshot of another instance's disk is restored there, but recorded as a disk of the instance
  the command runs on, from where a failed restore then tries to detach it.\<close>

lemma labelled_disk_recorded_elsewhere:
  "let ((x, r), log) = run_state (restoreLabelled sampleRestoreWorld ''vm1'' (itemOn ''s1'' ''vm2'') ''n1'' sampleRestorer) []
   in AttachDisk ''n1'' ''vm2'' \<in> set log \<and> map DrInstance (newAttachedDisks r) = [''vm1'']"
  by code_simp

text \<open>The size of the first snapshot becomes that of every later disk of the group.\<close>

lemma first_size_for_all:
  "let r1 = snd (fst (run_state (restoreFromSnapshot sampleRestoreWorld ''vm1'' ''n1'' ''s1'' sampleRestorer) []));
       log = snd (run_state (restoreFromSnapshot sampleRestoreWorld ''vm1'' ''n2'' ''s2'' r1) [])
   in list_ex (\<lambda>c. case c of InsertDisk d \<Rightarrow> nd_name d = ''n2'' \<and> nd_size d = 10 | _ \<Rightarrow> False) log"
  by code_simp

text \<open>When the check of the new disk fails after it was attached, it stays attached beside the old one.\<close>

lemma failed_check_leaves_both:
  "let w = sampleRestoreWorld\<lparr>rattached_env := \<lambda>_ _. Inl ''unavailable''\<rparr>;
       ((x, r), log) = run_state (diskRestore w ''vm1'' sampleRestorer) []
   in x \<noteq> Inr () \<and> placed w ''new'' log \<and> placed w ''old'' log"
  by code_simp

text \<open>The first disk that cannot be attached again keeps the others detached.\<close>

lemma failed_reattach_leaves_others:
  "let d = \<lambda>n. \<lparr>DrName = n, DrDevice = ''dev'', DrInstance = ''vm1''\<rparr>;
       w = sampleRestoreWorld\<lparr>rdone_env := \<lambda>_ c. (case c of
             DetachDisk i n v \<Rightarrow> if n = ''d3'' then Some ''busy'' else None
           | AttachDisk n i \<Rightarrow> if n = ''d1'' then Some ''busy'' else None
           | _ \<Rightarrow> None)\<rparr>;
       (x, log) = run_state (detachAll w sampleRestorer [] [d ''d1'', d ''d2'', d ''d3'']) []
   in abandoned w ''d2'' log"
  by code_simp

text \<open>Without names for the new disks, restoring labelled snapshots first asks for a disk with an empty
  name and then panics.\<close>

lemma missing_names_panic:
  "let ((x, r), log) = run_state (restoreAllLabelled sampleRestoreWorld ''vm1'' [itemOn ''s1'' ''vm1'', itemOn ''s2'' ''vm1'']
         (splitNames []) 0 [] sampleRestorer) []
   in x = Inl (RPanic ''no disk name left'') \<and>
      list_ex (\<lambda>c. case c of InsertDisk d \<Rightarrow> nd_name d = [] | _ \<Rightarrow> False) log"
  by code_simp

text \<open>Names of new disks are looked up with the blanks around them, and used without.\<close>

lemma names_checked_untrimmed:
  "let d = \<lambda>n. \<lparr>DrName = n, DrDevice = ''dev'', DrInstance = ''vm1''\<rparr>;
       r = sampleRestorer\<lparr>NewDiskNames := ''a, b'', r_disks := [d ''o1'', d ''o2'']\<rparr>
   in FindDisk '' b'' \<in> set (snd (run_state (checkNewNames sampleRestoreWorld r) [])) \<and>
      splitNames (NewDiskNames r) = [''a'', ''b'']"
  by (simp add: Let_def sampleRestorer_def sampleRestoreWorld_def checkNewNames_def isDiskUnique_def bindE_def
      splitNames_def trimSpace_def trimBy_def isSpace_def codeOf_def)

end
