(* ===== verification/ChangeDiskType.thy ===== *)
theory ChangeDiskType
  imports SnapshotHandler RestoreOutcome
begin

text \<open>
  The subcommand \<open>hanachangedisktype\<close> (\<open>internal/onetime/hanachangedisktype\<close>): a disk backup with a
  restore of its snapshot to a disk of another type. The calls of the two commands are recorded
  separately; the restore starts after the backup has ended.
\<close>

section \<open>Arguments\<close>

record change_args =
  ch_project :: string
  ch_sid :: string
  ch_hanaSidAdm :: string
  ch_disk :: string
  ch_diskZone :: string
  ch_newDiskType :: string
  ch_diskKeyFile :: string
  ch_storageLocation :: string
  ch_snapshotName :: string
  ch_description :: string
  ch_forceStopHANA :: bool
  ch_skip :: bool
  ch_newdiskName :: string
  ch_iops :: int
  ch_throughput :: int
  ch_size :: int

text \<open>\<open>stamp\<close> is the present time as the code prints it; \<open>None\<close> is an error.\<close>

definition validateParams :: "string \<Rightarrow> cloud_properties \<Rightarrow> string \<Rightarrow> change_args \<Rightarrow> change_args option" where
  "validateParams os cp stamp c =
     (if os = ''windows'' then None
      else if ch_sid c = [] \<or> ch_disk c = [] \<or> ch_diskZone c = [] then None
      else if ch_newdiskName c = [] then None
      else if length (ch_newdiskName c) > 63 then None
      else Some (c\<lparr>
        ch_project := (if ch_project c = [] then ProjectId cp else ch_project c),
        ch_snapshotName := (if ch_snapshotName c = [] then ''snapshot-'' @ ch_disk c @ ''-'' @ stamp
                            else ch_snapshotName c),
        ch_description := (if ch_description c = []
          then ''HANAChangeDiskType workflow created by Agent for SAP for HANA sid: '' @ quote (ch_sid c)
          else ch_description c),
        ch_hanaSidAdm := (if ch_hanaSidAdm c = [] then toLower (ch_sid c) @ ''adm'' else ch_hanaSidAdm c)\<rparr>))"

text \<open>What the two commands are given; everything else has its zero value.\<close>

definition backupArgs :: "change_args \<Rightarrow> snapshot" where
  "backupArgs c = \<lparr>Project = ch_project c, Port = [], Sid = ch_sid c, HanaSidAdm = ch_hanaSidAdm c, InstanceID = [],
     HanaDBUser = [], Password = [], PasswordSecret = [], HDBUserstoreKey = [], Disk = ch_disk c, Disks = [],
     DiskZone = ch_diskZone c, DiskKeyFile = ch_diskKeyFile c, StorageLocation = ch_storageLocation c,
     SnapshotName = ch_snapshotName c, SnapshotType = ''STANDARD'', Description = ch_description c,
     AbandonPrepared = False, FreezeFileSystem = False, ConfirmDataSnapshotAfterCreate = False,
     SnapshotPrefix = [], GroupSnapshotName = [], disks = [],
     SkipDBSnapshotForChangeDiskType = ch_skip c, hanaDataPath = [], logicalDataPath = [],
     physicalDataPath = [], Labels = [], cgName = [], groupSnapshot = False, sidadmUser = False,
     provisionedIops = 0, provisionedThroughput = 0, UseSnapshotGroupWorkflow = False\<rparr>"

definition restoreArgs :: "change_args \<Rightarrow> restorer" where
  "restoreArgs c = \<lparr>r_Project = ch_project c, r_Sid = ch_sid c, r_HanaSidAdm = ch_hanaSidAdm c,
     DataDiskName = ch_disk c, DataDiskDeviceName = [], DataDiskZone = ch_diskZone c,
     SourceSnapshot = ch_snapshotName c, GroupSnapshot = [], NewDiskType = ch_newDiskType c, SourceDisks = [],
     r_disks = [], DataDiskVG = [], DataDiskLV = [], r_cgName = [],
     baseDataPath = [], r_logicalDataPath = [], r_physicalDataPath = [], physicalLogPath = [],
     labelsOnDetachedDisk = [], r_SkipDB = ch_skip c, ForceStopHANA = False, isGroupSnapshot = False,
     isScaleout = False, NewDiskName = ch_newdiskName c, NewDiskNames = [], NewDiskSuffix = [], CSEKKeyFile = [],
     r_Iops = ch_iops c, r_Throughput = ch_throughput c, DiskSizeGb = ch_size c, r_UseSG = False,
     snapshotItems = [], newAttachedDisks = [], TargetKMSKey = [], TargetKMSKeyring = [],
     TargetKMSLocation = [], TargetKMSProject = [], TargetKMSServiceAccount = []\<rparr>"

section \<open>The two commands in turn\<close>

definition inBackup :: "('b, 'a) state \<Rightarrow> ('b \<times> 'r, 'a) state" where
  "inBackup m = State (\<lambda>(b, r). case run_state m b of (a, b') \<Rightarrow> (a, (b', r)))"

definition inRestore :: "('r, 'a) state \<Rightarrow> ('b \<times> 'r, 'a) state" where
  "inRestore m = State (\<lambda>(b, r). case run_state m r of (a, r') \<Rightarrow> (a, (b, r')))"

text \<open>Only the validation reports an error of usage.\<close>

definition restoreStatus :: "(restore_error, unit) result \<Rightarrow> exit_status" where
  "restoreStatus x = (case x of Inr _ \<Rightarrow> ExitSuccess | Inl (RUsage _) \<Rightarrow> ExitUsageError | Inl _ \<Rightarrow> ExitFailure)"

record change_world =
  backup_world :: disk_world
  restore_world :: restore_world
  ch_os :: string
  ch_euid :: int
  ch_user :: "(string, string) result"
  ch_args :: "string list"
  ch_stamp :: string

text \<open>\<open>Execute\<close> of both commands refuses positional arguments, which are those of this command.\<close>

definition Execute_backup :: "change_world \<Rightarrow> cloud_properties \<Rightarrow> snapshot \<Rightarrow> (disk_call, exit_status) prog" where
  "Execute_backup w cp s =
     (if ch_args w \<noteq> [] then ret ExitUsageError
      else do {
        r \<leftarrow> Run_backup (backup_world w) (ch_os w) (ch_euid w) (ch_user w) cp s;
        ret (exitStatus r)
      })"

definition Execute_restore :: "change_world \<Rightarrow> cloud_properties \<Rightarrow> restorer \<Rightarrow> (restore_call, exit_status) prog" where
  "Execute_restore w cp r =
     (if ch_args w \<noteq> [] then ret ExitUsageError
      else do {
        x \<leftarrow> Run_restore (restore_world w) (ch_os w) (Some cp) r;
        ret (restoreStatus (fst x))
      })"

definition changeDiskTypeHandler ::
  "change_world \<Rightarrow> cloud_properties \<Rightarrow> change_args \<Rightarrow> (disk_call list \<times> restore_call list, exit_status) state" where
  "changeDiskTypeHandler w cp c = do {
     e \<leftarrow> inBackup (Execute_backup w cp (backupArgs c));
     if e \<noteq> ExitSuccess then ret e
     else inRestore (Execute_restore w cp (restoreArgs c))
   }"

definition changeDiskType ::
  "change_world \<Rightarrow> cloud_properties \<Rightarrow> change_args \<Rightarrow> (disk_call list \<times> restore_call list, exit_status) state" where
  "changeDiskType w cp c =
     (case validateParams (ch_os w) cp (ch_stamp w) c of
        None \<Rightarrow> ret ExitUsageError
      | Some c1 \<Rightarrow> changeDiskTypeHandler w cp c1)"

section \<open>Lemmas\<close>

lemma wp_inBackup: "wp (inBackup m) Q (b, r) = wp m (\<lambda>a b'. Q a (b', r)) b"
  by (simp add: wp_def inBackup_def split: prod.splits)

lemma wp_inRestore: "wp (inRestore m) Q (b, r) = wp m (\<lambda>a r'. Q a (b, r')) r"
  by (simp add: wp_def inRestore_def split: prod.splits)

primrec ranB :: "disk_world \<Rightarrow> (cmd \<Rightarrow> cmd_result \<Rightarrow> bool) \<Rightarrow> disk_call list \<Rightarrow> bool" where
  "ranB w P [] \<longleftrightarrow> False"
| "ranB w P (c # log) \<longleftrightarrow> (case c of Exec x \<Rightarrow> P x (exec_env w log c) | _ \<Rightarrow> False) \<or> ranB w P log"

primrec uploadedAs :: "disk_world \<Rightarrow> string \<Rightarrow> disk_call list \<Rightarrow> bool" where
  "uploadedAs w name [] \<longleftrightarrow> False"
| "uploadedAs w name (c # log) \<longleftrightarrow>
     (case c of WaitUploaded op n \<Rightarrow> n = name \<and> done_env w log c = None | _ \<Rightarrow> False) \<or> uploadedAs w name log"

interpretation ranB_first: precedence "ranB w P" for w P
  by unfold_locales simp

lemma WaitB_done:
  "wp (WaitForIndexServerToStopWithRetry user (exec w)) (\<lambda>e log'. e = None \<longrightarrow> ranB w (indexServerGone user) log') log"
  unfolding WaitForIndexServerToStopWithRetry_def
  by (rule retry_post) (simp add: waitForIndexServerToStop_def exec_def indexServerGone_def wp_rules)

lemma hanaErr_post:
  "wp m (\<lambda>e log'. e = None \<longrightarrow> Q log') log \<Longrightarrow> wp (hanaErr m) (\<lambda>x log'. \<forall>u. x = Inr u \<longrightarrow> Q log') log"
  unfolding hanaErr_def wp_bind by (erule wp_mono) (auto simp: wp_rules split: option.splits)

lemma prepareChange_gone:
  "wp (prepareForChangeDiskTypeWorkflow w s) (\<lambda>x log'. \<forall>u. x = Inr u \<longrightarrow> ranB w (indexServerGone (HanaSidAdm s)) log') log"
  unfolding prepareForChangeDiskTypeWorkflow_def
  by (rule bindE_wp [OF wp_triv], simp, rule hanaErr_post, rule WaitB_done)

lemma ranB_stays:
  "ranB w P log \<Longrightarrow> calls_only Q m \<Longrightarrow> wp m (\<lambda>_. ranB w P) log"
  by (rule wp_mono [OF calls_onlyD]) (auto intro: ranB_first.stable_append)

section \<open>The backup part\<close>

text \<open>The index server of \<open>user\<close> was seen to be gone and the upload of the snapshot has ended.\<close>

definition saved :: "disk_world \<Rightarrow> string \<Rightarrow> string \<Rightarrow> disk_call list \<Rightarrow> bool" where
  "saved w user name log \<longleftrightarrow> ranB w (indexServerGone user) log \<and> uploadedAs w name log"

lemma waitUploaded_post:
  "ranB w P log \<Longrightarrow> wp (perform w UploadFailed (WaitUploaded op n))
     (\<lambda>x log'. x = Inr () \<longrightarrow> ranB w P log' \<and> uploadedAs w n log') log"
  by (auto simp: perform_def wp_rules split: option.splits)

lemma changeWorkflow_saved:
  "wp (runWorkflowForChangeDiskType w cp s) (\<lambda>x log'. \<forall>u. x = Inr u \<longrightarrow> saved w (HanaSidAdm s) (SnapshotName s) log') log"
proof -
  have attached: "calls_only plain (isDiskAttachedToInstance w d)" for d by (rule plain_attached)
  have create: "calls_only (\<lambda>_. True) (createDiskSnapshot w s i)" for i
    by (intro createDiskSnapshot_calls) (auto simp: freezeIfAsked_def FreezeXFS_def intro!: calls_rules)
  have thaw: "calls_only (\<lambda>_. True) (unfreezeIfAsked w s)"
    by (auto simp: unfreezeIfAsked_def UnFreezeXFS_def intro!: calls_rules)
  show ?thesis
    unfolding runWorkflowForChangeDiskType_def saved_def
  proof (rule bindE_wp [OF prepareChange_gone], simp, rule bindE_wp [OF ranB_stays [OF _ attached]])
    fix u log1
    assume "\<forall>v. (Inr u :: (disk_error, unit) result) = Inr v \<longrightarrow> ranB w (indexServerGone (HanaSidAdm s)) log1"
    then show "ranB w (indexServerGone (HanaSidAdm s)) log1" by simp
  next
    fix u v :: unit and log1 log2
    assume g: "ranB w (indexServerGone (HanaSidAdm s)) log2"
    show "wp (State_Monad.bind (createDiskSnapshot w s (InstanceName cp)) (\<lambda>created.
        bindE (unfreezeIfAsked w s) (\<lambda>_. case created of
            Inl e \<Rightarrow> ret (Inl e) | Inr op \<Rightarrow> perform w UploadFailed (WaitUploaded op (SnapshotName s)))))
      (\<lambda>x log'. \<forall>u. x = Inr u \<longrightarrow> ranB w (indexServerGone (HanaSidAdm s)) log' \<and> uploadedAs w (SnapshotName s) log') log2"
      unfolding wp_bind
      by (rule wp_mono [OF ranB_stays [OF g create]], rule bindE_wp [OF ranB_stays [OF _ thaw]])
        (auto simp: wp_rules waitUploaded_post split: sum.splits)
  qed simp
qed

definition backupSaved :: "disk_world \<Rightarrow> string \<Rightarrow> string \<Rightarrow> outcome \<Rightarrow> disk_call list \<Rightarrow> bool" where
  "backupSaved w user name r log \<longleftrightarrow> (exitStatus r = ExitSuccess \<longrightarrow> saved w user name log)"

text \<open>The administrator that the backup derives from the system.\<close>

definition adminOf :: "string \<Rightarrow> string" where
  "adminOf sid = toLower (toUpper sid) @ ''adm''"

lemma snapshotHandler_saved:
  assumes "skipDB s" and "SnapshotName s \<noteq> []"
  shows "wp (snapshotHandler w cp s) (backupSaved w (HanaSidAdm s) (SnapshotName s)) log"
  unfolding snapshotHandler_def wp_bind
proof (rule wp_mono [OF wp_conj [OF prepareSnapshot_skip [unfolded keeps_def, rule_format]
      wp_conj [OF prepareSnapshot_name [OF assms(2), unfolded keeps_def, rule_format]
        prepareSnapshot_user [unfolded keeps_def, rule_format]]]])
  fix p :: "(disk_error, snapshot) result" and log1
  assume kept: "(\<forall>y. p = Inr y \<longrightarrow> skipDB y = skipDB s) \<and> (\<forall>y. p = Inr y \<longrightarrow> SnapshotName y = SnapshotName s) \<and>
    (\<forall>y. p = Inr y \<longrightarrow> HanaSidAdm y = HanaSidAdm s)"
  show "wp (case p of Inl e \<Rightarrow> ret (Failed ''preparation'' e)
      | Inr s1 \<Rightarrow> State_Monad.bind (runWorkflow w cp s1) (\<lambda>r. ret (case fst r of
          Inl e \<Rightarrow> Failed ''workflow'' e | Inr _ \<Rightarrow> Done (snapshotComment (snd r)))))
    (backupSaved w (HanaSidAdm s) (SnapshotName s)) log1"
  proof (cases p)
    case (Inr s1)
    with kept assms have s1: "skipDB s1" "SnapshotName s1 = SnapshotName s" "HanaSidAdm s1 = HanaSidAdm s" by auto
    show ?thesis
      unfolding Inr sum.case wp_bind runWorkflow_def using s1(1)
      by (simp add: wp_bind, intro wp_mono [OF changeWorkflow_saved])
        (auto simp: wp_return backupSaved_def exitStatus_def s1(2,3) split: sum.splits)
  qed (simp add: wp_return backupSaved_def exitStatus_def)
qed

lemma Run_backup_saved:
  assumes "skipDB s" and "SnapshotName s \<noteq> []"
  shows "wp (Run_backup w os euid user cp s) (backupSaved w (adminOf (Sid s)) (SnapshotName s)) log"
proof (cases "validateUser euid user (s\<lparr>Sid := toUpper (Sid s)\<rparr>)")
  case (Inl e)
  then show ?thesis using assms
    by (simp add: Run_backup_def SnapshotArgs.validateParameters_def wp_return backupSaved_def exitStatus_def)
next
  case (Inr s2)
  then have s2: "skipDB (chooseWorkflow w s2)" "SnapshotName (chooseWorkflow w s2) = SnapshotName s"
      "HanaSidAdm (chooseWorkflow w s2) = adminOf (Sid s)"
    using assms by (auto simp: validateUser_def chooseWorkflow_def adminOf_def Let_def split: if_splits sum.splits)
  have "wp (snapshotHandler w cp (chooseWorkflow w s2)) (backupSaved w (adminOf (Sid s)) (SnapshotName s)) log1" for log1
    using snapshotHandler_saved [OF s2(1), of w cp log1] s2(2,3) assms(2) by simp
  then show ?thesis using assms Inr
    by (auto simp: Run_backup_def SnapshotArgs.validateParameters_def perform_def wp_rules backupSaved_def exitStatus_def
        split: option.splits)
qed

section \<open>The restore part\<close>

definition target :: "restorer \<Rightarrow> bool \<times> bool \<times> string" where
  "target r = (r_SkipDB r, isGroupSnapshot r, NewDiskName r)"

lemma Run_restore_target:
  assumes "r_SkipDB r" and "\<not> isGroupSnapshot r"
  shows "keepsR target (Run_restore w os cp r) r"
proof -
  let ?r = "r\<lparr>r_UseSG := (compareVersions (ragentVersion w) ''3.10'' \<noteq> Inr True)\<rparr>"
  have rep: "keepsR target (replaceDisks w i r1) r1" if "target r1 = target r" for i r1
    unfolding replaceDisks_def using that assms
    by (intro keepsR_bind keepsR_thenR) (auto simp: target_def intro!: keepsR_reading diskRestore_keeps)
  have prep: "keepsR target (prepareFor w i r1) r1" if "target r1 = target r" for i r1
    using that assms by (auto simp: target_def prepareFor_def intro!: keepsR_reading)
  have check: "keepsR target (checkPreConditions w cp r1) r1" for r1
    by (rule keepsR_weaken [OF keeps_preConditions]) (simp add: corePart_def target_def)
  have "keepsR target (restoreHandler w os cp ?r) ?r"
    unfolding restoreHandler_def validateRestore_def using assms
    by simp (intro keepsR_thenR keepsR_reading check prep rep; simp add: target_def)
  then show ?thesis
    unfolding Run_restore_def by (rule keepsR_from) (simp add: target_def)
qed

text \<open>Whatever happens to the restore, nothing is detached before the data directory is unmounted, and
  the instance has the new disk or, after a failure, was given back the old one.\<close>

definition diskChanged ::
  "restore_world \<Rightarrow> string \<times> string \<Rightarrow> string \<Rightarrow> exit_status \<Rightarrow> restore_call list \<Rightarrow> bool" where
  "diskChanged w who disk st log \<longleftrightarrow>
     guarded (quiet w True who) isDetach log \<and> (st = ExitSuccess \<longrightarrow> placed w disk log)"

lemma Run_restore_changed:
  assumes "r_SkipDB r" and "\<not> isGroupSnapshot r"
  shows "wp (Run_restore w os cp r) (\<lambda>x. diskChanged w (systemNames r) (NewDiskName r) (restoreStatus (fst x))) []"
proof -
  let ?r = "r\<lparr>r_UseSG := (compareVersions (ragentVersion w) ''3.10'' \<noteq> Inr True)\<rparr>"
  have "wp (Run_restore w os cp r) (\<lambda>_. guarded (quiet w True (systemNames r)) isDetach) []"
    unfolding Run_restore_def using restoreHandler_quiet [of w os cp ?r] assms by (simp add: systemOf_def systemNames_def)
  moreover have "wp (Run_restore w os cp r) (settled w (length (newAttachedDisks ?r))) []"
    unfolding Run_restore_def by (rule restoreHandler_settled)
  moreover have "wp (Run_restore w os cp r) (\<lambda>x _. target (snd x) = target r) []"
    by (rule wp_kept [OF Run_restore_target [OF assms]])
  ultimately have "wp (Run_restore w os cp r) (\<lambda>x log'. guarded (quiet w True (systemNames r)) isDetach log' \<and>
      settled w (length (newAttachedDisks ?r)) x log' \<and> target (snd x) = target r) []"
    by (intro wp_conj)
  then show ?thesis
    by (rule wp_mono)
      (use assms in \<open>auto simp: diskChanged_def settled_def singleSettled_def target_def restoreStatus_def
        split: sum.splits restore_error.splits\<close>)
qed

section \<open>Properties\<close>

text \<open>The restore starts only after the backup saw HANA gone and its snapshot, the one to be restored,
  uploaded.\<close>

definition changeSafe ::
  "change_world \<Rightarrow> cloud_properties \<Rightarrow> change_args \<Rightarrow> exit_status \<Rightarrow> disk_call list \<times> restore_call list \<Rightarrow> bool" where
  "changeSafe w cp c st logs \<longleftrightarrow>
     (case validateParams (ch_os w) cp (ch_stamp w) c of
        None \<Rightarrow> st = ExitUsageError \<and> logs = ([], [])
      | Some c1 \<Rightarrow>
          (snd logs \<noteq> [] \<longrightarrow> saved (backup_world w) (adminOf (ch_sid c)) (SourceSnapshot (restoreArgs c1)) (fst logs)) \<and>
          diskChanged (restore_world w) (ch_sid c, ch_hanaSidAdm c1) (ch_newdiskName c) st (snd logs))"

lemma validateParams_name: "validateParams os cp stamp c = Some c1 \<Longrightarrow>
   ch_snapshotName c1 \<noteq> [] \<and> ch_skip c1 = ch_skip c \<and> ch_newdiskName c1 = ch_newdiskName c \<and> ch_sid c1 = ch_sid c"
  by (auto simp: validateParams_def split: if_splits)

text \<open>A user of HANA or a key of its user store cannot be given.\<close>

lemma backup_refused:
  assumes "\<not> ch_skip c"
  shows "Execute_backup w cp (backupArgs c) = ret ExitUsageError"
  using assms
  by (simp add: Execute_backup_def Run_backup_def SnapshotArgs.validateParameters_def backupArgs_def exitStatus_def Let_def)

lemma handler_safe:
  assumes n: "ch_snapshotName c \<noteq> []"
  shows "wp (changeDiskTypeHandler w cp c) (\<lambda>st logs.
    (snd logs \<noteq> [] \<longrightarrow> saved (backup_world w) (adminOf (ch_sid c)) (ch_snapshotName c) (fst logs)) \<and>
    diskChanged (restore_world w) (ch_sid c, ch_hanaSidAdm c) (ch_newdiskName c) st (snd logs)) ([], [])"
proof (cases "ch_skip c")
  case True
  have backup: "wp (Execute_backup w cp (backupArgs c))
      (\<lambda>st log. st = ExitSuccess \<longrightarrow> saved (backup_world w) (adminOf (ch_sid c)) (ch_snapshotName c) log) []"
  proof -
    have "wp (Run_backup (backup_world w) (ch_os w) (ch_euid w) (ch_user w) cp (backupArgs c))
        (backupSaved (backup_world w) (adminOf (ch_sid c)) (ch_snapshotName c)) []"
      using Run_backup_saved [of "backupArgs c"] n True by (simp add: backupArgs_def)
    then show ?thesis
      unfolding Execute_backup_def by (auto simp: wp_rules backupSaved_def elim!: wp_mono)
  qed
  have restore: "wp (Execute_restore w cp (restoreArgs c)) (diskChanged (restore_world w) (ch_sid c, ch_hanaSidAdm c) (ch_newdiskName c)) []"
  proof -
    have "wp (Run_restore (restore_world w) (ch_os w) (Some cp) (restoreArgs c))
        (\<lambda>x. diskChanged (restore_world w) (ch_sid c, ch_hanaSidAdm c) (ch_newdiskName c) (restoreStatus (fst x))) []"
      using Run_restore_changed [of "restoreArgs c"] True by (simp add: restoreArgs_def systemNames_def)
    then show ?thesis
      unfolding Execute_restore_def by (simp add: wp_rules diskChanged_def [of _ _ _ _ "[]"])
  qed
  show ?thesis
    unfolding changeDiskTypeHandler_def wp_bind wp_inBackup
    by (rule wp_mono [OF backup]) (auto simp: wp_rules wp_inRestore diskChanged_def [of _ _ _ _ "[]"] intro: wp_mono [OF restore])
next
  case False
  have "run_state (Execute_backup w cp (backupArgs c)) [] = (ExitUsageError, [])"
    by (simp add: backup_refused [OF False])
  then show ?thesis
    unfolding changeDiskTypeHandler_def wp_bind wp_inBackup
    by (simp add: wp_def diskChanged_def)
qed

text \<open>C4. \<open>hanachangedisktype\<close> starts to restore only after the index server of the system's administrator was seen
  to be gone and the very snapshot it restores was uploaded; it detaches nothing before the file system of the directory
  that the system's configuration names for its data volumes is unmounted, and reports success only with the new disk in
  place. This holds for every answer of the services that the backup and the restore use.\<close>

theorem change_disk_type_safe:
  "wp (changeDiskType w cp c) (changeSafe w cp c) ([], [])"
proof (cases "validateParams (ch_os w) cp (ch_stamp w) c")
  case None
  then show ?thesis by (simp add: changeDiskType_def changeSafe_def wp_return)
next
  case (Some c1)
  note n = validateParams_name [OF Some]
  show ?thesis
    unfolding changeDiskType_def Some option.case
    by (rule wp_mono [OF handler_safe]) (simp_all add: n changeSafe_def Some restoreArgs_def)
qed

text \<open>Without \<open>-skip-db-snapshot-for-change-disk-type\<close> the command cannot succeed: it has no way to pass
  a database user or a key of the user store to the backup, so every run ends with an error of usage
  before any service is called.\<close>

theorem change_disk_type_needs_skip:
  "ch_skip c \<or> run_state (changeDiskType w cp c) logs = (ExitUsageError, logs)"
proof (cases "ch_skip c")
  case False
  obtain b r where logs: "logs = (b, r)" by (cases logs)
  have "run_state (changeDiskTypeHandler w cp c1) logs = (ExitUsageError, logs)" if "\<not> ch_skip c1" for c1
    by (simp add: logs changeDiskTypeHandler_def inBackup_def backup_refused [OF that])
  then show ?thesis
    using False by (auto simp: changeDiskType_def dest: validateParams_name split: option.splits)
qed simp

text \<open>A forced stop is asked for in vain: both commands stop HANA as if it had not been.\<close>

lemma force_stop_ignored:
  "backupArgs (c\<lparr>ch_forceStopHANA := b\<rparr>) = backupArgs c" "restoreArgs (c\<lparr>ch_forceStopHANA := b\<rparr>) = restoreArgs c"
  by (simp_all add: backupArgs_def restoreArgs_def)

end
