(* ===== verification/CollectionDefinition.thy ===== *)
theory CollectionDefinition
  imports GoStrings "HOL-Library.Multiset"
begin

text \<open>
  The definition of the workload metrics to collect (\<open>internal/collectiondefinition\<close>): merging the
  definition of the agent with the local one, leaving out the metrics that need a newer agent, and
  validating the result. Messages are records, a pointer to a message an option, a repeated field
  a list. An enumeration of the metrics is a number, 0 where it is unspecified. The evaluation rules
  and the vendors of operating systems are declared outside the repository; only what the code reads
  of them is modelled.
\<close>

section \<open>Metrics\<close>

datatype os_vendor = OSVendor_UNSPECIFIED | OSVendor_ALL | Vendor int

record metric_info =
  mi_type :: string
  mi_label :: string
  min_version :: string

datatype eval_result = ValueFromLiteral string | ValueFromRegex string | NoValue

record eval_metric_rule =
  EvalRules :: "string list"
  IfTrue :: "eval_result option"
  IfFalse :: "eval_result option"

datatype evaluation = AndEval eval_metric_rule | OrEval "eval_metric_rule list" | NoEval

record metric =
  MetricInfo :: metric_info

record value_metric = metric +
  mValue :: int

record eval_metric = metric +
  Evaluation :: evaluation

record os_command_metric = eval_metric +
  OsVendor :: os_vendor
  OsCommand :: string

text \<open>\<open>osVendor\<close> looks at the type of the message; it is one function per type here.\<close>

definition osVendor :: "os_command_metric \<Rightarrow> os_vendor" where
  "osVendor m = (if OsVendor m = OSVendor_UNSPECIFIED then OSVendor_ALL else OsVendor m)"

definition noVendor :: "'a metric_scheme \<Rightarrow> os_vendor" where
  "noVendor m = OSVendor_ALL"

section \<open>The definition\<close>

record validation_system =
  SystemMetrics :: "value_metric list"
  sys_OsCommandMetrics :: "os_command_metric list"

record validation_corosync =
  ConfigPath :: string
  co_ConfigMetrics :: "eval_metric list"
  co_OsCommandMetrics :: "os_command_metric list"

record disk_volume_metric =
  BasepathVolume :: string
  VolumeMetrics :: "value_metric list"
  MetricSource :: int

record validation_hana =
  GlobalIniMetrics :: "eval_metric list"
  HanaDiskVolumeMetrics :: "disk_volume_metric list"
  ha_OsCommandMetrics :: "os_command_metric list"
  HaMetrics :: "value_metric list"
  IndexserverIniMetrics :: "eval_metric list"
  HanaBackupMetrics :: "value_metric list"
  DrMetrics :: "value_metric list"
  TraceMetrics :: "value_metric list"

record validation_netweaver =
  nw_OsCommandMetrics :: "os_command_metric list"

record pacemaker_config_metrics =
  PrimitiveMetrics :: "value_metric list"
  RscLocationMetrics :: "value_metric list"
  RscOptionMetrics :: "value_metric list"
  HanaOperationMetrics :: "value_metric list"
  FenceAgentMetrics :: "value_metric list"
  AscsMetrics :: "value_metric list"
  OpOptionMetrics :: "value_metric list"

record validation_pacemaker =
  pm_ConfigMetrics :: "pacemaker_config_metrics option"
  CibBootstrapOptionMetrics :: "value_metric list"
  pm_OsCommandMetrics :: "os_command_metric list"

record validation_custom =
  cu_OsCommandMetrics :: "os_command_metric list"

record workload_validation =
  ValidationSystem :: "validation_system option"
  ValidationCorosync :: "validation_corosync option"
  ValidationHana :: "validation_hana option"
  ValidationNetweaver :: "validation_netweaver option"
  ValidationPacemaker :: "validation_pacemaker option"
  ValidationCustom :: "validation_custom option"
  wlm_Version :: int

record collection_definition =
  WorkloadValidation :: "workload_validation option"

text \<open>The getter of a repeated field: a nil message has no elements.\<close>

definition getList :: "('s \<Rightarrow> 'a list) \<Rightarrow> 's option \<Rightarrow> 'a list" where
  "getList f s = (case s of None \<Rightarrow> [] | Some x \<Rightarrow> f x)"

definition getPart :: "('s \<Rightarrow> 'a option) \<Rightarrow> 's option \<Rightarrow> 'a option" where
  "getPart f s = (case s of None \<Rightarrow> None | Some x \<Rightarrow> f x)"

lemma getList_simps [simp]: "getList f None = []" "getList f (Some s) = f s"
  by (simp_all add: getList_def)

lemma getPart_simps [simp]: "getPart f None = None" "getPart f (Some s) = f s"
  by (simp_all add: getPart_def)

section \<open>Versions\<close>

definition isVersion :: "string \<Rightarrow> bool" where
  "isVersion s = (let ps = splitOn CHR ''.'' s
                  in length ps \<in> {2, 3} \<and> list_all (\<lambda>p. p \<noteq> [] \<and> list_all isDigit p) ps)"

text \<open>The value of \<open>strconv.Atoi\<close> when its error is ignored: out of range it is the nearest bound.\<close>

definition atoi :: "string \<Rightarrow> int" where
  "atoi s =
     (let (neg, ds) = (case s of
          [] \<Rightarrow> (False, s)
        | c # r \<Rightarrow> (if c = CHR ''-'' then (True, r) else if c = CHR ''+'' then (False, r) else (False, s)))
      in case parseNat ds of
           None \<Rightarrow> 0
         | Some n \<Rightarrow> (if neg then max int64Min (- int n) else min int64Max (int n)))"

definition padTo :: "nat \<Rightarrow> string list \<Rightarrow> string list" where
  "padTo n xs = xs @ replicate (n - length xs) ''0''"

fun compareParts :: "string list \<Rightarrow> string list \<Rightarrow> int" where
  "compareParts (a # as) (b # bs) =
     (if atoi a < atoi b then - 1 else if atoi a > atoi b then 1 else compareParts as bs)"
| "compareParts _ _ = 0"

definition compareVersions :: "string \<Rightarrow> string \<Rightarrow> int" where
  "compareVersions a b =
     (let as = splitOn CHR ''.'' a; bs = splitOn CHR ''.'' b
      in compareParts (padTo (length bs) as) (padTo (length as) bs))"

definition isValidVersion :: "string \<Rightarrow> 'a metric_scheme \<Rightarrow> bool" where
  "isValidVersion AgentVersion m =
     (let v = min_version (MetricInfo m)
      in if v = [] then True
         else if \<not> isVersion v then False
         else if compareVersions v AgentVersion = 1 then False
         else True)"

definition filterBadVersionMetrics :: "string \<Rightarrow> 'a metric_scheme list \<Rightarrow> 'a metric_scheme list" where
  "filterBadVersionMetrics AgentVersion ms = filter (isValidVersion AgentVersion) ms"

section \<open>Merging\<close>

text \<open>A map from the key of a metric to the vendors that use it.\<close>

type_synonym metrics_map = "string \<rightharpoonup> os_vendor set"

definition metricKey :: "metric_info \<Rightarrow> string" where
  "metricKey i = mi_type i @ '':'' @ mi_label i"

definition mapper :: "metric_info \<Rightarrow> os_vendor \<Rightarrow> metrics_map \<Rightarrow> metrics_map" where
  "mapper i v metrics =
     metrics(metricKey i \<mapsto> insert v (case metrics (metricKey i) of None \<Rightarrow> {} | Some vs \<Rightarrow> vs))"

definition iterator :: "('a metric_scheme \<Rightarrow> os_vendor) \<Rightarrow> 'a metric_scheme list \<Rightarrow> metrics_map \<Rightarrow> metrics_map" where
  "iterator vendor ms metrics = fold (\<lambda>m. mapper (MetricInfo m) (vendor m)) ms metrics"

definition mapWorkloadValidationMetrics :: "workload_validation option \<Rightarrow> metrics_map" where
  "mapWorkloadValidationMetrics wlm =
     (let system = getPart ValidationSystem wlm;
          corosync = getPart ValidationCorosync wlm;
          hana = getPart ValidationHana wlm;
          netweaver = getPart ValidationNetweaver wlm;
          pacemaker = getPart ValidationPacemaker wlm;
          config = getPart pm_ConfigMetrics pacemaker;
          custom = getPart ValidationCustom wlm
      in fold (\<lambda>f. f)
         [iterator noVendor (getList SystemMetrics system),
          iterator osVendor (getList sys_OsCommandMetrics system),
          iterator noVendor (getList co_ConfigMetrics corosync),
          iterator osVendor (getList co_OsCommandMetrics corosync),
          iterator noVendor (getList GlobalIniMetrics hana),
          iterator noVendor (getList IndexserverIniMetrics hana),
          fold (\<lambda>d. iterator noVendor (VolumeMetrics d)) (getList HanaDiskVolumeMetrics hana),
          iterator noVendor (getList HaMetrics hana),
          iterator noVendor (getList DrMetrics hana),
          iterator noVendor (getList HanaBackupMetrics hana),
          iterator noVendor (getList TraceMetrics hana),
          iterator osVendor (getList ha_OsCommandMetrics hana),
          iterator osVendor (getList nw_OsCommandMetrics netweaver),
          iterator noVendor (getList PrimitiveMetrics config),
          iterator noVendor (getList RscLocationMetrics config),
          iterator noVendor (getList RscOptionMetrics config),
          iterator noVendor (getList HanaOperationMetrics config),
          iterator noVendor (getList FenceAgentMetrics config),
          iterator noVendor (getList AscsMetrics config),
          iterator noVendor (getList CibBootstrapOptionMetrics pacemaker),
          iterator osVendor (getList pm_OsCommandMetrics pacemaker),
          iterator noVendor (getList OpOptionMetrics config),
          iterator osVendor (getList cu_OsCommandMetrics custom)]
         Map.empty)"

definition shouldMerge :: "('a metric_scheme \<Rightarrow> os_vendor) \<Rightarrow> metrics_map \<Rightarrow> 'a metric_scheme \<Rightarrow> bool" where
  "shouldMerge vendor existing m =
     (case existing (metricKey (MetricInfo m)) of
        None \<Rightarrow> True
      | Some vendors \<Rightarrow> \<not> (vendor m \<in> vendors \<or> OSVendor_ALL \<in> vendors \<or> vendor m = OSVendor_ALL))"

text \<open>
  Each section of the primary definition is cloned and the metrics to merge are appended to it. A
  clone of a nil section is nil, and appending to it is a nil dereference: \<open>None\<close> is that panic.
\<close>

definition appendTo :: "('s \<Rightarrow> 's) \<Rightarrow> bool \<Rightarrow> 's option \<Rightarrow> 's option option" where
  "appendTo f nothing merged =
     (case merged of None \<Rightarrow> (if nothing then Some None else None) | Some s \<Rightarrow> Some (Some (f s)))"

definition added :: "('a metric_scheme \<Rightarrow> os_vendor) \<Rightarrow> metrics_map \<Rightarrow> ('s \<Rightarrow> 'a metric_scheme list) \<Rightarrow>
    's option \<Rightarrow> 'a metric_scheme list" where
  "added vendor existing f secondary = filter (shouldMerge vendor existing) (getList f secondary)"

definition mergeSystemValidations ::
  "validation_system option \<Rightarrow> validation_system option \<Rightarrow> metrics_map \<Rightarrow> validation_system option option" where
  "mergeSystemValidations primary secondary existing =
     (let os = added osVendor existing sys_OsCommandMetrics secondary
      in appendTo (sys_OsCommandMetrics_update (\<lambda>ms. ms @ os)) (os = []) primary)"

definition mergeCorosyncValidations ::
  "validation_corosync option \<Rightarrow> validation_corosync option \<Rightarrow> metrics_map \<Rightarrow> validation_corosync option option" where
  "mergeCorosyncValidations primary secondary existing =
     (let config = added noVendor existing co_ConfigMetrics secondary;
          os = added osVendor existing co_OsCommandMetrics secondary
      in appendTo (\<lambda>s. co_OsCommandMetrics_update (\<lambda>ms. ms @ os) (co_ConfigMetrics_update (\<lambda>ms. ms @ config) s))
           (config = [] \<and> os = []) primary)"

definition mergeHanaValidations ::
  "validation_hana option \<Rightarrow> validation_hana option \<Rightarrow> metrics_map \<Rightarrow> validation_hana option option" where
  "mergeHanaValidations primary secondary existing =
     (let global = added noVendor existing GlobalIniMetrics secondary;
          index = added noVendor existing IndexserverIniMetrics secondary;
          os = added osVendor existing ha_OsCommandMetrics secondary
      in appendTo (\<lambda>s. ha_OsCommandMetrics_update (\<lambda>ms. ms @ os)
             (IndexserverIniMetrics_update (\<lambda>ms. ms @ index) (GlobalIniMetrics_update (\<lambda>ms. ms @ global) s)))
           (global = [] \<and> index = [] \<and> os = []) primary)"

definition mergeNetweaverValidations ::
  "validation_netweaver option \<Rightarrow> validation_netweaver option \<Rightarrow> metrics_map \<Rightarrow> validation_netweaver option option" where
  "mergeNetweaverValidations primary secondary existing =
     (let os = added osVendor existing nw_OsCommandMetrics secondary
      in appendTo (nw_OsCommandMetrics_update (\<lambda>ms. ms @ os)) (os = []) primary)"

definition mergePacemakerValidations ::
  "validation_pacemaker option \<Rightarrow> validation_pacemaker option \<Rightarrow> metrics_map \<Rightarrow> validation_pacemaker option option" where
  "mergePacemakerValidations primary secondary existing =
     (let os = added osVendor existing pm_OsCommandMetrics secondary
      in appendTo (pm_OsCommandMetrics_update (\<lambda>ms. ms @ os)) (os = []) primary)"

definition mergeCustomValidations ::
  "validation_custom option \<Rightarrow> validation_custom option \<Rightarrow> metrics_map \<Rightarrow> validation_custom option option" where
  "mergeCustomValidations primary secondary existing =
     (let os = added osVendor existing cu_OsCommandMetrics secondary
      in appendTo (cu_OsCommandMetrics_update (\<lambda>ms. ms @ os)) (os = []) primary)"

definition mergeWorkloadValidations ::
  "workload_validation option \<Rightarrow> workload_validation option \<Rightarrow> workload_validation option" where
  "mergeWorkloadValidations primary secondary =
     (let existing = mapWorkloadValidationMetrics primary
      in case (mergeSystemValidations (getPart ValidationSystem primary) (getPart ValidationSystem secondary) existing,
               mergeCorosyncValidations (getPart ValidationCorosync primary) (getPart ValidationCorosync secondary) existing,
               mergeHanaValidations (getPart ValidationHana primary) (getPart ValidationHana secondary) existing,
               mergeNetweaverValidations (getPart ValidationNetweaver primary) (getPart ValidationNetweaver secondary) existing,
               mergePacemakerValidations (getPart ValidationPacemaker primary) (getPart ValidationPacemaker secondary) existing,
               mergeCustomValidations (getPart ValidationCustom primary) (getPart ValidationCustom secondary) existing) of
           (Some system, Some corosync, Some hana, Some netweaver, Some pacemaker, Some custom) \<Rightarrow>
             Some \<lparr>ValidationSystem = system, ValidationCorosync = corosync, ValidationHana = hana,
               ValidationNetweaver = netweaver, ValidationPacemaker = pacemaker, ValidationCustom = custom,
               wlm_Version = (case primary of None \<Rightarrow> 0 | Some p \<Rightarrow> wlm_Version p)\<rparr>
         | _ \<Rightarrow> None)"

text \<open>\<open>v\<close> is the version of the agent.\<close>

definition filterSystem :: "string \<Rightarrow> validation_system \<Rightarrow> validation_system" where
  "filterSystem v s = s\<lparr>sys_OsCommandMetrics := filterBadVersionMetrics v (sys_OsCommandMetrics s),
     SystemMetrics := filterBadVersionMetrics v (SystemMetrics s)\<rparr>"

definition filterCorosync :: "string \<Rightarrow> validation_corosync \<Rightarrow> validation_corosync" where
  "filterCorosync v s = s\<lparr>co_OsCommandMetrics := filterBadVersionMetrics v (co_OsCommandMetrics s),
     co_ConfigMetrics := filterBadVersionMetrics v (co_ConfigMetrics s)\<rparr>"

definition filterHana :: "string \<Rightarrow> validation_hana \<Rightarrow> validation_hana" where
  "filterHana v s = s\<lparr>
     ha_OsCommandMetrics := filterBadVersionMetrics v (ha_OsCommandMetrics s),
     GlobalIniMetrics := filterBadVersionMetrics v (GlobalIniMetrics s),
     IndexserverIniMetrics := filterBadVersionMetrics v (IndexserverIniMetrics s),
     HaMetrics := filterBadVersionMetrics v (HaMetrics s),
     DrMetrics := filterBadVersionMetrics v (DrMetrics s),
     TraceMetrics := filterBadVersionMetrics v (TraceMetrics s),
     HanaDiskVolumeMetrics := map (\<lambda>d. d\<lparr>VolumeMetrics := filterBadVersionMetrics v (VolumeMetrics d)\<rparr>) (HanaDiskVolumeMetrics s),
     HanaBackupMetrics := filterBadVersionMetrics v (HanaBackupMetrics s)\<rparr>"

definition filterNetweaver :: "string \<Rightarrow> validation_netweaver \<Rightarrow> validation_netweaver" where
  "filterNetweaver v s = s\<lparr>nw_OsCommandMetrics := filterBadVersionMetrics v (nw_OsCommandMetrics s)\<rparr>"

definition filterPacemakerConfig :: "string \<Rightarrow> pacemaker_config_metrics \<Rightarrow> pacemaker_config_metrics" where
  "filterPacemakerConfig v c = c\<lparr>
     PrimitiveMetrics := filterBadVersionMetrics v (PrimitiveMetrics c),
     RscLocationMetrics := filterBadVersionMetrics v (RscLocationMetrics c),
     RscOptionMetrics := filterBadVersionMetrics v (RscOptionMetrics c),
     HanaOperationMetrics := filterBadVersionMetrics v (HanaOperationMetrics c),
     FenceAgentMetrics := filterBadVersionMetrics v (FenceAgentMetrics c),
     AscsMetrics := filterBadVersionMetrics v (AscsMetrics c),
     OpOptionMetrics := filterBadVersionMetrics v (OpOptionMetrics c)\<rparr>"

definition filterPacemaker :: "string \<Rightarrow> validation_pacemaker \<Rightarrow> validation_pacemaker" where
  "filterPacemaker v s = s\<lparr>
     pm_OsCommandMetrics := filterBadVersionMetrics v (pm_OsCommandMetrics s),
     CibBootstrapOptionMetrics := filterBadVersionMetrics v (CibBootstrapOptionMetrics s),
     pm_ConfigMetrics := map_option (filterPacemakerConfig v) (pm_ConfigMetrics s)\<rparr>"

definition filterCustom :: "string \<Rightarrow> validation_custom \<Rightarrow> validation_custom" where
  "filterCustom v s = s\<lparr>cu_OsCommandMetrics := filterBadVersionMetrics v (cu_OsCommandMetrics s)\<rparr>"

definition filterMetrics :: "string \<Rightarrow> collection_definition \<Rightarrow> collection_definition" where
  "filterMetrics v cd =
     (case WorkloadValidation cd of
        None \<Rightarrow> cd
      | Some w \<Rightarrow> cd\<lparr>WorkloadValidation := Some (w\<lparr>
          ValidationSystem := map_option (filterSystem v) (ValidationSystem w),
          ValidationCorosync := map_option (filterCorosync v) (ValidationCorosync w),
          ValidationHana := map_option (filterHana v) (ValidationHana w),
          ValidationNetweaver := map_option (filterNetweaver v) (ValidationNetweaver w),
          ValidationPacemaker := map_option (filterPacemaker v) (ValidationPacemaker w),
          ValidationCustom := map_option (filterCustom v) (ValidationCustom w)\<rparr>)\<rparr>)"

definition Merge :: "string \<Rightarrow> collection_definition option \<Rightarrow> collection_definition option \<Rightarrow> collection_definition option" where
  "Merge v primary secondary =
     (case mergeWorkloadValidations (getPart WorkloadValidation primary) (getPart WorkloadValidation secondary) of
        None \<Rightarrow> None
      | Some w \<Rightarrow> Some (filterMetrics v \<lparr>WorkloadValidation = Some w\<rparr>))"

section \<open>Validation\<close>

record validator =
  v_agentVersion :: string
  failureCount :: nat
  v_valid :: bool
  workloadValidationMetrics :: metrics_map

definition NewValidator :: "string \<Rightarrow> validator" where
  "NewValidator version = \<lparr>v_agentVersion = version, failureCount = 0, v_valid = False,
     workloadValidationMetrics = Map.empty\<rparr>"

definition validationFailure :: "validator \<Rightarrow> validator" where
  "validationFailure v = v\<lparr>failureCount := failureCount v + 1, v_valid := False\<rparr>"

definition validateVersion :: "metric_info \<Rightarrow> validator \<Rightarrow> validator" where
  "validateVersion i v =
     (if min_version i \<noteq> [] then
        if \<not> isVersion (min_version i) then validationFailure v
        else if compareVersions (min_version i) (v_agentVersion v) = 1 then validationFailure v
        else v
      else v)"

definition validateUnique :: "metric_info \<Rightarrow> os_vendor \<Rightarrow> validator \<Rightarrow> validator" where
  "validateUnique i vendor v =
     (let k = metricKey i; ms = workloadValidationMetrics v
      in case ms k of
           Some vendors \<Rightarrow>
             (let v1 = (if vendor \<in> vendors \<or> OSVendor_ALL \<in> vendors \<or> vendor = OSVendor_ALL
                        then validationFailure v else v)
              in v1\<lparr>workloadValidationMetrics := ms(k \<mapsto> insert vendor vendors)\<rparr>)
         | None \<Rightarrow> v\<lparr>workloadValidationMetrics := ms(k \<mapsto> {vendor})\<rparr>)"

definition validateInfo :: "metric_info \<Rightarrow> os_vendor \<Rightarrow> validator \<Rightarrow> validator" where
  "validateInfo i vendor v =
     (let v1 = validateVersion i v;
          v2 = (if mi_type i = [] then validationFailure v1 else v1);
          v3 = (if mi_label i = [] then validationFailure v2 else v2)
      in if mi_type i = [] \<or> mi_label i = [] then v3 else validateUnique i vendor v3)"

definition validateMetricInfo :: "('a metric_scheme \<Rightarrow> os_vendor) \<Rightarrow> 'a metric_scheme \<Rightarrow> validator \<Rightarrow> validator" where
  "validateMetricInfo vendor m = validateInfo (MetricInfo m) (vendor m)"

text \<open>\<open>GetValueFromRegex\<close>; \<open>compiles\<close> is whether \<open>regexp.Compile\<close> accepts a pattern.\<close>

definition valueFromRegex :: "eval_result option \<Rightarrow> string" where
  "valueFromRegex r = (case r of Some (ValueFromRegex s) \<Rightarrow> s | _ \<Rightarrow> [])"

definition failIf :: "bool \<Rightarrow> validator \<Rightarrow> validator" where
  "failIf b v = (if b then validationFailure v else v)"

definition validateEvalMetricRule :: "(string \<Rightarrow> bool) \<Rightarrow> eval_metric_rule \<Rightarrow> validator \<Rightarrow> validator" where
  "validateEvalMetricRule compiles e v =
     (let v1 = failIf (length (EvalRules e) = 0) v;
          v2 = failIf (IfTrue e = None) v1;
          regexIfTrue = valueFromRegex (IfTrue e);
          v3 = failIf (regexIfTrue \<noteq> [] \<and> \<not> compiles regexIfTrue) v2;
          regexIfFalse = valueFromRegex (IfFalse e)
      in failIf (regexIfFalse \<noteq> [] \<and> \<not> compiles regexIfFalse) v3)"

definition validateMetricEvaluation :: "(string \<Rightarrow> bool) \<Rightarrow> 'a eval_metric_scheme \<Rightarrow> validator \<Rightarrow> validator" where
  "validateMetricEvaluation compiles m v =
     (case Evaluation m of
        AndEval e \<Rightarrow> validateEvalMetricRule compiles e v
      | OrEval es \<Rightarrow> fold (validateEvalMetricRule compiles) es v
      | NoEval \<Rightarrow> validationFailure v)"

definition validateEvalMetrics :: "(string \<Rightarrow> bool) \<Rightarrow> eval_metric list \<Rightarrow> validator \<Rightarrow> validator" where
  "validateEvalMetrics compiles ms v =
     fold (\<lambda>m v. validateMetricEvaluation compiles m (validateMetricInfo noVendor m v)) ms v"

definition validateOSCommandMetrics :: "(string \<Rightarrow> bool) \<Rightarrow> os_command_metric list \<Rightarrow> validator \<Rightarrow> validator" where
  "validateOSCommandMetrics compiles ms v =
     fold (\<lambda>m v. validateMetricEvaluation compiles m
        (failIf (OsCommand m = []) (validateMetricInfo osVendor m v))) ms v"

text \<open>The loops over the metrics with a value, which differ in the type of the value only.\<close>

definition validateValues :: "value_metric list \<Rightarrow> validator \<Rightarrow> validator" where
  "validateValues ms v = fold (\<lambda>m v. failIf (mValue m = 0) (validateMetricInfo noVendor m v)) ms v"

definition validatePacemakerConfigMetrics :: "pacemaker_config_metrics option \<Rightarrow> validator \<Rightarrow> validator" where
  "validatePacemakerConfigMetrics config v =
     fold (\<lambda>f. f)
       [validateValues (getList PrimitiveMetrics config),
        validateValues (getList RscLocationMetrics config),
        validateValues (getList RscOptionMetrics config),
        validateValues (getList HanaOperationMetrics config),
        validateValues (getList FenceAgentMetrics config),
        validateValues (getList AscsMetrics config),
        validateValues (getList OpOptionMetrics config)] v"

definition validateWorkloadValidation :: "(string \<Rightarrow> bool) \<Rightarrow> workload_validation \<Rightarrow> validator \<Rightarrow> validator" where
  "validateWorkloadValidation compiles wlm v =
     (let system = ValidationSystem wlm;
          corosync = ValidationCorosync wlm;
          hana = ValidationHana wlm;
          netweaver = ValidationNetweaver wlm;
          pacemaker = ValidationPacemaker wlm;
          custom = ValidationCustom wlm
      in fold (\<lambda>f. f)
         [validateValues (getList SystemMetrics system),
          validateOSCommandMetrics compiles (getList sys_OsCommandMetrics system),
          validateEvalMetrics compiles (getList co_ConfigMetrics corosync),
          validateOSCommandMetrics compiles (getList co_OsCommandMetrics corosync),
          validateEvalMetrics compiles (getList GlobalIniMetrics hana),
          fold (\<lambda>d. validateValues (VolumeMetrics d)) (getList HanaDiskVolumeMetrics hana),
          validateValues (getList HanaBackupMetrics hana),
          validateValues (getList HaMetrics hana),
          validateValues (getList DrMetrics hana),
          validateValues (getList TraceMetrics hana),
          validateOSCommandMetrics compiles (getList ha_OsCommandMetrics hana),
          validateOSCommandMetrics compiles (getList nw_OsCommandMetrics netweaver),
          validatePacemakerConfigMetrics (getPart pm_ConfigMetrics pacemaker),
          validateValues (getList CibBootstrapOptionMetrics pacemaker),
          validateOSCommandMetrics compiles (getList pm_OsCommandMetrics pacemaker),
          validateOSCommandMetrics compiles (getList cu_OsCommandMetrics custom)] v)"

definition Validate :: "(string \<Rightarrow> bool) \<Rightarrow> collection_definition option \<Rightarrow> validator \<Rightarrow> validator" where
  "Validate compiles cd v =
     (let v1 = v\<lparr>v_valid := True, failureCount := 0, workloadValidationMetrics := Map.empty\<rparr>
      in case getPart WorkloadValidation cd of
           None \<Rightarrow> v1
         | Some w \<Rightarrow> validateWorkloadValidation compiles w v1)"

end
