(* ===== verification/CollectionValid.thy ===== *)
theory CollectionValid
  imports CollectionDefinition
begin

text \<open>
  What the validator accepts, stated without its state, and what merging does to valid definitions.
  A definition is read as the list of its metrics in the order in which the validator meets them.
\<close>

section \<open>The metrics of a definition\<close>

datatype any_metric = AnyValue value_metric | AnyEval eval_metric | AnyOS os_command_metric

fun infoOf :: "any_metric \<Rightarrow> metric_info" where
  "infoOf (AnyValue m) = MetricInfo m"
| "infoOf (AnyEval m) = MetricInfo m"
| "infoOf (AnyOS m) = MetricInfo m"

fun vendorOf :: "any_metric \<Rightarrow> os_vendor" where
  "vendorOf (AnyOS m) = osVendor m"
| "vendorOf _ = OSVendor_ALL"

definition systemPart :: "validation_system \<Rightarrow> any_metric list" where
  "systemPart s = map AnyValue (SystemMetrics s) @ map AnyOS (sys_OsCommandMetrics s)"

definition corosyncPart :: "validation_corosync \<Rightarrow> any_metric list" where
  "corosyncPart s = map AnyEval (co_ConfigMetrics s) @ map AnyOS (co_OsCommandMetrics s)"

definition hanaPart :: "validation_hana \<Rightarrow> any_metric list" where
  "hanaPart s = map AnyEval (GlobalIniMetrics s) @ concat (map (\<lambda>d. map AnyValue (VolumeMetrics d)) (HanaDiskVolumeMetrics s))
     @ map AnyValue (HanaBackupMetrics s) @ map AnyValue (HaMetrics s) @ map AnyValue (DrMetrics s)
     @ map AnyValue (TraceMetrics s) @ map AnyOS (ha_OsCommandMetrics s)"

definition netweaverPart :: "validation_netweaver \<Rightarrow> any_metric list" where
  "netweaverPart s = map AnyOS (nw_OsCommandMetrics s)"

definition configPart :: "pacemaker_config_metrics \<Rightarrow> any_metric list" where
  "configPart c = map AnyValue (PrimitiveMetrics c @ RscLocationMetrics c @ RscOptionMetrics c @ HanaOperationMetrics c
     @ FenceAgentMetrics c @ AscsMetrics c @ OpOptionMetrics c)"

definition pacemakerPart :: "validation_pacemaker \<Rightarrow> any_metric list" where
  "pacemakerPart s = getList configPart (pm_ConfigMetrics s) @ map AnyValue (CibBootstrapOptionMetrics s)
     @ map AnyOS (pm_OsCommandMetrics s)"

definition customPart :: "validation_custom \<Rightarrow> any_metric list" where
  "customPart s = map AnyOS (cu_OsCommandMetrics s)"

text \<open>The metrics of the index server's file are not validated.\<close>

definition checkedMetrics :: "workload_validation \<Rightarrow> any_metric list" where
  "checkedMetrics w = getList systemPart (ValidationSystem w) @ getList corosyncPart (ValidationCorosync w)
     @ getList hanaPart (ValidationHana w) @ getList netweaverPart (ValidationNetweaver w)
     @ getList pacemakerPart (ValidationPacemaker w) @ getList customPart (ValidationCustom w)"

definition indexserverMetrics :: "workload_validation \<Rightarrow> any_metric list" where
  "indexserverMetrics w = map AnyEval (getList IndexserverIniMetrics (ValidationHana w))"

definition allMetrics :: "workload_validation \<Rightarrow> any_metric list" where
  "allMetrics w = checkedMetrics w @ indexserverMetrics w"

section \<open>Well-formed definitions\<close>

definition ruleWellFormed :: "(string \<Rightarrow> bool) \<Rightarrow> eval_metric_rule \<Rightarrow> bool" where
  "ruleWellFormed compiles e \<longleftrightarrow> EvalRules e \<noteq> [] \<and> IfTrue e \<noteq> None \<and>
     (\<forall>r \<in> {valueFromRegex (IfTrue e), valueFromRegex (IfFalse e)}. r \<noteq> [] \<longrightarrow> compiles r)"

fun evaluationWellFormed :: "(string \<Rightarrow> bool) \<Rightarrow> evaluation \<Rightarrow> bool" where
  "evaluationWellFormed compiles (AndEval e) \<longleftrightarrow> ruleWellFormed compiles e"
| "evaluationWellFormed compiles (OrEval es) \<longleftrightarrow> (\<forall>e \<in> set es. ruleWellFormed compiles e)"
| "evaluationWellFormed compiles NoEval \<longleftrightarrow> False"

fun bodyWellFormed :: "(string \<Rightarrow> bool) \<Rightarrow> any_metric \<Rightarrow> bool" where
  "bodyWellFormed compiles (AnyValue m) \<longleftrightarrow> mValue m \<noteq> 0"
| "bodyWellFormed compiles (AnyEval m) \<longleftrightarrow> evaluationWellFormed compiles (Evaluation m)"
| "bodyWellFormed compiles (AnyOS m) \<longleftrightarrow> OsCommand m \<noteq> [] \<and> evaluationWellFormed compiles (Evaluation m)"

definition versionFits :: "string \<Rightarrow> any_metric \<Rightarrow> bool" where
  "versionFits version x \<longleftrightarrow> (let v = min_version (infoOf x)
     in v = [] \<or> isVersion v \<and> compareVersions v version \<noteq> 1)"

definition named :: "any_metric \<Rightarrow> bool" where
  "named x \<longleftrightarrow> mi_type (infoOf x) \<noteq> [] \<and> mi_label (infoOf x) \<noteq> []"

definition clash :: "any_metric \<Rightarrow> any_metric \<Rightarrow> bool" where
  "clash x y \<longleftrightarrow> metricKey (infoOf x) = metricKey (infoOf y) \<and>
     (vendorOf x = vendorOf y \<or> vendorOf x = OSVendor_ALL \<or> vendorOf y = OSVendor_ALL)"

definition wellFormed :: "string \<Rightarrow> (string \<Rightarrow> bool) \<Rightarrow> any_metric list \<Rightarrow> bool" where
  "wellFormed version compiles xs \<longleftrightarrow>
     (\<forall>x \<in> set xs. versionFits version x \<and> named x \<and> bodyWellFormed compiles x) \<and>
     sorted_wrt (\<lambda>x y. \<not> clash x y) xs"

section \<open>The table of keys\<close>

definition usedBy :: "any_metric list \<Rightarrow> string \<Rightarrow> os_vendor set" where
  "usedBy xs k = vendorOf ` {x \<in> set xs. metricKey (infoOf x) = k}"

definition tableOf :: "any_metric list \<Rightarrow> metrics_map" where
  "tableOf xs k = (if usedBy xs k = {} then None else Some (usedBy xs k))"

lemma usedBy_snoc: "usedBy (xs @ [x]) k = (if metricKey (infoOf x) = k then insert (vendorOf x) (usedBy xs k) else usedBy xs k)"
  by (auto simp: usedBy_def)

lemma tableOf_Nil: "tableOf [] = Map.empty"
  by (rule ext) (simp add: tableOf_def usedBy_def)

lemma tableOf_cong: "set xs = set ys \<Longrightarrow> tableOf xs = tableOf ys"
  by (rule ext) (simp add: tableOf_def usedBy_def)

lemma tableOf_snoc:
  "tableOf (xs @ [x]) = (tableOf xs)(metricKey (infoOf x) \<mapsto> insert (vendorOf x) (usedBy xs (metricKey (infoOf x))))"
  by (rule ext) (simp add: tableOf_def usedBy_snoc)

lemma mapper_tableOf: "mapper (infoOf x) (vendorOf x) (tableOf xs) = tableOf (xs @ [x])"
  unfolding tableOf_snoc mapper_def by (simp add: tableOf_def)

lemma fold_mapper:
  "fold (\<lambda>x. mapper (infoOf x) (vendorOf x)) ys (tableOf xs) = tableOf (xs @ ys)"
  by (induction ys arbitrary: xs) (simp_all add: mapper_tableOf)

text \<open>A metric meets the table exactly when it clashes with a metric in it.\<close>

lemma tableOf_clash:
  "(case tableOf xs (metricKey (infoOf y)) of None \<Rightarrow> True
    | Some vs \<Rightarrow> \<not> (vendorOf y \<in> vs \<or> OSVendor_ALL \<in> vs \<or> vendorOf y = OSVendor_ALL))
   \<longleftrightarrow> (\<forall>x \<in> set xs. \<not> clash x y)"
proof -
  have used: "v \<in> usedBy xs k \<longleftrightarrow> (\<exists>x \<in> set xs. metricKey (infoOf x) = k \<and> vendorOf x = v)" for v k
    by (auto simp: usedBy_def)
  show ?thesis
  proof (cases "usedBy xs (metricKey (infoOf y)) = {}")
    case True
    then show ?thesis by (auto simp: tableOf_def clash_def usedBy_def)
  next
    case False
    then show ?thesis by (auto simp: tableOf_def clash_def used)
  qed
qed

section \<open>The validator as a loop over the metrics\<close>

fun bodyFlaws :: "(string \<Rightarrow> bool) \<Rightarrow> any_metric \<Rightarrow> validator \<Rightarrow> validator" where
  "bodyFlaws compiles (AnyValue m) v = failIf (mValue m = 0) v"
| "bodyFlaws compiles (AnyEval m) v = validateMetricEvaluation compiles m v"
| "bodyFlaws compiles (AnyOS m) v = validateMetricEvaluation compiles m (failIf (OsCommand m = []) v)"

definition validateAny :: "(string \<Rightarrow> bool) \<Rightarrow> any_metric \<Rightarrow> validator \<Rightarrow> validator" where
  "validateAny compiles x v = bodyFlaws compiles x (validateInfo (infoOf x) (vendorOf x) v)"

lemma validateValues_any: "validateValues ms v = fold (validateAny compiles) (map AnyValue ms) v"
  by (simp add: validateValues_def fold_map comp_def validateAny_def [abs_def] validateMetricInfo_def noVendor_def)

lemma validateEvalMetrics_any: "validateEvalMetrics compiles ms v = fold (validateAny compiles) (map AnyEval ms) v"
  by (simp add: validateEvalMetrics_def fold_map comp_def validateAny_def [abs_def] validateMetricInfo_def noVendor_def)

lemma validateOSCommandMetrics_any:
  "validateOSCommandMetrics compiles ms v = fold (validateAny compiles) (map AnyOS ms) v"
  by (simp add: validateOSCommandMetrics_def fold_map comp_def validateAny_def [abs_def] validateMetricInfo_def)

lemma validateVolumes_any:
  "fold (\<lambda>d. validateValues (VolumeMetrics d)) ds v
   = fold (validateAny compiles) (concat (map (\<lambda>d. map AnyValue (VolumeMetrics d)) ds)) v"
  by (induction ds arbitrary: v) (simp_all add: validateValues_any [where compiles = compiles])

lemmas validate_any = validateValues_any [where compiles = compiles] validateEvalMetrics_any
  validateOSCommandMetrics_any validateVolumes_any [where compiles = compiles] for compiles

lemma getList_Nil_fold: "fold f (map g (getList h s)) v = fold f (getList (\<lambda>x. map g (h x)) s) v"
  by (cases s) simp_all

lemma validateWorkloadValidation_any:
  "validateWorkloadValidation compiles w v = fold (validateAny compiles) (checkedMetrics w) v"
proof -
  have config: "validatePacemakerConfigMetrics c v = fold (validateAny compiles) (getList configPart c) v" for c v
    by (cases c) (simp_all add: validatePacemakerConfigMetrics_def configPart_def validate_any [where compiles = compiles])
  have "fold (validateAny compiles) (getList systemPart s) v =
      validateOSCommandMetrics compiles (getList sys_OsCommandMetrics s) (validateValues (getList SystemMetrics s) v)" for s v
    by (cases s) (simp_all add: systemPart_def validate_any [where compiles = compiles])
  moreover have "fold (validateAny compiles) (getList corosyncPart s) v =
      validateOSCommandMetrics compiles (getList co_OsCommandMetrics s) (validateEvalMetrics compiles (getList co_ConfigMetrics s) v)" for s v
    by (cases s) (simp_all add: corosyncPart_def validate_any [where compiles = compiles])
  moreover have "fold (validateAny compiles) (getList hanaPart s) v =
      validateOSCommandMetrics compiles (getList ha_OsCommandMetrics s)
        (validateValues (getList TraceMetrics s) (validateValues (getList DrMetrics s) (validateValues (getList HaMetrics s)
        (validateValues (getList HanaBackupMetrics s) (fold (\<lambda>d. validateValues (VolumeMetrics d)) (getList HanaDiskVolumeMetrics s)
        (validateEvalMetrics compiles (getList GlobalIniMetrics s) v))))))" for s v
    by (cases s) (simp_all add: hanaPart_def validate_any [where compiles = compiles])
  moreover have "fold (validateAny compiles) (getList pacemakerPart s) v =
      validateOSCommandMetrics compiles (getList pm_OsCommandMetrics s) (validateValues (getList CibBootstrapOptionMetrics s)
        (validatePacemakerConfigMetrics (getPart pm_ConfigMetrics s) v))" for s v
    by (cases s) (simp_all add: pacemakerPart_def config validate_any [where compiles = compiles])
  moreover have "fold (validateAny compiles) (getList netweaverPart s) v =
      validateOSCommandMetrics compiles (getList nw_OsCommandMetrics s) v" for s v
    by (cases s) (simp_all add: netweaverPart_def validate_any [where compiles = compiles])
  moreover have "fold (validateAny compiles) (getList customPart s) v =
      validateOSCommandMetrics compiles (getList cu_OsCommandMetrics s) v" for s v
    by (cases s) (simp_all add: customPart_def validate_any [where compiles = compiles])
  ultimately show ?thesis
    by (simp add: validateWorkloadValidation_def checkedMetrics_def Let_def)
qed

section \<open>What is accepted\<close>

text \<open>\<open>failed n\<close> is the effect of \<open>n\<close> failures.\<close>

definition failed :: "nat \<Rightarrow> validator \<Rightarrow> validator" where
  "failed n v = v\<lparr>failureCount := failureCount v + n, v_valid := (v_valid v \<and> n = 0)\<rparr>"

lemma failed_0: "failed 0 v = v"
  by (simp add: failed_def)

lemma failed_failed: "failed m (failed n v) = failed (n + m) v"
  by (simp add: failed_def add.assoc conj_ac)

lemma validationFailure_failed: "validationFailure v = failed 1 v"
  by (simp add: failed_def validationFailure_def)

lemma failIf_failed: "failIf b v = failed (of_bool b) v"
  by (simp add: failIf_def validationFailure_failed failed_0)

lemmas failed_rules = failIf_failed validationFailure_failed failed_failed

definition ruleFlaws :: "(string \<Rightarrow> bool) \<Rightarrow> eval_metric_rule \<Rightarrow> nat" where
  "ruleFlaws compiles e = of_bool (EvalRules e = []) + of_bool (IfTrue e = None)
     + of_bool (valueFromRegex (IfTrue e) \<noteq> [] \<and> \<not> compiles (valueFromRegex (IfTrue e)))
     + of_bool (valueFromRegex (IfFalse e) \<noteq> [] \<and> \<not> compiles (valueFromRegex (IfFalse e)))"

lemma validateRule_failed: "validateEvalMetricRule compiles e v = failed (ruleFlaws compiles e) v"
  by (simp add: validateEvalMetricRule_def Let_def failed_rules ruleFlaws_def add.assoc)

lemma validateRules_failed:
  "fold (validateEvalMetricRule compiles) es v = failed (sum_list (map (ruleFlaws compiles) es)) v"
  by (induction es arbitrary: v) (simp_all add: failed_0 validateRule_failed failed_failed)

fun evaluationFlaws :: "(string \<Rightarrow> bool) \<Rightarrow> evaluation \<Rightarrow> nat" where
  "evaluationFlaws compiles (AndEval e) = ruleFlaws compiles e"
| "evaluationFlaws compiles (OrEval es) = sum_list (map (ruleFlaws compiles) es)"
| "evaluationFlaws compiles NoEval = 1"

lemma validateEvaluation_failed:
  "validateMetricEvaluation compiles m v = failed (evaluationFlaws compiles (Evaluation m)) v"
  by (cases "Evaluation m")
    (simp_all add: validateMetricEvaluation_def validateRule_failed validateRules_failed validationFailure_failed)

fun bodyCount :: "(string \<Rightarrow> bool) \<Rightarrow> any_metric \<Rightarrow> nat" where
  "bodyCount compiles (AnyValue m) = of_bool (mValue m = 0)"
| "bodyCount compiles (AnyEval m) = evaluationFlaws compiles (Evaluation m)"
| "bodyCount compiles (AnyOS m) = of_bool (OsCommand m = []) + evaluationFlaws compiles (Evaluation m)"

lemma bodyFlaws_failed: "bodyFlaws compiles x v = failed (bodyCount compiles x) v"
  by (cases x) (simp_all add: failed_rules validateEvaluation_failed)

lemma ruleFlaws_0: "ruleFlaws compiles e = 0 \<longleftrightarrow> ruleWellFormed compiles e"
  by (auto simp: ruleFlaws_def ruleWellFormed_def)

lemma evaluationFlaws_0: "evaluationFlaws compiles e = 0 \<longleftrightarrow> evaluationWellFormed compiles e"
  by (cases e) (auto simp: ruleFlaws_0)

lemma bodyCount_0: "bodyCount compiles x = 0 \<longleftrightarrow> bodyWellFormed compiles x"
  by (cases x) (auto simp: evaluationFlaws_0)

text \<open>The state of the validator after the metrics \<open>xs\<close> and \<open>n\<close> failures.\<close>

definition after :: "string \<Rightarrow> nat \<Rightarrow> any_metric list \<Rightarrow> validator" where
  "after version n xs = \<lparr>v_agentVersion = version, failureCount = n, v_valid = (n = 0),
     workloadValidationMetrics = tableOf (filter named xs)\<rparr>"

lemma failed_after: "failed k (after version n xs) = after version (n + k) xs"
  by (simp add: failed_def after_def)

lemma validateVersion_after:
  "validateVersion (infoOf x) (after version n xs) = after version (n + of_bool (\<not> versionFits version x)) xs"
proof -
  have "v_agentVersion (after version n xs) = version" by (simp add: after_def)
  then show ?thesis
    by (simp add: validateVersion_def validationFailure_failed failed_after versionFits_def Let_def)
qed

lemma validateUnique_after:
  assumes "named x"
  shows "validateUnique (infoOf x) (vendorOf x) (after version n xs) =
    after version (n + of_bool (\<exists>y \<in> set (filter named xs). clash y x)) (xs @ [x])"
proof -
  let ?ys = "filter named xs" and ?k = "metricKey (infoOf x)"
  have ext: "tableOf (filter named (xs @ [x])) = (tableOf ?ys)(?k \<mapsto> insert (vendorOf x) (usedBy ?ys ?k))"
    using assms by (simp add: tableOf_snoc)
  note table = tableOf_clash [where xs = ?ys and y = x]
  show ?thesis
  proof (cases "usedBy ?ys ?k = {}")
    case True
    with table have "\<not> (\<exists>y \<in> set ?ys. clash y x)" by (auto simp: tableOf_def)
    then show ?thesis using True ext
      by (simp add: validateUnique_def after_def tableOf_def)
  next
    case False
    with table have "(\<exists>y \<in> set ?ys. clash y x) \<longleftrightarrow>
        vendorOf x \<in> usedBy ?ys ?k \<or> OSVendor_ALL \<in> usedBy ?ys ?k \<or> vendorOf x = OSVendor_ALL"
      by (auto simp: tableOf_def)
    then show ?thesis using False ext
      by (simp add: validateUnique_def after_def tableOf_def validationFailure_def Let_def)
  qed
qed

definition fits :: "string \<Rightarrow> (string \<Rightarrow> bool) \<Rightarrow> any_metric list \<Rightarrow> any_metric \<Rightarrow> bool" where
  "fits version compiles xs x \<longleftrightarrow> versionFits version x \<and> named x \<and> bodyWellFormed compiles x \<and>
     (\<forall>y \<in> set (filter named xs). \<not> clash y x)"

lemma validateAny_after:
  "\<exists>k. validateAny compiles x (after version n xs) = after version (n + k) (xs @ [x]) \<and>
     (k = 0 \<longleftrightarrow> fits version compiles xs x)"
proof -
  let ?v = "of_bool (\<not> versionFits version x) :: nat" and ?b = "bodyCount compiles x"
  let ?t = "of_bool (mi_type (infoOf x) = []) + of_bool (mi_label (infoOf x) = []) :: nat"
  let ?u = "of_bool (\<exists>y \<in> set (filter named xs). clash y x) :: nat"
  show ?thesis
  proof (cases "named x")
    case True
    then have "validateAny compiles x (after version n xs) = after version (n + (?v + ?u + ?b)) (xs @ [x])"
      by (simp add: validateAny_def validateInfo_def Let_def named_def [of x] validateVersion_after
          validateUnique_after [OF True] bodyFlaws_failed failed_after add.assoc)
    moreover have "?v + ?u + ?b = 0 \<longleftrightarrow> fits version compiles xs x"
      unfolding add_is_0 bodyCount_0 of_bool_eq_0_iff fits_def using True by blast
    ultimately show ?thesis by (intro exI conjI)
  next
    case False
    then have "after version m (xs @ [x]) = after version m xs" for m by (simp add: after_def)
    moreover have "validateInfo (infoOf x) (vendorOf x) (after version n xs) = after version (n + ?v + ?t) xs"
      using False unfolding named_def
      by (cases "mi_type (infoOf x) = []"; cases "mi_label (infoOf x) = []")
        (simp_all add: validateInfo_def validateVersion_after validationFailure_failed failed_after)
    ultimately have "validateAny compiles x (after version n xs) = after version (n + (?v + ?t + ?b)) (xs @ [x])"
      by (simp only: validateAny_def bodyFlaws_failed failed_after add.assoc)
    moreover have "?v + ?t + ?b = 0 \<longleftrightarrow> fits version compiles xs x"
      unfolding add_is_0 bodyCount_0 of_bool_eq_0_iff fits_def using False named_def by blast
    ultimately show ?thesis by (intro exI conjI)
  qed
qed

lemma wellFormed_snoc: "wellFormed version compiles (xs @ [x]) \<longleftrightarrow> wellFormed version compiles xs \<and> fits version compiles xs x"
  by (auto simp: wellFormed_def fits_def sorted_wrt_append)

lemma validate_all:
  "\<exists>n. fold (validateAny compiles) xs (after version 0 []) = after version n xs \<and> (n = 0 \<longleftrightarrow> wellFormed version compiles xs)"
proof (induction xs rule: rev_induct)
  case Nil
  show ?case by (intro exI [of _ 0]) (simp add: wellFormed_def)
next
  case (snoc x xs)
  then obtain n where n: "fold (validateAny compiles) xs (after version 0 []) = after version n xs"
    "n = 0 \<longleftrightarrow> wellFormed version compiles xs" by blast
  obtain k where k: "validateAny compiles x (after version n xs) = after version (n + k) (xs @ [x])"
    "k = 0 \<longleftrightarrow> fits version compiles xs x" using validateAny_after by blast
  from n k show ?case by (intro exI [of _ "n + k"]) (simp add: wellFormed_snoc)
qed

definition definedMetrics :: "collection_definition option \<Rightarrow> any_metric list" where
  "definedMetrics cd = getList checkedMetrics (getPart WorkloadValidation cd)"

lemma Validate_after:
  "\<exists>n. Validate compiles cd (NewValidator version) = after version n (definedMetrics cd) \<and>
     (n = 0 \<longleftrightarrow> wellFormed version compiles (definedMetrics cd))"
proof -
  have start: "(NewValidator version)\<lparr>v_valid := True, failureCount := 0, workloadValidationMetrics := Map.empty\<rparr> = after version 0 []"
    by (simp add: NewValidator_def after_def tableOf_Nil)
  show ?thesis
  proof (cases "getPart WorkloadValidation cd")
    case None
    then show ?thesis
      by (intro exI [of _ 0]) (simp add: Validate_def start definedMetrics_def wellFormed_def)
  next
    case (Some w)
    then show ?thesis
      using validate_all [of compiles "checkedMetrics w" version]
      by (simp add: Validate_def start definedMetrics_def validateWorkloadValidation_any)
  qed
qed

lemma Validate_valid: "v_valid (Validate compiles cd (NewValidator version)) \<longleftrightarrow> wellFormed version compiles (definedMetrics cd)"
  using Validate_after [of compiles cd version] by (auto simp: after_def)

section \<open>Lists without clashes\<close>

definition apart :: "('a \<Rightarrow> 'a \<Rightarrow> bool) \<Rightarrow> 'a multiset \<Rightarrow> bool" where
  "apart R M \<longleftrightarrow> (\<forall>x y N. M = add_mset x (add_mset y N) \<longrightarrow> R x y)"

lemma apart_mono: "apart R M \<Longrightarrow> K \<subseteq># M \<Longrightarrow> apart R K"
  unfolding apart_def by (auto simp: mset_subset_eq_exists_conv)

lemma sorted_wrt_apart:
  assumes sym: "\<And>x y. R x y \<Longrightarrow> R y x"
  shows "sorted_wrt R xs \<longleftrightarrow> apart R (mset xs)"
proof (induction xs)
  case Nil
  then show ?case by (simp add: apart_def)
next
  case (Cons a xs)
  have "apart R (add_mset a (mset xs)) \<longleftrightarrow> (\<forall>y \<in> set xs. R a y) \<and> apart R (mset xs)" (is "?l \<longleftrightarrow> ?r")
  proof
    assume ?l
    then have "R a y" if "y \<in> set xs" for y
      using that unfolding apart_def by (metis insert_DiffM set_mset_mset)
    moreover have "apart R (mset xs)" by (rule apart_mono [OF \<open>?l\<close>]) simp
    ultimately show ?r by blast
  next
    assume r: ?r
    show ?l
      unfolding apart_def
    proof (intro allI impI)
      fix x y N
      assume eq: "add_mset a (mset xs) = add_mset x (add_mset y N)"
      consider "a = x" "mset xs = add_mset y N" | K where "add_mset y N = add_mset a K" "mset xs = add_mset x K"
        using eq by (auto simp: add_eq_conv_ex)
      then show "R x y"
      proof cases
        case 1
        then have "y \<in> set xs" by (metis set_mset_mset union_single_eq_member)
        with r 1 show ?thesis by blast
      next
        case 2
        then have x: "x \<in> set xs" by (metis set_mset_mset union_single_eq_member)
        from 2(1) consider "y = a" | L where "K = add_mset y L" by (auto simp: add_eq_conv_ex)
        then show ?thesis
        proof cases
          case 1
          with x r sym show ?thesis by blast
        next
          case 2
          with r \<open>mset xs = add_mset x K\<close> show ?thesis by (auto simp: apart_def)
        qed
      qed
    qed
  qed
  with Cons show ?case by simp
qed

lemma clash_sym: "clash x y = clash y x"
  by (auto simp: clash_def)

lemma wellFormed_mset:
  "wellFormed version compiles xs \<longleftrightarrow>
     (\<forall>x \<in># mset xs. versionFits version x \<and> named x \<and> bodyWellFormed compiles x) \<and> apart (\<lambda>x y. \<not> clash x y) (mset xs)"
  unfolding wellFormed_def by (subst sorted_wrt_apart) (simp_all add: clash_sym)

lemma wellFormed_sub:
  "wellFormed version compiles ys \<Longrightarrow> mset xs \<subseteq># mset ys \<Longrightarrow> wellFormed version compiles xs"
  unfolding wellFormed_mset by (blast dest: mset_subset_eqD intro: apart_mono)

lemma wellFormed_append:
  "wellFormed version compiles (xs @ ys) \<longleftrightarrow> wellFormed version compiles xs \<and> wellFormed version compiles ys \<and>
     (\<forall>x \<in> set xs. \<forall>y \<in> set ys. \<not> clash x y)"
  by (auto simp: wellFormed_def sorted_wrt_append)

section \<open>What merging adds\<close>

lemma mapAny:
  "iterator noVendor es = fold (\<lambda>x. mapper (infoOf x) (vendorOf x)) (map AnyEval es)"
  "iterator noVendor vs = fold (\<lambda>x. mapper (infoOf x) (vendorOf x)) (map AnyValue vs)"
  "iterator osVendor os = fold (\<lambda>x. mapper (infoOf x) (vendorOf x)) (map AnyOS os)"
  by (rule ext, simp add: iterator_def fold_map comp_def noVendor_def)+

lemma mapVolumes:
  "fold (\<lambda>d. iterator noVendor (VolumeMetrics d)) ds m
   = fold (\<lambda>x. mapper (infoOf x) (vendorOf x)) (concat (map (\<lambda>d. map AnyValue (VolumeMetrics d)) ds)) m"
  by (induction ds arbitrary: m) (simp_all add: mapAny)

lemma set_getList: "set (getList f s) = (case s of None \<Rightarrow> {} | Some x \<Rightarrow> set (f x))"
  by (simp add: getList_def split: option.splits)

lemma fold_steps:
  "list_all2 (\<lambda>f xs. \<forall>m. f m = fold step xs m) fs xss \<Longrightarrow> fold (\<lambda>f. f) fs m = fold step (concat xss) m"
  by (induction fs xss arbitrary: m rule: list_all2_induct) simp_all

lemma map_table:
  "mapWorkloadValidationMetrics wlm = tableOf (getList allMetrics wlm)"
proof -
  define step where "step = (\<lambda>x. mapper (infoOf x) (vendorOf x))"
  have "\<exists>xs. mapWorkloadValidationMetrics wlm = fold step xs Map.empty \<and> set xs = set (getList allMetrics wlm)"
  proof (cases wlm)
    case None
    then show ?thesis
      by (intro exI [of _ "[]"]) (simp add: mapWorkloadValidationMetrics_def iterator_def)
  next
    case (Some w)
    let ?config = "getPart pm_ConfigMetrics (ValidationPacemaker w)"
    let ?v = "\<lambda>f s. map AnyValue (getList f s)" and ?e = "\<lambda>f s. map AnyEval (getList f s)"
    let ?o = "\<lambda>f s. map AnyOS (getList f s)"
    let ?xss = "[?v SystemMetrics (ValidationSystem w),
      ?o sys_OsCommandMetrics (ValidationSystem w),
      ?e co_ConfigMetrics (ValidationCorosync w),
      ?o co_OsCommandMetrics (ValidationCorosync w),
      ?e GlobalIniMetrics (ValidationHana w),
      ?e IndexserverIniMetrics (ValidationHana w),
      concat (map (\<lambda>d. map AnyValue (VolumeMetrics d)) (getList HanaDiskVolumeMetrics (ValidationHana w))),
      ?v HaMetrics (ValidationHana w),
      ?v DrMetrics (ValidationHana w),
      ?v HanaBackupMetrics (ValidationHana w),
      ?v TraceMetrics (ValidationHana w),
      ?o ha_OsCommandMetrics (ValidationHana w),
      ?o nw_OsCommandMetrics (ValidationNetweaver w),
      ?v PrimitiveMetrics ?config,
      ?v RscLocationMetrics ?config,
      ?v RscOptionMetrics ?config,
      ?v HanaOperationMetrics ?config,
      ?v FenceAgentMetrics ?config,
      ?v AscsMetrics ?config,
      ?v CibBootstrapOptionMetrics (ValidationPacemaker w),
      ?o pm_OsCommandMetrics (ValidationPacemaker w),
      ?v OpOptionMetrics ?config,
      ?o cu_OsCommandMetrics (ValidationCustom w)]"
    have run: "mapWorkloadValidationMetrics wlm = fold step (concat ?xss) Map.empty"
      unfolding mapWorkloadValidationMetrics_def Some getPart_simps Let_def
      by (rule fold_steps) (simp only: list.rel_inject list.rel_intros step_def mapAny mapVolumes [unfolded mapAny] simp_thms)
    have config: "set (getList configPart c) = set (?v PrimitiveMetrics c) \<union> set (?v RscLocationMetrics c) \<union>
      set (?v RscOptionMetrics c) \<union> set (?v HanaOperationMetrics c) \<union> set (?v FenceAgentMetrics c) \<union>
      set (?v AscsMetrics c) \<union> set (?v OpOptionMetrics c)" for c
      by (cases c) (auto simp: configPart_def)
    have system: "set (getList systemPart c) = set (?v SystemMetrics c) \<union> set (?o sys_OsCommandMetrics c)" for c
      by (cases c) (auto simp: systemPart_def)
    have corosync: "set (getList corosyncPart c) = set (?e co_ConfigMetrics c) \<union> set (?o co_OsCommandMetrics c)" for c
      by (cases c) (auto simp: corosyncPart_def)
    have hana: "set (getList hanaPart c) = set (?e GlobalIniMetrics c) \<union>
      set (concat (map (\<lambda>d. map AnyValue (VolumeMetrics d)) (getList HanaDiskVolumeMetrics c))) \<union>
      set (?v HanaBackupMetrics c) \<union> set (?v HaMetrics c) \<union> set (?v DrMetrics c) \<union> set (?v TraceMetrics c) \<union>
      set (?o ha_OsCommandMetrics c)" for c
      by (cases c) (simp_all only: hanaPart_def getList_simps set_append list.map concat.simps Un_assoc, simp)
    have pacemaker: "set (getList pacemakerPart c) = set (getList configPart (getPart pm_ConfigMetrics c)) \<union>
      set (?v CibBootstrapOptionMetrics c) \<union> set (?o pm_OsCommandMetrics c)" for c
      by (cases c) (auto simp: pacemakerPart_def)
    have rest: "set (getList netweaverPart c) = set (?o nw_OsCommandMetrics c)"
      "set (getList customPart d) = set (?o cu_OsCommandMetrics d)" for c d
      by (cases c; simp add: netweaverPart_def) (cases d; simp add: customPart_def)
    have "set (concat ?xss) = set (getList allMetrics wlm)"
      unfolding concat.simps append_Nil2 Some getList_simps allMetrics_def checkedMetrics_def indexserverMetrics_def set_append
        system corosync hana pacemaker config rest
      by (simp only: Un_ac)
    with run show ?thesis by blast
  qed
  then obtain xs where xs: "mapWorkloadValidationMetrics wlm = fold step xs Map.empty" "set xs = set (getList allMetrics wlm)"
    by blast
  show ?thesis
    unfolding xs(1) tableOf_cong [OF xs(2), symmetric]
    using fold_mapper [of xs "[]"] by (simp add: step_def tableOf_Nil)
qed

definition addable :: "any_metric list \<Rightarrow> any_metric \<Rightarrow> bool" where
  "addable ps y \<longleftrightarrow> (\<forall>x \<in> set ps. \<not> clash x y)"

lemma shouldMerge_any:
  "shouldMerge osVendor (tableOf ps) = (\<lambda>m. addable ps (AnyOS m))"
  "shouldMerge noVendor (tableOf ps) = (\<lambda>e. addable ps (AnyEval e))"
proof -
  have os: "shouldMerge osVendor (tableOf ps) m = addable ps (AnyOS m)" for m
    using tableOf_clash [where xs = ps and y = "AnyOS m"]
    by (simp add: shouldMerge_def addable_def split: option.splits)
  have ev: "shouldMerge noVendor (tableOf ps) e = addable ps (AnyEval e)" for e
    using tableOf_clash [where xs = ps and y = "AnyEval e"]
    by (simp add: shouldMerge_def addable_def noVendor_def split: option.splits)
  show "shouldMerge osVendor (tableOf ps) = (\<lambda>m. addable ps (AnyOS m))"
    "shouldMerge noVendor (tableOf ps) = (\<lambda>e. addable ps (AnyEval e))"
    by (simp_all add: fun_eq_iff os ev)
qed

lemma added_any:
  "map AnyOS (added osVendor (tableOf ps) f s) = filter (addable ps) (map AnyOS (getList f s))"
  "map AnyEval (added noVendor (tableOf ps) g t) = filter (addable ps) (map AnyEval (getList g t))"
  by (simp_all add: added_def filter_map comp_def shouldMerge_any)

text \<open>The metrics of a local definition that the merge considers, in the order of validation.\<close>

definition mergeable :: "workload_validation \<Rightarrow> any_metric list" where
  "mergeable w = map AnyOS (getList sys_OsCommandMetrics (ValidationSystem w))
     @ map AnyEval (getList co_ConfigMetrics (ValidationCorosync w)) @ map AnyOS (getList co_OsCommandMetrics (ValidationCorosync w))
     @ map AnyEval (getList GlobalIniMetrics (ValidationHana w)) @ map AnyOS (getList ha_OsCommandMetrics (ValidationHana w))
     @ map AnyOS (getList nw_OsCommandMetrics (ValidationNetweaver w)) @ map AnyOS (getList pm_OsCommandMetrics (ValidationPacemaker w))
     @ map AnyOS (getList cu_OsCommandMetrics (ValidationCustom w))"

definition offered :: "workload_validation \<Rightarrow> any_metric list" where
  "offered w = mergeable w @ indexserverMetrics w"

lemma appendTo_None: "appendTo f nothing None = Some m \<Longrightarrow> m = None \<and> nothing"
  by (simp add: appendTo_def split: if_splits)

lemma appendTo_Some: "appendTo f nothing (Some s) = Some m \<longleftrightarrow> m = Some (f s)"
  by (auto simp: appendTo_def)

lemma mergeSystem_adds:
  "mergeSystemValidations p s ex = Some m \<Longrightarrow>
   mset (getList systemPart m) = mset (getList systemPart p) + mset (map AnyOS (added osVendor ex sys_OsCommandMetrics s))"
  by (cases p) (auto simp: mergeSystemValidations_def Let_def systemPart_def appendTo_Some dest!: appendTo_None)

lemma mergeCorosync_adds:
  "mergeCorosyncValidations p s ex = Some m \<Longrightarrow>
   mset (getList corosyncPart m) = mset (getList corosyncPart p) + mset (map AnyEval (added noVendor ex co_ConfigMetrics s))
     + mset (map AnyOS (added osVendor ex co_OsCommandMetrics s))"
  by (cases p) (auto simp: mergeCorosyncValidations_def Let_def corosyncPart_def appendTo_Some dest!: appendTo_None)

lemma mergeHana_adds:
  "mergeHanaValidations p s ex = Some m \<Longrightarrow>
   mset (getList hanaPart m) = mset (getList hanaPart p) + mset (map AnyEval (added noVendor ex GlobalIniMetrics s))
     + mset (map AnyOS (added osVendor ex ha_OsCommandMetrics s))"
  "mergeHanaValidations p s ex = Some m \<Longrightarrow>
   mset (map AnyEval (getList IndexserverIniMetrics m)) = mset (map AnyEval (getList IndexserverIniMetrics p))
     + mset (map AnyEval (added noVendor ex IndexserverIniMetrics s))"
  by (cases p; auto simp: mergeHanaValidations_def Let_def hanaPart_def appendTo_Some dest!: appendTo_None)+

lemma mergeNetweaver_adds:
  "mergeNetweaverValidations p s ex = Some m \<Longrightarrow>
   mset (getList netweaverPart m) = mset (getList netweaverPart p) + mset (map AnyOS (added osVendor ex nw_OsCommandMetrics s))"
  by (cases p) (auto simp: mergeNetweaverValidations_def Let_def netweaverPart_def appendTo_Some dest!: appendTo_None)

lemma mergePacemaker_adds:
  "mergePacemakerValidations p s ex = Some m \<Longrightarrow>
   mset (getList pacemakerPart m) = mset (getList pacemakerPart p) + mset (map AnyOS (added osVendor ex pm_OsCommandMetrics s))"
  by (cases p) (auto simp: mergePacemakerValidations_def Let_def pacemakerPart_def appendTo_Some dest!: appendTo_None)

lemma mergeCustom_adds:
  "mergeCustomValidations p s ex = Some m \<Longrightarrow>
   mset (getList customPart m) = mset (getList customPart p) + mset (map AnyOS (added osVendor ex cu_OsCommandMetrics s))"
  by (cases p) (auto simp: mergeCustomValidations_def Let_def customPart_def appendTo_Some dest!: appendTo_None)

lemmas merge_adds = mergeSystem_adds mergeCorosync_adds mergeHana_adds mergeNetweaver_adds mergePacemaker_adds mergeCustom_adds

lemma getList_getPart: "getList f (getPart g p) = getList (\<lambda>w. getList f (g w)) p"
  by (cases p) simp_all

lemma mergeWorkload_adds:
  assumes "mergeWorkloadValidations p s = Some w"
  shows "mset (checkedMetrics w) = mset (getList checkedMetrics p) + mset (filter (addable (getList allMetrics p)) (getList mergeable s))"
    and "mset (indexserverMetrics w) = mset (getList indexserverMetrics p) + mset (filter (addable (getList allMetrics p)) (getList indexserverMetrics s))"
proof -
  let ?ps = "getList allMetrics p"
  from assms obtain sy co ha nw pm cu where parts:
    "mergeSystemValidations (getPart ValidationSystem p) (getPart ValidationSystem s) (tableOf ?ps) = Some sy"
    "mergeCorosyncValidations (getPart ValidationCorosync p) (getPart ValidationCorosync s) (tableOf ?ps) = Some co"
    "mergeHanaValidations (getPart ValidationHana p) (getPart ValidationHana s) (tableOf ?ps) = Some ha"
    "mergeNetweaverValidations (getPart ValidationNetweaver p) (getPart ValidationNetweaver s) (tableOf ?ps) = Some nw"
    "mergePacemakerValidations (getPart ValidationPacemaker p) (getPart ValidationPacemaker s) (tableOf ?ps) = Some pm"
    "mergeCustomValidations (getPart ValidationCustom p) (getPart ValidationCustom s) (tableOf ?ps) = Some cu"
    and w: "ValidationSystem w = sy" "ValidationCorosync w = co" "ValidationHana w = ha"
      "ValidationNetweaver w = nw" "ValidationPacemaker w = pm" "ValidationCustom w = cu"
    by (auto simp: mergeWorkloadValidations_def map_table Let_def split: option.splits)
  have offers: "mset (filter (addable ?ps) (getList mergeable s)) =
      mset (map AnyOS (added osVendor (tableOf ?ps) sys_OsCommandMetrics (getPart ValidationSystem s)))
      + mset (map AnyEval (added noVendor (tableOf ?ps) co_ConfigMetrics (getPart ValidationCorosync s)))
      + mset (map AnyOS (added osVendor (tableOf ?ps) co_OsCommandMetrics (getPart ValidationCorosync s)))
      + mset (map AnyEval (added noVendor (tableOf ?ps) GlobalIniMetrics (getPart ValidationHana s)))
      + mset (map AnyOS (added osVendor (tableOf ?ps) ha_OsCommandMetrics (getPart ValidationHana s)))
      + mset (map AnyOS (added osVendor (tableOf ?ps) nw_OsCommandMetrics (getPart ValidationNetweaver s)))
      + mset (map AnyOS (added osVendor (tableOf ?ps) pm_OsCommandMetrics (getPart ValidationPacemaker s)))
      + mset (map AnyOS (added osVendor (tableOf ?ps) cu_OsCommandMetrics (getPart ValidationCustom s)))"
    unfolding added_any by (cases s) (simp_all only: getList_simps getPart_simps mergeable_def list.map filter.simps filter_append mset_append mset.simps add_0 add.assoc)
  have whole: "mset (getList checkedMetrics p) = mset (getList systemPart (getPart ValidationSystem p))
      + mset (getList corosyncPart (getPart ValidationCorosync p)) + mset (getList hanaPart (getPart ValidationHana p))
      + mset (getList netweaverPart (getPart ValidationNetweaver p)) + mset (getList pacemakerPart (getPart ValidationPacemaker p))
      + mset (getList customPart (getPart ValidationCustom p))"
    by (cases p) (simp_all add: checkedMetrics_def)
  show "mset (checkedMetrics w) = mset (getList checkedMetrics p) + mset (filter (addable ?ps) (getList mergeable s))"
    unfolding offers whole checkedMetrics_def w mset_append mergeSystem_adds [OF parts(1)] mergeCorosync_adds [OF parts(2)]
      mergeHana_adds(1) [OF parts(3)] mergeNetweaver_adds [OF parts(4)] mergePacemaker_adds [OF parts(5)] mergeCustom_adds [OF parts(6)]
    by (simp only: add_ac)
  have "mset (getList indexserverMetrics p) = mset (map AnyEval (getList IndexserverIniMetrics (getPart ValidationHana p)))"
    "mset (filter (addable ?ps) (getList indexserverMetrics s)) =
      mset (map AnyEval (added noVendor (tableOf ?ps) IndexserverIniMetrics (getPart ValidationHana s)))"
    unfolding added_any by (cases p; simp add: indexserverMetrics_def) (cases s; simp add: indexserverMetrics_def)
  then show "mset (indexserverMetrics w) = mset (getList indexserverMetrics p) + mset (filter (addable ?ps) (getList indexserverMetrics s))"
    unfolding indexserverMetrics_def w mergeHana_adds(2) [OF parts(3)] by (simp add: indexserverMetrics_def)
qed

lemma isValidVersion_fits:
  "isValidVersion v = (\<lambda>m. versionFits v (AnyOS m))"
  "isValidVersion v = (\<lambda>e. versionFits v (AnyEval e))"
  "isValidVersion v = (\<lambda>n. versionFits v (AnyValue n))"
  by (auto simp: fun_eq_iff isValidVersion_def versionFits_def Let_def)

lemma filterBad_any:
  "map AnyOS (filterBadVersionMetrics v ms) = filter (versionFits v) (map AnyOS ms)"
  "map AnyEval (filterBadVersionMetrics v es) = filter (versionFits v) (map AnyEval es)"
  "map AnyValue (filterBadVersionMetrics v ns) = filter (versionFits v) (map AnyValue ns)"
  by (simp_all add: filterBadVersionMetrics_def filter_map comp_def isValidVersion_fits)

lemma filter_volumes:
  "concat (map (\<lambda>d. map AnyValue (VolumeMetrics d)) (map (\<lambda>d. d\<lparr>VolumeMetrics := filterBadVersionMetrics v (VolumeMetrics d)\<rparr>) ds))
   = filter (versionFits v) (concat (map (\<lambda>d. map AnyValue (VolumeMetrics d)) ds))"
  by (induction ds) (simp_all add: filterBad_any)

lemma filter_parts:
  "systemPart (filterSystem v sy) = filter (versionFits v) (systemPart sy)"
  "corosyncPart (filterCorosync v co) = filter (versionFits v) (corosyncPart co)"
  "hanaPart (filterHana v ha) = filter (versionFits v) (hanaPart ha)"
  "map AnyEval (IndexserverIniMetrics (filterHana v ha)) = filter (versionFits v) (map AnyEval (IndexserverIniMetrics ha))"
  "netweaverPart (filterNetweaver v nw) = filter (versionFits v) (netweaverPart nw)"
  "customPart (filterCustom v cu) = filter (versionFits v) (customPart cu)"
  by (simp_all add: systemPart_def filterSystem_def corosyncPart_def filterCorosync_def hanaPart_def filterHana_def
      netweaverPart_def filterNetweaver_def customPart_def filterCustom_def
      filterBad_any filter_volumes [simplified] del: map_append)

lemma filter_config: "getList configPart (map_option (filterPacemakerConfig v) c) = filter (versionFits v) (getList configPart c)"
  by (cases c) (simp_all add: configPart_def filterPacemakerConfig_def filterBad_any)

lemma filter_pacemakerPart: "pacemakerPart (filterPacemaker v pm) = filter (versionFits v) (pacemakerPart pm)"
  by (simp add: pacemakerPart_def filterPacemaker_def filterBad_any filter_config)

lemma filter_sections:
  "getList systemPart (map_option (filterSystem v) sy) = filter (versionFits v) (getList systemPart sy)"
  "getList corosyncPart (map_option (filterCorosync v) co) = filter (versionFits v) (getList corosyncPart co)"
  "getList hanaPart (map_option (filterHana v) ha) = filter (versionFits v) (getList hanaPart ha)"
  "map AnyEval (getList IndexserverIniMetrics (map_option (filterHana v) ha))
    = filter (versionFits v) (map AnyEval (getList IndexserverIniMetrics ha))"
  "getList netweaverPart (map_option (filterNetweaver v) nw) = filter (versionFits v) (getList netweaverPart nw)"
  "getList pacemakerPart (map_option (filterPacemaker v) pm) = filter (versionFits v) (getList pacemakerPart pm)"
  "getList customPart (map_option (filterCustom v) cu) = filter (versionFits v) (getList customPart cu)"
  by ((cases sy; simp add: filter_parts), (cases co; simp add: filter_parts),
      (cases ha; simp only: getList_simps option.map filter_parts filter.simps list.map),
      (cases ha; simp only: getList_simps option.map filter_parts filter.simps list.map),
      (cases nw; simp add: filter_parts), (cases pm; simp add: filter_pacemakerPart), (cases cu; simp add: filter_parts))

definition allOf :: "collection_definition option \<Rightarrow> any_metric list" where
  "allOf cd = getList allMetrics (getPart WorkloadValidation cd)"

definition offeredBy :: "collection_definition option \<Rightarrow> any_metric list" where
  "offeredBy cd = getList offered (getPart WorkloadValidation cd)"

lemma filterMetrics_filters:
  "definedMetrics (Some (filterMetrics v cd)) = filter (versionFits v) (definedMetrics (Some cd))"
  "allOf (Some (filterMetrics v cd)) = filter (versionFits v) (allOf (Some cd))"
  by (cases "WorkloadValidation cd";
      simp add: filterMetrics_def definedMetrics_def allOf_def allMetrics_def checkedMetrics_def indexserverMetrics_def
        filter_sections)+

lemma Merge_checked:
  assumes "Merge v p s = Some cd"
  shows "mset (definedMetrics (Some cd)) = mset (filter (versionFits v)
    (definedMetrics p @ filter (addable (allOf p)) (getList mergeable (getPart WorkloadValidation s))))"
proof -
  from assms obtain w where w: "mergeWorkloadValidations (getPart WorkloadValidation p) (getPart WorkloadValidation s) = Some w"
    and cd: "cd = filterMetrics v \<lparr>WorkloadValidation = Some w\<rparr>"
    by (auto simp: Merge_def split: option.splits)
  show ?thesis
    unfolding cd filterMetrics_filters mset_filter mset_append
    by (simp add: mergeWorkload_adds [OF w] definedMetrics_def allOf_def)
qed

lemma Merge_all:
  assumes "Merge v p s = Some cd"
  shows "mset (allOf (Some cd)) = mset (filter (versionFits v) (allOf p @ filter (addable (allOf p)) (offeredBy s)))"
proof -
  from assms obtain w where w: "mergeWorkloadValidations (getPart WorkloadValidation p) (getPart WorkloadValidation s) = Some w"
    and cd: "cd = filterMetrics v \<lparr>WorkloadValidation = Some w\<rparr>"
    by (auto simp: Merge_def split: option.splits)
  have p: "mset (allOf p) = mset (getList checkedMetrics (getPart WorkloadValidation p))
      + mset (getList indexserverMetrics (getPart WorkloadValidation p))"
    unfolding allOf_def by (cases "getPart WorkloadValidation p") (simp_all add: allMetrics_def)
  have s: "mset (filter P (offeredBy s)) = mset (filter P (getList mergeable (getPart WorkloadValidation s)))
      + mset (filter P (getList indexserverMetrics (getPart WorkloadValidation s)))" for P
    unfolding offeredBy_def by (cases "getPart WorkloadValidation s") (simp_all add: offered_def)
  have "mset (allMetrics w) = mset (allOf p) + mset (filter (addable (allOf p)) (offeredBy s))"
    unfolding allMetrics_def [of w] mset_append mergeWorkload_adds [OF w] p s by (simp add: allOf_def add_ac)
  then show ?thesis
    unfolding cd filterMetrics_filters mset_filter mset_append by (simp add: allOf_def)
qed

lemma mergeable_sub: "mset (getList mergeable w) \<subseteq># mset (getList checkedMetrics w)"
proof (cases w)
  case (Some x)
  have parts: "mset (map AnyOS (getList sys_OsCommandMetrics sy)) \<subseteq># mset (getList systemPart sy)"
    "mset (map AnyEval (getList co_ConfigMetrics co)) + mset (map AnyOS (getList co_OsCommandMetrics co)) \<subseteq># mset (getList corosyncPart co)"
    "mset (map AnyEval (getList GlobalIniMetrics ha)) + mset (map AnyOS (getList ha_OsCommandMetrics ha)) \<subseteq># mset (getList hanaPart ha)"
    "mset (map AnyOS (getList nw_OsCommandMetrics nw)) \<subseteq># mset (getList netweaverPart nw)"
    "mset (map AnyOS (getList pm_OsCommandMetrics pm)) \<subseteq># mset (getList pacemakerPart pm)"
    "mset (map AnyOS (getList cu_OsCommandMetrics cu)) \<subseteq># mset (getList customPart cu)" for sy co ha nw pm cu
    by ((cases sy; simp add: systemPart_def), (cases co; simp add: corosyncPart_def), (cases ha; simp add: hanaPart_def),
      (cases nw; simp add: netweaverPart_def), (cases pm; simp add: pacemakerPart_def), (cases cu; simp add: customPart_def))
  have eq: "mset (mergeable x) = mset (map AnyOS (getList sys_OsCommandMetrics (ValidationSystem x)))
      + ((mset (map AnyEval (getList co_ConfigMetrics (ValidationCorosync x))) + mset (map AnyOS (getList co_OsCommandMetrics (ValidationCorosync x))))
      + ((mset (map AnyEval (getList GlobalIniMetrics (ValidationHana x))) + mset (map AnyOS (getList ha_OsCommandMetrics (ValidationHana x))))
      + (mset (map AnyOS (getList nw_OsCommandMetrics (ValidationNetweaver x)))
      + (mset (map AnyOS (getList pm_OsCommandMetrics (ValidationPacemaker x)))
      + mset (map AnyOS (getList cu_OsCommandMetrics (ValidationCustom x)))))))"
    by (simp add: mergeable_def)
  show ?thesis
    unfolding Some getList_simps eq checkedMetrics_def mset_append by (intro subset_mset.add_mono parts)
qed simp

section \<open>Properties\<close>

text \<open>C35. Over the metrics that the validator goes through, which are all but those of the index server's file, it
  accepts exactly the well-formed lists: each metric fits the version of the agent, has a type, a label and a
  well-formed body, and no two of them have the same key unless both name a vendor and the vendors differ. It counts no
  failure then, and at least one otherwise. A body is well formed also when its alternatives are an empty list. The
  comment of \<open>Validate\<close> promises type, label, uniqueness and rules for every metric of the definition; the metrics of
  the index server's file (\<open>indexserver_not_validated\<close>) and the empty alternatives (\<open>empty_alternatives_accepted\<close>) are
  the exceptions.\<close>

theorem Validate_accepts:
  "(v_valid (Validate compiles cd (NewValidator version)) \<longleftrightarrow> wellFormed version compiles (definedMetrics cd)) \<and>
   (failureCount (Validate compiles cd (NewValidator version)) = 0 \<longleftrightarrow> wellFormed version compiles (definedMetrics cd))"
  using Validate_after [of compiles cd version] by (auto simp: after_def)

text \<open>C36. A merge consists of the metrics of the primary definition and of those of the secondary, in the
  sections open to it, that clash with no metric of the primary, less the ones that need a newer agent.\<close>

theorem Merge_precedence:
  "(case Merge v p s of None \<Rightarrow> True
    | Some cd \<Rightarrow> mset (allOf (Some cd)) = mset (filter (versionFits v) (allOf p @ filter (addable (allOf p)) (offeredBy s))))"
  using Merge_all [of v p s] by (cases "Merge v p s") simp_all

text \<open>C34. Merging keeps validity: when the agent's definition and the local one are both valid for the version of
  the agent, so is their merge.\<close>

theorem Merge_keeps_validity:
  assumes "v_valid (Validate compiles p (NewValidator v))" and "v_valid (Validate compiles s (NewValidator v))"
  shows "case Merge v p s of None \<Rightarrow> True | Some cd \<Rightarrow> v_valid (Validate compiles (Some cd) (NewValidator v))"
proof (cases "Merge v p s")
  case (Some cd)
  let ?add = "filter (addable (allOf p)) (getList mergeable (getPart WorkloadValidation s))"
  have "wellFormed v compiles (definedMetrics p)" "wellFormed v compiles (definedMetrics s)"
    using assms by (simp_all add: Validate_valid)
  moreover have "mset ?add \<subseteq># mset (definedMetrics s)"
    unfolding definedMetrics_def using mergeable_sub [of "getPart WorkloadValidation s"]
    by (auto intro: subset_mset.trans [OF multiset_filter_subset])
  moreover have "\<forall>x \<in> set (definedMetrics p). \<forall>y \<in> set ?add. \<not> clash x y"
    by (cases "getPart WorkloadValidation p") (auto simp: addable_def definedMetrics_def allOf_def allMetrics_def)
  ultimately have "wellFormed v compiles (definedMetrics p @ ?add)"
    by (auto simp: wellFormed_append intro: wellFormed_sub)
  then have "wellFormed v compiles (definedMetrics (Some cd))"
    by (rule wellFormed_sub) (unfold Merge_checked [OF Some] mset_filter, rule multiset_filter_subset)
  then show ?thesis by (simp add: Some Validate_valid)
qed simp

text \<open>Example definitions with one operating system command.\<close>

definition emptyWorkload :: workload_validation where
  "emptyWorkload = \<lparr>ValidationSystem = None, ValidationCorosync = None, ValidationHana = None, ValidationNetweaver = None,
     ValidationPacemaker = None, ValidationCustom = None, wlm_Version = 1\<rparr>"

definition commandNamed :: "string \<Rightarrow> string \<Rightarrow> os_command_metric" where
  "commandNamed t l = \<lparr>MetricInfo = \<lparr>mi_type = t, mi_label = l, min_version = ''3.1''\<rparr>,
     Evaluation = AndEval \<lparr>EvalRules = [''eq 1''], IfTrue = Some (ValueFromLiteral ''yes''), IfFalse = None\<rparr>,
     OsVendor = OSVendor_UNSPECIFIED, OsCommand = ''uname''\<rparr>"

definition customOf :: "os_command_metric list \<Rightarrow> collection_definition option" where
  "customOf ms = Some \<lparr>WorkloadValidation = Some (emptyWorkload\<lparr>ValidationCustom := Some \<lparr>cu_OsCommandMetrics = ms\<rparr>\<rparr>)\<rparr>"

lemma definedMetrics_customOf: "definedMetrics (customOf ms) = map AnyOS ms"
  by (simp add: customOf_def definedMetrics_def checkedMetrics_def emptyWorkload_def customPart_def)

lemma commandNamed_wellFormed:
  "t \<noteq> [] \<Longrightarrow> l \<noteq> [] \<Longrightarrow> wellFormed ''3.16'' compiles [AnyOS (commandNamed t l)]"
  by (simp add: wellFormed_def commandNamed_def versionFits_def named_def ruleWellFormed_def valueFromRegex_def) code_simp

lemma Merge_customOf:
  assumes "mi_label (MetricInfo m) \<noteq> mi_label (MetricInfo n)" and "mi_type (MetricInfo m) = mi_type (MetricInfo n)"
  shows "Merge v (customOf [m]) (customOf [n]) = Some (filterMetrics v (the (customOf [m, n])))"
proof -
  have "metricKey (MetricInfo m) \<noteq> metricKey (MetricInfo n)" using assms by (simp add: metricKey_def)
  then have "\<not> clash (AnyOS m) (AnyOS n)" by (simp add: clash_def)
  then have "addable [AnyOS m] (AnyOS n)" by (simp add: addable_def)
  then have add: "added osVendor (tableOf [AnyOS m]) cu_OsCommandMetrics (Some \<lparr>cu_OsCommandMetrics = [n]\<rparr>) = [n]"
    by (simp add: added_def shouldMerge_any)
  show ?thesis
    by (simp add: Merge_def customOf_def mergeWorkloadValidations_def map_table emptyWorkload_def allMetrics_def checkedMetrics_def
        indexserverMetrics_def customPart_def mergeSystemValidations_def mergeCorosyncValidations_def mergeHanaValidations_def
        mergeNetweaverValidations_def mergePacemakerValidations_def mergeCustomValidations_def Let_def appendTo_def add)
      (simp add: added_def)
qed

lemma Merge_keeps_validity_witness:
  "\<exists>cd. Merge ''3.16'' (customOf [commandNamed ''t'' ''a'']) (customOf [commandNamed ''t'' ''b'']) = Some cd \<and>
     v_valid (Validate (\<lambda>_. True) (Some cd) (NewValidator ''3.16''))"
proof -
  let ?m = "commandNamed ''t'' ''a''" and ?n = "commandNamed ''t'' ''b''"
  have "Merge ''3.16'' (customOf [?m]) (customOf [?n]) = Some (filterMetrics ''3.16'' (the (customOf [?m, ?n])))"
    by (rule Merge_customOf) (simp_all add: commandNamed_def)
  moreover have "v_valid (Validate (\<lambda>_. True) (customOf [commandNamed ''t'' l]) (NewValidator ''3.16''))" if "l \<noteq> []" for l
    using that by (simp add: Validate_valid definedMetrics_customOf commandNamed_wellFormed)
  ultimately show ?thesis
    using Merge_keeps_validity [of "\<lambda>_. True" "customOf [?m]" "''3.16''" "customOf [?n]"] by simp
qed

text \<open>A local definition with a metric in a section that the agent's definition lacks is not added: the merge panics.\<close>

lemma Merge_panics_on_new_section:
  "Merge v (Some \<lparr>WorkloadValidation = Some emptyWorkload\<rparr>) (customOf [m]) = None"
  by (simp add: Merge_def customOf_def mergeWorkloadValidations_def map_table emptyWorkload_def allMetrics_def checkedMetrics_def
      indexserverMetrics_def mergeCustomValidations_def appendTo_def added_def shouldMerge_def tableOf_Nil Let_def split: option.splits)

text \<open>The metrics of the index server's file are never validated.\<close>

lemma indexserver_not_validated:
  assumes "ValidationHana w = Some h"
  shows "Validate compiles (Some \<lparr>WorkloadValidation = Some (w\<lparr>ValidationHana := Some (h\<lparr>IndexserverIniMetrics := ms\<rparr>)\<rparr>)\<rparr>) v
    = Validate compiles (Some \<lparr>WorkloadValidation = Some w\<rparr>) v"
  using assms by (simp add: Validate_def validateWorkloadValidation_def Let_def)

text \<open>A metric whose alternatives are the empty list has no rule and is accepted.\<close>

lemma empty_alternatives_accepted: "Evaluation m = OrEval [] \<Longrightarrow> validateMetricEvaluation compiles m v = v"
  by (simp add: validateMetricEvaluation_def)

text \<open>Two metrics with different types and labels can have the same key.\<close>

lemma keys_collide:
  "metricKey \<lparr>mi_type = ''a:b'', mi_label = ''c'', min_version = v\<rparr> = metricKey \<lparr>mi_type = ''a'', mi_label = ''b:c'', min_version = v\<rparr>"
  by (simp add: metricKey_def)

end
