(* ===== verification/CollectionLoad.thy ===== *)
theory CollectionLoad
  imports CollectionValid
begin

text \<open>
  Fetching, loading and distributing the definition of the metrics (\<open>collectiondefinition.go\<close>,
  \<open>gcs.go\<close>) and the subcommand \<open>validate\<close>. Cloud Storage, the file system, \<open>openssl\<close> and the JSON
  decoder are the environment.
\<close>

section \<open>The environment\<close>

datatype target_environment =
  ENV_UNSPECIFIED | PRODUCTION | STAGING | DEVELOPMENT | INTEGRATION | AUTOPUSH

datatype public_key = Pubkey | PubkeyDev

datatype load_call =
    Connect string
  | CreateTemp string
  | Download string string
  | WriteKey string public_key
  | Openssl string string string
  | StatFile string
  | ReadAt string nat
  | CloseFile string
  | RemoveFile string
  | ReadLocal string
  | BeatHeart
  | SendTo nat collection_definition

datatype local_file = NotExist | Unreadable | Contents string

record load_world =
  connected :: "(load_call, bool) env"
  tempName :: "(load_call, string option) env"
  downloaded :: "(load_call, bool) env"
  keyWritten :: "(load_call, bool) env"
  opensslStdOut :: "(load_call, string) env"
  fileSize :: "(load_call, nat option) env"
  bytesRead :: "(load_call, string option) env"
  localFile :: "(load_call, local_file) env"
  ignoredResult :: "(load_call, unit) env"
  unmarshal :: "string \<Rightarrow> collection_definition option"
  DefaultCollectionDefinition :: string
  compiles :: "string \<Rightarrow> bool"
  AgentVersion :: string

definition bucketEnvMap :: "target_environment \<Rightarrow> string" where
  "bucketEnvMap e =
     (case e of
        PRODUCTION \<Rightarrow> ''cloudsapdeploy''
      | STAGING \<Rightarrow> ''cloudsapdeploystaging''
      | DEVELOPMENT \<Rightarrow> ''sapagent-collection-definition-dev''
      | INTEGRATION \<Rightarrow> ''cloudsapdeployintegration''
      | _ \<Rightarrow> [])"

section \<open>Fetching\<close>

definition cdObject :: string where
  "cdObject = ''sapagent/collection-definition/collection_definition.json''"

definition signatureObject :: string where
  "signatureObject = ''sapagent/collection-definition/collection_definition.signature''"

text \<open>Deferred calls run when the body has returned, the last one first.\<close>

definition thenRemove :: "load_world \<Rightarrow> string \<Rightarrow> (load_call, 'a) prog \<Rightarrow> (load_call, 'a) prog" where
  "thenRemove w f body = do {
     r \<leftarrow> body;
     _ \<leftarrow> call (ignoredResult w) (CloseFile f);
     _ \<leftarrow> call (ignoredResult w) (RemoveFile f);
     ret r
   }"

definition stopUnless :: "bool \<Rightarrow> (load_call, 'a option) prog \<Rightarrow> (load_call, 'a option) prog" where
  "stopUnless b body = (if b then body else ret None)"

definition onSome :: "'b option \<Rightarrow> ('b \<Rightarrow> (load_call, 'a option) prog) \<Rightarrow> (load_call, 'a option) prog" where
  "onSome x body = (case x of None \<Rightarrow> ret None | Some y \<Rightarrow> body y)"

text \<open>The end of the file leaves the rest of the buffer zero; any other error is \<open>None\<close>.\<close>

definition readDefinition :: "load_world \<Rightarrow> string \<Rightarrow> (load_call, collection_definition option) prog" where
  "readDefinition w cdJSON = do {
     stat \<leftarrow> call (fileSize w) (StatFile cdJSON);
     onSome stat (\<lambda>size. do {
       b \<leftarrow> call (bytesRead w) (ReadAt cdJSON size);
       onSome b (\<lambda>bytes. ret (unmarshal w (take size bytes @ replicate (size - length bytes) (char_of (0::nat)))))
     })
   }"

definition verifyAndRead :: "load_world \<Rightarrow> string \<Rightarrow> string \<Rightarrow> string \<Rightarrow> string \<Rightarrow> (load_call, collection_definition option) prog" where
  "verifyAndRead w os cdJSON cdSignature cdPub =
     stopUnless (os \<noteq> ''windows'') (do {
       out \<leftarrow> call (opensslStdOut w) (Openssl cdPub cdSignature cdJSON);
       stopUnless (trimSpace out = ''Verified OK'') (readDefinition w cdJSON)
     })"

definition fetchFromGCS :: "load_world \<Rightarrow> string \<Rightarrow> target_environment \<Rightarrow> (load_call, collection_definition option) prog" where
  "fetchFromGCS w os e = do {
     ok \<leftarrow> call (connected w) (Connect (bucketEnvMap e));
     stopUnless ok (do {
       t1 \<leftarrow> call (tempName w) (CreateTemp ''collection-definition.*.json'');
       onSome t1 (\<lambda>cdJSON. thenRemove w cdJSON (do {
         d1 \<leftarrow> call (downloaded w) (Download cdJSON cdObject);
         stopUnless d1 (do {
           t2 \<leftarrow> call (tempName w) (CreateTemp ''collection-definition.*.signature'');
           onSome t2 (\<lambda>cdSignature. thenRemove w cdSignature (do {
             d2 \<leftarrow> call (downloaded w) (Download cdSignature signatureObject);
             stopUnless d2 (do {
               t3 \<leftarrow> call (tempName w) (CreateTemp ''public.*.pem'');
               onSome t3 (\<lambda>cdPub. do {
                 k \<leftarrow> call (keyWritten w) (WriteKey cdPub (if e = DEVELOPMENT \<or> e = INTEGRATION then PubkeyDev else Pubkey));
                 stopUnless k (thenRemove w cdPub (verifyAndRead w os cdJSON cdSignature cdPub))
               })
             })
           }))
         })
       }))
     })
   }"

section \<open>Loading\<close>

datatype load_error = NoAgentDefinition | BadLocalFile | ValidationError nat

datatype load_outcome = Loaded collection_definition | LoadFailed load_error | LoadPanic

record collection_options =
  FetchLatestConfig :: bool
  CollectMetrics :: bool
  RemoteCollection :: bool

record load_options =
  CollectionConfig :: collection_options
  Env :: target_environment
  fetchOSType :: string
  OSType :: string
  OptVersion :: string
  DisableFallback :: bool

text \<open>\<open>Inr None\<close> stands for a file that does not exist.\<close>

definition FromJSONFile :: "load_world \<Rightarrow> string \<Rightarrow> (load_call, (unit, collection_definition option) result) prog" where
  "FromJSONFile w path = do {
     f \<leftarrow> call (localFile w) (ReadLocal path);
     ret (case f of
            NotExist \<Rightarrow> Inr None
          | Unreadable \<Rightarrow> Inl ()
          | Contents s \<Rightarrow> (case unmarshal w s of None \<Rightarrow> Inl () | Some cd \<Rightarrow> Inr (Some cd)))
   }"

definition agentDefinition :: "load_world \<Rightarrow> load_options \<Rightarrow> (load_call, collection_definition option) prog" where
  "agentDefinition w opts = do {
     cd \<leftarrow> (if FetchLatestConfig (CollectionConfig opts) then fetchFromGCS w (fetchOSType opts) (Env opts) else ret None);
     ret (if cd = None \<and> \<not> DisableFallback opts then unmarshal w (DefaultCollectionDefinition w) else cd)
   }"

definition mergeAndValidate ::
  "load_world \<Rightarrow> string \<Rightarrow> collection_definition \<Rightarrow> collection_definition option \<Rightarrow> load_outcome" where
  "mergeAndValidate w version agentCD localCD =
     (case Merge (AgentVersion w) (Some agentCD) localCD of
        None \<Rightarrow> LoadPanic
      | Some cd \<Rightarrow>
          (let v = Validate (compiles w) (Some cd) (NewValidator version)
           in if v_valid v then Loaded cd else LoadFailed (ValidationError (failureCount v))))"

definition configPath :: "string \<Rightarrow> string" where
  "configPath os = (if os = ''windows''
     then ''C:'' @ [CHR 0x5C] @ ''Program Files'' @ [CHR 0x5C] @ ''Google'' @ [CHR 0x5C] @ ''google-cloud-sap-agent'' @ [CHR 0x5C]
       @ ''conf'' @ [CHR 0x5C] @ ''collection-definition.json''
     else ''/etc/google-cloud-sap-agent/collection-definition.json'')"

definition Load :: "load_world \<Rightarrow> load_options \<Rightarrow> (load_call, load_outcome) prog" where
  "Load w opts = do {
     agentCD \<leftarrow> agentDefinition w opts;
     case agentCD of
       None \<Rightarrow> ret (LoadFailed NoAgentDefinition)
     | Some a \<Rightarrow> do {
         l \<leftarrow> FromJSONFile w (configPath (OSType opts));
         ret (case l of
                Inl _ \<Rightarrow> LoadFailed BadLocalFile
              | Inr localCD \<Rightarrow> mergeAndValidate w (OptVersion opts) a localCD)
       }
   }"

section \<open>Distribution\<close>

fun sendAll :: "load_world \<Rightarrow> nat list \<Rightarrow> collection_definition \<Rightarrow> (load_call, unit) prog" where
  "sendAll w [] cd = ret ()"
| "sendAll w (ch # chs) cd = do { _ \<leftarrow> call (ignoredResult w) (SendTo ch cd); sendAll w chs cd }"

text \<open>\<open>False\<close> is a panic, which ends the routine.\<close>

definition loadAndBroadcast :: "load_world \<Rightarrow> nat list \<Rightarrow> load_options \<Rightarrow> (load_call, bool) prog" where
  "loadAndBroadcast w chs opts = do {
     _ \<leftarrow> call (ignoredResult w) BeatHeart;
     r \<leftarrow> Load w (opts\<lparr>DisableFallback := True\<rparr>);
     case r of
       Loaded cd \<Rightarrow> do { _ \<leftarrow> sendAll w chs cd; ret True }
     | LoadFailed _ \<Rightarrow> ret True
     | LoadPanic \<Rightarrow> ret False
   }"

datatype refresh_event = FetchTick | HeartbeatTick | RefreshDone

fun periodicRefresh :: "load_world \<Rightarrow> nat list \<Rightarrow> load_options \<Rightarrow> refresh_event list \<Rightarrow> (load_call, bool) prog" where
  "periodicRefresh w chs opts [] = ret True"
| "periodicRefresh w chs opts (RefreshDone # es) = ret True"
| "periodicRefresh w chs opts (HeartbeatTick # es) =
     do { _ \<leftarrow> call (ignoredResult w) BeatHeart; periodicRefresh w chs opts es }"
| "periodicRefresh w chs opts (FetchTick # es) =
     do { ok \<leftarrow> loadAndBroadcast w chs opts; if ok then periodicRefresh w chs opts es else ret False }"

text \<open>The interval of the refresh in seconds.\<close>

definition refreshInterval :: "load_options \<Rightarrow> int" where
  "refreshInterval opts = (if Env opts = INTEGRATION then 5 * 60 else 24 * 3600)"

text \<open>The definition to start with, and whether the refresh is started. \<open>None\<close> is a panic.\<close>

definition Start :: "load_world \<Rightarrow> load_options \<Rightarrow> (load_call, (collection_definition option \<times> bool) option) prog" where
  "Start w opts =
     (let c = CollectionConfig opts
      in if \<not> CollectMetrics c \<and> \<not> RemoteCollection c then ret (Some (None, False))
         else do {
           r \<leftarrow> Load w opts;
           ret (case r of
                  LoadPanic \<Rightarrow> None
                | LoadFailed _ \<Rightarrow> Some (None, False)
                | Loaded cd \<Rightarrow> Some (Some cd, FetchLatestConfig c))
         })"

section \<open>The subcommand validate\<close>

datatype validate_status = ValidateSuccess | ValidateFailure

definition validateWorkloadCollectionHandler :: "load_world \<Rightarrow> string \<Rightarrow> (load_call, validate_status \<times> bool option) prog" where
  "validateWorkloadCollectionHandler w path = do {
     l \<leftarrow> FromJSONFile w path;
     ret (case l of
            Inl _ \<Rightarrow> (ValidateFailure, None)
          | Inr cd \<Rightarrow> (ValidateSuccess, Some (v_valid (Validate (compiles w) cd (NewValidator (AgentVersion w))))))
   }"

definition validateHandler :: "load_world \<Rightarrow> string \<Rightarrow> (load_call, validate_status \<times> bool option) prog" where
  "validateHandler w WorkloadCollection =
     (if WorkloadCollection \<noteq> [] then validateWorkloadCollectionHandler w WorkloadCollection
      else ret (ValidateSuccess, None))"

section \<open>Lemmas\<close>

lemma wp_thenRemove: "wp (thenRemove w f body) Q log = wp body (\<lambda>r log'. Q r (RemoveFile f # CloseFile f # log')) log"
  unfolding thenRemove_def wp_bind
  by (rule arg_cong [where f = "\<lambda>Q. wp body Q log"], intro ext) (simp add: wp_rules)

lemma thenRemove_wp: "wp body (\<lambda>r log'. Q r (RemoveFile f # CloseFile f # log')) log \<Longrightarrow> wp (thenRemove w f body) Q log"
  by (simp add: wp_thenRemove)

lemma stopUnless_wp: "(\<not> b \<Longrightarrow> Q None log) \<Longrightarrow> (b \<Longrightarrow> wp body Q log) \<Longrightarrow> wp (stopUnless b body) Q log"
  by (simp add: stopUnless_def wp_rules)

lemma onSome_wp: "(x = None \<Longrightarrow> Q None log) \<Longrightarrow> (\<And>y. x = Some y \<Longrightarrow> wp (body y) Q log) \<Longrightarrow> wp (onSome x body) Q log"
  by (simp add: onSome_def wp_rules split: option.splits)

lemma call_wp: "wp (f (env log c)) Q (c # log) \<Longrightarrow> wp (State_Monad.bind (call env c) f) Q log"
  by (simp add: wp_rules)

lemma return_wp: "Q x log \<Longrightarrow> wp (ret x) Q log"
  by (simp add: wp_rules)

lemmas fetch_rules = thenRemove_wp stopUnless_wp onSome_wp call_wp return_wp

text \<open>\<open>inFetch P log\<close>: at some moment since the last connection to a bucket, \<open>P\<close> held of the calls
  until then.\<close>

primrec inFetch :: "(load_call \<Rightarrow> load_call list \<Rightarrow> bool) \<Rightarrow> load_call list \<Rightarrow> bool" where
  "inFetch P [] \<longleftrightarrow> False"
| "inFetch P (c # log) \<longleftrightarrow> P c log \<or> (case c of Connect b \<Rightarrow> False | _ \<Rightarrow> inFetch P log)"

text \<open>In the present fetch: the bucket it is from, an object was downloaded to a file, a key was written to a file, a
  file was verified, with the downloaded signature and the key of the environment, and a definition was
  read from a verified file.\<close>

definition fromBucket :: "load_world \<Rightarrow> target_environment \<Rightarrow> load_call list \<Rightarrow> bool" where
  "fromBucket w e log \<longleftrightarrow> inFetch (\<lambda>c l. c = Connect (bucketEnvMap e) \<and> connected w l c) log"

definition downloadedTo :: "load_world \<Rightarrow> string \<Rightarrow> string \<Rightarrow> load_call list \<Rightarrow> bool" where
  "downloadedTo w f obj log \<longleftrightarrow> inFetch (\<lambda>c l. c = Download f obj \<and> downloaded w l c) log"

definition keyFor :: "target_environment \<Rightarrow> public_key" where
  "keyFor e = (if e = DEVELOPMENT \<or> e = INTEGRATION then PubkeyDev else Pubkey)"

definition hasKey :: "load_world \<Rightarrow> string \<Rightarrow> target_environment \<Rightarrow> load_call list \<Rightarrow> bool" where
  "hasKey w f e log \<longleftrightarrow> inFetch (\<lambda>c l. c = WriteKey f (keyFor e) \<and> keyWritten w l c) log"

definition verifiedFile :: "load_world \<Rightarrow> target_environment \<Rightarrow> string \<Rightarrow> load_call list \<Rightarrow> bool" where
  "verifiedFile w e f log \<longleftrightarrow> inFetch (\<lambda>c l. \<exists>pub sig. c = Openssl pub sig f \<and>
     trimSpace (opensslStdOut w l c) = ''Verified OK'' \<and> fromBucket w e l \<and> downloadedTo w f cdObject l \<and>
     downloadedTo w sig signatureObject l \<and> hasKey w pub e l) log"

definition contentsOf :: "nat \<Rightarrow> string \<Rightarrow> string" where
  "contentsOf n bytes = take n bytes @ replicate (n - length bytes) (char_of (0::nat))"

definition signed :: "load_world \<Rightarrow> target_environment \<Rightarrow> collection_definition \<Rightarrow> load_call list \<Rightarrow> bool" where
  "signed w e a log \<longleftrightarrow> inFetch (\<lambda>c l. \<exists>f n bytes. c = ReadAt f n \<and> bytesRead w l c = Some bytes \<and>
     unmarshal w (contentsOf n bytes) = Some a \<and> verifiedFile w e f l) log"

text \<open>What the local file was found to contain.\<close>

definition localFound :: "load_world \<Rightarrow> string \<Rightarrow> collection_definition option \<Rightarrow> load_call list \<Rightarrow> bool" where
  "localFound w path d log \<longleftrightarrow> inFetch (\<lambda>c l. c = ReadLocal path \<and>
     (case localFile w l c of NotExist \<Rightarrow> d = None | Unreadable \<Rightarrow> False | Contents s \<Rightarrow> d \<noteq> None \<and> unmarshal w s = d)) log"

text \<open>A definition that may be sent: the merge of a signed one with the local one, and well formed.\<close>

definition sendable :: "load_world \<Rightarrow> load_options \<Rightarrow> collection_definition \<Rightarrow> load_call list \<Rightarrow> bool" where
  "sendable w opts cd log \<longleftrightarrow>
     (\<exists>a d. signed w (Env opts) a log \<and> localFound w (configPath (OSType opts)) d log \<and>
        Merge (AgentVersion w) (Some a) d = Some cd) \<and>
     wellFormed (OptVersion opts) (compiles w) (definedMetrics (Some cd))"

fun isSend :: "load_call \<Rightarrow> bool" where
  "isSend (SendTo _ _) = True"
| "isSend _ = False"

primrec sendsChecked :: "load_world \<Rightarrow> load_options \<Rightarrow> load_call list \<Rightarrow> bool" where
  "sendsChecked w opts [] \<longleftrightarrow> True"
| "sendsChecked w opts (c # log) \<longleftrightarrow> sendsChecked w opts log \<and> (case c of SendTo _ cd \<Rightarrow> sendable w opts cd log | _ \<Rightarrow> True)"

lemma sendsChecked_silent: "\<not> isSend c \<Longrightarrow> sendsChecked w opts (c # log) = sendsChecked w opts log"
  by (cases c) simp_all

text \<open>What happened in a fetch is kept by every call but a connection.\<close>

fun isConnect :: "load_call \<Rightarrow> bool" where
  "isConnect (Connect _) = True"
| "isConnect _ = False"

lemma inFetch_kept: "inFetch P log \<Longrightarrow> \<not> isConnect c \<Longrightarrow> inFetch P (c # log)"
  by (cases c) simp_all

lemma inFetch_now: "P c log \<Longrightarrow> inFetch P (c # log)"
  by simp

lemma fetch_kept:
  assumes "\<not> isConnect c"
  shows "fromBucket w e log \<Longrightarrow> fromBucket w e (c # log)" "downloadedTo w f obj log \<Longrightarrow> downloadedTo w f obj (c # log)"
    "hasKey w f e log \<Longrightarrow> hasKey w f e (c # log)" "verifiedFile w e f log \<Longrightarrow> verifiedFile w e f (c # log)"
    "signed w e a log \<Longrightarrow> signed w e a (c # log)" "localFound w p d log \<Longrightarrow> localFound w p d (c # log)"
  unfolding fromBucket_def downloadedTo_def hasKey_def verifiedFile_def signed_def localFound_def
  by (simp_all only: inFetch_kept [OF _ assms])

lemma sendable_kept:
  assumes "sendable w opts cd log" "\<not> isConnect c"
  shows "sendable w opts cd (c # log)"
proof -
  obtain a d where "signed w (Env opts) a log" "localFound w (configPath (OSType opts)) d log"
      "Merge (AgentVersion w) (Some a) d = Some cd" "wellFormed (OptVersion opts) (compiles w) (definedMetrics (Some cd))"
    using assms(1) unfolding sendable_def by blast
  then show ?thesis unfolding sendable_def using fetch_kept(5,6) [OF assms(2)] by blast
qed

lemma fetch_now:
  "connected w log (Connect (bucketEnvMap e)) \<Longrightarrow> fromBucket w e (Connect (bucketEnvMap e) # log)"
  "downloaded w log (Download f obj) \<Longrightarrow> downloadedTo w f obj (Download f obj # log)"
  "keyWritten w log (WriteKey f (keyFor e)) \<Longrightarrow> hasKey w f e (WriteKey f (keyFor e) # log)"
  by (simp_all add: fromBucket_def downloadedTo_def hasKey_def)

lemma verifiedFile_now:
  "trimSpace (opensslStdOut w log (Openssl pub sig f)) = ''Verified OK'' \<Longrightarrow> fromBucket w e log \<Longrightarrow> downloadedTo w f cdObject log \<Longrightarrow>
   downloadedTo w sig signatureObject log \<Longrightarrow> hasKey w pub e log \<Longrightarrow> verifiedFile w e f (Openssl pub sig f # log)"
  unfolding verifiedFile_def by (rule inFetch_now) auto

lemma signed_now:
  "bytesRead w log (ReadAt f n) = Some bytes \<Longrightarrow> unmarshal w (contentsOf n bytes) = Some a \<Longrightarrow> verifiedFile w e f log \<Longrightarrow>
   signed w e a (ReadAt f n # log)"
  unfolding signed_def by (rule inFetch_now) auto

text \<open>Reading a verified file.\<close>

lemma readDefinition_signed:
  assumes "verifiedFile w e f log" "sendsChecked w opts log"
  shows "wp (readDefinition w f) (\<lambda>r log'. sendsChecked w opts log' \<and> (\<forall>a. r = Some a \<longrightarrow> signed w e a log')) log"
proof -
  have "verifiedFile w e f (StatFile f # log)" using assms(1) by (intro fetch_kept) simp_all
  then show ?thesis
    unfolding readDefinition_def
    by (intro fetch_rules) (use assms(2) in \<open>auto simp: contentsOf_def intro!: signed_now\<close>)
qed

lemma verifyAndRead_signed:
  assumes "fromBucket w e log" "downloadedTo w f cdObject log" "downloadedTo w sig signatureObject log" "hasKey w pub e log"
    and "sendsChecked w opts log"
  shows "wp (verifyAndRead w os f sig pub) (\<lambda>r log'. sendsChecked w opts log' \<and> (\<forall>a. r = Some a \<longrightarrow> signed w e a log')) log"
  unfolding verifyAndRead_def
  by (intro fetch_rules readDefinition_signed verifiedFile_now) (use assms in auto)

lemma removed_signed:
  assumes "wp body (\<lambda>r log'. sendsChecked w opts log' \<and> (\<forall>a. r = Some a \<longrightarrow> signed w e a log')) log"
  shows "wp (thenRemove w f body) (\<lambda>r log'. sendsChecked w opts log' \<and> (\<forall>a. r = Some a \<longrightarrow> signed w e a log')) log"
  by (rule thenRemove_wp, rule wp_mono [OF assms]) (auto intro!: fetch_kept)

lemma fetch_signed:
  assumes "sendsChecked w opts log"
  shows "wp (fetchFromGCS w os e) (\<lambda>r log'. sendsChecked w opts log' \<and> (\<forall>a. r = Some a \<longrightarrow> signed w e a log')) log"
  unfolding fetchFromGCS_def keyFor_def [symmetric]
  by (intro removed_signed stopUnless_wp onSome_wp call_wp verifyAndRead_signed)
    (use assms in \<open>auto intro!: fetch_now fetch_kept\<close>)

lemma agentDefinition_signed:
  assumes "sendsChecked w opts log"
  shows "wp (agentDefinition w (opts\<lparr>DisableFallback := True\<rparr>))
    (\<lambda>r log'. sendsChecked w opts log' \<and> (\<forall>a. r = Some a \<longrightarrow> signed w (Env opts) a log')) log"
  unfolding agentDefinition_def wp_bind wp_if
  using fetch_signed [OF assms] assms by (simp add: wp_rules)

lemma Loaded_wellFormed:
  "mergeAndValidate w version a l = Loaded cd \<Longrightarrow>
   Merge (AgentVersion w) (Some a) l = Some cd \<and> wellFormed version (compiles w) (definedMetrics (Some cd))"
  by (auto simp: mergeAndValidate_def Let_def Validate_valid split: option.splits if_splits)

lemma FromJSONFile_found:
  "wp (FromJSONFile w path) (\<lambda>r log'. log' = ReadLocal path # log \<and> (\<forall>d. r = Inr d \<longrightarrow> localFound w path d log')) log"
  by (auto simp: FromJSONFile_def wp_rules localFound_def split: local_file.splits option.splits)

lemma Load_checked:
  assumes "sendsChecked w opts log"
  shows "wp (Load w (opts\<lparr>DisableFallback := True\<rparr>)) (\<lambda>r log'. sendsChecked w opts log' \<and>
    (\<forall>cd. r = Loaded cd \<longrightarrow> sendable w opts cd log')) log"
  unfolding Load_def wp_bind
proof (rule wp_mono [OF agentDefinition_signed [OF assms]], goal_cases)
  case (1 r log1)
  show ?case
  proof (cases r)
    case None
    with 1 show ?thesis by (simp add: wp_return)
  next
    case (Some a)
    show ?thesis
      unfolding Some option.case wp_bind
    proof (rule wp_mono [OF FromJSONFile_found], goal_cases)
      case *: (1 l log2)
      with 1 Some have "sendsChecked w opts log2" "signed w (Env opts) a log2" by (auto intro: fetch_kept)
      with * show ?case
        by (auto simp: wp_return sendable_def dest!: Loaded_wellFormed split: sum.splits)
    qed
  qed
qed

lemma sendAll_checked:
  "sendsChecked w opts log \<Longrightarrow> sendable w opts cd log \<Longrightarrow> wp (sendAll w chs cd) (\<lambda>_. sendsChecked w opts) log"
proof (induction chs arbitrary: log)
  case (Cons ch chs)
  then have "sendable w opts cd (SendTo ch cd # log)" by (simp add: sendable_kept)
  with Cons show ?case by (simp add: wp_rules)
qed (simp add: wp_rules)

lemma loadAndBroadcast_checked:
  assumes "sendsChecked w opts log"
  shows "wp (loadAndBroadcast w chs opts) (\<lambda>_. sendsChecked w opts) log"
  unfolding loadAndBroadcast_def wp_bind wp_call
  by (rule wp_mono [OF Load_checked])
    (auto simp: assms wp_rules sendAll_checked split: load_outcome.splits)

section \<open>Properties\<close>

text \<open>C10. Whatever Cloud Storage, the file system and the local definition contain, every definition that the periodic
  refresh sends to the collectors is the merge of a signed definition with the local one, and well formed for the version
  of the agent. Signed means: read from a file that was downloaded in the same fetch from the bucket of the environment
  and that \<open>openssl\<close> had verified before, with the signature downloaded in this fetch and the public key of the
  environment. The local definition is not signed; a merge takes only metrics from it that clash with none of the
  signed one.\<close>

theorem refresh_sends_checked:
  "wp (periodicRefresh w chs opts es) (\<lambda>_. sendsChecked w opts) []"
proof -
  have "wp (periodicRefresh w chs opts es) (\<lambda>_. sendsChecked w opts) log"
    if "sendsChecked w opts log" for log
    using that
  proof (induction es arbitrary: log rule: periodicRefresh.induct)
    case (4 w chs opts es)
    then show ?case
      by (simp add: wp_bind, intro wp_mono [OF loadAndBroadcast_checked]) (auto simp: wp_rules)
  qed (simp_all add: wp_rules)
  then show ?thesis by simp
qed

text \<open>The temporary files that exist, the latest first.\<close>

definition tempStep :: "load_world \<Rightarrow> load_call list \<Rightarrow> load_call \<Rightarrow> string multiset \<Rightarrow> string multiset" where
  "tempStep w log c fs =
     (case c of
        CreateTemp _ \<Rightarrow> (case tempName w log c of None \<Rightarrow> fs | Some f \<Rightarrow> add_mset f fs)
      | RemoveFile f \<Rightarrow> fs - {#f#}
      | _ \<Rightarrow> fs)"

definition tempFiles :: "load_world \<Rightarrow> load_call list \<Rightarrow> string multiset" where
  "tempFiles w log = readLog (tempStep w) {#} log"

definition keyWriteFailed :: "load_world \<Rightarrow> load_call list \<Rightarrow> bool" where
  "keyWriteFailed w log = readLog (\<lambda>log c b. case c of WriteKey _ _ \<Rightarrow> \<not> keyWritten w log c | _ \<Rightarrow> b) False log"

lemma tempFiles_Cons: "tempFiles w (c # log) = tempStep w log c (tempFiles w log)"
  by (simp add: tempFiles_def)

text \<open>A fetch removes its temporary files, except the one of the key when writing the key fails.\<close>

lemma fetch_removes_files:
  "wp (fetchFromGCS w os e) (\<lambda>_ log'. tempFiles w log' = tempFiles w log \<or>
     keyWriteFailed w log' \<and> (\<exists>f. tempFiles w log' = add_mset f (tempFiles w log))) log"
  unfolding fetchFromGCS_def verifyAndRead_def readDefinition_def keyWriteFailed_def
  by (intro fetch_rules) (simp_all add: tempFiles_Cons tempStep_def add_mset_commute)

text \<open>A definition file that does not exist is reported as valid.\<close>

lemma missing_file_is_valid:
  "localFile w [] (ReadLocal path) = NotExist \<Longrightarrow> path \<noteq> [] \<Longrightarrow>
   run_state (validateHandler w path) [] = ((ValidateSuccess, Some True), [ReadLocal path])"
  by (simp add: validateHandler_def validateWorkloadCollectionHandler_def FromJSONFile_def State_Monad.bind_def
      Validate_valid definedMetrics_def wellFormed_def)

end
