(* ===== verification/Configuration.thy ===== *)
theory Configuration
  imports GoStrings Prelude
begin

text \<open>
  The configuration of the agent (\<open>internal/configuration\<close>): reading it and merging it with the
  Parameter Manager, defaults, the queries of the HANA monitoring and their validation, and the creation of
  the default file. Of the messages, the fields the package reads or sets are modelled; a pointer to a
  message or to a wrapped value is an option. Decoding JSON, \<open>proto.Merge\<close> and the Parameter Manager
  are the environment.
\<close>

section \<open>Data\<close>

datatype metric_type = METRIC_UNSPECIFIED | METRIC_LABEL | METRIC_GAUGE | METRIC_CUMULATIVE | METRIC_OTHER int
datatype value_type = VALUE_UNSPECIFIED | VALUE_BOOL | VALUE_INT64 | VALUE_STRING | VALUE_DOUBLE | VALUE_OTHER int

record hana_column =
  col_Name :: string
  MetricType :: metric_type
  ValueType :: value_type

record hm_query =
  q_Enabled :: bool
  q_Name :: string
  q_Sql :: string
  q_Columns :: "hana_column list"
  RunOn :: int

record hana_instance =
  hi_Name :: string
  EnableSsl :: bool
  HostNameInCertificate :: string
  TlsRootCaFile :: string

text \<open>Durations are in seconds.\<close>

record hm_config =
  SampleIntervalSec :: int
  QueryTimeoutSec :: int
  ExecutionThreads :: int
  HanaInstances :: "hana_instance list"
  Queries :: "hm_query list"
  hm_Enabled :: bool
  ConnectionTimeout :: "int option"
  MaxConnectRetries :: "int option"

record hana_metrics_config =
  HanaDbUser :: string
  HanaDbPassword :: string
  HanaDbPasswordSecretName :: string
  HdbuserstoreKey :: string

datatype cd_environment =
  TARGET_UNSPECIFIED | TARGET_PRODUCTION | TARGET_STAGING | TARGET_DEVELOPMENT | TARGET_INTEGRATION | TARGET_AUTOPUSH

record wlm_cd_config =
  cd_FetchLatestConfig :: "bool option"
  ConfigTargetEnvironment :: cd_environment

record coll_config =
  CollectWorkloadValidationMetrics :: "bool option"
  WorkloadValidationMetricsFrequency :: int
  WorkloadValidationDbMetricsFrequency :: int
  CollectProcessMetrics :: bool
  ProcessMetricsFrequency :: int
  SlowProcessMetricsFrequency :: int
  CollectAgentMetrics :: bool
  AgentMetricsFrequency :: int
  AgentHealthFrequency :: int
  cc_HeartbeatFrequency :: int
  cc_MissedHeartbeatThreshold :: int
  SapSystemDiscovery :: "bool option"
  DataWarehouseEndpoint :: string
  WorkloadValidationCollectionDefinition :: "wlm_cd_config option"
  WorkloadValidationRemoteCollection :: bool
  HanaMetricsConfig :: "hana_metrics_config option"
  WorkloadValidationDbMetricsConfig :: "hana_metrics_config option"

record discovery_config =
  EnableDiscovery :: "bool option"
  SystemDiscoveryUpdateFrequency :: "int option"
  SapInstancesUpdateFrequency :: "int option"
  EnableWorkloadDiscovery :: "bool option"

record pm_config =
  pm_Project :: string
  pm_Location :: string
  ParameterName :: string
  ParameterVersion :: string

datatype log_level = LEVEL_UNDEFINED | LEVEL_DEBUG | LEVEL_INFO | LEVEL_WARNING | LEVEL_ERROR | LEVEL_OTHER int
datatype zap_level = DebugLevel | InfoLevel | WarnLevel | ErrorLevel

record configuration =
  ProvideSapHostAgentMetrics :: "bool option"
  BareMetal :: bool
  ServiceEndpointOverride :: string
  LogLevel :: log_level
  CollectionConfiguration :: "coll_config option"
  CloudProperties :: "string option"
  AgentProperties :: "(string \<times> string) option"
  HanaMonitoringConfiguration :: "hm_config option"
  LogToCloud :: "bool option"
  DiscoveryConfiguration :: "discovery_config option"
  SupportConfiguration :: bool
  ParameterManagerConfig :: "pm_config option"

text \<open>Messages without content.\<close>

definition emptyCollection :: coll_config where
  "emptyCollection = \<lparr>CollectWorkloadValidationMetrics = None, WorkloadValidationMetricsFrequency = 0,
     WorkloadValidationDbMetricsFrequency = 0, CollectProcessMetrics = False, ProcessMetricsFrequency = 0,
     SlowProcessMetricsFrequency = 0, CollectAgentMetrics = False, AgentMetricsFrequency = 0, AgentHealthFrequency = 0,
     cc_HeartbeatFrequency = 0, cc_MissedHeartbeatThreshold = 0, SapSystemDiscovery = None, DataWarehouseEndpoint = [],
     WorkloadValidationCollectionDefinition = None, WorkloadValidationRemoteCollection = False,
     HanaMetricsConfig = None, WorkloadValidationDbMetricsConfig = None\<rparr>"

definition emptyDiscovery :: discovery_config where
  "emptyDiscovery = \<lparr>EnableDiscovery = None, SystemDiscoveryUpdateFrequency = None,
     SapInstancesUpdateFrequency = None, EnableWorkloadDiscovery = None\<rparr>"

definition emptyConfiguration :: configuration where
  "emptyConfiguration = \<lparr>ProvideSapHostAgentMetrics = None, BareMetal = False, ServiceEndpointOverride = [],
     LogLevel = LEVEL_UNDEFINED, CollectionConfiguration = None, CloudProperties = None, AgentProperties = None,
     HanaMonitoringConfiguration = None, LogToCloud = None, DiscoveryConfiguration = None,
     SupportConfiguration = False, ParameterManagerConfig = None\<rparr>"

definition AgentName :: string where "AgentName = ''sapagent''"
definition AgentVersionString :: string where "AgentVersionString = ''3.16''"

definition UserAgent :: "string \<Rightarrow> string" where
  "UserAgent AgentBuildChange = ''sap-core-eng/'' @ AgentName @ ''/'' @ AgentVersionString @ ''.'' @ AgentBuildChange"

definition StorageAgentName :: string where
  "StorageAgentName = ''google-cloud-sap-agent/'' @ AgentVersionString @ '' (GPN: Agent for SAP)''"

definition LinuxConfigPath :: string where
  "LinuxConfigPath = ''/etc/google-cloud-sap-agent/configuration.json''"

definition WindowsConfigPath :: string where
  "WindowsConfigPath = ''C:'' @ [CHR 0x5C] @ ''Program Files'' @ [CHR 0x5C] @ ''Google'' @ [CHR 0x5C] @ ''google-cloud-sap-agent''
     @ [CHR 0x5C] @ ''conf'' @ [CHR 0x5C] @ ''configuration.json''"

definition Path :: "string \<Rightarrow> string" where
  "Path os = (if os = ''windows'' then WindowsConfigPath else LinuxConfigPath)"

definition LogLevelToZapcore :: "log_level \<Rightarrow> zap_level" where
  "LogLevelToZapcore level =
     (case level of
        LEVEL_DEBUG \<Rightarrow> DebugLevel
      | LEVEL_INFO \<Rightarrow> InfoLevel
      | LEVEL_WARNING \<Rightarrow> WarnLevel
      | LEVEL_ERROR \<Rightarrow> ErrorLevel
      | _ \<Rightarrow> InfoLevel)"

section \<open>Defaults\<close>

definition orDefault :: "bool \<Rightarrow> int \<Rightarrow> int \<Rightarrow> int" where
  "orDefault collect d x = (if collect \<and> x \<le> 0 then d else x)"

definition orNew :: "'a \<Rightarrow> 'a option \<Rightarrow> 'a option" where
  "orNew d x = (case x of None \<Rightarrow> Some d | Some _ \<Rightarrow> x)"

definition isTrue :: "bool option \<Rightarrow> bool" where
  "isTrue x = (x = Some True)"

definition defaultCdConfig :: "wlm_cd_config option \<Rightarrow> wlm_cd_config" where
  "defaultCdConfig x =
     (let c = (case x of None \<Rightarrow> \<lparr>cd_FetchLatestConfig = Some True, ConfigTargetEnvironment = TARGET_PRODUCTION\<rparr> | Some c \<Rightarrow> c);
          c1 = (if ConfigTargetEnvironment c = TARGET_UNSPECIFIED then c\<lparr>ConfigTargetEnvironment := TARGET_PRODUCTION\<rparr> else c)
      in if cd_FetchLatestConfig c1 = None then c1\<lparr>cd_FetchLatestConfig := Some True\<rparr> else c1)"

text \<open>\<open>endpoint\<close> is the endpoint of the data warehouse in the present universe.\<close>

definition applyDefaultCollectionConfiguration :: "string \<Rightarrow> coll_config option \<Rightarrow> coll_config" where
  "applyDefaultCollectionConfiguration endpoint configFromFile =
     (let cc = (case configFromFile of None \<Rightarrow> emptyCollection | Some c \<Rightarrow> c);
          wlm = orNew True (CollectWorkloadValidationMetrics cc);
          process = CollectProcessMetrics cc; agent = CollectAgentMetrics cc
      in cc\<lparr>
        CollectWorkloadValidationMetrics := wlm,
        WorkloadValidationMetricsFrequency := orDefault (isTrue wlm) 300 (WorkloadValidationMetricsFrequency cc),
        WorkloadValidationDbMetricsFrequency := orDefault (isTrue wlm) 3600 (WorkloadValidationDbMetricsFrequency cc),
        ProcessMetricsFrequency := orDefault process 30 (ProcessMetricsFrequency cc),
        SlowProcessMetricsFrequency := orDefault process 120 (SlowProcessMetricsFrequency cc),
        AgentMetricsFrequency := orDefault agent 60 (AgentMetricsFrequency cc),
        AgentHealthFrequency := orDefault agent 60 (AgentHealthFrequency cc),
        cc_HeartbeatFrequency := orDefault agent 60 (cc_HeartbeatFrequency cc),
        cc_MissedHeartbeatThreshold := orDefault agent 10 (cc_MissedHeartbeatThreshold cc),
        DataWarehouseEndpoint := (if DataWarehouseEndpoint cc = [] then endpoint else DataWarehouseEndpoint cc),
        WorkloadValidationCollectionDefinition := Some (defaultCdConfig (WorkloadValidationCollectionDefinition cc))\<rparr>)"

definition applyDefaultHMConfiguration :: "hm_config option \<Rightarrow> hm_config option" where
  "applyDefaultHMConfiguration configFromFile =
     map_option (\<lambda>h. h\<lparr>
       QueryTimeoutSec := (if QueryTimeoutSec h \<le> 0 then 300 else QueryTimeoutSec h),
       SampleIntervalSec := (if SampleIntervalSec h < 5 then 300 else SampleIntervalSec h),
       ExecutionThreads := (if ExecutionThreads h \<le> 0 then 10 else ExecutionThreads h),
       ConnectionTimeout := orNew 120 (ConnectionTimeout h),
       MaxConnectRetries := (if ConnectionTimeout h = None then orNew 1 (MaxConnectRetries h) else MaxConnectRetries h)\<rparr>)
     configFromFile"

definition applyDefaultDiscoveryConfiguration :: "discovery_config option \<Rightarrow> discovery_config" where
  "applyDefaultDiscoveryConfiguration configFromFile =
     (let d = (case configFromFile of None \<Rightarrow> emptyDiscovery | Some d \<Rightarrow> d)
      in d\<lparr>
        EnableDiscovery := orNew True (EnableDiscovery d),
        SapInstancesUpdateFrequency := orNew 60 (SapInstancesUpdateFrequency d),
        SystemDiscoveryUpdateFrequency := orNew (4 * 3600) (SystemDiscoveryUpdateFrequency d),
        EnableWorkloadDiscovery := orNew True (EnableWorkloadDiscovery d)\<rparr>)"

text \<open>The two flags that disable the discovery.\<close>

definition reconcileDiscovery :: "configuration \<Rightarrow> configuration" where
  "reconcileDiscovery config =
     (case CollectionConfiguration config of
        None \<Rightarrow> config
      | Some cc \<Rightarrow>
          (case SapSystemDiscovery cc of
             None \<Rightarrow> config
           | Some sap \<Rightarrow>
               (let d = (case DiscoveryConfiguration config of None \<Rightarrow> emptyDiscovery | Some d \<Rightarrow> d)
                in if isTrue (EnableDiscovery d) \<noteq> sap
                   then config\<lparr>DiscoveryConfiguration := Some (d\<lparr>EnableDiscovery := Some False\<rparr>)\<rparr>
                   else config\<lparr>DiscoveryConfiguration := Some (d\<lparr>EnableDiscovery := Some sap\<rparr>)\<rparr>)))"

definition withProperties :: "string option \<Rightarrow> configuration \<Rightarrow> configuration" where
  "withProperties cloudProps c = c\<lparr>AgentProperties := Some (AgentName, AgentVersionString),
     ProvideSapHostAgentMetrics := orNew True (ProvideSapHostAgentMetrics c),
     LogToCloud := orNew True (LogToCloud c),
     CloudProperties := (if CloudProperties c = None then cloudProps else CloudProperties c)\<rparr>"

definition ApplyDefaults :: "string \<Rightarrow> configuration option \<Rightarrow> string option \<Rightarrow> configuration" where
  "ApplyDefaults endpoint configFromFile cloudProps =
     (let c = (case configFromFile of None \<Rightarrow> emptyConfiguration | Some c \<Rightarrow> c);
          c2 = reconcileDiscovery (withProperties cloudProps c)
      in c2\<lparr>
        CollectionConfiguration := Some (applyDefaultCollectionConfiguration endpoint (CollectionConfiguration c2)),
        HanaMonitoringConfiguration := applyDefaultHMConfiguration (HanaMonitoringConfiguration c2),
        DiscoveryConfiguration := Some (applyDefaultDiscoveryConfiguration (DiscoveryConfiguration c2)),
        SupportConfiguration := True\<rparr>)"

section \<open>Queries of the HANA monitoring\<close>

text \<open>The first custom query with the name of the default query and the prefix overrides it.\<close>

definition overrideOf :: "hm_query list \<Rightarrow> hm_query \<Rightarrow> hm_query option" where
  "overrideOf custom q = find (\<lambda>c. q_Name c = ''default_'' @ q_Name q) custom"

definition withOverride :: "hm_query list \<Rightarrow> hm_query \<Rightarrow> hm_query" where
  "withOverride custom q =
     (case overrideOf custom q of
        None \<Rightarrow> q\<lparr>q_Enabled := True\<rparr>
      | Some c \<Rightarrow> q\<lparr>q_Enabled := q_Enabled c, RunOn := RunOn c\<rparr>)"

definition applyOverrides :: "hm_query list \<Rightarrow> hm_query list \<Rightarrow> hm_query list" where
  "applyOverrides defaultQueries custom =
     filter q_Enabled (map (withOverride custom) defaultQueries)
     @ filter (\<lambda>q. \<not> hasPrefix (q_Name q) ''default_'' \<and> q_Enabled q) custom"

definition validateHANASSLConfig :: "hm_config \<Rightarrow> bool" where
  "validateHANASSLConfig config \<longleftrightarrow>
     concat (map (\<lambda>i. if \<not> EnableSsl i then []
        else (if HostNameInCertificate i = [] then [hi_Name i] else []) @ (if TlsRootCaFile i = [] then [hi_Name i] else []))
       (HanaInstances config)) = []"

datatype column_error = FieldsNotSet | IncompatibleTypes | NoStringGauge | NoCumulative

definition validateColumnTypes :: "hana_column \<Rightarrow> column_error option" where
  "validateColumnTypes col =
     (let m = MetricType col; v = ValueType col
      in if m = METRIC_UNSPECIFIED \<or> v = VALUE_UNSPECIFIED then Some FieldsNotSet
         else if m = METRIC_LABEL \<and> v \<noteq> VALUE_STRING then Some IncompatibleTypes
         else if m = METRIC_GAUGE \<and> v = VALUE_STRING then Some NoStringGauge
         else if m = METRIC_CUMULATIVE \<and> (v = VALUE_STRING \<or> v = VALUE_BOOL) then Some NoCumulative
         else None)"

text \<open>The maps of the names seen; the loops end at the first error.\<close>

definition columnStep :: "hana_column \<Rightarrow> string set \<Rightarrow> unit + string set" where
  "columnStep col columnNames =
     (if col_Name col \<in> columnNames then Inl ()
      else case validateColumnTypes col of
             Some _ \<Rightarrow> Inl ()
           | None \<Rightarrow> Inr (insert (col_Name col) columnNames))"

definition validateColumns :: "hm_query \<Rightarrow> bool" where
  "validateColumns q = (case foldE columnStep (q_Columns q) {} of Inl _ \<Rightarrow> False | Inr _ \<Rightarrow> True)"

definition hmQueryStep :: "hm_query \<Rightarrow> string set \<Rightarrow> unit + string set" where
  "hmQueryStep q queryNames =
     (if q_Name q \<in> queryNames then Inl ()
      else if \<not> validateColumns q then Inl ()
      else Inr (insert (q_Name q) queryNames))"

definition ValidateQueries :: "hm_query list \<Rightarrow> bool" where
  "ValidateQueries qs = (case foldE hmQueryStep qs {} of Inl _ \<Rightarrow> False | Inr _ \<Rightarrow> True)"

text \<open>\<open>defaults\<close> are the queries of the embedded file, \<open>None\<close> when they cannot be decoded.\<close>

definition prepareHMConf :: "hm_query list option \<Rightarrow> hm_config option \<Rightarrow> hm_config option" where
  "prepareHMConf defaults config =
     (case defaults of
        None \<Rightarrow> None
      | Some ds \<Rightarrow>
          (case config of
             None \<Rightarrow> None
           | Some c \<Rightarrow>
               if \<not> validateHANASSLConfig c then None
               else (let c1 = c\<lparr>Queries := applyOverrides ds (Queries c)\<rparr>
                     in if \<not> ValidateQueries (Queries c1) then None else Some c1)))"

definition validateCredentials :: "hana_metrics_config option \<Rightarrow> bool" where
  "validateCredentials hm =
     (case hm of
        None \<Rightarrow> True
      | Some c \<Rightarrow>
          (let pass = HanaDbUser c \<noteq> [] \<and> HanaDbPassword c \<noteq> [];
               sec = HanaDbUser c \<noteq> [] \<and> HanaDbPasswordSecretName c \<noteq> []
           in \<not> (HdbuserstoreKey c \<noteq> [] \<and> pass) \<and> \<not> (HdbuserstoreKey c \<noteq> [] \<and> sec) \<and> \<not> (pass \<and> sec)))"

definition validateAgentConfiguration :: "configuration \<Rightarrow> bool" where
  "validateAgentConfiguration config =
     (case CollectionConfiguration config of
        None \<Rightarrow> True
      | Some cc \<Rightarrow> validateCredentials (HanaMetricsConfig cc) \<and> validateCredentials (WorkloadValidationDbMetricsConfig cc))"

section \<open>Reading and writing\<close>

text \<open>\<open>unmarshalConfig\<close> gives the message filled so far and whether decoding succeeded; \<open>fetchParameter\<close> gives the
  data and the version of a parameter.\<close>

record config_world =
  readFile :: "string \<Rightarrow> (string, string) result"
  unmarshalConfig :: "string \<Rightarrow> configuration \<times> string option"
  fetchParameter :: "pm_config \<Rightarrow> (string, string \<times> string) result"
  mergeProto :: "configuration \<Rightarrow> configuration \<Rightarrow> configuration"
  defaultQueries :: "hm_query list option"
  ros :: string

definition Read :: "config_world \<Rightarrow> string \<Rightarrow> configuration option \<times> string option" where
  "Read w path =
     (case readFile w path of
        Inl e \<Rightarrow> (None, Some e)
      | Inr content \<Rightarrow>
          if content = [] then (None, None)
          else (case unmarshalConfig w content of (c, e) \<Rightarrow> (Some c, e)))"

definition mergePMConfig :: "config_world \<Rightarrow> pm_config \<Rightarrow> configuration \<Rightarrow> (string, configuration \<times> string) result" where
  "mergePMConfig w pm config =
     (case fetchParameter w pm of
        Inl e \<Rightarrow> Inl e
      | Inr (data, version) \<Rightarrow>
          (case unmarshalConfig w data of
             (remote, Some e) \<Rightarrow> Inl e
           | (remote, None) \<Rightarrow> Inr (mergeProto w remote config, version)))"

definition ReadFromFile :: "config_world \<Rightarrow> string \<Rightarrow> configuration option \<times> string \<times> string option" where
  "ReadFromFile w path =
     (let p = (if path = [] then (if ros w = ''windows'' then WindowsConfigPath else LinuxConfigPath) else path)
      in case Read w p of
           (None, e) \<Rightarrow> (None, [], e)
         | (Some config, e) \<Rightarrow>
             (let (c, version) =
                (case ParameterManagerConfig config of
                   None \<Rightarrow> (config, [])
                 | Some pm \<Rightarrow> (case mergePMConfig w pm config of Inl _ \<Rightarrow> (config, []) | Inr cv \<Rightarrow> cv))
              in (Some (c\<lparr>HanaMonitoringConfiguration := prepareHMConf (defaultQueries w) (HanaMonitoringConfiguration c)\<rparr>),
                  version, e)))"

text \<open>Writing a configuration that cannot be encoded writes an empty file.\<close>

datatype file_call = StatConfig string | MkdirConfig string | WriteConfig string string

datatype file_answer = FileOk | FileMissing | FileError

definition Write :: "(configuration \<Rightarrow> string option) \<Rightarrow> (file_call, file_answer) env \<Rightarrow> configuration \<Rightarrow> string \<Rightarrow>
    (file_call, bool) prog" where
  "Write marshal env config path = do {
     r \<leftarrow> call env (WriteConfig path (case marshal config of None \<Rightarrow> [] | Some s \<Rightarrow> s));
     ret (r = FileOk)
   }"

definition EnsureConfigExists :: "string \<Rightarrow> string \<Rightarrow> (file_call, file_answer) env \<Rightarrow> (file_call, bool) prog" where
  "EnsureConfigExists os content env =
     (let path = Path os
      in do {
        st \<leftarrow> call env (StatConfig path);
        if st = FileOk then ret True
        else if st \<noteq> FileMissing then ret False
        else do {
          mk \<leftarrow> call env (MkdirConfig (pathDir path));
          if mk \<noteq> FileOk then ret False
          else do {
            wr \<leftarrow> call env (WriteConfig path content);
            ret (wr = FileOk)
          }
        }
      })"

section \<open>Lemmas\<close>

lemma columnStep_accepts:
  "columnStep c seen = Inr seen' \<longleftrightarrow> col_Name c \<notin> seen \<and> validateColumnTypes c = None \<and> seen' = insert (col_Name c) seen"
  by (auto simp: columnStep_def split: option.splits)

interpretation columns: keyed_scan columnStep col_Name "\<lambda>c. validateColumnTypes c = None"
  by unfold_locales (rule columnStep_accepts)

definition typesFit :: "hana_column \<Rightarrow> bool" where
  "typesFit c \<longleftrightarrow> (case MetricType c of
     METRIC_UNSPECIFIED \<Rightarrow> False
   | METRIC_LABEL \<Rightarrow> ValueType c = VALUE_STRING
   | METRIC_GAUGE \<Rightarrow> ValueType c \<notin> {VALUE_UNSPECIFIED, VALUE_STRING}
   | METRIC_CUMULATIVE \<Rightarrow> ValueType c \<notin> {VALUE_UNSPECIFIED, VALUE_STRING, VALUE_BOOL}
   | METRIC_OTHER _ \<Rightarrow> ValueType c \<noteq> VALUE_UNSPECIFIED)"

lemma validateColumnTypes_fit: "validateColumnTypes c = None \<longleftrightarrow> typesFit c"
  by (cases "MetricType c"; cases "ValueType c") (simp_all add: validateColumnTypes_def typesFit_def Let_def)

definition columnsFit :: "hm_query \<Rightarrow> bool" where
  "columnsFit q \<longleftrightarrow> distinct (map col_Name (q_Columns q)) \<and> (\<forall>c \<in> set (q_Columns q). typesFit c)"

lemma accepted_iff: "(case foldE f xs s of Inl _ \<Rightarrow> False | Inr _ \<Rightarrow> True) \<longleftrightarrow> (\<exists>t. foldE f xs s = Inr t)"
  by (simp split: sum.splits)

lemma validateColumns_fit: "validateColumns q \<longleftrightarrow> columnsFit q"
  by (simp add: validateColumns_def accepted_iff columns.scan_ok_iff columnsFit_def validateColumnTypes_fit)

interpretation queries: keyed_scan hmQueryStep q_Name columnsFit
  by unfold_locales (auto simp: hmQueryStep_def validateColumns_fit)

lemma ValidateQueries_fit: "ValidateQueries qs \<longleftrightarrow> distinct (map q_Name qs) \<and> (\<forall>q \<in> set qs. columnsFit q)"
  by (simp add: ValidateQueries_def accepted_iff queries.scan_ok_iff)

lemma withOverride_Name [simp]: "q_Name (withOverride custom q) = q_Name q"
  by (simp add: withOverride_def split: option.splits)

lemma withOverride_Columns: "q_Columns (withOverride custom q) = q_Columns q" "q_Sql (withOverride custom q) = q_Sql q"
  by (simp_all add: withOverride_def split: option.splits)

lemma orDefault_idem [simp]: "0 < d \<Longrightarrow> orDefault b d (orDefault b d x) = orDefault b d x"
  by (simp add: orDefault_def)

lemma orNew_idem [simp]: "orNew d (orNew d x) = orNew d x"
  by (cases x) (simp_all add: orNew_def)

lemma orNew_Some: "orNew d x \<noteq> None"
  by (cases x) (simp_all add: orNew_def)

lemma defaultCd_idem: "defaultCdConfig (Some (defaultCdConfig c)) = defaultCdConfig c"
  by (cases c) (auto simp: defaultCdConfig_def Let_def)

lemma applyDefaultCollection_idem:
  "applyDefaultCollectionConfiguration endpoint (Some (applyDefaultCollectionConfiguration endpoint c))
   = applyDefaultCollectionConfiguration endpoint c"
  by (simp add: applyDefaultCollectionConfiguration_def Let_def defaultCd_idem)

lemma applyDefaultHM_idem: "applyDefaultHMConfiguration (applyDefaultHMConfiguration c) = applyDefaultHMConfiguration c"
  by (cases c) (auto simp: applyDefaultHMConfiguration_def orNew_Some)

lemma applyDefaultDiscovery_idem:
  "applyDefaultDiscoveryConfiguration (Some (applyDefaultDiscoveryConfiguration c)) = applyDefaultDiscoveryConfiguration c"
  by (simp add: applyDefaultDiscoveryConfiguration_def Let_def)

lemma reconcile_other [simp]:
  "CollectionConfiguration (reconcileDiscovery c) = CollectionConfiguration c"
  "HanaMonitoringConfiguration (reconcileDiscovery c) = HanaMonitoringConfiguration c"
  "ProvideSapHostAgentMetrics (reconcileDiscovery c) = ProvideSapHostAgentMetrics c"
  "LogToCloud (reconcileDiscovery c) = LogToCloud c"
  "CloudProperties (reconcileDiscovery c) = CloudProperties c"
  "AgentProperties (reconcileDiscovery c) = AgentProperties c"
  "SupportConfiguration (reconcileDiscovery c) = SupportConfiguration c"
  by (simp_all add: reconcileDiscovery_def Let_def split: option.splits)

text \<open>What the flags agree on.\<close>

lemma reconcile_flag:
  "CollectionConfiguration c = Some cc \<Longrightarrow> SapSystemDiscovery cc = Some sap \<Longrightarrow>
   (case DiscoveryConfiguration (reconcileDiscovery c) of None \<Rightarrow> None | Some d \<Rightarrow> EnableDiscovery d)
   = Some (sap \<and> (case DiscoveryConfiguration c of None \<Rightarrow> False | Some d \<Rightarrow> isTrue (EnableDiscovery d)))"
  by (auto simp: reconcileDiscovery_def Let_def isTrue_def emptyDiscovery_def split: option.splits)

lemma reconcile_agreed:
  assumes "DiscoveryConfiguration c = Some d"
    and "\<And>cc sap. CollectionConfiguration c = Some cc \<Longrightarrow> SapSystemDiscovery cc = Some sap \<Longrightarrow>
      EnableDiscovery d = Some (sap \<and> isTrue (EnableDiscovery d))"
  shows "reconcileDiscovery c = c"
proof (cases "CollectionConfiguration c")
  case (Some cc)
  show ?thesis
  proof (cases "SapSystemDiscovery cc")
    case (Some sap)
    with \<open>CollectionConfiguration c = Some cc\<close> assms(2) have "EnableDiscovery d = Some (sap \<and> isTrue (EnableDiscovery d))" by blast
    then show ?thesis using Some \<open>CollectionConfiguration c = Some cc\<close> assms(1)
      by (cases sap; cases "EnableDiscovery d") (auto simp: reconcileDiscovery_def Let_def isTrue_def)
  qed (simp add: reconcileDiscovery_def \<open>CollectionConfiguration c = Some cc\<close>)
qed (simp add: reconcileDiscovery_def)

definition collectionReady :: "coll_config \<Rightarrow> bool" where
  "collectionReady cc \<longleftrightarrow>
     CollectWorkloadValidationMetrics cc \<noteq> None \<and>
     (isTrue (CollectWorkloadValidationMetrics cc) \<longrightarrow>
        0 < WorkloadValidationMetricsFrequency cc \<and> 0 < WorkloadValidationDbMetricsFrequency cc) \<and>
     (CollectProcessMetrics cc \<longrightarrow> 0 < ProcessMetricsFrequency cc \<and> 0 < SlowProcessMetricsFrequency cc) \<and>
     (CollectAgentMetrics cc \<longrightarrow> 0 < AgentMetricsFrequency cc \<and> 0 < AgentHealthFrequency cc \<and>
        0 < cc_HeartbeatFrequency cc \<and> 0 < cc_MissedHeartbeatThreshold cc) \<and>
     (case WorkloadValidationCollectionDefinition cc of
        None \<Rightarrow> False
      | Some d \<Rightarrow> cd_FetchLatestConfig d \<noteq> None \<and> ConfigTargetEnvironment d \<noteq> TARGET_UNSPECIFIED)"

definition monitoringReady :: "hm_config \<Rightarrow> bool" where
  "monitoringReady h \<longleftrightarrow> 0 < QueryTimeoutSec h \<and> 5 \<le> SampleIntervalSec h \<and> 0 < ExecutionThreads h \<and> ConnectionTimeout h \<noteq> None"

definition discoveryReady :: "discovery_config \<Rightarrow> bool" where
  "discoveryReady d \<longleftrightarrow> EnableDiscovery d \<noteq> None \<and> SapInstancesUpdateFrequency d \<noteq> None \<and>
     SystemDiscoveryUpdateFrequency d \<noteq> None \<and> EnableWorkloadDiscovery d \<noteq> None"

text \<open>An interval of the discovery is positive, or it is what the file gives, whatever that is.\<close>

definition discoveryIntervals :: "configuration option \<Rightarrow> configuration \<Rightarrow> bool" where
  "discoveryIntervals configFromFile c \<longleftrightarrow> (case DiscoveryConfiguration c of
      None \<Rightarrow> False
    | Some d \<Rightarrow> \<forall>interval \<in> {SapInstancesUpdateFrequency, SystemDiscoveryUpdateFrequency}. \<exists>n. interval d = Some n \<and>
        (0 < n \<or> (\<exists>given d0. configFromFile = Some given \<and> DiscoveryConfiguration given = Some d0 \<and> interval d0 = Some n)))"

definition agentReady :: "configuration \<Rightarrow> bool" where
  "agentReady c \<longleftrightarrow> ProvideSapHostAgentMetrics c \<noteq> None \<and> LogToCloud c \<noteq> None \<and>
     (case CollectionConfiguration c of None \<Rightarrow> False | Some cc \<Rightarrow> collectionReady cc) \<and>
     (case HanaMonitoringConfiguration c of None \<Rightarrow> True | Some h \<Rightarrow> monitoringReady h) \<and>
     (case DiscoveryConfiguration c of None \<Rightarrow> False | Some d \<Rightarrow> discoveryReady d)"

lemma collection_ready: "collectionReady (applyDefaultCollectionConfiguration endpoint c)"
  by (auto simp: collectionReady_def applyDefaultCollectionConfiguration_def Let_def orDefault_def orNew_Some
      defaultCdConfig_def split: option.splits)

lemma monitoring_ready: "applyDefaultHMConfiguration c = Some h \<Longrightarrow> monitoringReady h"
  using orNew_Some [of 120] by (auto simp: monitoringReady_def applyDefaultHMConfiguration_def)

lemma discovery_ready: "discoveryReady (applyDefaultDiscoveryConfiguration c)"
  by (simp add: discoveryReady_def applyDefaultDiscoveryConfiguration_def Let_def orNew_Some)

lemma withProperties_parts [simp]:
  "CollectionConfiguration (withProperties cp c) = CollectionConfiguration c"
  "HanaMonitoringConfiguration (withProperties cp c) = HanaMonitoringConfiguration c"
  "DiscoveryConfiguration (withProperties cp c) = DiscoveryConfiguration c"
  by (simp_all add: withProperties_def)

lemma ApplyDefaults_parts:
  "CollectionConfiguration (ApplyDefaults e (Some c) cp) = Some (applyDefaultCollectionConfiguration e (CollectionConfiguration c))"
  "HanaMonitoringConfiguration (ApplyDefaults e (Some c) cp) = applyDefaultHMConfiguration (HanaMonitoringConfiguration c)"
  "DiscoveryConfiguration (ApplyDefaults e (Some c) cp) =
     Some (applyDefaultDiscoveryConfiguration (DiscoveryConfiguration (reconcileDiscovery (withProperties cp c))))"
  "ProvideSapHostAgentMetrics (ApplyDefaults e (Some c) cp) = orNew True (ProvideSapHostAgentMetrics c)"
  "LogToCloud (ApplyDefaults e (Some c) cp) = orNew True (LogToCloud c)"
  "CloudProperties (ApplyDefaults e (Some c) cp) = (if CloudProperties c = None then cp else CloudProperties c)"
  "AgentProperties (ApplyDefaults e (Some c) cp) = Some (AgentName, AgentVersionString)"
  "SupportConfiguration (ApplyDefaults e (Some c) cp)"
  by (simp_all add: ApplyDefaults_def Let_def) (simp_all add: withProperties_def)

lemma ready_parts: "agentReady (ApplyDefaults e (Some c) cp)"
  by (simp add: agentReady_def ApplyDefaults_parts collection_ready discovery_ready orNew_Some split: option.splits)
    (simp add: monitoring_ready)

lemma ApplyDefaults_flag:
  assumes "CollectionConfiguration (ApplyDefaults e (Some c) cp) = Some cc" and "SapSystemDiscovery cc = Some sap"
  shows "EnableDiscovery (applyDefaultDiscoveryConfiguration (DiscoveryConfiguration (reconcileDiscovery (withProperties cp c)))) =
    Some (sap \<and> (case DiscoveryConfiguration c of None \<Rightarrow> False | Some d \<Rightarrow> isTrue (EnableDiscovery d)))"
proof -
  from assms obtain c0 where "CollectionConfiguration c = Some c0" "SapSystemDiscovery c0 = Some sap"
    by (cases "CollectionConfiguration c")
      (auto simp: ApplyDefaults_parts applyDefaultCollectionConfiguration_def Let_def emptyCollection_def)
  then have "(case DiscoveryConfiguration (reconcileDiscovery (withProperties cp c)) of None \<Rightarrow> None | Some d \<Rightarrow> EnableDiscovery d)
      = Some (sap \<and> (case DiscoveryConfiguration c of None \<Rightarrow> False | Some d \<Rightarrow> isTrue (EnableDiscovery d)))"
    using reconcile_flag [of "withProperties cp c" c0 sap] by simp
  then show ?thesis
    by (cases "DiscoveryConfiguration (reconcileDiscovery (withProperties cp c))")
      (auto simp: applyDefaultDiscoveryConfiguration_def orNew_def Let_def)
qed

lemma withProperties_idem: "withProperties cp (ApplyDefaults e (Some c) cp) = ApplyDefaults e (Some c) cp"
  by (auto simp: withProperties_def [of cp "ApplyDefaults e (Some c) cp"] ApplyDefaults_parts intro!: configuration.equality)

lemma reconcile_idem: "reconcileDiscovery (ApplyDefaults e (Some c) cp) = ApplyDefaults e (Some c) cp"
  by (rule reconcile_agreed [OF ApplyDefaults_parts(3)]) (simp add: ApplyDefaults_flag isTrue_def)

lemma ApplyDefaults_idem: "ApplyDefaults e (Some (ApplyDefaults e (Some c) cp)) cp = ApplyDefaults e (Some c) cp"
  unfolding ApplyDefaults_def [of e "Some (ApplyDefaults e (Some c) cp)" cp] Let_def option.case withProperties_idem reconcile_idem
  by (rule configuration.equality)
    (simp_all add: ApplyDefaults_parts applyDefaultCollection_idem applyDefaultHM_idem applyDefaultDiscovery_idem)

lemma ApplyDefaults_None: "ApplyDefaults e None cp = ApplyDefaults e (Some emptyConfiguration) cp"
  by (simp add: ApplyDefaults_def)

lemma ready_any: "agentReady (ApplyDefaults e c cp)"
  by (cases c) (simp_all add: ApplyDefaults_None ready_parts)

section \<open>Properties\<close>

definition sslComplete :: "hm_config \<Rightarrow> bool" where
  "sslComplete c \<longleftrightarrow> (\<forall>i \<in> set (HanaInstances c). EnableSsl i \<longrightarrow> HostNameInCertificate i \<noteq> [] \<and> TlsRootCaFile i \<noteq> [])"

lemma validateHANASSLConfig_complete: "validateHANASSLConfig c \<longleftrightarrow> sslComplete c"
proof -
  have "concat (map (\<lambda>i. if \<not> EnableSsl i then [] else (if HostNameInCertificate i = [] then [hi_Name i] else [])
      @ (if TlsRootCaFile i = [] then [hi_Name i] else [])) xs) = [] \<longleftrightarrow>
    (\<forall>i \<in> set xs. EnableSsl i \<longrightarrow> HostNameInCertificate i \<noteq> [] \<and> TlsRootCaFile i \<noteq> [])" for xs
    by (induction xs) auto
  then show ?thesis by (simp only: validateHANASSLConfig_def sslComplete_def)
qed

lemma reconcile_intervals:
  assumes "DiscoveryConfiguration (reconcileDiscovery c) = Some d" "interval \<in> {SapInstancesUpdateFrequency, SystemDiscoveryUpdateFrequency}"
    and "interval d = Some n"
  shows "\<exists>d0. DiscoveryConfiguration c = Some d0 \<and> interval d0 = Some n"
  using assms by (auto simp: reconcileDiscovery_def emptyDiscovery_def Let_def split: option.splits if_splits)

lemma ApplyDefaults_intervals: "discoveryIntervals configFromFile (ApplyDefaults endpoint configFromFile cp)"
proof (cases configFromFile)
  case None
  then show ?thesis
    by (simp add: discoveryIntervals_def ApplyDefaults_None ApplyDefaults_parts reconcileDiscovery_def withProperties_def emptyConfiguration_def
        applyDefaultDiscoveryConfiguration_def Let_def orNew_def emptyDiscovery_def)
next
  case (Some c)
  let ?r = "DiscoveryConfiguration (reconcileDiscovery (withProperties cp c))"
  have "\<exists>n. interval (applyDefaultDiscoveryConfiguration ?r) = Some n \<and>
      (0 < n \<or> (\<exists>d0. DiscoveryConfiguration c = Some d0 \<and> interval d0 = Some n))"
    if "interval \<in> {SapInstancesUpdateFrequency, SystemDiscoveryUpdateFrequency}" for interval
    using that reconcile_intervals[of "withProperties cp c" _ interval]
    by (cases ?r) (auto simp: applyDefaultDiscoveryConfiguration_def Let_def orNew_def emptyDiscovery_def split: option.splits)
  then show ?thesis
    by (simp add: Some discoveryIntervals_def ApplyDefaults_parts)
qed

text \<open>C32. After the defaults, whatever the file contains, every interval and count that an enabled service reads from
  the collection and HANA monitoring sections is positive and every flag is set. Both intervals of the discovery are
  set, but only an absent one gets a default: one that the file gives is kept, also when it is zero or negative. A second
  application changes nothing.\<close>

theorem ApplyDefaults_ready:
  "agentReady (ApplyDefaults endpoint configFromFile cp) \<and>
   discoveryIntervals configFromFile (ApplyDefaults endpoint configFromFile cp) \<and>
   ApplyDefaults endpoint (Some (ApplyDefaults endpoint configFromFile cp)) cp = ApplyDefaults endpoint configFromFile cp"
  by (intro conjI ready_any ApplyDefaults_intervals; cases configFromFile)
    (simp_all add: ApplyDefaults_None ApplyDefaults_idem)

text \<open>An interval of zero for the discovery is accepted: it passes the defaults and the validation.\<close>

lemma zero_interval_kept:
  assumes "DiscoveryConfiguration c = Some d" "SapInstancesUpdateFrequency d = Some 0" "CollectionConfiguration c = None"
  shows "\<exists>d'. DiscoveryConfiguration (ApplyDefaults endpoint (Some c) cp) = Some d' \<and> SapInstancesUpdateFrequency d' = Some 0"
    and "validateAgentConfiguration (ApplyDefaults endpoint (Some c) cp)"
  using assms by (simp_all add: ApplyDefaults_parts reconcileDiscovery_def withProperties_def applyDefaultDiscoveryConfiguration_def
      Let_def orNew_def validateAgentConfiguration_def applyDefaultCollectionConfiguration_def emptyCollection_def validateCredentials_def)

text \<open>The HANA monitoring is configured exactly when its instances with SSL are complete and the queries to run
  have distinct names, distinct columns and types that fit; the queries to run are the default ones, unless
  overridden and disabled, followed by the enabled ones of the user.\<close>

theorem prepareHMConf_spec:
  "prepareHMConf (Some ds) (Some c) =
     (let qs = filter q_Enabled (map (withOverride (Queries c)) ds)
        @ filter (\<lambda>q. \<not> hasPrefix (q_Name q) ''default_'' \<and> q_Enabled q) (Queries c)
      in if sslComplete c \<and> distinct (map q_Name qs) \<and> list_all columnsFit qs
         then Some (c\<lparr>Queries := qs\<rparr>) else None)"
  by (auto simp: prepareHMConf_def validateHANASSLConfig_complete ValidateQueries_fit applyOverrides_def Let_def list_all_iff)

text \<open>Without a discovery configuration, asking for the discovery turns it off.\<close>

lemma asking_for_discovery_disables_it:
  assumes "CollectionConfiguration c = Some cc" and "SapSystemDiscovery cc = Some True" and "DiscoveryConfiguration c = None"
  shows "\<exists>d. DiscoveryConfiguration (ApplyDefaults endpoint (Some c) cp) = Some d \<and> EnableDiscovery d = Some False"
  using assms reconcile_flag [of "withProperties cp c" cc True]
  by (cases "DiscoveryConfiguration (reconcileDiscovery (withProperties cp c))")
    (auto simp: ApplyDefaults_parts applyDefaultDiscoveryConfiguration_def orNew_def Let_def)

text \<open>A configuration that cannot be encoded replaces the file by an empty one.\<close>

lemma write_failure_empties_file:
  "marshal config = None \<Longrightarrow> snd (run_state (Write marshal env config path) log) = WriteConfig path [] # log"
  by (simp add: Write_def State_Monad.bind_def)

end
