(* ===== verification/Heartbeat.thy ===== *)
theory Heartbeat
  imports Prelude "HOL-Library.Word" "HOL-Library.AList"
begin

text \<open>
  The heartbeat monitor (\<open>internal/heartbeat\<close>). Services register and report that they are alive; a
  ticker counts the beats each has missed, up to a threshold from which on it is reported as
  unhealthy. The locks make registering, beating, counting and reading the statuses atomic, so every
  execution is a sequence of these actions. A Go map is an association list with one entry per key,
  a duration a 64-bit word of nanoseconds.
\<close>

section \<open>State\<close>

record monitor =
  registrations :: "(string \<times> int) list"
  frequency :: "64 word"
  threshold :: int

text \<open>\<open>CollectionConfiguration\<close>, as far as it is read.\<close>

record collection_config =
  MissedHeartbeatThreshold :: int
  HeartbeatFrequency :: int

datatype hb_fault = NoConfiguration | NegativeThreshold | BadFrequency | AlreadyRegistered

definition validateParameters :: "collection_config option \<Rightarrow> hb_fault option" where
  "validateParameters params =
     (case params of
        None \<Rightarrow> Some NoConfiguration
      | Some c \<Rightarrow>
          if MissedHeartbeatThreshold c < 0 then Some NegativeThreshold
          else if HeartbeatFrequency c \<le> 0 then Some BadFrequency
          else None)"

definition seconds :: "int \<Rightarrow> 64 word" where
  "seconds s = word_of_int s * 1000000000"

definition NewMonitor :: "collection_config option \<Rightarrow> (hb_fault, monitor) result" where
  "NewMonitor params =
     (case validateParameters params of
        Some e \<Rightarrow> Inl e
      | None \<Rightarrow>
          (case params of
             None \<Rightarrow> Inl NoConfiguration
           | Some c \<Rightarrow>
               Inr \<lparr>registrations = [], frequency = seconds (HeartbeatFrequency c),
                    threshold = MissedHeartbeatThreshold c\<rparr>))"

section \<open>Operations\<close>

text \<open>A \<open>Spec\<close> is the interval and the entry that its \<open>BeatFunc\<close> resets; \<open>None\<close> is a nil pointer.\<close>

type_synonym spec = "(string \<times> 64 word) option"

definition Register :: "string \<Rightarrow> monitor \<Rightarrow> (hb_fault, spec) result \<times> monitor" where
  "Register name m =
     (case map_of (registrations m) name of
        Some _ \<Rightarrow> (Inl AlreadyRegistered, m)
      | None \<Rightarrow> (Inr (Some (name, frequency m)), m\<lparr>registrations := registrations m @ [(name, 0)]\<rparr>))"

definition Beat :: "spec \<Rightarrow> monitor \<Rightarrow> monitor" where
  "Beat h m =
     (case h of
        None \<Rightarrow> m
      | Some (name, _) \<Rightarrow> m\<lparr>registrations := map (\<lambda>(n, k). (n, if n = name then 0 else k)) (registrations m)\<rparr>)"

definition miss :: "int \<Rightarrow> int \<Rightarrow> int" where
  "miss t k = (if k < t then k + 1 else k)"

definition incrementAll :: "monitor \<Rightarrow> monitor" where
  "incrementAll m = m\<lparr>registrations := map (\<lambda>(n, k). (n, miss (threshold m) k)) (registrations m)\<rparr>"

definition GetStatuses :: "monitor \<Rightarrow> (string \<times> bool) list" where
  "GetStatuses m = map (\<lambda>(n, k). (n, k < threshold m)) (registrations m)"

text \<open>The interval of a ticker; a day for a nil \<open>Spec\<close>.\<close>

definition CreateTicker :: "spec \<Rightarrow> 64 word" where
  "CreateTicker h = (case h of None \<Rightarrow> seconds 86400 | Some (_, interval) \<Rightarrow> interval)"

text \<open>\<open>NullMonitor\<close>\<close>

definition NullRegister :: "string \<Rightarrow> (hb_fault, spec) result" where
  "NullRegister name = Inr None"

definition NullStatuses :: "(string \<times> bool) list" where
  "NullStatuses = []"

section \<open>The loop of the monitor\<close>

text \<open>\<open>maxTicks\<close> is there in tests only: after that many ticks the channel of the ticker is cleared and
  the end signalled. \<open>time.NewTicker\<close> panics when the interval is not positive.\<close>

datatype run_event = Ticked | Cancelled

fun runLoop :: "nat option \<Rightarrow> nat \<Rightarrow> bool \<Rightarrow> run_event list \<Rightarrow> monitor \<Rightarrow> monitor \<times> bool" where
  "runLoop maxTicks numTicks live [] m = (m, False)"
| "runLoop maxTicks numTicks live (Cancelled # es) m = (m, maxTicks \<noteq> None \<and> live)"
| "runLoop maxTicks numTicks live (Ticked # es) m =
     (if \<not> live then runLoop maxTicks numTicks live es m
      else case maxTicks of
             None \<Rightarrow> runLoop maxTicks numTicks live es (incrementAll m)
           | Some k \<Rightarrow>
               if numTicks \<ge> k then (fst (runLoop maxTicks numTicks False es m), True)
               else runLoop maxTicks (numTicks + 1) live es (incrementAll m))"

definition run :: "nat option \<Rightarrow> run_event list \<Rightarrow> monitor \<Rightarrow> (monitor \<times> bool) option" where
  "run maxTicks es m = (if sint (frequency m) \<le> 0 then None else Some (runLoop maxTicks 0 True es m))"

section \<open>Sequences of actions\<close>

datatype hb_action = DoRegister string | DoBeat string | DoTick

fun act :: "hb_action \<Rightarrow> monitor \<Rightarrow> monitor" where
  "act (DoRegister n) m = snd (Register n m)"
| "act (DoBeat n) m = Beat (Some (n, frequency m)) m"
| "act DoTick m = incrementAll m"

definition actAll :: "hb_action list \<Rightarrow> monitor \<Rightarrow> monitor" where
  "actAll as m = fold act as m"

text \<open>The reference: the ticks since the service first registered or last beat, without a bound.\<close>

fun ticksSince :: "string \<Rightarrow> hb_action list \<Rightarrow> nat option" where
  "ticksSince n [] = None"
| "ticksSince n (a # later_first) =
     (case a of
        DoTick \<Rightarrow> map_option Suc (ticksSince n later_first)
      | DoBeat k \<Rightarrow> (if k = n then map_option (\<lambda>_. 0) (ticksSince n later_first) else ticksSince n later_first)
      | DoRegister k \<Rightarrow>
          (if k = n \<and> ticksSince n later_first = None then Some 0 else ticksSince n later_first))"

definition healthy :: "int \<Rightarrow> hb_action list \<Rightarrow> string \<Rightarrow> bool option" where
  "healthy t as n = map_option (\<lambda>k. int k < t) (ticksSince n (rev as))"

section \<open>Lemmas\<close>

definition countsMissed :: "int \<Rightarrow> hb_action list \<Rightarrow> monitor \<Rightarrow> bool" where
  "countsMissed t ras m \<longleftrightarrow>
     threshold m = t \<and>
     (\<forall>n. map_of (registrations m) n = map_option (\<lambda>k. min (int k) t) (ticksSince n ras))"

lemma map_of_map_val: "map_of (map (\<lambda>(n, k). (n, f n k)) xs) n = map_option (f n) (map_of xs n)"
  by (induction xs) auto

lemma act_counts:
  assumes "0 \<le> t" and "countsMissed t ras m"
  shows "countsMissed t (a # ras) (act a m)"
proof (cases a)
  case (DoRegister n)
  with assms show ?thesis
    by (auto simp: countsMissed_def Register_def map_add_def split: option.splits)
next
  case (DoBeat n)
  with assms show ?thesis
    by (auto simp: countsMissed_def Beat_def map_of_map_val option.map_comp comp_def min_def
        intro!: option.map_cong)
next
  case DoTick
  with assms show ?thesis
    by (auto simp: countsMissed_def incrementAll_def map_of_map_val option.map_comp comp_def miss_def
        intro!: option.map_cong)
qed

lemma actAll_counts: "0 \<le> t \<Longrightarrow> countsMissed t ras m \<Longrightarrow> countsMissed t (rev as @ ras) (actAll as m)"
  unfolding actAll_def by (induction as arbitrary: m ras) (auto dest: act_counts)

lemma NewMonitor_counts:
  assumes "NewMonitor params = Inr m"
  shows "0 \<le> threshold m \<and> countsMissed (threshold m) [] m"
  using assms by (auto simp: NewMonitor_def validateParameters_def countsMissed_def split: option.splits if_splits)

lemma map_of_GetStatuses: "map_of (GetStatuses m) n = map_option (\<lambda>k. k < threshold m) (map_of (registrations m) n)"
  by (simp add: GetStatuses_def map_of_map_val)

lemma statuses:
  assumes "NewMonitor params = Inr m"
  shows "map_of (GetStatuses (actAll as m)) n = healthy (threshold m) as n"
proof -
  have "countsMissed (threshold m) (rev as) (actAll as m)"
    using actAll_counts [of "threshold m" "[]" m as] NewMonitor_counts [OF assms] by simp
  then show ?thesis
    by (cases "ticksSince n (rev as)") (auto simp: map_of_GetStatuses countsMissed_def healthy_def min_def)
qed

lemma silent_ticks:
  assumes "DoBeat n \<notin> set later" and "ticksSince n (rev before) = Some k"
  shows "ticksSince n (rev (before @ later)) = Some (k + count_list later DoTick)"
  using assms
proof (induction later rule: rev_induct)
  case (snoc a later)
  then have "ticksSince n (rev (before @ later)) = Some (k + count_list later DoTick)" by simp
  with snoc.prems(1) show ?case by (cases a) auto
qed simp

section \<open>Properties\<close>

text \<open>The bounded counters of the monitor agree with unbounded counting: after any sequence of
  registrations, beats and ticks, the statuses name exactly the registered services, and a service
  is reported healthy exactly when fewer ticks than the threshold have passed since it registered or
  last beat.\<close>

theorem GetStatuses_counts_ticks:
  assumes "NewMonitor params = Inr m"
  shows "map_of (GetStatuses (actAll as m)) = healthy (threshold m) as"
  by (rule ext) (rule statuses [OF assms])

lemma GetStatuses_counts_ticks_witness:
  "\<exists>m. NewMonitor (Some \<lparr>MissedHeartbeatThreshold = 2, HeartbeatFrequency = 60\<rparr>) = Inr m \<and>
     map_of (GetStatuses (actAll [DoRegister ''a'', DoTick, DoTick, DoBeat ''a'', DoTick] m))
       = healthy 2 [DoRegister ''a'', DoTick, DoTick, DoBeat ''a'', DoTick]"
proof -
  let ?c = "Some \<lparr>MissedHeartbeatThreshold = 2, HeartbeatFrequency = 60\<rparr>"
  obtain m where "NewMonitor ?c = Inr m" and "threshold m = 2"
    by (simp add: NewMonitor_def validateParameters_def)
  with GetStatuses_counts_ticks [of ?c m "[DoRegister ''a'', DoTick, DoTick, DoBeat ''a'', DoTick]"]
  show ?thesis by auto
qed

text \<open>C37. A service that falls silent is noticed: once it is registered, and from any point on at which
  it no longer beats, it is reported unhealthy as soon as the threshold of ticks is reached and
  stays so, whatever other services do; one beat makes it healthy again unless the threshold is 0.\<close>

theorem silence_is_reported:
  assumes "NewMonitor params = Inr m" and "healthy (threshold m) before n \<noteq> None"
    and "DoBeat n \<notin> set later" and "threshold m \<le> int (count_list later DoTick)"
  shows "map_of (GetStatuses (actAll (before @ later) m)) n = Some False \<and>
    map_of (GetStatuses (actAll (before @ later @ [DoBeat n]) m)) n = Some (0 < threshold m)"
proof
  obtain k where k: "ticksSince n (rev before) = Some k" using assms(2) by (auto simp: healthy_def)
  note later = silent_ticks [OF assms(3) k]
  with assms(4) show "map_of (GetStatuses (actAll (before @ later) m)) n = Some False"
    by (simp add: statuses [OF assms(1)] healthy_def del: rev_append)
  show "map_of (GetStatuses (actAll (before @ later @ [DoBeat n]) m)) n = Some (0 < threshold m)"
    using later by (simp add: statuses [OF assms(1)] healthy_def)
qed

lemma silence_is_reported_witness:
  "\<exists>m. NewMonitor (Some \<lparr>MissedHeartbeatThreshold = 2, HeartbeatFrequency = 60\<rparr>) = Inr m \<and>
     map_of (GetStatuses (actAll ([DoRegister ''a''] @ [DoTick, DoBeat ''b'', DoTick]) m)) ''a'' = Some False"
proof -
  let ?c = "Some \<lparr>MissedHeartbeatThreshold = 2, HeartbeatFrequency = 60\<rparr>"
  obtain m where m: "NewMonitor ?c = Inr m" and "threshold m = 2"
    by (simp add: NewMonitor_def validateParameters_def)
  moreover have "map_of (GetStatuses (actAll ([DoRegister ''a''] @ [DoTick, DoBeat ''b'', DoTick]) m)) ''a'' = Some False"
    by (rule silence_is_reported [OF m, THEN conjunct1]) (simp_all add: healthy_def \<open>threshold m = 2\<close>)
  ultimately show ?thesis by blast
qed

text \<open>The number of nanoseconds of a frequency beyond 9223372036 seconds does not fit into 64 bits: the
  validation lets it pass, the interval is negative and creating the ticker panics.\<close>

lemma large_frequency_panics:
  "(case NewMonitor (Some \<lparr>MissedHeartbeatThreshold = 2, HeartbeatFrequency = 9223372037\<rparr>) of
      Inl _ \<Rightarrow> False | Inr m \<Rightarrow> run None es m = None)"
  by (simp add: NewMonitor_def validateParameters_def run_def seconds_def)

lemma seconds_exact:
  assumes "0 < s" and "s \<le> 9223372036"
  shows "sint (seconds s) = s * 1000000000"
proof -
  have "seconds s = word_of_int (s * 1000000000)" by (simp add: seconds_def)
  also have "sint \<dots> = s * 1000000000"
    by (subst sint_sbintrunc') (use assms in \<open>simp add: signed_take_bit_int_eq_self\<close>)
  finally show ?thesis .
qed

end
