(* ===== verification/AgentMetrics.thy ===== *)
theory AgentMetrics
  imports Configuration Heartbeat
begin

text \<open>
  The metrics of the agent itself (\<open>internal/agentmetrics\<close>): its processor and memory usage, and its
  health, which is that of the services registered with the heartbeat monitor. Reading the usage and the
  submission to Cloud Monitoring are the environment; of floating point numbers only the
  conversion from an integer is used.
\<close>

section \<open>The service\<close>

text \<open>The part of the configuration that the heartbeat monitor reads.\<close>

definition heartbeatParams :: "configuration \<Rightarrow> collection_config option" where
  "heartbeatParams c = map_option (\<lambda>cc. \<lparr>MissedHeartbeatThreshold = cc_MissedHeartbeatThreshold cc,
     HeartbeatFrequency = cc_HeartbeatFrequency cc\<rparr>) (CollectionConfiguration c)"

datatype service_fault = NoCollectionConfiguration | FrequencyTooHigh | NoMetricClient | NoUsageReader

definition validateParameters :: "configuration option \<Rightarrow> service_fault option" where
  "validateParameters params =
     (case params of
        None \<Rightarrow> Some NoCollectionConfiguration
      | Some c \<Rightarrow>
          (case CollectionConfiguration c of
             None \<Rightarrow> Some NoCollectionConfiguration
           | Some cc \<Rightarrow>
               if CollectAgentMetrics cc \<and> (AgentMetricsFrequency cc < 5 \<or> AgentHealthFrequency cc < 5)
               then Some FrequencyTooHigh else None))"

text \<open>\<open>client\<close> and \<open>reader\<close>: whether the default metric client and the default usage reader can be created.\<close>

definition NewService :: "bool \<Rightarrow> bool \<Rightarrow> configuration option \<Rightarrow> (service_fault, unit) result" where
  "NewService client reader params =
     (case validateParameters params of
        Some e \<Rightarrow> Inl e
      | None \<Rightarrow> if \<not> client then Inl NoMetricClient else if \<not> reader then Inl NoUsageReader else Inr ())"

section \<open>Collection\<close>

definition collectHealthStatus :: "(string \<times> bool) list \<Rightarrow> bool" where
  "collectHealthStatus statuses = fold (\<lambda>(registrant, health) healthy. if \<not> health then False else healthy) statuses True"

typedecl float64

datatype series_value = BoolValue bool | Float64Value float64

record time_series =
  ts_BareMetal :: bool
  ts_CloudProp :: "string option"
  ts_MetricType :: string
  ts_Timestamp :: int
  ts_Value :: series_value

datatype agent_call = NowAgent | ReadCpu | ReadMemory | Submit string "time_series list"

record agent_world =
  agentNow :: "(agent_call, int) env"
  cpuPercent :: "(agent_call, float64 option) env"
  virtualMemory :: "(agent_call, nat option) env"
  submitted :: "(agent_call, bool) env"
  toFloat64 :: "nat \<Rightarrow> float64"
  projectOf :: "string option \<Rightarrow> string"

definition agentMetric :: "string \<Rightarrow> string" where
  "agentMetric m = ''workload.googleapis.com/sap/agent/'' @ m"

definition createHealthTimeSeries :: "agent_world \<Rightarrow> configuration \<Rightarrow> bool \<Rightarrow> (agent_call, time_series list) prog" where
  "createHealthTimeSeries w c isHealthy = do {
     t \<leftarrow> call (agentNow w) NowAgent;
     ret [\<lparr>ts_BareMetal = BareMetal c, ts_CloudProp = CloudProperties c, ts_MetricType = agentMetric ''health'',
           ts_Timestamp = t, ts_Value = BoolValue isHealthy\<rparr>]
   }"

definition createMetricTimeSeries ::
  "agent_world \<Rightarrow> configuration \<Rightarrow> float64 \<times> nat \<Rightarrow> (agent_call, time_series list) prog" where
  "createMetricTimeSeries w c u = do {
     t \<leftarrow> call (agentNow w) NowAgent;
     ret [\<lparr>ts_BareMetal = BareMetal c, ts_CloudProp = CloudProperties c, ts_MetricType = agentMetric ''cpu/utilization'',
           ts_Timestamp = t, ts_Value = Float64Value (fst u)\<rparr>,
          \<lparr>ts_BareMetal = BareMetal c, ts_CloudProp = CloudProperties c, ts_MetricType = agentMetric ''memory/utilization'',
           ts_Timestamp = t, ts_Value = Float64Value (toFloat64 w (snd u))\<rparr>]
   }"

definition submitSeries :: "agent_world \<Rightarrow> configuration \<Rightarrow> time_series list \<Rightarrow> (agent_call, bool) prog" where
  "submitSeries w c ts = call (submitted w) (Submit (''projects/'' @ projectOf w (CloudProperties c)) ts)"

definition collectAndSubmitHealth ::
  "agent_world \<Rightarrow> configuration \<Rightarrow> (string \<times> bool) list \<Rightarrow> (agent_call, bool) prog" where
  "collectAndSubmitHealth w c statuses = do {
     ts \<leftarrow> createHealthTimeSeries w c (collectHealthStatus statuses);
     submitSeries w c ts
   }"

definition readUsage :: "agent_world \<Rightarrow> (agent_call, (float64 \<times> nat) option) prog" where
  "readUsage w = do {
     cpu \<leftarrow> call (cpuPercent w) ReadCpu;
     case cpu of
       None \<Rightarrow> ret None
     | Some p \<Rightarrow> do {
         mem \<leftarrow> call (virtualMemory w) ReadMemory;
         ret (map_option (\<lambda>m. (p, m)) mem)
       }
   }"

definition collectAndSubmitMetrics :: "agent_world \<Rightarrow> configuration \<Rightarrow> (agent_call, bool) prog" where
  "collectAndSubmitMetrics w c = do {
     u \<leftarrow> readUsage w;
     case u of
       None \<Rightarrow> ret False
     | Some x \<Rightarrow> do { ts \<leftarrow> createMetricTimeSeries w c x; submitSeries w c ts }
   }"

text \<open>A health tick comes with the statuses at its time. Errors are logged only.\<close>

datatype agent_event = HealthTick "(string \<times> bool) list" | MetricTick | AgentCancelled

fun collectAndSubmitLoop :: "agent_world \<Rightarrow> configuration \<Rightarrow> agent_event list \<Rightarrow> (agent_call, unit) prog" where
  "collectAndSubmitLoop w c [] = ret ()"
| "collectAndSubmitLoop w c (AgentCancelled # es) = ret ()"
| "collectAndSubmitLoop w c (HealthTick ss # es) = do { _ \<leftarrow> collectAndSubmitHealth w c ss; collectAndSubmitLoop w c es }"
| "collectAndSubmitLoop w c (MetricTick # es) = do { _ \<leftarrow> collectAndSubmitMetrics w c; collectAndSubmitLoop w c es }"

text \<open>\<open>Start\<close> runs the loop only when the metrics are asked for.\<close>

definition StartService :: "agent_world \<Rightarrow> configuration \<Rightarrow> agent_event list \<Rightarrow> (agent_call, unit) prog" where
  "StartService w c es =
     (case CollectionConfiguration c of
        None \<Rightarrow> ret ()
      | Some cc \<Rightarrow> if \<not> CollectAgentMetrics cc then ret () else collectAndSubmitLoop w c es)"

section \<open>Lemmas\<close>

lemma collectHealthStatus_all: "collectHealthStatus ss \<longleftrightarrow> (\<forall>(n, h) \<in> set ss. h)"
proof -
  have "fold (\<lambda>(registrant, health) healthy. if \<not> health then False else healthy) ss b \<longleftrightarrow> b \<and> (\<forall>(n, h) \<in> set ss. h)" for b
    by (induction ss arbitrary: b) (auto split: if_splits)
  then show ?thesis by (simp add: collectHealthStatus_def)
qed

text \<open>A monitor holds one entry for each name.\<close>

definition uniqueNames :: "monitor \<Rightarrow> bool" where
  "uniqueNames m \<longleftrightarrow> distinct (map fst (registrations m))"

lemma fst_map_val: "fst \<circ> (\<lambda>(n, k). (n, f n k)) = fst"
  by auto

lemma act_unique: "uniqueNames m \<Longrightarrow> uniqueNames (act a m)"
  by (cases a) (auto simp: uniqueNames_def Register_def Beat_def incrementAll_def fst_map_val map_of_eq_None_iff
      split: option.splits)

lemma actAll_unique: "uniqueNames m \<Longrightarrow> uniqueNames (actAll as m)"
  unfolding actAll_def by (induction as arbitrary: m) (simp_all add: act_unique)

lemma map_of_entry: "distinct (map fst xs) \<Longrightarrow> (n, h) \<in> set xs \<longleftrightarrow> map_of xs n = Some h"
  by (meson map_of_SomeD map_of_is_SomeI)

lemma health_of_monitor:
  assumes "uniqueNames m"
  shows "collectHealthStatus (GetStatuses m) \<longleftrightarrow> (\<forall>n. map_of (GetStatuses m) n \<noteq> Some False)"
proof -
  have "distinct (map fst (GetStatuses m))"
    using assms by (simp add: GetStatuses_def uniqueNames_def case_prod_beta comp_def)
  note entry = map_of_entry [OF this]
  have "collectHealthStatus (GetStatuses m) \<longleftrightarrow> (\<forall>n h. (n, h) \<in> set (GetStatuses m) \<longrightarrow> h)"
    unfolding collectHealthStatus_all by blast
  also have "\<dots> \<longleftrightarrow> (\<forall>n. map_of (GetStatuses m) n \<noteq> Some False)"
    unfolding entry by (metis (full_types))
  finally show ?thesis .
qed

section \<open>Properties\<close>

text \<open>C14. The agent reports itself healthy exactly when no registered service has let as many ticks as the
  threshold pass without a beat, after any history of registrations, beats and ticks.\<close>

theorem agent_health_reflects_services:
  assumes "NewMonitor (heartbeatParams c) = Inr m"
  shows "collectHealthStatus (GetStatuses (actAll as m)) \<longleftrightarrow> (\<forall>n. healthy (threshold m) as n \<noteq> Some False)"
proof -
  have "uniqueNames m"
    using assms by (auto simp: NewMonitor_def uniqueNames_def split: option.splits)
  then show ?thesis
    by (simp add: health_of_monitor [OF actAll_unique] statuses [OF assms])
qed

lemma agent_health_reflects_services_witness:
  "\<exists>m. NewMonitor (heartbeatParams (ApplyDefaults ''e'' (Some (emptyConfiguration\<lparr>CollectionConfiguration :=
         Some (emptyCollection\<lparr>CollectAgentMetrics := True\<rparr>)\<rparr>)) None)) = Inr m \<and>
     collectHealthStatus (GetStatuses (actAll [DoRegister ''a'', DoTick] m))
       = (\<forall>n. healthy (threshold m) [DoRegister ''a'', DoTick] n \<noteq> Some False)"
proof -
  let ?c = "ApplyDefaults ''e'' (Some (emptyConfiguration\<lparr>CollectionConfiguration :=
      Some (emptyCollection\<lparr>CollectAgentMetrics := True\<rparr>)\<rparr>)) None"
  obtain m where "NewMonitor (heartbeatParams ?c) = Inr m"
    by (simp add: heartbeatParams_def ApplyDefaults_parts NewMonitor_def Heartbeat.validateParameters_def
        applyDefaultCollectionConfiguration_def Let_def emptyCollection_def orDefault_def)
  with agent_health_reflects_services [of ?c m "[DoRegister ''a'', DoTick]"] show ?thesis by blast
qed

text \<open>A frequency that the defaults let pass and the service refuses.\<close>

lemma short_interval_refused:
  "NewService client reader (Some (ApplyDefaults e (Some (emptyConfiguration\<lparr>CollectionConfiguration :=
     Some (emptyCollection\<lparr>CollectAgentMetrics := True, AgentMetricsFrequency := 3\<rparr>)\<rparr>)) cp)) = Inl FrequencyTooHigh"
  by (simp add: NewService_def validateParameters_def ApplyDefaults_parts applyDefaultCollectionConfiguration_def
      Let_def orDefault_def emptyCollection_def)

end
