(* ===== verification/Daemon.thy ===== *)
theory Daemon
  imports AgentMetrics
begin

text \<open>
  The daemon (\<open>internal/startdaemon\<close>): which services are started, in which order and under which
  conditions, their registration with the health monitor, and the polling of the configuration with the
  restarts it causes. The services and the clients of the cloud are calls; a restart re-reads the
  configuration and is one step of the poller.
\<close>

section \<open>Services\<close>

datatype health_monitor = NullMonitor | HeartMonitor monitor

definition registerWith :: "health_monitor \<Rightarrow> string \<Rightarrow> (hb_fault, spec) result \<times> health_monitor" where
  "registerWith h name =
     (case h of
        NullMonitor \<Rightarrow> (NullRegister name, NullMonitor)
      | HeartMonitor m \<Rightarrow> (case Register name m of (r, m1) \<Rightarrow> (r, HeartMonitor m1)))"

definition collectionDefinitionName :: string where "collectionDefinitionName = ''collectiondefinition''"
definition hostMetricsServiceName :: string where "hostMetricsServiceName = ''hostmetrics''"
definition processMetricsServiceName :: string where "processMetricsServiceName = ''processmetrics''"
definition workloadManagerServiceName :: string where "workloadManagerServiceName = ''workloadmanager''"
definition statusServiceName :: string where "statusServiceName = ''status''"

datatype client =
    AgentMetricClient | UsageReader | GCEClient | WLMClient string | GCEBetaClient string | WLMMetricClient
  | QueryClient | HANAMetricClient | StatusInit | PubSubActions

datatype daemon_service =
    AgentMetricsService | CollectionDefinitionService | SystemDiscovery | RemoteWorkloadManager
  | HostMetricsService | WorkloadManagerService | ProcessMetricsService | HANAMonitoringService | StatusService

datatype daemon_call =
    CreateClient client
  | OverrideEndpoint string
  | Launch daemon_service spec
  | AwaitCancel
  | AwaitSignal
  | CancelServices
  | SleepSeconds nat

record daemon_world =
  clientOk :: "(daemon_call, bool) env"
  launched :: "(daemon_call, unit) env"
  goos :: string

datatype daemon_end =
    NoCloudProperties
  | AgentMetricsFailed
  | RegistrationFailed string
  | ClientFailed client
  | ShutDown

definition create :: "daemon_world \<Rightarrow> client \<Rightarrow> (daemon_call, bool) prog" where
  "create w c = call (clientOk w) (CreateClient c)"

definition launch :: "daemon_world \<Rightarrow> daemon_service \<Rightarrow> spec \<Rightarrow> (daemon_call, unit) prog" where
  "launch w s h = call (launched w) (Launch s h)"

text \<open>Registering, or ending when the registration fails.\<close>

definition registered ::
  "health_monitor \<Rightarrow> string \<Rightarrow> (spec \<Rightarrow> health_monitor \<Rightarrow> (daemon_call, daemon_end) prog) \<Rightarrow> (daemon_call, daemon_end) prog" where
  "registered h name body =
     (case registerWith h name of
        (Inl _, h1) \<Rightarrow> ret (RegistrationFailed name)
      | (Inr s, h1) \<Rightarrow> body s h1)"

definition needs :: "daemon_world \<Rightarrow> client \<Rightarrow> (daemon_call, daemon_end) prog \<Rightarrow> (daemon_call, daemon_end) prog" where
  "needs w c body = do { ok \<leftarrow> create w c; if ok then body else ret (ClientFailed c) }"

text \<open>A service that is not started when its registration fails, while the others go on.\<close>

definition startCollection ::
  "daemon_world \<Rightarrow> health_monitor \<Rightarrow> string \<Rightarrow> (spec \<Rightarrow> (daemon_call, unit) prog) \<Rightarrow> (daemon_call, health_monitor) prog" where
  "startCollection w h name start =
     (case registerWith h name of
        (Inl _, h1) \<Rightarrow> ret h1
      | (Inr s, h1) \<Rightarrow> do { _ \<leftarrow> start s; ret h1 })"

definition startHostMetrics :: "daemon_world \<Rightarrow> health_monitor \<Rightarrow> (daemon_call, health_monitor) prog" where
  "startHostMetrics w h = startCollection w h hostMetricsServiceName (launch w HostMetricsService)"

definition startProcessMetrics :: "daemon_world \<Rightarrow> health_monitor \<Rightarrow> (daemon_call, health_monitor) prog" where
  "startProcessMetrics w h = startCollection w h processMetricsServiceName (launch w ProcessMetricsService)"

definition startWorkloadMetrics :: "daemon_world \<Rightarrow> spec \<Rightarrow> (daemon_call, unit) prog" where
  "startWorkloadMetrics w s = launch w WorkloadManagerService s"

definition startStatusCollection :: "daemon_world \<Rightarrow> spec \<Rightarrow> (daemon_call, unit) prog" where
  "startStatusCollection w s = do {
     ok \<leftarrow> create w StatusInit;
     if ok then launch w StatusService s else ret ()
   }"

definition waitForShutdown :: "daemon_world \<Rightarrow> bool \<Rightarrow> (daemon_call, daemon_end) prog" where
  "waitForShutdown w restarting =
     (if restarting then do { _ \<leftarrow> call (launched w) AwaitCancel; ret ShutDown }
      else do {
        _ \<leftarrow> call (launched w) AwaitSignal;
        _ \<leftarrow> call (launched w) CancelServices;
        _ \<leftarrow> call (launched w) (SleepSeconds 3);
        ret ShutDown
      })"

definition startAgentMetricsService :: "daemon_world \<Rightarrow> configuration \<Rightarrow> (daemon_call, health_monitor option) prog" where
  "startAgentMetricsService w c =
     (case NewMonitor (heartbeatParams c) of
        Inl _ \<Rightarrow> ret None
      | Inr m \<Rightarrow>
          if validateParameters (Some c) \<noteq> None then ret None
          else do {
            client \<leftarrow> create w AgentMetricClient;
            reader \<leftarrow> (if client then create w UsageReader else ret False);
            case NewService client reader (Some c) of
              Inl _ \<Rightarrow> ret None
            | Inr _ \<Rightarrow> do { _ \<leftarrow> launch w AgentMetricsService None; ret (Some (HeartMonitor m)) }
          })"

definition collects :: "configuration \<Rightarrow> (coll_config \<Rightarrow> bool) \<Rightarrow> bool" where
  "collects c f = (case CollectionConfiguration c of None \<Rightarrow> False | Some cc \<Rightarrow> f cc)"

definition endpointOf :: "configuration \<Rightarrow> string" where
  "endpointOf c = (case CollectionConfiguration c of None \<Rightarrow> [] | Some cc \<Rightarrow> DataWarehouseEndpoint cc)"

text \<open>The services after the workload manager has been registered.\<close>

definition startLocalServices :: "daemon_world \<Rightarrow> bool \<Rightarrow> health_monitor \<Rightarrow> spec \<Rightarrow> (daemon_call, daemon_end) prog" where
  "startLocalServices w restarting h wlmSpec = needs w QueryClient (do {
     h1 \<leftarrow> startHostMetrics w h;
     _ \<leftarrow> startWorkloadMetrics w wlmSpec;
     h2 \<leftarrow> startProcessMetrics w h1;
     needs w HANAMetricClient (do {
       _ \<leftarrow> launch w HANAMonitoringService None;
       _ \<leftarrow> startCollection w h2 statusServiceName (startStatusCollection w);
       waitForShutdown w restarting
     })
   })"

definition startWorkloadManager :: "daemon_world \<Rightarrow> configuration \<Rightarrow> bool \<Rightarrow> health_monitor \<Rightarrow> (daemon_call, daemon_end) prog" where
  "startWorkloadManager w c restarting h = needs w WLMMetricClient
     (registered h workloadManagerServiceName (\<lambda>wlmSpec h1.
        if collects c WorkloadValidationRemoteCollection then do {
          _ \<leftarrow> launch w RemoteWorkloadManager wlmSpec;
          waitForShutdown w restarting
        }
        else startLocalServices w restarting h1 wlmSpec))"

definition overrideEndpoints :: "daemon_world \<Rightarrow> configuration \<Rightarrow> (daemon_call, daemon_end) prog \<Rightarrow> (daemon_call, daemon_end) prog" where
  "overrideEndpoints w c body =
     (if contains (ServiceEndpointOverride c) ''beta'' then
        needs w (GCEBetaClient (ServiceEndpointOverride c))
          (do { _ \<leftarrow> call (launched w) (OverrideEndpoint (ServiceEndpointOverride c)); body })
      else body)"

definition startFrom :: "daemon_world \<Rightarrow> configuration \<Rightarrow> bool \<Rightarrow> health_monitor \<Rightarrow> (daemon_call, daemon_end) prog" where
  "startFrom w c restarting h = registered h collectionDefinitionName (\<lambda>cdSpec h1. do {
     _ \<leftarrow> launch w CollectionDefinitionService cdSpec;
     needs w GCEClient (needs w (WLMClient (endpointOf c)) (do {
       _ \<leftarrow> create w PubSubActions;
       _ \<leftarrow> launch w SystemDiscovery None;
       overrideEndpoints w c (startWorkloadManager w c restarting h1)
     }))
   })"

definition startServices :: "daemon_world \<Rightarrow> configuration \<Rightarrow> bool \<Rightarrow> (daemon_call, daemon_end) prog" where
  "startServices w c restarting =
     (if CloudProperties c = None then ret NoCloudProperties
      else if collects c CollectAgentMetrics then do {
        m \<leftarrow> startAgentMetricsService w c;
        case m of None \<Rightarrow> ret AgentMetricsFailed | Some h \<Rightarrow> startFrom w c restarting h
      }
      else startFrom w c restarting NullMonitor)"

section \<open>Configuration\<close>

text \<open>\<open>endpoint\<close> is the default endpoint of the data warehouse.\<close>

definition readConfiguration :: "config_world \<Rightarrow> string \<Rightarrow> string \<Rightarrow> string option \<Rightarrow> configuration \<times> string" where
  "readConfiguration cw path endpoint cloudProps =
     (case ReadFromFile cw path of (c, version, _) \<Rightarrow> (ApplyDefaults endpoint c cloudProps, version))"

record daemon =
  d_config :: configuration
  pmVersion :: string

text \<open>The first start; \<open>None\<close> is the exit of a bare metal host without cloud properties.\<close>

definition executeDaemon :: "config_world \<Rightarrow> string \<Rightarrow> string \<Rightarrow> string option \<Rightarrow> daemon option" where
  "executeDaemon cw path endpoint cloudProps =
     (case ReadFromFile cw path of (c, version, _) \<Rightarrow>
        if (case c of None \<Rightarrow> False | Some x \<Rightarrow> BareMetal x \<and> CloudProperties x = None) then None
        else Some \<lparr>d_config = ApplyDefaults endpoint c cloudProps, pmVersion = version\<rparr>)"

definition startdaemonHandler :: "config_world \<Rightarrow> string \<Rightarrow> string \<Rightarrow> string option \<Rightarrow> daemon \<Rightarrow> daemon" where
  "startdaemonHandler cw path endpoint cloudProps d =
     (case readConfiguration cw path endpoint cloudProps of (c, v) \<Rightarrow> d\<lparr>d_config := c, pmVersion := v\<rparr>)"

text \<open>What a poll sees: the time of modification of the file, or the latest version of the parameter; in either
  case the world in which a restart would read the configuration.\<close>

datatype poll_event =
    FileTick config_world "int option"
  | PmTick config_world "pm_config \<Rightarrow> string option"
  | PollShutdown

record poller =
  prev :: int
  p_daemon :: daemon
  restarts :: nat

definition Restart :: "config_world \<Rightarrow> string \<Rightarrow> string \<Rightarrow> string option \<Rightarrow> poller \<Rightarrow> poller" where
  "Restart cw path endpoint cloudProps p =
     p\<lparr>p_daemon := startdaemonHandler cw path endpoint cloudProps (p_daemon p), restarts := restarts p + 1\<rparr>"

text \<open>The version is left out of the request for the latest one.\<close>

definition pmUpdated :: "(pm_config \<Rightarrow> string option) \<Rightarrow> daemon \<Rightarrow> bool" where
  "pmUpdated fetch d =
     (case ParameterManagerConfig (d_config d) of
        None \<Rightarrow> False
      | Some pm \<Rightarrow> (case fetch (pm\<lparr>ParameterVersion := []\<rparr>) of None \<Rightarrow> False | Some v \<Rightarrow> v \<noteq> pmVersion d))"

fun pollLoop :: "string \<Rightarrow> string \<Rightarrow> string option \<Rightarrow> poll_event list \<Rightarrow> poller \<Rightarrow> poller" where
  "pollLoop path endpoint cp [] p = p"
| "pollLoop path endpoint cp (PollShutdown # es) p = p"
| "pollLoop path endpoint cp (FileTick cw t # es) p =
     pollLoop path endpoint cp es
       (case t of
          None \<Rightarrow> p
        | Some res \<Rightarrow> if res > prev p then (Restart cw path endpoint cp p)\<lparr>prev := res\<rparr> else p)"
| "pollLoop path endpoint cp (PmTick cw fetch # es) p =
     pollLoop path endpoint cp es (if pmUpdated fetch (p_daemon p) then Restart cw path endpoint cp p else p)"

text \<open>The poller ends at once when the first look at the file fails.\<close>

definition pollConfigFile :: "string \<Rightarrow> string \<Rightarrow> string option \<Rightarrow> int option \<Rightarrow> poll_event list \<Rightarrow> daemon \<Rightarrow> poller" where
  "pollConfigFile path endpoint cp first es d =
     (case first of
        None \<Rightarrow> \<lparr>prev = 0, p_daemon = d, restarts = 0\<rparr>
      | Some t \<Rightarrow> pollLoop path endpoint cp es \<lparr>prev = t, p_daemon = d, restarts = 0\<rparr>)"

section \<open>Registration\<close>

fun names :: "health_monitor \<Rightarrow> string set" where
  "names NullMonitor = {}"
| "names (HeartMonitor m) = fst ` set (registrations m)"

fun specFor :: "health_monitor \<Rightarrow> string \<Rightarrow> spec" where
  "specFor NullMonitor name = None"
| "specFor (HeartMonitor m) name = Some (name, frequency m)"

definition withName :: "health_monitor \<Rightarrow> string \<Rightarrow> health_monitor" where
  "withName h name = snd (registerWith h name)"

lemma registerWith_new: "name \<notin> names h \<Longrightarrow> registerWith h name = (Inr (specFor h name), withName h name)"
  by (cases h)
    (auto simp: registerWith_def withName_def NullRegister_def Register_def map_of_eq_None_iff image_iff split: option.splits
      dest: map_of_SomeD)

lemma names_withName: "names (withName h name) \<subseteq> insert name (names h)"
  by (cases h) (auto simp: withName_def registerWith_def Register_def split: option.splits)

lemma specFor_withName [simp]: "specFor (withName h name) k = specFor h k"
  by (cases h) (auto simp: withName_def registerWith_def Register_def split: option.splits)

section \<open>Starting\<close>

lemma registered_wp:
  "name \<notin> names h \<Longrightarrow> wp (body (specFor h name) (withName h name)) Q log \<Longrightarrow> wp (registered h name body) Q log"
  by (simp add: registered_def registerWith_new)

lemma needs_wp:
  "(\<not> clientOk w log (CreateClient c) \<Longrightarrow> Q (ClientFailed c) (CreateClient c # log)) \<Longrightarrow> (clientOk w log (CreateClient c) \<Longrightarrow> wp body Q (CreateClient c # log)) \<Longrightarrow>
   wp (needs w c body) Q log"
  by (simp add: needs_def create_def wp_rules)

lemma startCollection_wp:
  "name \<notin> names h \<Longrightarrow>
   wp (start (specFor h name)) (\<lambda>_. wp (f (withName h name)) Q) log \<Longrightarrow>
   wp (State_Monad.bind (startCollection w h name start) f) Q log"
  by (simp add: startCollection_def registerWith_new wp_bind wp_bind_fun wp_return wp_return_fun)

lemma launch_wp: "wp f Q (Launch s h # log) \<Longrightarrow> wp (State_Monad.bind (launch w s h) (\<lambda>_. f)) Q log"
  by (simp add: launch_def wp_rules)

lemma launch_post: "Q () (Launch s h # log) \<Longrightarrow> wp (launch w s h) Q log"
  by (simp add: launch_def wp_rules)

lemma create_wp: "(\<And>ok. wp f Q (CreateClient c # log)) \<Longrightarrow> wp (State_Monad.bind (create w c) (\<lambda>_. f)) Q log"
  by (simp add: create_def wp_rules)

text \<open>The services launched, in order, and the services that are to be started with a configuration.\<close>

fun serviceOf :: "daemon_call \<Rightarrow> daemon_service list" where
  "serviceOf (Launch s h) = [s]"
| "serviceOf _ = []"

definition servicesOf :: "daemon_call list \<Rightarrow> daemon_service list" where
  "servicesOf log = concat (map serviceOf (rev log))"

lemma servicesOf_Nil [simp]: "servicesOf [] = []"
  by (simp add: servicesOf_def)

lemma servicesOf_Cons [simp]: "servicesOf (c # log) = servicesOf log @ serviceOf c"
  by (simp add: servicesOf_def)

definition localServices :: "daemon_service list" where
  "localServices = [HostMetricsService, WorkloadManagerService, ProcessMetricsService, HANAMonitoringService, StatusService]"

definition plan :: "configuration \<Rightarrow> daemon_service list" where
  "plan c = (if collects c CollectAgentMetrics then [AgentMetricsService] else []) @ [CollectionDefinitionService, SystemDiscovery]
     @ (if collects c WorkloadValidationRemoteCollection then [RemoteWorkloadManager] else localServices)"

text \<open>The name under which a service sends its heartbeats.\<close>

fun nameOf :: "daemon_service \<Rightarrow> string option" where
  "nameOf CollectionDefinitionService = Some collectionDefinitionName"
| "nameOf HostMetricsService = Some hostMetricsServiceName"
| "nameOf WorkloadManagerService = Some workloadManagerServiceName"
| "nameOf RemoteWorkloadManager = Some workloadManagerServiceName"
| "nameOf ProcessMetricsService = Some processMetricsServiceName"
| "nameOf StatusService = Some statusServiceName"
| "nameOf _ = None"

definition heartOf :: "configuration \<Rightarrow> string \<Rightarrow> spec" where
  "heartOf c n = (if collects c CollectAgentMetrics
     then map_option (\<lambda>p. (n, seconds (HeartbeatFrequency p))) (heartbeatParams c) else None)"

fun launchFits :: "configuration \<Rightarrow> daemon_call \<Rightarrow> bool" where
  "launchFits c (Launch s h) = (h = (case nameOf s of None \<Rightarrow> None | Some n \<Rightarrow> heartOf c n))"
| "launchFits c _ = True"

text \<open>The clients without which the daemon cannot go on, and whether the creation of one has failed.\<close>

definition required :: "client \<Rightarrow> bool" where
  "required k \<longleftrightarrow> k \<noteq> PubSubActions \<and> k \<noteq> StatusInit"

primrec failedClient :: "daemon_world \<Rightarrow> (client \<Rightarrow> bool) \<Rightarrow> daemon_call list \<Rightarrow> bool" where
  "failedClient w P [] \<longleftrightarrow> False"
| "failedClient w P (c # log) \<longleftrightarrow>
     (case c of CreateClient k \<Rightarrow> P k \<and> \<not> clientOk w log c | _ \<Rightarrow> False) \<or> failedClient w P log"

text \<open>Every call was made while no required client had failed.\<close>

definition stopsAtFailure :: "daemon_world \<Rightarrow> daemon_call list \<Rightarrow> bool" where
  "stopsAtFailure w log \<longleftrightarrow> guarded (\<lambda>l. \<not> failedClient w required l) (\<lambda>_. True) log"

text \<open>The last call was an attempt to create a client, which failed.\<close>

fun refused :: "daemon_world \<Rightarrow> client set \<Rightarrow> daemon_call list \<Rightarrow> bool" where
  "refused w ks (CreateClient k # log) \<longleftrightarrow> k \<in> ks \<and> \<not> clientOk w log (CreateClient k)"
| "refused w ks _ \<longleftrightarrow> False"

text \<open>The status service alone is left out when it cannot be initialised.\<close>

definition launchedPlan :: "daemon_world \<Rightarrow> configuration \<Rightarrow> daemon_call list \<Rightarrow> bool" where
  "launchedPlan w c log \<longleftrightarrow>
     servicesOf log = plan c \<or> servicesOf log @ [StatusService] = plan c \<and> failedClient w (\<lambda>k. k = StatusInit) log"

definition orderly :: "daemon_world \<Rightarrow> configuration \<Rightarrow> daemon_end \<Rightarrow> daemon_call list \<Rightarrow> bool" where
  "orderly w c r log \<longleftrightarrow> prefix (servicesOf log) (plan c) \<and> list_all (launchFits c) log \<and> stopsAtFailure w log \<and>
     (case r of
        NoCloudProperties \<Rightarrow> CloudProperties c = None \<and> log = []
      | AgentMetricsFailed \<Rightarrow> collects c CollectAgentMetrics \<and>
          (NewService True True (Some c) \<noteq> Inr () \<or> (\<exists>e. NewMonitor (heartbeatParams c) = Inl e)
           \<or> refused w {AgentMetricClient, UsageReader} log)
      | RegistrationFailed n \<Rightarrow> False
      | ClientFailed k \<Rightarrow> refused w {k} log
      | ShutDown \<Rightarrow> \<not> failedClient w required log \<and> launchedPlan w c log)"

definition calm :: "daemon_world \<Rightarrow> daemon_call list \<Rightarrow> bool" where
  "calm w log \<longleftrightarrow> stopsAtFailure w log \<and> \<not> failedClient w required log"

lemma calm_simps [simp]:
  "calm w []"
  "calm w log \<Longrightarrow> calm w (Launch s h # log)" "calm w log \<Longrightarrow> calm w (OverrideEndpoint e # log)"
  "calm w log \<Longrightarrow> calm w (AwaitCancel # log)" "calm w log \<Longrightarrow> calm w (AwaitSignal # log)"
  "calm w log \<Longrightarrow> calm w (CancelServices # log)" "calm w log \<Longrightarrow> calm w (SleepSeconds n # log)"
  "calm w log \<Longrightarrow> clientOk w log (CreateClient k) \<or> \<not> required k \<Longrightarrow> calm w (CreateClient k # log)"
  "calm w log \<Longrightarrow> stopsAtFailure w (CreateClient k # log)"
  by (auto simp: calm_def stopsAtFailure_def)

lemma calmD: "calm w log \<Longrightarrow> stopsAtFailure w log" "calm w log \<Longrightarrow> \<not> failedClient w required log"
  by (simp_all add: calm_def)

lemma launchedPlan_prefix: "launchedPlan w c log \<Longrightarrow> prefix (servicesOf log) (plan c)"
  unfolding launchedPlan_def by (metis prefixI prefix_order.refl)

lemma orderly_ShutDown: "calm w log \<Longrightarrow> list_all (launchFits c) log \<Longrightarrow> launchedPlan w c log \<Longrightarrow> orderly w c ShutDown log"
  by (simp add: orderly_def calmD launchedPlan_prefix)

lemma wait_orderly:
  assumes "list_all (launchFits c) log" and "calm w log" and "launchedPlan w c log"
  shows "wp (waitForShutdown w restarting) (orderly w c) log"
proof -
  have plan: "launchedPlan w c (x # log1)" if "launchedPlan w c log1" "serviceOf x = []" for x log1
    using that by (auto simp: launchedPlan_def)
  show ?thesis
    using assms by (auto simp: waitForShutdown_def wp_rules intro!: orderly_ShutDown plan)
qed

lemma names_distinct:
  "distinct [collectionDefinitionName, hostMetricsServiceName, processMetricsServiceName, workloadManagerServiceName, statusServiceName]"
  by (simp add: collectionDefinitionName_def hostMetricsServiceName_def processMetricsServiceName_def
      workloadManagerServiceName_def statusServiceName_def)

lemma fresh: "name \<notin> names h \<Longrightarrow> name \<noteq> n \<Longrightarrow> name \<notin> names (withName h n)"
  using names_withName by blast

lemma localServices_orderly:
  assumes plan: "plan c = servicesOf log @ localServices" and fits: "list_all (launchFits c) log" and calm: "calm w log"
    and h: "hostMetricsServiceName \<notin> names h" "processMetricsServiceName \<notin> names h" "statusServiceName \<notin> names h"
    and spec: "\<And>n. specFor h n = heartOf c n" "s = heartOf c workloadManagerServiceName"
  shows "wp (startLocalServices w restarting h s) (orderly w c) log"
proof -
  note others = names_distinct [simplified]
  show ?thesis
    unfolding startLocalServices_def startHostMetrics_def startProcessMetrics_def startWorkloadMetrics_def
    using others
    by (intro needs_wp startCollection_wp launch_wp launch_post h fresh)
      (auto simp: orderly_def plan fits calm required_def launchedPlan_def spec localServices_def startStatusCollection_def create_def
        launch_def wp_rules intro!: wait_orderly)
qed

lemma workloadManager_orderly:
  assumes plan: "plan c = servicesOf log @ (if collects c WorkloadValidationRemoteCollection then [RemoteWorkloadManager] else localServices)"
    and fits: "list_all (launchFits c) log" and calm: "calm w log"
    and h: "names h \<subseteq> {collectionDefinitionName}" and spec: "\<And>n. specFor h n = heartOf c n"
  shows "wp (startWorkloadManager w c restarting h) (orderly w c) log"
proof -
  note others = names_distinct [simplified]
  have new: "workloadManagerServiceName \<notin> names h" using h others by auto
  have hosts: "n \<notin> names (withName h workloadManagerServiceName)"
    if "n \<in> {hostMetricsServiceName, processMetricsServiceName, statusServiceName}" for n
  proof
    assume "n \<in> names (withName h workloadManagerServiceName)"
    then have "n = workloadManagerServiceName \<or> n = collectionDefinitionName"
      using names_withName [of h workloadManagerServiceName] h by blast
    with that others show False by auto
  qed
  show ?thesis
    unfolding startWorkloadManager_def
  proof (rule needs_wp)
    show "orderly w c (ClientFailed WLMMetricClient) (CreateClient WLMMetricClient # log)" if "\<not> clientOk w log (CreateClient WLMMetricClient)"
      using that by (simp add: orderly_def plan fits calm)
    let ?log = "CreateClient WLMMetricClient # log"
    assume ok: "clientOk w log (CreateClient WLMMetricClient)"
    show "wp (registered h workloadManagerServiceName (\<lambda>wlmSpec h1.
        if collects c WorkloadValidationRemoteCollection then do {
          _ \<leftarrow> launch w RemoteWorkloadManager wlmSpec;
          waitForShutdown w restarting
        } else startLocalServices w restarting h1 wlmSpec)) (orderly w c) ?log"
    proof (rule registered_wp [OF new], cases "collects c WorkloadValidationRemoteCollection")
      case True
      then show "wp (if collects c WorkloadValidationRemoteCollection then do {
          _ \<leftarrow> launch w RemoteWorkloadManager (specFor h workloadManagerServiceName);
          waitForShutdown w restarting
        } else startLocalServices w restarting (withName h workloadManagerServiceName) (specFor h workloadManagerServiceName))
        (orderly w c) ?log"
        by (simp, intro launch_wp wait_orderly) (simp_all add: plan fits spec calm ok launchedPlan_def)
    next
      case False
      then show "wp (if collects c WorkloadValidationRemoteCollection then do {
          _ \<leftarrow> launch w RemoteWorkloadManager (specFor h workloadManagerServiceName);
          waitForShutdown w restarting
        } else startLocalServices w restarting (withName h workloadManagerServiceName) (specFor h workloadManagerServiceName))
        (orderly w c) ?log"
        by (simp, intro localServices_orderly) (simp_all add: plan fits spec hosts calm ok)
    qed
  qed
qed

lemma from_orderly:
  assumes start: "plan c = servicesOf log @ [CollectionDefinitionService, SystemDiscovery]
      @ (if collects c WorkloadValidationRemoteCollection then [RemoteWorkloadManager] else localServices)"
    and fits: "list_all (launchFits c) log" and calm: "calm w log" and h: "names h = {}"
    and spec: "\<And>n. specFor h n = heartOf c n"
  shows "wp (startFrom w c restarting h) (orderly w c) log"
proof -
  have names: "names (withName h collectionDefinitionName) \<subseteq> {collectionDefinitionName}"
    using names_withName [of h collectionDefinitionName] h by auto
  show ?thesis
    unfolding startFrom_def overrideEndpoints_def
    by (intro registered_wp launch_wp needs_wp create_wp)
      (auto simp: h orderly_def start fits calm required_def spec wp_if wp_bind wp_call intro!: needs_wp workloadManager_orderly names)
qed

lemma agentMetrics_monitor:
  "wp (startAgentMetricsService w c) (\<lambda>r log'. servicesOf log' = servicesOf log @ (if r = None then [] else [AgentMetricsService])
     \<and> (list_all (launchFits c) log \<longrightarrow> list_all (launchFits c) log') \<and>
     (calm w log \<longrightarrow> stopsAtFailure w log' \<and> (r \<noteq> None \<longrightarrow> calm w log')) \<and>
     (\<forall>h. r = Some h \<longrightarrow> names h = {} \<and> (\<exists>m. h = HeartMonitor m \<and> NewMonitor (heartbeatParams c) = Inr m)) \<and>
     (r = None \<longrightarrow> NewService True True (Some c) \<noteq> Inr () \<or> (\<exists>e. NewMonitor (heartbeatParams c) = Inl e)
       \<or> refused w {AgentMetricClient, UsageReader} log')) log"
proof -
  have names: "NewMonitor (heartbeatParams c) = Inr m \<Longrightarrow> registrations m = []" for m
    by (auto simp: NewMonitor_def split: option.splits)
  show ?thesis
    by (auto simp: startAgentMetricsService_def create_def launch_def wp_rules NewService_def names required_def calmD
        split: sum.splits option.splits)
qed

lemma monitor_spec:
  assumes "collects c CollectAgentMetrics" and "NewMonitor (heartbeatParams c) = Inr m"
  shows "specFor (HeartMonitor m) n = heartOf c n"
  using assms by (auto simp: heartOf_def NewMonitor_def split: option.splits)

lemma startServices_orderly: "wp (startServices w c restarting) (orderly w c) []"
proof -
  have plain: "wp (startFrom w c restarting NullMonitor) (orderly w c) []" if "\<not> collects c CollectAgentMetrics"
    using that by (intro from_orderly) (simp_all add: plan_def heartOf_def)
  have agent: "wp (startAgentMetricsService w c \<bind> (\<lambda>m. case m of None \<Rightarrow> ret AgentMetricsFailed
      | Some h \<Rightarrow> startFrom w c restarting h)) (orderly w c) []" if "collects c CollectAgentMetrics"
    unfolding wp_bind
  proof (rule wp_mono [OF agentMetrics_monitor])
    fix r log1
    assume r: "servicesOf log1 = servicesOf [] @ (if r = None then [] else [AgentMetricsService]) \<and>
       (list_all (launchFits c) [] \<longrightarrow> list_all (launchFits c) log1) \<and>
       (calm w [] \<longrightarrow> stopsAtFailure w log1 \<and> (r \<noteq> None \<longrightarrow> calm w log1)) \<and>
       (\<forall>h. r = Some h \<longrightarrow> names h = {} \<and> (\<exists>m. h = HeartMonitor m \<and> NewMonitor (heartbeatParams c) = Inr m)) \<and>
       (r = None \<longrightarrow> NewService True True (Some c) \<noteq> Inr () \<or> (\<exists>e. NewMonitor (heartbeatParams c) = Inl e)
         \<or> refused w {AgentMetricClient, UsageReader} log1)"
    show "wp (case r of None \<Rightarrow> ret AgentMetricsFailed | Some h \<Rightarrow> startFrom w c restarting h) (orderly w c) log1"
    proof (cases r)
      case None
      with r that show ?thesis by (simp add: wp_return orderly_def)
    next
      case (Some h)
      with r obtain m where m: "h = HeartMonitor m" "NewMonitor (heartbeatParams c) = Inr m" "names h = {}" by auto
      have "wp (startFrom w c restarting h) (orderly w c) log1"
        using r Some that m by (intro from_orderly) (simp_all add: plan_def monitor_spec [unfolded specFor.simps])
      with Some show ?thesis by simp
    qed
  qed
  show ?thesis
    using plain agent by (auto simp: startServices_def wp_return orderly_def stopsAtFailure_def)
qed

text \<open>The daemon never calls the method that counts the beats: without ticks every service is healthy for ever.\<close>

lemma no_ticks_zero: "DoTick \<notin> set as \<Longrightarrow> ticksSince n as \<in> {None, Some 0}"
  by (induction as rule: ticksSince.induct) (auto split: hb_action.splits)

lemma health_without_ticks:
  assumes "NewMonitor (heartbeatParams c) = Inr m" and "0 < threshold m" and "DoTick \<notin> set as"
  shows "collectHealthStatus (GetStatuses (actAll as m))"
proof -
  have "healthy (threshold m) as n \<noteq> Some False" for n
    using no_ticks_zero [of "rev as" n] assms by (auto simp: healthy_def)
  moreover have "uniqueNames m"
    using assms(1) by (auto simp: NewMonitor_def uniqueNames_def split: option.splits)
  ultimately show ?thesis
    by (simp add: health_of_monitor [OF actAll_unique] statuses [OF assms(1)])
qed

section \<open>Properties\<close>

text \<open>C8. However the services of the cloud behave, the daemon launches its services in the order of its plan for the
  configuration, and makes no call any more once a client that it needs could not be created (the subscription to log
  collection and the status service are not needed). The daemon comes up only when no such client failed, and then the
  whole plan is launched, except for the status service if that could not be initialised. No registration with the
  health monitor ever fails, and every service gets the heartbeat of its own name, or none when the agent metrics are not
  collected.\<close>

theorem daemon_starts_in_order:
  "wp (startServices w c restarting) (orderly w c) []"
  by (rule startServices_orderly)

text \<open>The intervals that the service of the agent metrics accepts.\<close>

definition slowEnough :: "configuration \<Rightarrow> bool" where
  "slowEnough c \<longleftrightarrow> validateParameters (Some c) = None"

lemma ready_monitor:
  assumes "agentReady c" and "collects c CollectAgentMetrics"
  shows "\<exists>m. NewMonitor (heartbeatParams c) = Inr m"
  using assms by (auto simp: agentReady_def collects_def collectionReady_def heartbeatParams_def NewMonitor_def
      Heartbeat.validateParameters_def split: option.splits)

lemma refused_never: "clientOk w = (\<lambda>_ _. True) \<Longrightarrow> \<not> refused w ks log"
  by (cases "(w, ks, log)" rule: refused.cases) simp_all

lemma failedClient_never: "clientOk w = (\<lambda>_ _. True) \<Longrightarrow> \<not> failedClient w P log"
  by (induction log) (simp_all split: daemon_call.split)

lemma orderly_comes_up:
  assumes "orderly w c r log" and "clientOk w = (\<lambda>_ _. True)" and "agentReady c" and "slowEnough c" and "CloudProperties c \<noteq> None"
  shows "r = ShutDown \<and> servicesOf log = plan c"
  using assms ready_monitor [of c] refused_never [of w] failedClient_never [of w]
  by (auto simp: orderly_def slowEnough_def NewService_def launchedPlan_def split: daemon_end.splits)

text \<open>C9. A daemon that has read its configuration comes up: with cloud properties and intervals of the agent
  metrics of at least five seconds, and when all clients can be created, every start launches all services of its plan in
  order, the status service included, each with its heartbeat, and runs until it is shut down, whatever else the file and
  the Parameter Manager contain.\<close>

theorem configured_daemon_comes_up:
  assumes "clientOk w = (\<lambda>_ _. True)" and "c = fst (readConfiguration cw path endpoint cp)"
    and "CloudProperties c \<noteq> None" and "slowEnough c"
  shows "wp (startServices w c restarting)
    (\<lambda>r log'. r = ShutDown \<and> servicesOf log' = plan c \<and> list_all (launchFits c) log') []"
proof (rule wp_mono [OF startServices_orderly])
  fix r log1
  assume o: "orderly w c r log1"
  obtain x v e where "ReadFromFile cw path = (x, v, e)" by (cases "ReadFromFile cw path") auto
  then have c: "c = ApplyDefaults endpoint x cp" using assms(2) by (simp add: readConfiguration_def)
  have "agentReady c" unfolding c by (rule ready_any)
  with orderly_comes_up [OF o assms(1) _ assms(4,3)] o
  show "r = ShutDown \<and> servicesOf log1 = plan c \<and> list_all (launchFits c) log1" by (simp add: orderly_def)
qed

text \<open>A configuration world whose file is empty.\<close>

definition emptyFileWorld :: config_world where
  "emptyFileWorld = \<lparr>readFile = \<lambda>_. Inr [], unmarshalConfig = \<lambda>_. (emptyConfiguration, None),
     fetchParameter = \<lambda>_. Inl ''none'', mergeProto = \<lambda>_ c. c, defaultQueries = None, ros = ''linux''\<rparr>"

lemma emptyFile_read: "readConfiguration emptyFileWorld path endpoint cp = (ApplyDefaults endpoint (Some emptyConfiguration) cp, [])"
  by (simp add: readConfiguration_def ReadFromFile_def Read_def emptyFileWorld_def Let_def ApplyDefaults_def)

definition goodWorld :: daemon_world where
  "goodWorld = \<lparr>clientOk = \<lambda>_ _. True, launched = \<lambda>_ _. (), goos = ''linux''\<rparr>"

lemma configured_daemon_comes_up_witness:
  "let c = fst (readConfiguration emptyFileWorld [] ''e'' (Some ''p''))
   in wp (startServices goodWorld c False) (\<lambda>r log'. r = ShutDown \<and> StatusService \<in> set (servicesOf log')) []"
proof -
  let ?c = "fst (readConfiguration emptyFileWorld [] ''e'' (Some ''p''))"
  have "wp (startServices goodWorld ?c False)
      (\<lambda>r log'. r = ShutDown \<and> servicesOf log' = plan ?c \<and> list_all (launchFits ?c) log') []"
    by (rule configured_daemon_comes_up [OF _ refl])
      (simp_all add: goodWorld_def emptyFile_read slowEnough_def validateParameters_def ApplyDefaults_parts emptyConfiguration_def
        applyDefaultCollectionConfiguration_def emptyCollection_def Let_def)
  moreover have "StatusService \<in> set (plan ?c)"
    by (simp add: emptyFile_read plan_def localServices_def collects_def ApplyDefaults_parts emptyConfiguration_def
        applyDefaultCollectionConfiguration_def emptyCollection_def Let_def)
  ultimately show ?thesis unfolding Let_def by (elim wp_mono) simp
qed

section \<open>Polling\<close>

lemma pm_settled:
  assumes "\<forall>ev \<in> set es. \<exists>cw fetch. ev = PmTick cw fetch \<and> (\<forall>pm. fetch pm = Some v) \<and> snd (readConfiguration cw path endpoint cp) = v"
    and "pmVersion (p_daemon p) = v"
  shows "restarts (pollLoop path endpoint cp es p) = restarts p"
  using assms
proof (induction es arbitrary: p)
  case (Cons ev es)
  then obtain cw fetch where "ev = PmTick cw fetch" "\<forall>pm. fetch pm = Some v" by auto
  with Cons show ?case by (auto simp: pmUpdated_def split: option.splits)
qed simp

text \<open>The poller settles: while the latest version of the parameter stays the same and a start reads that version,
  polling the Parameter Manager causes at most one restart, however often it is done.\<close>

theorem poll_settles:
  assumes "\<forall>ev \<in> set es. \<exists>cw fetch. ev = PmTick cw fetch \<and> (\<forall>pm. fetch pm = Some v) \<and> snd (readConfiguration cw path endpoint cp) = v"
  shows "restarts (pollLoop path endpoint cp es p) \<le> restarts p + 1"
  using assms
proof (induction es arbitrary: p)
  case (Cons ev es)
  then obtain cw fetch where ev: "ev = PmTick cw fetch" "snd (readConfiguration cw path endpoint cp) = v" by auto
  show ?case
  proof (cases "pmUpdated fetch (p_daemon p)")
    case True
    obtain c where "readConfiguration cw path endpoint cp = (c, v)" using ev(2) by (cases "readConfiguration cw path endpoint cp") auto
    then have "pmVersion (p_daemon (Restart cw path endpoint cp p)) = v" by (simp add: Restart_def startdaemonHandler_def)
    then have "restarts (pollLoop path endpoint cp es (Restart cw path endpoint cp p)) = restarts p + 1"
      using Cons.prems pm_settled [of es v path endpoint cp] by (simp add: Restart_def)
    with True ev(1) show ?thesis by simp
  next
    case False
    with ev Cons show ?thesis by simp
  qed
qed simp

lemma poll_settles_witness:
  "restarts (pollLoop [] ''e'' None (replicate 3 (PmTick emptyFileWorld (\<lambda>_. Some [])))
     \<lparr>prev = 0, p_daemon = \<lparr>d_config = emptyConfiguration\<lparr>ParameterManagerConfig := Some \<lparr>pm_Project = ''p'', pm_Location = ''l'',
        ParameterName = ''n'', ParameterVersion = []\<rparr>\<rparr>, pmVersion = ''1''\<rparr>, restarts = 0\<rparr>) \<le> 1"
  using poll_settles [of "replicate 3 (PmTick emptyFileWorld (\<lambda>_. Some []))" "[]" "[]" "''e''" None
      "\<lparr>prev = 0, p_daemon = \<lparr>d_config = emptyConfiguration\<lparr>ParameterManagerConfig := Some \<lparr>pm_Project = ''p'', pm_Location = ''l'',
        ParameterName = ''n'', ParameterVersion = []\<rparr>\<rparr>, pmVersion = ''1''\<rparr>, restarts = 0\<rparr>"]
  by (simp add: emptyFile_read del: replicate.simps)

text \<open>With a pinned version that is not the latest one, every poll restarts the services.\<close>

lemma pinned_version_restarts_at_every_poll:
  assumes "readConfiguration cw path endpoint cp = (c, v)" and "ParameterManagerConfig c \<noteq> None"
    and "\<And>pm. fetch pm = Some latest" and "latest \<noteq> v" and "p_daemon p = \<lparr>d_config = c, pmVersion = v\<rparr>"
  shows "restarts (pollLoop path endpoint cp (replicate n (PmTick cw fetch)) p) = restarts p + n"
  using assms(5)
proof (induction n arbitrary: p)
  case (Suc n)
  then have "pmUpdated fetch (p_daemon p)" using assms by (auto simp: pmUpdated_def)
  moreover have "p_daemon (Restart cw path endpoint cp p) = \<lparr>d_config = c, pmVersion = v\<rparr>"
    using assms Suc.prems by (simp add: Restart_def startdaemonHandler_def)
  ultimately show ?case using Suc.IH by (simp add: Restart_def)
qed simp

end
