(* ===== verification/Pacemaker.thy ===== *)
theory Pacemaker
  imports Commands Prelude
begin

text \<open>
  The cluster information of Pacemaker (\<open>internal/pacemaker\<close>): the configuration in XML as the code sees
  it, the state of nodes and resources, and the labels that the workload manager metrics read off the
  configuration. A map of labels is a HOL map; the function that sets labels takes and returns it.
  Decoding the XML is the environment.
\<close>

section \<open>The configuration\<close>

record nv_pair =
  nv_ID :: string
  nv_Name :: string
  nv_Value :: string

record property_set =
  ps_ID :: string
  NVPairs :: "nv_pair list"

record cib_op =
  op_Interval :: string
  op_Name :: string
  op_Role :: string
  op_Timeout :: string

record primitive_class =
  pr_Class :: string
  pr_ID :: string
  ClassType :: string
  Provider :: string
  InstanceAttributes :: property_set
  MetaAttributes :: property_set
  Operations :: "cib_op list"

record cib_group =
  gr_ID :: string
  gr_Primitives :: "primitive_class list"

record cib_clone =
  cl_ID :: string
  cl_Attributes :: property_set
  cl_Primitives :: "primitive_class list"

record cib_resources =
  re_Primitives :: "primitive_class list"
  re_Groups :: "cib_group list"
  re_Clone :: "cib_clone list"
  re_Master :: cib_clone

record cib_configuration =
  NodeNames :: "string list"
  ClusterPropertySets :: "property_set list"
  cib_Resources :: cib_resources
  RSCLocationIDs :: "string list"
  RSCDefaults :: property_set
  OPDefaults :: property_set

type_synonym labels = "string \<rightharpoonup> string"

definition noSeconds :: "string \<Rightarrow> string" where
  "noSeconds s = replaceAll s ''s'' []"

definition dashToUnderscore :: "string \<Rightarrow> string" where
  "dashToUnderscore s = replaceAll s ''-'' ''_''"

section \<open>Nodes and resources\<close>

record crm_node =
  n_Name :: string
  Online :: bool
  Standby :: bool
  StandbyOnfail :: bool
  Maintenance :: bool
  Pending :: bool
  Unclean :: bool
  n_Shutdown :: bool

record crm_resource =
  Agent :: string
  r_Role :: string
  r_Node :: string

record resource_history =
  rh_ID :: string
  rh_FailCount :: int

record node_history =
  nh_Name :: string
  ResourceHistory :: "resource_history list"

record crm_mon =
  crm_Nodes :: "crm_node list"
  GeneralResources :: "crm_resource list"
  GroupResources :: "crm_resource list"
  CloneResources :: "crm_resource list"
  NodeHistory :: "node_history list"

definition Enabled :: "crm_mon option \<Rightarrow> bool" where
  "Enabled crm = (case crm of None \<Rightarrow> False | Some c \<Rightarrow> length (crm_Nodes c) > 0)"

definition stateOf :: "crm_node \<Rightarrow> string" where
  "stateOf n =
     (if Standby n then ''standby''
      else if n_Shutdown n then ''shutdown''
      else if Unclean n then ''unclean''
      else if Maintenance n then ''maintenance''
      else if Pending n then ''pending''
      else if StandbyOnfail n then ''standbyOnFail''
      else if Online n then ''online''
      else ''unknown'')"

definition NodeState :: "crm_mon option \<Rightarrow> labels" where
  "NodeState crm = (case crm of None \<Rightarrow> Map.empty | Some c \<Rightarrow> fold (\<lambda>n ns. ns(n_Name n \<mapsto> stateOf n)) (crm_Nodes c) Map.empty)"

definition ResourceState :: "crm_mon option \<Rightarrow> (string \<times> string \<times> string) list" where
  "ResourceState crm =
     (case crm of
        None \<Rightarrow> []
      | Some c \<Rightarrow> map (\<lambda>r. (Agent r, r_Role r, r_Node r)) (GeneralResources c @ GroupResources c @ CloneResources c))"

definition FailCount :: "crm_mon option \<Rightarrow> (string \<times> string \<times> int) list" where
  "FailCount crm =
     (case crm of
        None \<Rightarrow> []
      | Some c \<Rightarrow> concat (map (\<lambda>n. map (\<lambda>r. (rh_ID r, nh_Name n, rh_FailCount r))
          (filter (\<lambda>r. rh_FailCount r > 0) (ResourceHistory n))) (NodeHistory c)))"

section \<open>Labels of the stonith devices\<close>

definition clusterNodes :: "cib_configuration \<Rightarrow> string list" where
  "clusterNodes c = NodeNames c"

definition filterPrimitiveOpsByType :: "primitive_class list \<Rightarrow> string list \<Rightarrow> cib_op list" where
  "filterPrimitiveOpsByType primitives types =
     concat (map Operations (filter (\<lambda>p. ClassType p \<in> set types) primitives))"

fun instanceNameFromPrimitiveID :: "string \<Rightarrow> string list \<Rightarrow> string" where
  "instanceNameFromPrimitiveID i [] = []"
| "instanceNameFromPrimitiveID i (x # xs) = (if contains i x then x else instanceNameFromPrimitiveID i xs)"

definition instanceAttributeValue :: "string \<Rightarrow> property_set \<Rightarrow> string \<Rightarrow> string" where
  "instanceAttributeValue key attribute ins =
     (if ins = [] then []
      else case find (\<lambda>nv. nv_Name nv = key \<and> hasSuffix (nv_ID nv) (ins @ ''-instance_attributes-'' @ key)) (NVPairs attribute) of
             None \<Rightarrow> []
           | Some nv \<Rightarrow> ins @ ''='' @ nv_Value nv)"

record fence_state =
  fenceAttributes :: labels
  portMatches :: bool
  serviceAccountPath :: string
  projectId :: "string option"

definition fenceKeys :: "string list" where
  "fenceKeys = [''pcmk_delay_base'', ''pcmk_reboot_timeout'', ''pcmk_monitor_retries'']"

definition readFencePair :: "string \<Rightarrow> nv_pair \<Rightarrow> fence_state \<Rightarrow> fence_state" where
  "readFencePair instanceName nv s =
     (if fenceAttributes s (nv_Name nv) \<noteq> None then s\<lparr>fenceAttributes := (fenceAttributes s)(nv_Name nv \<mapsto> nv_Value nv)\<rparr>
      else if nv_Name nv = ''serviceaccount'' then s\<lparr>serviceAccountPath := nv_Value nv\<rparr>
      else if nv_Name nv = ''project'' then s\<lparr>projectId := Some (nv_Value nv)\<rparr>
      else if nv_Name nv = ''port'' \<and> nv_Value nv = instanceName then s\<lparr>portMatches := True\<rparr>
      else s)"

definition iteratePrimitiveChild :: "labels \<Rightarrow> primitive_class \<Rightarrow> string option \<Rightarrow> string \<Rightarrow> labels \<times> string option \<times> string" where
  "iteratePrimitiveChild ls p project instanceName =
     (let s = fold (readFencePair instanceName) (NVPairs (InstanceAttributes p))
            \<lparr>fenceAttributes = (\<lambda>k. if k \<in> set fenceKeys then Some [] else None), portMatches = False,
             serviceAccountPath = [], projectId = project\<rparr>;
          ls1 = (if (ClassType p = ''fence_gce'' \<and> portMatches s) \<or> hasSuffix (pr_ID p) instanceName
                 then (let l = ls ++ fenceAttributes s
                       in if pr_Class p = ''stonith'' then l(''fence_agent'' \<mapsto> replaceAll (ClassType p) ''external/'' []) else l)
                 else ls)
      in (ls1, projectId s, serviceAccountPath s))"

text \<open>The labels, the project, the service account file and the values of \<open>pcmk_delay_max\<close> so far.\<close>

fun primitivesLoop :: "string list \<Rightarrow> string \<Rightarrow> primitive_class list \<Rightarrow> labels \<Rightarrow> string option \<Rightarrow> string \<Rightarrow> string list \<Rightarrow>
    labels \<times> string option \<times> string \<times> string list" where
  "primitivesLoop instances me [] ls project file delays = (ls, project, file, delays)"
| "primitivesLoop instances me (p # ps) ls project file delays =
     (let v = instanceAttributeValue ''pcmk_delay_max'' (InstanceAttributes p) (instanceNameFromPrimitiveID (pr_ID p) instances);
          delays1 = (if v \<noteq> [] then delays @ [v] else delays)
      in if ClassType p \<noteq> ''fence_gce'' \<and> \<not> hasSuffix (ps_ID (InstanceAttributes p)) (me @ ''-instance_attributes'')
         then primitivesLoop instances me ps ls project file delays1
         else (case iteratePrimitiveChild ls p project me of
                 (ls1, project1, file1) \<Rightarrow>
                   if file1 \<noteq> [] then (ls1, project1, file1, delays1)
                   else primitivesLoop instances me ps ls1 project1 file1 delays1))"

definition setPacemakerPrimitives :: "labels \<Rightarrow> cib_resources \<Rightarrow> string list \<Rightarrow> string \<Rightarrow> labels \<times> string option \<times> string" where
  "setPacemakerPrimitives ls resources instances me =
     (case primitivesLoop instances me (re_Primitives resources) ls None [] [] of
        (ls1, project, file, delays) \<Rightarrow>
          ((if length delays > 0 then ls1(''pcmk_delay_max'' \<mapsto> joinWith '','' delays) else ls1), project, file))"

section \<open>Labels of the resources\<close>

definition hanaOperation :: "cib_op \<Rightarrow> labels \<Rightarrow> labels" where
  "hanaOperation op ls =
     (if op_Name op \<in> {''start'', ''stop'', ''promote'', ''demote''}
      then ls(''saphana_'' @ op_Name op @ ''_timeout'' \<mapsto> noSeconds (op_Timeout op))
      else if op_Name op = ''monitor'' then
        (if op_Role op \<in> {''Master'', ''Promoted''}
         then ls(''saphana_primary_monitor_interval'' \<mapsto> noSeconds (op_Interval op),
                 ''saphana_primary_monitor_timeout'' \<mapsto> noSeconds (op_Timeout op))
         else if op_Role op \<in> {''Slave'', ''Unpromoted''}
         then ls(''saphana_secondary_monitor_interval'' \<mapsto> noSeconds (op_Interval op),
                 ''saphana_secondary_monitor_timeout'' \<mapsto> noSeconds (op_Timeout op))
         else ls)
      else ls)"

definition setPacemakerHanaOperations :: "cib_op list \<Rightarrow> labels \<Rightarrow> labels" where
  "setPacemakerHanaOperations = fold hanaOperation"

definition topologyOperation :: "cib_op \<Rightarrow> labels \<Rightarrow> labels" where
  "topologyOperation op ls =
     (if op_Name op = ''monitor''
      then ls(''saphanatopology_monitor_interval'' \<mapsto> noSeconds (op_Interval op),
              ''saphanatopology_monitor_timeout'' \<mapsto> noSeconds (op_Timeout op))
      else if op_Name op = ''start'' then ls(''saphanatopology_start_timeout'' \<mapsto> noSeconds (op_Timeout op))
      else if op_Name op = ''stop'' then ls(''saphanatopology_stop_timeout'' \<mapsto> noSeconds (op_Timeout op))
      else ls)"

definition pacemakerHanaTopology :: "cib_op list \<Rightarrow> labels \<Rightarrow> labels" where
  "pacemakerHanaTopology = fold topologyOperation"

definition setLabelsForRSCNVPairs :: "nv_pair list \<Rightarrow> string \<Rightarrow> labels \<Rightarrow> labels" where
  "setLabelsForRSCNVPairs pairs nameToFind =
     fold (\<lambda>nv ls. if nv_Name nv = nameToFind then ls(dashToUnderscore nameToFind \<mapsto> nv_Value nv) else ls) pairs"

definition locationPreferenceSet :: "string list \<Rightarrow> string" where
  "locationPreferenceSet ids = (if \<exists>i \<in> set ids. hasPrefix i ''cli-prefer-'' then ''true'' else ''false'')"

text \<open>Labels that are present even when nothing is found.\<close>

definition setAll :: "string list \<Rightarrow> string \<Rightarrow> labels \<Rightarrow> labels" where
  "setAll ks v ls = fold (\<lambda>k l. l(k \<mapsto> v)) ks ls"

definition setOPOptions :: "property_set \<Rightarrow> labels \<Rightarrow> labels" where
  "setOPOptions opOptions ls =
     fold (\<lambda>nv l. if nv_Name nv = ''timeout'' then l(''op_'' @ dashToUnderscore (nv_Name nv) \<mapsto> noSeconds (nv_Value nv)) else l)
       (NVPairs opOptions) (setAll [''op_timeout''] [] ls)"

definition stonithPair :: "nv_pair \<Rightarrow> labels \<Rightarrow> labels" where
  "stonithPair nv ls =
     (if nv_Name nv \<in> {''stonith-enabled'', ''stonith-timeout''}
      then (let key = dashToUnderscore (nv_Name nv)
            in ls(key \<mapsto> (if hasSuffix key ''timeout'' then noSeconds (nv_Value nv) else nv_Value nv)))
      else ls)"

definition setPacemakerStonithClusterProperty :: "property_set list \<Rightarrow> labels \<Rightarrow> labels" where
  "setPacemakerStonithClusterProperty cps ls =
     (let l = setAll [''stonith_enabled'', ''stonith_timeout''] [] ls
      in case find (\<lambda>cp. ps_ID cp = ''cib-bootstrap-options'') cps of
           None \<Rightarrow> l
         | Some cp \<Rightarrow> fold stonithPair (NVPairs cp) l)"

text \<open>The loops over the primitives of a clone end at the first of the given types.\<close>

fun cloneAttrs :: "cib_clone \<Rightarrow> primitive_class list \<Rightarrow> nv_pair list \<times> nv_pair list \<times> labels \<Rightarrow> nv_pair list \<times> nv_pair list \<times> labels" where
  "cloneAttrs clone [] s = s"
| "cloneAttrs clone (p # ps) (instanceAttrs, metaAttrs, ls) =
     (let ls1 = (if ClassType p = ''SAPHanaController'' \<and> Provider p = ''suse'' \<and> pr_Class p = ''ocf''
                 then ls(''saphanacontroller_ra_configured'' \<mapsto> ''true'') else ls)
      in if ClassType p = ''SAPHana'' \<or> ClassType p = ''SAPHanaController''
         then (NVPairs (InstanceAttributes p), metaAttrs @ NVPairs (cl_Attributes clone) @ NVPairs (MetaAttributes p), ls1)
         else cloneAttrs clone ps (instanceAttrs, metaAttrs, ls1))"

definition setPacemakerHANACloneAttrs :: "cib_clone list \<Rightarrow> labels \<Rightarrow> labels" where
  "setPacemakerHANACloneAttrs clones ls =
     (let l0 = setAll [''saphana_automated_register'', ''saphana_duplicate_primary_timeout'', ''saphana_prefer_site_takeover'',
                 ''saphana_notify'', ''saphana_clone_max'', ''saphana_clone_node_max'', ''saphana_interleave''] []
               (ls(''saphanacontroller_ra_configured'' \<mapsto> ''false''))
      in case fold (\<lambda>c s. cloneAttrs c (cl_Primitives c) s) clones ([], [], l0) of
           (instanceAttrs, metaAttrs, l1) \<Rightarrow>
             fold (\<lambda>nv l. if nv_Name nv \<in> {''notify'', ''clone-max'', ''clone-node-max'', ''interleave''}
                 then l(''saphana_'' @ dashToUnderscore (nv_Name nv) \<mapsto> nv_Value nv) else l) metaAttrs
               (fold (\<lambda>nv l. if nv_Name nv \<in> {''AUTOMATED_REGISTER'', ''DUPLICATE_PRIMARY_TIMEOUT'', ''PREFER_SITE_TAKEOVER''}
                 then l(''saphana_'' @ toLower (nv_Name nv) \<mapsto> nv_Value nv) else l) instanceAttrs l1))"

definition topologyAttrs :: "cib_clone \<Rightarrow> nv_pair list" where
  "topologyAttrs clone =
     (case find (\<lambda>p. ClassType p = ''SAPHanaTopology'') (cl_Primitives clone) of
        None \<Rightarrow> []
      | Some p \<Rightarrow> NVPairs (cl_Attributes clone) @ NVPairs (MetaAttributes p))"

definition setPacemakerHANATopologyCloneAttrs :: "cib_clone list \<Rightarrow> labels \<Rightarrow> labels" where
  "setPacemakerHANATopologyCloneAttrs clones ls =
     fold (\<lambda>nv l. if nv_Name nv \<in> {''clone-node-max'', ''interleave''}
         then l(''saphanatopology_'' @ dashToUnderscore (nv_Name nv) \<mapsto> nv_Value nv) else l)
       (concat (map topologyAttrs clones)) (setAll [''saphanatopology_clone_node_max'', ''saphanatopology_interleave''] [] ls)"

section \<open>Labels of the resource groups\<close>

text \<open>The first group with an SAP instance whose profile contains the given text.\<close>

definition hasProfile :: "string \<Rightarrow> cib_group \<Rightarrow> bool" where
  "hasProfile part g \<longleftrightarrow> (\<exists>p \<in> set (gr_Primitives g). ClassType p = ''SAPInstance'' \<and>
     (\<exists>nv \<in> set (NVPairs (InstanceAttributes p)). nv_Name nv = ''START_PROFILE'' \<and> contains (nv_Value nv) part))"

definition sapPrimitives :: "cib_group \<Rightarrow> primitive_class list" where
  "sapPrimitives g = filter (\<lambda>p. ClassType p = ''SAPInstance'') (gr_Primitives g)"

definition setMonitor :: "string \<Rightarrow> cib_op list \<Rightarrow> labels \<Rightarrow> labels" where
  "setMonitor kind ops ls =
     fold (\<lambda>op l. if op_Name op = ''monitor''
       then l(kind @ ''_monitor_interval'' \<mapsto> noSeconds (op_Interval op), kind @ ''_monitor_timeout'' \<mapsto> noSeconds (op_Timeout op))
       else l) ops ls"

definition metaAttributesKeys :: labels where
  "metaAttributesKeys = [''failure-timeout'' \<mapsto> ''ascs_failure_timeout'', ''migration-threshold'' \<mapsto> ''ascs_migration_threshold'',
     ''resource-stickiness'' \<mapsto> ''ascs_resource_stickiness'']"

definition ascsPair :: "nv_pair \<Rightarrow> labels \<times> string \<Rightarrow> labels \<times> string" where
  "ascsPair nv s =
     (if nv_Name nv = ''AUTOMATIC_RECOVER'' then ((fst s)(''ascs_automatic_recover'' \<mapsto> nv_Value nv), snd s)
      else if nv_Name nv = ''START_PROFILE'' then (fst s, nv_Value nv)
      else s)"

definition keyedPair :: "labels \<Rightarrow> nv_pair \<Rightarrow> labels \<Rightarrow> labels" where
  "keyedPair keys nv ls = (case keys (nv_Name nv) of None \<Rightarrow> ls | Some k \<Rightarrow> ls(k \<mapsto> nv_Value nv))"

definition ascsPrimitive :: "primitive_class \<Rightarrow> labels \<times> string \<Rightarrow> labels \<times> string" where
  "ascsPrimitive p s =
     (case fold ascsPair (NVPairs (InstanceAttributes p)) s of
        (l, profile) \<Rightarrow>
          (setMonitor ''ascs'' (Operations p) (fold (keyedPair metaAttributesKeys) (NVPairs (MetaAttributes p)) l), profile))"

definition ascsKeys :: "string list" where
  "ascsKeys = [''ascs_automatic_recover'', ''ascs_failure_timeout'', ''ascs_migration_threshold'', ''ascs_resource_stickiness'',
     ''ascs_monitor_interval'', ''ascs_monitor_timeout'', ''ensa2_capable'']"

text \<open>The labels and the profile of the ASCS instance.\<close>

definition ascsLabels :: "cib_group list \<Rightarrow> labels \<Rightarrow> labels \<times> string" where
  "ascsLabels groups ls =
     (let l = setAll ascsKeys [] ls
      in case find (hasProfile ''SCS'') groups of
           None \<Rightarrow> (l, [])
         | Some g \<Rightarrow> fold ascsPrimitive (sapPrimitives g) (l, []))"

definition ersKeys :: labels where
  "ersKeys = [''AUTOMATIC_RECOVER'' \<mapsto> ''ers_automatic_recover'', ''IS_ERS'' \<mapsto> ''is_ers'']"

definition ersPrimitive :: "primitive_class \<Rightarrow> labels \<Rightarrow> labels" where
  "ersPrimitive p ls = setMonitor ''ers'' (Operations p) (fold (keyedPair ersKeys) (NVPairs (InstanceAttributes p)) ls)"

definition setERSConfigMetrics :: "cib_group list \<Rightarrow> labels \<Rightarrow> labels" where
  "setERSConfigMetrics groups ls =
     (let l = setAll [''ers_automatic_recover'', ''is_ers'', ''ers_monitor_interval'', ''ers_monitor_timeout''] [] ls
      in case find (hasProfile ''ERS'') groups of
           None \<Rightarrow> l
         | Some g \<Rightarrow> fold ersPrimitive (sapPrimitives g) l)"

text \<open>The address and whether the group is that of the ASCS or the ERS instance.\<close>

definition ipPrimitive :: "primitive_class \<Rightarrow> string \<times> bool \<times> bool \<Rightarrow> string \<times> bool \<times> bool" where
  "ipPrimitive p s =
     (case s of (ip, isASCS, isERS) \<Rightarrow>
        if ClassType p = ''IPaddr2''
        then (case find (\<lambda>nv. nv_Name nv = ''ip'') (NVPairs (InstanceAttributes p)) of
                None \<Rightarrow> s | Some nv \<Rightarrow> (nv_Value nv, isASCS, isERS))
        else if ClassType p = ''SAPInstance''
        then (case find (\<lambda>nv. nv_Name nv = ''START_PROFILE'') (NVPairs (InstanceAttributes p)) of
                None \<Rightarrow> s | Some nv \<Rightarrow> (ip, contains (nv_Value nv) ''SCS'', contains (nv_Value nv) ''ERS''))
        else s)"

definition ipGroup :: "cib_group \<Rightarrow> labels \<Rightarrow> labels" where
  "ipGroup g ls =
     (case fold ipPrimitive (gr_Primitives g) ([], False, False) of
        (ip, isASCS, isERS) \<Rightarrow>
          (let l = (if isASCS then ls(''ascs_ip'' \<mapsto> ip) else ls) in if isERS then l(''ers_ip'' \<mapsto> ip) else l))"

definition collectASCSIP :: "cib_group list \<Rightarrow> labels \<Rightarrow> labels" where
  "collectASCSIP groups ls = fold ipGroup groups (setAll [''ascs_ip'', ''ers_ip''] [] ls)"

text \<open>The settings found in a group, the prefix of its labels and the labels.\<close>

definition settingKeys :: "string list" where
  "settingKeys = [''healthcheck_monitor_interval'', ''healthcheck_monitor_timeout'', ''ilb_monitor_interval'', ''ilb_monitor_timeout'']"

definition setSettings :: "string \<Rightarrow> cib_op list \<Rightarrow> labels \<Rightarrow> labels" where
  "setSettings kind ops settings =
     fold (\<lambda>op s. if op_Name op = ''monitor''
       then s(kind @ ''_monitor_interval'' \<mapsto> op_Interval op, kind @ ''_monitor_timeout'' \<mapsto> op_Timeout op) else s) ops settings"

definition profilePrefix :: "nv_pair \<Rightarrow> string \<Rightarrow> string" where
  "profilePrefix nv pre =
     (if nv_Name nv = ''START_PROFILE''
      then (if contains (nv_Value nv) ''SCS'' then ''ascs_'' else if contains (nv_Value nv) ''ERS'' then ''ers_'' else pre)
      else pre)"

definition balancerPrimitive :: "primitive_class \<Rightarrow> labels \<times> string \<times> labels \<Rightarrow> labels \<times> string \<times> labels" where
  "balancerPrimitive p s =
     (case s of (settings, pre, ls) \<Rightarrow>
        if ClassType p \<in> {''anything'', ''haproxy''} then (setSettings ''healthcheck'' (Operations p) settings, pre, ls)
        else if ClassType p = ''IPaddr2''
        then (setSettings ''ilb'' (Operations p) settings, pre,
              if Provider p = ''gcp'' \<and> (\<exists>nv \<in> set (NVPairs (InstanceAttributes p)). nv_Name nv = ''type'' \<and> nv_Value nv = ''alias'')
              then ls(''has_alias_ip'' \<mapsto> ''true'') else ls)
        else if ClassType p = ''SAPInstance'' then (settings, fold profilePrefix (NVPairs (InstanceAttributes p)) pre, ls)
        else s)"

definition balancerGroup :: "cib_group \<Rightarrow> labels \<Rightarrow> labels" where
  "balancerGroup g ls =
     (case fold balancerPrimitive (gr_Primitives g) (Map.empty, [], ls) of
        (settings, pre, l) \<Rightarrow>
          fold (\<lambda>k l. case settings k of None \<Rightarrow> l | Some v \<Rightarrow> l(pre @ k \<mapsto> noSeconds v)) settingKeys l)"

definition setHealthCheckInternalLoadBalancerMetrics :: "cib_group list \<Rightarrow> labels \<Rightarrow> labels" where
  "setHealthCheckInternalLoadBalancerMetrics groups ls =
     fold balancerGroup groups
       ((setAll (concat (map (\<lambda>pre. map (\<lambda>k. pre @ k) settingKeys) [[], ''ascs_'', ''ers_''])) [] ls)(''has_alias_ip'' \<mapsto> ''false''))"

end
