(* ===== verification/PacemakerMetrics.thy ===== *)
theory PacemakerMetrics
  imports CollectionDefinition Pacemaker
begin

text \<open>
  The collection of the Pacemaker metrics (\<open>pacemakermetrics.go\<close>, \<open>pacemaker.go\<close>): the commands that
  are run, the labels read off their output and the labels left out because the workload definition does
  not ask for them. Commands, credentials, name resolution and the decoders are the environment.
\<close>

section \<open>The environment\<close>

record pm_result = cmd_result +
  ExitStatusParsed :: bool
  ExecutableFound :: bool

datatype pm_call =
    ReadOSRelease
  | Exists string
  | Exec cmd
  | DefaultCredentials
  | OpenKeyFile string
  | ReadKeyFile string
  | JSONCredentials string
  | AccessToken
  | Lookup string
  | OSMetric os_command_metric string

text \<open>
  \<open>sortDesc\<close> is \<open>sort.Slice\<close> by decreasing length; \<open>jsonError\<close> decodes a response and says whether it
  carries an error; \<open>address\<close> is the first address of a name.
\<close>

record pm_world =
  osRelease :: "(pm_call, string) env"
  pm_exists :: "(pm_call, bool) env"
  pm_ran :: "(pm_call, pm_result) env"
  credentialsOk :: "(pm_call, bool) env"
  keyFileOpens :: "(pm_call, bool) env"
  keyFileData :: "(pm_call, string option) env"
  accessToken :: "(pm_call, string option) env"
  address :: "(pm_call, string option) env"
  osMetric :: "(pm_call, string \<times> string) env"
  ParseXML :: "string \<Rightarrow> cib_configuration option"
  parseCRMMon :: "string \<Rightarrow> crm_mon option"
  sortDesc :: "string list \<Rightarrow> string list"
  jsonError :: "string \<Rightarrow> bool option"
  ServiceEndpoint :: "string \<Rightarrow> string"

abbreviation pexec :: "pm_world \<Rightarrow> cmd \<Rightarrow> (pm_call, pm_result) prog" where
  "pexec w c \<equiv> call (pm_ran w) (Exec c)"

section \<open>The cluster\<close>

definition data :: "pm_world \<Rightarrow> (pm_call, crm_mon option) prog" where
  "data w = do {
     r \<leftarrow> pexec w (CmdArgs ''crm_mon'' [''--as-xml''] []);
     ret (if CmdError r \<noteq> None \<and> ExecutableFound r then None else parseCRMMon w (StdOut r))
   }"

definition XMLString :: "pm_world \<Rightarrow> bool \<Rightarrow> (pm_call, string option) prog" where
  "XMLString w crmAvailable =
     (if crmAvailable then do {
        r \<leftarrow> pexec w (CmdArgs ''cibadmin'' [''--query''] []);
        ret (Some (StdOut r))
      } else do {
        r \<leftarrow> pexec w (CmdArgs ''pcs'' [''cluster'', ''cib''] []);
        ret (if CmdError r \<noteq> None then None else Some (StdOut r))
      })"

section \<open>Credentials\<close>

definition getDefaultBearerToken :: "pm_world \<Rightarrow> (pm_call, string option) prog" where
  "getDefaultBearerToken w = do {
     ok \<leftarrow> call (credentialsOk w) DefaultCredentials;
     if \<not> ok then ret None else call (accessToken w) AccessToken
   }"

definition getJSONBearerToken :: "pm_world \<Rightarrow> string \<Rightarrow> (pm_call, string option) prog" where
  "getJSONBearerToken w file = do {
     opened \<leftarrow> call (keyFileOpens w) (OpenKeyFile file);
     if \<not> opened then ret None
     else do {
       d \<leftarrow> call (keyFileData w) (ReadKeyFile file);
       (case d of
          None \<Rightarrow> ret None
        | Some json \<Rightarrow> do {
            ok \<leftarrow> call (credentialsOk w) (JSONCredentials json);
            if \<not> ok then ret None else call (accessToken w) AccessToken
          })
     }
   }"

definition getBearerToken :: "pm_world \<Rightarrow> string \<Rightarrow> (pm_call, string option) prog" where
  "getBearerToken w file = (if file = [] then getDefaultBearerToken w else getJSONBearerToken w file)"

section \<open>Access of the fence agent\<close>

definition checkAPIAccess :: "pm_world \<Rightarrow> string list \<Rightarrow> (pm_call, bool) prog" where
  "checkAPIAccess w args = do {
     r \<leftarrow> pexec w (CmdArgs ''curl'' args []);
     ret (if CmdError r \<noteq> None then False
          else case jsonError w (StdOut r) of None \<Rightarrow> False | Some e \<Rightarrow> \<not> e)
   }"

definition formatBool :: "bool \<Rightarrow> string" where
  "formatBool b = (if b then ''true'' else ''false'')"

definition computeArgs :: "pm_world \<Rightarrow> string \<Rightarrow> string \<Rightarrow> string list" where
  "computeArgs w projectID token =
     [''-H'', ''Authorization: Bearer '' @ token @ '' '',
      ServiceEndpoint w ''compute'' @ ''/compute/v1/projects/'' @ projectID @ ''?fields=id'']"

abbreviation quoted :: "string \<Rightarrow> string" where
  "quoted s \<equiv> [chQuote] @ s @ [chQuote]"

definition loggingArgs :: "pm_world \<Rightarrow> string \<Rightarrow> string \<Rightarrow> string list" where
  "loggingArgs w projectID token =
     [''-H'', ''Authorization: Bearer '' @ token, ServiceEndpoint w ''logging'' @ ''/v2/entries:write'', ''-X'', ''POST'',
      ''-H'', ''Content-Type: application/json'', ''-d'',
      ''{'' @ quoted ''dryRun'' @ '': true, '' @ quoted ''entries'' @ '': [{'' @ quoted ''logName'' @ '': ''
        @ [chQuote] @ ''projects/'' @ projectID @ ''/logs/test-log'' @ [chQuote] @ '', '' @ quoted ''resource'' @ '': {''
        @ quoted ''type'' @ '': '' @ quoted ''gce_instance'' @ ''}, '' @ quoted ''textPayload'' @ '': '' @ quoted ''foo'' @ ''}]}'']"

definition setPacemakerAPIAccess :: "pm_world \<Rightarrow> string \<Rightarrow> string \<Rightarrow> labels \<Rightarrow> (pm_call, labels) prog" where
  "setPacemakerAPIAccess w projectID token ls = do {
     compute \<leftarrow> checkAPIAccess w (computeArgs w projectID token);
     logging \<leftarrow> checkAPIAccess w (loggingArgs w projectID token);
     ret (ls(''fence_agent_compute_api_access'' \<mapsto> formatBool compute,
             ''fence_agent_logging_api_access'' \<mapsto> formatBool logging))
   }"

section \<open>State of the cluster\<close>

definition shellQuoted :: "string \<Rightarrow> string" where
  "shellQuoted s = ''-c '' @ [CHR 0x27] @ s @ [CHR 0x27]"

definition setPacemakerMaintenanceMode :: "pm_world \<Rightarrow> bool \<Rightarrow> labels \<Rightarrow> (pm_call, labels) prog" where
  "setPacemakerMaintenanceMode w crmAvailable ls = do {
     r \<leftarrow> pexec w (CmdSplit ''sh'' (shellQuoted ((if crmAvailable then ''crm configure show'' else ''pcs property show'')
            @ '' | grep maintenance | grep true'')) []);
     ret (ls(''maintenance_mode_active'' \<mapsto> formatBool (CmdError r = None \<and> StdOut r \<noteq> [])))
   }"

text \<open>The match of one of the words between word boundaries; the flag says whether a word character precedes.\<close>

fun matchWord :: "string list \<Rightarrow> bool \<Rightarrow> string \<Rightarrow> bool" where
  "matchWord words prev [] = False"
| "matchWord words prev (c # cs) =
     ((\<not> prev \<and> (\<exists>v \<in> set words. hasPrefix (c # cs) v \<and>
         (case drop (length v) (c # cs) of [] \<Rightarrow> True | d # _ \<Rightarrow> \<not> isWordChar d)))
      \<or> matchWord words (isWordChar c) cs)"

definition unhealthyLine :: "string \<Rightarrow> bool" where
  "unhealthyLine line = matchWord [''offline'', ''unclean'', ''stopped'', ''failed''] False (toLower line)"

text \<open>\<open>processing\<close> is set once the list of nodes has begun.\<close>

fun healthyLines :: "bool \<Rightarrow> string list \<Rightarrow> bool" where
  "healthyLines processing [] = True"
| "healthyLines processing (line # rest) =
     (if contains line ''Node List'' then healthyLines True rest
      else if contains line ''Failed Fencing Actions'' then True
      else if processing \<and> unhealthyLine line then False
      else healthyLines processing rest)"

definition setPacemakerClusterHealthy :: "pm_world \<Rightarrow> labels \<Rightarrow> (pm_call, labels) prog" where
  "setPacemakerClusterHealthy w ls = do {
     r \<leftarrow> pexec w (CmdSplit ''crm_mon'' ''-1 -r -f'' []);
     ret (if CmdError r \<noteq> None then ls(''cluster_healthy'' \<mapsto> ''command_failed'')
          else ls(''cluster_healthy'' \<mapsto> formatBool (healthyLines False (splitOn chNL (StdOut r)))))
   }"

section \<open>Instances of the central services\<close>

definition hostChar :: "char \<Rightarrow> bool" where
  "hostChar c \<longleftrightarrow> (isWordChar c \<and> c \<noteq> CHR ''_'') \<or> c = CHR ''-''"

text \<open>The group of the leftmost match of \<open>Started ([A-Za-z0-9-]+)\<close>.\<close>

fun startedOn :: "string \<Rightarrow> string option" where
  "startedOn [] = None"
| "startedOn (c # cs) =
     (let host = takeWhile hostChar (drop (length ''Started '') (c # cs))
      in if hasPrefix (c # cs) ''Started '' \<and> host \<noteq> [] then Some host else startedOn cs)"

definition setInstance :: "string \<Rightarrow> string \<Rightarrow> labels \<Rightarrow> labels" where
  "setInstance k line ls = (case startedOn line of None \<Rightarrow> ls | Some host \<Rightarrow> ls(k \<mapsto> host))"

definition instanceLine :: "string \<Rightarrow> bool \<times> bool \<times> labels \<Rightarrow> bool \<times> bool \<times> labels" where
  "instanceLine line s =
     (case s of (inASCS, inERS, ls) \<Rightarrow>
        if contains line ''Resource Group: ascs'' then (True, False, ls)
        else if contains line ''Resource Group: ers'' then (False, True, ls)
        else if contains line ''Resource Group:'' then (False, False, ls)
        else if inASCS \<and> contains line ''ocf::heartbeat:SAPInstance'' then (inASCS, inERS, setInstance ''ascs_instance'' line ls)
        else if inERS \<and> contains line ''ocf::heartbeat:SAPInstance'' then (inASCS, inERS, setInstance ''ers_instance'' line ls)
        else s)"

definition readStatus :: "pm_world \<Rightarrow> string \<Rightarrow> labels \<Rightarrow> (pm_call, labels) prog" where
  "readStatus w command ls = do {
     r \<leftarrow> pexec w (CmdArgs command [''status''] []);
     ret (snd (snd (fold instanceLine (splitOn chNL (StdOut r)) (False, False, ls))))
   }"

definition collectASCSInstance :: "pm_world \<Rightarrow> labels \<Rightarrow> (pm_call, labels) prog" where
  "collectASCSInstance w ls = do {
     let l = setAll [''ascs_instance'', ''ers_instance''] [] ls;
     crm \<leftarrow> call (pm_exists w) (Exists ''crm'');
     if crm then readStatus w ''crm'' l
     else do {
       pcs \<leftarrow> call (pm_exists w) (Exists ''pcs'');
       if pcs then readStatus w ''pcs'' l else ret l
     }
   }"

text \<open>
  The group of the leftmost match of
  \<open>sapstartsrv pf=(?:/sapmnt|/usr/sap)/([A-Z][A-Z0-9]{2})/[/a-zA-Z0-9]*profile/\<close>: after the prefix, the
  three characters and the slash, \<open>profile/\<close> must occur in the run of characters of the class.
\<close>

definition upperAlpha :: "char \<Rightarrow> bool" where
  "upperAlpha c \<longleftrightarrow> 65 \<le> codeOf c \<and> codeOf c \<le> 90"

definition pathChar :: "char \<Rightarrow> bool" where
  "pathChar c \<longleftrightarrow> (isWordChar c \<and> c \<noteq> CHR ''_'') \<or> c = chSlash"

definition sidAfter :: "string \<Rightarrow> string \<Rightarrow> string option" where
  "sidAfter start s =
     (if hasPrefix s start
      then (case drop (length start) s of
              a # b # c # d # rest \<Rightarrow>
                if upperAlpha a \<and> (upperAlpha b \<or> isDigit b) \<and> (upperAlpha c \<or> isDigit c) \<and> d = chSlash
                   \<and> contains (takeWhile pathChar rest) ''profile/''
                then Some [a, b, c] else None
            | _ \<Rightarrow> None)
      else None)"

fun sapstartsrvSid :: "string \<Rightarrow> string option" where
  "sapstartsrvSid [] = None"
| "sapstartsrvSid (c # cs) =
     (case sidAfter ''sapstartsrv pf=/sapmnt/'' (c # cs) of
        Some sid \<Rightarrow> Some sid
      | None \<Rightarrow> (case sidAfter ''sapstartsrv pf=/usr/sap/'' (c # cs) of
                  Some sid \<Rightarrow> Some sid
                | None \<Rightarrow> sapstartsrvSid cs))"

fun firstSid :: "string list \<Rightarrow> string" where
  "firstSid [] = []"
| "firstSid (line # rest) =
     (if hasPrefix line ''#'' then firstSid rest
      else case sapstartsrvSid line of Some sid \<Rightarrow> sid | None \<Rightarrow> firstSid rest)"

definition sapSid :: "pm_world \<Rightarrow> (pm_call, string option) prog" where
  "sapSid w = do {
     r \<leftarrow> pexec w (CmdSplit ''grep'' ([CHR 0x27] @ ''pf='' @ [CHR 0x27] @ '' /usr/sap/sapservices'') []);
     ret (if CmdError r \<noteq> None then None else Some (firstSid (splitOn chNL (trimSuffix (StdOut r) [chNL]))))
   }"

definition defaultProfile :: "string \<Rightarrow> string" where
  "defaultProfile sid = ''/sapmnt/'' @ sid @ ''/profile/DEFAULT.PFL''"

definition collectEnqueueServer :: "pm_world \<Rightarrow> labels \<Rightarrow> (pm_call, labels) prog" where
  "collectEnqueueServer w ls = do {
     let l = setAll [''enqueue_server''] [] ls;
     s \<leftarrow> sapSid w;
     if s = None \<or> s = Some [] then ret l
     else do {
       r \<leftarrow> pexec w (CmdSplit ''grep'' ([CHR 0x27] @ ''^enq/replicator'' @ [CHR 0x27] @ '' '' @ defaultProfile (the s)) []);
       ret (if CmdError r = None \<and> ExitCode r = 0 then l(''enqueue_server'' \<mapsto> ''ENSA2'')
            else if ExitCode r = 1 then l(''enqueue_server'' \<mapsto> ''ENSA1'')
            else l)
     }
   }"

definition virtualHostName :: "pm_world \<Rightarrow> string \<Rightarrow> string \<Rightarrow> (pm_call, string) prog" where
  "virtualHostName w sid pattern = do {
     r \<leftarrow> pexec w (CmdSplit ''grep'' (pattern @ '' '' @ defaultProfile sid) []);
     let parts = splitOn (CHR ''='') (StdOut r);
     ret (if CmdError r \<noteq> None \<or> length parts < 2 then [] else trimSpace (parts ! 1))
   }"

definition setVirtualIP :: "pm_world \<Rightarrow> string \<Rightarrow> string \<Rightarrow> string \<Rightarrow> labels \<Rightarrow> (pm_call, labels) prog" where
  "setVirtualIP w k sid pattern ls = do {
     name \<leftarrow> virtualHostName w sid pattern;
     if name = [] then ret ls
     else do {
       ip \<leftarrow> call (address w) (Lookup name);
       ret (case ip of None \<Rightarrow> ls | Some a \<Rightarrow> ls(k \<mapsto> a))
     }
   }"

definition collectASCSVirtualIP :: "pm_world \<Rightarrow> labels \<Rightarrow> (pm_call, labels) prog" where
  "collectASCSVirtualIP w ls = do {
     let l = setAll [''ascs_virtual_ip'', ''ers_virtual_ip''] [] ls;
     s \<leftarrow> sapSid w;
     if s = None \<or> s = Some [] then ret l
     else if l ''enqueue_server'' = Some ''ENSA2'' then do {
       l1 \<leftarrow> setVirtualIP w ''ascs_virtual_ip'' (the s) ''^enq/serverhost'' l;
       setVirtualIP w ''ers_virtual_ip'' (the s) ''^enq/replicatorhost'' l1
     }
     else if l ''enqueue_server'' = Some ''ENSA1'' then setVirtualIP w ''ascs_virtual_ip'' (the s) ''^enque/serverhost'' l
     else ret l
   }"

definition setASCSConfigMetrics :: "pm_world \<Rightarrow> cib_group list \<Rightarrow> labels \<Rightarrow> (pm_call, labels) prog" where
  "setASCSConfigMetrics w groups ls =
     (case ascsLabels groups ls of
        (l, profile) \<Rightarrow>
          if profile = [] then ret l
          else do {
            r \<leftarrow> pexec w (CmdSplit ''grep'' ([CHR 0x27] @ ''^_ENQ'' @ [CHR 0x27] @ '' '' @ profile) []);
            ret (l(''ensa2_capable'' \<mapsto> formatBool (\<not> (CmdError r \<noteq> None \<and> \<not> ExitStatusParsed r) \<and> ExitCode r = 0)))
          })"

section \<open>The collection\<close>

record pm_cloud =
  pc_ProjectId :: string
  pc_InstanceName :: string

text \<open>The labels that need the configuration only, in the order of the code.\<close>

definition cloneResources :: "cib_configuration \<Rightarrow> cib_clone list" where
  "cloneResources c = re_Clone (cib_Resources c) @ [re_Master (cib_Resources c)]"

definition clonePrimitives :: "cib_configuration \<Rightarrow> primitive_class list" where
  "clonePrimitives c = concat (map cl_Primitives (cloneResources c))"

definition resourceLabels :: "cib_configuration \<Rightarrow> labels \<Rightarrow> labels" where
  "resourceLabels c ls =
     (let l1 = ls(''location_preference_set'' \<mapsto> locationPreferenceSet (RSCLocationIDs c));
          l2 = setLabelsForRSCNVPairs (NVPairs (RSCDefaults c)) ''migration-threshold'' l1;
          l3 = setLabelsForRSCNVPairs (NVPairs (RSCDefaults c)) ''resource-stickiness'' l2;
          l4 = setPacemakerHanaOperations (filterPrimitiveOpsByType (clonePrimitives c) [''SAPHana'', ''SAPHanaController'']) l3;
          l5 = setPacemakerHANACloneAttrs (cloneResources c) l4;
          l6 = pacemakerHanaTopology (filterPrimitiveOpsByType (clonePrimitives c) [''SAPHanaTopology'']) l5
      in setPacemakerHANATopologyCloneAttrs (cloneResources c) l6)"

definition clusterLabels :: "pm_world \<Rightarrow> cib_configuration \<Rightarrow> string \<Rightarrow> string \<Rightarrow> bool \<Rightarrow> labels \<Rightarrow> (pm_call, labels) prog" where
  "clusterLabels w c projectID token crmAvailable ls = do {
     let groups = re_Groups (cib_Resources c);
     l1 \<leftarrow> setPacemakerAPIAccess w projectID token (resourceLabels c ls);
     l2 \<leftarrow> setPacemakerMaintenanceMode w crmAvailable l1;
     l3 \<leftarrow> setPacemakerClusterHealthy w l2;
     l4 \<leftarrow> collectASCSInstance w (setPacemakerStonithClusterProperty (ClusterPropertySets c) l3);
     l5 \<leftarrow> collectEnqueueServer w l4;
     l6 \<leftarrow> setASCSConfigMetrics w groups l5;
     l7 \<leftarrow> collectASCSVirtualIP w (collectASCSIP groups (setERSConfigMetrics groups l6));
     ret (setHealthCheckInternalLoadBalancerMetrics groups (setOPOptions (OPDefaults c) l7))
   }"

text \<open>The value of the metric, \<open>0.0\<close> or \<open>1.0\<close> in the code, and the labels.\<close>

definition collectPacemakerValAndLabels :: "pm_world \<Rightarrow> pm_cloud option \<Rightarrow> (pm_call, int \<times> labels) prog" where
  "collectPacemakerValAndLabels w cloud =
     (case cloud of
        None \<Rightarrow> ret (0, Map.empty)
      | Some cp \<Rightarrow> do {
          crmAvailable \<leftarrow> call (pm_exists w) (Exists ''crm'');
          xml \<leftarrow> XMLString w crmAvailable;
          (case xml of
             None \<Rightarrow> ret (0, Map.empty)
           | Some text \<Rightarrow>
               (case ParseXML w text of
                  None \<Rightarrow> ret (0, Map.empty)
                | Some c \<Rightarrow>
                    (case setPacemakerPrimitives Map.empty (cib_Resources c) (sortDesc w (clusterNodes c)) (pc_InstanceName cp) of
                       (ls, project, file) \<Rightarrow> do {
                         token \<leftarrow> getBearerToken w file;
                         (case token of
                            None \<Rightarrow> ret (0, ls)
                          | Some t \<Rightarrow> do {
                              l \<leftarrow> clusterLabels w c (case project of None \<Rightarrow> pc_ProjectId cp | Some p \<Rightarrow> p) t crmAvailable ls;
                              ret (1, l)
                            })
                       })))
        })"

definition pruneLabels :: "string list" where
  "pruneLabels = [
     ''pcmk_delay_base'', ''pcmk_delay_max'', ''pcmk_monitor_retries'', ''pcmk_reboot_timeout'',
     ''location_preference_set'', ''migration_threshold'', ''resource_stickiness'',
     ''saphana_start_timeout'', ''saphana_stop_timeout'', ''saphana_promote_timeout'', ''saphana_demote_timeout'',
     ''saphana_primary_monitor_interval'', ''saphana_primary_monitor_timeout'',
     ''saphana_secondary_monitor_interval'', ''saphana_secondary_monitor_timeout'',
     ''fence_agent'', ''fence_agent_compute_api_access'', ''fence_agent_logging_api_access'', ''maintenance_mode_active'',
     ''saphanatopology_monitor_interval'', ''saphanatopology_monitor_timeout'',
     ''saphanatopology_start_timeout'', ''saphanatopology_stop_timeout'',
     ''ascs_instance'', ''ers_instance'', ''enqueue_server'',
     ''ascs_automatic_recover'', ''ascs_failure_timeout'', ''ascs_migration_threshold'', ''ascs_resource_stickiness'',
     ''ascs_monitor_interval'', ''ascs_monitor_timeout'', ''ensa2_capable'',
     ''ascs_ip'', ''ers_ip'', ''ascs_virtual_ip'', ''ers_virtual_ip'',
     ''ers_automatic_recover'', ''is_ers'', ''ers_monitor_interval'', ''ers_monitor_timeout'',
     ''op_timeout'', ''stonith_enabled'', ''stonith_timeout'', ''saphanacontroller_ra_configured'',
     ''saphana_automated_register'', ''saphana_duplicate_primary_timeout'', ''saphana_prefer_site_takeover'',
     ''saphana_notify'', ''saphana_clone_max'', ''saphana_clone_node_max'', ''saphana_interleave'',
     ''saphanatopology_clone_node_max'', ''saphanatopology_interleave'',
     ''healthcheck_monitor_interval'', ''healthcheck_monitor_timeout'', ''ilb_monitor_interval'', ''ilb_monitor_timeout'',
     ''ascs_healthcheck_monitor_interval'', ''ascs_healthcheck_monitor_timeout'',
     ''ascs_ilb_monitor_interval'', ''ascs_ilb_monitor_timeout'',
     ''ers_healthcheck_monitor_interval'', ''ers_healthcheck_monitor_timeout'',
     ''ers_ilb_monitor_interval'', ''ers_ilb_monitor_timeout'', ''has_alias_ip'', ''cluster_healthy'']"

definition labelOf :: "'a metric_scheme \<Rightarrow> string" where
  "labelOf m = mi_label (MetricInfo m)"

definition configuredLabels :: "validation_pacemaker option \<Rightarrow> string list" where
  "configuredLabels pacemaker =
     (let config = getPart pm_ConfigMetrics pacemaker
      in map labelOf (getList PrimitiveMetrics config @ getList RscLocationMetrics config @ getList RscOptionMetrics config
           @ getList HanaOperationMetrics config @ getList FenceAgentMetrics config
           @ getList CibBootstrapOptionMetrics pacemaker @ getList AscsMetrics config @ getList OpOptionMetrics config))"

definition pruned :: "string list \<Rightarrow> labels \<Rightarrow> labels" where
  "pruned configured ls = (\<lambda>k. if k \<in> set (filter (\<lambda>p. p \<notin> set configured) pruneLabels) then None else ls k)"

fun addOSMetrics :: "pm_world \<Rightarrow> string \<Rightarrow> os_command_metric list \<Rightarrow> labels \<Rightarrow> (pm_call, labels) prog" where
  "addOSMetrics w vendor [] ls = ret ls"
| "addOSMetrics w vendor (m # ms) ls = do {
     kv \<leftarrow> call (osMetric w) (OSMetric m vendor);
     addOSMetrics w vendor ms (if fst kv \<noteq> [] then ls(fst kv \<mapsto> snd kv) else ls)
   }"

definition CollectPacemakerMetrics ::
  "pm_world \<Rightarrow> pm_cloud option \<Rightarrow> workload_validation option \<Rightarrow> string \<Rightarrow> (pm_call, int \<times> labels) prog" where
  "CollectPacemakerMetrics w cloud wlm vendor = do {
     v \<leftarrow> (if vendor = [] then call (osRelease w) ReadOSRelease else ret vendor);
     let pacemaker = getPart ValidationPacemaker wlm;
     r \<leftarrow> collectPacemakerValAndLabels w cloud;
     l \<leftarrow> addOSMetrics w v (getList pm_OsCommandMetrics pacemaker) (pruned (configuredLabels pacemaker) (snd r));
     ret (fst r, l)
   }"

end
