(* ===== verification/PacemakerLabels.thy ===== *)
theory PacemakerLabels
  imports PacemakerMetrics
begin

text \<open>
  Which labels the collection of the Pacemaker metrics returns: every operation adds the labels that are
  always present and at most those of the list that the collection prunes. The health of the cluster is
  compared with a description by the section of the output that decides it.
\<close>

section \<open>Adding labels\<close>

text \<open>All labels of the first list are present afterwards, and only labels of the second are new.\<close>

definition adds :: "string list \<Rightarrow> string list \<Rightarrow> labels \<Rightarrow> labels \<Rightarrow> bool" where
  "adds A K ls ls' \<longleftrightarrow> dom ls \<union> set A \<subseteq> dom ls' \<and> dom ls' \<subseteq> dom ls \<union> set K"

named_theorems adds_rules \<open>the labels that the operations add\<close>

lemma adds_refl: "adds [] K ls ls"
  by (auto simp: adds_def)

lemma adds_trans: "adds A K l l' \<Longrightarrow> adds B L l' l'' \<Longrightarrow> adds (A @ B) (K @ L) l l''"
  unfolding adds_def set_append by blast

lemma adds_within: "adds A K l l' \<Longrightarrow> set B \<subseteq> set A \<Longrightarrow> set K \<subseteq> set L \<Longrightarrow> adds B L l l'"
  by (auto simp: adds_def)

lemma adds_upd: "adds A K l l' \<Longrightarrow> k \<in> set K \<Longrightarrow> adds A K l (l'(k \<mapsto> v))"
  by (auto simp: adds_def)

lemma adds_step: "adds A K l l' \<Longrightarrow> adds [] K l' l'' \<Longrightarrow> adds A K l l''"
  unfolding adds_def by blast

lemma adds_fold:
  assumes "\<And>x l. x \<in> set xs \<Longrightarrow> adds [] K l (f x l)"
  shows "adds [] K ls (fold f xs ls)"
  using assms
proof (induction xs arbitrary: ls)
  case Nil
  show ?case
    by (simp add: adds_refl)
next
  case (Cons x xs)
  have "adds [] K ls (f x ls)"
    by (rule Cons.prems) simp
  moreover have "adds [] K (f x ls) (fold f xs (f x ls))"
    by (rule Cons.IH) (rule Cons.prems, simp)
  ultimately show ?case
    by (simp add: adds_step)
qed

lemma setAll_dom: "dom (setAll ks v ls) = dom ls \<union> set ks"
  by (induction ks arbitrary: ls) (auto simp: setAll_def)

lemma adds_setAll [adds_rules]: "adds ks ks ls (setAll ks v ls)"
  by (simp add: adds_def setAll_dom)

lemma adds_upd_same: "k \<in> set K \<Longrightarrow> adds [] K l (l(k \<mapsto> v))"
  by (rule adds_upd[OF adds_refl])

lemma adds_if: "(b \<Longrightarrow> k \<in> set K) \<Longrightarrow> adds [] K l (if b then l(k \<mapsto> v) else l)"
  by (simp add: adds_upd_same adds_refl)

text \<open>An operation that sets its own defaults first and then only changes some of them.\<close>

lemma adds_defaults: "adds [] ks (setAll ks v ls) ls' \<Longrightarrow> adds ks ks ls ls'"
  by (auto simp: adds_def setAll_dom)

section \<open>Labels of the configuration\<close>

definition operationKeys :: "string list" where
  "operationKeys = [''saphana_start_timeout'', ''saphana_stop_timeout'', ''saphana_promote_timeout'', ''saphana_demote_timeout'',
     ''saphana_primary_monitor_interval'', ''saphana_primary_monitor_timeout'',
     ''saphana_secondary_monitor_interval'', ''saphana_secondary_monitor_timeout'']"

lemma hanaOperation_adds [adds_rules]: "adds [] operationKeys ls (setPacemakerHanaOperations ops ls)"
  unfolding setPacemakerHanaOperations_def
  by (rule adds_fold) (auto simp: hanaOperation_def operationKeys_def intro!: adds_upd adds_refl)

definition topologyKeys :: "string list" where
  "topologyKeys = [''saphanatopology_monitor_interval'', ''saphanatopology_monitor_timeout'',
     ''saphanatopology_start_timeout'', ''saphanatopology_stop_timeout'']"

lemma topology_adds [adds_rules]: "adds [] topologyKeys ls (pacemakerHanaTopology ops ls)"
  unfolding pacemakerHanaTopology_def
  by (rule adds_fold) (auto simp: topologyOperation_def topologyKeys_def intro!: adds_upd adds_refl)

lemma rsc_adds [adds_rules]: "adds [] [dashToUnderscore n] ls (setLabelsForRSCNVPairs pairs n ls)"
  unfolding setLabelsForRSCNVPairs_def by (rule adds_fold) (auto intro!: adds_upd adds_refl)

definition fenceLabels :: "string list" where
  "fenceLabels = [''pcmk_delay_base'', ''pcmk_delay_max'', ''pcmk_monitor_retries'', ''pcmk_reboot_timeout'', ''fence_agent'']"

lemma readFencePairs_dom:
  "dom (fenceAttributes (fold (readFencePair me) nvs s)) = dom (fenceAttributes s)"
proof (induction nvs arbitrary: s)
  case (Cons nv nvs)
  have "dom (fenceAttributes (readFencePair me nv s)) = dom (fenceAttributes s)"
    by (auto simp: readFencePair_def)
  then show ?case
    by (simp add: Cons.IH)
qed simp

lemma adds_map_add: "dom m \<subseteq> set K \<Longrightarrow> adds [] K ls (ls ++ m)"
  by (auto simp: adds_def)

lemma fenceKeys_sub: "set fenceKeys \<subseteq> set fenceLabels"
  by (simp add: fenceKeys_def fenceLabels_def)

lemma iteratePrimitiveChild_adds: "adds [] fenceLabels ls (fst (iteratePrimitiveChild ls p project me))"
proof -
  have "dom (fenceAttributes (fold (readFencePair me) nvs
      \<lparr>fenceAttributes = (\<lambda>k. if k \<in> set fenceKeys then Some [] else None), portMatches = False,
       serviceAccountPath = [], projectId = project\<rparr>)) \<subseteq> set fenceLabels" for nvs
    using fenceKeys_sub by (auto simp: readFencePairs_dom split: if_splits)
  moreover have "''fence_agent'' \<in> set fenceLabels"
    by (simp add: fenceLabels_def)
  ultimately show ?thesis
    by (auto simp: iteratePrimitiveChild_def Let_def intro!: adds_upd adds_map_add adds_refl)
qed

lemma primitivesLoop_adds: "adds [] fenceLabels ls (fst (primitivesLoop instances me ps ls project path delays))"
proof (induction ps arbitrary: ls project path delays)
  case (Cons p ps)
  show ?case
  proof (cases "iteratePrimitiveChild ls p project me")
    case (fields ls1 project1 file1)
    have "adds [] fenceLabels ls ls1"
      using iteratePrimitiveChild_adds[of ls p project me] by (simp add: fields)
    then show ?thesis
      by (auto simp: Let_def fields intro: Cons.IH adds_step[OF _ Cons.IH])
  qed
qed (simp add: adds_refl)

lemma primitives_adds [adds_rules]: "adds [] fenceLabels ls (fst (setPacemakerPrimitives ls rs instances me))"
proof -
  obtain ls1 project path delays where l: "primitivesLoop instances me (re_Primitives rs) ls None [] [] = (ls1, project, path, delays)"
    by (metis prod_cases4)
  have "adds [] fenceLabels ls ls1"
    using primitivesLoop_adds[of ls instances me "re_Primitives rs" None "[]" "[]"] by (simp add: l)
  moreover have "''pcmk_delay_max'' \<in> set fenceLabels"
    by (simp add: fenceLabels_def)
  ultimately show ?thesis
    by (simp add: setPacemakerPrimitives_def l adds_upd)
qed

lemma opOptions_adds [adds_rules]: "adds [''op_timeout''] [''op_timeout''] ls (setOPOptions ps ls)"
  unfolding setOPOptions_def
proof (rule adds_defaults, rule adds_fold)
  fix nv l
  have "''op_'' @ dashToUnderscore ''timeout'' = ''op_timeout''"
    by code_simp
  then show "adds [] [''op_timeout''] l (if nv_Name nv = ''timeout''
      then l(''op_'' @ dashToUnderscore (nv_Name nv) \<mapsto> noSeconds (nv_Value nv)) else l)"
    by (auto intro!: adds_upd_same adds_refl)
qed

lemma stonith_adds [adds_rules]:
  "adds [''stonith_enabled'', ''stonith_timeout''] [''stonith_enabled'', ''stonith_timeout''] ls (setPacemakerStonithClusterProperty cps ls)"
proof -
  have keys: "dashToUnderscore ''stonith-enabled'' = ''stonith_enabled''" "dashToUnderscore ''stonith-timeout'' = ''stonith_timeout''"
    by code_simp+
  have "adds [] [''stonith_enabled'', ''stonith_timeout''] l (stonithPair nv l)" for nv l
    by (auto simp: stonithPair_def Let_def keys simp del: list.set intro!: adds_upd adds_refl) (auto simp: keys)
  then show ?thesis
    unfolding setPacemakerStonithClusterProperty_def Let_def
    by (intro adds_defaults) (auto simp: adds_refl intro!: adds_fold split: option.splits)
qed

definition cloneKeys :: "string list" where
  "cloneKeys = [''saphana_automated_register'', ''saphana_duplicate_primary_timeout'', ''saphana_prefer_site_takeover'',
     ''saphana_notify'', ''saphana_clone_max'', ''saphana_clone_node_max'', ''saphana_interleave'']"

definition cloneLabels :: "string list" where
  "cloneLabels = ''saphanacontroller_ra_configured'' # cloneKeys"

lemma cloneAttrs_adds: "adds [] cloneLabels ls (snd (snd (cloneAttrs c ps (ia, ma, ls))))"
proof (induction ps arbitrary: ia ma ls)
  case (Cons p ps)
  have "adds [] cloneLabels ls (if b then ls(''saphanacontroller_ra_configured'' \<mapsto> ''true'') else ls)" for b
    by (simp add: adds_refl adds_upd_same cloneLabels_def)
  then show ?case
    by (auto simp: Let_def intro: adds_step Cons.IH)
qed (simp add: adds_refl)

lemma clones_adds: "adds [] cloneLabels (snd (snd s)) (snd (snd (fold (\<lambda>c s. cloneAttrs c (cl_Primitives c) s) cs s)))"
proof (induction cs arbitrary: s)
  case (Cons c cs)
  have "adds [] cloneLabels (snd (snd s)) (snd (snd (cloneAttrs c (cl_Primitives c) s)))"
    by (metis cloneAttrs_adds prod.collapse)
  then show ?case
    by (auto intro: adds_step Cons.IH)
qed (simp add: adds_refl)

lemma dash_values:
  "dashToUnderscore ''notify'' = ''notify''" "dashToUnderscore ''clone-max'' = ''clone_max''"
  "dashToUnderscore ''clone-node-max'' = ''clone_node_max''" "dashToUnderscore ''interleave'' = ''interleave''"
  "dashToUnderscore ''migration-threshold'' = ''migration_threshold''" "dashToUnderscore ''resource-stickiness'' = ''resource_stickiness''"
  by code_simp+

lemma lower_values:
  "toLower ''AUTOMATED_REGISTER'' = ''automated_register''" "toLower ''DUPLICATE_PRIMARY_TIMEOUT'' = ''duplicate_primary_timeout''"
  "toLower ''PREFER_SITE_TAKEOVER'' = ''prefer_site_takeover''"
  by (simp_all add: toLower_def lowerChar_def codeOf_def char_of_eq_iff)

lemma cloneAttrs_keys:
  "n \<in> {''notify'', ''clone-max'', ''clone-node-max'', ''interleave''} \<Longrightarrow> ''saphana_'' @ dashToUnderscore n \<in> set cloneLabels"
  "n \<in> {''AUTOMATED_REGISTER'', ''DUPLICATE_PRIMARY_TIMEOUT'', ''PREFER_SITE_TAKEOVER''} \<Longrightarrow> ''saphana_'' @ toLower n \<in> set cloneLabels"
  by (elim insertE emptyE; simp add: dash_values lower_values cloneLabels_def cloneKeys_def)+

lemma hanaClone_adds [adds_rules]: "adds cloneLabels cloneLabels ls (setPacemakerHANACloneAttrs clones ls)"
proof -
  let ?l = "setAll cloneKeys [] (ls(''saphanacontroller_ra_configured'' \<mapsto> ''false''))"
  have start: "adds cloneLabels cloneLabels ls ?l"
    by (auto simp: adds_def setAll_dom cloneLabels_def)
  obtain ia ma l1 where f: "fold (\<lambda>c s. cloneAttrs c (cl_Primitives c) s) clones ([], [], ?l) = (ia, ma, l1)"
    by (rule prod_cases3)
  have "adds [] cloneLabels ?l l1"
    using clones_adds[of "([], [], ?l)" clones] unfolding f snd_conv .
  with start have "adds cloneLabels cloneLabels ls l1"
    by (rule adds_step)
  then have "adds cloneLabels cloneLabels ls (fold (\<lambda>nv l. if nv_Name nv \<in> {''AUTOMATED_REGISTER'', ''DUPLICATE_PRIMARY_TIMEOUT'', ''PREFER_SITE_TAKEOVER''}
      then l(''saphana_'' @ toLower (nv_Name nv) \<mapsto> nv_Value nv) else l) ia l1)"
    by (rule adds_step) (rule adds_fold, rule adds_if, rule cloneAttrs_keys)
  then show ?thesis
    unfolding setPacemakerHANACloneAttrs_def Let_def cloneKeys_def[symmetric] f prod.case
    by (rule adds_step) (rule adds_fold, rule adds_if, rule cloneAttrs_keys)
qed

definition topologyCloneKeys :: "string list" where
  "topologyCloneKeys = [''saphanatopology_clone_node_max'', ''saphanatopology_interleave'']"

lemma topologyClone_keys:
  "n \<in> {''clone-node-max'', ''interleave''} \<Longrightarrow> ''saphanatopology_'' @ dashToUnderscore n \<in> set topologyCloneKeys"
  by (elim insertE emptyE; simp add: dash_values topologyCloneKeys_def)

lemma topologyClone_adds [adds_rules]:
  "adds topologyCloneKeys topologyCloneKeys ls (setPacemakerHANATopologyCloneAttrs clones ls)"
  unfolding setPacemakerHANATopologyCloneAttrs_def topologyCloneKeys_def[symmetric]
  by (rule adds_defaults[OF adds_fold[OF adds_if[OF topologyClone_keys]]])

section \<open>Labels of the resource groups\<close>

lemma setMonitor_adds:
  "kind @ ''_monitor_interval'' \<in> set K \<Longrightarrow> kind @ ''_monitor_timeout'' \<in> set K \<Longrightarrow> adds [] K ls (setMonitor kind ops ls)"
  unfolding setMonitor_def by (rule adds_fold) (auto simp only: if_splits intro!: adds_upd adds_refl)

lemma keyedPair_adds: "ran keys \<subseteq> set K \<Longrightarrow> adds [] K ls (keyedPair keys nv ls)"
  by (auto simp: keyedPair_def ran_def intro!: adds_upd_same adds_refl split: option.splits)

lemma ascsPair_adds: "adds [] ascsKeys (fst s) (fst (ascsPair nv s))"
  by (auto simp: ascsPair_def ascsKeys_def intro!: adds_upd_same adds_refl)

lemma adds_fold_fst:
  assumes "\<And>x s. adds [] K (fst s) (fst (f x s))"
  shows "adds [] K (fst s) (fst (fold f xs s))"
proof (induction xs arbitrary: s)
  case (Cons x xs)
  show ?case
    by (auto intro: adds_step[OF assms Cons.IH])
qed (simp add: adds_refl)

lemma metaKeys_ran: "ran metaAttributesKeys \<subseteq> set ascsKeys"
  by (auto simp: ran_def metaAttributesKeys_def ascsKeys_def split: if_splits)

lemma ascsPrimitive_adds: "adds [] ascsKeys (fst s) (fst (ascsPrimitive p s))"
proof -
  obtain l profile where f: "fold ascsPair (NVPairs (InstanceAttributes p)) s = (l, profile)"
    by fastforce
  have "adds [] ascsKeys (fst s) l"
    using adds_fold_fst[of ascsKeys ascsPair s "NVPairs (InstanceAttributes p)", OF ascsPair_adds] by (simp add: f)
  moreover have "adds [] ascsKeys l (fold (keyedPair metaAttributesKeys) (NVPairs (MetaAttributes p)) l)"
    by (intro adds_fold keyedPair_adds metaKeys_ran)
  ultimately have "adds [] ascsKeys (fst s) (fold (keyedPair metaAttributesKeys) (NVPairs (MetaAttributes p)) l)"
    by (rule adds_step)
  then show ?thesis
    unfolding ascsPrimitive_def f prod.case fst_conv
    by (rule adds_step) (rule setMonitor_adds; simp add: ascsKeys_def)
qed

lemma ascsLabels_adds [adds_rules]: "adds ascsKeys ascsKeys ls (fst (ascsLabels groups ls))"
  unfolding ascsLabels_def Let_def
proof (rule adds_defaults, cases "find (hasProfile ''SCS'') groups")
  case (Some g)
  then show "adds [] ascsKeys (setAll ascsKeys [] ls)
      (fst (case find (hasProfile ''SCS'') groups of None \<Rightarrow> (setAll ascsKeys [] ls, [])
            | Some g \<Rightarrow> fold ascsPrimitive (sapPrimitives g) (setAll ascsKeys [] ls, [])))"
    using adds_fold_fst[of ascsKeys ascsPrimitive "(setAll ascsKeys [] ls, [])" "sapPrimitives g", OF ascsPrimitive_adds] by simp
qed (simp add: adds_refl)

definition ersLabels :: "string list" where
  "ersLabels = [''ers_automatic_recover'', ''is_ers'', ''ers_monitor_interval'', ''ers_monitor_timeout'']"

lemma ersKeys_ran: "ran ersKeys \<subseteq> set ersLabels"
  by (auto simp: ran_def ersKeys_def ersLabels_def split: if_splits)

lemma ersPrimitive_adds: "adds [] ersLabels ls (ersPrimitive p ls)"
proof -
  have "adds [] ersLabels ls (fold (keyedPair ersKeys) (NVPairs (InstanceAttributes p)) ls)"
    by (intro adds_fold keyedPair_adds ersKeys_ran)
  then show ?thesis
    unfolding ersPrimitive_def by (rule adds_step) (rule setMonitor_adds; simp add: ersLabels_def)
qed

lemma ers_adds [adds_rules]: "adds ersLabels ersLabels ls (setERSConfigMetrics groups ls)"
  unfolding setERSConfigMetrics_def Let_def ersLabels_def[symmetric]
  by (rule adds_defaults) (auto intro!: adds_refl adds_fold ersPrimitive_adds split: option.splits)

lemma ip_adds [adds_rules]: "adds [''ascs_ip'', ''ers_ip''] [''ascs_ip'', ''ers_ip''] ls (collectASCSIP groups ls)"
proof -
  have "adds [] [''ascs_ip'', ''ers_ip''] l (ipGroup g l)" for g l
    by (auto simp: ipGroup_def Let_def intro!: adds_upd adds_refl split: prod.splits)
  then show ?thesis
    unfolding collectASCSIP_def by (rule adds_defaults[OF adds_fold])
qed

definition balancerKeys :: "string list" where
  "balancerKeys = concat (map (\<lambda>pre. map (\<lambda>k. pre @ k) settingKeys) [[], ''ascs_'', ''ers_'']) @ [''has_alias_ip'']"

definition labelPrefixes :: "string set" where
  "labelPrefixes = {[], ''ascs_'', ''ers_''}"

lemma prefixed_keys: "pre \<in> labelPrefixes \<Longrightarrow> k \<in> set settingKeys \<Longrightarrow> pre @ k \<in> set balancerKeys"
  by (auto simp: labelPrefixes_def balancerKeys_def)

lemma profilePrefixes: "pre \<in> labelPrefixes \<Longrightarrow> fold profilePrefix nvs pre \<in> labelPrefixes"
  by (induction nvs arbitrary: pre) (auto simp: profilePrefix_def labelPrefixes_def)

lemma alias_key: "''has_alias_ip'' \<in> set balancerKeys"
  by (simp add: balancerKeys_def)

lemma balancerPrimitive_adds:
  assumes "fst (snd s) \<in> labelPrefixes"
  shows "fst (snd (balancerPrimitive p s)) \<in> labelPrefixes \<and> adds [] balancerKeys (snd (snd s)) (snd (snd (balancerPrimitive p s)))"
  using assms by (cases s) (simp add: balancerPrimitive_def profilePrefixes adds_refl adds_upd_same alias_key)

lemma balancerPrimitives_adds:
  "fst (snd s) \<in> labelPrefixes \<Longrightarrow>
     fst (snd (fold balancerPrimitive ps s)) \<in> labelPrefixes \<and> adds [] balancerKeys (snd (snd s)) (snd (snd (fold balancerPrimitive ps s)))"
proof (induction ps arbitrary: s)
  case (Cons p ps)
  have pre: "fst (snd (balancerPrimitive p s)) \<in> labelPrefixes"
    and step: "adds [] balancerKeys (snd (snd s)) (snd (snd (balancerPrimitive p s)))"
    using balancerPrimitive_adds[OF Cons.prems] by simp_all
  show ?case
    using Cons.IH[OF pre] adds_step[OF step] by simp
qed (simp add: adds_refl)

lemma balancerGroup_adds: "adds [] balancerKeys ls (balancerGroup g ls)"
proof -
  obtain settings pre l where f: "fold balancerPrimitive (gr_Primitives g) (Map.empty, [], ls) = (settings, pre, l)"
    by (rule prod_cases3)
  have pre: "pre \<in> labelPrefixes" and l: "adds [] balancerKeys ls l"
    using balancerPrimitives_adds[of "(Map.empty, [], ls)" "gr_Primitives g"] by (simp_all add: f labelPrefixes_def)
  have "adds [] balancerKeys l (fold (\<lambda>k l. case settings k of None \<Rightarrow> l | Some v \<Rightarrow> l(pre @ k \<mapsto> noSeconds v)) settingKeys l)"
    by (rule adds_fold) (simp add: adds_refl adds_upd_same prefixed_keys[OF pre] split: option.split)
  then show ?thesis
    unfolding balancerGroup_def f prod.case by (rule adds_step[OF l])
qed

lemma balancer_adds [adds_rules]: "adds balancerKeys balancerKeys ls (setHealthCheckInternalLoadBalancerMetrics groups ls)"
proof -
  let ?l = "(setAll (concat (map (\<lambda>pre. map (\<lambda>k. pre @ k) settingKeys) [[], ''ascs_'', ''ers_''])) [] ls)(''has_alias_ip'' \<mapsto> ''false'')"
  have "adds balancerKeys balancerKeys ls ?l"
    by (simp only: adds_def setAll_dom dom_fun_upd) (auto simp: balancerKeys_def)
  then show ?thesis
    unfolding setHealthCheckInternalLoadBalancerMetrics_def by (rule adds_step) (rule adds_fold, rule balancerGroup_adds)
qed

section \<open>Labels that need the environment\<close>

text \<open>A program that adds labels to the given ones, whatever the environment answers.\<close>

definition adding :: "string list \<Rightarrow> string list \<Rightarrow> labels \<Rightarrow> (pm_call, labels) prog \<Rightarrow> bool" where
  "adding A K ls m \<longleftrightarrow> (\<forall>log. wp m (\<lambda>l' _. adds A K ls l') log)"

lemma adding_ret: "adds A K ls l' \<Longrightarrow> adding A K ls (ret l')"
  by (simp add: adding_def wp_rules)

lemma adding_call: "(\<And>x. adding A K ls (f x)) \<Longrightarrow> adding A K ls (State_Monad.bind (call e c) f)"
  by (simp add: adding_def wp_rules)

lemma adding_bind:
  assumes "adding A K ls m" "\<And>l'. adding B L l' (f l')"
  shows "adding (A @ B) (K @ L) ls (State_Monad.bind m f)"
  unfolding adding_def
proof
  fix log
  have "wp m (\<lambda>l' _. adds A K ls l') log"
    using assms(1) by (simp add: adding_def)
  then show "wp (State_Monad.bind m f) (\<lambda>l' _. adds (A @ B) (K @ L) ls l') log"
    unfolding wp_bind
  proof (rule wp_mono)
    fix l' log'
    assume l: "adds A K ls l'"
    have "wp (f l') (\<lambda>l'' _. adds B L l' l'') log'"
      using assms(2) by (simp add: adding_def)
    then show "wp (f l') (\<lambda>l'' _. adds (A @ B) (K @ L) ls l'') log'"
      by (rule wp_mono) (rule adds_trans[OF l])
  qed
qed

lemma adding_run:
  assumes "\<And>log x log'. run_state m log = (x, log') \<Longrightarrow> adding A K ls (f x)"
  shows "adding A K ls (State_Monad.bind m f)"
  unfolding adding_def wp_bind
proof (intro allI, rule wpI)
  fix log x log'
  assume "run_state m log = (x, log')"
  then show "wp (f x) (\<lambda>l' _. adds A K ls l') log'"
    using assms unfolding adding_def by blast
qed

lemma adding_if: "(b \<Longrightarrow> adding A K ls m) \<Longrightarrow> (\<not> b \<Longrightarrow> adding A K ls n) \<Longrightarrow> adding A K ls (if b then m else n)"
  by simp

lemma adding_mono:
  assumes "adding A K l m" "\<And>l'. adds A K l l' \<Longrightarrow> adds B L l1 l'"
  shows "adding B L l1 m"
  unfolding adding_def
proof
  fix log
  have "wp m (\<lambda>l' _. adds A K l l') log"
    using assms(1) by (simp add: adding_def)
  then show "wp m (\<lambda>l' _. adds B L l1 l') log"
    by (rule wp_mono) (rule assms(2))
qed

lemma adding_step: "adding B L l m \<Longrightarrow> adds A K ls l \<Longrightarrow> adding (A @ B) (K @ L) ls m"
  by (erule adding_mono) (rule adds_trans)

lemma adding_within: "adding A K l m \<Longrightarrow> set B \<subseteq> set A \<Longrightarrow> set K \<subseteq> set L \<Longrightarrow> adding B L l m"
  by (erule adding_mono) (rule adds_within)

lemma adds_default_upd: "k \<in> set ks \<Longrightarrow> adds ks ks ls ((setAll ks v ls)(k \<mapsto> x))"
  by (rule adds_upd[OF adds_setAll])

lemma adds_twice: "adds [a, b] [a, b] l (l(a \<mapsto> x, b \<mapsto> y))"
  by (auto simp: adds_def)

lemma adds_once: "adds [a] [a] l (l(a \<mapsto> x))"
  by (auto simp: adds_def)

abbreviation apiKeys :: "string list" where
  "apiKeys \<equiv> [''fence_agent_compute_api_access'', ''fence_agent_logging_api_access'']"

lemma apiAccess_adding [adds_rules]: "adding apiKeys apiKeys ls (setPacemakerAPIAccess w projectID token ls)"
  unfolding setPacemakerAPIAccess_def by (intro adding_run adding_ret adds_twice)

lemma maintenance_adding [adds_rules]:
  "adding [''maintenance_mode_active''] [''maintenance_mode_active''] ls (setPacemakerMaintenanceMode w crm ls)"
  unfolding setPacemakerMaintenanceMode_def by (intro adding_run adding_ret adds_once)

lemma healthy_adding [adds_rules]: "adding [''cluster_healthy''] [''cluster_healthy''] ls (setPacemakerClusterHealthy w ls)"
  unfolding setPacemakerClusterHealthy_def by (intro adding_run) (simp add: adding_ret adds_once)

abbreviation instanceKeys :: "string list" where
  "instanceKeys \<equiv> [''ascs_instance'', ''ers_instance'']"

lemma instanceLines_adds: "adds [] instanceKeys (snd (snd s)) (snd (snd (fold instanceLine lines s)))"
proof (induction lines arbitrary: s)
  case (Cons line lines)
  have "adds [] instanceKeys (snd (snd s)) (snd (snd (instanceLine line s)))"
    by (cases s) (simp add: instanceLine_def setInstance_def adds_refl adds_upd_same split: option.split)
  then show ?case
    by (simp add: adds_step[OF _ Cons.IH])
qed (simp add: adds_refl)

lemma readStatus_adding: "adding instanceKeys instanceKeys ls (readStatus w c (setAll instanceKeys [] ls))"
  unfolding readStatus_def using instanceLines_adds[of "(False, False, setAll instanceKeys [] ls)"]
  by (intro adding_run adding_ret adds_defaults) simp

lemma instance_adding [adds_rules]: "adding instanceKeys instanceKeys ls (collectASCSInstance w ls)"
  unfolding collectASCSInstance_def Let_def
  by (intro adding_run adding_if readStatus_adding adding_ret adds_setAll)

lemma enqueue_adding [adds_rules]: "adding [''enqueue_server''] [''enqueue_server''] ls (collectEnqueueServer w ls)"
  unfolding collectEnqueueServer_def Let_def
  by (intro adding_run adding_if adding_ret) (simp_all add: adds_setAll adds_default_upd)

lemma virtualIP_adding: "k \<in> set K \<Longrightarrow> adding [] K l (setVirtualIP w k sid pattern l)"
  unfolding setVirtualIP_def
  by (intro adding_run adding_if) (simp_all add: adding_ret adds_refl adds_upd_same split: option.split)

abbreviation virtualKeys :: "string list" where
  "virtualKeys \<equiv> [''ascs_virtual_ip'', ''ers_virtual_ip'']"

lemma virtualIP_defaults: "adding [] virtualKeys (setAll virtualKeys [] ls) m \<Longrightarrow> adding virtualKeys virtualKeys ls m"
  by (erule adding_mono) (rule adds_defaults)

lemma virtualIPs_adding [adds_rules]: "adding virtualKeys virtualKeys ls (collectASCSVirtualIP w ls)"
proof -
  have "adding ([] @ []) (virtualKeys @ virtualKeys) l
      (State_Monad.bind (setVirtualIP w ''ascs_virtual_ip'' sid p l) (\<lambda>l1. setVirtualIP w ''ers_virtual_ip'' sid q l1))" for l sid p q
    by (intro adding_bind virtualIP_adding) simp_all
  then have "adding [] virtualKeys l
      (State_Monad.bind (setVirtualIP w ''ascs_virtual_ip'' sid p l) (\<lambda>l1. setVirtualIP w ''ers_virtual_ip'' sid q l1))" for l sid p q
    by (rule adding_within) simp_all
  note both = this
  have one: "adding [] virtualKeys l (setVirtualIP w ''ascs_virtual_ip'' sid p l)" for l sid p
    by (rule virtualIP_adding) simp
  show ?thesis
    unfolding collectASCSVirtualIP_def Let_def
    by (rule virtualIP_defaults, rule adding_run) (simp only: adding_ret adds_refl one both simp_thms split: if_split)
qed

lemma ascsConfig_adding [adds_rules]: "adding ascsKeys ascsKeys ls (setASCSConfigMetrics w groups ls)"
proof (cases "ascsLabels groups ls")
  case (Pair l profile)
  have "adds ascsKeys ascsKeys ls l"
    using ascsLabels_adds[of ls groups] by (simp add: Pair)
  moreover have "''ensa2_capable'' \<in> set ascsKeys"
    by (simp add: ascsKeys_def)
  ultimately show ?thesis
    unfolding setASCSConfigMetrics_def Pair prod.case
    by (intro adding_run adding_if) (simp_all add: adding_ret adds_upd)
qed

section \<open>The whole collection\<close>

definition alwaysLabels :: "string list" where
  "alwaysLabels = [''location_preference_set''] @ cloneLabels @ topologyCloneKeys @ apiKeys
     @ [''maintenance_mode_active''] @ [''cluster_healthy''] @ [''stonith_enabled'', ''stonith_timeout''] @ instanceKeys
     @ [''enqueue_server''] @ ascsKeys @ ersLabels @ [''ascs_ip'', ''ers_ip''] @ virtualKeys @ [''op_timeout''] @ balancerKeys"

definition rscKeys :: "string list" where
  "rscKeys = [dashToUnderscore ''migration-threshold'', dashToUnderscore ''resource-stickiness'']"

lemma resource_adds:
  "adds ([''location_preference_set''] @ cloneLabels @ topologyCloneKeys)
     ([''location_preference_set''] @ rscKeys @ operationKeys @ cloneLabels @ topologyKeys @ topologyCloneKeys) ls (resourceLabels c ls)"
proof -
  have "adds ([''location_preference_set''] @ [] @ [] @ [] @ cloneLabels @ [] @ topologyCloneKeys)
     ([''location_preference_set''] @ [dashToUnderscore ''migration-threshold''] @ [dashToUnderscore ''resource-stickiness'']
        @ operationKeys @ cloneLabels @ topologyKeys @ topologyCloneKeys) ls (resourceLabels c ls)"
    unfolding resourceLabels_def Let_def
    by (rule adds_trans[OF adds_once adds_trans[OF rsc_adds adds_trans[OF rsc_adds adds_trans[OF hanaOperation_adds
          adds_trans[OF hanaClone_adds adds_trans[OF topology_adds topologyClone_adds]]]]]])
  then show ?thesis
    by (simp add: rscKeys_def)
qed

lemmas label_lists =
  alwaysLabels_def cloneLabels_def cloneKeys_def topologyCloneKeys_def ascsKeys_def ersLabels_def balancerKeys_def settingKeys_def
  rscKeys_def operationKeys_def topologyKeys_def fenceLabels_def dash_values

lemma always_pruned: "set alwaysLabels \<subseteq> set pruneLabels"
  unfolding label_lists pruneLabels_def list.map concat.simps append.simps list.set
  by (intro subsetI, elim insertE emptyE; hypsubst; intro insertI1 insertI2)

lemma optional_pruned: "set (rscKeys @ operationKeys @ topologyKeys @ fenceLabels) \<subseteq> set pruneLabels"
  unfolding label_lists pruneLabels_def append.simps list.set
  by (intro subsetI, elim insertE emptyE; hypsubst; intro insertI1 insertI2)

lemma clusterLabels_adding: "adding alwaysLabels pruneLabels ls (clusterLabels w c projectID token crm ls)"
proof -
  let ?m = "clusterLabels w c projectID token crm ls"
  have "\<exists>A K. adding A K ls ?m \<and> set alwaysLabels \<subseteq> set A \<and> set K \<subseteq> set alwaysLabels \<union> set (rscKeys @ operationKeys @ topologyKeys)"
    unfolding clusterLabels_def Let_def
    by (intro exI conjI, rule adding_bind[OF adding_step[OF apiAccess_adding resource_adds]
          adding_bind[OF maintenance_adding adding_bind[OF healthy_adding adding_bind[OF adding_step[OF instance_adding stonith_adds]
          adding_bind[OF enqueue_adding adding_bind[OF ascsConfig_adding adding_bind[OF
            adding_step[OF virtualIPs_adding adds_trans[OF ers_adds ip_adds]]
            adding_ret[OF adds_trans[OF opOptions_adds balancer_adds]]]]]]]]])
       (simp only: alwaysLabels_def set_append, blast)+
  then obtain A K where m: "adding A K ls ?m" "set alwaysLabels \<subseteq> set A"
      "set K \<subseteq> set alwaysLabels \<union> set (rscKeys @ operationKeys @ topologyKeys)"
    by blast
  have "set K \<subseteq> set pruneLabels"
    using m(3) always_pruned optional_pruned unfolding set_append by blast
  with m show ?thesis
    by (metis adding_within)
qed

text \<open>The labels that the commands of the workload definition have reported.\<close>

primrec reportedLabels :: "pm_world \<Rightarrow> pm_call list \<Rightarrow> string list" where
  "reportedLabels w [] = []"
| "reportedLabels w (c # log) =
     (case c of OSMetric m v \<Rightarrow> fst (osMetric w log c) # reportedLabels w log | _ \<Rightarrow> reportedLabels w log)"

lemma reported_more: "set (reportedLabels w log) \<subseteq> set (reportedLabels w (c # log))"
  by (cases c) auto

lemma addOSMetrics_labels:
  "wp (addOSMetrics w v ms ls) (\<lambda>l log'. dom ls \<subseteq> dom l \<and> dom l \<subseteq> dom ls \<union> set (reportedLabels w log')
     \<and> set (reportedLabels w log) \<subseteq> set (reportedLabels w log')) log"
proof (induction ms arbitrary: ls log)
  case (Cons m ms)
  show ?case
    unfolding addOSMetrics.simps wp_bind wp_call
    by (rule wp_mono[OF Cons.IH]) (auto split: if_splits)
qed (simp add: wp_rules)

definition collected :: "int \<times> labels \<Rightarrow> bool" where
  "collected r \<longleftrightarrow> dom (snd r) \<subseteq> set pruneLabels \<and> (fst r = 0 \<or> fst r = 1 \<and> set alwaysLabels \<subseteq> dom (snd r))"

lemma collected_empty: "collected (0, Map.empty)"
  by (simp add: collected_def)

lemma collected_cluster:
  assumes "dom ls \<subseteq> set pruneLabels"
  shows "wp (State_Monad.bind (clusterLabels w c projectID token crm ls) (\<lambda>l. ret (1, l))) (\<lambda>r _. collected r) log"
proof -
  have "wp (clusterLabels w c projectID token crm ls) (\<lambda>l _. adds alwaysLabels pruneLabels ls l) log"
    using clusterLabels_adding by (simp add: adding_def)
  then show ?thesis
    unfolding wp_bind
  proof (rule wp_mono)
    fix l s
    assume "adds alwaysLabels pruneLabels ls l"
    then have "collected (1, l)"
      using assms unfolding collected_def adds_def fst_conv snd_conv by blast
    then show "wp (ret (1, l)) (\<lambda>r _. collected r) s"
      by (simp add: wp_return)
  qed
qed

lemma primitives_pruned: "setPacemakerPrimitives Map.empty rs instances me = (ls, project, path) \<Longrightarrow> dom ls \<subseteq> set pruneLabels"
  using primitives_adds[of Map.empty rs instances me] optional_pruned by (auto simp: adds_def)

lemma collect_wp: "wp (collectPacemakerValAndLabels w cloud) (\<lambda>r _. collected r) log"
proof (cases cloud)
  case None
  then show ?thesis
    by (simp add: collectPacemakerValAndLabels_def wp_return collected_empty)
next
  case (Some cp)
  have token: "wp (case token of None \<Rightarrow> ret (0, ls)
      | Some t \<Rightarrow> State_Monad.bind (clusterLabels w c p t crm ls) (\<lambda>l. ret (1, l))) (\<lambda>r _. collected r) log"
    if "dom ls \<subseteq> set pruneLabels" for token ls c p crm log
    using that by (cases token) (simp_all add: wp_return collected_cluster, simp add: collected_def)
  have document: "wp (case setPacemakerPrimitives Map.empty (cib_Resources c) instances me of (ls, project, path) \<Rightarrow>
      State_Monad.bind (getBearerToken w path) (\<lambda>token. case token of None \<Rightarrow> ret (0, ls)
        | Some t \<Rightarrow> State_Monad.bind (clusterLabels w c (p project) t crm ls) (\<lambda>l. ret (1, l)))) (\<lambda>r _. collected r) log"
    for c instances me p crm log
  proof (cases "setPacemakerPrimitives Map.empty (cib_Resources c) instances me")
    case (fields ls project path)
    show ?thesis
      unfolding fields prod.case by (rule wp_any) (rule token[OF primitives_pruned[OF fields]])
  qed
  have parsed: "wp (case xml of None \<Rightarrow> ret (0, Map.empty)
      | Some t \<Rightarrow> (case ParseXML w t of None \<Rightarrow> ret (0, Map.empty) | Some c \<Rightarrow> m c)) (\<lambda>r _. collected r) log"
    if "\<And>c log. wp (m c) (\<lambda>r _. collected r) log" for xml m log
    using that by (simp add: wp_return collected_empty split: option.split)
  show ?thesis
    unfolding collectPacemakerValAndLabels_def Some option.case
    by (rule wp_any, rule wp_any, rule parsed, rule document)
qed

lemma pruned_dom:
  assumes "dom ls \<subseteq> set pruneLabels"
  shows "dom (pruned configured ls) = dom ls \<inter> set configured"
  unfolding pruned_def set_filter using domIff assms by (auto split: if_splits) (metis domI subsetD)

text \<open>C21. Every label returned is configured in the workload definition or reported by one of its commands; when
  the value is 1, every configured label that the collection always sets is returned.\<close>

theorem labels_are_configured:
  "wp (CollectPacemakerMetrics w cloud wlm vendor)
     (\<lambda>(v, ls) log. dom ls \<subseteq> set (configuredLabels (getPart ValidationPacemaker wlm)) \<union> set (reportedLabels w log)
        \<and> (v = 0 \<or> v = 1 \<and> set alwaysLabels \<inter> set (configuredLabels (getPart ValidationPacemaker wlm)) \<subseteq> dom ls)) []"
  unfolding CollectPacemakerMetrics_def Let_def
proof (rule wp_any, subst wp_bind, rule wp_mono[OF collect_wp])
  fix v r log
  assume "collected r"
  then have d: "dom (pruned (configuredLabels p) (snd r)) = dom (snd r) \<inter> set (configuredLabels p)" for p
    by (intro pruned_dom) (simp add: collected_def)
  show "wp (State_Monad.bind (addOSMetrics w v (getList pm_OsCommandMetrics (getPart ValidationPacemaker wlm))
        (pruned (configuredLabels (getPart ValidationPacemaker wlm)) (snd r))) (\<lambda>l. ret (fst r, l)))
     (\<lambda>(v, ls) log. dom ls \<subseteq> set (configuredLabels (getPart ValidationPacemaker wlm)) \<union> set (reportedLabels w log)
        \<and> (v = 0 \<or> v = 1 \<and> set alwaysLabels \<inter> set (configuredLabels (getPart ValidationPacemaker wlm)) \<subseteq> dom ls)) log"
    unfolding wp_bind wp_return_fun prod.case
    by (rule wp_mono[OF addOSMetrics_labels], unfold d) (use \<open>collected r\<close> in \<open>unfold collected_def, blast\<close>)
qed

section \<open>The health of the cluster\<close>

function wordRuns :: "string \<Rightarrow> string list" where
  "wordRuns [] = []"
| "wordRuns (c # cs) = (if isWordChar c then takeWhile isWordChar (c # cs) # wordRuns (dropWhile isWordChar cs) else wordRuns cs)"
  by pat_completeness auto
termination
  by (relation "measure length") (auto simp: le_imp_less_Suc length_dropWhile_le)

text \<open>A word that starts here and ends at a boundary is the run of word characters.\<close>

lemma bounded_run:
  assumes "v \<noteq> []" "\<forall>c \<in> set v. isWordChar c"
  shows "hasPrefix s v \<and> (case drop (length v) s of [] \<Rightarrow> True | d # _ \<Rightarrow> \<not> isWordChar d) \<longleftrightarrow> takeWhile isWordChar s = v"
proof
  assume a: "hasPrefix s v \<and> (case drop (length v) s of [] \<Rightarrow> True | d # _ \<Rightarrow> \<not> isWordChar d)"
  then obtain r where s: "s = v @ r"
    by (auto simp: hasPrefix_iff)
  then show "takeWhile isWordChar s = v"
    using a assms(2) by (cases r) (simp_all add: takeWhile_append2 s)
next
  assume t: "takeWhile isWordChar s = v"
  then have s: "s = v @ dropWhile isWordChar s"
    by (metis takeWhile_dropWhile_id)
  show "hasPrefix s v \<and> (case drop (length v) s of [] \<Rightarrow> True | d # _ \<Rightarrow> \<not> isWordChar d)"
  proof (cases "dropWhile isWordChar s")
    case Nil
    then show ?thesis
      using s by (metis append_Nil2 drop_all hasPrefix_append list.case(1) order_refl)
  next
    case (Cons d ds)
    have "\<not> isWordChar d"
      using hd_dropWhile[of isWordChar s] by (simp add: Cons)
    moreover have "drop (length v) s = d # ds" "hasPrefix s v"
      using s unfolding Cons by (metis append_eq_conv_conj, metis hasPrefix_append)
    ultimately show ?thesis
      by simp
  qed
qed

lemma matchWord_runs:
  assumes "\<And>v. v \<in> set words \<Longrightarrow> v \<noteq> [] \<and> (\<forall>c \<in> set v. isWordChar c)"
  shows "matchWord words prev s \<longleftrightarrow> (\<exists>v \<in> set words. v \<in> set (wordRuns (if prev then dropWhile isWordChar s else s)))"
proof (induction s arbitrary: prev)
  case (Cons c cs)
  have here: "(\<exists>v \<in> set words. hasPrefix (c # cs) v \<and> (case drop (length v) (c # cs) of [] \<Rightarrow> True | d # _ \<Rightarrow> \<not> isWordChar d))
      \<longleftrightarrow> (\<exists>v \<in> set words. takeWhile isWordChar (c # cs) = v)"
    by (rule bex_cong[OF refl], rule bounded_run) (use assms in simp_all)
  have no_empty: "[] \<notin> set words"
    using assms by blast
  show ?case
    unfolding matchWord.simps here Cons.IH using no_empty by (cases prev; cases "isWordChar c") (simp_all, blast)
qed simp

definition badWords :: "string list" where
  "badWords = [''offline'', ''unclean'', ''stopped'', ''failed'']"

lemma badWords_words: "v \<in> set badWords \<Longrightarrow> v \<noteq> [] \<and> (\<forall>c \<in> set v. isWordChar c)"
  by (auto simp: badWords_def isWordChar_def isDigit_def codeOf_def)

text \<open>The lines that decide: from the list of nodes to the failed fencing actions, if there are any.\<close>

definition nodeSection :: "string list \<Rightarrow> string list" where
  "nodeSection lines = dropWhile (\<lambda>l. \<not> contains l ''Node List'')
     (takeWhile (\<lambda>l. contains l ''Node List'' \<or> \<not> contains l ''Failed Fencing Actions'') lines)"

definition badLine :: "string \<Rightarrow> bool" where
  "badLine l \<longleftrightarrow> \<not> contains l ''Node List'' \<and> (\<exists>v \<in> set (wordRuns (toLower l)). v \<in> set badWords)"

lemma unhealthyLine_runs: "unhealthyLine l \<longleftrightarrow> (\<exists>v \<in> set (wordRuns (toLower l)). v \<in> set badWords)"
  unfolding unhealthyLine_def badWords_def[symmetric] using matchWord_runs[OF badWords_words] by auto

lemma healthyLines_processing:
  "healthyLines True lines \<longleftrightarrow>
     list_all (\<lambda>l. \<not> badLine l) (takeWhile (\<lambda>l. contains l ''Node List'' \<or> \<not> contains l ''Failed Fencing Actions'') lines)"
  by (induction lines) (auto simp: unhealthyLine_runs badLine_def)

lemma healthyLines_section: "healthyLines False lines \<longleftrightarrow> list_all (\<lambda>l. \<not> badLine l) (nodeSection lines)"
  by (induction lines) (auto simp: nodeSection_def healthyLines_processing badLine_def)

text \<open>C22. Whatever the command prints, the label of the cluster's health is \<open>true\<close> exactly when no line of the
  section of the nodes, up to the failed fencing actions, has one of the words offline, unclean, stopped and
  failed as a whole word in any case.\<close>

theorem cluster_health_spec:
  "wp (setPacemakerClusterHealthy w ls) (\<lambda>l _.
     l = ls(''cluster_healthy'' \<mapsto>
       (let r = pm_ran w log (Exec (CmdSplit ''crm_mon'' ''-1 -r -f'' []))
        in if CmdError r \<noteq> None then ''command_failed''
           else if \<exists>line \<in> set (nodeSection (splitOn chNL (StdOut r))). badLine line then ''false'' else ''true''))) log"
  unfolding setPacemakerClusterHealthy_def wp_bind wp_call
  by (auto simp: wp_return Let_def formatBool_def healthyLines_section list_all_iff)

text \<open>Output without a list of nodes, an empty one for instance, is reported as healthy.\<close>

lemma no_nodes_healthy: "healthyLines False [''Cluster is not running'', ''node1 is offline'']"
  by (simp add: unhealthyLine_def)

section \<open>The delays of the fence devices\<close>

text \<open>
  The delays are to be reported for every instance of the cluster. The loop over the devices ends at the first
  with a service account, so the delay of the second device below is missing.
\<close>

definition fenceDevice :: "string \<Rightarrow> string \<Rightarrow> primitive_class" where
  "fenceDevice node delay = \<lparr>pr_Class = ''stonith'', pr_ID = ''fence-'' @ node, ClassType = ''fence_gce'', Provider = [],
     InstanceAttributes = \<lparr>ps_ID = ''fence-'' @ node @ ''-instance_attributes'', NVPairs =
       [\<lparr>nv_ID = node @ ''-instance_attributes-pcmk_delay_max'', nv_Name = ''pcmk_delay_max'', nv_Value = delay\<rparr>,
        \<lparr>nv_ID = ''sa'', nv_Name = ''serviceaccount'', nv_Value = ''/key.json''\<rparr>]\<rparr>,
     MetaAttributes = \<lparr>ps_ID = [], NVPairs = []\<rparr>, Operations = []\<rparr>"

lemma second_delay_missing:
  "fst (setPacemakerPrimitives Map.empty
      \<lparr>re_Primitives = [fenceDevice ''n1'' ''30'', fenceDevice ''n2'' ''60''], re_Groups = [], re_Clone = [],
       re_Master = \<lparr>cl_ID = [], cl_Attributes = \<lparr>ps_ID = [], NVPairs = []\<rparr>, cl_Primitives = []\<rparr>\<rparr>
      [''n1'', ''n2''] ''n2'') ''pcmk_delay_max'' = Some ''n1=30''"
  by (simp add: setPacemakerPrimitives_def fenceDevice_def instanceAttributeValue_def iteratePrimitiveChild_def Let_def
      readFencePair_def fenceKeys_def hasSuffix_def)

end
