(* ===== verification/HanaMonitoring.thy ===== *)
theory HanaMonitoring
  imports Configuration DatabaseConnector "HOL-Library.Word" "HOL-Library.AList" "HOL-Library.List_Lexorder" "HOL-Library.Char_ord"
begin

text \<open>
  HANA monitoring (\<open>internal/hanamonitoring\<close>): connecting to the databases until all are connected, the
  jobs given to the worker pool, the queries and the time series made from their rows. The connector is
  that of \<open>DatabaseConnector\<close>; Cloud Monitoring, the clock, the replication of HANA and the driver's rows are
  the environment.
\<close>

section \<open>Configuration\<close>

record mon_column = hana_column +
  NameOverride :: string

record mon_query =
  mq_Name :: string
  mq_Sql :: string
  mq_SampleIntervalSec :: int
  mq_Columns :: "mon_column list"
  mq_RunOn :: int

record queries_to_run =
  RunAll :: bool
  QueryNames :: "string list"

record mon_instance =
  mi_Name :: string
  mi_Sid :: string
  mi_Host :: string
  mi_Port :: string
  mi_User :: string
  mi_Password :: string
  mi_SecretName :: string
  mi_EnableSsl :: bool
  mi_HostNameInCertificate :: string
  mi_TlsRootCaFile :: string
  mi_HdbuserstoreKey :: string
  QueriesToRun :: "queries_to_run option"
  IsLocal :: bool
  InstanceNum :: string

record mon_config =
  mc_Enabled :: bool
  mc_SampleIntervalSec :: int
  mc_QueryTimeoutSec :: int
  mc_ExecutionThreads :: int
  mc_Instances :: "mon_instance list"
  mc_Queries :: "mon_query list"
  SendQueryResponseTime :: bool
  mc_ConnectionTimeout :: "int option"
  mc_MaxConnectRetries :: "int option"
  mc_Project :: string

text \<open>Whether the routine that connects is started.\<close>

definition Start :: "mon_config \<Rightarrow> bool" where
  "Start c = (if \<not> mc_Enabled c then False else if length (mc_Queries c) = 0 then False
     else if length (mc_Instances c) = 0 then False else True)"

section \<open>Connections\<close>

definition connKey :: "mon_instance \<Rightarrow> string" where
  "connKey i = mi_Host i @ '':'' @ mi_User i @ '':'' @ mi_Port i"

record conn_state =
  connectedDBs :: "string \<rightharpoonup> bool"
  authErrorDBs :: "string \<rightharpoonup> bool"

definition dbParams :: "mon_config \<Rightarrow> mon_instance \<Rightarrow> db_params" where
  "dbParams c i = \<lparr>Username = mi_User i, Password = mi_Password i, PasswordSecret = mi_SecretName i, Host = mi_Host i,
     Port = mi_Port i, UserKey = mi_HdbuserstoreKey i, SID = mi_Sid i, SSL = mi_EnableSsl i,
     CertHost = mi_HostNameInCertificate i, CAFile = mi_TlsRootCaFile i, Project = mc_Project c,
     PingSpec = (case mc_ConnectionTimeout c of
         None \<Rightarrow> None
       | Some s \<Rightarrow> if s > 0 then Some \<lparr>MaxRetries = (case mc_MaxConnectRetries c of None \<Rightarrow> 0 | Some r \<Rightarrow> r), PingTimeout = s,
                       ps_impl = False\<rparr> else None)\<rparr>"

type_synonym database = "db_handle option \<times> mon_instance"

text \<open>\<open>asHdb\<close> is \<open>errors.As\<close> to the driver's error with its code.\<close>

primrec connectToDatabases :: "'g db_world \<Rightarrow> (db_error \<Rightarrow> int option) \<Rightarrow> mon_config \<Rightarrow> mon_instance list \<Rightarrow> conn_state \<Rightarrow>
    (db_call, conn_state \<times> database list) prog" where
  "connectToDatabases w asHdb c [] st = ret (st, [])"
| "connectToDatabases w asHdb c (i # is) st =
     (if connectedDBs st (connKey i) = Some True then connectToDatabases w asHdb c is st
      else if authErrorDBs st (connKey i) \<noteq> None then connectToDatabases w asHdb c is st
      else do {
        r \<leftarrow> CreateDBHandle w (dbParams c i);
        (case snd r of
           Some e \<Rightarrow> connectToDatabases w asHdb c is
             (if IsAuthError asHdb (Some e) then st\<lparr>authErrorDBs := (authErrorDBs st)(connKey i \<mapsto> True)\<rparr> else st)
         | None \<Rightarrow> do {
             s \<leftarrow> connectToDatabases w asHdb c is (st\<lparr>connectedDBs := (connectedDBs st)(connKey i \<mapsto> True)\<rparr>);
             ret (fst s, (fst r, i) # snd s)
           })
      })"

definition allConnected :: "mon_config \<Rightarrow> conn_state \<Rightarrow> bool" where
  "allConnected c st = list_all (\<lambda>i. connectedDBs st (connKey i) = Some True) (mc_Instances c)"

text \<open>The batches of databases handed to the worker pool in the ticks before the context is cancelled, and
  whether the loop has ended by itself.\<close>

primrec retryTicks :: "'g db_world \<Rightarrow> (db_error \<Rightarrow> int option) \<Rightarrow> mon_config \<Rightarrow> nat \<Rightarrow> conn_state \<Rightarrow>
    (db_call, conn_state \<times> database list list \<times> bool) prog" where
  "retryTicks w asHdb c 0 st = ret (st, [], False)"
| "retryTicks w asHdb c (Suc n) st = do {
     s \<leftarrow> connectToDatabases w asHdb c (mc_Instances c) st;
     if allConnected c (fst s) then ret (fst s, [snd s], True)
     else do {
       t \<leftarrow> retryTicks w asHdb c n (fst s);
       ret (fst t, snd s # fst (snd t), snd (snd t))
     }
   }"

definition createWorkerPool :: "'g db_world \<Rightarrow> (db_error \<Rightarrow> int option) \<Rightarrow> mon_config \<Rightarrow> nat \<Rightarrow>
    (db_call, conn_state \<times> database list list \<times> bool) prog" where
  "createWorkerPool w asHdb c n = do {
     s \<leftarrow> connectToDatabases w asHdb c (mc_Instances c)
           \<lparr>connectedDBs = fold (\<lambda>i m. m(connKey i \<mapsto> False)) (mc_Instances c) Map.empty, authErrorDBs = Map.empty\<rparr>;
     t \<leftarrow> retryTicks w asHdb c n (fst s);
     ret (fst t, snd s # fst (snd t), snd (snd t))
   }"

section \<open>Time series\<close>

datatype metric_kind = GAUGE | CUMULATIVE

datatype 'f point = IntPoint int | FloatPoint 'f | BoolPoint bool

type_synonym label_list = "(string \<times> string) list"

record 'f time_series =
  ts_Type :: string
  ts_Labels :: label_list
  ts_Kind :: metric_kind
  ts_StartTime :: "int option"
  ts_Time :: int
  ts_Point :: "'f point"

text \<open>The key of a series: its type, kind and labels; the sums so far with the time they started at.\<close>

type_synonym series_key = "string \<times> string \<times> string"

datatype 'f running_value = RunInt int | RunFloat 'f

type_synonym 'f running_sums = "series_key \<rightharpoonup> 'f running_value \<times> int"

text \<open>The arithmetic of floats is a parameter.\<close>

record 'f float_ops =
  addFloat :: "'f \<Rightarrow> 'f \<Rightarrow> 'f"
  zeroFloat :: 'f

definition metricURL :: string where
  "metricURL = ''workload.googleapis.com/sap/hanamonitoring''"

definition metricPath :: "string \<Rightarrow> mon_column \<Rightarrow> string" where
  "metricPath queryName c =
     (if NameOverride c \<noteq> [] then metricURL @ ''/'' @ NameOverride c else metricURL @ ''/'' @ queryName @ ''/'' @ col_Name c)"

definition prepareKey :: "string \<Rightarrow> string \<Rightarrow> label_list \<Rightarrow> series_key" where
  "prepareKey mtype mkind labels = (mtype, mkind, joinWith '','' (sort (map (\<lambda>(k, v). k @ '':'' @ v) labels)))"

definition addInt64 :: "int \<Rightarrow> int \<Rightarrow> int" where
  "addInt64 a b = sint (word_of_int a + word_of_int b :: 64 word)"

fun intOf :: "'f cell \<Rightarrow> int" where
  "intOf (VInt i) = i"
| "intOf _ = 0"

fun floatOf :: "'f float_ops \<Rightarrow> 'f cell \<Rightarrow> 'f" where
  "floatOf fl (VFloat f) = f"
| "floatOf fl _ = zeroFloat fl"

fun boolOf :: "'f cell \<Rightarrow> bool" where
  "boolOf (VBool b) = b"
| "boolOf _ = False"

definition createLabels :: "(mon_column \<times> 'f cell) list \<Rightarrow> label_list \<Rightarrow> label_list" where
  "createLabels cols labels =
     fold (\<lambda>(c, v) ls. if MetricType c = METRIC_LABEL
       then (case v of VString s \<Rightarrow> AList.update (col_Name c) s ls | _ \<Rightarrow> ls) else ls) cols labels"

definition createGaugeMetric :: "'f float_ops \<Rightarrow> mon_column \<Rightarrow> 'f cell \<Rightarrow> label_list \<Rightarrow> string \<Rightarrow> int \<Rightarrow> 'f time_series option" where
  "createGaugeMetric fl c v labels queryName now =
     (let build = (\<lambda>p. Some \<lparr>ts_Type = metricPath queryName c, ts_Labels = labels, ts_Kind = GAUGE, ts_StartTime = None,
            ts_Time = now, ts_Point = p\<rparr>)
      in case ValueType c of
           VALUE_INT64 \<Rightarrow> build (IntPoint (intOf v))
         | VALUE_DOUBLE \<Rightarrow> build (FloatPoint (floatOf fl v))
         | VALUE_BOOL \<Rightarrow> build (BoolPoint (boolOf v))
         | _ \<Rightarrow> None)"

text \<open>A sum of another type than the column's makes the type assertion panic: the result is \<open>Inl ()\<close>.\<close>

definition createCumulativeMetric :: "'f float_ops \<Rightarrow> mon_column \<Rightarrow> 'f cell \<Rightarrow> label_list \<Rightarrow> string \<Rightarrow> int \<Rightarrow> 'f running_sums \<Rightarrow>
    unit + 'f time_series option \<times> 'f running_sums" where
  "createCumulativeMetric fl c v labels queryName now sums =
     (let key = prepareKey (metricPath queryName c) ''CUMULATIVE'' labels;
          build = (\<lambda>start p. \<lparr>ts_Type = metricPath queryName c, ts_Labels = labels, ts_Kind = CUMULATIVE,
            ts_StartTime = Some start, ts_Time = now, ts_Point = p\<rparr>)
      in case ValueType c of
           VALUE_INT64 \<Rightarrow>
             (case sums key of
                None \<Rightarrow> Inr (None, sums(key \<mapsto> (RunInt (intOf v), now)))
              | Some (RunInt before, start) \<Rightarrow>
                  Inr (Some (build start (IntPoint (addInt64 (intOf v) before))), sums(key \<mapsto> (RunInt (addInt64 (intOf v) before), start)))
              | Some (RunFloat _, _) \<Rightarrow> Inl ())
         | VALUE_DOUBLE \<Rightarrow>
             (case sums key of
                None \<Rightarrow> Inr (None, sums(key \<mapsto> (RunFloat (floatOf fl v), now)))
              | Some (RunFloat before, start) \<Rightarrow>
                  Inr (Some (build start (FloatPoint (addFloat fl (floatOf fl v) before))),
                       sums(key \<mapsto> (RunFloat (addFloat fl (floatOf fl v) before), start)))
              | Some (RunInt _, _) \<Rightarrow> Inl ())
         | _ \<Rightarrow> Inr (None, sums))"

section \<open>Querying and sending\<close>

datatype 'f mon_call =
    ContextDone
  | ReplicationSite string string string
  | QuerySql database string
  | NowTime
  | SendTimeSeries "'f time_series list" string

datatype mon_error =
    NoColumnsSpecified
  | MonQueryFailed db_error
  | MonRowFailed row_error
  | SendFailed string

text \<open>
  \<open>driverRows\<close> is what the iteration over the rows of the driver yields; the rows of \<open>hdbsql\<close> are parsed by
  \<open>DatabaseConnector\<close>.
\<close>

record ('f, 'g) mon_world =
  contextDone :: "('f mon_call, bool) env"
  replicationSite :: "('f mon_call, int option) env"
  queried :: "('f mon_call, (db_error, 'g query_results) result) env"
  nowTime :: "('f mon_call, int) env"
  seriesSent :: "('f mon_call, string option) env"
  driverRows :: "'g \<Rightarrow> dest list \<Rightarrow> ('f cell list \<times> row_error option) list"
  floats :: "'f float_ops"
  parseFloat64 :: "string \<Rightarrow> 'f option"

definition iteratedRows :: "('f, 'g) mon_world \<Rightarrow> 'g query_results \<Rightarrow> dest list \<Rightarrow> ('f cell list \<times> row_error option) list" where
  "iteratedRows w qr dests =
     (case qr of
        GoRows g \<Rightarrow> driverRows w g dests
      | CmdRows rows i \<Rightarrow> cmd_pending (parseFloat64 w) (zeroFloat (floats w)) dests qr)"

definition matchQueryAndInstanceType :: "('f, 'g) mon_world \<Rightarrow> mon_instance \<Rightarrow> mon_query \<Rightarrow> ('f mon_call, bool) prog" where
  "matchQueryAndInstanceType w i q =
     (if \<not> IsLocal i then ret True
      else if InstanceNum i = [] then ret True
      else if mq_RunOn q = 0 then ret True
      else if mq_RunOn q = 3 then ret True
      else do {
        site \<leftarrow> call (replicationSite w) (ReplicationSite (toLower (mi_Sid i) @ ''adm'') (mi_Sid i) (InstanceNum i));
        ret (case site of None \<Rightarrow> False | Some s \<Rightarrow> s = mq_RunOn q)
      })"

definition columnDest :: "mon_column \<Rightarrow> dest" where
  "columnDest c =
     (case ValueType c of VALUE_INT64 \<Rightarrow> DInt64 | VALUE_DOUBLE \<Rightarrow> DFloat64 | VALUE_BOOL \<Rightarrow> DBool | VALUE_STRING \<Rightarrow> DString
      | _ \<Rightarrow> DAny)"

definition queryDatabase :: "('f, 'g) mon_world \<Rightarrow> database \<Rightarrow> mon_query \<Rightarrow>
    ('f mon_call, (mon_error, 'g query_results \<times> dest list) result) prog" where
  "queryDatabase w db q =
     (let cols = map columnDest (mq_Columns q)
      in if cols = [] then ret (Inl NoColumnsSpecified)
         else do {
           r \<leftarrow> call (queried w) (QuerySql db (mq_Sql q));
           ret (case r of Inl e \<Rightarrow> Inl (MonQueryFailed e) | Inr rows \<Rightarrow> Inr (rows, cols))
         })"

definition instanceLabels :: "mon_instance \<Rightarrow> label_list" where
  "instanceLabels i = [(''instance_name'', mi_Name i), (''sid'', mi_Sid i)]"

definition createQueryResponseTimeMetric :: "mon_instance \<Rightarrow> mon_query \<Rightarrow> int \<Rightarrow> int \<Rightarrow> 'f time_series" where
  "createQueryResponseTimeMetric i q timeTaken now =
     \<lparr>ts_Type = metricURL @ ''/'' @ mq_Name q @ ''/time_taken_ms'', ts_Labels = instanceLabels i, ts_Kind = GAUGE,
      ts_StartTime = None, ts_Time = now, ts_Point = IntPoint timeTaken\<rparr>"

text \<open>The columns of a row in order; \<open>Inl ()\<close> is a panic.\<close>

fun columnMetrics :: "('f, 'g) mon_world \<Rightarrow> mon_query \<Rightarrow> label_list \<Rightarrow> (mon_column \<times> 'f cell) list \<Rightarrow> 'f running_sums \<Rightarrow>
    ('f mon_call, unit + 'f time_series list \<times> 'f running_sums) prog" where
  "columnMetrics w q labels [] sums = ret (Inr ([], sums))"
| "columnMetrics w q labels ((c, v) # rest) sums =
     (if MetricType c = METRIC_GAUGE then do {
        now \<leftarrow> call (nowTime w) NowTime;
        bindE (columnMetrics w q labels rest sums) (\<lambda>r.
          ret (Inr (case createGaugeMetric (floats w) c v labels (mq_Name q) now of None \<Rightarrow> fst r | Some m \<Rightarrow> m # fst r, snd r)))
      }
      else if MetricType c = METRIC_CUMULATIVE then do {
        now \<leftarrow> call (nowTime w) NowTime;
        (case createCumulativeMetric (floats w) c v labels (mq_Name q) now sums of
           Inl p \<Rightarrow> ret (Inl p)
         | Inr (m, sums1) \<Rightarrow>
             bindE (columnMetrics w q labels rest sums1) (\<lambda>r.
               ret (Inr (case m of None \<Rightarrow> fst r | Some m \<Rightarrow> m # fst r, snd r))))
      }
      else columnMetrics w q labels rest sums)"

definition createMetricsForRow :: "('f, 'g) mon_world \<Rightarrow> mon_instance \<Rightarrow> mon_query \<Rightarrow> 'f cell list \<Rightarrow> 'f running_sums \<Rightarrow>
    ('f mon_call, unit + 'f time_series list \<times> 'f running_sums) prog" where
  "createMetricsForRow w i q vals sums =
     (let cols = zip (mq_Columns q) vals in columnMetrics w q (createLabels cols (instanceLabels i)) cols sums)"

text \<open>The outcome of the loop over the rows: a panic, or the error that ended it and the series so far.\<close>

fun rowLoop :: "('f, 'g) mon_world \<Rightarrow> mon_instance \<Rightarrow> mon_query \<Rightarrow> ('f cell list \<times> row_error option) list \<Rightarrow>
    'f time_series list \<Rightarrow> 'f running_sums \<Rightarrow> ('f mon_call, unit + row_error option \<times> 'f time_series list \<times> 'f running_sums) prog" where
  "rowLoop w i q [] metrics sums = ret (Inr (None, metrics, sums))"
| "rowLoop w i q ((vals, err) # rows) metrics sums =
     (if err \<noteq> None then ret (Inr (err, metrics, sums))
      else bindE (createMetricsForRow w i q vals sums) (\<lambda>r. rowLoop w i q rows (metrics @ fst r) (snd r)))"

definition queryAndSendOnce :: "('f, 'g) mon_world \<Rightarrow> mon_config \<Rightarrow> database \<Rightarrow> mon_query \<Rightarrow> 'f running_sums \<Rightarrow>
    ('f mon_call, unit + mon_error option \<times> 'f running_sums) prog" where
  "queryAndSendOnce w c db q sums = do {
     runs \<leftarrow> matchQueryAndInstanceType w (snd db) q;
     if \<not> runs then ret (Inr (None, sums))
     else do {
       t0 \<leftarrow> call (nowTime w) NowTime;
       r \<leftarrow> queryDatabase w db q;
       t1 \<leftarrow> call (nowTime w) NowTime;
       (case r of
          Inl e \<Rightarrow> ret (Inr (Some e, sums))
        | Inr (rows, dests) \<Rightarrow> do {
            first \<leftarrow> (if SendQueryResponseTime c
               then do { now \<leftarrow> call (nowTime w) NowTime; ret [createQueryResponseTimeMetric (snd db) q (t1 - t0) now] }
               else ret []);
            bindE (rowLoop w (snd db) q (iteratedRows w rows dests) first sums) (\<lambda>(err, metrics, sums1).
              case err of
                Some e \<Rightarrow> ret (Inr (Some (MonRowFailed e), sums1))
              | None \<Rightarrow> do {
                  s \<leftarrow> call (seriesSent w) (SendTimeSeries metrics (mc_Project c));
                  ret (Inr (map_option SendFailed s, sums1))
                })
          })
     }
   }"

section \<open>Jobs\<close>

record mon_job =
  job_db :: database
  job_query :: mon_query
  job_interval :: int

definition queryMap :: "mon_query list \<Rightarrow> (string \<rightharpoonup> mon_query)" where
  "queryMap qs = fold (\<lambda>q m. m(mq_Name q \<mapsto> q)) qs Map.empty"

definition sidQuery :: string where
  "sidQuery = ''SELECT SYSTEM_ID AS sid FROM M_DATABASE LIMIT 1;''"

definition fetchSID :: "('f, 'g) mon_world \<Rightarrow> ('g \<Rightarrow> 'g \<times> bool) \<Rightarrow> ('g \<Rightarrow> dest list \<Rightarrow> 'f cell list \<times> row_error option) \<Rightarrow>
    database \<Rightarrow> ('f mon_call, string option) prog" where
  "fetchSID w goNext goScan db = do {
     r \<leftarrow> call (queried w) (QuerySql db sidQuery);
     ret (case r of
            Inl _ \<Rightarrow> None
          | Inr rows \<Rightarrow>
              (case ReadRow (parseFloat64 w) (zeroFloat (floats w)) goScan (fst (Next goNext rows)) [DString] of
                 (vals, err) \<Rightarrow> if err \<noteq> None then None else case vals of VString sid # _ \<Rightarrow> Some sid | _ \<Rightarrow> Some []))
   }"

text \<open>\<open>names\<close> are the names of the queries in the order of the iteration over the map.\<close>

definition chooseQueries :: "string list \<Rightarrow> mon_instance \<Rightarrow> mon_instance" where
  "chooseQueries names i =
     (case QueriesToRun i of
        None \<Rightarrow> i\<lparr>QueriesToRun := Some \<lparr>RunAll = True, QueryNames = names\<rparr>\<rparr>
      | Some r \<Rightarrow> if RunAll r \<or> length (QueryNames r) = 0 then i\<lparr>QueriesToRun := Some (r\<lparr>QueryNames := names\<rparr>)\<rparr> else i)"

definition jobsOf :: "mon_config \<Rightarrow> database \<Rightarrow> mon_job list" where
  "jobsOf c db =
     (case QueriesToRun (snd db) of
        None \<Rightarrow> []
      | Some r \<Rightarrow> map (\<lambda>q. \<lparr>job_db = db, job_query = q, job_interval =
             (if mq_SampleIntervalSec q \<ge> 5 then mq_SampleIntervalSec q else mc_SampleIntervalSec c)\<rparr>)
           (List.map_filter (queryMap (mc_Queries c)) (QueryNames r)))"

primrec submitQueriesToWorkerPool :: "('f, 'g) mon_world \<Rightarrow> ('g \<Rightarrow> 'g \<times> bool) \<Rightarrow> ('g \<Rightarrow> dest list \<Rightarrow> 'f cell list \<times> row_error option) \<Rightarrow>
    mon_config \<Rightarrow> string list \<Rightarrow> database list \<Rightarrow> ('f mon_call, mon_job list) prog" where
  "submitQueriesToWorkerPool w goNext goScan c names [] = ret []"
| "submitQueriesToWorkerPool w goNext goScan c names (db # dbs) = do {
     i \<leftarrow> (if mi_Sid (snd db) = [] then do {
             sid \<leftarrow> fetchSID w goNext goScan db;
             ret ((snd db)\<lparr>mi_Sid := (case sid of None \<Rightarrow> [] | Some s \<Rightarrow> s)\<rparr>)
           } else ret (snd db));
     rest \<leftarrow> submitQueriesToWorkerPool w goNext goScan c names dbs;
     ret (jobsOf c (fst db, chooseQueries names i) @ rest)
   }"

text \<open>One run of a job: how it ends, with the number of failures in a row and the sums.\<close>

datatype run_end = Cancelled | Stopped mon_error | Requeued "mon_error option" | Panicked

definition queryAndSend :: "('f, 'g) mon_world \<Rightarrow> (mon_error \<Rightarrow> int option) \<Rightarrow> mon_config \<Rightarrow> mon_job \<Rightarrow> nat \<Rightarrow> 'f running_sums \<Rightarrow>
    ('f mon_call, run_end \<times> nat \<times> 'f running_sums) prog" where
  "queryAndSend w asHdb c job failCount sums = do {
     cancelled \<leftarrow> call (contextDone w) ContextDone;
     if cancelled then ret (Cancelled, failCount, sums)
     else do {
       r \<leftarrow> queryAndSendOnce w c (job_db job) (job_query job) sums;
       ret (case r of
              Inl _ \<Rightarrow> (Panicked, failCount, sums)
            | Inr (err, sums1) \<Rightarrow>
                (let failCount1 = (if err \<noteq> None then failCount + 1 else 0)
                 in if IsAuthError asHdb err then (Stopped (the err), failCount1, sums1)
                    else (Requeued err, failCount1, sums1)))
     }
   }"

text \<open>The runs of a job, at most \<open>n\<close>; a job that is not requeued does not run again.\<close>

primrec jobRuns :: "('f, 'g) mon_world \<Rightarrow> (mon_error \<Rightarrow> int option) \<Rightarrow> mon_config \<Rightarrow> mon_job \<Rightarrow> nat \<Rightarrow> nat \<Rightarrow> 'f running_sums \<Rightarrow>
    ('f mon_call, run_end list) prog" where
  "jobRuns w asHdb c job 0 failCount sums = ret []"
| "jobRuns w asHdb c job (Suc n) failCount sums = do {
     r \<leftarrow> queryAndSend w asHdb c job failCount sums;
     (case r of
        (Requeued e, failCount1, sums1) \<Rightarrow> do {
          rest \<leftarrow> jobRuns w asHdb c job n failCount1 sums1;
          ret (Requeued e # rest)
        }
      | (ending, _, _) \<Rightarrow> ret [ending])
   }"

end
