(* ===== verification/MonitoringRuns.thy ===== *)
theory MonitoringRuns
  imports HanaMonitoring
begin

text \<open>
  What HANA monitoring guarantees: every connection key is handed to the worker pool at most once, the series and sums
  of cumulative columns, the absence of panics and the end of the jobs; and where it fails: databases that share a
  key, labels that share a key and columns that share a name.
\<close>

section \<open>Connections\<close>

definition handedKeys :: "database list \<Rightarrow> string list" where
  "handedKeys dbs = map (\<lambda>d. connKey (snd d)) dbs"

lemma handedKeys_simps [simp]: "handedKeys [] = []" "handedKeys (d # ds) = connKey (snd d) # handedKeys ds"
  "handedKeys (ds @ es) = handedKeys ds @ handedKeys es"
  by (simp_all add: handedKeys_def)

text \<open>The keys handed out so far are those marked as connected, each once, and none had wrong credentials.\<close>

definition handedOnce :: "conn_state \<Rightarrow> string list \<Rightarrow> bool" where
  "handedOnce st ks \<longleftrightarrow> distinct ks \<and> set ks = {k. connectedDBs st k = Some True} \<and> (\<forall>k \<in> set ks. authErrorDBs st k = None)"

lemma handedOnce_auth:
  "handedOnce st ks \<Longrightarrow> connectedDBs st k \<noteq> Some True \<Longrightarrow> handedOnce (st\<lparr>authErrorDBs := (authErrorDBs st)(k \<mapsto> True)\<rparr>) ks"
  by (auto simp: handedOnce_def)

lemma handedOnce_connected:
  "handedOnce st ks \<Longrightarrow> connectedDBs st k \<noteq> Some True \<Longrightarrow> authErrorDBs st k = None \<Longrightarrow>
     handedOnce (st\<lparr>connectedDBs := (connectedDBs st)(k \<mapsto> True)\<rparr>) (ks @ [k])"
  by (auto simp: handedOnce_def)

lemma connect_wp:
  "handedOnce st ks \<Longrightarrow>
     wp (connectToDatabases w asHdb c is st) (\<lambda>r _. handedOnce (fst r) (ks @ handedKeys (snd r))) log"
proof (induction "is" arbitrary: st ks log)
  case Nil
  then show ?case
    by (simp add: wp_return)
next
  case (Cons i "is")
  show ?case
  proof (cases "connectedDBs st (connKey i) = Some True \<or> authErrorDBs st (connKey i) \<noteq> None")
    case True
    then show ?thesis
      using Cons.IH[OF Cons.prems] by auto
  next
    case False
    have failed: "wp (connectToDatabases w asHdb c is
        (if a then st\<lparr>authErrorDBs := (authErrorDBs st)(connKey i \<mapsto> True)\<rparr> else st))
        (\<lambda>r _. handedOnce (fst r) (ks @ handedKeys (snd r))) log" for a log
      using Cons.IH Cons.prems handedOnce_auth False by simp
    have connected: "wp (State_Monad.bind (connectToDatabases w asHdb c is (st\<lparr>connectedDBs := (connectedDBs st)(connKey i \<mapsto> True)\<rparr>))
        (\<lambda>s. ret (fst s, (h, i) # snd s))) (\<lambda>r _. handedOnce (fst r) (ks @ handedKeys (snd r))) log" for h log
    proof -
      have "handedOnce (st\<lparr>connectedDBs := (connectedDBs st)(connKey i \<mapsto> True)\<rparr>) (ks @ [connKey i])"
        using handedOnce_connected[OF Cons.prems] False by simp
      then show ?thesis
        unfolding wp_bind by (rule wp_mono[OF Cons.IH]) (simp add: wp_return)
    qed
    show ?thesis
      using False by (simp del: fun_upd_apply) (intro conjI impI wp_any, simp split: option.split add: failed connected)
  qed
qed

lemma retryTicks_wp:
  "handedOnce st ks \<Longrightarrow>
     wp (retryTicks w asHdb c n st)
       (\<lambda>r _. handedOnce (fst r) (ks @ handedKeys (concat (fst (snd r)))) \<and> (snd (snd r) \<longrightarrow> allConnected c (fst r))) log"
proof (induction n arbitrary: st ks log)
  case 0
  then show ?case
    by (simp add: wp_return)
next
  case (Suc n)
  show ?case
    unfolding retryTicks.simps wp_bind
  proof (rule wp_mono[OF connect_wp[OF Suc.prems]])
    fix s log'
    assume s: "handedOnce (fst s) (ks @ handedKeys (snd s))"
    have "wp (retryTicks w asHdb c n (fst s)) (\<lambda>t. wp (ret (fst t, snd s # fst (snd t), snd (snd t)))
        (\<lambda>r _. handedOnce (fst r) (ks @ handedKeys (concat (fst (snd r)))) \<and> (snd (snd r) \<longrightarrow> allConnected c (fst r)))) log'"
      by (rule wp_mono[OF Suc.IH[OF s]]) (simp add: wp_return)
    then show "wp (if allConnected c (fst s) then ret (fst s, [snd s], True)
        else State_Monad.bind (retryTicks w asHdb c n (fst s)) (\<lambda>t. ret (fst t, snd s # fst (snd t), snd (snd t))))
        (\<lambda>r _. handedOnce (fst r) (ks @ handedKeys (concat (fst (snd r)))) \<and> (snd (snd r) \<longrightarrow> allConnected c (fst r))) log'"
      using s by (simp add: wp_return wp_bind)
  qed
qed

lemma initially_none: "handedOnce \<lparr>connectedDBs = fold (\<lambda>i m. m(connKey i \<mapsto> False)) is Map.empty, authErrorDBs = Map.empty\<rparr> []"
proof -
  have "fold (\<lambda>i m. m(connKey i \<mapsto> False)) is m k \<noteq> Some True" if "m k \<noteq> Some True" for m k
    using that by (induction "is" arbitrary: m) auto
  then show ?thesis
    by (simp add: handedOnce_def)
qed

text \<open>C24. Databases are told apart by their key of host, user and port. Over the whole run no key is handed to the
  worker pool twice, no key whose credentials were refused is handed to it, and when the loop ends by itself the key of
  every configured database was handed to it. Databases that share a key count as one, as \<open>second_store_instance_dropped\<close>
  shows for two with keys of the user store.\<close>

theorem databases_handed_once:
  "wp (createWorkerPool w asHdb c n)
     (\<lambda>(st, batches, done) _.
        distinct (handedKeys (concat batches))
        \<and> set (handedKeys (concat batches)) = {k. connectedDBs st k = Some True}
        \<and> (\<forall>k \<in> set (handedKeys (concat batches)). authErrorDBs st k = None)
        \<and> (done \<longrightarrow> connKey ` set (mc_Instances c) \<subseteq> set (handedKeys (concat batches)))) log"
proof -
  have ready: "wp (retryTicks w asHdb c n (fst s)) (\<lambda>t. wp (ret (fst t, snd s # fst (snd t), snd (snd t)))
      (\<lambda>r _. handedOnce (fst r) (handedKeys (concat (fst (snd r)))) \<and> (snd (snd r) \<longrightarrow> allConnected c (fst r)))) log'"
    if "handedOnce (fst s) ([] @ handedKeys (snd s))" for s log'
    by (rule wp_mono[OF retryTicks_wp[OF that]]) (simp add: wp_return)
  have "wp (createWorkerPool w asHdb c n)
     (\<lambda>r _. handedOnce (fst r) (handedKeys (concat (fst (snd r)))) \<and> (snd (snd r) \<longrightarrow> allConnected c (fst r))) log"
    unfolding createWorkerPool_def wp_bind by (rule wp_mono[OF connect_wp[OF initially_none]]) (rule ready)
  then show ?thesis
    by (rule wp_mono) (auto simp: handedOnce_def allConnected_def list_all_iff)
qed

definition storeInstance :: "string \<Rightarrow> string \<Rightarrow> mon_instance" where
  "storeInstance name sid = \<lparr>mi_Name = name, mi_Sid = sid, mi_Host = [], mi_Port = [], mi_User = [], mi_Password = [],
     mi_SecretName = [], mi_EnableSsl = False, mi_HostNameInCertificate = [], mi_TlsRootCaFile = [],
     mi_HdbuserstoreKey = ''KEY'', QueriesToRun = None, IsLocal = False, InstanceNum = []\<rparr>"

definition monConfig :: "mon_instance list \<Rightarrow> mon_config" where
  "monConfig is = \<lparr>mc_Enabled = True, mc_SampleIntervalSec = 300, mc_QueryTimeoutSec = 300, mc_ExecutionThreads = 10,
     mc_Instances = is, mc_Queries = [], SendQueryResponseTime = False, mc_ConnectionTimeout = None,
     mc_MaxConnectRetries = None, mc_Project = []\<rparr>"

text \<open>A run with one instance ends at the first tick, with the instance handed out in the first batch.\<close>

lemma one_instance_run:
  "run_state (createWorkerPool w asHdb (monConfig [storeInstance ''a'' ''AAA'']) 1) log =
     ((\<lparr>connectedDBs = [''::'' \<mapsto> True], authErrorDBs = Map.empty\<rparr>,
       [[(Some (CmdHandle \<lparr>SIDAdmUser = toLower ''AAA'' @ ''adm'', HDBUserKey = ''KEY'', EnableSSL = False, HostNameInCert = [],
           RootCAFile = []\<rparr>), storeInstance ''a'' ''AAA'')], []], True), log)"
  by (simp add: createWorkerPool_def monConfig_def storeInstance_def connKey_def CreateDBHandle_def dbParams_def
      NewCMDDBHandle_def allConnected_def)

theorem databases_handed_once_witness:
  "connKey ` set (mc_Instances (monConfig [storeInstance ''a'' ''AAA''])) \<subseteq> {''::''}
   \<and> set (handedKeys (concat (fst (snd (fst (run_state (createWorkerPool sampleWorld (\<lambda>_. None) (monConfig [storeInstance ''a'' ''AAA'']) 1) [])))))) = {''::''}"
  using databases_handed_once[of sampleWorld "\<lambda>_. None" "monConfig [storeInstance ''a'' ''AAA'']" 1 "[]"]
  unfolding wp_def one_instance_run by (simp add: monConfig_def storeInstance_def connKey_def)

text \<open>Two instances with keys of the user store have the same key, so the second is never connected.\<close>

lemma second_store_instance_dropped:
  "map (map (\<lambda>d. mi_Name (snd d))) (fst (snd (fst (run_state
     (createWorkerPool w asHdb (monConfig [storeInstance ''a'' ''AAA'', storeInstance ''b'' ''BBB'']) 1) [])))) = [[''a''], []]"
  by (simp add: createWorkerPool_def monConfig_def storeInstance_def connKey_def CreateDBHandle_def dbParams_def
      NewCMDDBHandle_def allConnected_def)

section \<open>Cumulative metrics\<close>

text \<open>The cumulative values of a row, with the key of their series: columns of other value types count for nothing.\<close>

definition cumulativeCells :: "'f float_ops \<Rightarrow> mon_query \<Rightarrow> label_list \<Rightarrow> (mon_column \<times> 'f cell) list \<Rightarrow> (series_key \<times> 'f running_value) list" where
  "cumulativeCells fl q labels cvs = concat (map (\<lambda>(c, v).
     if MetricType c = METRIC_CUMULATIVE
     then (case ValueType c of
             VALUE_INT64 \<Rightarrow> [(prepareKey (metricPath (mq_Name q) c) ''CUMULATIVE'' labels, RunInt (intOf v))]
           | VALUE_DOUBLE \<Rightarrow> [(prepareKey (metricPath (mq_Name q) c) ''CUMULATIVE'' labels, RunFloat (floatOf fl v))]
           | _ \<Rightarrow> [])
     else []) cvs)"

definition rowCells :: "'f float_ops \<Rightarrow> mon_query \<Rightarrow> mon_instance \<Rightarrow> 'f cell list \<Rightarrow> (series_key \<times> 'f running_value) list" where
  "rowCells fl q i vals =
     (let cols = zip (mq_Columns q) vals in cumulativeCells fl q (createLabels cols (instanceLabels i)) cols)"

text \<open>The rows that are read: those before the first that fails.\<close>

definition rowsRead :: "('f cell list \<times> row_error option) list \<Rightarrow> 'f cell list list" where
  "rowsRead rows = map fst (takeWhile (\<lambda>r. snd r = None) rows)"

text \<open>A history: the values with the time at which each was seen. \<open>sumsOf\<close> is the sum of the values of a series and the
  time of its first value; integers wrap around at 64 bits.\<close>

type_synonym 'f history = "(series_key \<times> 'f running_value \<times> int) list"

fun addRun :: "'f float_ops \<Rightarrow> 'f running_value \<Rightarrow> 'f running_value \<Rightarrow> 'f running_value" where
  "addRun fl (RunInt a) (RunInt b) = RunInt (sint (word_of_int (b + a) :: 64 word))"
| "addRun fl (RunFloat x) (RunFloat y) = RunFloat (addFloat fl y x)"
| "addRun fl x y = x"

definition valuesOf :: "series_key \<Rightarrow> 'f history \<Rightarrow> ('f running_value \<times> int) list" where
  "valuesOf k h = map snd (filter (\<lambda>x. fst x = k) h)"

definition sumsOf :: "'f float_ops \<Rightarrow> 'f history \<Rightarrow> 'f running_sums" where
  "sumsOf fl h k = (case valuesOf k h of
      [] \<Rightarrow> None
    | (v, t) # rest \<Rightarrow> Some (fold (\<lambda>(x, _) acc. addRun fl acc x) rest v, t))"

fun pointOf :: "'f running_value \<Rightarrow> 'f point" where
  "pointOf (RunInt i) = IntPoint i"
| "pointOf (RunFloat x) = FloatPoint x"

text \<open>The series for new values after a history: none for the first value of a key; for each later one the sum up to it,
  the time of the first value and its own time.\<close>

fun seriesFor :: "'f float_ops \<Rightarrow> 'f history \<Rightarrow> 'f history \<Rightarrow> (series_key \<times> 'f point \<times> int option \<times> int) list" where
  "seriesFor fl h [] = []"
| "seriesFor fl h ((k, v, t) # new) =
     (if valuesOf k h = [] then []
      else (case sumsOf fl (h @ [(k, v, t)]) k of None \<Rightarrow> [] | Some (acc, start) \<Rightarrow> [(k, pointOf acc, Some start, t)]))
     @ seriesFor fl (h @ [(k, v, t)]) new"

definition describe :: "'f time_series \<Rightarrow> series_key \<times> 'f point \<times> int option \<times> int" where
  "describe m = (prepareKey (ts_Type m) ''CUMULATIVE'' (ts_Labels m), ts_Point m, ts_StartTime m, ts_Time m)"

definition cumulativeOf :: "'f time_series list \<Rightarrow> (series_key \<times> 'f point \<times> int option \<times> int) list" where
  "cumulativeOf ms = map describe (filter (\<lambda>m. ts_Kind m = CUMULATIVE) ms)"

lemma cumulativeOf_simps [simp]:
  "cumulativeOf [] = []" "cumulativeOf (xs @ ys) = cumulativeOf xs @ cumulativeOf ys"
  "cumulativeOf (m # ms) = (if ts_Kind m = CUMULATIVE then [describe m] else []) @ cumulativeOf ms"
  by (simp_all add: cumulativeOf_def)

lemma sumsOf_none: "sumsOf fl h k = None \<longleftrightarrow> valuesOf k h = []"
  by (auto simp: sumsOf_def split: list.splits)

lemma sumsOf_snoc:
  "sumsOf fl (h @ [(k, v, t)]) =
     (sumsOf fl h)(k \<mapsto> (case sumsOf fl h k of None \<Rightarrow> (v, t) | Some (acc, start) \<Rightarrow> (addRun fl acc v, start)))"
  by (rule ext) (auto simp: sumsOf_def valuesOf_def split: list.splits)

lemma sumsOf_empty: "sumsOf fl [] = Map.empty"
  by (rule ext) (simp add: sumsOf_def valuesOf_def)

lemma seriesFor_append: "seriesFor fl h (xs @ ys) = seriesFor fl h xs @ seriesFor fl (h @ xs) ys"
  by (induction fl h xs rule: seriesFor.induct) simp_all

lemma addInt64_sum: "addInt64 b a = sint (word_of_int (b + a) :: 64 word)"
  by (simp add: addInt64_def)

definition requestsColumn :: mon_column where
  "requestsColumn = \<lparr>col_Name = ''requests'', MetricType = METRIC_CUMULATIVE, ValueType = VALUE_INT64, NameOverride = []\<rparr>"

definition unitFloats :: "unit float_ops" where
  "unitFloats = \<lparr>addFloat = (\<lambda>_ _. ()), zeroFloat = ()\<rparr>"

text \<open>Different labels can share a key: the separators also occur in values.\<close>

lemma different_labels_share_key:
  "prepareKey t k [(''a'', ''1,b:2''), (''b'', ''3'')] = prepareKey t k [(''a'', ''1''), (''b'', ''2,b:3'')]"
  by (simp add: prepareKey_def)

section \<open>Jobs\<close>

text \<open>Cumulative columns that report under the same name have the same type.\<close>

definition consistentColumns :: "mon_query \<Rightarrow> bool" where
  "consistentColumns q \<longleftrightarrow> (\<forall>c \<in> set (mq_Columns q). \<forall>d \<in> set (mq_Columns q).
     MetricType c = METRIC_CUMULATIVE \<and> MetricType d = METRIC_CUMULATIVE \<and> metricPath (mq_Name q) c = metricPath (mq_Name q) d
       \<longrightarrow> ValueType c = ValueType d)"

fun fitsColumn :: "mon_column \<Rightarrow> 'f running_value \<Rightarrow> bool" where
  "fitsColumn c (RunInt _) = (ValueType c \<noteq> VALUE_DOUBLE)"
| "fitsColumn c (RunFloat _) = (ValueType c \<noteq> VALUE_INT64)"

definition typedSums :: "mon_query \<Rightarrow> 'f running_sums \<Rightarrow> bool" where
  "typedSums q sums \<longleftrightarrow> (\<forall>c \<in> set (mq_Columns q). MetricType c = METRIC_CUMULATIVE \<longrightarrow>
     (\<forall>labels v t. sums (prepareKey (metricPath (mq_Name q) c) ''CUMULATIVE'' labels) = Some (v, t) \<longrightarrow> fitsColumn c v))"

lemma prepareKey_path: "prepareKey p k l = prepareKey p' k' l' \<Longrightarrow> p = p'"
  by (simp add: prepareKey_def)

lemma typedSums_upd:
  assumes "typedSums q sums" "consistentColumns q" "c \<in> set (mq_Columns q)" "MetricType c = METRIC_CUMULATIVE"
    "\<And>d. ValueType d = ValueType c \<Longrightarrow> fitsColumn d v"
  shows "typedSums q (sums(prepareKey (metricPath (mq_Name q) c) ''CUMULATIVE'' labels \<mapsto> (v, t)))"
  unfolding typedSums_def
proof (intro ballI impI allI)
  fix d labels' v' t'
  assume d: "d \<in> set (mq_Columns q)" "MetricType d = METRIC_CUMULATIVE"
    and found: "(sums(prepareKey (metricPath (mq_Name q) c) ''CUMULATIVE'' labels \<mapsto> (v, t)))
        (prepareKey (metricPath (mq_Name q) d) ''CUMULATIVE'' labels') = Some (v', t')"
  show "fitsColumn d v'"
  proof (cases "prepareKey (metricPath (mq_Name q) c) ''CUMULATIVE'' labels = prepareKey (metricPath (mq_Name q) d) ''CUMULATIVE'' labels'")
    case True
    then have "ValueType d = ValueType c"
      using assms(2-4) d prepareKey_path unfolding consistentColumns_def by metis
    then show ?thesis
      using assms(5) found True by simp
  next
    case False
    then show ?thesis
      using assms(1) d found by (auto simp: typedSums_def)
  qed
qed

lemma cumulative_typed:
  assumes "typedSums q sums" "consistentColumns q" "c \<in> set (mq_Columns q)" "MetricType c = METRIC_CUMULATIVE"
  shows "\<exists>m sums1. createCumulativeMetric fl c v labels (mq_Name q) now sums = Inr (m, sums1) \<and> typedSums q sums1"
proof -
  let ?key = "prepareKey (metricPath (mq_Name q) c) ''CUMULATIVE'' labels"
  have upd: "typedSums q (sums(?key \<mapsto> (x, t)))" if "\<And>d. ValueType d = ValueType c \<Longrightarrow> fitsColumn d x" for x t
    using typedSums_upd assms that by blast
  have old: "fitsColumn c x" if "sums ?key = Some (x, t)" for x t
    using assms that unfolding typedSums_def by blast
  show ?thesis
  proof (cases "sums ?key")
    case None
    then show ?thesis
      using upd assms(1) by (cases "ValueType c") (simp_all add: createCumulativeMetric_def Let_def)
  next
    case (Some xt)
    obtain x t where xt: "xt = (x, t)"
      by fastforce
    show ?thesis
      using old[OF Some[unfolded xt]] upd assms(1) Some
      by (cases x; cases "ValueType c") (simp_all add: createCumulativeMetric_def Let_def xt)
  qed
qed

text \<open>One value: the sum grows by it and the series is built from the sum.\<close>

lemma cumulative_step:
  assumes "typedSums q (sumsOf fl h)" "consistentColumns q" "c \<in> set (mq_Columns q)" "MetricType c = METRIC_CUMULATIVE"
  shows "\<exists>m new. createCumulativeMetric fl c v labels (mq_Name q) now (sumsOf fl h) = Inr (m, sumsOf fl (h @ new)) \<and>
     typedSums q (sumsOf fl (h @ new)) \<and> map (\<lambda>(k, x, t). (k, x)) new = cumulativeCells fl q labels [(c, v)] \<and>
     cumulativeOf (case m of None \<Rightarrow> [] | Some m \<Rightarrow> [m]) = seriesFor fl h new"
proof -
  let ?key = "prepareKey (metricPath (mq_Name q) c) ''CUMULATIVE'' labels"
  obtain m sums1 where built: "createCumulativeMetric fl c v labels (mq_Name q) now (sumsOf fl h) = Inr (m, sums1)" "typedSums q sums1"
    using cumulative_typed[OF assms] by blast
  have old: "fitsColumn c x" if "sumsOf fl h ?key = Some (x, t)" for x t
    using assms that unfolding typedSums_def by blast
  let ?new = "case ValueType c of VALUE_INT64 \<Rightarrow> [(?key, RunInt (intOf v), now)] | VALUE_DOUBLE \<Rightarrow> [(?key, RunFloat (floatOf fl v), now)] | _ \<Rightarrow> []"
  have "sums1 = sumsOf fl (h @ ?new) \<and> map (\<lambda>(k, x, t). (k, x)) ?new = cumulativeCells fl q labels [(c, v)] \<and>
     cumulativeOf (case m of None \<Rightarrow> [] | Some m \<Rightarrow> [m]) = seriesFor fl h ?new"
  proof (cases "sumsOf fl h ?key")
    case None
    then show ?thesis
      using built(1) assms(4) sumsOf_none[of fl h ?key]
      by (cases "ValueType c") (auto simp: createCumulativeMetric_def Let_def cumulativeCells_def sumsOf_snoc)
  next
    case (Some xt)
    obtain x t where xt: "xt = (x, t)"
      by fastforce
    have "valuesOf ?key h \<noteq> []"
      using Some sumsOf_none[of fl h ?key] by simp
    then show ?thesis
      using built(1) assms(4) Some old[OF Some[unfolded xt]]
      by (cases x; cases "ValueType c")
        (auto simp: createCumulativeMetric_def Let_def cumulativeCells_def sumsOf_snoc xt describe_def addInt64_sum)
  qed
  with built show ?thesis by blast
qed

lemma gauge_not_cumulative: "createGaugeMetric fl c v labels n now = Some m \<Longrightarrow> ts_Kind m = GAUGE"
  by (auto simp: createGaugeMetric_def Let_def split: value_type.splits)

definition summed :: "'f float_ops \<Rightarrow> mon_query \<Rightarrow> 'f history \<Rightarrow> (series_key \<times> 'f running_value) list \<Rightarrow> 'f time_series list \<Rightarrow> 'f running_sums \<Rightarrow> bool" where
  "summed fl q h cells built sums \<longleftrightarrow> (\<exists>new. map (\<lambda>(k, x, t). (k, x)) new = cells \<and> sums = sumsOf fl (h @ new) \<and> typedSums q sums \<and>
     cumulativeOf built = seriesFor fl h new)"

lemma summed_trans:
  assumes "summed fl q h cells built sums"
  obtains h' where "sums = sumsOf fl h'" "typedSums q sums"
    "\<And>cells' built' sums'. summed fl q h' cells' built' sums' \<Longrightarrow> summed fl q h (cells @ cells') (built @ built') sums'"
proof -
  obtain new where new: "map (\<lambda>(k, x, t). (k, x)) new = cells" "sums = sumsOf fl (h @ new)" "typedSums q sums"
      "cumulativeOf built = seriesFor fl h new"
    using assms unfolding summed_def by blast
  have "summed fl q h (cells @ cells') (built @ built') sums'" if further: "summed fl q (h @ new) cells' built' sums'" for cells' built' sums'
  proof -
    obtain new' where "map (\<lambda>(k, x, t). (k, x)) new' = cells'" "sums' = sumsOf fl ((h @ new) @ new')" "typedSums q sums'"
        "cumulativeOf built' = seriesFor fl (h @ new) new'"
      using further unfolding summed_def by blast
    with new show ?thesis
      unfolding summed_def by (intro exI[of _ "new @ new'"]) (simp add: seriesFor_append)
  qed
  with new that show thesis by blast
qed

lemma summed_nothing: "typedSums q (sumsOf fl h) \<Longrightarrow> cumulativeOf built = [] \<Longrightarrow> summed fl q h [] built (sumsOf fl h)"
  unfolding summed_def by (intro exI[of _ "[]"]) simp

lemma cells_Cons: "cumulativeCells fl q labels (cv # cvs) = cumulativeCells fl q labels [cv] @ cumulativeCells fl q labels cvs"
  by (simp add: cumulativeCells_def)

lemma columnMetrics_summed:
  assumes "consistentColumns q"
  shows "typedSums q (sumsOf (floats w) h) \<Longrightarrow> fst ` set cvs \<subseteq> set (mq_Columns q) \<Longrightarrow>
    wp (columnMetrics w q labels cvs (sumsOf (floats w) h))
      (\<lambda>r _. \<exists>ms sums. r = Inr (ms, sums) \<and> summed (floats w) q h (cumulativeCells (floats w) q labels cvs) ms sums) log"
proof (induction cvs arbitrary: h log)
  case Nil
  then show ?case
    by (simp add: wp_return cumulativeCells_def summed_nothing)
next
  case (Cons cv cvs)
  obtain c v where cv: "cv = (c, v)"
    by fastforce
  let ?fl = "floats w"
  let ?Q = "\<lambda>r (_ :: 'a mon_call list). \<exists>ms sums. r = Inr (ms, sums) \<and>
    summed ?fl q h (cumulativeCells ?fl q labels [(c, v)] @ cumulativeCells ?fl q labels cvs) ms sums"
  have rest: "wp (bindE (columnMetrics w q labels cvs sums1) (\<lambda>r. ret (Inr (built @ fst r, snd r)))) ?Q log'"
    if one: "summed ?fl q h (cumulativeCells ?fl q labels [(c, v)]) built sums1" for built sums1 log'
  proof (rule summed_trans[OF one])
    fix h'
    assume h': "sums1 = sumsOf ?fl h'" "typedSums q sums1"
      and trans: "\<And>cells' built' sums'. summed ?fl q h' cells' built' sums' \<Longrightarrow>
        summed ?fl q h (cumulativeCells ?fl q labels [(c, v)] @ cells') (built @ built') sums'"
    have "wp (columnMetrics w q labels cvs sums1)
        (\<lambda>r _. \<exists>ms sums. r = Inr (ms, sums) \<and> summed ?fl q h' (cumulativeCells ?fl q labels cvs) ms sums) log'"
      using Cons.IH[of h' log'] Cons.prems(2) h' by simp
    then show ?thesis
      unfolding wp_bindE by (rule wp_mono) (auto simp: wp_return intro: trans)
  qed
  have other: "summed ?fl q h (cumulativeCells ?fl q labels [(c, v)]) built (sumsOf ?fl h)"
    if "MetricType c \<noteq> METRIC_CUMULATIVE" "cumulativeOf built = []" for built
    using Cons.prems(1) that by (simp add: cumulativeCells_def summed_nothing)
  have gauge: "wp (bindE (columnMetrics w q labels cvs (sumsOf ?fl h)) (\<lambda>r.
      ret (Inr (case createGaugeMetric ?fl c v labels (mq_Name q) now of None \<Rightarrow> fst r | Some m \<Rightarrow> m # fst r, snd r)))) ?Q log'"
    if "MetricType c = METRIC_GAUGE" for now log'
    using rest[OF other[of "[]"]] rest[OF other[of "[the (createGaugeMetric ?fl c v labels (mq_Name q) now)]"]] that
      gauge_not_cumulative[of ?fl c v labels "mq_Name q" now]
    by (cases "createGaugeMetric ?fl c v labels (mq_Name q) now") simp_all
  have cumulative: "wp (case createCumulativeMetric ?fl c v labels (mq_Name q) now (sumsOf ?fl h) of
      Inl p \<Rightarrow> ret (Inl p)
    | Inr (m, sums1) \<Rightarrow> bindE (columnMetrics w q labels cvs sums1) (\<lambda>r.
        ret (Inr (case m of None \<Rightarrow> fst r | Some m \<Rightarrow> m # fst r, snd r)))) ?Q log'"
    if cum: "MetricType c = METRIC_CUMULATIVE" for now log'
  proof -
    obtain m new where m: "createCumulativeMetric ?fl c v labels (mq_Name q) now (sumsOf ?fl h) = Inr (m, sumsOf ?fl (h @ new))"
        "typedSums q (sumsOf ?fl (h @ new))" "map (\<lambda>(k, x, t). (k, x)) new = cumulativeCells ?fl q labels [(c, v)]"
        "cumulativeOf (case m of None \<Rightarrow> [] | Some m \<Rightarrow> [m]) = seriesFor ?fl h new"
      using cumulative_step[OF Cons.prems(1) assms _ cum] Cons.prems(2) by (force simp: cv)
    then have "summed ?fl q h (cumulativeCells ?fl q labels [(c, v)]) (case m of None \<Rightarrow> [] | Some m \<Rightarrow> [m]) (sumsOf ?fl (h @ new))"
      unfolding summed_def by blast
    from rest[OF this] show ?thesis
      unfolding m(1) by (cases m) simp_all
  qed
  have plain: "wp (columnMetrics w q labels cvs (sumsOf ?fl h)) ?Q log'" if "MetricType c \<noteq> METRIC_CUMULATIVE" for log'
    using Cons.IH[OF Cons.prems(1), of log'] Cons.prems(2) that by (simp add: cumulativeCells_def)
  show ?case
    unfolding cv cells_Cons[of ?fl q labels "(c, v)" cvs] columnMetrics.simps
    using gauge cumulative plain by (auto intro!: wp_any)
qed

lemma rowLoop_summed:
  assumes "consistentColumns q"
  shows "typedSums q (sumsOf (floats w) h) \<Longrightarrow>
    wp (rowLoop w i q rows metrics (sumsOf (floats w) h)) (\<lambda>r _. \<exists>err built sums. r = Inr (err, metrics @ built, sums) \<and>
      summed (floats w) q h (concat (map (rowCells (floats w) q i) (rowsRead rows))) built sums) log"
proof (induction rows arbitrary: h metrics log)
  case Nil
  then show ?case
    by (simp add: wp_return rowsRead_def summed_nothing)
next
  case (Cons row rows)
  obtain vals err where row: "row = (vals, err)"
    by fastforce
  let ?fl = "floats w"
  let ?rest = "concat (map (rowCells ?fl q i) (rowsRead rows))"
  have one: "wp (createMetricsForRow w i q vals (sumsOf ?fl h))
      (\<lambda>r _. \<exists>ms sums. r = Inr (ms, sums) \<and> summed ?fl q h (rowCells ?fl q i vals) ms sums) log" for log
    unfolding createMetricsForRow_def rowCells_def Let_def
    by (rule columnMetrics_summed[OF assms Cons.prems]) (auto dest: set_zip_leftD)
  have more: "wp (rowLoop w i q rows (metrics @ ms) sums) (\<lambda>r _. \<exists>err built sums. r = Inr (err, metrics @ built, sums) \<and>
      summed ?fl q h (rowCells ?fl q i vals @ ?rest) built sums) log'"
    if "summed ?fl q h (rowCells ?fl q i vals) ms sums" for ms sums log'
  proof (rule summed_trans[OF that])
    fix h'
    assume h': "sums = sumsOf ?fl h'" "typedSums q sums"
      and trans: "\<And>cells' built' sums'. summed ?fl q h' cells' built' sums' \<Longrightarrow>
        summed ?fl q h (rowCells ?fl q i vals @ cells') (ms @ built') sums'"
    have "wp (rowLoop w i q rows (metrics @ ms) sums) (\<lambda>r _. \<exists>err built sums. r = Inr (err, (metrics @ ms) @ built, sums) \<and>
        summed ?fl q h' ?rest built sums) log'"
      unfolding h'(1) by (rule Cons.IH) (use h' in simp)
    then show ?thesis
      by (rule wp_mono) (force intro: trans)
  qed
  show ?case
  proof (cases err)
    case None
    have "wp (bindE (createMetricsForRow w i q vals (sumsOf ?fl h)) (\<lambda>r. rowLoop w i q rows (metrics @ fst r) (snd r)))
        (\<lambda>r _. \<exists>err built sums. r = Inr (err, metrics @ built, sums) \<and> summed ?fl q h (rowCells ?fl q i vals @ ?rest) built sums) log" for log
      unfolding wp_bindE by (rule wp_mono[OF one]) (use more in auto)
    then show ?thesis
      by (simp add: row None rowsRead_def)
  next
    case (Some e)
    with Cons.prems show ?thesis
      by (simp add: row wp_return rowsRead_def summed_nothing)
  qed
qed

definition fine :: "mon_query \<Rightarrow> unit + 'a \<times> 'f running_sums \<Rightarrow> bool" where
  "fine q r \<longleftrightarrow> (\<exists>a sums. r = Inr (a, sums) \<and> typedSums q sums)"

lemma fine_Inr [simp]: "fine q (Inr (a, sums)) = typedSums q sums"
  by (auto simp: fine_def)

lemma bindE_fine:
  assumes "wp m (\<lambda>r _. fine q r) log" "\<And>a sums log. typedSums q sums \<Longrightarrow> wp (f (a, sums)) (\<lambda>r _. fine q r) log"
  shows "wp (bindE m f) (\<lambda>r _. fine q r) log"
  unfolding wp_bindE by (rule wp_mono[OF assms(1)]) (auto simp: fine_def dest: assms(2))

lemma columnMetrics_fine:
  assumes "consistentColumns q"
  shows "typedSums q sums \<Longrightarrow> fst ` set cvs \<subseteq> set (mq_Columns q) \<Longrightarrow> wp (columnMetrics w q labels cvs sums) (\<lambda>r _. fine q r) log"
proof (induction cvs arbitrary: sums log)
  case Nil
  then show ?case
    by (simp add: wp_return)
next
  case (Cons cv cvs)
  obtain c v where cv: "cv = (c, v)"
    by fastforce
  have rest: "wp (bindE (columnMetrics w q labels cvs sums1) (\<lambda>r. ret (Inr (g r, snd r)))) (\<lambda>r _. fine q r) log'"
    if "typedSums q sums1" for sums1 log' and g :: "'a time_series list \<times> 'a running_sums \<Rightarrow> 'a time_series list"
    by (rule bindE_fine) (use Cons.IH Cons.prems that in \<open>simp_all add: wp_return\<close>)
  have cumulative: "wp (case createCumulativeMetric (floats w) c v labels (mq_Name q) now sums of
      Inl p \<Rightarrow> ret (Inl p)
    | Inr (m, sums1) \<Rightarrow> bindE (columnMetrics w q labels cvs sums1) (\<lambda>r.
        ret (Inr (case m of None \<Rightarrow> fst r | Some m \<Rightarrow> m # fst r, snd r)))) (\<lambda>r _. fine q r) log'"
    if cum: "MetricType c = METRIC_CUMULATIVE" for now log'
  proof -
    obtain m sums1 where m: "createCumulativeMetric (floats w) c v labels (mq_Name q) now sums = Inr (m, sums1)" "typedSums q sums1"
      using cumulative_typed[OF Cons.prems(1) assms _ cum] Cons.prems(2) by (force simp: cv)
    show ?thesis
      unfolding m(1) sum.case prod.case by (rule rest[OF m(2)])
  qed
  show ?case
    unfolding cv columnMetrics.simps using Cons rest[OF Cons.prems(1)] cumulative by (auto intro!: wp_any)
qed

lemma rowLoop_fine:
  assumes "consistentColumns q"
  shows "typedSums q sums \<Longrightarrow>
     wp (rowLoop w i q rows metrics sums) (\<lambda>r _. \<exists>e ms sums1. r = Inr (e, ms, sums1) \<and> typedSums q sums1) log"
proof (induction rows arbitrary: metrics sums log)
  case Nil
  then show ?case
    by (simp add: wp_return)
next
  case (Cons row rows)
  obtain vals err where row: "row = (vals, err)"
    by fastforce
  have "wp (createMetricsForRow w i q vals sums) (\<lambda>r _. fine q r) log'" for log'
    unfolding createMetricsForRow_def Let_def
    by (rule columnMetrics_fine[OF assms Cons.prems]) (auto dest: set_zip_leftD)
  then have "wp (bindE (createMetricsForRow w i q vals sums) (\<lambda>r. rowLoop w i q rows (metrics @ fst r) (snd r)))
      (\<lambda>r _. \<exists>e ms sums1. r = Inr (e, ms, sums1) \<and> typedSums q sums1) log'" for log'
    unfolding wp_bindE by (rule wp_mono) (use Cons.IH in \<open>auto simp: fine_def\<close>)
  then show ?case
    using Cons.prems by (simp add: row wp_return)
qed

lemma queryAndSendOnce_fine:
  assumes "consistentColumns q" "typedSums q sums"
  shows "wp (queryAndSendOnce w c db q sums) (\<lambda>r _. fine q r) log"
proof -
  have rows: "wp (bindE (rowLoop w (snd db) q rows first sums) (\<lambda>(err, metrics, sums1).
      case err of
        Some e \<Rightarrow> ret (Inr (Some (MonRowFailed e), sums1))
      | None \<Rightarrow> State_Monad.bind (call (seriesSent w) (SendTimeSeries metrics (mc_Project c))) (\<lambda>s.
          ret (Inr (map_option SendFailed s, sums1))))) (\<lambda>r _. fine q r) log" for rows first log
    unfolding wp_bindE by (rule wp_mono[OF rowLoop_fine[OF assms]]) (auto simp: wp_return wp_bind wp_call split: option.splits)
  have sent: "wp (case r of
      Inl e \<Rightarrow> ret (Inr (Some e, sums))
    | Inr (rs, dests) \<Rightarrow> State_Monad.bind (m dests) (\<lambda>first.
        bindE (rowLoop w (snd db) q (iteratedRows w rs dests) first sums) (\<lambda>(err, metrics, sums1).
          case err of
            Some e \<Rightarrow> ret (Inr (Some (MonRowFailed e), sums1))
          | None \<Rightarrow> State_Monad.bind (call (seriesSent w) (SendTimeSeries metrics (mc_Project c))) (\<lambda>s.
              ret (Inr (map_option SendFailed s, sums1)))))) (\<lambda>r _. fine q r) log" for r m log
    using assms(2) by (auto simp: wp_return split: sum.split prod.split intro!: wp_any rows)
  show ?thesis
    unfolding queryAndSendOnce_def
    by (intro wp_any) (auto simp: wp_return assms(2) intro!: wp_any sent)
qed

text \<open>
  How a job goes on: each run that does not end with an authentication error puts the job back, whatever failed;
  a run that does not put it back was cancelled or was refused by the database. No run panics.
\<close>

primrec goesOn :: "(mon_error \<Rightarrow> int option) \<Rightarrow> nat \<Rightarrow> run_end list \<Rightarrow> bool" where
  "goesOn asHdb 0 ends = (ends = [])"
| "goesOn asHdb (Suc n) ends =
     (case ends of
        [] \<Rightarrow> False
      | e # rest \<Rightarrow>
          (case e of
             Requeued err \<Rightarrow> \<not> IsAuthError asHdb err \<and> goesOn asHdb n rest
           | Cancelled \<Rightarrow> rest = []
           | Stopped err \<Rightarrow> IsAuthError asHdb (Some err) \<and> rest = []
           | Panicked \<Rightarrow> False))"

definition runFine :: "(mon_error \<Rightarrow> int option) \<Rightarrow> mon_query \<Rightarrow> run_end \<times> nat \<times> 'f running_sums \<Rightarrow> bool" where
  "runFine asHdb q r \<longleftrightarrow> typedSums q (snd (snd r)) \<and>
     (case fst r of Requeued err \<Rightarrow> \<not> IsAuthError asHdb err | Cancelled \<Rightarrow> True | Stopped err \<Rightarrow> IsAuthError asHdb (Some err)
      | Panicked \<Rightarrow> False)"

lemma auth_error_present: "IsAuthError asHdb err \<Longrightarrow> IsAuthError asHdb (Some (the err))"
  by (cases err) (simp_all add: IsAuthError_def)

lemma queryAndSend_fine:
  assumes "consistentColumns (job_query job)" "typedSums (job_query job) sums"
  shows "wp (queryAndSend w asHdb c job failCount sums) (\<lambda>r _. runFine asHdb (job_query job) r) log"
proof -
  have run: "wp (State_Monad.bind (queryAndSendOnce w c (job_db job) (job_query job) sums) (\<lambda>r. ret (case r of
        Inl _ \<Rightarrow> (Panicked, failCount, sums)
      | Inr (err, sums1) \<Rightarrow>
          (let failCount1 = (if err \<noteq> None then failCount + 1 else 0)
           in if IsAuthError asHdb err then (Stopped (the err), failCount1, sums1) else (Requeued err, failCount1, sums1)))))
      (\<lambda>r _. runFine asHdb (job_query job) r) log" for log
    unfolding wp_bind
    by (rule wp_mono[OF queryAndSendOnce_fine[OF assms]])
       (auto simp: wp_return fine_def runFine_def Let_def dest: auth_error_present)
  have "runFine asHdb (job_query job) (Cancelled, failCount, sums)"
    by (simp add: runFine_def assms(2))
  then show ?thesis
    unfolding queryAndSend_def by (intro wp_any) (simp add: run wp_return)
qed

lemma jobRuns_goesOn:
  assumes "consistentColumns (job_query job)"
  shows "typedSums (job_query job) sums \<Longrightarrow> wp (jobRuns w asHdb c job n failCount sums) (\<lambda>ends _. goesOn asHdb n ends) log"
proof (induction n arbitrary: failCount sums log)
  case 0
  then show ?case
    by (simp add: wp_return)
next
  case (Suc n)
  have again: "wp (State_Monad.bind (jobRuns w asHdb c job n fc sums1) (\<lambda>rest. ret (Requeued e # rest)))
      (\<lambda>ends _. goesOn asHdb (Suc n) ends) log'"
    if "typedSums (job_query job) sums1" "\<not> IsAuthError asHdb e" for fc sums1 e log'
    unfolding wp_bind by (rule wp_mono[OF Suc.IH[OF that(1)]]) (simp add: wp_return that(2))
  show ?case
    unfolding jobRuns.simps wp_bind
  proof (rule wp_mono[OF queryAndSend_fine[OF assms Suc.prems]])
    fix r :: "run_end \<times> nat \<times> 'a running_sums" and log'
    assume r: "runFine asHdb (job_query job) r"
    show "wp (case r of
          (Requeued e, failCount1, sums1) \<Rightarrow> State_Monad.bind (jobRuns w asHdb c job n failCount1 sums1) (\<lambda>rest. ret (Requeued e # rest))
        | (ending, _, _) \<Rightarrow> ret [ending]) (\<lambda>ends _. goesOn asHdb (Suc n) ends) log'"
    proof (cases r)
      case (fields ending fc sums1)
      then show ?thesis
        using r by (cases ending) (simp_all add: runFine_def wp_return again del: goesOn.simps, simp_all)
    qed
  qed
qed


definition hmQuery :: "mon_query \<Rightarrow> hm_query" where
  "hmQuery q = \<lparr>q_Enabled = True, q_Name = mq_Name q, q_Sql = mq_Sql q, q_Columns = map hana_column.truncate (mq_Columns q),
     RunOn = mq_RunOn q\<rparr>"

text \<open>The validator of the configuration and the absence of overrides give consistent columns.\<close>

lemma validated_consistent:
  assumes "validateColumns (hmQuery q)" "\<forall>c \<in> set (mq_Columns q). NameOverride c = []"
  shows "consistentColumns q"
proof -
  have d: "distinct (map col_Name (mq_Columns q))"
    using assms(1) by (simp add: validateColumns_fit columnsFit_def hmQuery_def hana_column.truncate_def comp_def)
  have "c = d" if "c \<in> set (mq_Columns q)" "d \<in> set (mq_Columns q)" "metricPath (mq_Name q) c = metricPath (mq_Name q) d" for c d
    using that assms(2) d by (auto simp: metricPath_def distinct_map inj_on_def)
  then show ?thesis
    unfolding consistentColumns_def by blast
qed

definition overrideQuery :: mon_query where
  "overrideQuery = \<lparr>mq_Name = ''q'', mq_Sql = ''SELECT 1, 2 FROM DUMMY'', mq_SampleIntervalSec = 60, mq_Columns =
     [\<lparr>col_Name = ''a'', MetricType = METRIC_CUMULATIVE, ValueType = VALUE_INT64, NameOverride = ''same''\<rparr>,
      \<lparr>col_Name = ''b'', MetricType = METRIC_CUMULATIVE, ValueType = VALUE_DOUBLE, NameOverride = ''same''\<rparr>], mq_RunOn = 0\<rparr>"

definition loadQuery :: mon_query where
  "loadQuery = \<lparr>mq_Name = ''load'', mq_Sql = ''SELECT REQUESTS FROM M_LOAD'', mq_SampleIntervalSec = 60, mq_Columns = [requestsColumn],
     mq_RunOn = 0\<rparr>"

definition monWorld :: "(unit, unit) mon_world" where
  "monWorld = \<lparr>contextDone = (\<lambda>_ _. False), replicationSite = (\<lambda>_ _. None), queried = (\<lambda>_ _. Inr (GoRows ())),
     nowTime = (\<lambda>_ _. 0), seriesSent = (\<lambda>_ _. None),
     driverRows = (\<lambda>_ dests. [(map (\<lambda>d. if d = DInt64 then VInt 1 else VFloat ()) dests, None)]), floats = unitFloats,
     parseFloat64 = (\<lambda>_. None)\<rparr>"

definition monJob :: "mon_query \<Rightarrow> mon_job" where
  "monJob q = \<lparr>job_db = (None, storeInstance ''a'' ''AAA''), job_query = q, job_interval = 60\<rparr>"

lemma loadQuery_consistent: "consistentColumns (job_query (monJob loadQuery))"
  by (simp add: consistentColumns_def loadQuery_def monJob_def)



definition loadRows :: "(unit cell list \<times> row_error option) list" where
  "loadRows = [([VInt 5], None), ([VInt 7], None), ([VInt 9223372036854775807], None), ([VInt 1], Some (BadInt ''x''))]"


text \<open>The validator accepts two columns of different types under the same override; the first row makes them panic.\<close>

lemma override_panics:
  "validateColumns (hmQuery overrideQuery)"
  "fst (run_state (jobRuns monWorld (\<lambda>_. None) (monConfig []) (monJob overrideQuery) 1 0 Map.empty) []) = [Panicked]"
  subgoal
    by (simp add: validateColumns_def columnStep_def hmQuery_def overrideQuery_def hana_column.truncate_def validateColumnTypes_def)
  subgoal
    by (simp add: monWorld_def monJob_def overrideQuery_def queryAndSend_def queryAndSendOnce_def matchQueryAndInstanceType_def
        storeInstance_def queryDatabase_def columnDest_def monConfig_def iteratedRows_def createMetricsForRow_def createLabels_def
        createCumulativeMetric_def metricPath_def bindE_def Let_def)
  done

end
