(* ===== verification/ProcessMetrics.thy ===== *)
theory ProcessMetrics
  imports GoStrings Prelude
begin

text \<open>
  The process metrics service (\<open>internal/processmetrics/processmetrics.go\<close>): which collectors are created for the
  discovered instances, how they run, and the loop that replaces them when the instances change. A generation of
  collectors runs in one context, numbered here; what the collectors collect is the environment.
\<close>

section \<open>Instances\<close>

datatype instance_type = TYPE_UNDEFINED | TYPE_HANA | TYPE_NETWEAVER | TYPE_OTHER int

text \<open>The fields that the service reads or sets; \<open>si_rest\<close> stands for the others.\<close>

record 'x sap_instance =
  Sapsid :: string
  InstanceNumber :: string
  si_Type :: instance_type
  HanaUser :: string
  HanaPassword :: string
  UserstoreKey :: string
  si_rest :: 'x

record 'x sap_instances =
  Instances :: "'x sap_instance list"
  LinuxClusterMember :: bool

definition sameInstance :: "'x sap_instance \<Rightarrow> 'x sap_instance \<Rightarrow> bool" where
  "sameInstance i j \<longleftrightarrow> Sapsid i = Sapsid j \<and> si_Type i = si_Type j \<and> InstanceNumber i = InstanceNumber j"

definition sapInstancesEqual :: "'x sap_instances option \<Rightarrow> 'x sap_instances option \<Rightarrow> bool" where
  "sapInstancesEqual old new =
     (case (old, new) of
        (None, None) \<Rightarrow> True
      | (Some _, None) \<Rightarrow> False
      | (None, Some _) \<Rightarrow> False
      | (Some a, Some b) \<Rightarrow>
          if a = b then True
          else if length (Instances a) \<noteq> length (Instances b) then False
          else list_all (\<lambda>i. list_ex (sameInstance i) (Instances b)) (Instances a))"

section \<open>The environment\<close>

datatype 'x collector =
    SapServiceCollector
  | SapControlProcCollector
  | InfraMigrationCollector
  | NetworkStatsCollector
  | HanaVolumeCollector
  | ClusterCollector "'x sap_instance"
  | LinuxOsMetricsCollector "'x sap_instance"
  | HanaComputeCollector "'x sap_instance"
  | HanaCollector "'x sap_instance"
  | NetweaverComputeCollector "'x sap_instance"
  | NetweaverCollector "'x sap_instance"
  | FastMovingCollector "'x sap_instance"
  | ReliabilityCollector "'x sap_instance"
  | MaintenanceModeCollector "string list"
  | PacemakerCollector "string list"
  | DemoCollector string string

record 'x properties =
  Collectors :: "'x collector list"
  FastMovingCollectors :: "'x collector list"
  ReliabilityCollectors :: "'x collector list"
  SkippedMetrics :: "string list"

datatype 'x background =
    DailyProcessMetrics
  | DailyReliabilityMetrics
  | FastMovingRoutine "'x properties"
  | SlowRoutine "'x properties"
  | ReliabilityRoutine "'x properties"

datatype 'x proc_call =
    GetSAPInstances
  | GetSAPSystems
  | ReadSecret string string
  | CreateMetricClient
  | StatOverride
  | SleepSeconds int
  | StartRoutine nat "'x background"
  | CancelGeneration nat
  | NextTick

text \<open>\<open>kernelVersions\<close> are the kernel versions of the systems; \<open>ticked\<close> says whether the loop goes on.\<close>

record 'x proc_world =
  sapInstances :: "('x proc_call, 'x sap_instances option) env"
  kernelVersions :: "('x proc_call, string list) env"
  secretRead :: "('x proc_call, string option) env"
  metricClient :: "('x proc_call, bool) env"
  overrideExists :: "('x proc_call, bool) env"
  ignored :: "('x proc_call, unit) env"
  ticked :: "('x proc_call, bool) env"

record hana_credentials =
  hc_User :: string
  hc_Password :: string
  hc_SecretName :: string
  hc_UserstoreKey :: string

record proc_config =
  pc_CollectProcessMetrics :: bool
  pc_ProcessMetricsFrequency :: int
  pc_SlowProcessMetricsFrequency :: int
  ProcessMetricsToSkip :: "string list"
  pc_Credentials :: hana_credentials
  pc_Project :: string
  HasWorkloadConfig :: bool
  pc_OSType :: string

section \<open>Collectors\<close>

definition affectedKernelVersions :: "(int \<times> int) list" where
  "affectedKernelVersions = [(794, 3), (753, 1224), (777, 615), (789, 211), (754, 220), (791, 41), (792, 25), (785, 313), (793, 60)]"

text \<open>The groups of the leftmost match of \<open>SAP Kernel (\d+) Patch (\d+)\<close>.\<close>

definition kernelAt :: "string \<Rightarrow> (string \<times> string) option" where
  "kernelAt s =
     (if hasPrefix s ''SAP Kernel ''
      then (let r = drop (length ''SAP Kernel '') s; k = takeWhile isDigit r; r1 = dropWhile isDigit r
            in if k \<noteq> [] \<and> hasPrefix r1 '' Patch ''
               then (let p = takeWhile isDigit (drop (length '' Patch '') r1) in if p \<noteq> [] then Some (k, p) else None)
               else None)
      else None)"

fun findKernel :: "string \<Rightarrow> (string \<times> string) option" where
  "findKernel [] = None"
| "findKernel (c # cs) = (case kernelAt (c # cs) of Some m \<Rightarrow> Some m | None \<Rightarrow> findKernel cs)"

definition extractKernelVersionAndPatch :: "string \<Rightarrow> (int \<times> int) option" where
  "extractKernelVersionAndPatch s =
     (case findKernel s of
        None \<Rightarrow> None
      | Some (k, p) \<Rightarrow> (case (parseInt64 k, parseInt64 p) of (Some kv, Some pv) \<Rightarrow> Some (kv, pv) | _ \<Rightarrow> None))"

definition affected :: "string \<Rightarrow> bool" where
  "affected version =
     (case extractKernelVersionAndPatch version of
        None \<Rightarrow> False
      | Some (kv, pv) \<Rightarrow> list_ex (\<lambda>(v, p). kv = v \<and> pv < p) affectedKernelVersions)"

definition skipMetricsForNetweaverKernel :: "string list \<Rightarrow> string list" where
  "skipMetricsForNetweaverKernel kernels =
     (if list_ex affected kernels then [''/sap/nw/abap/sessions'', ''/sap/nw/abap/rfc''] else [])"

definition instanceCollectors :: "'x sap_instance \<Rightarrow> 'x collector list" where
  "instanceCollectors i =
     LinuxOsMetricsCollector i #
     (if si_Type i = TYPE_HANA then [HanaComputeCollector i, HanaCollector i] else [])
     @ (if si_Type i = TYPE_NETWEAVER then [NetweaverComputeCollector i, NetweaverCollector i] else [])"

definition fastCollectors :: "'x sap_instance \<Rightarrow> 'x collector list" where
  "fastCollectors i = (if si_Type i = TYPE_HANA \<or> si_Type i = TYPE_NETWEAVER then [FastMovingCollector i] else [])"

definition createProcessCollectors :: "proc_config \<Rightarrow> string list \<Rightarrow> 'x sap_instance list \<Rightarrow> 'x properties" where
  "createProcessCollectors c kernels is =
     (let general = [SapServiceCollector, SapControlProcCollector, InfraMigrationCollector, NetworkStatsCollector, HanaVolumeCollector];
          cluster = (case is of [] \<Rightarrow> [] | i # _ \<Rightarrow> [ClusterCollector i]);
          sids = remdups (map Sapsid is);
          shared = (if sids \<noteq> [] then MaintenanceModeCollector sids # (if HasWorkloadConfig c then [PacemakerCollector sids] else []) else [])
      in \<lparr>Collectors = general @ cluster @ concat (map instanceCollectors is) @ shared,
          FastMovingCollectors = concat (map fastCollectors is), ReliabilityCollectors = [],
          SkippedMetrics = skipMetricsForNetweaverKernel kernels @ ProcessMetricsToSkip c\<rparr>)"

definition createReliabilityCollectors :: "'x sap_instance list \<Rightarrow> 'x properties" where
  "createReliabilityCollectors is =
     \<lparr>Collectors = [], FastMovingCollectors = [],
      ReliabilityCollectors = map ReliabilityCollector (filter (\<lambda>i. si_Type i = TYPE_HANA \<or> si_Type i = TYPE_NETWEAVER) is),
      SkippedMetrics = []\<rparr>"

definition createDemoCollectors :: "'x properties" where
  "createDemoCollectors = \<lparr>Collectors = [DemoCollector ''/etc/google-cloud-sap-agent/metrics-override.yaml'' ''workload.googleapis.com/sap/''],
     FastMovingCollectors = [], ReliabilityCollectors = [], SkippedMetrics = []\<rparr>"

text \<open>User, password and key; after an error all are empty.\<close>

definition ReadHANACredentials :: "'x proc_world \<Rightarrow> proc_config \<Rightarrow> ('x proc_call, string \<times> string \<times> string) prog" where
  "ReadHANACredentials w c =
     (let h = pc_Credentials c; user = (if hc_User h = [] then ''SYSTEM'' else hc_User h)
      in if hc_UserstoreKey h = [] \<and> hc_Password h = [] \<and> hc_SecretName h = [] then ret ([], [], [])
         else if hc_UserstoreKey h \<noteq> [] then ret (user, [], hc_UserstoreKey h)
         else if hc_Password h \<noteq> [] then ret (user, hc_Password h, [])
         else do {
           s \<leftarrow> call (secretRead w) (ReadSecret (pc_Project c) (hc_SecretName h));
           ret (case s of None \<Rightarrow> ([], [], []) | Some password \<Rightarrow> (user, password, []))
         })"

primrec withCredentials :: "'x proc_world \<Rightarrow> proc_config \<Rightarrow> 'x sap_instance list \<Rightarrow> ('x proc_call, 'x sap_instance list) prog" where
  "withCredentials w c [] = ret []"
| "withCredentials w c (i # is) = do {
     j \<leftarrow> (if si_Type i = TYPE_HANA then do {
             r \<leftarrow> ReadHANACredentials w c;
             ret (i\<lparr>HanaUser := fst r, HanaPassword := fst (snd r), UserstoreKey := snd (snd r)\<rparr>)
           } else ret i);
     js \<leftarrow> withCredentials w c is;
     ret (j # js)
   }"

definition instancesWithCredentials :: "'x proc_world \<Rightarrow> proc_config \<Rightarrow> ('x proc_call, 'x sap_instance list) prog" where
  "instancesWithCredentials w c = do {
     r \<leftarrow> call (sapInstances w) GetSAPInstances;
     withCredentials w c (case r of None \<Rightarrow> [] | Some s \<Rightarrow> Instances s)
   }"

section \<open>Starting and replacing the collectors\<close>

abbreviation launchRoutine :: "'x proc_world \<Rightarrow> nat \<Rightarrow> 'x background \<Rightarrow> ('x proc_call, unit) prog" where
  "launchRoutine w g b \<equiv> call (ignored w) (StartRoutine g b)"

definition startProcessMetrics :: "'x proc_world \<Rightarrow> proc_config \<Rightarrow> nat \<Rightarrow> ('x proc_call, bool) prog" where
  "startProcessMetrics w c g =
     (if \<not> pc_CollectProcessMetrics c then ret False
      else if pc_OSType c = ''windows'' then ret False
      else if pc_ProcessMetricsFrequency c < 5 then ret False
      else if pc_SlowProcessMetricsFrequency c < 30 then ret False
      else do {
        ok \<leftarrow> call (metricClient w) CreateMetricClient;
        if \<not> ok then ret False
        else do {
          demo \<leftarrow> call (overrideExists w) StatOverride;
          if demo then do {
            _ \<leftarrow> launchRoutine w g (SlowRoutine createDemoCollectors);
            ret True
          }
          else do {
            is \<leftarrow> instancesWithCredentials w c;
            _ \<leftarrow> launchRoutine w g DailyProcessMetrics;
            kernels \<leftarrow> call (kernelVersions w) GetSAPSystems;
            let p = createProcessCollectors c kernels is;
            _ \<leftarrow> launchRoutine w g (FastMovingRoutine p);
            _ \<leftarrow> launchRoutine w g (SlowRoutine p);
            ret True
          }
        }
      })"

definition startReliabilityMetrics :: "'x proc_world \<Rightarrow> proc_config \<Rightarrow> nat \<Rightarrow> ('x proc_call, bool) prog" where
  "startReliabilityMetrics w c g = do {
     is \<leftarrow> instancesWithCredentials w c;
     _ \<leftarrow> launchRoutine w g DailyReliabilityMetrics;
     _ \<leftarrow> launchRoutine w g (ReliabilityRoutine (createReliabilityCollectors is));
     ret True
   }"

text \<open>At most \<open>n\<close> polls; the result is the generation at the end.\<close>

primrec updateMetricsCollectors :: "'x proc_world \<Rightarrow> proc_config \<Rightarrow> nat \<Rightarrow> nat \<Rightarrow> 'x sap_instances option \<Rightarrow> ('x proc_call, nat) prog" where
  "updateMetricsCollectors w c 0 g lastInstances = ret g"
| "updateMetricsCollectors w c (Suc n) g lastInstances = do {
     newInstances \<leftarrow> call (sapInstances w) GetSAPInstances;
     g1 \<leftarrow> (if \<not> sapInstancesEqual lastInstances newInstances then do {
              _ \<leftarrow> call (ignored w) (CancelGeneration g);
              _ \<leftarrow> call (ignored w) (SleepSeconds (pc_ProcessMetricsFrequency c));
              _ \<leftarrow> startProcessMetrics w c (g + 1);
              _ \<leftarrow> startReliabilityMetrics w c (g + 1);
              ret (g + 1)
            } else ret g);
     more \<leftarrow> call (ticked w) NextTick;
     if more then updateMetricsCollectors w c n g1 newInstances else ret g1
   }"

section \<open>Collecting\<close>

text \<open>What a collector returns in a round: its series and whether it failed.\<close>

type_synonym ('x, 't) results = "'x collector \<Rightarrow> 't list \<times> bool"

definition flatten :: "'t list list \<Rightarrow> 't list" where
  "flatten msgs = fold (\<lambda>msg metrics. metrics @ msg) msgs []"

text \<open>The collectors run in parallel, each writes to its own slot; \<open>order\<close> is the order in which they finish.\<close>

definition collectFastMoving :: "('x, 't) results \<Rightarrow> 'x collector list \<Rightarrow> nat list \<Rightarrow> 't list" where
  "collectFastMoving results cs order = flatten (fold (\<lambda>i msgs. msgs[i := fst (results (cs ! i))]) order (replicate (length cs) []))"

text \<open>The series to send, \<open>None\<close> for an error.\<close>

definition collectSlowMoving :: "('x, 't) results \<Rightarrow> 'x collector \<Rightarrow> 't list option" where
  "collectSlowMoving results c =
     (case results c of (metrics, failed) \<Rightarrow> if failed \<and> length metrics = 0 then None else Some metrics)"

datatype loop_event = ContextCancelled | HeartbeatTick | CollectTick
datatype loop_action = Beat | CollectOnce

text \<open>The actions of the loops of fast moving and of reliability metrics for the events they receive; \<open>None\<close> when there
  are no collectors.\<close>

primrec collectLoop :: "loop_event list \<Rightarrow> loop_action list" where
  "collectLoop [] = []"
| "collectLoop (e # es) =
     (case e of
        ContextCancelled \<Rightarrow> []
      | HeartbeatTick \<Rightarrow> Beat # collectLoop es
      | CollectTick \<Rightarrow> Beat # CollectOnce # collectLoop es)"

definition collectAndSendFastMovingMetrics :: "'x properties \<Rightarrow> loop_event list \<Rightarrow> loop_action list option" where
  "collectAndSendFastMovingMetrics p es = (if length (FastMovingCollectors p) = 0 then None else Some (collectLoop es))"

definition collectAndSendReliabilityMetrics :: "'x properties \<Rightarrow> loop_event list \<Rightarrow> loop_action list option" where
  "collectAndSendReliabilityMetrics p es = (if length (ReliabilityCollectors p) = 0 then None else Some (collectLoop es))"

text \<open>The runs of a slow collector: after each it is put back unless the context was cancelled by then.\<close>

primrec slowRuns :: "('x, 't) results list \<Rightarrow> 'x collector \<Rightarrow> bool list \<Rightarrow> 't list option list" where
  "slowRuns [] c cancelled = []"
| "slowRuns (r # rs) c cancelled =
     collectSlowMoving r c # (case cancelled of [] \<Rightarrow> [] | b # bs \<Rightarrow> if b then [] else slowRuns rs c bs)"

section \<open>One generation at a time\<close>

text \<open>The generations that run, read off the calls, newest first: the collectors that were started and not cancelled, and
  those that were cancelled but may still be finishing a round. Cancelled collectors count as running until the agent has
  waited for the frequency of the process metrics.\<close>

definition runningStep :: "proc_config \<Rightarrow> 'x proc_call \<Rightarrow> nat set \<times> nat set \<Rightarrow> nat set \<times> nat set" where
  "runningStep c x s = (case s of (active, stopping) \<Rightarrow>
     (case x of
        StartRoutine g _ \<Rightarrow> (insert g active, stopping)
      | CancelGeneration g \<Rightarrow> (active - {g}, stopping \<union> (active \<inter> {g}))
      | SleepSeconds d \<Rightarrow> (active, if pc_ProcessMetricsFrequency c \<le> d then {} else stopping)
      | _ \<Rightarrow> s))"

definition running :: "proc_config \<Rightarrow> 'x proc_call list \<Rightarrow> nat set" where
  "running c log = (case foldr (runningStep c) log ({}, {}) of (active, stopping) \<Rightarrow> active \<union> stopping)"

primrec oneAtATime :: "proc_config \<Rightarrow> 'x proc_call list \<Rightarrow> bool" where
  "oneAtATime c [] = True"
| "oneAtATime c (x # log) = (oneAtATime c log \<and> (case x of StartRoutine g _ \<Rightarrow> running c log \<subseteq> {g} | _ \<Rightarrow> True))"

definition within :: "proc_config \<Rightarrow> nat \<Rightarrow> 'x proc_call list \<Rightarrow> bool" where
  "within c g log \<longleftrightarrow> oneAtATime c log \<and> running c log \<subseteq> {g}"

lemma within_starts: "within c g log \<Longrightarrow> within c g (StartRoutine g b # log)"
  by (auto simp: within_def running_def runningStep_def split: prod.splits)

definition quietCall :: "'x proc_call \<Rightarrow> bool" where
  "quietCall c = (case c of StartRoutine _ _ \<Rightarrow> False | CancelGeneration _ \<Rightarrow> False | _ \<Rightarrow> True)"

definition startsOnly :: "nat \<Rightarrow> 'x proc_call \<Rightarrow> bool" where
  "startsOnly g c = (case c of StartRoutine h _ \<Rightarrow> h = g | CancelGeneration _ \<Rightarrow> False | _ \<Rightarrow> True)"

lemma within_startsOnly: "within c g log \<Longrightarrow> list_all (startsOnly g) new \<Longrightarrow> within c g (new @ log)"
proof (induction new)
  case (Cons x new)
  then have "within c g (new @ log)" "startsOnly g x"
    by simp_all
  then show ?case
    by (cases x) (auto simp: within_def running_def runningStep_def startsOnly_def split: prod.splits)
qed simp

lemma startsOnly_simps [simp]:
  "startsOnly g GetSAPInstances" "startsOnly g GetSAPSystems" "startsOnly g (ReadSecret p s)" "startsOnly g CreateMetricClient"
  "startsOnly g StatOverride" "startsOnly g (SleepSeconds n)" "startsOnly g (StartRoutine g b)" "startsOnly g NextTick"
  by (simp_all add: startsOnly_def)

lemma credentials_calls: "calls_only (startsOnly g) (ReadHANACredentials w c)"
  unfolding ReadHANACredentials_def by (intro calls_rules) simp_all

lemma withCredentials_calls: "calls_only (startsOnly g) (withCredentials w c is)"
proof (induction "is")
  case Nil
  show ?case
    by (simp add: calls_only_ret)
next
  case (Cons i "is")
  then show ?case
    by (simp add: calls_only_bind calls_only_ret credentials_calls calls_only_if)
qed

lemma instances_calls: "calls_only (startsOnly g) (instancesWithCredentials w c)"
  unfolding instancesWithCredentials_def by (intro calls_rules withCredentials_calls) simp

lemma start_calls: "calls_only (startsOnly g) (startProcessMetrics w c g)" "calls_only (startsOnly g) (startReliabilityMetrics w c g)"
  unfolding startProcessMetrics_def startReliabilityMetrics_def Let_def
  by (intro calls_rules instances_calls; simp)+

lemma within_run:
  assumes "calls_only (startsOnly g) m" "within c g log"
  shows "wp m (\<lambda>_ log'. within c g log') log"
  by (rule wp_mono[OF calls_onlyD[OF assms(1)]]) (auto intro: within_startsOnly[OF assms(2)])

lemma within_quiet: "within c g log \<Longrightarrow> startsOnly g x \<Longrightarrow> within c g (x # log)"
  using within_startsOnly[of c g log "[x]"] by simp

text \<open>Cancelling alone is not enough: the next generation may start after the wait.\<close>

lemma within_waited:
  "within c g log \<Longrightarrow> within c h (SleepSeconds (pc_ProcessMetricsFrequency c) # CancelGeneration g # log)"
  by (auto simp: within_def running_def runningStep_def split: prod.splits)

lemma replace_within:
  assumes "within c g log"
  shows "wp (do {
      _ \<leftarrow> call (ignored w) (CancelGeneration g);
      _ \<leftarrow> call (ignored w) (SleepSeconds (pc_ProcessMetricsFrequency c));
      _ \<leftarrow> startProcessMetrics w c (g + 1);
      _ \<leftarrow> startReliabilityMetrics w c (g + 1);
      ret (g + 1)
    }) (\<lambda>g1 log'. within c g1 log') log"
proof -
  have ready: "within c (g + 1) (SleepSeconds (pc_ProcessMetricsFrequency c) # CancelGeneration g # log)"
    by (rule within_waited[OF assms])
  have reliability: "wp (State_Monad.bind (startReliabilityMetrics w c (g + 1)) (\<lambda>_. ret (g + 1))) (\<lambda>g1 log'. within c g1 log') log'"
    if "within c (g + 1) log'" for log'
    unfolding wp_bind by (rule wp_mono[OF within_run[OF start_calls(2) that]]) (simp add: wp_return)
  show ?thesis
    unfolding wp_bind wp_call
    using wp_mono[OF within_run[OF start_calls(1) ready] reliability] by (simp add: wp_bind)
qed

lemma update_within:
  "within c g log \<Longrightarrow> wp (updateMetricsCollectors w c n g lastInstances) (\<lambda>g1 log'. within c g1 log') log"
proof (induction n arbitrary: g lastInstances log)
  case 0
  then show ?case
    by (simp add: wp_return)
next
  case (Suc n)
  let ?new = "sapInstances w log GetSAPInstances"
  have polled: "within c g (GetSAPInstances # log)"
    by (rule within_quiet[OF Suc.prems]) simp
  have go_on: "wp (State_Monad.bind (call (ticked w) NextTick) (\<lambda>more. if more then updateMetricsCollectors w c n g1 ?new else ret g1))
      (\<lambda>g1 log'. within c g1 log') log'" if "within c g1 log'" for g1 log'
    using Suc.IH[OF within_quiet[OF that, of NextTick]] within_quiet[OF that, of NextTick]
    by (simp add: wp_bind wp_call wp_return)
  show ?case
  proof (cases "sapInstancesEqual lastInstances ?new")
    case True
    then show ?thesis
      using go_on[OF polled] by (simp add: wp_bind wp_call wp_return)
  next
    case False
    show ?thesis
      unfolding updateMetricsCollectors.simps
      by (subst wp_bind, subst wp_call, subst wp_bind)
         (simp only: False simp_thms if_True, rule wp_mono[OF replace_within[OF polled] go_on])
  qed
qed

text \<open>C19. However the discovered instances change, the collectors of a generation are started only when no other
  generation runs. Cancelled collectors, which may still be in a round, count as running until the agent has waited for
  the frequency of the process metrics; a round that takes longer than that is not covered.\<close>

theorem one_generation_runs:
  "wp (updateMetricsCollectors w c n 0 None) (\<lambda>g log. oneAtATime c log \<and> running c log \<subseteq> {g}) []"
  using update_within[of c 0 "[]" w n None] by (simp add: within_def running_def)

section \<open>Comparing instances\<close>

definition keyOf :: "'x sap_instance \<Rightarrow> string \<times> instance_type \<times> string" where
  "keyOf i = (Sapsid i, si_Type i, InstanceNumber i)"

lemma sameInstance_keyOf: "sameInstance i j \<longleftrightarrow> keyOf i = keyOf j"
  by (auto simp: sameInstance_def keyOf_def)

lemma instances_compared_by_key:
  assumes "distinct (map keyOf (Instances a))" "distinct (map keyOf (Instances b))"
  shows "sapInstancesEqual (Some a) (Some b) \<longleftrightarrow> keyOf ` set (Instances a) = keyOf ` set (Instances b)"
proof -
  have card: "card (keyOf ` set (Instances a)) = length (Instances a)" "card (keyOf ` set (Instances b)) = length (Instances b)"
    using distinct_card[OF assms(1)] distinct_card[OF assms(2)] by simp_all
  have "list_all (\<lambda>i. list_ex (sameInstance i) (Instances b)) (Instances a) \<longleftrightarrow> keyOf ` set (Instances a) \<subseteq> keyOf ` set (Instances b)"
    by (auto simp: list_all_iff list_ex_iff sameInstance_keyOf)
  then show ?thesis
    using card card_subset_eq[of "keyOf ` set (Instances b)" "keyOf ` set (Instances a)"]
    by (auto simp: sapInstancesEqual_def)
qed

section \<open>Collecting in parallel\<close>

lemma flatten_concat: "flatten msgs = concat msgs"
proof -
  have "fold (\<lambda>msg metrics. metrics @ msg) msgs acc = acc @ concat msgs" for acc
    by (induction msgs arbitrary: acc) simp_all
  then show ?thesis
    by (simp add: flatten_def)
qed

lemma slots_filled:
  "length msgs = n \<Longrightarrow> set order \<subseteq> {..<n} \<Longrightarrow> i < n \<Longrightarrow>
     fold (\<lambda>i msgs. msgs[i := r i]) order msgs ! i = (if i \<in> set order then r i else msgs ! i)"
  by (induction order arbitrary: msgs) auto

lemma slots_length: "length (fold (\<lambda>i msgs. msgs[i := r i]) order msgs) = length msgs"
  by (induction order arbitrary: msgs) auto

text \<open>Whatever order the collectors finish in, the series are those of the collectors in their order.\<close>

lemma collected_in_order:
  assumes "set order = {..<length cs}"
  shows "collectFastMoving results cs order = concat (map (\<lambda>c. fst (results c)) cs)"
proof -
  have "fold (\<lambda>i msgs. msgs[i := fst (results (cs ! i))]) order (replicate (length cs) []) = map (\<lambda>c. fst (results c)) cs"
    by (rule nth_equalityI) (simp_all add: slots_length slots_filled[where n="length cs" and r="\<lambda>i. fst (results (cs ! i))"] assms)
  then show ?thesis
    by (simp add: collectFastMoving_def flatten_concat)
qed

text \<open>The loops beat at every event until they are cancelled.\<close>

lemma loop_beats: "ContextCancelled \<notin> set es \<Longrightarrow> length (filter (\<lambda>a. a = Beat) (collectLoop es)) = length es"
  by (induction es) (auto split: loop_event.splits)

text \<open>Reliability metrics are started whatever the configuration says.\<close>

lemma reliability_always_starts: "wp (startReliabilityMetrics w c g) (\<lambda>r _. r) log"
  unfolding startReliabilityMetrics_def by (intro wp_any) (simp add: wp_return)

end
