(* ===== verification/GoRegexp.thy ===== *)
theory GoRegexp
  imports GoStrings
begin

text \<open>
  The regular expressions of Go's \<open>regexp\<close> package, as far as the constant patterns of the program use them: the
  first match in the order of the leftmost-first semantics, with its groups.
\<close>

datatype regex =
    Lit string
  | Class "char \<Rightarrow> bool"
  | Seq regex regex
  | Alt regex regex
  | Star regex
  | Group nat regex
  | AtStart
  | AtEnd
  | WordB

text \<open>A match consumes a prefix; it is given by its groups, the later ones last, and the rest of the string.\<close>

type_synonym groups = "(nat \<times> string) list"

text \<open>The greedy repetitions of \<open>f\<close>; an iteration that consumes nothing ends the repetition.\<close>

primrec repeat :: "nat \<Rightarrow> (string \<Rightarrow> (groups \<times> string) list) \<Rightarrow> string \<Rightarrow> (groups \<times> string) list" where
  "repeat 0 f s = [([], s)]"
| "repeat (Suc n) f s =
     concat (map (\<lambda>(g, r). if length r < length s then map (\<lambda>(g', r'). (g @ g', r')) (repeat n f r) else []) (f s)) @ [([], s)]"

text \<open>Whether a word starts or ends before \<open>s\<close>, the rest of the text \<open>t\<close>.\<close>

definition wordBoundary :: "string \<Rightarrow> string \<Rightarrow> bool" where
  "wordBoundary t s \<longleftrightarrow>
     (length s < length t \<and> isWordChar (t ! (length t - length s - 1))) \<noteq> (case s of [] \<Rightarrow> False | c # _ \<Rightarrow> isWordChar c)"

text \<open>All matches at the start of \<open>s\<close>, a rest of the text \<open>t\<close>, the preferred one first.\<close>

primrec matchesAt :: "regex \<Rightarrow> string \<Rightarrow> string \<Rightarrow> (groups \<times> string) list" where
  "matchesAt (Lit l) t s = (if hasPrefix s l then [([], drop (length l) s)] else [])"
| "matchesAt (Class p) t s = (case s of [] \<Rightarrow> [] | c # r \<Rightarrow> if p c then [([], r)] else [])"
| "matchesAt (Seq a b) t s =
     concat (map (\<lambda>(g, r). map (\<lambda>(g', r'). (g @ g', r')) (matchesAt b t r)) (matchesAt a t s))"
| "matchesAt (Alt a b) t s = matchesAt a t s @ matchesAt b t s"
| "matchesAt (Star a) t s = repeat (length s) (matchesAt a t) s"
| "matchesAt (Group i a) t s = map (\<lambda>(g, r). (g @ [(i, take (length s - length r) s)], r)) (matchesAt a t s)"
| "matchesAt AtStart t s = (if length s = length t then [([], s)] else [])"
| "matchesAt AtEnd t s = (if s = [] then [([], s)] else [])"
| "matchesAt WordB t s = (if wordBoundary t s then [([], s)] else [])"

fun firstMatch :: "regex \<Rightarrow> string \<Rightarrow> string \<Rightarrow> (groups \<times> string) option" where
  "firstMatch e t [] = (case matchesAt e t [] of [] \<Rightarrow> None | m # _ \<Rightarrow> Some m)"
| "firstMatch e t (c # s) = (case matchesAt e t (c # s) of [] \<Rightarrow> firstMatch e t s | m # _ \<Rightarrow> Some m)"

text \<open>\<open>FindStringSubmatch\<close>: \<open>None\<close> when nothing matches. \<open>MatchString\<close>.\<close>

definition findSubmatch :: "regex \<Rightarrow> string \<Rightarrow> groups option" where
  "findSubmatch e s = map_option fst (firstMatch e s s)"

definition matchString :: "regex \<Rightarrow> string \<Rightarrow> bool" where
  "matchString e s \<longleftrightarrow> firstMatch e s s \<noteq> None"

text \<open>\<open>FindAllStringSubmatch\<close> for patterns that match no empty string: the search goes on behind each match.\<close>

lemma matchesAt_length: "(g, r) \<in> set (matchesAt e t s) \<Longrightarrow> length r \<le> length s"
proof (induction e arbitrary: g r s)
  case (Seq a b)
  then show ?case
    by auto (meson le_trans)
next
  case (Star e)
  have "(g, r) \<in> set (repeat n f s) \<Longrightarrow> length r \<le> length s" for n f g r s
    by (induction n arbitrary: g r s) (auto split: if_splits, fastforce)
  with Star.prems show ?case
    by auto
qed (auto split: if_splits list.splits)

lemma firstMatch_length: "firstMatch e t s = Some (g, r) \<Longrightarrow> length r \<le> length s"
proof (induction e t s rule: firstMatch.induct)
  case (1 e t)
  then have "(g, r) \<in> set (matchesAt e t [])"
    by (cases "matchesAt e t []") simp_all
  then show ?case
    by (rule matchesAt_length)
next
  case (2 e t c s)
  show ?case
  proof (cases "matchesAt e t (c # s)")
    case Nil
    with 2 show ?thesis
      by simp
  next
    case (Cons m ms)
    with 2 have "(g, r) \<in> set (matchesAt e t (c # s))"
      by simp
    then show ?thesis
      by (rule matchesAt_length)
  qed
qed

function findAllFrom :: "regex \<Rightarrow> string \<Rightarrow> string \<Rightarrow> groups list" where
  "findAllFrom e t s =
     (case firstMatch e t s of
        None \<Rightarrow> []
      | Some (g, r) \<Rightarrow> g # (if length r < length s then findAllFrom e t r else []))"
  by pat_completeness auto

termination
  by (relation "measure (\<lambda>(e, t, s). length s)") auto

declare findAllFrom.simps [simp del]

definition findAll :: "regex \<Rightarrow> string \<Rightarrow> groups list" where
  "findAll e s = findAllFrom e s s"

text \<open>The last value of a group; a group that took no part is empty.\<close>

definition group :: "nat \<Rightarrow> groups \<Rightarrow> string" where
  "group i g = (case map_of (rev g) i of None \<Rightarrow> [] | Some s \<Rightarrow> s)"

section \<open>Derived forms\<close>

fun seqs :: "regex list \<Rightarrow> regex" where
  "seqs [] = Lit []"
| "seqs [e] = e"
| "seqs (e # es) = Seq e (seqs es)"

definition Plus :: "regex \<Rightarrow> regex" where
  "Plus e = Seq e (Star e)"

definition Opt :: "regex \<Rightarrow> regex" where
  "Opt e = Alt e (Lit [])"

primrec times :: "nat \<Rightarrow> regex \<Rightarrow> regex" where
  "times 0 e = Lit []"
| "times (Suc n) e = Seq e (times n e)"

definition reDigit :: regex where "reDigit = Class isDigit"
definition reWord :: regex where "reWord = Class isWordChar"

text \<open>\<open>\s\<close> is a blank, tab, line feed, form feed or carriage return; \<open>.\<close> matches all but the line feed.\<close>

definition isPerlSpace :: "char \<Rightarrow> bool" where
  "isPerlSpace c \<longleftrightarrow> codeOf c \<in> {9, 10, 12, 13, 32}"

definition reSpace :: regex where "reSpace = Class isPerlSpace"
definition reNonSpace :: regex where "reNonSpace = Class (\<lambda>c. \<not> isPerlSpace c)"
definition reAny :: regex where "reAny = Class (\<lambda>c. c \<noteq> chNL)"

section \<open>Matches are prefixes\<close>

lemma repeat_suffix:
  "(\<And>s g r. (g, r) \<in> set (f s) \<Longrightarrow> suffix r s) \<Longrightarrow> (g, r) \<in> set (repeat n f s) \<Longrightarrow> suffix r s"
proof (induction n arbitrary: g r s)
  case (Suc n)
  from Suc.prems(2) consider (stop) "r = s"
    | (more) g1 r1 g2 where "(g1, r1) \<in> set (f s)" "(g2, r) \<in> set (repeat n f r1)"
    by (auto split: if_splits)
  then show ?case
  proof cases
    case more
    have "suffix r r1"
      by (rule Suc.IH[OF Suc.prems(1) more(2)])
    also have "suffix r1 s"
      by (rule Suc.prems(1)[OF more(1)])
    finally show ?thesis .
  qed simp
qed simp

lemma matchesAt_suffix: "(g, r) \<in> set (matchesAt e x s) \<Longrightarrow> suffix r s"
proof (induction e arbitrary: g r s)
  case (Lit t)
  then show ?case
    by (auto split: if_splits intro: suffix_drop)
next
  case (Class p)
  then show ?case
    by (auto split: list.splits if_splits simp: suffix_ConsI)
next
  case (Seq a b)
  then show ?case
    by auto (metis suffix_order.order_trans)
next
  case (Star e)
  then show ?case
    using repeat_suffix[of "matchesAt e x"] by auto
qed (auto split: if_splits)

text \<open>What a match captures are parts of the text.\<close>

lemma repeat_captures:
  "(\<And>s g r i t. (g, r) \<in> set (f s) \<Longrightarrow> (i, t) \<in> set g \<Longrightarrow> sublist t s) \<Longrightarrow> (\<And>s g r. (g, r) \<in> set (f s) \<Longrightarrow> suffix r s) \<Longrightarrow>
     (g, r) \<in> set (repeat n f s) \<Longrightarrow> (i, t) \<in> set g \<Longrightarrow> sublist t s"
proof (induction n arbitrary: g r s)
  case (Suc n)
  from Suc.prems(3,4) obtain g1 r1 g2 where first: "(g1, r1) \<in> set (f s)" "(g2, r) \<in> set (repeat n f r1)" and parts: "g = g1 @ g2"
    by (auto split: if_splits)
  from parts Suc.prems(4) consider "(i, t) \<in> set g1" | "(i, t) \<in> set g2"
    by auto
  then show ?case
  proof cases
    case 1
    then show ?thesis
      using Suc.prems(1)[OF first(1)] by blast
  next
    case 2
    have "sublist t r1"
      by (rule Suc.IH[OF Suc.prems(1) Suc.prems(2) first(2) 2])
    then show ?thesis
      using Suc.prems(2)[OF first(1)] suffix_imp_sublist sublist_order.order_trans by blast
  qed
qed simp

lemma matchesAt_captures: "(g, r) \<in> set (matchesAt e x s) \<Longrightarrow> (i, t) \<in> set g \<Longrightarrow> sublist t s"
proof (induction e arbitrary: g r s i t)
  case (Seq a b)
  from Seq.prems(1) obtain g1 r1 g2 where first: "(g1, r1) \<in> set (matchesAt a x s)" "(g2, r) \<in> set (matchesAt b x r1)"
      and "g = g1 @ g2"
    by auto
  with Seq.prems(2) consider "(i, t) \<in> set g1" | "(i, t) \<in> set g2"
    by auto
  then show ?case
  proof cases
    case 1
    then show ?thesis
      using Seq.IH(1)[OF first(1)] by blast
  next
    case 2
    then show ?thesis
      using Seq.IH(2)[OF first(2)] matchesAt_suffix[OF first(1)] suffix_imp_sublist sublist_order.order_trans by blast
  qed
next
  case (Star e)
  show ?case
  proof (rule repeat_captures)
    show "(g, r) \<in> set (repeat (length s) (matchesAt e x) s)"
      using Star.prems(1) by simp
  qed (use Star.IH Star.prems(2) in \<open>auto dest: matchesAt_suffix\<close>)
next
  case (Group k e)
  then show ?case
    by (auto simp: sublist_take)
qed (auto split: if_splits list.splits)

end
