(* ===== verification/CloudURI.thy ===== *)
theory CloudURI
  imports GoRegexp
begin

text \<open>
  Names of cloud resources (\<open>internal/system/clouddiscovery/cloud_discovery.go\<close>): the fields of a URI, the region of a
  zone, and the patterns that tell addresses and URIs from host names.
\<close>

fun fieldAfter :: "string \<Rightarrow> string list \<Rightarrow> string" where
  "fieldAfter field (s # t # ps) = (if s = field then t else fieldAfter field (t # ps))"
| "fieldAfter field _ = []"

definition ExtractFromURI :: "string \<Rightarrow> string \<Rightarrow> string" where
  "ExtractFromURI uri field = fieldAfter field (splitOn chSlash uri)"

definition RegionFromZone :: "string \<Rightarrow> string" where
  "RegionFromZone zone =
     (let parts = splitOn (CHR ''-'') zone in if length parts < 3 then [] else joinWith ''-'' (butlast parts))"

definition getResourceKind :: "string \<Rightarrow> string" where
  "getResourceKind uri =
     (let parts = splitOn chSlash uri in if length parts < 2 then [] else parts ! (length parts - 2))"

text \<open>\<open>^((25[0-5]|(2[0-4]|1\d|[1-9]|)\d)\.?\b){4}$\<close>\<close>

definition digitIn :: "nat \<Rightarrow> nat \<Rightarrow> regex" where
  "digitIn a b = Class (\<lambda>c. 48 + a \<le> codeOf c \<and> codeOf c \<le> 48 + b)"

definition octetRe :: regex where
  "octetRe = Alt (Seq (Lit ''25'') (digitIn 0 5))
     (Seq (Alt (Seq (Lit ''2'') (digitIn 0 4)) (Alt (Seq (Lit ''1'') reDigit) (Alt (digitIn 1 9) (Lit [])))) reDigit)"

definition addressRegex :: regex where
  "addressRegex = seqs [AtStart, times 4 (seqs [octetRe, Opt (Lit ''.''), WordB]), AtEnd]"

text \<open>\<open>https?://(www|beta)\.googleapis\.com(\/[a-zA-Z0-9\-]+)+\<close>\<close>

definition uriRegex :: regex where
  "uriRegex = seqs [Lit ''http'', Opt (Lit ''s''), Lit ''://'', Alt (Lit ''www'') (Lit ''beta''), Lit ''.googleapis.com'',
     Plus (Seq (Lit ''/'') (Plus (Class (\<lambda>c. isWordChar c \<and> codeOf c \<noteq> 95 \<or> c = CHR ''-''))))]"

lemma addresses: "matchString addressRegex ''10.0.0.25''" "\<not> matchString addressRegex ''10.0.0.256''" "\<not> matchString addressRegex ''host1''"
  by code_simp+

lemma uris: "matchString uriRegex ''https://www.googleapis.com/compute/v1/projects/p''" "\<not> matchString uriRegex ''projects/p/zones/z''"
  by code_simp+

lemma uri_fields: "ExtractFromURI ''projects/p/zones/us-east1-b/instances/i'' ''zones'' = ''us-east1-b''" "RegionFromZone ''us-east1-b'' = ''us-east1''"
  "getResourceKind ''projects/p/zones/us-east1-b/instances/i'' = ''instances''"
  by code_simp+

end
