(* ===== verification/WorkloadTypes.thy ===== *)
theory WorkloadTypes
  imports PacemakerMetrics ConfigureInstance RuleEngine ProcessMetrics CloudURI
begin

text \<open>
  The data and the environment of the workload manager collection (\<open>internal/workloadmanager\<close>), which validates
  the set-up of an SAP system: it composes the collections of Pacemaker, of the machine configuration and of the HANA
  Insights rules with its own, and sends the results.
\<close>

section \<open>Time\<close>

text \<open>A time with its zone, as \<open>time.Parse\<close> records it: the civil time, nanoseconds and seconds east of UTC.\<close>

record go_time =
  tmYear :: int
  tmMonth :: int
  tmDay :: int
  tmHour :: int
  tmMinute :: int
  tmSecond :: int
  tmNanos :: int
  tmOffset :: int

text \<open>The days since 1970 of a date of the proleptic Gregorian calendar.\<close>

definition daysFromCivil :: "int \<Rightarrow> int \<Rightarrow> int \<Rightarrow> int" where
  "daysFromCivil y m d =
     (let y1 = (if m \<le> 2 then y - 1 else y); era = y1 div 400; yoe = y1 mod 400;
          doy = (153 * (if m > 2 then m - 3 else m + 9) + 2) div 5 + d - 1;
          doe = yoe * 365 + yoe div 4 - yoe div 100 + doy
      in era * 146097 + doe - 719468)"

definition instant :: "go_time \<Rightarrow> int" where
  "instant t =
     (daysFromCivil (tmYear t) (tmMonth t) (tmDay t) * 86400 + tmHour t * 3600 + tmMinute t * 60 + tmSecond t - tmOffset t)
       * 1000000000 + tmNanos t"

definition timeBefore :: "go_time \<Rightarrow> go_time \<Rightarrow> bool" where
  "timeBefore t u \<longleftrightarrow> instant t < instant u"

definition zeroTime :: go_time where
  "zeroTime = \<lparr>tmYear = 1, tmMonth = 1, tmDay = 1, tmHour = 0, tmMinute = 0, tmSecond = 0, tmNanos = 0, tmOffset = 0\<rparr>"

definition isZeroTime :: "go_time \<Rightarrow> bool" where
  "isZeroTime t \<longleftrightarrow> instant t = instant zeroTime"

definition leapYear :: "int \<Rightarrow> bool" where
  "leapYear y \<longleftrightarrow> y mod 4 = 0 \<and> (y mod 100 \<noteq> 0 \<or> y mod 400 = 0)"

definition daysIn :: "int \<Rightarrow> int \<Rightarrow> int" where
  "daysIn m y = (if m = 2 then (if leapYear y then 29 else 28) else if m \<in> {4, 6, 9, 11} then 30 else 31)"

definition pad :: "nat \<Rightarrow> int \<Rightarrow> string" where
  "pad n i = (let s = natStr (nat i) in replicate (n - length s) (CHR ''0'') @ s)"

definition formatRFC3339 :: "go_time \<Rightarrow> string" where
  "formatRFC3339 t =
     pad 4 (tmYear t) @ ''-'' @ pad 2 (tmMonth t) @ ''-'' @ pad 2 (tmDay t) @ ''T'' @ pad 2 (tmHour t) @ '':'' @ pad 2 (tmMinute t)
       @ '':'' @ pad 2 (tmSecond t)
       @ (if tmOffset t = 0 then ''Z''
          else (let z = \<bar>tmOffset t\<bar> div 60
                in (if tmOffset t < 0 then ''-'' else ''+'') @ pad 2 (z div 60) @ '':'' @ pad 2 (z mod 60)))"

text \<open>\<open>time.Parse\<close> for a string of the shape \<open>2006-01-02T15:04:05-07:00\<close>.\<close>

definition numAt :: "nat \<Rightarrow> nat \<Rightarrow> string \<Rightarrow> int" where
  "numAt i n s = (case parseNat (take n (drop i s)) of None \<Rightarrow> 0 | Some k \<Rightarrow> int k)"

definition parseTimestamp :: "string \<Rightarrow> go_time option" where
  "parseTimestamp s =
     (let y = numAt 0 4 s; mo = numAt 5 2 s; d = numAt 8 2 s; h = numAt 11 2 s; mi = numAt 14 2 s; sec = numAt 17 2 s;
          zh = numAt 20 2 s; zm = numAt 23 2 s; z = (zh * 60 + zm) * 60
      in if mo < 1 \<or> 12 < mo \<or> 24 \<le> h \<or> 60 \<le> mi \<or> 60 \<le> sec \<or> 24 < zh \<or> 60 < zm \<or> d < 1 \<or> daysIn mo y < d then None
         else Some \<lparr>tmYear = y, tmMonth = mo, tmDay = d, tmHour = h, tmMinute = mi, tmSecond = sec, tmNanos = 0,
                tmOffset = (if take 1 (drop 19 s) = ''-'' then - z else z)\<rparr>)"

section \<open>The discovered systems\<close>

text \<open>Of an instance, the fields beyond those that \<open>ProcessMetrics\<close> names.\<close>

record instance_names =
  si_User :: string
  InstanceId :: string
  Hostname :: string

type_synonym wlm_instance = "instance_names sap_instance"

record sap_resource =
  IsComputeType :: bool
  IsInstanceKind :: bool
  RoleName :: string
  ResourceUri :: string

record replication_site =
  SiteRegion :: string
  SiteResources :: "sap_resource list"

record sap_system =
  AppHaHosts :: "string list"
  AppResources :: "sap_resource list"
  DbHaHosts :: "string list"
  DbRegion :: string
  ReplicationSites :: "replication_site list"

record instance_disk =
  DiskMapping :: string
  DeviceType :: string

record block_child =
  blName :: string
  blMountpoint :: string
  blSize :: string

text \<open>\<open>Children\<close> is \<open>None\<close> for a nil slice.\<close>

record block_device = block_child +
  Children :: "block_child list option"

section \<open>Series and requests\<close>

text \<open>The value of a series: an integer, or what \<open>strconv.ParseFloat\<close> returns for a string.\<close>

datatype metric_value = Whole int | Parsed string

record time_series =
  MetricType :: string
  MetricLabels :: labels
  MetricValue :: metric_value
  MetricTime :: int

record cloud_properties =
  cl_ProjectId :: string
  cl_InstanceId :: string
  cl_Region :: string
  cl_Zone :: string
  cl_InstanceName :: string

datatype validation_type = VT_UNSPECIFIED | VT_SYSTEM | VT_COROSYNC | VT_HANA | VT_NETWEAVER | VT_PACEMAKER | VT_HANA_SECURITY | VT_CUSTOM

record validation_detail =
  SapValidationType :: validation_type
  IsPresent :: bool
  Details :: labels

record insight_request =
  in_InstanceId :: string
  in_ProjectId :: string
  in_Zone :: string
  ValidationDetails :: "validation_detail list"

section \<open>The environment\<close>

datatype wlm_call =
    WExec cmd
  | Now
  | StatPath string
  | OpenOverride string
  | ReadInstanceInfo
  | InstanceDisks
  | MetricOfOS os_command_metric
  | EvalFile string "eval_metric list" bool
  | SAPInstancesCall
  | SAPSystemsCall
  | InterfaceAddrs
  | KernelVersionCall
  | PacemakerCall pm_call
  | ConfigureCall ci_call
  | DBCall db_call
  | RuleQuery string
  | Activation string string insight_request
  | WriteInsight string string insight_request
  | CreateTimeSeries string "time_series list"
  | WaitRetry
  | WBeat
  | ActivationTick
  | GcloudExists
  | CreateTemp
  | RemoveTemp string

text \<open>
  \<open>wlm_result\<close> is a command; \<open>osOf\<close> and \<open>evalOf\<close> the library of configurable metrics; \<open>activated\<close> says whether the
  answer was a status of 201; \<open>retryTime\<close> whether the pause ended before the context; \<open>positive\<close> whether a float read
  from a string is positive; \<open>decodeBlocks\<close> decodes the output of \<open>lsblk\<close>, \<open>encodeSeries\<close> and \<open>decodeSeries\<close>
  are \<open>protojson\<close>, \<open>shsprintf\<close> puts an argument
  into a shell command; \<open>sortByTime\<close> is \<open>sort.Slice\<close> by decreasing time.
  The worlds of the components may depend on what was called before.
\<close>

record 'row wlm_world =
  wRan :: "(wlm_call, pm_result) env"
  nowTime :: "(wlm_call, go_time) env"
  statOk :: "(wlm_call, bool) env"
  overrideLines :: "(wlm_call, string list option) env"
  wIgnored :: "(wlm_call, unit) env"
  disksOf :: "(wlm_call, instance_disk list) env"
  osOf :: "(wlm_call, string \<times> string) env"
  evalOf :: "(wlm_call, (string \<times> string) list) env"
  instancesOf :: "(wlm_call, wlm_instance list) env"
  systemsOf :: "(wlm_call, sap_system list) env"
  addrsOf :: "(wlm_call, string list option) env"
  kernelJSON :: "(wlm_call, string option) env"
  activated :: "(wlm_call, bool) env"
  written :: "(wlm_call, bool) env"
  created :: "(wlm_call, bool) env"
  retryTime :: "(wlm_call, bool) env"
  gcloudExists :: "(wlm_call, bool) env"
  tempFile :: "(wlm_call, string option) env"
  pacemakerWorld :: "wlm_call list \<Rightarrow> pm_world"
  configureWorld :: "wlm_call list \<Rightarrow> ci_world"
  configureSetup :: ci_setup
  grubState :: "wlm_call list \<Rightarrow> grub_vars"
  dbWorld :: "wlm_call list \<Rightarrow> 'row db_world"
  ruleRows :: "wlm_call list \<Rightarrow> (string, (string, 'row list) result) env"
  scanRow :: "'row \<Rightarrow> nat \<Rightarrow> (row_error, string list) result"
  positive :: "string \<Rightarrow> bool"
  decodeBlocks :: "string \<Rightarrow> block_device list option"
  encodeSeries :: "time_series \<Rightarrow> (string, string) result"
  decodeSeries :: "string \<Rightarrow> time_series option"
  shsprintf :: "string \<Rightarrow> string \<Rightarrow> string"
  sortByTime :: "(go_time \<times> string) list \<Rightarrow> (go_time \<times> string) list"

record remote_instance =
  ri_ProjectId :: string
  ri_Zone :: string
  ri_InstanceId :: string
  ri_InstanceName :: string
  SshHostAddress :: string

record remote_gcloud =
  gc_SshUsername :: string
  UseInternalIp :: bool
  TunnelThroughIap :: bool
  GcloudArgs :: string

record remote_ssh =
  ss_SshUsername :: string
  SshPrivateKeyPath :: string

record remote_collection =
  CollectionGcloud :: "remote_gcloud option"
  CollectionSsh :: "remote_ssh option"
  CollectionInstances :: "remote_instance list"

record wlm_params =
  Cloud :: cloud_properties
  CloudMachineType :: string
  AgentName :: string
  wp_AgentVersion :: string
  WorkloadConfig :: "workload_validation option"
  HasDiscovery :: bool
  OSVendorID :: string
  OSVersion :: string
  SendToCloudMonitoring :: bool
  IsBareMetal :: bool
  DBMetricsConfig :: "db_params option"
  InsightRules :: "rule list"
  IsRemote :: bool
  RemoteCollection :: "remote_collection option"

abbreviation wexec :: "'row wlm_world \<Rightarrow> cmd \<Rightarrow> (wlm_call, pm_result) prog" where
  "wexec w c \<equiv> call (wRan w) (WExec c)"

section \<open>Labels\<close>

definition appendLabels :: "labels \<Rightarrow> labels \<Rightarrow> labels" where
  "appendLabels dst src = dst ++ src"

fun addOSLabels :: "'row wlm_world \<Rightarrow> os_command_metric list \<Rightarrow> labels \<Rightarrow> (wlm_call, labels) prog" where
  "addOSLabels w [] l = ret l"
| "addOSLabels w (m # ms) l = do {
     kv \<leftarrow> call (osOf w) (MetricOfOS m);
     addOSLabels w ms (if fst kv \<noteq> [] then l(fst kv \<mapsto> snd kv) else l)
   }"

text \<open>\<open>createTimeSeries\<close> with the time read from the clock.\<close>

definition createTimeSeries :: "'row wlm_world \<Rightarrow> string \<Rightarrow> labels \<Rightarrow> metric_value \<Rightarrow> (wlm_call, time_series list) prog" where
  "createTimeSeries w t l v = do {
     n \<leftarrow> call (nowTime w) Now;
     ret [\<lparr>MetricType = t, MetricLabels = l, MetricValue = v, MetricTime = instant n div 1000000000\<rparr>]
   }"

end
