(* ===== verification/HanaBackups.thy ===== *)
theory HanaBackups
  imports WorkloadTypes
begin

text \<open>
  The metrics of the last backups of HANA (\<open>hanametrics.go\<close>): the tenants of the host are found in the list of SAP
  services, and for each the times of its last full, delta and snapshot backup in its backup logs.
\<close>

section \<open>Patterns\<close>

definition timestampRe :: regex where
  "timestampRe = seqs ([times 4 reDigit, Lit ''-'', times 2 reDigit, Lit ''-'', times 2 reDigit, Lit ''T'', times 2 reDigit,
     Lit '':'', times 2 reDigit, Lit '':'', times 2 reDigit, Class (\<lambda>c. c = CHR ''+'' \<or> c = CHR ''-''), times 2 reDigit,
     Lit '':'', times 2 reDigit])"

definition successfulBackupRegex :: regex where
  "successfulBackupRegex = seqs [AtStart, Group 1 timestampRe, Plus reSpace, Plus reNonSpace, Plus reSpace,
     Group 2 (Plus reNonSpace), Plus reSpace, Lit ''INFO'', Plus reSpace, Lit ''BACKUP'', Plus reSpace,
     Group 3 (Alt (Lit ''SNAPSHOT'') (Lit ''SAVE DATA'')), Plus reSpace, Lit ''finished'', Plus reSpace, Lit ''successfully'']"

definition backupCommandRegex :: regex where
  "backupCommandRegex = seqs [AtStart, timestampRe, Plus reSpace, Plus reNonSpace, Plus reSpace,
     Group 1 (Plus reNonSpace), Plus reSpace, Lit ''INFO'', Plus reSpace, Lit ''BACKUP'', Plus reSpace, Lit ''command: '',
     Group 2 (Star reAny)]"

text \<open>The classes of the last pattern contain the bar.\<close>

definition isUpper :: "char \<Rightarrow> bool" where
  "isUpper c \<longleftrightarrow> 65 \<le> codeOf c \<and> codeOf c \<le> 90"

definition isLower :: "char \<Rightarrow> bool" where
  "isLower c \<longleftrightarrow> 97 \<le> codeOf c \<and> codeOf c \<le> 122"

definition isBar :: "char \<Rightarrow> bool" where
  "isBar c \<longleftrightarrow> codeOf c = 124"

definition sidRe :: regex where
  "sidRe = seqs [Class isUpper, Class (\<lambda>c. isUpper c \<or> isBar c \<or> isDigit c), Class (\<lambda>c. isUpper c \<or> isBar c \<or> isDigit c)]"

definition sapServicesStartsrvPattern :: regex where
  "sapServicesStartsrvPattern = seqs [Lit ''startsrv pf=/usr/sap/'', Group 1 sidRe,
     Plus (Class (\<lambda>c. c = chSlash \<or> isBar c \<or> isLower c \<or> isUpper c \<or> isDigit c)), Lit ''/profile/'', Group 2 sidRe, Lit ''_'',
     Group 3 (Plus (Class (\<lambda>c. isLower c \<or> isBar c \<or> isUpper c))), Group 4 (Plus reDigit), Lit ''_'', Group 5 (Plus reNonSpace)]"

section \<open>Tenants\<close>

record tenant =
  t_sid :: string
  t_instanceID :: string
  t_tenantName :: string

definition tenantOf :: "string \<Rightarrow> tenant list" where
  "tenantOf line =
     (if hasPrefix line ''#'' then []
      else case findSubmatch sapServicesStartsrvPattern line of
             None \<Rightarrow> []
           | Some g \<Rightarrow> (if group 3 g \<noteq> ''HDB'' then []
                        else [\<lparr>t_sid = group 1 g, t_instanceID = group 4 g, t_tenantName = group 5 g\<rparr>]))"

definition discoverHANADBTenants :: "'row wlm_world \<Rightarrow> (wlm_call, tenant list) prog" where
  "discoverHANADBTenants w = do {
     r \<leftarrow> wexec w (CmdSplit ''grep'' ([CHR 0x27] @ ''pf='' @ [CHR 0x27] @ '' /usr/sap/sapservices'') []);
     ret (if CmdError r \<noteq> None then [] else concat (map tenantOf (splitOn chNL (trimSuffix (StdOut r) [chNL]))))
   }"

section \<open>Backup logs\<close>

datatype backup_type = DELTA | FULL | SNAPSHOT

record backup_log =
  finishTime :: go_time
  backupID :: string
  bl_type :: string

definition backupOf :: "string \<Rightarrow> backup_log list" where
  "backupOf line =
     (case findSubmatch successfulBackupRegex line of
        None \<Rightarrow> []
      | Some g \<Rightarrow> (case parseTimestamp (group 1 g) of
                     None \<Rightarrow> []
                   | Some t \<Rightarrow> [\<lparr>finishTime = t, backupID = group 2 g, bl_type = group 3 g\<rparr>]))"

text \<open>The command that prints the lines of the backup logs under a directory that match a pattern.\<close>

definition findFormat :: "string \<Rightarrow> string" where
  "findFormat args = ''sh -c '' @ [CHR 0x27] @ ''find %s -name '' @ quote ''backup.*log'' @ '' -exec grep --no-filename -E '' @ [chQuote] @ args @ [chQuote]
     @ '' {} + '' @ [CHR 0x27]"

definition findLogs :: "'row wlm_world \<Rightarrow> string \<Rightarrow> string \<Rightarrow> cmd" where
  "findLogs w dirPath args = CmdSplit ''sudo'' (shsprintf w (findFormat args) dirPath) []"

definition parseBackups :: "string \<Rightarrow> backup_log list" where
  "parseBackups out = concat (map backupOf (splitOn chNL (trimSuffix out [chNL])))"

definition fetchSuccessfulBackups :: "'row wlm_world \<Rightarrow> string \<Rightarrow> (wlm_call, (string, backup_log list) result) prog" where
  "fetchSuccessfulBackups w dirPath = do {
     r \<leftarrow> wexec w (findLogs w dirPath ''(SNAPSHOT|SAVE DATA) finished successfully'');
     ret (case CmdError r of
            Some e \<Rightarrow> Inl e
          | None \<Rightarrow> Inr (parseBackups (StdOut r)))
   }"

definition typeOfCommand :: "string \<Rightarrow> backup_type" where
  "typeOfCommand command =
     (let c = toLower command
      in if contains c ''differential'' then DELTA
         else if contains c ''incremental'' then DELTA
         else if contains c ''snapshot'' then SNAPSHOT
         else FULL)"

text \<open>The threads with the type of their last command, the last ones first.\<close>

type_synonym thread_types = "(string \<times> backup_type) list"

definition addThread :: "string \<Rightarrow> thread_types \<Rightarrow> thread_types" where
  "addThread line m =
     (case findSubmatch backupCommandRegex line of
        None \<Rightarrow> m
      | Some g \<Rightarrow> (group 1 g, typeOfCommand (group 2 g)) # m)"

definition threadsIn :: "string \<Rightarrow> thread_types" where
  "threadsIn out = fold addThread (splitOn chNL (trimSuffix out [chNL])) []"

definition fetchBackupThreadIDs :: "'row wlm_world \<Rightarrow> string \<Rightarrow> (wlm_call, (string, thread_types) result) prog" where
  "fetchBackupThreadIDs w dirPath = do {
     r \<leftarrow> wexec w (findLogs w dirPath (''INFO'' @ [chBackslash] @ ''s+BACKUP'' @ [chBackslash] @ ''s+command:''));
     ret (case CmdError r of
            Some e \<Rightarrow> Inl e
          | None \<Rightarrow> Inr (threadsIn (StdOut r)))
   }"

section \<open>The last backups\<close>

record last_backups =
  lastFull :: go_time
  lastDelta :: go_time
  lastSnapshot :: go_time

definition noBackups :: last_backups where
  "noBackups = \<lparr>lastFull = zeroTime, lastDelta = zeroTime, lastSnapshot = zeroTime\<rparr>"

definition noteBackup :: "backup_type \<Rightarrow> go_time \<Rightarrow> last_backups \<Rightarrow> last_backups" where
  "noteBackup t f b =
     (if isZeroTime (lastFull b) \<and> t = FULL then b\<lparr>lastFull := f\<rparr>
      else if isZeroTime (lastDelta b) \<and> t = DELTA then b\<lparr>lastDelta := f\<rparr>
      else if isZeroTime (lastSnapshot b) \<and> t = SNAPSHOT then b\<lparr>lastSnapshot := f\<rparr>
      else b)"

fun scanBackups :: "thread_types \<Rightarrow> (go_time \<times> string) list \<Rightarrow> last_backups \<Rightarrow> last_backups" where
  "scanBackups m [] b = b"
| "scanBackups m ((time, thread) # xs) b =
     (if \<not> isZeroTime (lastDelta b) \<and> \<not> isZeroTime (lastFull b) \<and> \<not> isZeroTime (lastSnapshot b) then b
      else scanBackups m xs (case map_of m thread of None \<Rightarrow> b | Some t \<Rightarrow> noteBackup t time b))"

definition traceDir :: "tenant \<Rightarrow> string" where
  "traceDir t = ''/usr/sap/'' @ t_sid t @ ''/HDB'' @ t_instanceID t @ ''/'' @ t_tenantName t @ ''/trace/''"

text \<open>Of a backup only the time and the thread are read after the sort.\<close>

definition fetchLastBackupTimestamps ::
  "'row wlm_world \<Rightarrow> tenant \<Rightarrow> (wlm_call, (string, last_backups) result) prog" where
  "fetchLastBackupTimestamps w t =
     (let dirPath = traceDir t
      in bindE (fetchSuccessfulBackups w dirPath) (\<lambda>backups.
           if backups = [] then ret (Inr noBackups)
           else bindE (fetchBackupThreadIDs w dirPath) (\<lambda>m.
             if m = [] then ret (Inr noBackups)
             else ret (Inr (scanBackups m (sortByTime w (map (\<lambda>x. (finishTime x, backupID x)) backups)) noBackups)))))"

section \<open>The oldest of the last backups\<close>

record backup_results =
  fullName :: string
  fullTime :: string
  deltaName :: string
  deltaTime :: string
  snapshotName :: string
  snapshotTime :: string

record oldest =
  oFull :: go_time
  oDelta :: go_time
  oSnapshot :: go_time
  oResults :: backup_results

definition noResults :: backup_results where
  "noResults = \<lparr>fullName = [], fullTime = [], deltaName = [], deltaTime = [], snapshotName = [], snapshotTime = []\<rparr>"

definition noteTenant :: "string \<Rightarrow> last_backups \<Rightarrow> oldest \<Rightarrow> oldest" where
  "noteTenant name b s =
     (let s1 = (if timeBefore (lastFull b) (oFull s) then s\<lparr>oFull := lastFull b, oResults := (oResults s)\<lparr>fullName := name\<rparr>\<rparr> else s);
          s2 = (if timeBefore (lastDelta b) (oDelta s1) then s1\<lparr>oDelta := lastDelta b, oResults := (oResults s1)\<lparr>deltaName := name\<rparr>\<rparr> else s1)
      in if timeBefore (lastSnapshot b) (oSnapshot s2)
         then s2\<lparr>oSnapshot := lastSnapshot b, oResults := (oResults s2)\<lparr>snapshotName := name\<rparr>\<rparr> else s2)"

definition formatted :: "oldest \<Rightarrow> backup_results" where
  "formatted s = (oResults s)\<lparr>fullTime := formatRFC3339 (oFull s), deltaTime := formatRFC3339 (oDelta s),
     snapshotTime := formatRFC3339 (oSnapshot s)\<rparr>"

primrec tenantLoop ::
  "'row wlm_world \<Rightarrow> tenant list \<Rightarrow> oldest \<Rightarrow> (wlm_call, backup_results) prog" where
  "tenantLoop w [] s = ret (formatted s)"
| "tenantLoop w (t # ts) s = do {
     r \<leftarrow> fetchLastBackupTimestamps w t;
     (case r of
        Inl e \<Rightarrow> ret ((oResults s)\<lparr>fullName := t_tenantName t, deltaName := t_tenantName t, snapshotName := t_tenantName t\<rparr>)
      | Inr b \<Rightarrow> tenantLoop w ts (noteTenant (t_tenantName t) b s))
   }"

definition hanaBackupMetrics ::
  "'row wlm_world \<Rightarrow> (wlm_call, backup_results) prog" where
  "hanaBackupMetrics w = do {
     ts \<leftarrow> discoverHANADBTenants w;
     if ts = [] then ret noResults
     else do {
       f \<leftarrow> call (nowTime w) Now;
       d \<leftarrow> call (nowTime w) Now;
       s \<leftarrow> call (nowTime w) Now;
       tenantLoop w ts \<lparr>oFull = f, oDelta = d, oSnapshot = s, oResults = noResults\<rparr>
     }
   }"

section \<open>The last backup of each type\<close>

fun lastOf :: "backup_type \<Rightarrow> last_backups \<Rightarrow> go_time" where
  "lastOf FULL b = lastFull b"
| "lastOf DELTA b = lastDelta b"
| "lastOf SNAPSHOT b = lastSnapshot b"

definition timesOf :: "backup_type \<Rightarrow> thread_types \<Rightarrow> (go_time \<times> string) list \<Rightarrow> int set" where
  "timesOf T m xs = (\<lambda>(time, thread). instant time) ` set (filter (\<lambda>(time, thread). map_of m thread = Some T) xs)"

definition latest :: "int set \<Rightarrow> int" where
  "latest A = Max (insert (instant zeroTime) A)"

lemma lastOf_noBackups [simp]: "lastOf T noBackups = zeroTime"
  by (cases T) (simp_all add: noBackups_def)

lemma isZeroTime_zeroTime [simp]: "isZeroTime zeroTime"
  by (simp add: isZeroTime_def)

lemma lastOf_noteBackup:
  "lastOf T (noteBackup t f b) = (if T = t \<and> isZeroTime (lastOf T b) then f else lastOf T b)"
  by (cases T; cases t) (simp_all add: noteBackup_def)

lemma all_types: "(\<forall>T. \<not> isZeroTime (lastOf T b)) \<longleftrightarrow>
    \<not> isZeroTime (lastDelta b) \<and> \<not> isZeroTime (lastFull b) \<and> \<not> isZeroTime (lastSnapshot b)"
  by (metis backup_type.exhaust lastOf.simps)

lemma timesOf_Cons:
  "timesOf T m ((time, thread) # xs) = (if map_of m thread = Some T then insert (instant time) (timesOf T m xs) else timesOf T m xs)"
  by (auto simp: timesOf_def)

lemma latest_insert:
  assumes "finite A" "\<forall>a \<in> A. a \<le> i" "instant zeroTime < i"
  shows "latest (insert i A) = i"
  unfolding latest_def using assms by (intro Max_eqI) auto

lemma scanBackups_latest:
  "sorted_wrt (\<lambda>x y. instant (fst y) \<le> instant (fst x)) xs \<Longrightarrow> \<forall>x \<in> set xs. instant zeroTime < instant (fst x) \<Longrightarrow>
     instant (lastOf T (scanBackups m xs b)) = (if isZeroTime (lastOf T b) then latest (timesOf T m xs) else instant (lastOf T b))"
proof (induction xs arbitrary: b)
  case Nil
  then show ?case
    by (simp add: timesOf_def latest_def isZeroTime_def)
next
  case (Cons x xs)
  obtain time thread where x: "x = (time, thread)"
    by fastforce
  have older: "\<forall>a \<in> timesOf T m xs. a \<le> instant time" and fin: "finite (timesOf T m xs)"
    using Cons.prems(1) by (auto simp: timesOf_def x)
  have later: "instant zeroTime < instant time"
    using Cons.prems(2) by (simp add: x)
  have IH: "instant (lastOf T (scanBackups m xs c)) = (if isZeroTime (lastOf T c) then latest (timesOf T m xs) else instant (lastOf T c))" for c
    using Cons by simp
  show ?case
  proof (cases "\<forall>T. \<not> isZeroTime (lastOf T b)")
    case True
    then show ?thesis
      by (simp add: x all_types[symmetric])
  next
    case False
    then have scan: "scanBackups m (x # xs) b = scanBackups m xs (case map_of m thread of None \<Rightarrow> b | Some t \<Rightarrow> noteBackup t time b)"
      by (auto simp: x all_types)
    show ?thesis
      unfolding scan IH
      using latest_insert[OF fin older later] later
      by (auto simp: x timesOf_Cons lastOf_noteBackup isZeroTime_def split: option.splits)
  qed
qed

text \<open>What the sort is relied on for.\<close>

definition sortsByTime :: "'row wlm_world \<Rightarrow> bool" where
  "sortsByTime w \<longleftrightarrow> (\<forall>xs. set (sortByTime w xs) = set xs \<and> sorted_wrt (\<lambda>x y. instant (fst y) \<le> instant (fst x)) (sortByTime w xs))"

definition backupsIn :: "string \<Rightarrow> (go_time \<times> string) list" where
  "backupsIn out = map (\<lambda>x. (finishTime x, backupID x)) (parseBackups out)"

definition successCmd :: "'row wlm_world \<Rightarrow> tenant \<Rightarrow> wlm_call" where
  "successCmd w t = WExec (findLogs w (traceDir t) ''(SNAPSHOT|SAVE DATA) finished successfully'')"

definition commandCmd :: "'row wlm_world \<Rightarrow> tenant \<Rightarrow> wlm_call" where
  "commandCmd w t = WExec (findLogs w (traceDir t) (''INFO'' @ [chBackslash] @ ''s+BACKUP'' @ [chBackslash] @ ''s+command:''))"

lemma wp_fetchSuccessfulBackups:
  "wp (fetchSuccessfulBackups w (traceDir t)) Q log =
     Q (case CmdError (wRan w log (successCmd w t)) of
          Some e \<Rightarrow> Inl e
        | None \<Rightarrow> Inr (parseBackups (StdOut (wRan w log (successCmd w t)))))
       (successCmd w t # log)"
  by (simp only: fetchSuccessfulBackups_def successCmd_def wp_bind wp_call wp_return)

lemma wp_fetchBackupThreadIDs:
  "wp (fetchBackupThreadIDs w (traceDir t)) Q log =
     Q (case CmdError (wRan w log (commandCmd w t)) of
          Some e \<Rightarrow> Inl e
        | None \<Rightarrow> Inr (threadsIn (StdOut (wRan w log (commandCmd w t)))))
       (commandCmd w t # log)"
  by (simp only: fetchBackupThreadIDs_def commandCmd_def wp_bind wp_call wp_return)

lemma timesOf_cong: "set xs = set ys \<Longrightarrow> timesOf T m xs = timesOf T m ys"
  by (simp add: timesOf_def)

lemma latest_empty [simp]: "latest {} = instant zeroTime"
  by (simp add: latest_def)

lemma timesOf_empty [simp]: "timesOf T m [] = {}" "timesOf T [] xs = {}"
  by (auto simp: timesOf_def)

text \<open>C18. When every time in the log of successes is after the zero time, then for every type of backup the time found
  for a tenant is that of the latest success of a thread whose last printed backup command was of that type, or the
  zero time without such a success; an error is one of the two commands. A thread that ran commands of several types
  counts for the last of them only.\<close>

theorem last_backups_are_latest:
  assumes "sortsByTime w"
    and "\<forall>x \<in> set (backupsIn (StdOut (wRan w log (successCmd w t)))). instant zeroTime < instant (fst x)"
  shows "wp (fetchLastBackupTimestamps w t) (\<lambda>r _. case r of
      Inl e \<Rightarrow> CmdError (wRan w log (successCmd w t)) = Some e \<or> CmdError (wRan w (successCmd w t # log) (commandCmd w t)) = Some e
    | Inr b \<Rightarrow> \<forall>T. instant (lastOf T b) = latest (timesOf T (threadsIn (StdOut (wRan w (successCmd w t # log) (commandCmd w t))))
                      (backupsIn (StdOut (wRan w log (successCmd w t)))))) log"
proof -
  let ?r1 = "wRan w log (successCmd w t)"
  let ?r2 = "wRan w (successCmd w t # log) (commandCmd w t)"
  let ?sorted = "sortByTime w (backupsIn (StdOut ?r1))"
  have sorted: "set ?sorted = set (backupsIn (StdOut ?r1))" "sorted_wrt (\<lambda>x y. instant (fst y) \<le> instant (fst x)) ?sorted"
    using assms(1) by (auto simp: sortsByTime_def)
  have scan: "instant (lastOf T (scanBackups m ?sorted noBackups)) = latest (timesOf T m (backupsIn (StdOut ?r1)))" for T m
    using scanBackups_latest[OF sorted(2), of T m noBackups] assms(2) timesOf_cong[OF sorted(1), of T m] sorted(1) by simp
  have empty: "backupsIn out = []" if "parseBackups out = []" for out
    using that by (simp add: backupsIn_def)
  show ?thesis
    using scan
    by (auto simp: fetchLastBackupTimestamps_def Let_def wp_bindE wp_if wp_fetchSuccessfulBackups wp_fetchBackupThreadIDs wp_return
        backupsIn_def[symmetric] empty split: option.splits)
qed

section \<open>Examples\<close>

definition sampleTenant :: tenant where
  "sampleTenant = \<lparr>t_sid = ''HDB'', t_instanceID = ''00'', t_tenantName = ''vm''\<rparr>"

definition sampleSuccesses :: string where
  "sampleSuccesses = ''2024-05-01T10:00:00+02:00 P1 a INFO BACKUP SAVE DATA finished successfully'' @ [chNL]
     @ ''2024-05-02T10:00:00+02:00 P1 b INFO BACKUP SAVE DATA finished successfully'' @ [chNL]"

definition sampleCommands :: string where
  "sampleCommands = ''2024-05-01T09:00:00+02:00 P1 a INFO BACKUP command: backup data'' @ [chNL]
     @ ''2024-05-02T09:00:00+02:00 P1 b INFO BACKUP command: BACKUP DATA INCREMENTAL'' @ [chNL]"

definition logWorld :: "'row wlm_world \<Rightarrow> 'row wlm_world" where
  "logWorld w = w\<lparr>
     wRan := (\<lambda>log c. \<lparr>StdOut = (if log = [] then sampleSuccesses else sampleCommands), StdErr = [], CmdError = None, ExitCode = 0,
                          ExitStatusParsed = True, ExecutableFound = True\<rparr>),
     sortByTime := sort_key (\<lambda>x. - instant (fst x))\<rparr>"

lemma tenant_found:
  "tenantOf ''LD_LIBRARY_PATH=/usr; /usr/sap/HDB/exe/sapstartsrv pf=/usr/sap/HDB/SYS/profile/HDB_HDB00_vm -D'' = [sampleTenant]"
  by code_simp

text \<open>A time is reported in the zone of the log, not in UTC.\<close>

lemma zone_of_log_kept:
  "map_option formatRFC3339 (parseTimestamp ''2024-05-01T10:00:00+02:00'') = Some ''2024-05-01T10:00:00+02:00''"
  by code_simp

lemma sampleSuccesses_parsed:
  "backupsIn sampleSuccesses = [(\<lparr>tmYear = 2024, tmMonth = 5, tmDay = 1, tmHour = 10, tmMinute = 0, tmSecond = 0, tmNanos = 0, tmOffset = 7200\<rparr>, ''a''),
     (\<lparr>tmYear = 2024, tmMonth = 5, tmDay = 2, tmHour = 10, tmMinute = 0, tmSecond = 0, tmNanos = 0, tmOffset = 7200\<rparr>, ''b'')]"
  by code_simp

lemma sampleCommands_parsed: "threadsIn sampleCommands = [(''b'', DELTA), (''a'', FULL)]"
  by code_simp

lemma logWorld_sorts: "sortsByTime (logWorld w)"
proof -
  have "sorted_wrt (\<lambda>x y. instant (fst y) \<le> instant (fst x)) (sort_key (\<lambda>x. - instant (fst x)) xs)" for xs :: "(go_time \<times> string) list"
    using sorted_sort_key[of "\<lambda>x. - instant (fst x)" xs] by (simp add: sorted_wrt_map)
  then show ?thesis
    by (simp add: sortsByTime_def logWorld_def)
qed

lemma last_backups_are_latest_witness:
  "\<forall>w. wp (fetchLastBackupTimestamps (logWorld w) sampleTenant) (\<lambda>r _. case r of
      Inl e \<Rightarrow> False
    | Inr b \<Rightarrow> \<forall>T. instant (lastOf T b) = latest (timesOf T [(''b'', DELTA), (''a'', FULL)] (backupsIn sampleSuccesses))) []"
proof
  fix w :: "'a wlm_world"
  have out: "StdOut (wRan (logWorld w) [] c) = sampleSuccesses" "StdOut (wRan (logWorld w) [d] c) = sampleCommands"
      "CmdError (wRan (logWorld w) l c) = None" for c d l
    by (simp_all add: logWorld_def)
  have "\<forall>x \<in> set (backupsIn (StdOut (wRan (logWorld w) [] (successCmd (logWorld w) sampleTenant)))). instant zeroTime < instant (fst x)"
    unfolding out by (simp add: sampleSuccesses_parsed instant_def zeroTime_def daysFromCivil_def Let_def)
  from last_backups_are_latest[OF logWorld_sorts this]
  show "wp (fetchLastBackupTimestamps (logWorld w) sampleTenant) (\<lambda>r _. case r of
      Inl e \<Rightarrow> False
    | Inr b \<Rightarrow> \<forall>T. instant (lastOf T b) = latest (timesOf T [(''b'', DELTA), (''a'', FULL)] (backupsIn sampleSuccesses))) []"
    by (rule wp_mono) (auto simp: out sampleCommands_parsed split: sum.splits)
qed

end
