(* ===== verification/WorkloadHana.thy ===== *)
theory WorkloadHana
  imports HanaBackups
begin

text \<open>
  The HANA metrics of the workload manager collection (\<open>hanametrics.go\<close>): the disks of the data, log and binary
  volumes, the zones of the cluster and of the replication, the backups and the hooks.
\<close>

section \<open>The volume of a path\<close>

definition volumeMountPoint :: "'row wlm_world \<Rightarrow> string \<Rightarrow> (wlm_call, string) prog" where
  "volumeMountPoint w path = do {
     r \<leftarrow> wexec w (CmdSplit ''df'' (''--output=target '' @ path) []);
     ret (if CmdError r \<noteq> None then []
          else (let lines = splitOn chNL (trimSpace (StdOut r))
                in if length lines \<noteq> 2 then [] else trimSpace (lines ! 1)))
   }"

definition fetchVolumeMountPointFromGlobalINI ::
  "'row wlm_world \<Rightarrow> disk_volume_metric \<Rightarrow> string \<Rightarrow> (wlm_call, string) prog" where
  "fetchVolumeMountPointFromGlobalINI w volume globalINILocation = do {
     r \<leftarrow> wexec w (CmdSplit ''grep'' (BasepathVolume volume @ '' '' @ globalINILocation) []);
     if CmdError r \<noteq> None then ret []
     else (let vList = goFields (StdOut r)
           in if length vList < 3 then ret [] else volumeMountPoint w (vList ! 2))
   }"

definition fetchVolumeMountPointFromHDBIndexserverPath :: "'row wlm_world \<Rightarrow> string \<Rightarrow> (wlm_call, string) prog" where
  "fetchVolumeMountPointFromHDBIndexserverPath w sidAdminUser = do {
     r \<leftarrow> wexec w (CmdSplit ''sudo'' (''-i -u '' @ sidAdminUser @ '' whereis hdbindexserver'') []);
     if CmdError r \<noteq> None then ret []
     else (let vList = goFields (StdOut r)
           in if length vList < 2 then ret [] else volumeMountPoint w (vList ! 1))
   }"

definition fetchVolumeMountPointFromDirInstanceEnv :: "'row wlm_world \<Rightarrow> string \<Rightarrow> (wlm_call, string) prog" where
  "fetchVolumeMountPointFromDirInstanceEnv w sidAdminUser = do {
     r \<leftarrow> wexec w (CmdSplit ''sudo'' (''-i -u '' @ sidAdminUser @ '' /bin/sh -c '' @ [CHR 0x27] @ ''echo $DIR_INSTANCE'' @ [CHR 0x27]) []);
     if CmdError r \<noteq> None then ret []
     else (let vList = goFields (StdOut r)
           in if length vList < 1 then ret [] else volumeMountPoint w (vList ! 0))
   }"

section \<open>The disk of a volume\<close>

record disk_info =
  di_type :: string
  di_mountpoint :: string
  di_size :: string
  di_pdsize :: string
  di_blockdevice :: string

definition noDisk :: disk_info where
  "noDisk = \<lparr>di_type = [], di_mountpoint = [], di_size = [], di_pdsize = [], di_blockdevice = []\<rparr>"

text \<open>After an error of \<open>ParseInt\<close> the size is 0, or the bound that was exceeded.\<close>

definition extractSize :: "string \<Rightarrow> int" where
  "extractSize msg =
     (let val = trim [chQuote] msg; digits = (if hasPrefix val ''-'' \<or> hasPrefix val ''+'' then drop 1 val else val)
      in case parseInt64 val of
           Some i \<Rightarrow> i
         | None \<Rightarrow> (if digits \<noteq> [] \<and> list_all isDigit digits then (if hasPrefix val ''-'' then int64Min else int64Max) else 0))"

definition childrenOf :: "block_device \<Rightarrow> block_child list" where
  "childrenOf d = (case Children d of Some cs \<Rightarrow> cs | None \<Rightarrow> [block_child.truncate d])"

text \<open>The first device with a child on the mount point, and that child.\<close>

fun findDevice :: "string \<Rightarrow> block_device list \<Rightarrow> (block_device \<times> block_child) option" where
  "findDevice mountpoint [] = None"
| "findDevice mountpoint (d # ds) =
     (case List.find (\<lambda>c. blMountpoint c = mountpoint) (childrenOf d) of
        Some c \<Rightarrow> Some (d, c)
      | None \<Rightarrow> findDevice mountpoint ds)"

definition setDiskInfoForDevice :: "instance_disk list \<Rightarrow> block_device \<Rightarrow> string \<Rightarrow> string \<Rightarrow> disk_info" where
  "setDiskInfoForDevice disks d matchedMountPoint matchedSize =
     (case List.find (\<lambda>disk. hasSuffix (blName d) (DiskMapping disk)) disks of
        None \<Rightarrow> noDisk
      | Some disk \<Rightarrow> \<lparr>di_type = toLower (DeviceType disk), di_mountpoint = matchedMountPoint, di_size = matchedSize,
          di_pdsize = intStr (extractSize (blSize d)), di_blockdevice = blName d\<rparr>)"

definition diskInfo :: "'row wlm_world \<Rightarrow> disk_volume_metric \<Rightarrow> string \<Rightarrow> string \<Rightarrow> (wlm_call, disk_info) prog" where
  "diskInfo w volume globalINILocation sidAdminUser =
     (if MetricSource volume \<notin> {1, 2, 3} then ret noDisk
      else do {
        mp \<leftarrow> (if MetricSource volume = 1 then fetchVolumeMountPointFromGlobalINI w volume globalINILocation
               else if MetricSource volume = 2 then fetchVolumeMountPointFromHDBIndexserverPath w sidAdminUser
               else fetchVolumeMountPointFromDirInstanceEnv w sidAdminUser);
        if mp = [] then ret noDisk
        else do {
          r \<leftarrow> wexec w (CmdSplit ''lsblk'' ''-b -p -J -o name,type,mountpoint,size'' []);
          (case decodeBlocks w (StdOut r) of
             None \<Rightarrow> ret noDisk
           | Some ds \<Rightarrow> (case findDevice mp ds of
                 None \<Rightarrow> ret noDisk
               | Some (d, c) \<Rightarrow> do {
                   disks \<leftarrow> call (disksOf w) InstanceDisks;
                   ret (setDiskInfoForDevice disks d (blMountpoint c) (intStr (extractSize (blSize c))))
                 }))
        }
      })"

section \<open>Zones and regions\<close>

text \<open>\<open>/projects/(.+)/zones/(.+)/instances/(.+)\<close>\<close>

definition instanceURIRegex :: regex where
  "instanceURIRegex = seqs [Lit ''/projects/'', Group 1 (Plus reAny), Lit ''/zones/'', Group 2 (Plus reAny), Lit ''/instances/'', Group 3 (Plus reAny)]"

definition noteHost :: "cloud_properties \<Rightarrow> string \<Rightarrow> bool \<times> string list \<Rightarrow> bool \<times> string list" where
  "noteHost cp uri s =
     (case findSubmatch instanceURIRegex uri of
        None \<Rightarrow> s
      | Some g \<Rightarrow>
          if group 3 g = cl_InstanceName cp then (True, snd s)
          else if group 2 g = cl_Zone cp \<and> group 3 g \<notin> set (snd s) then (fst s, snd s @ [group 3 g])
          else s)"

primrec haZones :: "cloud_properties \<Rightarrow> sap_system list \<Rightarrow> string" where
  "haZones cp [] = []"
| "haZones cp (s # ss) =
     (let r = fold (noteHost cp) (DbHaHosts s) (False, [])
      in if fst r \<and> snd r \<noteq> [] then joinWith '','' (snd r) else haZones cp ss)"

definition checkHAZones :: "'row wlm_world \<Rightarrow> wlm_params \<Rightarrow> (wlm_call, string) prog" where
  "checkHAZones w p = do {
     ss \<leftarrow> call (systemsOf w) SAPSystemsCall;
     ret (haZones (Cloud p) ss)
   }"

definition instanceNameFromResources :: "sap_resource list \<Rightarrow> string" where
  "instanceNameFromResources rs =
     (case List.find IsInstanceKind rs of None \<Rightarrow> [] | Some r \<Rightarrow> ExtractFromURI (ResourceUri r) ''instances'')"

definition drSites :: "sap_system list \<Rightarrow> string list" where
  "drSites ss = concat (map (\<lambda>s. map (\<lambda>site. instanceNameFromResources (SiteResources site))
     (filter (\<lambda>site. SiteRegion site = DbRegion s) (ReplicationSites s))) ss)"

definition checkDRRegions :: "'row wlm_world \<Rightarrow> string \<Rightarrow> (wlm_call, string) prog" where
  "checkDRRegions w sidAdminUser = do {
     r \<leftarrow> wexec w (CmdSplit ''sudo'' (''-i -u '' @ sidAdminUser @ '' hdbnsutil -sr_state | grep '' @ quote ''^mode: primary'') []);
     if CmdError r \<noteq> None \<and> \<not> ExitStatusParsed r then ret []
     else if ExitCode r \<noteq> 0 then ret []
     else do {
       ss \<leftarrow> call (systemsOf w) SAPSystemsCall;
       ret (joinWith '','' (drSites ss))
     }
   }"

section \<open>Hooks\<close>

definition chksrvHookActive :: "'row wlm_world \<Rightarrow> wlm_params \<Rightarrow> wlm_instance \<Rightarrow> (wlm_call, string) prog" where
  "chksrvHookActive w p i =
     (let filename = (if OSVendorID p = ''sles'' then ''nameserver_suschksrv.trc'' else ''nameserver_chksrv.trc'');
          path = ''/usr/sap/'' @ Sapsid i @ ''/'' @ InstanceId (si_rest i) @ ''/'' @ Hostname (si_rest i) @ ''/trace/'' @ filename
      in do {
        r \<leftarrow> wexec w (CmdArgs ''test'' [''-f'', path] []);
        ret (if CmdError r \<noteq> None then ''false'' else ''true'')
      })"

section \<open>The labels of HANA\<close>

definition setDiskLabel :: "disk_info \<Rightarrow> value_metric \<Rightarrow> labels \<Rightarrow> labels" where
  "setDiskLabel d m l =
     (let k = mi_label (MetricInfo m)
      in if mValue m = 1 then l(k \<mapsto> di_type d)
         else if mValue m = 2 then l(k \<mapsto> di_mountpoint d)
         else if mValue m = 3 then l(k \<mapsto> di_size d)
         else if mValue m = 4 then l(k \<mapsto> di_pdsize d)
         else if mValue m = 5 then l(k \<mapsto> di_blockdevice d)
         else l)"

primrec volumeLabels :: "'row wlm_world \<Rightarrow> string \<Rightarrow> string \<Rightarrow> disk_volume_metric list \<Rightarrow> labels \<Rightarrow> (wlm_call, labels) prog" where
  "volumeLabels w ini sidAdm [] l = ret l"
| "volumeLabels w ini sidAdm (v # vs) l = do {
     d \<leftarrow> diskInfo w v ini sidAdm;
     volumeLabels w ini sidAdm vs (fold (setDiskLabel d) (VolumeMetrics v) l)
   }"

text \<open>The metrics with one variable: its value is found anew for each.\<close>

primrec variableLabels :: "(wlm_call, string) prog \<Rightarrow> value_metric list \<Rightarrow> labels \<Rightarrow> (wlm_call, labels) prog" where
  "variableLabels m [] l = ret l"
| "variableLabels m (x # xs) l =
     (if mValue x = 1 then do {
        v \<leftarrow> m;
        variableLabels m xs (l(mi_label (MetricInfo x) \<mapsto> v))
      } else variableLabels m xs l)"

definition setBackupLabel :: "backup_results \<Rightarrow> value_metric \<Rightarrow> labels \<Rightarrow> labels" where
  "setBackupLabel b m l =
     (let k = mi_label (MetricInfo m)
      in if mValue m = 1 then l(k \<mapsto> fullName b)
         else if mValue m = 2 then l(k \<mapsto> fullTime b)
         else if mValue m = 3 then l(k \<mapsto> deltaName b)
         else if mValue m = 4 then l(k \<mapsto> deltaTime b)
         else if mValue m = 5 then l(k \<mapsto> snapshotName b)
         else if mValue m = 6 then l(k \<mapsto> snapshotTime b)
         else l)"

definition addPairs :: "(string \<times> string) list \<Rightarrow> labels \<Rightarrow> labels" where
  "addPairs kvs l = fold (\<lambda>(k, v) l. l(k \<mapsto> v)) kvs l"

definition sapHANAInstance :: "'row wlm_world \<Rightarrow> wlm_params \<Rightarrow> (wlm_call, wlm_instance option) prog" where
  "sapHANAInstance w p =
     (if \<not> HasDiscovery p then ret None
      else do {
        is \<leftarrow> call (instancesOf w) SAPInstancesCall;
        ret (List.find (\<lambda>i. si_Type i = TYPE_HANA \<and> Sapsid i \<noteq> []) is)
      })"

definition sapValidationHANA :: string where
  "sapValidationHANA = ''workload.googleapis.com/sap/validation/hana''"

definition CollectHANAMetricsFromConfig :: "'row wlm_world \<Rightarrow> wlm_params \<Rightarrow> (wlm_call, time_series list) prog" where
  "CollectHANAMetricsFromConfig w p = do {
     inst \<leftarrow> sapHANAInstance w p;
     (case inst of
        None \<Rightarrow> createTimeSeries w sapValidationHANA Map.empty (Whole 0)
      | Some i \<Rightarrow>
          (let sidAdm = si_User (si_rest i); dir = ''/usr/sap/'' @ Sapsid i @ ''/SYS/global/hdb/custom/config'';
               ini = dir @ ''/global.ini''; hana = getPart ValidationHana (WorkloadConfig p)
           in do {
             there \<leftarrow> call (statOk w) (StatPath ini);
             if \<not> there then createTimeSeries w sapValidationHANA Map.empty (Whole 0)
             else do {
               g \<leftarrow> call (evalOf w) (EvalFile ini (getList GlobalIniMetrics hana) True);
               x \<leftarrow> call (evalOf w) (EvalFile (dir @ ''/indexserver.ini'') (getList IndexserverIniMetrics hana) True);
               l1 \<leftarrow> addOSLabels w (getList ha_OsCommandMetrics hana) (addPairs x (addPairs g Map.empty));
               l2 \<leftarrow> volumeLabels w ini sidAdm (getList HanaDiskVolumeMetrics hana) l1;
               l3 \<leftarrow> variableLabels (checkHAZones w p) (getList HaMetrics hana) l2;
               l4 \<leftarrow> variableLabels (checkDRRegions w sidAdm) (getList DrMetrics hana) l3;
               b \<leftarrow> hanaBackupMetrics w;
               l5 \<leftarrow> variableLabels (chksrvHookActive w p i) (getList TraceMetrics hana) (fold (setBackupLabel b) (getList HanaBackupMetrics hana) l4);
               createTimeSeries w sapValidationHANA l5 (Whole 1)
             }
           }))
   }"

end
