(* ===== verification/WorkloadSend.thy ===== *)
theory WorkloadSend
  imports WorkloadHana
begin

text \<open>
  Sending the series of a collection (\<open>workloadcollector.go\<close>) to Data Warehouse or to Cloud Monitoring, and the file
  that overrides a collection.
\<close>

section \<open>The override file\<close>

definition cutColon :: "string \<Rightarrow> (string \<times> string) option" where
  "cutColon s = (if CHR '':'' \<in> set s then Some (takeWhile (\<lambda>c. c \<noteq> CHR '':'') s, drop 1 (dropWhile (\<lambda>c. c \<noteq> CHR '':'') s)) else None)"

definition parseScannedText :: "string \<Rightarrow> (string \<times> string) option" where
  "parseScannedText line =
     (if line = [] \<or> hasPrefix line ''#'' then None
      else case cutColon line of None \<Rightarrow> None | Some (key, val) \<Rightarrow> Some (trimSpace key, trimSpace val))"

record emitted =
  em_name :: string
  em_value :: metric_value
  em_labels :: labels

text \<open>A metric, the name of the next one if there is one (\<open>tmpMetricName\<close>), the lines left and whether the file has ended.\<close>

fun getMetric :: "string list \<Rightarrow> emitted \<Rightarrow> emitted \<times> string \<times> string list \<times> bool" where
  "getMetric [] m = (m, [], [], True)"
| "getMetric (line # rest) m =
     (case parseScannedText line of
        None \<Rightarrow> getMetric rest m
      | Some (key, val) \<Rightarrow>
          if key = ''metric'' then (if em_name m \<noteq> [] then (m, val, rest, False) else getMetric rest (m\<lparr>em_name := val\<rparr>))
          else if key = ''metric_value'' then getMetric rest (m\<lparr>em_value := Parsed val\<rparr>)
          else getMetric rest (m\<lparr>em_labels := (em_labels m)(key \<mapsto> trimSpace val)\<rparr>))"

lemma getMetric_rest: "getMetric ls m = (m', tmp, rest, False) \<Longrightarrow> length rest < length ls"
  by (induction ls m rule: getMetric.induct)
     (auto split: option.splits if_splits simp: less_Suc_eq)

text \<open>The metrics of the file; a metric without a name is dropped.\<close>

definition freshMetric :: "string \<Rightarrow> emitted" where
  "freshMetric name = \<lparr>em_name = name, em_value = Whole 0, em_labels = Map.empty\<rparr>"

function overrideMetrics :: "string list \<Rightarrow> string \<Rightarrow> emitted list" where
  "overrideMetrics ls tmp =
     (case getMetric ls (freshMetric tmp) of
        (m, tmp', rest, end) \<Rightarrow>
          (if em_name m \<noteq> [] then [m] else []) @ (if end then [] else overrideMetrics rest tmp'))"
  by pat_completeness auto

termination
  by (relation "measure (\<lambda>(ls, tmp). length ls)") (auto dest: getMetric_rest[OF sym])

declare overrideMetrics.simps [simp del]

primrec seriesOf :: "'row wlm_world \<Rightarrow> emitted list \<Rightarrow> (wlm_call, time_series list) prog" where
  "seriesOf w [] = ret []"
| "seriesOf w (m # ms) = do {
     t \<leftarrow> createTimeSeries w (''workload.googleapis.com/sap/validation/'' @ em_name m) (em_labels m) (em_value m);
     ts \<leftarrow> seriesOf w ms;
     ret (t @ ts)
   }"

definition metricOverridePath :: string where
  "metricOverridePath = ''/etc/google-cloud-sap-agent/wlmmetricoverride.yaml''"

definition collectOverrideMetrics :: "'row wlm_world \<Rightarrow> (wlm_call, time_series list) prog" where
  "collectOverrideMetrics w = do {
     r \<leftarrow> call (overrideLines w) (OpenOverride metricOverridePath);
     (case r of None \<Rightarrow> ret [] | Some ls \<Rightarrow> seriesOf w (overrideMetrics ls []))
   }"

section \<open>Requests\<close>

definition validationPrefix :: string where
  "validationPrefix = ''workload.googleapis.com/sap/validation/''"

definition validationTypeOf :: "string \<Rightarrow> validation_type" where
  "validationTypeOf t =
     (if t = validationPrefix @ ''system'' then VT_SYSTEM
      else if t = validationPrefix @ ''corosync'' then VT_COROSYNC
      else if t = validationPrefix @ ''hana'' then VT_HANA
      else if t = validationPrefix @ ''netweaver'' then VT_NETWEAVER
      else if t = validationPrefix @ ''pacemaker'' then VT_PACEMAKER
      else if t = validationPrefix @ ''hanasecurity'' then VT_HANA_SECURITY
      else if t = validationPrefix @ ''custom'' then VT_CUSTOM
      else VT_UNSPECIFIED)"

definition isPositive :: "'row wlm_world \<Rightarrow> metric_value \<Rightarrow> bool" where
  "isPositive w v = (case v of Whole i \<Rightarrow> 0 < i | Parsed s \<Rightarrow> positive w s)"

definition detailOf :: "'row wlm_world \<Rightarrow> time_series \<Rightarrow> validation_detail" where
  "detailOf w t = \<lparr>SapValidationType = validationTypeOf (MetricType t), IsPresent = isPositive w (MetricValue t), Details = MetricLabels t\<rparr>"

definition createWriteInsightRequest :: "'row wlm_world \<Rightarrow> time_series list \<Rightarrow> cloud_properties \<Rightarrow> insight_request" where
  "createWriteInsightRequest w wm cp =
     \<lparr>in_InstanceId = cl_InstanceId cp, in_ProjectId = cl_ProjectId cp, in_Zone = cl_Zone cp, ValidationDetails = map (detailOf w) wm\<rparr>"

section \<open>Sending\<close>

definition sendMetricsToDataWarehouse :: "'row wlm_world \<Rightarrow> cloud_properties \<Rightarrow> time_series list \<Rightarrow> (wlm_call, nat) prog" where
  "sendMetricsToDataWarehouse w cp wm =
     (let c = WriteInsight (cl_ProjectId cp) (cl_Region cp) (createWriteInsightRequest w wm cp)
      in do {
        ok \<leftarrow> call (written w) c;
        ok1 \<leftarrow> (if ok then ret True
                else do {
                  waited \<leftarrow> call (retryTime w) WaitRetry;
                  if waited then call (written w) c else ret False
                });
        ret (if ok1 then length wm else 0)
      })"

text \<open>\<open>None\<close> is a panic: the location has no second part.\<close>

definition secondaryLocation :: "bool \<Rightarrow> cloud_properties \<Rightarrow> string option" where
  "secondaryLocation bareMetal cp =
     (let location = (if bareMetal then cl_Region cp else cl_Zone cp); parts = splitOn (CHR ''-'') location
      in if 1 < length parts then Some (joinWith ''-'' [parts ! 0, parts ! 1]) else None)"

definition sendMetricsToDataWarehouseSecondary ::
  "'row wlm_world \<Rightarrow> bool \<Rightarrow> cloud_properties \<Rightarrow> time_series list \<Rightarrow> (wlm_call, nat option) prog" where
  "sendMetricsToDataWarehouseSecondary w bareMetal cp wm =
     (case secondaryLocation bareMetal cp of
        None \<Rightarrow> ret None
      | Some location \<Rightarrow> do {
          ok \<leftarrow> call (written w) (WriteInsight (cl_ProjectId cp) location (createWriteInsightRequest w wm cp));
          ret (Some (if ok then length wm else 0))
        })"

definition sendMetrics :: "'row wlm_world \<Rightarrow> wlm_params \<Rightarrow> cloud_properties \<Rightarrow> time_series list \<Rightarrow> (wlm_call, nat option) prog" where
  "sendMetrics w p cp wm =
     (if wm = [] then ret (Some 0)
      else if SendToCloudMonitoring p then do {
        ok \<leftarrow> call (created w) (CreateTimeSeries (''projects/'' @ cl_ProjectId cp) wm);
        r \<leftarrow> sendMetricsToDataWarehouseSecondary w (IsBareMetal p) cp wm;
        ret (map_option (\<lambda>_. if ok then length wm else 0) r)
      }
      else do {
        n \<leftarrow> sendMetricsToDataWarehouse w cp wm;
        ret (Some n)
      })"

section \<open>What is reported as sent\<close>

definition isWrite :: "wlm_call \<Rightarrow> bool" where
  "isWrite c = (case c of WriteInsight _ _ _ \<Rightarrow> True | _ \<Rightarrow> False)"

text \<open>Series that are sent to Data Warehouse are written at most twice, the second time only after a failure and a
  pause; they are reported as sent exactly when the last request, one that carries every series with its labels, was
  accepted, and nothing is requested for an empty collection.\<close>

theorem sent_when_accepted:
  "wp (sendMetricsToDataWarehouse w cp wm) (\<lambda>n log'. \<exists>c.
      c = WriteInsight (cl_ProjectId cp) (cl_Region cp) (createWriteInsightRequest w wm cp) \<and>
      map Details (ValidationDetails (createWriteInsightRequest w wm cp)) = map MetricLabels wm \<and>
      (log' = c # log \<and> n = (if written w log c then length wm else 0) \<and> written w log c
       \<or> log' = WaitRetry # c # log \<and> n = 0 \<and> \<not> written w log c \<and> \<not> retryTime w (c # log) WaitRetry
       \<or> log' = c # WaitRetry # c # log \<and> n = (if written w (WaitRetry # c # log) c then length wm else 0)
           \<and> \<not> written w log c \<and> retryTime w (c # log) WaitRetry)) log"
  by (auto simp: sendMetricsToDataWarehouse_def Let_def wp_rules createWriteInsightRequest_def detailOf_def)

text \<open>A zone without a hyphen makes the legacy path panic after Cloud Monitoring was written.\<close>

lemma zone_without_hyphen_panics:
  "wm \<noteq> [] \<Longrightarrow> SendToCloudMonitoring p \<Longrightarrow> \<not> IsBareMetal p \<Longrightarrow> CHR ''-'' \<notin> set (cl_Zone cp) \<Longrightarrow>
     wp (sendMetrics w p cp wm) (\<lambda>r _. r = None) log"
  by (simp add: sendMetrics_def sendMetricsToDataWarehouseSecondary_def secondaryLocation_def Let_def splitOn_single wp_rules)

section \<open>What the override file yields\<close>

text \<open>The names of the metrics are those of the lines that start one.\<close>

definition startsMetric :: "string \<Rightarrow> string option" where
  "startsMetric line = (case parseScannedText line of Some (key, val) \<Rightarrow> (if key = ''metric'' then Some val else None) | None \<Rightarrow> None)"

primrec metricNames :: "string list \<Rightarrow> string list" where
  "metricNames [] = []"
| "metricNames (l # ls) = (case startsMetric l of None \<Rightarrow> metricNames ls | Some n \<Rightarrow> n # metricNames ls)"

definition pending :: "string \<Rightarrow> string list" where
  "pending tmp = (if tmp = [] then [] else [tmp])"

lemma getMetric_names:
  "getMetric ls m = (m', tmp, rest, ended) \<Longrightarrow> [] \<notin> set (metricNames ls) \<Longrightarrow>
     pending (em_name m) @ metricNames ls = pending (em_name m') @ (if ended then [] else pending tmp @ metricNames rest)
     \<and> (ended \<or> [] \<notin> set (metricNames rest))"
proof (induction ls m rule: getMetric.induct)
  case (1 m)
  then show ?case
    by simp
next
  case (2 line rest0 m)
  show ?case
  proof (cases "parseScannedText line")
    case None
    then have "startsMetric line = None"
      by (simp add: startsMetric_def)
    then show ?thesis
      using "2.IH"(1)[OF None] "2.prems" None by simp
  next
    case (Some kv)
    obtain key val where kv: "kv = (key, val)"
      by fastforce
    note line = Some[unfolded kv]
    consider (new) "key = ''metric''" "em_name m \<noteq> []" | (first) "key = ''metric''" "em_name m = []" | (number) "key = ''metric_value''"
      | (label) "key \<noteq> ''metric''" "key \<noteq> ''metric_value''"
      by blast
    then show ?thesis
    proof cases
      case new
      then have "startsMetric line = Some val"
        by (simp add: startsMetric_def line)
      moreover have "m' = m \<and> tmp = val \<and> rest = rest0 \<and> \<not> ended"
        using "2.prems"(1) new by (simp add: line)
      ultimately show ?thesis
        using "2.prems"(2) by (auto simp: pending_def)
    next
      case first
      then have start: "startsMetric line = Some val"
        by (simp add: startsMetric_def line)
      then have "val \<noteq> []"
        using "2.prems"(2) by auto
      then show ?thesis
        using "2.IH"(2)[OF Some kv[symmetric] first(1)] "2.prems" first start by (simp add: line pending_def)
    next
      case number
      then have "startsMetric line = None"
        by (simp add: startsMetric_def line)
      then show ?thesis
        using "2.IH"(3)[OF Some kv[symmetric]] "2.prems" number by (simp add: line)
    next
      case label
      then have "startsMetric line = None"
        by (simp add: startsMetric_def line)
      then show ?thesis
        using "2.IH"(4)[OF Some kv[symmetric]] "2.prems" label by (simp add: line)
    qed
  qed
qed

text \<open>Every metric that the file names is emitted, in the order of the file.\<close>

lemma override_names: "[] \<notin> set (metricNames ls) \<Longrightarrow> map em_name (overrideMetrics ls tmp) = pending tmp @ metricNames ls"
proof (induction ls tmp rule: overrideMetrics.induct)
  case (1 ls tmp)
  obtain m tmp' rest ended where get: "getMetric ls (freshMetric tmp) = (m, tmp', rest, ended)"
    using prod_cases4 by blast
  have names: "pending tmp @ metricNames ls = pending (em_name m) @ (if ended then [] else pending tmp' @ metricNames rest)"
      "ended \<or> [] \<notin> set (metricNames rest)"
    using getMetric_names[OF get "1.prems"] by (simp_all add: freshMetric_def)
  show ?case
    using names "1.IH"[OF get[symmetric]] by (subst overrideMetrics.simps) (auto simp: get pending_def)
qed

end
