(* ===== verification/WorkloadCollect.thy ===== *)
theory WorkloadCollect
  imports WorkloadSend
begin

text \<open>
  A round of the workload manager collection (\<open>systemmetrics.go\<close>, \<open>corosyncmetrics.go\<close>, \<open>netweavermetrics.go\<close>,
  \<open>pacemakermetrics.go\<close>, \<open>custommetrics.go\<close>, \<open>databasemetrics.go\<close> and \<open>workloadcollector.go\<close>): the series of the
  parts and the labels they share.
\<close>

section \<open>The system\<close>

definition isInstance :: "sap_resource \<Rightarrow> bool" where
  "isInstance r \<longleftrightarrow> IsComputeType r \<and> IsInstanceKind r"

definition zonesOf :: "(sap_resource \<Rightarrow> bool) \<Rightarrow> sap_system \<Rightarrow> string set" where
  "zonesOf P s = (\<lambda>r. ExtractFromURI (ResourceUri r) ''zones'') ` set (filter (\<lambda>r. isInstance r \<and> P r) (AppResources s))"

definition isAppServer :: "sap_resource \<Rightarrow> bool" where
  "isAppServer r \<longleftrightarrow> contains (RoleName r) ''APP_SERVER''"

definition isCentral :: "sap_resource \<Rightarrow> bool" where
  "isCentral r \<longleftrightarrow> contains (RoleName r) ''ASCS'' \<or> contains (RoleName r) ''ERS''"

definition zonallySeparated :: "sap_system \<Rightarrow> bool" where
  "zonallySeparated s \<longleftrightarrow>
     length (AppHaHosts s) < 2 \<or> (\<not> card (zonesOf isAppServer s) < 2 \<and> \<not> card (zonesOf isCentral s) < 2)"

definition appServerZonalSeparation :: "'row wlm_world \<Rightarrow> wlm_params \<Rightarrow> (wlm_call, bool) prog" where
  "appServerZonalSeparation w p =
     (if \<not> HasDiscovery p then ret False
      else do {
        ss \<leftarrow> call (systemsOf w) SAPSystemsCall;
        ret (list_all zonallySeparated ss)
      })"

definition hasInstanceRole :: "'row wlm_world \<Rightarrow> wlm_params \<Rightarrow> string \<Rightarrow> (wlm_call, bool) prog" where
  "hasInstanceRole w p role =
     (if \<not> HasDiscovery p then ret False
      else do {
        ss \<leftarrow> call (systemsOf w) SAPSystemsCall;
        ret (list_ex (\<lambda>s. list_ex (\<lambda>r. isInstance r \<and> contains (RoleName r) role \<and>
               ExtractFromURI (ResourceUri r) ''instances'' = cl_InstanceName (Cloud p)) (AppResources s)) ss)
      })"

definition osSettingsArgs :: "wlm_params \<Rightarrow> ci_args" where
  "osSettingsArgs p = \<lparr>Apply = False, Check = True, Describe = False, Format = [], MachineType = CloudMachineType p,
     HyperThreading = ''default'', TimeoutSec = 0\<rparr>"

definition osSettings :: "'row wlm_world \<Rightarrow> wlm_params \<Rightarrow> (wlm_call, string) prog" where
  "osSettings w p =
     (if \<not> hasPrefix (CloudMachineType p) ''x4'' \<and> \<not> hasPrefix (CloudMachineType p) ''x5'' then ret []
      else do {
        r \<leftarrow> nested ConfigureCall (\<lambda>log. RunConfigure (configureSetup w) (configureWorld w log) (CloudMachineType p) (osSettingsArgs p) (grubState w log));
        ret (case fst (fst r) of ExitSuccess \<Rightarrow> ''pass'' | ExitFailure \<Rightarrow> ''fail'' | _ \<Rightarrow> [])
      })"

definition networkIPAddrs :: "'row wlm_world \<Rightarrow> (wlm_call, string) prog" where
  "networkIPAddrs w = do {
     r \<leftarrow> call (addrsOf w) InterfaceAddrs;
     ret (case r of None \<Rightarrow> [] | Some addrs \<Rightarrow> joinWith '','' addrs)
   }"

definition kernelVersion :: "'row wlm_world \<Rightarrow> (wlm_call, string) prog" where
  "kernelVersion w = do {
     r \<leftarrow> call (kernelJSON w) KernelVersionCall;
     ret (case r of None \<Rightarrow> [] | Some s \<Rightarrow> s)
   }"

definition configVersion :: "wlm_params \<Rightarrow> int" where
  "configVersion p = (case WorkloadConfig p of None \<Rightarrow> 0 | Some c \<Rightarrow> wlm_Version c)"

text \<open>The numbers are those of the enumeration \<open>SystemVariable\<close>.\<close>

definition collectSystemVariable :: "'row wlm_world \<Rightarrow> wlm_params \<Rightarrow> value_metric \<Rightarrow> (wlm_call, string) prog" where
  "collectSystemVariable w p m =
     (if mValue m = 1 then ret (cl_InstanceName (Cloud p))
      else if mValue m = 2 then ret (OSVendorID p @ ''-'' @ OSVersion p)
      else if mValue m = 3 then ret (AgentName p)
      else if mValue m = 4 then ret (wp_AgentVersion p)
      else if mValue m = 5 then networkIPAddrs w
      else if mValue m = 6 then ret (intStr (configVersion p))
      else if mValue m = 7 then osSettings w p
      else if mValue m = 8 then do { b \<leftarrow> appServerZonalSeparation w p; ret (formatBool b) }
      else if mValue m = 9 then do { b \<leftarrow> hasInstanceRole w p ''APP_SERVER''; ret (formatBool b) }
      else if mValue m = 10 then do { b \<leftarrow> hasInstanceRole w p ''ASCS''; ret (formatBool b) }
      else if mValue m = 11 then do { b \<leftarrow> hasInstanceRole w p ''ERS''; ret (formatBool b) }
      else if mValue m = 12 then kernelVersion w
      else ret [])"

primrec systemLabels :: "'row wlm_world \<Rightarrow> wlm_params \<Rightarrow> value_metric list \<Rightarrow> labels \<Rightarrow> (wlm_call, labels) prog" where
  "systemLabels w p [] l = ret l"
| "systemLabels w p (m # ms) l = do {
     v \<leftarrow> collectSystemVariable w p m;
     systemLabels w p ms (l(mi_label (MetricInfo m) \<mapsto> v))
   }"

definition CollectSystemMetricsFromConfig :: "'row wlm_world \<Rightarrow> wlm_params \<Rightarrow> (wlm_call, time_series list) prog" where
  "CollectSystemMetricsFromConfig w p =
     (let system = getPart ValidationSystem (WorkloadConfig p)
      in do {
        l \<leftarrow> systemLabels w p (getList SystemMetrics system) Map.empty;
        l1 \<leftarrow> addOSLabels w (getList sys_OsCommandMetrics system) l;
        createTimeSeries w (validationPrefix @ ''system'') l1 (Whole 1)
      })"

section \<open>The other parts\<close>

definition CollectCorosyncMetricsFromConfig ::
  "'row wlm_world \<Rightarrow> wlm_params \<Rightarrow> metric_value \<Rightarrow> (wlm_call, time_series list) prog" where
  "CollectCorosyncMetricsFromConfig w p pacemakerVal =
     (if pacemakerVal = Whole 0 then createTimeSeries w (validationPrefix @ ''corosync'') Map.empty (Whole 0)
      else (let corosync = getPart ValidationCorosync (WorkloadConfig p)
            in do {
              kvs \<leftarrow> call (evalOf w) (EvalFile (case corosync of None \<Rightarrow> [] | Some c \<Rightarrow> ConfigPath c) (getList co_ConfigMetrics corosync) False);
              l \<leftarrow> addOSLabels w (getList co_OsCommandMetrics corosync) (addPairs kvs Map.empty);
              createTimeSeries w (validationPrefix @ ''corosync'') l (Whole 1)
            }))"

definition CollectNetWeaverMetricsFromConfig :: "'row wlm_world \<Rightarrow> wlm_params \<Rightarrow> (wlm_call, time_series list) prog" where
  "CollectNetWeaverMetricsFromConfig w p =
     (if \<not> HasDiscovery p then createTimeSeries w (validationPrefix @ ''netweaver'') Map.empty (Whole 0)
      else do {
        is \<leftarrow> call (instancesOf w) SAPInstancesCall;
        if \<not> list_ex (\<lambda>i. si_Type i = TYPE_NETWEAVER) is then createTimeSeries w (validationPrefix @ ''netweaver'') Map.empty (Whole 0)
        else do {
          l \<leftarrow> addOSLabels w (getList nw_OsCommandMetrics (getPart ValidationNetweaver (WorkloadConfig p))) Map.empty;
          createTimeSeries w (validationPrefix @ ''netweaver'') l (Whole 1)
        }
      })"

definition CollectPacemakerMetricsFromConfig :: "'row wlm_world \<Rightarrow> wlm_params \<Rightarrow> (wlm_call, time_series list) prog" where
  "CollectPacemakerMetricsFromConfig w p = do {
     r \<leftarrow> nested PacemakerCall (\<lambda>log. CollectPacemakerMetrics (pacemakerWorld w log)
            (Some \<lparr>pc_ProjectId = cl_ProjectId (Cloud p), pc_InstanceName = cl_InstanceName (Cloud p)\<rparr>) (WorkloadConfig p) (OSVendorID p));
     createTimeSeries w (validationPrefix @ ''pacemaker'') (snd r) (Whole (fst r))
   }"

definition CollectCustomMetricsFromConfig :: "'row wlm_world \<Rightarrow> wlm_params \<Rightarrow> (wlm_call, time_series list) prog" where
  "CollectCustomMetricsFromConfig w p = do {
     l \<leftarrow> addOSLabels w (getList cu_OsCommandMetrics (getPart ValidationCustom (WorkloadConfig p))) Map.empty;
     createTimeSeries w (validationPrefix @ ''custom'') l (Whole 1)
   }"

section \<open>A round\<close>

definition sharedSystemMetrics :: "string list" where
  "sharedSystemMetrics = [''agent'', ''agent_state'', ''agent_version'', ''collection_config_version'', ''instance_name'', ''os'']"

definition sharedLabels :: "labels \<Rightarrow> labels" where
  "sharedLabels l = (\<lambda>k. if k \<in> set sharedSystemMetrics then l k else None)"

text \<open>The labels of the first series are extended in place.\<close>

definition appendToFirst :: "labels \<Rightarrow> time_series list \<Rightarrow> time_series list" where
  "appendToFirst l ts = (case ts of [] \<Rightarrow> [] | t # rest \<Rightarrow> t\<lparr>MetricLabels := appendLabels (MetricLabels t) l\<rparr> # rest)"

definition firstValue :: "time_series list \<Rightarrow> metric_value" where
  "firstValue ts = (case ts of [] \<Rightarrow> Whole 0 | t # _ \<Rightarrow> MetricValue t)"

definition firstLabels :: "time_series list \<Rightarrow> labels" where
  "firstLabels ts = MetricLabels (hd ts)"

text \<open>The five goroutines write to variables of their own; they run one after the other here, in the order of their start.\<close>

definition collectMetricsFromConfig :: "'row wlm_world \<Rightarrow> wlm_params \<Rightarrow> (wlm_call, time_series list) prog" where
  "collectMetricsFromConfig w p = do {
     override \<leftarrow> call (statOk w) (StatPath metricOverridePath);
     if override then collectOverrideMetrics w
     else do {
       _ \<leftarrow> call (wIgnored w) ReadInstanceInfo;
       system \<leftarrow> CollectSystemMetricsFromConfig w p;
       hana \<leftarrow> CollectHANAMetricsFromConfig w p;
       netweaver \<leftarrow> CollectNetWeaverMetricsFromConfig w p;
       pacemaker \<leftarrow> CollectPacemakerMetricsFromConfig w p;
       corosync \<leftarrow> CollectCorosyncMetricsFromConfig w p (firstValue pacemaker);
       custom \<leftarrow> CollectCustomMetricsFromConfig w p;
       let shared = sharedLabels (firstLabels system);
       ret (system @ appendToFirst shared corosync @ appendToFirst shared hana @ appendToFirst shared netweaver
              @ appendToFirst shared pacemaker @ appendToFirst shared custom)
     }
   }"

section \<open>The database\<close>

definition insightLabels :: "(string \<times> bool) list \<Rightarrow> string \<Rightarrow> labels \<Rightarrow> labels" where
  "insightLabels results ruleID l = fold (\<lambda>(rec, b) l. l(ruleID @ ''_'' @ rec \<mapsto> formatBool b)) results l"

text \<open>\<open>ids\<close> are the keys of the insights in the order in which Go visits them.\<close>

definition processInsights :: "string list \<Rightarrow> insights \<Rightarrow> labels" where
  "processInsights ids insights = fold (\<lambda>i. insightLabels (case insights i of None \<Rightarrow> [] | Some rs \<Rightarrow> rs) i) ids Map.empty"

datatype db_outcome = NoCredentials | NoRules | Overridden | NoHandle db_error | Sent "nat option"

definition collectDBMetricsOnce ::
  "'f floats \<Rightarrow> (insights \<Rightarrow> string list) \<Rightarrow> 'row wlm_world \<Rightarrow> wlm_params \<Rightarrow> (wlm_call, db_outcome) prog" where
  "collectDBMetricsOnce F order w p =
     (case DBMetricsConfig p of
        None \<Rightarrow> ret NoCredentials
      | Some db \<Rightarrow>
          if InsightRules p = [] then ret NoRules
          else do {
            override \<leftarrow> call (statOk w) (StatPath metricOverridePath);
            if override then ret Overridden
            else do {
              r \<leftarrow> nested DBCall (\<lambda>log. CreateDBHandle (dbWorld w log) (db\<lparr>Project := cl_ProjectId (Cloud p), PingSpec := None\<rparr>));
              (case snd r of
                 Some e \<Rightarrow> ret (NoHandle e)
               | None \<Rightarrow> do {
                   insights \<leftarrow> nested RuleQuery (\<lambda>log. RuleEngine.Run F (ruleRows w log) (scanRow w) (InsightRules p));
                   metrics \<leftarrow> createTimeSeries w (validationPrefix @ ''hanasecurity'') (processInsights (order insights) insights) (Whole 1);
                   system \<leftarrow> CollectSystemMetricsFromConfig w p;
                   n \<leftarrow> sendMetrics w p (Cloud p) (appendToFirst (sharedLabels (firstLabels system)) metrics);
                   ret (Sent n)
                 })
            }
          })"

end
