(* ===== verification/WorkloadManager.thy ===== *)
theory WorkloadManager
  imports WorkloadCollect
begin

text \<open>
  The service of the workload manager collection (\<open>workloadcollector.go\<close>) and the collection on remote hosts
  (\<open>remote.go\<close>): waiting until Data Warehouse accepts data, the loop of the service, and the commands that run the
  agent on another host and read back what it prints.
\<close>

section \<open>Remote hosts\<close>

definition agentBinary :: string where "agentBinary = ''/usr/bin/google_cloud_sap_agent''"
definition remoteAgentBinary :: string where "remoteAgentBinary = ''/tmp/google_cloud_sap_agent''"
definition remoteValidationConfig :: string where "remoteValidationConfig = ''/tmp/workload-validation.json''"

text \<open>What the remote agent prints.\<close>

primrec seriesLines :: "'row wlm_world \<Rightarrow> time_series list \<Rightarrow> (string, string) result" where
  "seriesLines w [] = Inr []"
| "seriesLines w (t # ts) =
     (case encodeSeries w t of
        Inl e \<Rightarrow> Inl e
      | Inr s \<Rightarrow> (case seriesLines w ts of Inl e \<Rightarrow> Inl e | Inr r \<Rightarrow> Inr (s @ [chNL] @ r)))"

definition metricsText :: "'row wlm_world \<Rightarrow> time_series list \<Rightarrow> string" where
  "metricsText w wm = (case seriesLines w wm of Inl e \<Rightarrow> ''ERROR Could not create metrics JSON; '' @ e | Inr s \<Rightarrow> s)"

definition CollectMetricsToJSON :: "'row wlm_world \<Rightarrow> wlm_params \<Rightarrow> (wlm_call, string) prog" where
  "CollectMetricsToJSON w p = do {
     wm \<leftarrow> collectMetricsFromConfig w p;
     ret (metricsText w wm)
   }"

fun parseLines :: "'row wlm_world \<Rightarrow> string list \<Rightarrow> time_series list" where
  "parseLines w [] = []"
| "parseLines w (s # ss) =
     (if s = [] then parseLines w ss
      else case decodeSeries w s of None \<Rightarrow> [] | Some t \<Rightarrow> t # parseLines w ss)"

text \<open>The series before a line that does not decode are kept; the error is only logged.\<close>

definition parseRemoteJSON :: "'row wlm_world \<Rightarrow> string \<Rightarrow> time_series list" where
  "parseRemoteJSON w output = parseLines w (splitOn chNL output)"

definition readRemote :: "'row wlm_world \<Rightarrow> pm_result \<Rightarrow> time_series list" where
  "readRemote w r =
     (if CmdError r \<noteq> None then [] else if hasPrefix (StdOut r) ''ERROR'' then [] else parseRemoteJSON w (StdOut r))"

definition appendCommonGcloudArgs :: "string list \<Rightarrow> remote_gcloud \<Rightarrow> remote_instance \<Rightarrow> string list" where
  "appendCommonGcloudArgs args g i =
     args @ [''--project'', ri_ProjectId i, ''--zone'', ri_Zone i]
       @ (if TunnelThroughIap g then [''--tunnel-through-iap''] else [])
       @ (if UseInternalIp g then [''--internal-ip''] else [])
       @ (if GcloudArgs g \<noteq> [] then splitOn (CHR '' '') (GcloudArgs g) else [])"

definition gcloudInstanceName :: "remote_gcloud \<Rightarrow> remote_instance \<Rightarrow> string" where
  "gcloudInstanceName g i = (if gc_SshUsername g \<noteq> [] then gc_SshUsername g @ ''@'' @ ri_InstanceName i else ri_InstanceName i)"

definition collectRemoteGcloud :: "'row wlm_world \<Rightarrow> string \<Rightarrow> remote_gcloud \<Rightarrow> remote_instance \<Rightarrow> (wlm_call, time_series list) prog" where
  "collectRemoteGcloud w configPath g i = do {
     there \<leftarrow> call (gcloudExists w) GcloudExists;
     if \<not> there then ret []
     else (let iName = gcloudInstanceName g i;
               ssh = appendCommonGcloudArgs [''compute'', ''ssh''] g i; scp = appendCommonGcloudArgs [''compute'', ''scp''] g i;
               command = ''sudo '' @ remoteAgentBinary @ '' remote -c='' @ remoteValidationConfig @ '' -p='' @ ri_ProjectId i @ '' -z='' @ ri_Zone i
                 @ '' -i='' @ ri_InstanceId i @ '' -n='' @ ri_InstanceName i @ ''; rm '' @ remoteAgentBinary @ ''; rm '' @ remoteValidationConfig
           in do {
             _ \<leftarrow> wexec w (CmdArgs ''gcloud'' (ssh @ [iName, ''--command'', ''sudo rm -f '' @ remoteAgentBinary]) []);
             c \<leftarrow> wexec w (CmdArgs ''gcloud'' (scp @ [configPath, iName @ '':'' @ remoteValidationConfig]) []);
             if CmdError c \<noteq> None then ret []
             else do {
               b \<leftarrow> wexec w (CmdArgs ''gcloud'' (scp @ [agentBinary, iName @ '':'' @ remoteAgentBinary]) []);
               if CmdError b \<noteq> None then ret []
               else do {
                 r \<leftarrow> wexec w (CmdArgs ''gcloud'' (ssh @ [iName, ''--command'', command]) []);
                 ret (readRemote w r)
               }
             }
           })
   }"

definition appendSSHArgs :: "string list \<Rightarrow> remote_ssh \<Rightarrow> remote_instance \<Rightarrow> bool \<Rightarrow> string list" where
  "appendSSHArgs args s i isScp =
     (let sshArg = ss_SshUsername s @ ''@'' @ SshHostAddress i
      in args @ [''-i'', SshPrivateKeyPath s] @ (if isScp then [agentBinary, sshArg @ '':'' @ remoteAgentBinary] else [sshArg]))"

definition collectRemoteSSH :: "'row wlm_world \<Rightarrow> string \<Rightarrow> remote_ssh \<Rightarrow> remote_instance \<Rightarrow> (wlm_call, time_series list) prog" where
  "collectRemoteSSH w configPath s i = do {
     _ \<leftarrow> wexec w (CmdArgs ''ssh'' (appendSSHArgs [] s i False @ [''rm -f '' @ remoteAgentBinary]) []);
     c \<leftarrow> wexec w (CmdArgs ''scp'' [''-i'', SshPrivateKeyPath s, configPath, ss_SshUsername s @ ''@'' @ SshHostAddress i @ '':'' @ remoteValidationConfig] []);
     if CmdError c \<noteq> None then ret []
     else do {
       b \<leftarrow> wexec w (CmdArgs ''scp'' (appendSSHArgs [] s i True) []);
       if CmdError b \<noteq> None then ret []
       else do {
         r \<leftarrow> wexec w (CmdArgs ''ssh'' (appendSSHArgs [] s i False @ [remoteAgentBinary, ''remote'',
                ''-c='' @ remoteValidationConfig @ '' -p='' @ ri_ProjectId i @ '' -i='' @ ri_InstanceId i @ '' -n='' @ ri_InstanceName i @ '' -z='' @ ri_Zone i,
                ''; rm '' @ remoteAgentBinary, ''; rm '' @ remoteValidationConfig]) []);
         ret (readRemote w r)
       }
     }
   }"

definition remoteCloud :: "remote_instance \<Rightarrow> cloud_properties" where
  "remoteCloud i = \<lparr>cl_ProjectId = ri_ProjectId i, cl_InstanceId = ri_InstanceId i, cl_Region = RegionFromZone (ri_Zone i),
     cl_Zone = ri_Zone i, cl_InstanceName = ri_InstanceName i\<rparr>"

definition collectRemote :: "'row wlm_world \<Rightarrow> string \<Rightarrow> remote_collection \<Rightarrow> remote_instance \<Rightarrow> (wlm_call, time_series list) prog" where
  "collectRemote w configPath rc i =
     (case CollectionSsh rc of
        Some s \<Rightarrow> collectRemoteSSH w configPath s i
      | None \<Rightarrow> (case CollectionGcloud rc of Some g \<Rightarrow> collectRemoteGcloud w configPath g i | None \<Rightarrow> ret []))"

text \<open>The hosts in the order in which the worker pool finishes them; \<open>None\<close> is a panic.\<close>

primrec remoteLoop ::
  "'row wlm_world \<Rightarrow> wlm_params \<Rightarrow> string \<Rightarrow> remote_collection \<Rightarrow> remote_instance list \<Rightarrow> nat \<Rightarrow> (wlm_call, nat option) prog" where
  "remoteLoop w p configPath rc [] n = ret (Some n)"
| "remoteLoop w p configPath rc (i # is) n = do {
     wm \<leftarrow> collectRemote w configPath rc i;
     s \<leftarrow> sendMetrics w p (remoteCloud i) wm;
     (case s of None \<Rightarrow> ret None | Some k \<Rightarrow> remoteLoop w p configPath rc is (n + k))
   }"

definition collectAndSendRemoteMetrics :: "'row wlm_world \<Rightarrow> wlm_params \<Rightarrow> (wlm_call, nat option) prog" where
  "collectAndSendRemoteMetrics w p =
     (case RemoteCollection p of
        None \<Rightarrow> ret (Some 0)
      | Some rc \<Rightarrow>
          if CollectionSsh rc = None \<and> CollectionGcloud rc = None then ret (Some 0)
          else do {
            f \<leftarrow> call (tempFile w) CreateTemp;
            (case f of
               None \<Rightarrow> ret (Some 0)
             | Some configPath \<Rightarrow> do {
                 n \<leftarrow> remoteLoop w p configPath rc (CollectionInstances rc) 0;
                 _ \<leftarrow> call (wIgnored w) (RemoveTemp configPath);
                 ret n
               })
          })"

section \<open>The service\<close>

definition activationRequest :: "wlm_params \<Rightarrow> insight_request" where
  "activationRequest p = \<lparr>in_InstanceId = cl_InstanceId (Cloud p), in_ProjectId = [], in_Zone = [], ValidationDetails = []\<rparr>"

text \<open>At most \<open>n\<close> requests; \<open>False\<close> when the context is cancelled.\<close>

primrec waitForDataWarehouseActivation :: "'row wlm_world \<Rightarrow> wlm_params \<Rightarrow> nat \<Rightarrow> (wlm_call, bool) prog" where
  "waitForDataWarehouseActivation w p 0 = ret False"
| "waitForDataWarehouseActivation w p (Suc n) = do {
     ok \<leftarrow> call (activated w) (Activation (cl_ProjectId (Cloud p)) (cl_Region (Cloud p)) (activationRequest p));
     if ok then ret True
     else do {
       tick \<leftarrow> call (retryTime w) ActivationTick;
       if tick then waitForDataWarehouseActivation w p n else ret False
     }
   }"

datatype wlm_event =
    WCancelled
  | NewWorkloadConfig "workload_validation option"
  | HeartbeatDue
  | CollectDue
  | DatabaseDue

definition collectWorkloadMetricsOnce :: "'row wlm_world \<Rightarrow> wlm_params \<Rightarrow> (wlm_call, nat option) prog" where
  "collectWorkloadMetricsOnce w p = do {
     _ \<leftarrow> call (wIgnored w) WBeat;
     if IsRemote p then collectAndSendRemoteMetrics w p
     else do {
       metrics \<leftarrow> collectMetricsFromConfig w p;
       sendMetrics w p (Cloud p) metrics
     }
   }"

text \<open>\<open>False\<close> when a panic ended the loop.\<close>

fun serviceLoop ::
  "'f floats \<Rightarrow> (insights \<Rightarrow> string list) \<Rightarrow> 'row wlm_world \<Rightarrow> wlm_event list \<Rightarrow> wlm_params \<Rightarrow> (wlm_call, bool) prog" where
  "serviceLoop F order w [] p = ret True"
| "serviceLoop F order w (e # es) p =
     (case e of
        WCancelled \<Rightarrow> ret True
      | NewWorkloadConfig c \<Rightarrow> serviceLoop F order w es (p\<lparr>WorkloadConfig := c\<rparr>)
      | HeartbeatDue \<Rightarrow> do { _ \<leftarrow> call (wIgnored w) WBeat; serviceLoop F order w es p }
      | CollectDue \<Rightarrow> do {
          r \<leftarrow> collectWorkloadMetricsOnce w p;
          if r = None then ret False else serviceLoop F order w es p
        }
      | DatabaseDue \<Rightarrow> do {
          r \<leftarrow> collectDBMetricsOnce F order w p;
          if r = Sent None then ret False else serviceLoop F order w es p
        })"

text \<open>\<open>start\<close> with at most \<open>n\<close> activation requests and the events that follow.\<close>

definition startCollecting ::
  "'f floats \<Rightarrow> (insights \<Rightarrow> string list) \<Rightarrow> 'row wlm_world \<Rightarrow> nat \<Rightarrow> wlm_event list \<Rightarrow> wlm_params \<Rightarrow> (wlm_call, bool) prog" where
  "startCollecting F order w n es p = do {
     ok \<leftarrow> waitForDataWarehouseActivation w p n;
     if \<not> ok then ret True
     else (case es of
             WCancelled # _ \<Rightarrow> ret True
           | _ \<Rightarrow> serviceLoop F order w (CollectDue # DatabaseDue # es) p)
   }"

definition StartMetricsCollection :: "wlm_params \<Rightarrow> bool \<Rightarrow> string \<Rightarrow> bool" where
  "StartMetricsCollection p collect osType \<longleftrightarrow>
     \<not> (RemoteCollection p = None \<and> \<not> collect) \<and> osType \<noteq> ''windows'' \<and> WorkloadConfig p \<noteq> None"

section \<open>A local round runs only listed commands\<close>

text \<open>The commands of the Pacemaker collection: the state of the cluster, searches in files, and the two requests that
  check the access of the fence agent. One of them is a \<open>POST\<close> to the log service whose body asks for a dry run.\<close>

definition accessCheck :: "string list \<Rightarrow> bool" where
  "accessCheck args \<longleftrightarrow> (\<exists>auth url. args = [''-H'', auth, url]) \<or>
     (\<exists>auth service json body. args = [''-H'', auth, service @ ''/v2/entries:write'', ''-X'', ''POST'', ''-H'', json, ''-d'', body] \<and>
        hasPrefix body (''{'' @ quoted ''dryRun'' @ '': true, ''))"

definition clusterCmd :: "cmd \<Rightarrow> bool" where
  "clusterCmd c = (case c of
      CmdArgs exe args user \<Rightarrow>
        (exe, args) \<in> {(''crm_mon'', [''--as-xml'']), (''cibadmin'', [''--query'']), (''pcs'', [''cluster'', ''cib'']),
          (''crm'', [''status'']), (''pcs'', [''status''])} \<or>
        exe = ''curl'' \<and> accessCheck args
    | CmdSplit exe args user \<Rightarrow>
        (exe, args) \<in> {(''crm_mon'', ''-1 -r -f''), (''sh'', shellQuoted (''crm configure show | grep maintenance | grep true'')),
          (''sh'', shellQuoted (''pcs property show | grep maintenance | grep true''))} \<or>
        exe = ''grep'')"

definition clusterCall :: "os_command_metric set \<Rightarrow> pm_call \<Rightarrow> bool" where
  "clusterCall os c = (case c of
      Exec cmd \<Rightarrow> clusterCmd cmd
    | OSMetric m vendor \<Rightarrow> m \<in> os
    | _ \<Rightarrow> True)"

text \<open>The commands that the workload definition configures.\<close>

definition configuredCommands :: "wlm_params \<Rightarrow> os_command_metric set" where
  "configuredCommands p = (let wlm = WorkloadConfig p in
     set (getList sys_OsCommandMetrics (getPart ValidationSystem wlm)) \<union> set (getList co_OsCommandMetrics (getPart ValidationCorosync wlm)) \<union>
     set (getList ha_OsCommandMetrics (getPart ValidationHana wlm)) \<union> set (getList nw_OsCommandMetrics (getPart ValidationNetweaver wlm)) \<union>
     set (getList pm_OsCommandMetrics (getPart ValidationPacemaker wlm)) \<union> set (getList cu_OsCommandMetrics (getPart ValidationCustom wlm)))"

text \<open>The commands of the other collections, and the calls of a round.\<close>

definition sudoQuery :: "'row wlm_world \<Rightarrow> string \<Rightarrow> bool" where
  "sudoQuery w args \<longleftrightarrow>
     (\<exists>adm. args \<in> {''-i -u '' @ adm @ '' whereis hdbindexserver'',
          ''-i -u '' @ adm @ '' /bin/sh -c '' @ [CHR 0x27] @ ''echo $DIR_INSTANCE'' @ [CHR 0x27],
          ''-i -u '' @ adm @ '' hdbnsutil -sr_state | grep '' @ quote ''^mode: primary''}) \<or>
     (\<exists>pattern dir. args = shsprintf w (findFormat pattern) dir)"

definition queryCmd :: "'row wlm_world \<Rightarrow> cmd \<Rightarrow> bool" where
  "queryCmd w c = (case c of
      CmdArgs exe args user \<Rightarrow> exe = ''test''
    | CmdSplit exe args user \<Rightarrow> exe \<in> {''grep'', ''df'', ''lsblk''} \<or> exe = ''sudo'' \<and> sudoQuery w args)"

definition listed :: "'row wlm_world \<Rightarrow> wlm_params \<Rightarrow> wlm_call \<Rightarrow> bool" where
  "listed w p c = (case c of
      WExec cmd \<Rightarrow> queryCmd w cmd
    | ConfigureCall ci \<Rightarrow> read_only ci
    | PacemakerCall pc \<Rightarrow> clusterCall (configuredCommands p) pc
    | MetricOfOS m \<Rightarrow> m \<in> configuredCommands p
    | _ \<Rightarrow> c \<in> {Now, ReadInstanceInfo, InstanceDisks, SAPInstancesCall, SAPSystemsCall, InterfaceAddrs, KernelVersionCall} \<or>
        (\<exists>f. c = StatPath f \<or> c = OpenOverride f) \<or> (\<exists>f ms b. c = EvalFile f ms b))"

lemma listed_simps [simp]:
  "listed w p Now" "listed w p (StatPath f)" "listed w p (OpenOverride f)" "listed w p ReadInstanceInfo" "listed w p InstanceDisks"
  "listed w p (MetricOfOS m) = (m \<in> configuredCommands p)" "listed w p (EvalFile f ms b)" "listed w p SAPInstancesCall"
  "listed w p SAPSystemsCall" "listed w p InterfaceAddrs" "listed w p KernelVersionCall"
  "listed w p (PacemakerCall pc) = clusterCall (configuredCommands p) pc" "listed w p (ConfigureCall ci) = read_only ci"
  "listed w p (WExec (CmdArgs ''test'' a u))" "listed w p (WExec (CmdSplit ''grep'' s u))" "listed w p (WExec (CmdSplit ''df'' s u))"
  "listed w p (WExec (CmdSplit ''lsblk'' s u))" "listed w p (WExec (CmdSplit ''sudo'' s u)) = sudoQuery w s"
  by (simp_all add: listed_def queryCmd_def)

lemma clusterCall_simps [simp]:
  "clusterCall os ReadOSRelease" "clusterCall os (Exists f)" "clusterCall os DefaultCredentials" "clusterCall os (OpenKeyFile f)"
  "clusterCall os (ReadKeyFile f)" "clusterCall os (JSONCredentials f)" "clusterCall os AccessToken" "clusterCall os (Lookup f)"
  "clusterCall os (OSMetric m v) = (m \<in> os)" "clusterCall os (Exec c) = clusterCmd c"
  by (simp_all add: clusterCall_def)

lemma access_requests: "accessCheck (computeArgs w p t)" "accessCheck (loggingArgs w p t)"
  by (simp_all add: accessCheck_def computeArgs_def loggingArgs_def hasPrefix_def)

lemma cluster_bearer [calls_rules]: "calls_only (clusterCall os) (getBearerToken w file)"
  unfolding getBearerToken_def getDefaultBearerToken_def getJSONBearerToken_def by (intro calls_rules) simp_all

lemma cluster_xml [calls_rules]: "calls_only (clusterCall os) (XMLString w crm)"
  unfolding XMLString_def by (intro calls_rules) (simp_all add: clusterCmd_def)

lemma cluster_sid [calls_rules]: "calls_only (clusterCall os) (sapSid w)"
  unfolding sapSid_def by (intro calls_rules) (simp add: clusterCmd_def)

lemma cluster_labels [calls_rules]: "calls_only (clusterCall os) (clusterLabels w c project token crm ls)"
  unfolding clusterLabels_def Let_def setPacemakerAPIAccess_def checkAPIAccess_def setPacemakerMaintenanceMode_def
    setPacemakerClusterHealthy_def collectASCSInstance_def readStatus_def collectEnqueueServer_def setASCSConfigMetrics_def
    collectASCSVirtualIP_def setVirtualIP_def virtualHostName_def
  by (intro calls_rules) (simp_all add: clusterCmd_def access_requests)

lemma cluster_collection:
  assumes "set (getList pm_OsCommandMetrics (getPart ValidationPacemaker wlm)) \<subseteq> os"
  shows "calls_only (clusterCall os) (CollectPacemakerMetrics w cloud wlm vendor)"
proof -
  have "calls_only (clusterCall os) (addOSMetrics w v ms l)" if "set ms \<subseteq> os" for v ms l
    using that by (induction ms arbitrary: l) (simp_all add: calls_rules)
  with assms show ?thesis
    unfolding CollectPacemakerMetrics_def collectPacemakerValAndLabels_def Let_def by (intro calls_rules) simp_all
qed

named_theorems looks

lemma looks_series [looks]: "calls_only (listed w p) (createTimeSeries w t l v)"
  unfolding createTimeSeries_def by (intro calls_rules) simp

lemma looks_os [looks]: "set ms \<subseteq> configuredCommands p \<Longrightarrow> calls_only (listed w p) (addOSLabels w ms l)"
  by (induction ms arbitrary: l) (simp_all add: calls_rules)

lemma configured_parts [simp]:
  "set (getList sys_OsCommandMetrics (getPart ValidationSystem (WorkloadConfig p))) \<subseteq> configuredCommands p"
  "set (getList co_OsCommandMetrics (getPart ValidationCorosync (WorkloadConfig p))) \<subseteq> configuredCommands p"
  "set (getList ha_OsCommandMetrics (getPart ValidationHana (WorkloadConfig p))) \<subseteq> configuredCommands p"
  "set (getList nw_OsCommandMetrics (getPart ValidationNetweaver (WorkloadConfig p))) \<subseteq> configuredCommands p"
  "set (getList pm_OsCommandMetrics (getPart ValidationPacemaker (WorkloadConfig p))) \<subseteq> configuredCommands p"
  "set (getList cu_OsCommandMetrics (getPart ValidationCustom (WorkloadConfig p))) \<subseteq> configuredCommands p"
  by (auto simp: configuredCommands_def Let_def)

lemma looks_settings [looks]: "calls_only (listed w p) (osSettings w p)"
  unfolding osSettings_def
  by (intro calls_rules calls_only_nested[OF check_and_describe_change_nothing]) (simp_all add: osSettingsArgs_def)

lemma looks_system [looks]: "calls_only (listed w p) (CollectSystemMetricsFromConfig w p)"
proof -
  have "calls_only (listed w p) (collectSystemVariable w p m)" for m
    unfolding collectSystemVariable_def networkIPAddrs_def appServerZonalSeparation_def hasInstanceRole_def kernelVersion_def
    by (intro calls_rules looks) simp_all
  then have "calls_only (listed w p) (systemLabels w p ms l)" for ms l
    by (induction ms arbitrary: l) (simp_all add: calls_rules)
  then show ?thesis
    unfolding CollectSystemMetricsFromConfig_def Let_def by (intro calls_rules looks) simp_all
qed

lemma looks_mount [looks]: "calls_only (listed w p) (volumeMountPoint w path)"
  unfolding volumeMountPoint_def by (intro calls_rules) simp

lemma looks_volumes [looks]: "calls_only (listed w p) (volumeLabels w ini adm vs l)"
proof (induction vs arbitrary: l)
  case (Cons v vs)
  have "calls_only (listed w p) (diskInfo w v ini adm)"
    unfolding diskInfo_def fetchVolumeMountPointFromGlobalINI_def fetchVolumeMountPointFromHDBIndexserverPath_def
      fetchVolumeMountPointFromDirInstanceEnv_def Let_def
    by (intro calls_rules looks) (auto simp: sudoQuery_def)
  with Cons show ?case
    by (simp add: calls_rules)
qed (simp add: calls_rules)

lemma looks_variables: "calls_only (listed w p) m \<Longrightarrow> calls_only (listed w p) (variableLabels m xs l)"
  by (induction xs arbitrary: l) (simp_all add: calls_rules)

lemma looks_backups [looks]: "calls_only (listed w p) (hanaBackupMetrics w)"
proof -
  have "calls_only (listed w p) (fetchLastBackupTimestamps w t)" for t
    unfolding fetchLastBackupTimestamps_def Let_def fetchSuccessfulBackups_def fetchBackupThreadIDs_def findLogs_def
    by (intro calls_rules) (auto simp: sudoQuery_def)
  then have "calls_only (listed w p) (tenantLoop w ts s)" for ts s
    by (induction ts arbitrary: s) (simp_all add: calls_rules)
  then show ?thesis
    unfolding hanaBackupMetrics_def discoverHANADBTenants_def by (intro calls_rules) simp_all
qed

lemma looks_hana [looks]: "calls_only (listed w p) (CollectHANAMetricsFromConfig w p)"
  unfolding CollectHANAMetricsFromConfig_def sapHANAInstance_def Let_def checkHAZones_def checkDRRegions_def chksrvHookActive_def
  by (intro calls_rules looks looks_variables) (auto simp: sudoQuery_def)

lemma looks_pacemaker [looks]: "calls_only (listed w p) (CollectPacemakerMetricsFromConfig w p)"
  unfolding CollectPacemakerMetricsFromConfig_def
  by (intro calls_rules looks calls_only_nested [OF cluster_collection]) (simp_all add: listed_simps(12))

lemma looks_others [looks]:
  "calls_only (listed w p) (CollectCorosyncMetricsFromConfig w p v)" "calls_only (listed w p) (CollectNetWeaverMetricsFromConfig w p)"
  "calls_only (listed w p) (CollectCustomMetricsFromConfig w p)"
  unfolding CollectCorosyncMetricsFromConfig_def CollectNetWeaverMetricsFromConfig_def CollectCustomMetricsFromConfig_def Let_def
  by (intro calls_rules looks; simp)+

lemma looks_override [looks]: "calls_only (listed w p) (collectOverrideMetrics w)"
proof -
  have "calls_only (listed w p) (seriesOf w ms)" for ms
    by (induction ms) (simp_all add: calls_rules looks)
  then show ?thesis
    unfolding collectOverrideMetrics_def by (intro calls_rules) simp_all
qed

text \<open>C17. A round of collecting the metrics of the machine runs only commands from a fixed list and the commands that the
  workload definition configures; the other outside calls read. The machine configuration is checked with calls that
  change nothing, and the one request of the round that is not a read, to the log service, is a dry run. Nothing is sent
  to Cloud Monitoring or Data Warehouse.\<close>

theorem round_runs_listed_commands: "calls_only (listed w p) (collectMetricsFromConfig w p)"
  unfolding collectMetricsFromConfig_def Let_def by (intro calls_rules looks) simp_all

section \<open>Nothing before the activation\<close>

definition isActivation :: "wlm_call \<Rightarrow> bool" where
  "isActivation c = (case c of Activation _ _ _ \<Rightarrow> True | ActivationTick \<Rightarrow> True | _ \<Rightarrow> False)"

primrec activatedIn :: "'row wlm_world \<Rightarrow> wlm_call list \<Rightarrow> bool" where
  "activatedIn w [] = False"
| "activatedIn w (c # log) = ((case c of Activation _ _ _ \<Rightarrow> activated w log c | _ \<Rightarrow> False) \<or> activatedIn w log)"

interpretation active: precedence "activatedIn w" for w
  by unfold_locales simp

lemma wait_calls: "calls_only isActivation (waitForDataWarehouseActivation w p n)"
  by (induction n) (simp_all add: calls_rules isActivation_def)

lemma wait_activates: "wp (waitForDataWarehouseActivation w p n) (\<lambda>ok log. ok \<longrightarrow> activatedIn w log) log"
proof (induction n arbitrary: log)
  case (Suc n)
  then show ?case
    by (auto simp: wp_bind wp_call wp_if wp_return)
qed (simp add: wp_return)

named_theorems any_calls

lemma any_call [any_calls]: "calls_only (\<lambda>_. True) (call env c)"
  by (rule calls_only_call) simp

lemma any_listed [any_calls]: "calls_only (listed w p) m \<Longrightarrow> calls_only (\<lambda>_. True) m"
  by (rule calls_only_mono) simp_all

lemma any_send: "calls_only (\<lambda>_. True) (sendMetrics w p cp wm)"
  unfolding sendMetrics_def sendMetricsToDataWarehouse_def sendMetricsToDataWarehouseSecondary_def Let_def
  by (intro calls_rules) simp_all

lemma any_remote: "calls_only (\<lambda>_. True) (collectAndSendRemoteMetrics w p)"
proof -
  have "calls_only (\<lambda>_. True) (collectRemote w f rc i)" for f rc i
    unfolding collectRemote_def collectRemoteSSH_def collectRemoteGcloud_def Let_def by (intro calls_rules) simp_all
  then have "calls_only (\<lambda>_. True) (remoteLoop w p f rc is n)" for f rc "is" n
    by (induction "is" arbitrary: n) (simp_all add: calls_rules any_send)
  then show ?thesis
    unfolding collectAndSendRemoteMetrics_def by (intro calls_rules) simp_all
qed

lemma any_round: "calls_only (\<lambda>_. True) (collectWorkloadMetricsOnce w p)"
proof -
  have "calls_only (\<lambda>_. True) (collectMetricsFromConfig w p)"
    unfolding collectMetricsFromConfig_def Let_def
    by (intro calls_rules looks[THEN any_listed]) simp_all
  then show ?thesis
    unfolding collectWorkloadMetricsOnce_def by (intro calls_rules any_remote any_send) simp_all
qed

lemma any_db: "calls_only (\<lambda>_. True) (collectDBMetricsOnce F order w p)"
  unfolding collectDBMetricsOnce_def
  by (intro calls_rules calls_only_nested_any any_send looks[THEN any_listed]) simp_all

lemma any_loop: "calls_only (\<lambda>_. True) (serviceLoop F order w es p)"
  by (induction es arbitrary: p) (auto split: wlm_event.split intro!: calls_rules any_round any_db)

text \<open>C15. Whatever happens, the service does nothing but ask whether data is accepted until it is: every other call of its
  whole run comes after a request that Data Warehouse answered with success.\<close>

theorem nothing_before_activation:
  "wp (startCollecting F order w n es p) (\<lambda>_ log. guarded (activatedIn w) (\<lambda>c. \<not> isActivation c) log) []"
proof -
  let ?G = "guarded (activatedIn w) (\<lambda>c. \<not> isActivation c)"
  have wait: "wp (waitForDataWarehouseActivation w p n) (\<lambda>ok log. ?G log \<and> (ok \<longrightarrow> activatedIn w log)) []"
    by (rule wp_conj[OF guarded_free wait_activates]) (simp_all add: wait_calls)
  have after: "wp m (\<lambda>_. ?G) log" if "calls_only (\<lambda>_. True) m" "?G log" "activatedIn w log" for m log
    by (rule wp_mono[OF active.stays[OF that(1,3,2)]]) simp
  have rest: "calls_only (\<lambda>_. True) (case es of WCancelled # _ \<Rightarrow> ret True | _ \<Rightarrow> serviceLoop F order w (CollectDue # DatabaseDue # es) p)"
    using any_loop[of F order w "CollectDue # DatabaseDue # es" p]
    by (auto simp del: serviceLoop.simps split: list.split wlm_event.split intro: calls_only_ret)
  show ?thesis
    unfolding startCollecting_def wp_bind
    by (rule wp_mono[OF wait]) (auto simp: wp_return intro: after[OF rest])
qed

text \<open>While it waits it does not beat, so that the health monitor sees it silent.\<close>

lemma waiting_is_silent: "calls_only (\<lambda>c. c \<noteq> WBeat) (waitForDataWarehouseActivation w p n)"
  by (rule calls_only_mono[OF wait_calls]) (auto simp: isActivation_def)

section \<open>The series of a round\<close>

definition oneSeries :: "string \<Rightarrow> time_series list \<Rightarrow> bool" where
  "oneSeries t ts \<longleftrightarrow> (\<exists>x. ts = [x] \<and> MetricType x = t)"

lemma wp_series: "oneSeries t \<le> Q \<Longrightarrow> wp (createTimeSeries w t l v) (\<lambda>ts _. Q ts) log"
  by (auto simp: createTimeSeries_def wp_rules oneSeries_def le_fun_def)

named_theorems one_series

lemma one_hana [one_series]: "wp (CollectHANAMetricsFromConfig w p) (\<lambda>ts _. oneSeries (validationPrefix @ ''hana'') ts) log"
proof -
  have "validationPrefix @ ''hana'' = sapValidationHANA"
    by (simp add: validationPrefix_def sapValidationHANA_def)
  then show ?thesis
    unfolding CollectHANAMetricsFromConfig_def Let_def
    by (intro wp_any) (auto simp: wp_case_option intro!: wp_any wp_series split: option.split)
qed

lemma one_system [one_series]: "wp (CollectSystemMetricsFromConfig w p) (\<lambda>ts _. oneSeries (validationPrefix @ ''system'') ts) log"
  unfolding CollectSystemMetricsFromConfig_def Let_def by (intro wp_any wp_series order_refl)

lemma one_pacemaker [one_series]:
  "wp (CollectPacemakerMetricsFromConfig w p) (\<lambda>ts _. oneSeries (validationPrefix @ ''pacemaker'') ts) log"
  unfolding CollectPacemakerMetricsFromConfig_def by (intro wp_any wp_series order_refl)

lemma one_custom [one_series]: "wp (CollectCustomMetricsFromConfig w p) (\<lambda>ts _. oneSeries (validationPrefix @ ''custom'') ts) log"
  unfolding CollectCustomMetricsFromConfig_def by (intro wp_any wp_series order_refl)

lemma one_corosync [one_series]:
  "wp (CollectCorosyncMetricsFromConfig w p v) (\<lambda>ts _. oneSeries (validationPrefix @ ''corosync'') ts) log"
  unfolding CollectCorosyncMetricsFromConfig_def Let_def by (auto intro!: wp_any wp_series)

lemma one_netweaver [one_series]:
  "wp (CollectNetWeaverMetricsFromConfig w p) (\<lambda>ts _. oneSeries (validationPrefix @ ''netweaver'') ts) log"
  unfolding CollectNetWeaverMetricsFromConfig_def by (auto intro!: wp_any wp_series)

definition sixTypes :: "string list" where
  "sixTypes = map (\<lambda>t. validationPrefix @ t) [''system'', ''corosync'', ''hana'', ''netweaver'', ''pacemaker'', ''custom'']"

definition shareLabels :: "time_series list \<Rightarrow> bool" where
  "shareLabels ts \<longleftrightarrow> list_all (\<lambda>t. sharedLabels (firstLabels ts) \<subseteq>\<^sub>m MetricLabels t) ts"

lemma shared_appended: "sharedLabels l \<subseteq>\<^sub>m appendLabels d (sharedLabels l)"
  by (simp add: appendLabels_def)

lemma six_shared:
  assumes "oneSeries (validationPrefix @ ''system'') a" "oneSeries (validationPrefix @ ''corosync'') b" "oneSeries (validationPrefix @ ''hana'') c"
    and "oneSeries (validationPrefix @ ''netweaver'') d" "oneSeries (validationPrefix @ ''pacemaker'') e" "oneSeries (validationPrefix @ ''custom'') f"
  defines "s \<equiv> sharedLabels (firstLabels a)"
  shows "map MetricType (a @ appendToFirst s b @ appendToFirst s c @ appendToFirst s d @ appendToFirst s e @ appendToFirst s f) = sixTypes \<and>
     shareLabels (a @ appendToFirst s b @ appendToFirst s c @ appendToFirst s d @ appendToFirst s e @ appendToFirst s f)"
proof -
  have "sharedLabels l \<subseteq>\<^sub>m l" for l
    by (auto simp: sharedLabels_def map_le_def)
  then show ?thesis
    using assms by (auto simp: oneSeries_def appendToFirst_def sixTypes_def shareLabels_def firstLabels_def shared_appended)
qed

text \<open>C16. A round without an override file yields one series for each of the six parts, in a fixed order and however the
  machine answers, and each carries the labels that the parts share with the values of the system's series.\<close>

theorem round_has_six_series:
  "wp (collectMetricsFromConfig w p) (\<lambda>ts _. statOk w log (StatPath metricOverridePath) \<or>
      map MetricType ts = sixTypes \<and> shareLabels ts) log"
proof (cases "statOk w log (StatPath metricOverridePath)")
  case True
  then show ?thesis
    by (auto intro: wpI)
next
  case False
  show ?thesis
    unfolding collectMetricsFromConfig_def wp_bind wp_call Let_def
    unfolding if_not_P[OF False]
  proof (rule wp_any, goal_cases)
    case (1 u s)
    show ?case
      by (rule wp_seq[OF one_system], rule wp_seq[OF one_hana], rule wp_seq[OF one_netweaver], rule wp_seq[OF one_pacemaker],
          rule wp_seq[OF one_corosync], rule wp_seq[OF one_custom], unfold wp_return, rule disjI2, rule six_shared)
  qed
qed

section \<open>What a remote host prints is read back\<close>

text \<open>What is relied on of \<open>protojson\<close>: an encoded message is one line that starts with a brace and decodes to the message.\<close>

definition encodes :: "'row wlm_world \<Rightarrow> time_series \<Rightarrow> bool" where
  "encodes w t = (case encodeSeries w t of
      Inl _ \<Rightarrow> False
    | Inr s \<Rightarrow> chNL \<notin> set s \<and> hasPrefix s ''{'' \<and> decodeSeries w s = Some t)"

lemma printed_lines:
  "list_all (encodes w) ts \<Longrightarrow> \<exists>s. seriesLines w ts = Inr s \<and> parseLines w (splitOn chNL s) = ts \<and> (s = [] \<or> hasPrefix s ''{'')"
proof (induction ts)
  case (Cons t ts)
  then obtain r where r: "seriesLines w ts = Inr r" "parseLines w (splitOn chNL r) = ts"
    by auto
  obtain s where s: "encodeSeries w t = Inr s" "chNL \<notin> set s" "hasPrefix s ''{''" "decodeSeries w s = Some t"
    using Cons.prems by (auto simp: encodes_def split: sum.splits)
  then have "s \<noteq> []" "hasPrefix (s @ chNL # r) ''{''"
    by (auto simp: hasPrefix_iff)
  with r s show ?case
    by (simp add: splitOn_append_sep)
qed simp

text \<open>The series that the agent on a remote host collects are the ones that the collecting host reads from its output.\<close>

theorem remote_output_read_back:
  assumes "list_all (encodes w) ts" "CmdError r = None" "StdOut r = metricsText w ts"
  shows "readRemote w r = ts"
proof -
  obtain s where s: "seriesLines w ts = Inr s" "parseLines w (splitOn chNL s) = ts" "s = [] \<or> hasPrefix s ''{''"
    using printed_lines[OF assms(1)] by blast
  then have "\<not> hasPrefix s ''ERROR''"
    by (auto simp: hasPrefix_iff)
  with s assms(2,3) show ?thesis
    by (simp add: readRemote_def parseRemoteJSON_def metricsText_def)
qed

lemma remote_output_read_back_witness:
  "\<forall>w. let t = \<lparr>MetricType = ''custom'', MetricLabels = Map.empty, MetricValue = Whole 1, MetricTime = 7\<rparr>;
       v = w\<lparr>encodeSeries := \<lambda>_. Inr ''{1}'', decodeSeries := \<lambda>_. Some t\<rparr>
     in readRemote v \<lparr>StdOut = ''{1}'' @ [chNL] @ ''{1}'' @ [chNL], StdErr = [], CmdError = None, ExitCode = 0,
          ExitStatusParsed = True, ExecutableFound = True\<rparr> = [t, t]"
  unfolding Let_def by (intro allI remote_output_read_back) (simp_all add: encodes_def metricsText_def)

end
