(* ===== verification/CloudDiscovery.thy ===== *)
theory CloudDiscovery
  imports CloudURI Prelude "HOL-Library.Word"
begin

text \<open>
  The discovery of cloud resources (\<open>internal/system/clouddiscovery/cloud_discovery.go\<close>): starting from names of hosts,
  addresses or URIs, the resources they denote and those related to them. Resources are objects shared by pointers: the
  cache returns the same object again, and the loops change objects they were given. So objects live in a heap, a list
  indexed by their addresses. Compute Engine, the resolver, the clock and the library \<open>net\<close> are the environment.
\<close>

unbundle bit_operations_syntax

section \<open>Objects\<close>

datatype resource_kind =
    INSTANCE | ADDRESS | DISK | FORWARDING_RULE | INSTANCE_GROUP | FILESTORE | HEALTH_CHECK | BACKEND_SERVICE | NETWORK | SUBNETWORK

text \<open>The properties of an instance, an object of its own; a role is a set of bits.\<close>

record instance_props =
  InstanceNumber :: nat
  VirtualHostname :: string
  InstanceRole :: "32 word"
  AppInstances :: "(string \<times> string) list"
  DiskDeviceNames :: "(string \<times> string) list"
  DiskMounts :: "(string \<times> string list) list"
  OsKernelVersion :: "string option"

definition emptyProps :: instance_props where
  "emptyProps = \<lparr>InstanceNumber = 0, VirtualHostname = [], InstanceRole = 0, AppInstances = [], DiskDeviceNames = [], DiskMounts = [], OsKernelVersion = None\<rparr>"

record cloud_resource =
  ResourceKind :: resource_kind
  ResUri :: string
  RelatedResources :: "string list"
  UpdateTime :: int
  InstanceProperties :: "nat option"

record heap =
  resources :: "cloud_resource list"
  propsHeap :: "instance_props list"

record to_discover =
  td_name :: string
  td_region :: string
  td_network :: string
  td_parent :: "nat option"

record subnetwork =
  sn_name :: string
  sn_range :: string

record discovery_state =
  cd_heap :: heap
  resourceCache :: "string \<rightharpoonup> nat \<times> to_discover list"
  networks :: "string \<rightharpoonup> subnetwork list"

abbreviation resource :: "discovery_state \<Rightarrow> nat \<Rightarrow> cloud_resource" where
  "resource st p \<equiv> resources (cd_heap st) ! p"

definition updateResource :: "nat \<Rightarrow> (cloud_resource \<Rightarrow> cloud_resource) \<Rightarrow> discovery_state \<Rightarrow> discovery_state" where
  "updateResource p f st = st\<lparr>cd_heap := (cd_heap st)\<lparr>resources := (resources (cd_heap st))[p := f (resource st p)]\<rparr>\<rparr>"

definition updateProps :: "nat \<Rightarrow> (instance_props \<Rightarrow> instance_props) \<Rightarrow> discovery_state \<Rightarrow> discovery_state" where
  "updateProps q f st = st\<lparr>cd_heap := (cd_heap st)\<lparr>propsHeap := (propsHeap (cd_heap st))[q := f (propsHeap (cd_heap st) ! q)]\<rparr>\<rparr>"

definition newResource :: "cloud_resource \<Rightarrow> discovery_state \<Rightarrow> nat \<times> discovery_state" where
  "newResource r st = (length (resources (cd_heap st)), st\<lparr>cd_heap := (cd_heap st)\<lparr>resources := resources (cd_heap st) @ [r]\<rparr>\<rparr>)"

definition newProps :: "instance_props \<Rightarrow> discovery_state \<Rightarrow> nat \<times> discovery_state" where
  "newProps x st = (length (propsHeap (cd_heap st)), st\<lparr>cd_heap := (cd_heap st)\<lparr>propsHeap := propsHeap (cd_heap st) @ [x]\<rparr>\<rparr>)"

text \<open>\<open>if r.InstanceProperties == nil\<close> then new properties, and the change of a field.\<close>

definition withProps :: "nat \<Rightarrow> (instance_props \<Rightarrow> instance_props) \<Rightarrow> discovery_state \<Rightarrow> discovery_state" where
  "withProps p f st =
     (case InstanceProperties (resource st p) of
        Some q \<Rightarrow> updateProps q f st
      | None \<Rightarrow> (case newProps emptyProps st of (q, st1) \<Rightarrow> updateProps q f (updateResource p (\<lambda>r. r\<lparr>InstanceProperties := Some q\<rparr>) st1)))"

definition propsOf :: "discovery_state \<Rightarrow> nat \<Rightarrow> instance_props option" where
  "propsOf st p = (case InstanceProperties (resource st p) of None \<Rightarrow> None | Some q \<Rightarrow> Some (propsHeap (cd_heap st) ! q))"

definition hostnameOf :: "discovery_state \<Rightarrow> nat \<Rightarrow> string" where
  "hostnameOf st p = (case propsOf st p of None \<Rightarrow> [] | Some x \<Rightarrow> VirtualHostname x)"

definition setHostname :: "nat \<Rightarrow> string \<Rightarrow> discovery_state \<Rightarrow> discovery_state" where
  "setHostname p name = withProps p (\<lambda>x. x\<lparr>VirtualHostname := name\<rparr>)"

section \<open>The environment\<close>

record gce_interface =
  if_network :: string
  if_subnetwork :: string
  if_address :: string

record gce_instance =
  gi_id :: nat
  gi_link :: string
  gi_disks :: "(string \<times> string) list"
  gi_interfaces :: "gce_interface list"

record gce_object =
  go_link :: string
  go_name :: string
  go_network :: string
  go_subnetwork :: string
  go_service :: string
  go_range :: string
  go_names :: "string list"
  go_others :: "string list"

datatype cloud_call =
    CurrentTime
  | ResolveHost string
  | GetInstance string string string
  | GetDisk string string string
  | GetAddress string string string
  | GetForwardingRule string string string
  | GetBackendService string string string
  | GetInstanceGroup string string string
  | ListGroupInstances string string string
  | GetFilestore string string string
  | GetHealthCheck string string
  | GetNetwork string string
  | GetSubnetwork string string string
  | GetURIForIP string string string string

text \<open>
  \<open>gceObject\<close> answers all requests but those for instances: of an address its users, of a group of instances its members,
  of a back-end service its groups, of a network its subnetworks are the \<open>go_names\<close>; the health checks of a back-end
  service are \<open>go_others\<close>. \<open>uriForIP\<close> answers with a URI and whether there was no error. \<open>cidrOk\<close> says
  whether a range parses, \<open>cidrContains\<close> whether an address lies in it.
\<close>

record cloud_world =
  clock :: "(cloud_call, int) env"
  resolve :: "(cloud_call, string list) env"
  gceInstance :: "(cloud_call, gce_instance option) env"
  gceObject :: "(cloud_call, gce_object option) env"
  uriForIP :: "(cloud_call, string \<times> bool) env"
  cidrOk :: "string \<Rightarrow> bool"
  cidrContains :: "string \<Rightarrow> string \<Rightarrow> bool"

type_synonym ('a) discovery = "discovery_state \<Rightarrow> (cloud_call, 'a \<times> discovery_state) prog"

type_synonym found = "(nat \<times> to_discover list) option"

text \<open>The resource at a new address, with the time of the clock.\<close>

definition allocate :: "cloud_world \<Rightarrow> resource_kind \<Rightarrow> string \<Rightarrow> string list \<Rightarrow> nat option \<Rightarrow> nat discovery" where
  "allocate w k uri related props st = do {
     t \<leftarrow> call (clock w) CurrentTime;
     ret (newResource \<lparr>ResourceKind = k, ResUri = uri, RelatedResources = related, UpdateTime = t, InstanceProperties = props\<rparr> st)
   }"

definition todo :: "string \<Rightarrow> string \<Rightarrow> nat \<Rightarrow> string \<Rightarrow> to_discover" where
  "todo region network p name = \<lparr>td_name = name, td_region = region, td_network = network, td_parent = Some p\<rparr>"

section \<open>The kinds of resources\<close>

definition discoverAddress :: "cloud_world \<Rightarrow> string \<Rightarrow> found discovery" where
  "discoverAddress w uri st =
     (let project = ExtractFromURI uri ''projects''; region = ExtractFromURI uri ''regions''
      in do {
        r \<leftarrow> call (gceObject w) (GetAddress project region (ExtractFromURI uri ''addresses''));
        (case r of
           None \<Rightarrow> ret (None, st)
         | Some ca \<Rightarrow> do {
             a \<leftarrow> allocate w ADDRESS (go_link ca) [] None st;
             ret (Some (fst a, map (todo region (go_network ca) (fst a)) (go_subnetwork ca # go_network ca # go_names ca)), snd a)
           })
      })"

definition discoverInstance :: "cloud_world \<Rightarrow> string \<Rightarrow> found discovery" where
  "discoverInstance w uri st =
     (let project = ExtractFromURI uri ''projects''; zone = ExtractFromURI uri ''zones''; region = RegionFromZone zone
      in do {
        r \<leftarrow> call (gceInstance w) (GetInstance project zone (ExtractFromURI uri ''instances''));
        (case r of
           None \<Rightarrow> ret (None, st)
         | Some ci \<Rightarrow>
             (let ps = newProps (emptyProps\<lparr>InstanceNumber := gi_id ci, DiskDeviceNames := gi_disks ci\<rparr>) st
              in do {
                a \<leftarrow> allocate w INSTANCE (gi_link ci) [] (Some (fst ps)) (snd ps);
                ret (Some (fst a, map (\<lambda>d. todo region [] (fst a) (fst d)) (gi_disks ci)
                       @ concat (map (\<lambda>i. map (todo region (if_network i) (fst a)) [if_network i, if_subnetwork i, if_address i]) (gi_interfaces ci))), snd a)
              }))
      })"

definition discoverDisk :: "cloud_world \<Rightarrow> string \<Rightarrow> found discovery" where
  "discoverDisk w uri st = do {
     r \<leftarrow> call (gceObject w) (GetDisk (ExtractFromURI uri ''projects'') (ExtractFromURI uri ''zones'') (ExtractFromURI uri ''disks''));
     (case r of
        None \<Rightarrow> ret (None, st)
      | Some cd \<Rightarrow> do { a \<leftarrow> allocate w DISK (go_link cd) [] None st; ret (Some (fst a, []), snd a) })
   }"

definition discoverForwardingRule :: "cloud_world \<Rightarrow> string \<Rightarrow> found discovery" where
  "discoverForwardingRule w uri st =
     (let region = ExtractFromURI uri ''regions''
      in do {
        r \<leftarrow> call (gceObject w) (GetForwardingRule (ExtractFromURI uri ''projects'') region (ExtractFromURI uri ''forwardingRules''));
        (case r of
           None \<Rightarrow> ret (None, st)
         | Some fwr \<Rightarrow> do {
             a \<leftarrow> allocate w FORWARDING_RULE (go_link fwr) [] None st;
             ret (Some (fst a, map (todo region (go_network fwr) (fst a)) [go_service fwr, go_network fwr, go_subnetwork fwr]), snd a)
           })
      })"

definition discoverInstanceGroup :: "cloud_world \<Rightarrow> string \<Rightarrow> found discovery" where
  "discoverInstanceGroup w uri st =
     (let project = ExtractFromURI uri ''projects''; zone = ExtractFromURI uri ''zones''; name = ExtractFromURI uri ''instanceGroups''
      in do {
        r \<leftarrow> call (gceObject w) (GetInstanceGroup project zone name);
        (case r of
           None \<Rightarrow> ret (None, st)
         | Some ig \<Rightarrow> do {
             t \<leftarrow> call (clock w) CurrentTime;
             l \<leftarrow> call (gceObject w) (ListGroupInstances project zone name);
             (case l of
                None \<Rightarrow> ret (None, st)
              | Some members \<Rightarrow>
                  (let a = newResource \<lparr>ResourceKind = INSTANCE_GROUP, ResUri = go_link ig, RelatedResources = go_names members,
                                        UpdateTime = t, InstanceProperties = None\<rparr> st
                   in ret (Some (fst a, map (todo (RegionFromZone zone) (go_network ig) (fst a)) (go_names members)), snd a)))
           })
      })"

definition discoverFilestore :: "cloud_world \<Rightarrow> string \<Rightarrow> found discovery" where
  "discoverFilestore w uri st = do {
     r \<leftarrow> call (gceObject w) (GetFilestore (ExtractFromURI uri ''projects'') (ExtractFromURI uri ''locations'') (ExtractFromURI uri ''filestores''));
     (case r of
        None \<Rightarrow> ret (None, st)
      | Some f \<Rightarrow> do { a \<leftarrow> allocate w FILESTORE (go_name f) [] None st; ret (Some (fst a, []), snd a) })
   }"

definition discoverHealthCheck :: "cloud_world \<Rightarrow> string \<Rightarrow> found discovery" where
  "discoverHealthCheck w uri st = do {
     r \<leftarrow> call (gceObject w) (GetHealthCheck (ExtractFromURI uri ''projects'') (ExtractFromURI uri ''healthChecks''));
     (case r of
        None \<Rightarrow> ret (None, st)
      | Some hc \<Rightarrow> do { a \<leftarrow> allocate w HEALTH_CHECK (go_link hc) [] None st; ret (Some (fst a, []), snd a) })
   }"

definition discoverBackendService :: "cloud_world \<Rightarrow> string \<Rightarrow> found discovery" where
  "discoverBackendService w uri st =
     (let region = ExtractFromURI uri ''regions''
      in do {
        r \<leftarrow> call (gceObject w) (GetBackendService (ExtractFromURI uri ''projects'') region (ExtractFromURI uri ''backendServices''));
        (case r of
           None \<Rightarrow> ret (None, st)
         | Some bes \<Rightarrow> do {
             a \<leftarrow> allocate w BACKEND_SERVICE (go_link bes) [] None st;
             ret (Some (fst a, map (todo region (go_network bes) (fst a)) (filter (\<lambda>g. g \<noteq> []) (go_names bes) @ go_others bes)), snd a)
           })
      })"

text \<open>The subnetworks that can be read and whose range parses.\<close>

primrec readSubnetworks :: "cloud_world \<Rightarrow> string \<Rightarrow> string list \<Rightarrow> (cloud_call, subnetwork list) prog" where
  "readSubnetworks w project [] = ret []"
| "readSubnetworks w project (s # ss) = do {
     r \<leftarrow> call (gceObject w) (GetSubnetwork (ExtractFromURI s ''subnetworks'') project (ExtractFromURI s ''regions''));
     rest \<leftarrow> readSubnetworks w project ss;
     ret (case r of
            None \<Rightarrow> rest
          | Some cs \<Rightarrow> if cidrOk w (go_range cs) then \<lparr>sn_name = go_name cs, sn_range = go_range cs\<rparr> # rest else rest)
   }"

definition discoverNetwork :: "cloud_world \<Rightarrow> string \<Rightarrow> found discovery" where
  "discoverNetwork w uri st =
     (let name = ExtractFromURI uri ''networks''; project = ExtractFromURI uri ''projects''
      in do {
        r \<leftarrow> call (gceObject w) (GetNetwork name project);
        (case r of
           None \<Rightarrow> ret (None, st)
         | Some cn \<Rightarrow> do {
             a \<leftarrow> allocate w NETWORK (go_link cn) [] None st;
             ss \<leftarrow> readSubnetworks w project (go_names cn);
             ret (Some (fst a, []), (snd a)\<lparr>networks := (networks (snd a))(uri \<mapsto> ss)\<rparr>)
           })
      })"

definition discoverSubnetwork :: "cloud_world \<Rightarrow> string \<Rightarrow> found discovery" where
  "discoverSubnetwork w uri st = do { a \<leftarrow> allocate w SUBNETWORK uri [] None st; ret (Some (fst a, []), snd a) }"

definition discoverResourceForURI :: "cloud_world \<Rightarrow> string \<Rightarrow> found discovery" where
  "discoverResourceForURI w uri st =
     (let k = getResourceKind uri
      in if k = ''instances'' then discoverInstance w uri st
         else if k = ''addresses'' then discoverAddress w uri st
         else if k = ''disks'' then discoverDisk w uri st
         else if k = ''forwardingRules'' then discoverForwardingRule w uri st
         else if k = ''backendServices'' then discoverBackendService w uri st
         else if k = ''instanceGroups'' then discoverInstanceGroup w uri st
         else if k = ''filestores'' then discoverFilestore w uri st
         else if k = ''healthChecks'' then discoverHealthCheck w uri st
         else if k = ''subnetworks'' then discoverSubnetwork w uri st
         else if k = ''networks'' then discoverNetwork w uri st
         else ret (None, st))"

section \<open>One resource\<close>

definition tenMinutes :: int where
  "tenMinutes = 600000000000"

definition isFresh :: "discovery_state \<Rightarrow> int \<Rightarrow> nat \<times> to_discover list \<Rightarrow> bool" where
  "isFresh st now c \<longleftrightarrow> now - UpdateTime (resource st (fst c)) < tenMinutes"

definition cacheAs :: "string list \<Rightarrow> nat \<times> to_discover list \<Rightarrow> discovery_state \<Rightarrow> discovery_state" where
  "cacheAs names c st = st\<lparr>resourceCache := fold (\<lambda>n m. m(n \<mapsto> c)) names (resourceCache st)\<rparr>"

text \<open>The first subnetwork with the address decides; an empty answer is asked for again without a subnetwork.\<close>

definition uriInSubnetworks :: "cloud_world \<Rightarrow> string \<Rightarrow> string \<Rightarrow> string \<Rightarrow> subnetwork list \<Rightarrow> (cloud_call, string \<times> bool) prog" where
  "uriInSubnetworks w project addr region ss =
     (case List.find (\<lambda>s. cidrContains w (sn_range s) addr) ss of
        None \<Rightarrow> ret ([], True)
      | Some s \<Rightarrow> call (uriForIP w) (GetURIForIP project addr region (sn_name s)))"

text \<open>The URI of an address, \<open>None\<close> for an error.\<close>

definition uriOfAddress :: "cloud_world \<Rightarrow> to_discover \<Rightarrow> string \<Rightarrow> string \<Rightarrow> string option discovery" where
  "uriOfAddress w h project addr st = do {
     n \<leftarrow> (if td_network h = [] then ret (Some ([], True), st)
           else do {
             st1 \<leftarrow> (if networks st (td_network h) = None then do { r \<leftarrow> discoverNetwork w (td_network h) st; ret (snd r) } else ret st);
             (case networks st1 (td_network h) of
                None \<Rightarrow> ret (None, st1)
              | Some ss \<Rightarrow> if ss = [] then ret (None, st1)
                           else do { u \<leftarrow> uriInSubnetworks w project addr (td_region h) ss; ret (Some u, st1) })
           });
     (case n of
        (None, st1) \<Rightarrow> ret (None, st1)
      | (Some u, st1) \<Rightarrow> do {
          v \<leftarrow> (if fst u = [] then call (uriForIP w) (GetURIForIP project addr (td_region h) []) else ret u);
          ret (if snd v then Some (fst v) else None, st1)
        })
   }"

definition addRelated :: "nat \<Rightarrow> string \<Rightarrow> discovery_state \<Rightarrow> discovery_state" where
  "addRelated p uri st =
     (if uri \<in> set (RelatedResources (resource st p)) then st
      else updateResource p (\<lambda>r. r\<lparr>RelatedResources := RelatedResources r @ [uri]\<rparr>) st)"

text \<open>The resource of a URI, linked to its parent and cached under all of its names; \<open>addr\<close> is empty for none.\<close>

definition discoverAt :: "cloud_world \<Rightarrow> to_discover \<Rightarrow> string \<Rightarrow> string \<Rightarrow> found discovery" where
  "discoverAt w h uri addr st = do {
     f \<leftarrow> discoverResourceForURI w uri st;
     (case f of
        (None, st1) \<Rightarrow> ret (None, st1)
      | (Some (p, dis), st1) \<Rightarrow>
          (let st2 = (if uri \<noteq> td_name h \<and> ResourceKind (resource st1 p) = INSTANCE then setHostname p (td_name h) st1 else st1);
               st3 = (case td_parent h of
                        None \<Rightarrow> st2
                      | Some pp \<Rightarrow> addRelated p (ResUri (resource st2 pp)) (addRelated pp (ResUri (resource st2 p)) st2));
               names = [td_name h, ResUri (resource st3 p)] @ (if td_name h \<noteq> uri then [uri] else [])
                 @ (if addr \<noteq> [] \<and> addr \<noteq> td_name h then [addr] else [])
           in ret (Some (p, dis), cacheAs names (p, dis) st3)))
   }"

text \<open>A hit of the cache under the address or the URI is cached under the other names even when it is too old to be used.\<close>

definition viaURI :: "cloud_world \<Rightarrow> to_discover \<Rightarrow> string \<Rightarrow> string \<Rightarrow> int \<Rightarrow> found discovery" where
  "viaURI w h addr uri now st =
     (case resourceCache st uri of
        None \<Rightarrow> discoverAt w h uri addr st
      | Some c \<Rightarrow> if isFresh st now c then ret (Some c, cacheAs [td_name h, addr] c st)
                  else discoverAt w h uri addr (cacheAs [td_name h, addr] c st))"

definition parentProject :: "to_discover \<Rightarrow> string \<Rightarrow> discovery_state \<Rightarrow> string" where
  "parentProject h project st = (case td_parent h of None \<Rightarrow> project | Some pp \<Rightarrow> ExtractFromURI (ResUri (resource st pp)) ''projects'')"

definition resolveAddress :: "cloud_world \<Rightarrow> to_discover \<Rightarrow> string \<Rightarrow> string \<Rightarrow> int \<Rightarrow> found discovery" where
  "resolveAddress w h project addr now st = do {
     u \<leftarrow> uriOfAddress w h (parentProject h project st) addr st;
     (case fst u of None \<Rightarrow> ret (None, snd u) | Some uri \<Rightarrow> viaURI w h addr uri now (snd u))
   }"

definition viaAddress :: "cloud_world \<Rightarrow> to_discover \<Rightarrow> string \<Rightarrow> string \<Rightarrow> int \<Rightarrow> found discovery" where
  "viaAddress w h project addr now st =
     (case resourceCache st addr of
        None \<Rightarrow> resolveAddress w h project addr now st
      | Some c \<Rightarrow> if isFresh st now c then ret (Some c, cacheAs [td_name h] c st)
                  else resolveAddress w h project addr now (cacheAs [td_name h] c st))"

definition discoverUncached :: "cloud_world \<Rightarrow> to_discover \<Rightarrow> string \<Rightarrow> int \<Rightarrow> found discovery" where
  "discoverUncached w h project now st = do {
     addrs \<leftarrow> call (resolve w) (ResolveHost (td_name h));
     (case addrs of
        [] \<Rightarrow> discoverAt w h (td_name h) [] st
      | addr # _ \<Rightarrow> viaAddress w h project addr now st)
   }"

definition discoverResource :: "cloud_world \<Rightarrow> to_discover \<Rightarrow> string \<Rightarrow> found discovery" where
  "discoverResource w h project st = do {
     now \<leftarrow> call (clock w) CurrentTime;
     (case resourceCache st (td_name h) of
        None \<Rightarrow> discoverUncached w h project now st
      | Some c \<Rightarrow> if isFresh st now c then ret (Some c, st) else discoverUncached w h project now st)
   }"

section \<open>The queue\<close>

text \<open>The virtual host name moves from a parent that is no instance; a name that is neither an address nor a URI is a
  virtual host name.\<close>

definition inheritHostname :: "to_discover \<Rightarrow> nat \<Rightarrow> discovery_state \<Rightarrow> discovery_state" where
  "inheritHostname h p st =
     (case td_parent h of
        None \<Rightarrow> st
      | Some pp \<Rightarrow>
          if ResourceKind (resource st p) = INSTANCE \<and> ResourceKind (resource st pp) \<noteq> INSTANCE \<and> hostnameOf st pp \<noteq> []
          then updateResource pp (\<lambda>r. r\<lparr>InstanceProperties := None\<rparr>) (setHostname p (hostnameOf st pp) st)
          else st)"

definition nameAsHostname :: "to_discover \<Rightarrow> nat \<Rightarrow> discovery_state \<Rightarrow> discovery_state" where
  "nameAsHostname h p st =
     (if td_name h \<noteq> ResUri (resource st p) \<and> \<not> matchString addressRegex (td_name h) \<and> \<not> matchString uriRegex (td_name h)
      then setHostname p (td_name h) st else st)"

text \<open>At most \<open>n\<close> rounds of the loop; \<open>None\<close> when they are used up.\<close>

fun discoverLoop ::
  "cloud_world \<Rightarrow> string \<Rightarrow> nat \<Rightarrow> to_discover list \<Rightarrow> string list \<Rightarrow> nat list \<Rightarrow> nat list option discovery" where
  "discoverLoop w project 0 q uris res st = ret (None, st)"
| "discoverLoop w project (Suc n) [] uris res st = ret (Some res, st)"
| "discoverLoop w project (Suc n) (h # q) uris res st =
     (if td_name h = [] then discoverLoop w project n q uris res st
      else if td_name h \<in> set uris then discoverLoop w project n q uris res st
      else do {
        f \<leftarrow> discoverResource w h project st;
        (case f of
           (None, st1) \<Rightarrow> discoverLoop w project n q uris res st1
         | (Some (p, dis), st1) \<Rightarrow>
             (let st2 = nameAsHostname h p (inheritHostname h p st1); uri = ResUri (resource st2 p)
              in discoverLoop w project n (q @ dis) (uris @ [td_name h] @ (if td_name h \<noteq> uri then [uri] else [])) (res @ [p]) st2))
      })"

record cloud_location =
  loc_project :: string
  loc_zone :: string

definition hostTodo :: "cloud_location \<Rightarrow> string \<Rightarrow> nat option \<Rightarrow> string \<Rightarrow> to_discover" where
  "hostTodo cp network parent h =
     \<lparr>td_name = h, td_region = (if loc_zone cp = [] then [] else RegionFromZone (loc_zone cp)), td_network = network, td_parent = parent\<rparr>"

definition DiscoverComputeResources ::
  "cloud_world \<Rightarrow> nat \<Rightarrow> nat option \<Rightarrow> string \<Rightarrow> string list \<Rightarrow> cloud_location \<Rightarrow> nat list option discovery" where
  "DiscoverComputeResources w n parent network hosts cp st =
     discoverLoop w (loc_project cp) n (map (hostTodo cp network parent) hosts) [] [] st"

end
