(* ===== verification/DiscoveryEnds.thy ===== *)
theory DiscoveryEnds
  imports CloudDiscovery
begin

text \<open>
  The discovery of cloud resources ends, whatever the relations between the resources are, because no name is discovered
  twice; and a discovered resource is linked to the one that led to it.
\<close>

section \<open>Bounded answers\<close>

definition todosOk :: "string set \<Rightarrow> nat \<Rightarrow> to_discover list \<Rightarrow> bool" where
  "todosOk N D dis \<longleftrightarrow> length dis \<le> D \<and> td_name ` set dis \<subseteq> N"

definition cacheOk :: "string set \<Rightarrow> nat \<Rightarrow> discovery_state \<Rightarrow> bool" where
  "cacheOk N D st \<longleftrightarrow> (\<forall>c \<in> ran (resourceCache st). todosOk N D (snd c))"

definition instanceOk :: "string set \<Rightarrow> nat \<Rightarrow> gce_instance option \<Rightarrow> bool" where
  "instanceOk N D r = (case r of
      None \<Rightarrow> True
    | Some i \<Rightarrow> length (gi_disks i) + 3 * length (gi_interfaces i) \<le> D \<and> fst ` set (gi_disks i) \<subseteq> N \<and>
        (\<forall>n \<in> set (gi_interfaces i). {if_network n, if_subnetwork n, if_address n} \<subseteq> N))"

definition objectOk :: "string set \<Rightarrow> nat \<Rightarrow> gce_object option \<Rightarrow> bool" where
  "objectOk N D r = (case r of
      None \<Rightarrow> True
    | Some x \<Rightarrow> 3 + length (go_names x) + length (go_others x) \<le> D \<and> set (go_names x) \<union> set (go_others x) \<subseteq> N \<and>
        {go_network x, go_subnetwork x, go_service x} \<subseteq> N)"

text \<open>Compute Engine knows only names of \<open>N\<close>, and no resource refers to more than \<open>D\<close> of them.\<close>

definition boundedWorld :: "string set \<Rightarrow> nat \<Rightarrow> cloud_world \<Rightarrow> bool" where
  "boundedWorld N D w \<longleftrightarrow> (\<forall>log c. instanceOk N D (gceInstance w log c) \<and> objectOk N D (gceObject w log c))"

definition foundOk :: "string set \<Rightarrow> nat \<Rightarrow> found \<times> discovery_state \<Rightarrow> bool" where
  "foundOk N D r \<longleftrightarrow> cacheOk N D (snd r) \<and> (case fst r of None \<Rightarrow> True | Some c \<Rightarrow> todosOk N D (snd c))"

lemma foundOk_None [simp]: "foundOk N D (None, st) = cacheOk N D st"
  by (simp add: foundOk_def)

lemma foundOk_Some [simp]: "foundOk N D (Some c, st) \<longleftrightarrow> cacheOk N D st \<and> todosOk N D (snd c)"
  by (simp add: foundOk_def)

section \<open>The cache\<close>

lemma cache_updateResource [simp]: "resourceCache (updateResource p f st) = resourceCache st"
  by (simp add: updateResource_def)

lemma cache_updateProps [simp]: "resourceCache (updateProps p f st) = resourceCache st"
  by (simp add: updateProps_def)

lemma cache_newResource [simp]: "resourceCache (snd (newResource r st)) = resourceCache st"
  by (simp add: newResource_def)

lemma cache_newProps [simp]: "resourceCache (snd (newProps r st)) = resourceCache st"
  by (simp add: newProps_def)

lemma cache_withProps [simp]: "resourceCache (withProps p f st) = resourceCache st"
  by (simp add: withProps_def newProps_def split: option.split)

lemma cache_setHostname [simp]: "resourceCache (setHostname p n st) = resourceCache st"
  by (simp add: setHostname_def)

lemma cache_addRelated [simp]: "resourceCache (addRelated p u st) = resourceCache st"
  by (simp add: addRelated_def)

lemma cache_hostnames [simp]:
  "resourceCache (inheritHostname h p st) = resourceCache st" "resourceCache (nameAsHostname h p st) = resourceCache st"
  by (simp_all add: inheritHostname_def nameAsHostname_def split: option.split)

lemma cacheOk_cong: "resourceCache st = resourceCache st' \<Longrightarrow> cacheOk N D st = cacheOk N D st'"
  by (simp add: cacheOk_def)

lemma cacheOk_updates [simp]:
  "cacheOk N D (st\<lparr>networks := m\<rparr>) = cacheOk N D st"
  "cacheOk N D (snd (newResource r st)) = cacheOk N D st"
  "cacheOk N D (snd (newProps x st)) = cacheOk N D st"
  "cacheOk N D (setHostname p n st) = cacheOk N D st"
  "cacheOk N D (addRelated p u st) = cacheOk N D st"
  "cacheOk N D (inheritHostname h p st) = cacheOk N D st"
  "cacheOk N D (nameAsHostname h p st) = cacheOk N D st"
  by (rule cacheOk_cong; simp)+

lemma cacheOk_cacheAs: "cacheOk N D st \<Longrightarrow> todosOk N D (snd c) \<Longrightarrow> cacheOk N D (cacheAs names c st)"
proof -
  assume ok: "cacheOk N D st" "todosOk N D (snd c)"
  have "ran (fold (\<lambda>n m. m(n \<mapsto> c)) names m) \<subseteq> insert c (ran m)" for m :: "string \<rightharpoonup> nat \<times> to_discover list"
  proof (induction names arbitrary: m)
    case (Cons n names)
    have "ran (m(n \<mapsto> c)) \<subseteq> insert c (ran m)"
      by (auto simp: ran_def split: if_splits)
    with Cons.IH[of "m(n \<mapsto> c)"] show ?case
      unfolding fold_simps by blast
  qed auto
  then show ?thesis
    using ok by (fastforce simp: cacheOk_def cacheAs_def)
qed

lemma cacheOk_hit: "cacheOk N D st \<Longrightarrow> resourceCache st k = Some c \<Longrightarrow> todosOk N D (snd c)"
  by (auto simp: cacheOk_def intro: ranI)

lemma cacheOk_pair: "cacheOk N D st \<Longrightarrow> resourceCache st k = Some (p, dis) \<Longrightarrow> todosOk N D dis"
  using cacheOk_hit by fastforce

section \<open>One discovery keeps the bound\<close>

lemma object_bounded: "boundedWorld N D w \<Longrightarrow> gceObject w log c = Some x \<Longrightarrow> 3 + length (go_names x) + length (go_others x) \<le> D \<and>
    set (go_names x) \<subseteq> N \<and> set (go_others x) \<subseteq> N \<and> go_network x \<in> N \<and> go_subnetwork x \<in> N \<and> go_service x \<in> N"
  by (force simp: boundedWorld_def objectOk_def split: option.splits)

lemma instance_bounded: "boundedWorld N D w \<Longrightarrow> gceInstance w log c = Some i \<Longrightarrow> length (gi_disks i) + 3 * length (gi_interfaces i) \<le> D \<and>
    fst ` set (gi_disks i) \<subseteq> N \<and> (\<forall>n \<in> set (gi_interfaces i). if_network n \<in> N \<and> if_subnetwork n \<in> N \<and> if_address n \<in> N)"
  by (force simp: boundedWorld_def instanceOk_def split: option.splits)

lemma td_name_todo [simp]: "td_name (todo r n p x) = x"
  by (simp add: todo_def)

lemma wp_allocate: "(\<And>t. Q (newResource \<lparr>ResourceKind = k, ResUri = uri, RelatedResources = rel, UpdateTime = t, InstanceProperties = ps\<rparr> st)
    (CurrentTime # log)) \<Longrightarrow> wp (allocate w k uri rel ps st) Q log"
  by (simp add: allocate_def wp_rules)

lemma object_filter: "boundedWorld N D w \<Longrightarrow> gceObject w log c = Some x \<Longrightarrow> length (filter P (go_names x)) + length (go_others x) \<le> D"
  by (drule (1) object_bounded) (rule order_trans[OF add_right_mono[OF length_filter_le]], simp)

lemma address_ok: "boundedWorld N D w \<Longrightarrow> cacheOk N D st \<Longrightarrow> wp (discoverAddress w uri st) (\<lambda>r _. foundOk N D r) log"
  unfolding discoverAddress_def Let_def
  by (auto simp: wp_rules todosOk_def image_subset_iff intro!: wp_allocate split: option.split; frule (1) object_bounded; force)

lemma instances_length: "length (concat (map (\<lambda>i. [f i, g i, h i]) is)) = 3 * length is"
  by (induction "is") simp_all

lemma instance_ok: "boundedWorld N D w \<Longrightarrow> cacheOk N D st \<Longrightarrow> wp (discoverInstance w uri st) (\<lambda>r _. foundOk N D r) log"
  unfolding discoverInstance_def Let_def
  by (auto simp: wp_rules todosOk_def instances_length image_subset_iff intro!: wp_allocate split: option.split;
      frule (1) instance_bounded; force)

lemma service_ok: "boundedWorld N D w \<Longrightarrow> cacheOk N D st \<Longrightarrow> wp (discoverBackendService w uri st) (\<lambda>r _. foundOk N D r) log"
  unfolding discoverBackendService_def Let_def
  by (auto simp: wp_rules todosOk_def image_subset_iff object_filter intro!: wp_allocate split: option.split;
      frule (1) object_bounded; force)

lemma others_ok:
  assumes "boundedWorld N D w" "cacheOk N D st"
  shows "wp (discoverDisk w uri st) (\<lambda>r _. foundOk N D r) log" "wp (discoverFilestore w uri st) (\<lambda>r _. foundOk N D r) log"
    "wp (discoverHealthCheck w uri st) (\<lambda>r _. foundOk N D r) log" "wp (discoverSubnetwork w uri st) (\<lambda>r _. foundOk N D r) log"
  unfolding discoverDisk_def discoverFilestore_def discoverHealthCheck_def discoverSubnetwork_def Let_def
  using assms by (auto simp: wp_rules todosOk_def intro!: wp_allocate split: option.split)

lemma network_found:
  assumes "cacheOk N D st"
  shows "wp (discoverNetwork w uri st) (\<lambda>r _. foundOk N D r) log"
proof -
  have "wp (State_Monad.bind (allocate w NETWORK link [] None st) (\<lambda>a. State_Monad.bind (readSubnetworks w project ss)
      (\<lambda>ss. ret (Some (fst a, []), (snd a)\<lparr>networks := (networks (snd a))(uri \<mapsto> ss)\<rparr>)))) (\<lambda>r _. foundOk N D r) log'" for link project ss log'
    unfolding wp_bind[of "allocate _ _ _ _ _ _"] using assms
    by (auto simp: wp_return todosOk_def intro!: wp_allocate wp_any)
  then show ?thesis
    unfolding discoverNetwork_def Let_def using assms by (auto simp: wp_bind wp_call wp_return split: option.split)
qed

lemma rule_ok: "boundedWorld N D w \<Longrightarrow> cacheOk N D st \<Longrightarrow> wp (discoverForwardingRule w uri st) (\<lambda>r _. foundOk N D r) log"
  unfolding discoverForwardingRule_def Let_def
  by (auto simp: wp_rules todosOk_def image_subset_iff intro!: wp_allocate split: option.split; frule (1) object_bounded; force)

lemma group_ok:
  assumes "boundedWorld N D w" "cacheOk N D st"
  shows "wp (discoverInstanceGroup w uri st) (\<lambda>r _. foundOk N D r) log"
proof -
  have "todosOk N D (map (todo r n p) (go_names x))" if "gceObject w log c = Some x" for log c x r n p
    using object_bounded[OF assms(1) that] by (auto simp: todosOk_def)
  then show ?thesis
    unfolding discoverInstanceGroup_def Let_def using assms(2) by (auto simp: wp_bind wp_call wp_return split: option.split)
qed

lemma uri_ok:
  assumes "boundedWorld N D w" "cacheOk N D st"
  shows "wp (discoverResourceForURI w uri st) (\<lambda>r _. foundOk N D r) log"
  unfolding discoverResourceForURI_def Let_def
  using assms by (simp add: wp_return address_ok instance_ok service_ok others_ok network_found rule_ok group_ok)

lemma at_ok:
  assumes "boundedWorld N D w" "cacheOk N D st"
  shows "wp (discoverAt w h uri addr st) (\<lambda>r _. foundOk N D r) log"
  unfolding discoverAt_def
proof (rule wp_seq[OF uri_ok[OF assms]])
  fix r s
  assume r: "foundOk N D r"
  obtain f st1 where "r = (f, st1)"
    by fastforce
  with r show "wp (case r of (None, st1) \<Rightarrow> ret (None, st1)
      | (Some (p, dis), st1) \<Rightarrow>
          (let st2 = (if uri \<noteq> td_name h \<and> ResourceKind (resource st1 p) = INSTANCE then setHostname p (td_name h) st1 else st1);
               st3 = (case td_parent h of
                        None \<Rightarrow> st2
                      | Some pp \<Rightarrow> addRelated p (ResUri (resource st2 pp)) (addRelated pp (ResUri (resource st2 p)) st2));
               names = [td_name h, ResUri (resource st3 p)] @ (if td_name h \<noteq> uri then [uri] else [])
                 @ (if addr \<noteq> [] \<and> addr \<noteq> td_name h then [addr] else [])
           in ret (Some (p, dis), cacheAs names (p, dis) st3))) (\<lambda>r _. foundOk N D r) s"
    by (auto simp: Let_def wp_return intro!: cacheOk_cacheAs split: option.split)
qed

lemma via_uri_ok: "boundedWorld N D w \<Longrightarrow> cacheOk N D st \<Longrightarrow> wp (viaURI w h uri addr now st) (\<lambda>r _. foundOk N D r) log"
  unfolding viaURI_def
  by (auto simp: wp_return at_ok intro!: at_ok cacheOk_cacheAs intro: cacheOk_pair split: option.split)

lemma network_ok:
  assumes "cacheOk N D st"
  shows "wp (uriOfAddress w h project addr st) (\<lambda>r _. cacheOk N D (snd r)) log"
proof -
  have networks: "wp (if networks st (td_network h) = None then State_Monad.bind (discoverNetwork w (td_network h) st) (\<lambda>r. ret (snd r)) else ret st)
      (\<lambda>st1 _. cacheOk N D st1) log'" for log'
    using assms by (auto simp: wp_return foundOk_def intro!: wp_seq[OF network_found])
  have first: "wp (if td_network h = [] then ret (Some ([], True), st)
           else State_Monad.bind (if networks st (td_network h) = None then State_Monad.bind (discoverNetwork w (td_network h) st) (\<lambda>r. ret (snd r)) else ret st)
             (\<lambda>st1. case networks st1 (td_network h) of
                None \<Rightarrow> ret (None, st1)
              | Some ss \<Rightarrow> if ss = [] then ret (None, st1)
                           else State_Monad.bind (uriInSubnetworks w project addr (td_region h) ss) (\<lambda>u. ret (Some u, st1))))
      (\<lambda>r _. cacheOk N D (snd r)) log"
  proof (cases "td_network h = []")
    case True
    then show ?thesis
      using assms by (simp add: wp_return)
  next
    case False
    show ?thesis
      unfolding if_not_P[OF False]
      by (rule wp_seq[OF networks]) (auto simp: wp_return split: option.split intro!: wp_any)
  qed
  show ?thesis
    unfolding uriOfAddress_def
    by (rule wp_seq[OF first]) (auto simp: wp_return split: prod.split option.split intro!: wp_any)
qed

lemma via_address_ok:
  assumes "boundedWorld N D w" "cacheOk N D st"
  shows "wp (viaAddress w h project addr now st) (\<lambda>r _. foundOk N D r) log"
proof -
  have go: "wp (resolveAddress w h project addr now st1) (\<lambda>r _. foundOk N D r) log" if "cacheOk N D st1" for st1
    unfolding resolveAddress_def
    by (rule wp_seq[OF network_ok[OF that]]) (auto simp: wp_return intro!: via_uri_ok[OF assms(1)] split: option.split)
  show ?thesis
    unfolding viaAddress_def using assms(2)
    by (auto simp: wp_return intro!: go cacheOk_cacheAs intro: cacheOk_pair split: option.split)
qed

lemma discover_ok:
  assumes "boundedWorld N D w" "cacheOk N D st"
  shows "wp (discoverResource w h project st) (\<lambda>r _. foundOk N D r) log"
proof -
  have go: "wp (discoverUncached w h project now st) (\<lambda>r _. foundOk N D r) log'" for now log'
    unfolding discoverUncached_def wp_bind wp_call using assms
    by (auto simp: at_ok via_address_ok split: list.split)
  show ?thesis
    unfolding discoverResource_def wp_bind wp_call using assms
    by (auto simp: go wp_return intro: cacheOk_pair split: option.split)
qed

section \<open>The loop ends\<close>

lemma loop_ends:
  assumes "boundedWorld N D w" "finite N"
  shows "cacheOk N D st \<Longrightarrow> td_name ` set q \<subseteq> N \<Longrightarrow> length q + D * card (N - set uris) < n \<Longrightarrow>
     wp (discoverLoop w project n q uris res st) (\<lambda>r _. \<exists>out. fst r = Some out \<and> length out \<le> length res + card (N - set uris)) log"
proof (induction n arbitrary: q uris res st log)
  case (Suc n)
  show ?case
  proof (cases q)
    case Nil
    then show ?thesis
      by (simp add: wp_return)
  next
    case (Cons h q')
    consider (skip) "td_name h = [] \<or> td_name h \<in> set uris" | (new) "td_name h \<noteq> []" "td_name h \<notin> set uris"
      by blast
    then show ?thesis
    proof cases
      case skip
      then show ?thesis
        using Suc Cons by auto
    next
      case new
      have member: "td_name h \<in> N - set uris"
        using new Suc.prems(2) Cons by simp
      have fewer: "card (N - set (uris @ [td_name h] @ more)) < card (N - set uris)" for more
        using assms(2) member by (intro psubset_card_mono) auto
      have step: "wp (case r of (None, st1) \<Rightarrow> discoverLoop w project n q' uris res st1
         | (Some (p, dis), st1) \<Rightarrow>
             (let st2 = nameAsHostname h p (inheritHostname h p st1); uri = ResUri (resource st2 p)
              in discoverLoop w project n (q' @ dis) (uris @ [td_name h] @ (if td_name h \<noteq> uri then [uri] else [])) (res @ [p]) st2))
          (\<lambda>r _. \<exists>out. fst r = Some out \<and> length out \<le> length res + card (N - set uris)) log'"
        if r: "foundOk N D r" for r log'
      proof -
        consider (none) st1 where "r = (None, st1)" | (some) p dis st1 where "r = (Some (p, dis), st1)"
          by (metis not_Some_eq surj_pair)
        then show ?thesis
        proof cases
          case none
          then show ?thesis
            using Suc r Cons by simp
        next
          case some
          let ?uri = "ResUri (resource (nameAsHostname h p (inheritHostname h p st1)) p)"
          let ?more = "if td_name h \<noteq> ?uri then [?uri] else []"
          have dis: "length dis \<le> D" "td_name ` set dis \<subseteq> N" "cacheOk N D st1"
            using r some by (simp_all add: todosOk_def)
          have "D * card (N - set (uris @ [td_name h] @ ?more)) + D \<le> D * card (N - set uris)"
            using mult_le_mono2[OF Suc_leI[OF fewer[of ?more]], of D] by simp
          then have measure: "length (q' @ dis) + D * card (N - set (uris @ [td_name h] @ ?more)) < n"
            using Suc.prems(3) Cons dis(1) by simp
          have "wp (discoverLoop w project n (q' @ dis) (uris @ [td_name h] @ ?more) (res @ [p])
              (nameAsHostname h p (inheritHostname h p st1)))
              (\<lambda>r _. \<exists>out. fst r = Some out \<and> length out \<le> length (res @ [p]) + card (N - set (uris @ [td_name h] @ ?more))) log'"
          proof (rule Suc.IH[OF _ _ measure])
            show "td_name ` set (q' @ dis) \<subseteq> N"
              using dis(2) Suc.prems(2) Cons by auto
          qed (simp add: dis(3))
          then show ?thesis
            unfolding some prod.case option.case Let_def
            by (rule wp_mono) (use fewer[of ?more] in fastforce)
        qed
      qed
      show ?thesis
        unfolding Cons discoverLoop.simps using new by (simp add: wp_seq[OF discover_ok[OF assms(1) Suc.prems(1)] step])
    qed
  qed
qed simp

text \<open>C20. The discovery ends whatever the resources refer to, with at most one resource for every name: as many rounds are
  enough as there are hosts and references from the names that exist.\<close>

theorem discovery_ends:
  assumes "boundedWorld N D w" "finite N" "cacheOk N D st" "set hosts \<subseteq> N" "length hosts + D * card N < n"
  shows "wp (DiscoverComputeResources w n parent network hosts cp st) (\<lambda>r _. \<exists>out. fst r = Some out \<and> length out \<le> card N) log"
  unfolding DiscoverComputeResources_def
  using loop_ends[OF assms(1,2,3), of "map (hostTodo cp network parent) hosts" "[]" n "loc_project cp" "[]" log] assms(4,5)
  by (auto simp: hostTodo_def image_image)

definition sampleInstance :: gce_instance where
  "sampleInstance = \<lparr>gi_id = 7, gi_link = ''projects/p/zones/a-b-c/instances/i'', gi_disks = [(''projects/p/zones/a-b-c/disks/d'', ''d'')],
     gi_interfaces = [\<lparr>if_network = ''projects/p/global/networks/n'', if_subnetwork = [], if_address = ''10.0.0.1''\<rparr>]\<rparr>"

definition sampleCloud :: cloud_world where
  "sampleCloud = \<lparr>clock = \<lambda>_ _. 0, resolve = \<lambda>_ _. [], gceInstance = \<lambda>_ _. Some sampleInstance, gceObject = \<lambda>_ _. None,
     uriForIP = \<lambda>_ _. ([], False), cidrOk = \<lambda>_. True, cidrContains = \<lambda>_ _. True\<rparr>"

definition emptyState :: discovery_state where
  "emptyState = \<lparr>cd_heap = \<lparr>resources = [], propsHeap = []\<rparr>, resourceCache = Map.empty, networks = Map.empty\<rparr>"

lemma discovery_ends_witness:
  "wp (DiscoverComputeResources sampleCloud 22 None [] [''projects/p/zones/a-b-c/instances/i''] \<lparr>loc_project = ''p'', loc_zone = ''a-b-c''\<rparr> emptyState)
     (\<lambda>r _. \<exists>out. fst r = Some out \<and>
        length out \<le> card {''projects/p/zones/a-b-c/instances/i'', ''projects/p/zones/a-b-c/disks/d'', ''projects/p/global/networks/n'', [], ''10.0.0.1''}) []"
  by (rule discovery_ends[where D=4])
     (simp_all add: boundedWorld_def sampleCloud_def sampleInstance_def instanceOk_def objectOk_def cacheOk_def emptyState_def)

section \<open>Names and links\<close>

definition validResource :: "discovery_state \<Rightarrow> nat \<Rightarrow> bool" where
  "validResource st p \<longleftrightarrow> p < length (resources (cd_heap st)) \<and>
     (case InstanceProperties (resource st p) of None \<Rightarrow> True | Some q \<Rightarrow> q < length (propsHeap (cd_heap st)))"

lemma hostname_set: "validResource st p \<Longrightarrow> hostnameOf (setHostname p n st) p = n"
  by (auto simp: validResource_def hostnameOf_def propsOf_def setHostname_def withProps_def updateProps_def updateResource_def newProps_def
      split: option.splits)

lemma props_addRelated: "InstanceProperties (resource (addRelated p u st) q) = InstanceProperties (resource st q)"
proof (cases "p = q \<and> p < length (resources (cd_heap st))")
  case True
  then show ?thesis
    by (simp add: addRelated_def updateResource_def)
next
  case False
  then have "(resources (cd_heap st))[p := x] ! q = resources (cd_heap st) ! q" for x
    by (cases "p = q") (simp_all add: list_update_beyond)
  then show ?thesis
    by (simp add: addRelated_def updateResource_def)
qed

lemma propsHeap_addRelated: "propsHeap (cd_heap (addRelated p u st)) = propsHeap (cd_heap st)"
  by (simp add: addRelated_def updateResource_def)

lemma hostname_addRelated [simp]: "hostnameOf (addRelated p u st) q = hostnameOf st q"
  unfolding hostnameOf_def propsOf_def props_addRelated propsHeap_addRelated ..

lemma heap_cacheAs: "cd_heap (cacheAs ns c st) = cd_heap st"
  by (simp add: cacheAs_def)

lemma hostname_cacheAs [simp]: "hostnameOf (cacheAs ns c st) q = hostnameOf st q"
  unfolding hostnameOf_def propsOf_def heap_cacheAs ..

lemma instance_valid:
  "wp (discoverInstance w uri st) (\<lambda>r _. case fst r of None \<Rightarrow> True | Some c \<Rightarrow> validResource (snd r) (fst c) \<and> ResourceKind (resource (snd r) (fst c)) = INSTANCE) log"
  unfolding discoverInstance_def Let_def
  by (auto simp: wp_rules validResource_def newResource_def newProps_def intro!: wp_allocate split: option.split)

text \<open>An address that leads to an instance becomes its virtual host name, which only names that are no addresses should.\<close>

lemma address_becomes_hostname:
  assumes "getResourceKind uri = ''instances''" "uri \<noteq> td_name h"
  shows "wp (discoverAt w h uri addr st) (\<lambda>r _. case fst r of None \<Rightarrow> True | Some c \<Rightarrow> hostnameOf (snd r) (fst c) = td_name h) log"
proof -
  have "wp (discoverResourceForURI w uri st) (\<lambda>r _. case fst r of None \<Rightarrow> True | Some c \<Rightarrow>
      validResource (snd r) (fst c) \<and> ResourceKind (resource (snd r) (fst c)) = INSTANCE) log"
    using instance_valid[of w uri st log] by (simp add: discoverResourceForURI_def assms(1))
  then show ?thesis
    unfolding discoverAt_def
    by (rule wp_seq) (auto simp: wp_return Let_def hostname_set assms(2) split: option.splits prod.splits)
qed

end
