(* ===== verification/Spec2Isabelle.thy ===== *)
theory Spec2Isabelle
  imports Prelude QueryOrder RuleValidation DatabaseConnector RuleEngine BackintBackup BackintRestore
    LineEdit ConfigureInstance HanaBackup SnapshotArgs DiskBackup SnapshotHandler
    DiskRestore GroupRestore RestoreHandler RestoreSafety RestoreOutcome
    ChangeDiskType CollectionLoad Daemon PacemakerLabels MonitoringRuns WorkloadManager
    DiscoveryEnds
begin

text \<open>
  A verification development for the SAP agent, the Go program under \<open>src/internal\<close>. The agent is a daemon with
  services (collecting process, workload and HANA metrics, host metrics, its own health, the refresh of the definition of
  metrics) and a set of one-time commands (Backint, disk backup and restore of HANA, configuration of the machine).

  \<^bold>\<open>How the code is modelled.\<close> A pure Go function is a HOL function of the same name over records and datatypes
  with the names of the source; a message of a protocol buffer has the fields the code uses. A function that returns a
  value and an error returns \<open>('e, 'a) result\<close>. A function that talks to the outside (commands, files, Compute
  Engine, databases, secrets, clocks, goroutines it starts) is a program \<open>('c, 'a) prog\<close> of \<open>Prelude\<close>: it
  appends its calls to a log and reads each answer from the environment, a function of the log so far and the call. The
  environment is a parameter of every theorem, so the theorems hold whatever the outside answers, in particular for
  every pattern of failures; laws that need more of it name what they need as a hypothesis. \<open>wp m Q log\<close> states
  that \<open>Q\<close> holds of the result and the log after \<open>m\<close>, \<open>calls_only P m\<close> that all its calls
  satisfy \<open>P\<close>. Where goroutines share state, the model is a step relation (\<open>WorkerPool\<close>) or a sequence
  of the operations that a lock makes atomic (\<open>Heartbeat\<close>); the order in which Go iterates over a map is a
  parameter. Loops that are bounded in the code (retries, attempts) recurse over that bound; loops that run until they
  are cancelled recurse over the list or the number of the ticks they see, and the theorems hold for every such number.
  Logging and usage metrics are left out throughout. A safety property of a program reads the state of the outside off the
  log with a monitor, a function of the log and the environment that knows which call succeeded and what its answer was:
  which path is frozen, whether the mount of the data directory was unmounted, which file was verified.

  \<^bold>\<open>The foundations.\<close> \<open>Prelude\<close> holds programs, results and the rules of \<open>wp\<close>,
  \<open>GoStrings\<close> the functions of \<open>strings\<close>, \<open>strconv\<close> and \<open>filepath\<close> that the code
  uses, \<open>Commands\<close> the results of commands, \<open>WorkerPool\<close> the pool that the Backint operations run on.

  \<^bold>\<open>HANA Insights\<close> (\<open>internal/hanainsights\<close>): \<open>QueryOrder\<close> and \<open>RuleValidation\<close> are
  \<open>preprocessor.go\<close>, which reads and validates the rules and orders their queries; an order is returned exactly when one
  exists, and it is one. \<open>RuleEngine\<close> is \<open>ruleengine.go\<close>: it runs the queries in that order and evaluates the
  conditions, whose references resolve for validated rules.

  \<^bold>\<open>Databases\<close>: \<open>DatabaseConnector\<close> (\<open>internal/databaseconnector\<close>) connects and queries;
  \<open>HanaMonitoring\<close> and \<open>MonitoringRuns\<close> (\<open>internal/hanamonitoring\<close>) connect to the configured databases,
  put every connection key into the pool once, and run its queries until the credentials are refused; the series of
  cumulative columns carry the sums of all values read.

  \<^bold>\<open>Backint\<close> (\<open>internal/backint\<close>): \<open>BackintConfig\<close> is the configuration, \<open>BackintParse\<close> the
  syntax of the files exchanged with HANA, \<open>BackintStore\<close> the requests to Cloud Storage, \<open>BackintBackup\<close> and
  \<open>BackintRestore\<close> the operations. A locale states what the four operations share, a scan that submits jobs to a
  worker pool; each operation interprets it. Jobs submitted before a failure of the scan go on, a job is one atomic step
  that ends, and reading the input can fail at any line. In every schedule each request is answered once, a deletion deletes only what
  was named, a restore loads the latest backup, and a parallel upload is composed from the sections of its file.

  \<^bold>\<open>Disk backup and restore\<close> (\<open>internal/onetime/hanadiskbackup\<close>, \<open>hanadiskrestore\<close>,
  \<open>hanachangedisktype\<close>): \<open>HanaBackup\<close> is the library of operating system steps, \<open>SnapshotArgs\<close>,
  \<open>DiskBackup\<close> and \<open>SnapshotHandler\<close> are the backup, \<open>DiskRestore\<close>, \<open>GroupRestore\<close> and
  \<open>RestoreHandler\<close> the restore, \<open>ChangeDiskType\<close> runs the two. \<open>RestoreSafety\<close> and
  \<open>RestoreOutcome\<close> read the state of the disks off the log: nothing is detached before the data directory is
  unmounted and the index server gone, and however a restore ends, an attempt was made to put old or new disks in place. A
  backup thaws the paths it froze or reports that the thaw failed, and settles the snapshot of HANA according to its result.

  \<^bold>\<open>Configuring machines\<close> (\<open>internal/onetime/configureinstance\<close>): \<open>LineEdit\<close> edits files by lines and
  \<open>ConfigureInstance\<close> applies the settings of the two series of machines.

  \<^bold>\<open>The daemon\<close>: \<open>Configuration\<close> (\<open>internal/configuration\<close>) reads the configuration and applies the
  defaults, \<open>Daemon\<close> (\<open>internal/startdaemon\<close>) starts the services in order, \<open>Heartbeat\<close> and
  \<open>AgentMetrics\<close> watch over them, \<open>CollectionDefinition\<close>, \<open>CollectionValid\<close> and
  \<open>CollectionLoad\<close> (\<open>internal/collectiondefinition\<close>) fetch, verify, merge, validate and distribute the definition of
  the metrics, \<open>Pacemaker\<close>, \<open>PacemakerMetrics\<close> and \<open>PacemakerLabels\<close> (\<open>internal/pacemaker\<close>)
  collect the labels of a cluster, \<open>ProcessMetrics\<close> (\<open>internal/processmetrics\<close>) creates and replaces the collectors
  of process metrics.

  \<^bold>\<open>The workload manager\<close> (\<open>internal/workloadmanager\<close>): \<open>WorkloadTypes\<close> holds the time series and their
  labels, \<open>HanaBackups\<close> finds the latest backups in the log of HANA, \<open>WorkloadHana\<close> collects the metrics
  of HANA, \<open>WorkloadSend\<close> sends the series, \<open>WorkloadCollect\<close> collects a round of them and \<open>WorkloadManager\<close>
  is the service. It does nothing before Data Warehouse accepts data, a round has a series for each of its parts that share
  their labels, and collecting them runs only listed commands and those of the configuration.

  \<^bold>\<open>The cloud discovery\<close> (\<open>internal/system/clouddiscovery\<close>): \<open>CloudURI\<close> takes URIs apart and
  \<open>CloudDiscovery\<close> discovers resources from their names. The resources are objects of a heap, because the code shares
  them between its cache and its results. The loop over the names has a fuel, and \<open>DiscoveryEnds\<close> proves how much is
  enough. \<open>GoRegexp\<close> matches the regular expressions of these two parts as the leftmost-first matcher of Go does.

  \<^bold>\<open>Bounds.\<close> Retries have the numbers of the code: 90 retries to see the index server gone, the attempts of
  the database handles and of Backint's configuration. Where the code loops until it is cancelled, the number of rounds of
  the model is an argument that the theorems quantify over, so no bound is assumed; \<open>discovery_ends\<close>, \<open>pool_terminates\<close>,
  \<open>poll_settles\<close> and the structural recursions show that the others end. 64-bit counters that wrap around are computed with
  the wrap written out (\<open>addInt64\<close>); other integers of Go are \<open>int\<close>, where the code keeps them far from the bounds.

  \<^bold>\<open>Not modelled.\<close> What the collectors of process and host metrics read from \<open>/proc\<close>, commands, SAPControl and Cloud
  Monitoring is almost all input and output and formatting of tables, as are the one-time commands that print, bundle or
  upload reports (\<open>status\<close>, \<open>supportbundle\<close>, \<open>performancediagnostics\<close>, \<open>readmetrics\<close>,
  \<open>reliability\<close>, \<open>configure\<close> and others). The wrappers around Google and SAP interfaces, the bindings of the
  protocol buffers and the command line are glue or generated. Of the discovery of systems, the cloud resources and the
  reading of the credentials are modelled; the rest parses the output of cluster and SAP tools. Numbers in floating point,
  the compilation of patterns that a definition of metrics brings along, XML, JSON and version comparison belong to
  libraries and are parameters; the constant patterns of the code are matched by \<open>GoRegexp\<close> or by functions written for
  them.
\<close>

end
